(* ===== verification/Prelude.thy ===== *)
theory Prelude
  imports Main "HOL-Library.Word" "HOL-Library.Sublist"
begin

section \<open>Shared vocabulary of the development\<close>

text \<open>
  What every component of the host tools shares: Python \<open>bytes\<close> as lists of
  8-bit words, \<open>int.from_bytes\<close> and \<open>int.to_bytes\<close> in both byte orders, slices,
  exceptions as the left summand of a result type with its sequencing operator,
  hexadecimal text, and \<open>str.splitlines\<close>.
\<close>

named_theorems result_simps \<open>inversion of the sequencing operator on results\<close>
named_theorems byte_simps \<open>integer to byte conversions\<close>

type_synonym byte = "8 word"
type_synonym bytes = "byte list"

subsection \<open>Results: a raised exception or a returned value\<close>

fun bindR :: "'e + 'a \<Rightarrow> ('a \<Rightarrow> 'e + 'b) \<Rightarrow> 'e + 'b" where
  "bindR (Inl e) f = Inl e"
| "bindR (Inr x) f = f x"

fun mapE :: "('e \<Rightarrow> 'f) \<Rightarrow> 'e + 'a \<Rightarrow> 'f + 'a" where
  "mapE h (Inl e) = Inl (h e)"
| "mapE h (Inr x) = Inr x"

abbreviation returns :: "'e + 'a \<Rightarrow> bool" where
  "returns r \<equiv> (\<exists>x. r = Inr x)"

lemma bindR_Inr_iff [result_simps]:
  "bindR m f = Inr y \<longleftrightarrow> (\<exists>x. m = Inr x \<and> f x = Inr y)"
  by (cases m) auto

lemma bindR_Inl_iff [result_simps]:
  "bindR m f = Inl e \<longleftrightarrow> m = Inl e \<or> (\<exists>x. m = Inr x \<and> f x = Inl e)"
  by (cases m) auto

lemma mapE_Inr_iff [simp]: "mapE h r = Inr x \<longleftrightarrow> r = Inr x"
  by (cases r) auto

lemma mapE_Inl_iff [result_simps]: "mapE h r = Inl e \<longleftrightarrow> (\<exists>d. r = Inl d \<and> e = h d)"
  by (cases r) auto

lemma if_Inl_eq_Inr [result_simps]:
  "(if c then Inl e else r) = Inr y \<longleftrightarrow> \<not> c \<and> r = Inr y"
  by simp

lemma bindR_cong [fundef_cong]:
  "m = m' \<Longrightarrow> (\<And>x. m' = Inr x \<Longrightarrow> f x = g x) \<Longrightarrow> bindR m f = bindR m' g"
  by (cases m') auto

text \<open>Exceptions of the language and its library that no component catches or renames.\<close>

datatype py_error = ValueError | OverflowError | KeyError | TypeError | IndexError | OSError | AttributeError | UnicodeDecodeError | AssertionError

text \<open>For evaluation: rewrite the first computation before looking at its continuation.\<close>

lemma bindR_weak_cong: "m = m' \<Longrightarrow> bindR m f = bindR m' f"
  by simp

subsection \<open>Slices\<close>

text \<open>Python's \<open>xs[i:j]\<close> for non-negative bounds, which never raises.\<close>

definition py_slice :: "'a list \<Rightarrow> nat \<Rightarrow> nat \<Rightarrow> 'a list" where
  "py_slice xs i j = take (j - i) (drop i xs)"

lemma length_py_slice [simp]: "length (py_slice xs i j) = min (j - i) (length xs - i)"
  by (simp add: py_slice_def min.commute)

lemma py_slice_append_left [simp]:
  "j \<le> length xs \<Longrightarrow> py_slice (xs @ ys) i j = py_slice xs i j"
  by (cases "i \<le> j") (simp_all add: py_slice_def)

lemma py_slice_append_right:
  "length xs \<le> i \<Longrightarrow> py_slice (xs @ ys) i j = py_slice ys (i - length xs) (j - length xs)"
  by (simp add: py_slice_def)

lemma py_slice_Cons_Suc [simp]: "py_slice (x # xs) (Suc i) (Suc j) = py_slice xs i j"
  by (simp add: py_slice_def)

lemma py_slice_Nil [simp]: "py_slice [] i j = []"
  by (simp add: py_slice_def)

lemma py_slice_0_length [simp]: "py_slice xs 0 (length xs) = xs"
  by (simp add: py_slice_def)

lemma py_slice_full: "length xs \<le> j \<Longrightarrow> py_slice xs 0 j = xs"
  by (simp add: py_slice_def)

lemma py_slice_0_take: "py_slice xs 0 j = take j xs"
  by (simp add: py_slice_def)

lemma py_slice_drop: "py_slice (drop k xs) i j = py_slice xs (k + i) (k + j)"
  by (simp add: py_slice_def add.commute)

lemma nth_py_slice: "k < j - i \<Longrightarrow> i + k < length xs \<Longrightarrow> py_slice xs i j ! k = xs ! (i + k)"
  by (simp add: py_slice_def)

subsection \<open>Bytes and integers\<close>

fun from_le :: "bytes \<Rightarrow> nat" where
  "from_le [] = 0"
| "from_le (b # bs) = unat b + 256 * from_le bs"

definition from_be :: "bytes \<Rightarrow> nat" where
  "from_be bs = from_le (rev bs)"

fun to_le :: "nat \<Rightarrow> nat \<Rightarrow> bytes" where
  "to_le 0 v = []"
| "to_le (Suc n) v = word_of_nat (v mod 256) # to_le n (v div 256)"

definition to_be :: "nat \<Rightarrow> nat \<Rightarrow> bytes" where
  "to_be n v = rev (to_le n v)"

lemma unat_byte_less [simp]: "unat (b :: byte) < 256"
  using unsigned_less [of b, where 'a = nat] by simp

lemma unat_byte_le [simp]: "unat (b :: byte) \<le> 255"
  using unat_byte_less [of b] by linarith

lemma unat_word_of_nat_byte [byte_simps]: "unat (word_of_nat v :: byte) = v mod 256"
  by (simp add: unat_of_nat)

lemma unat_byte_of_nat: "n < 256 \<Longrightarrow> unat (word_of_nat n :: byte) = n"
  by (simp add: unat_of_nat)

lemma byte_of_int: "0 \<le> v \<Longrightarrow> (word_of_int v :: byte) = word_of_nat (nat v)"
  by (simp add: of_nat_nat)

lemma length_to_le [simp]: "length (to_le n v) = n"
  by (induction n arbitrary: v) auto

lemma to_le_numeral [simp]:
  "to_le (numeral n) v = word_of_nat (v mod 256) # to_le (pred_numeral n) (v div 256)"
  by (simp only: numeral_eq_Suc [of n] to_le.simps)

lemma length_to_be [simp]: "length (to_be n v) = n"
  by (simp add: to_be_def)

lemma from_le_to_le: "from_le (to_le n v) = v mod 256 ^ n"
proof (induction n arbitrary: v)
  case 0
  then show ?case by simp
next
  case (Suc n)
  have "from_le (to_le (Suc n) v) = v mod 256 + 256 * (v div 256 mod 256 ^ n)"
    by (simp add: Suc.IH unat_of_nat)
  also have "\<dots> = v mod (256 * 256 ^ n)"
    by (simp add: mod_mult2_eq)
  finally show ?case by simp
qed

lemma from_be_to_be: "from_be (to_be n v) = v mod 256 ^ n"
  by (simp add: from_be_def to_be_def from_le_to_le)

lemma from_le_append: "from_le (xs @ ys) = from_le xs + 256 ^ length xs * from_le ys"
  by (induction xs) (auto simp: algebra_simps)

lemma from_le_bound: "from_le bs < 256 ^ length bs"
proof (induction bs)
  case Nil
  then show ?case by simp
next
  case (Cons b bs)
  have "unat b + 256 * from_le bs < 256 + 256 * from_le bs"
    using unat_byte_less [of b] by linarith
  also have "\<dots> = 256 * Suc (from_le bs)" by simp
  also have "\<dots> \<le> 256 * 256 ^ length bs"
    using Cons.IH by (intro mult_le_mono2) simp
  finally show ?case by simp
qed

lemma from_be_bound: "from_be bs < 256 ^ length bs"
  using from_le_bound [of "rev bs"] by (simp add: from_be_def)

lemma to_le_from_le: "to_le (length bs) (from_le bs) = bs"
proof (induction bs)
  case Nil
  then show ?case by simp
next
  case (Cons b bs)
  have "(unat b + 256 * from_le bs) mod 256 = unat b"
    using unat_byte_less [of b] by (simp add: mod_less)
  moreover have "(unat b + 256 * from_le bs) div 256 = from_le bs"
    using unat_byte_less [of b] by simp
  ultimately show ?case using Cons.IH by simp
qed

subsection \<open>Hexadecimal text\<close>

definition hex_digit :: "nat \<Rightarrow> char" where
  "hex_digit n = ''0123456789abcdef'' ! n"

definition hex_digit_upper :: "nat \<Rightarrow> char" where
  "hex_digit_upper n = ''0123456789ABCDEF'' ! n"

definition hex_byte :: "byte \<Rightarrow> string" where
  "hex_byte b = [hex_digit (unat b div 16), hex_digit (unat b mod 16)]"

definition hex_byte_upper :: "byte \<Rightarrow> string" where
  "hex_byte_upper b = [hex_digit_upper (unat b div 16), hex_digit_upper (unat b mod 16)]"

text \<open>\<open>bytes.hex()\<close>, \<open>bytes.hex(":")\<close> and \<open>bytes.hex().upper()\<close>.\<close>

definition bytes_hex :: "bytes \<Rightarrow> string" where
  "bytes_hex bs = concat (map hex_byte bs)"

fun bytes_hex_sep :: "string \<Rightarrow> bytes \<Rightarrow> string" where
  "bytes_hex_sep sep [] = []"
| "bytes_hex_sep sep [b] = hex_byte b"
| "bytes_hex_sep sep (b # bs) = hex_byte b @ sep @ bytes_hex_sep sep bs"

definition bytes_hex_upper :: "bytes \<Rightarrow> string" where
  "bytes_hex_upper bs = concat (map hex_byte_upper bs)"

definition hex_value :: "char \<Rightarrow> nat option" where
  "hex_value c =
     (let n = of_char c :: nat in
      if 48 \<le> n \<and> n \<le> 57 then Some (n - 48)
      else if 65 \<le> n \<and> n \<le> 70 then Some (n - 55)
      else if 97 \<le> n \<and> n \<le> 102 then Some (n - 87)
      else None)"

text \<open>The ASCII whitespace of \<open>str.isspace\<close>, \<open>str.strip\<close> and \<open>bytes.fromhex\<close>.\<close>

definition ascii_space :: "char \<Rightarrow> bool" where
  "ascii_space c = (let n = of_char c :: nat in n = 32 \<or> (9 \<le> n \<and> n \<le> 13))"

text \<open>
  \<open>bytes.fromhex\<close>: whitespace between two bytes is skipped, the two digits of one byte
  are adjacent, anything else raises \<open>ValueError\<close> (here \<^const>\<open>None\<close>).
\<close>

fun fromhex :: "string \<Rightarrow> bytes option" where
  "fromhex [] = Some []"
| "fromhex [c] = (if ascii_space c then Some [] else None)"
| "fromhex (c # d # cs) =
     (if ascii_space c then fromhex (d # cs)
      else case (hex_value c, hex_value d) of
        (Some h, Some l) \<Rightarrow> map_option ((#) (word_of_nat (16 * h + l))) (fromhex cs)
      | _ \<Rightarrow> None)"

lemma less_16_cases: "n < 16 \<Longrightarrow> n \<in> {0, 1, 2, 3, 4, 5, 6, 7, 8, 9, 10, 11, 12, 13, 14, 15 :: nat}"
  by simp arith

lemma hex_value_digit_upper [simp]: "n < 16 \<Longrightarrow> hex_value (hex_digit_upper n) = Some n"
  by (drule less_16_cases) (auto simp: hex_value_def hex_digit_upper_def)

lemma hex_value_digit [simp]: "n < 16 \<Longrightarrow> hex_value (hex_digit n) = Some n"
  by (drule less_16_cases) (auto simp: hex_value_def hex_digit_def)

lemma ascii_space_digit_upper [simp]: "n < 16 \<Longrightarrow> \<not> ascii_space (hex_digit_upper n)"
  by (drule less_16_cases) (auto simp: ascii_space_def hex_digit_upper_def)

lemma ascii_space_digit [simp]: "n < 16 \<Longrightarrow> \<not> ascii_space (hex_digit n)"
  by (drule less_16_cases) (auto simp: ascii_space_def hex_digit_def)

lemma unat_byte_div_16 [simp]: "unat (b :: byte) div 16 < 16"
  using unat_byte_less [of b] by linarith

lemma word_of_nat_nibbles [simp]:
  "word_of_nat (16 * (unat b div 16) + unat b mod 16) = (b :: byte)"
  by simp

lemma fromhex_upper: "fromhex (bytes_hex_upper bs) = Some bs"
  by (induction bs) (simp_all add: bytes_hex_upper_def hex_byte_upper_def)

lemma fromhex_lower: "fromhex (bytes_hex bs) = Some bs"
  by (induction bs) (simp_all add: bytes_hex_def hex_byte_def)

lemma bytes_hex_inject [simp]: "bytes_hex a = bytes_hex b \<longleftrightarrow> a = b"
  by (metis fromhex_lower option.inject)

subsection \<open>Lines of text\<close>

abbreviation LF :: char where "LF \<equiv> CHR 0x0A"
abbreviation CR :: char where "CR \<equiv> CHR 0x0D"

text \<open>
  The line boundaries of \<open>str.splitlines\<close> below code point 256. Universal-newline translation on
  reading turns \<open>CR\<close> and \<open>CR LF\<close> into \<open>LF\<close>; \<open>splitlines\<close> treats the three alike, so
  the composition of the two is \<open>splitlines\<close> of the untranslated text.
\<close>

definition line_boundary :: "char \<Rightarrow> bool" where
  "line_boundary c = (let n = of_char c :: nat in (10 \<le> n \<and> n \<le> 13) \<or> (28 \<le> n \<and> n \<le> 30) \<or> n = 133)"

fun splitlines_from :: "string \<Rightarrow> string \<Rightarrow> string list" where
  "splitlines_from cur [] = (if cur = [] then [] else [cur])"
| "splitlines_from cur [c] =
     (if line_boundary c then [cur] else [cur @ [c]])"
| "splitlines_from cur (c # d # cs) =
     (if c = CR \<and> d = LF then cur # splitlines_from [] cs
      else if line_boundary c then cur # splitlines_from [] (d # cs)
      else splitlines_from (cur @ [c]) (d # cs))"

definition splitlines :: "string \<Rightarrow> string list" where
  "splitlines s = splitlines_from [] s"

lemma splitlines_from_LF:
  assumes "list_all (\<lambda>c. \<not> line_boundary c) l"
  shows "splitlines_from cur (l @ LF # rest) = (cur @ l) # splitlines_from [] rest"
  using assms
proof (induction l arbitrary: cur)
  case Nil
  show ?case by (cases rest) (simp_all add: line_boundary_def)
next
  case (Cons c l)
  have "c \<noteq> CR" using Cons.prems by (auto simp: line_boundary_def)
  moreover have "\<not> line_boundary c" using Cons.prems by simp
  moreover have "splitlines_from (cur @ [c]) (l @ LF # rest)
      = ((cur @ [c]) @ l) # splitlines_from [] rest"
    using Cons.prems by (intro Cons.IH) simp
  ultimately show ?case by (cases "l @ LF # rest") auto
qed

definition unlines :: "string list \<Rightarrow> string" where
  "unlines ls = concat (map (\<lambda>l. l @ [LF]) ls)"

lemma splitlines_unlines:
  assumes "\<forall>l \<in> set ls. list_all (\<lambda>c. \<not> line_boundary c) l"
  shows "splitlines (unlines ls) = ls"
  using assms
proof (induction ls)
  case Nil
  show ?case by (simp add: splitlines_def unlines_def)
next
  case (Cons l ls)
  then show ?case
    using splitlines_from_LF [of l "[]" "unlines ls"]
    by (simp add: splitlines_def unlines_def)
qed

text \<open>\<open>sep.join(parts)\<close>.\<close>

fun join_str :: "string \<Rightarrow> string list \<Rightarrow> string" where
  "join_str sep [] = []"
| "join_str sep [p] = p"
| "join_str sep (p # ps) = p @ sep @ join_str sep ps"

lemma join_LF_unlines: "ls \<noteq> [] \<Longrightarrow> join_str [LF] ls @ [LF] = unlines ls"
proof (induction ls rule: induct_list012)
  case (3 x y zs)
  then show ?case by (simp add: unlines_def)
qed (simp_all add: unlines_def)

lemma line_boundary_hex [simp]:
  "n < 16 \<Longrightarrow> \<not> line_boundary (hex_digit_upper n)"
  by (drule less_16_cases) (auto simp: line_boundary_def hex_digit_upper_def)

lemma bytes_hex_upper_no_boundary:
  "list_all (\<lambda>c. \<not> line_boundary c) (bytes_hex_upper bs)"
  by (induction bs) (simp_all add: bytes_hex_upper_def hex_byte_upper_def)

text \<open>Text read from a file: ASCII decoding, which fails on a byte above 127.\<close>

definition ascii_decode :: "bytes \<Rightarrow> string option" where
  "ascii_decode bs = (if list_all (\<lambda>b. unat b < 128) bs then Some (map (\<lambda>b. char_of (unat b)) bs) else None)"

definition ascii_encode :: "string \<Rightarrow> bytes" where
  "ascii_encode s = map (\<lambda>c. word_of_nat (of_char c)) s"

lemma ascii_decode_encode:
  "list_all (\<lambda>c. (of_char c :: nat) < 128) s \<Longrightarrow> ascii_decode (ascii_encode s) = Some s"
  by (induction s) (auto simp: ascii_decode_def ascii_encode_def unat_of_nat split: if_splits)

subsection \<open>Strict UTF-8 decoding\<close>

text \<open>
  \<open>bytes.decode("utf-8")\<close> with strict error handling, to a list of code points. Overlong
  forms, surrogates and code points above \<open>0x10FFFF\<close> are refused, as CPython refuses them;
  \<^const>\<open>None\<close> is \<open>UnicodeDecodeError\<close>.
\<close>

type_synonym code_points = "nat list"

definition utf8_cont :: "byte \<Rightarrow> bool" where
  "utf8_cont b = (0x80 \<le> unat b \<and> unat b \<le> 0xBF)"

fun utf8_decode :: "bytes \<Rightarrow> code_points option" where
  "utf8_decode [] = Some []"
| "utf8_decode (a # bs) =
     (let n = unat a in
      if n < 0x80 then map_option ((#) n) (utf8_decode bs)
      else if 0xC2 \<le> n \<and> n \<le> 0xDF then
        (case bs of
           b # rest \<Rightarrow>
             (if utf8_cont b
              then map_option ((#) ((n - 0xC0) * 64 + (unat b - 0x80))) (utf8_decode rest)
              else None)
         | _ \<Rightarrow> None)
      else if 0xE0 \<le> n \<and> n \<le> 0xEF then
        (case bs of
           b # c # rest \<Rightarrow>
             (if utf8_cont b \<and> utf8_cont c \<and> (n = 0xE0 \<longrightarrow> 0xA0 \<le> unat b) \<and> (n = 0xED \<longrightarrow> unat b \<le> 0x9F)
              then map_option ((#) ((n - 0xE0) * 4096 + (unat b - 0x80) * 64 + (unat c - 0x80)))
                     (utf8_decode rest)
              else None)
         | _ \<Rightarrow> None)
      else if 0xF0 \<le> n \<and> n \<le> 0xF4 then
        (case bs of
           b # c # d # rest \<Rightarrow>
             (if utf8_cont b \<and> utf8_cont c \<and> utf8_cont d \<and> (n = 0xF0 \<longrightarrow> 0x90 \<le> unat b)
                 \<and> (n = 0xF4 \<longrightarrow> unat b \<le> 0x8F)
              then map_option ((#) ((n - 0xF0) * 262144 + (unat b - 0x80) * 4096
                     + (unat c - 0x80) * 64 + (unat d - 0x80))) (utf8_decode rest)
              else None)
         | _ \<Rightarrow> None)
      else None)"

definition code_points_of :: "string \<Rightarrow> code_points" where
  "code_points_of s = map of_char s"

lemma utf8_decode_ascii:
  "list_all (\<lambda>b. unat b < 128) bs \<Longrightarrow> utf8_decode bs = Some (map unat bs)"
  by (induction bs) (auto simp: Let_def)

lemma utf8_decode_encode_ascii:
  assumes "list_all (\<lambda>c. (of_char c :: nat) < 128) s"
  shows "utf8_decode (ascii_encode s) = Some (code_points_of s)"
proof -
  have "list_all (\<lambda>b. unat b < 128) (ascii_encode s)"
    using assms by (induction s) (auto simp: ascii_encode_def unat_of_nat)
  moreover have "map unat (ascii_encode s) = code_points_of s"
    using assms by (induction s) (auto simp: ascii_encode_def code_points_of_def unat_of_nat)
  ultimately show ?thesis by (simp add: utf8_decode_ascii)
qed

end
