(* ===== verification/Hci.thy ===== *)
theory Hci
  imports Prelude
begin

section \<open>HCI packets, the incremental H4 parser and the H4 session\<close>

text \<open>
  Models \<open>src/tools/nrfkit_tools/hci.py\<close>. A byte of the wire is an 8-bit word; the
  parser's growing buffer is a byte list; every \<open>raise HciContractError\<close> is a
  constructor of \<open>hci_error\<close>. The file descriptor of a session is represented by the
  answers its \<open>select\<close>, \<open>read\<close> and \<open>write\<close> calls will give (one per loop iteration) and
  by the bytes it has accepted.
\<close>

subsection \<open>Constants, events and errors\<close>

abbreviation H4_COMMAND :: byte where "H4_COMMAND \<equiv> 0x01"
abbreviation H4_ACL :: byte where "H4_ACL \<equiv> 0x02"
abbreviation H4_EVENT :: byte where "H4_EVENT \<equiv> 0x04"
abbreviation EVENT_COMMAND_COMPLETE :: byte where "EVENT_COMMAND_COMPLETE \<equiv> 0x0E"
abbreviation EVENT_COMMAND_STATUS :: byte where "EVENT_COMMAND_STATUS \<equiv> 0x0F"
abbreviation EVENT_DISCONNECTION_COMPLETE :: byte where "EVENT_DISCONNECTION_COMPLETE \<equiv> 0x05"
abbreviation EVENT_LE_META :: byte where "EVENT_LE_META \<equiv> 0x3E"
abbreviation LE_CONNECTION_COMPLETE :: byte where "LE_CONNECTION_COMPLETE \<equiv> 0x01"
abbreviation LE_ADVERTISING_REPORT :: byte where "LE_ADVERTISING_REPORT \<equiv> 0x02"

datatype hci_error =
    UnexpectedPacketType byte
  | OpcodeOutsideField
  | ParametersExceedField
  | TruncatedCommandComplete
  | NoStatusParameter
  | CommandFailed int byte
  | MalformedCommandStatus
  | MalformedConnectionComplete
  | ConnectionFailed byte
  | MalformedDisconnectionComplete
  | DisconnectionFailed byte
  | TruncatedAdvertisingReport
  | TruncatedAdvertisingData
  | TrailingAdvertisingBytes
  | MalformedAdvertisingData
  | HciUnicodeDecodeError
  | TimedOutWriting
  | TimedOutWaitingEvent
  | TimedOutWaitingAcl
  | EndOfFile
  | MalformedAclPacket

record hci_event =
  event_code :: byte
  parameters :: bytes

record h4_parser =
  buffer :: bytes
  acl_packets :: "bytes list"

definition h4_parser_init :: h4_parser where
  "h4_parser_init = \<lparr>buffer = [], acl_packets = []\<rparr>"

subsection \<open>The incremental parser\<close>

function feed_loop :: "h4_parser \<Rightarrow> hci_event list \<Rightarrow> h4_parser \<times> (hci_error + hci_event list)" where
  "feed_loop p events =
     (if buffer p = [] then (p, Inr events)
      else if buffer p ! 0 = H4_ACL then
        (if length (buffer p) < 5 then (p, Inr events)
         else let size = from_le (py_slice (buffer p) 3 5) in
           if length (buffer p) < size + 5 then (p, Inr events)
           else feed_loop
                  (p\<lparr>acl_packets := acl_packets p @ [py_slice (buffer p) 1 (size + 5)],
                     buffer := drop (size + 5) (buffer p)\<rparr>) events)
      else if buffer p ! 0 \<noteq> H4_EVENT then (p, Inl (UnexpectedPacketType (buffer p ! 0)))
      else if length (buffer p) < 3 then (p, Inr events)
      else let size = unat (buffer p ! 2) in
        if length (buffer p) < size + 3 then (p, Inr events)
        else feed_loop (p\<lparr>buffer := drop (size + 3) (buffer p)\<rparr>)
               (events @ [\<lparr>event_code = buffer p ! 1,
                           parameters = py_slice (buffer p) 3 (size + 3)\<rparr>]))"
  by pat_completeness auto
termination
  by (relation "measure (\<lambda>(p, _). length (buffer p))") auto

definition feed :: "h4_parser \<Rightarrow> bytes \<Rightarrow> h4_parser \<times> (hci_error + hci_event list)" where
  "feed p data = feed_loop (p\<lparr>buffer := buffer p @ data\<rparr>) []"

subsection \<open>Commands and the events that answer them\<close>

definition command_packet :: "int \<Rightarrow> bytes \<Rightarrow> hci_error + bytes" where
  "command_packet opcode params =
     (if \<not> (0 \<le> opcode \<and> opcode \<le> 0xFFFF) then Inl OpcodeOutsideField
      else if 0xFF < length params then Inl ParametersExceedField
      else Inr ([H4_COMMAND] @ (to_le 2 (nat opcode) @ to_le 1 (length params)) @ params))"

definition command_complete :: "hci_event \<Rightarrow> int \<Rightarrow> hci_error + bytes option" where
  "command_complete event opcode =
     (if event_code event \<noteq> EVENT_COMMAND_COMPLETE then Inr None
      else if length (parameters event) < 4 then Inl TruncatedCommandComplete
      else if int (from_le (py_slice (parameters event) 1 3)) \<noteq> opcode then Inr None
      else let return_parameters = drop 3 (parameters event) in
        if return_parameters = [] then Inl NoStatusParameter
        else if return_parameters ! 0 \<noteq> 0 then Inl (CommandFailed opcode (return_parameters ! 0))
        else Inr (Some (drop 1 return_parameters)))"

definition command_status :: "hci_event \<Rightarrow> int \<Rightarrow> hci_error + bool" where
  "command_status event opcode =
     (if event_code event \<noteq> EVENT_COMMAND_STATUS then Inr False
      else if length (parameters event) \<noteq> 4 then Inl MalformedCommandStatus
      else if int (from_le (py_slice (parameters event) 2 4)) \<noteq> opcode then Inr False
      else if parameters event ! 0 \<noteq> 0 then Inl (CommandFailed opcode (parameters event ! 0))
      else Inr True)"

record le_connection =
  handle :: nat
  role :: byte
  peer_address_type :: byte
  peer_address :: string
  interval :: nat
  latency :: nat
  supervision_timeout :: nat

definition address_text :: "bytes \<Rightarrow> string" where
  "address_text bs = bytes_hex_sep '':'' (rev bs)"

definition le_connection_complete :: "hci_event \<Rightarrow> hci_error + le_connection option" where
  "le_connection_complete event =
     (let ps = parameters event in
      if event_code event \<noteq> EVENT_LE_META \<or> ps = [] then Inr None
      else if ps ! 0 \<noteq> LE_CONNECTION_COMPLETE then Inr None
      else if length ps \<noteq> 19 then Inl MalformedConnectionComplete
      else if ps ! 1 \<noteq> 0 then Inl (ConnectionFailed (ps ! 1))
      else Inr (Some \<lparr>handle = from_le (py_slice ps 2 4), role = ps ! 4,
        peer_address_type = ps ! 5, peer_address = address_text (py_slice ps 6 12),
        interval = from_le (py_slice ps 12 14), latency = from_le (py_slice ps 14 16),
        supervision_timeout = from_le (py_slice ps 16 18)\<rparr>))"

definition disconnection_complete :: "hci_event \<Rightarrow> int \<Rightarrow> hci_error + byte option" where
  "disconnection_complete event conn =
     (let ps = parameters event in
      if event_code event \<noteq> EVENT_DISCONNECTION_COMPLETE then Inr None
      else if length ps \<noteq> 4 then Inl MalformedDisconnectionComplete
      else if int (from_le (py_slice ps 1 3)) \<noteq> conn then Inr None
      else if ps ! 0 \<noteq> 0 then Inl (DisconnectionFailed (ps ! 0))
      else Inr (Some (ps ! 3)))"

subsection \<open>Advertising\<close>

record adv_report =
  event_type :: byte
  address_type :: byte
  address :: string
  adv_data :: bytes
  rssi :: int

fun reports_loop ::
  "nat \<Rightarrow> bytes \<Rightarrow> nat \<Rightarrow> adv_report list \<Rightarrow> hci_error + (nat \<times> adv_report list)" where
  "reports_loop 0 ps offset reports = Inr (offset, reports)"
| "reports_loop (Suc n) ps offset reports =
     (if length ps < offset + 9 then Inl TruncatedAdvertisingReport
      else let data_size = unat (ps ! (offset + 8)); body = offset + 9 in
        if length ps < body + data_size + 1 then Inl TruncatedAdvertisingData
        else reports_loop n ps (body + data_size + 1)
          (reports @ [\<lparr>event_type = ps ! offset, address_type = ps ! (offset + 1),
            address = address_text (py_slice ps (offset + 2) (offset + 8)),
            adv_data = py_slice ps body (body + data_size),
            rssi = sint (ps ! (body + data_size))\<rparr>]))"

definition advertising_reports :: "hci_event \<Rightarrow> hci_error + adv_report list" where
  "advertising_reports event =
     (let ps = parameters event in
      if event_code event \<noteq> EVENT_LE_META \<or> length ps < 2 then Inr []
      else if ps ! 0 \<noteq> LE_ADVERTISING_REPORT then Inr []
      else bindR (reports_loop (unat (ps ! 1)) ps 2 []) (\<lambda>(offset, reports).
        if offset \<noteq> length ps then Inl TrailingAdvertisingBytes else Inr reports))"

function name_loop :: "bytes \<Rightarrow> nat \<Rightarrow> hci_error + code_points option" where
  "name_loop data offset =
     (if offset < length data then
        let size = unat (data ! offset); stop = offset + size + 1 in
        if size = 0 then Inr None
        else if length data < stop \<or> size < 1 then Inl MalformedAdvertisingData
        else if data ! (offset + 1) = 0x08 \<or> data ! (offset + 1) = 0x09 then
          (case utf8_decode (py_slice data (offset + 2) stop) of
             None \<Rightarrow> Inl HciUnicodeDecodeError
           | Some name \<Rightarrow> Inr (Some name))
        else name_loop data stop
      else Inr None)"
  by pat_completeness auto
termination
  by (relation "measure (\<lambda>(data, offset). length data - offset)") auto

definition advertising_name :: "bytes \<Rightarrow> hci_error + code_points option" where
  "advertising_name data = name_loop data 0"

subsection \<open>Sessions\<close>

text \<open>
  What one iteration of a transport loop meets: the deadline has passed
  (\<open>remaining <= 0\<close>), \<open>select\<close> reports nothing within the remaining time, or the system
  call answers. \<open>os.write\<close> accepts a number of the offered bytes.
\<close>

datatype read_step = ReadDeadline | NotReadable | ReadData bytes
datatype write_step = WriteDeadline | NotWritable | Wrote nat

record h4_session =
  parser :: h4_parser
  pending :: "hci_event list"
  transcript :: bytes
  reads :: "read_step list"
  writes :: "write_step list"
  accepted :: bytes

text \<open>The result of a call: still waiting on the transport, an exception, a value.\<close>

datatype 'a outcome = Waiting | Raised hci_error | Returned 'a

definition h4_session_init :: "read_step list \<Rightarrow> write_step list \<Rightarrow> h4_session" where
  "h4_session_init rs ws = \<lparr>parser = h4_parser_init, pending = [], transcript = [],
     reads = rs, writes = ws, accepted = []\<rparr>"

fun write_loop :: "write_step list \<Rightarrow> bytes \<Rightarrow> h4_session \<Rightarrow> h4_session \<times> unit outcome" where
  "write_loop ws [] s = (s\<lparr>writes := ws\<rparr>, Returned ())"
| "write_loop [] data s = (s\<lparr>writes := []\<rparr>, Waiting)"
| "write_loop (WriteDeadline # ws) data s = (s\<lparr>writes := ws\<rparr>, Raised TimedOutWriting)"
| "write_loop (NotWritable # ws) data s = (s\<lparr>writes := ws\<rparr>, Raised TimedOutWriting)"
| "write_loop (Wrote n # ws) data s =
     write_loop ws (drop n data) (s\<lparr>accepted := accepted s @ take n data\<rparr>)"

definition session_write :: "h4_session \<Rightarrow> bytes \<Rightarrow> h4_session \<times> unit outcome" where
  "session_write s data = write_loop (writes s) data s"

text \<open>One successful read: the transcript grows, the parser is fed, events queue up.\<close>

definition receive :: "h4_session \<Rightarrow> bytes \<Rightarrow> h4_session \<times> (hci_error + unit)" where
  "receive s data =
     (case feed (parser s) data of (p, r) \<Rightarrow>
        let s1 = s\<lparr>transcript := transcript s @ data, parser := p\<rparr> in
        case r of
          Inl e \<Rightarrow> (s1, Inl e)
        | Inr evs \<Rightarrow> (s1\<lparr>pending := pending s1 @ evs\<rparr>, Inr ()))"

fun await_event :: "read_step list \<Rightarrow> h4_session \<Rightarrow> h4_session \<times> hci_event outcome" where
  "await_event [] s = (s\<lparr>reads := []\<rparr>, Waiting)"
| "await_event (ReadDeadline # rs) s = (s\<lparr>reads := rs\<rparr>, Raised TimedOutWaitingEvent)"
| "await_event (NotReadable # rs) s = (s\<lparr>reads := rs\<rparr>, Raised TimedOutWaitingEvent)"
| "await_event (ReadData data # rs) s =
     (if data = [] then (s\<lparr>reads := rs\<rparr>, Raised EndOfFile)
      else case receive s data of
        (s1, Inl e) \<Rightarrow> (s1\<lparr>reads := rs\<rparr>, Raised e)
      | (s1, Inr _) \<Rightarrow>
          (case pending s1 of
             ev # rest \<Rightarrow> (s1\<lparr>pending := rest, reads := rs\<rparr>, Returned ev)
           | [] \<Rightarrow> await_event rs s1))"

definition next_event :: "h4_session \<Rightarrow> h4_session \<times> hci_event outcome" where
  "next_event s =
     (case pending s of
        ev # rest \<Rightarrow> (s\<lparr>pending := rest\<rparr>, Returned ev)
      | [] \<Rightarrow> await_event (reads s) s)"

fun await_acl :: "read_step list \<Rightarrow> h4_session \<Rightarrow> h4_session \<times> bytes outcome" where
  "await_acl [] s = (s\<lparr>reads := []\<rparr>, Waiting)"
| "await_acl (ReadDeadline # rs) s = (s\<lparr>reads := rs\<rparr>, Raised TimedOutWaitingAcl)"
| "await_acl (NotReadable # rs) s = (s\<lparr>reads := rs\<rparr>, Raised TimedOutWaitingAcl)"
| "await_acl (ReadData data # rs) s =
     (if data = [] then (s\<lparr>reads := rs\<rparr>, Raised EndOfFile)
      else case receive s data of
        (s1, Inl e) \<Rightarrow> (s1\<lparr>reads := rs\<rparr>, Raised e)
      | (s1, Inr _) \<Rightarrow>
          (if acl_packets (parser s1) \<noteq> []
           then (s1\<lparr>reads := rs\<rparr>, Returned (last (acl_packets (parser s1))))
           else await_acl rs s1))"

definition wait_for_acl :: "h4_session \<Rightarrow> h4_session \<times> bytes outcome" where
  "wait_for_acl s =
     (if acl_packets (parser s) \<noteq> [] then (s, Returned (last (acl_packets (parser s))))
      else await_acl (reads s) s)"

text \<open>Every event that \<^const>\<open>next_event\<close> returns costs a read or a queued event.\<close>

lemma await_event_reads:
  "await_event rs s = (s', Returned ev) \<Longrightarrow> length (reads s') < length rs"
  by (induction rs s rule: await_event.induct)
     (auto split: if_splits prod.splits sum.splits list.splits intro: less_SucI)

lemma next_event_measure:
  "next_event s = (s', Returned ev) \<Longrightarrow>
     length (reads s') < length (reads s) \<or>
     reads s' = reads s \<and> length (pending s') < length (pending s)"
  by (auto simp: next_event_def dest: await_event_reads split: list.splits)

function command_loop :: "int \<Rightarrow> h4_session \<Rightarrow> h4_session \<times> bytes outcome" where
  "command_loop opcode s =
     (case next_event s of
        (s', Waiting) \<Rightarrow> (s', Waiting)
      | (s', Raised e) \<Rightarrow> (s', Raised e)
      | (s', Returned ev) \<Rightarrow>
          (case command_complete ev opcode of
             Inl e \<Rightarrow> (s', Raised e)
           | Inr (Some result) \<Rightarrow> (s', Returned result)
           | Inr None \<Rightarrow> command_loop opcode s'))"
  by pat_completeness auto
termination
  by (relation "measures [\<lambda>(_, s). length (reads s), \<lambda>(_, s). length (pending s)]")
     (auto dest!: next_event_measure [OF sym])

definition session_command :: "h4_session \<Rightarrow> int \<Rightarrow> bytes \<Rightarrow> h4_session \<times> bytes outcome" where
  "session_command s opcode params =
     (case command_packet opcode params of
        Inl e \<Rightarrow> (s, Raised e)
      | Inr packet \<Rightarrow>
          (case session_write s packet of
             (s1, Waiting) \<Rightarrow> (s1, Waiting)
           | (s1, Raised e) \<Rightarrow> (s1, Raised e)
           | (s1, Returned _) \<Rightarrow> command_loop opcode s1))"

function status_loop :: "int \<Rightarrow> h4_session \<Rightarrow> h4_session \<times> unit outcome" where
  "status_loop opcode s =
     (case next_event s of
        (s', Waiting) \<Rightarrow> (s', Waiting)
      | (s', Raised e) \<Rightarrow> (s', Raised e)
      | (s', Returned ev) \<Rightarrow>
          (case command_status ev opcode of
             Inl e \<Rightarrow> (s', Raised e)
           | Inr True \<Rightarrow> (s', Returned ())
           | Inr False \<Rightarrow> status_loop opcode s'))"
  by pat_completeness auto
termination
  by (relation "measures [\<lambda>(_, s). length (reads s), \<lambda>(_, s). length (pending s)]")
     (auto dest!: next_event_measure [OF sym])

definition session_command_status ::
  "h4_session \<Rightarrow> int \<Rightarrow> bytes \<Rightarrow> h4_session \<times> unit outcome" where
  "session_command_status s opcode params =
     (case command_packet opcode params of
        Inl e \<Rightarrow> (s, Raised e)
      | Inr packet \<Rightarrow>
          (case session_write s packet of
             (s1, Waiting) \<Rightarrow> (s1, Waiting)
           | (s1, Raised e) \<Rightarrow> (s1, Raised e)
           | (s1, Returned _) \<Rightarrow> status_loop opcode s1))"

definition acl_put :: "h4_session \<Rightarrow> bytes \<Rightarrow> h4_session \<times> unit outcome" where
  "acl_put s packet =
     (if length packet < 4 \<or> length packet \<noteq> from_le (py_slice packet 2 4) + 4
      then (s, Raised MalformedAclPacket)
      else session_write s ([H4_ACL] @ packet))"

declare feed_loop.simps [simp del] name_loop.simps [simp del]
  command_loop.simps [simp del] status_loop.simps [simp del]

end
