(* ===== verification/Stream_Parser.thy ===== *)
theory Stream_Parser
  imports Prelude
begin

section \<open>The interface of an incremental parser\<close>

text \<open>
  A byte-stream client reads chunks whose boundaries mean nothing. What it relies on is
  stated here once: feeding \<open>a\<close> and then \<open>b\<close> is feeding \<open>a @ b\<close>, what follows an error
  is kept unread, and a parser at rest is not moved by an empty chunk. The consequence,
  independence of the chunking, is proved from these laws alone.

  A run of calls gives the parser it leaves, the events its returning calls handed over,
  and the error that ended it, if any: the events of the calls before a failing one have
  been delivered by then.
\<close>

fun feed_chunks ::
  "('p \<Rightarrow> 'c list \<Rightarrow> 'p \<times> ('e + 'ev list)) \<Rightarrow> 'p \<Rightarrow> 'c list list \<Rightarrow> 'p \<times> 'ev list \<times> 'e option" where
  "feed_chunks f p [] = (p, [], None)"
| "feed_chunks f p (c # cs) =
     (case f p c of
        (q, Inl e) \<Rightarrow> (q, [], Some e)
      | (q, Inr evs) \<Rightarrow>
          (case feed_chunks f q cs of (q', evs', err) \<Rightarrow> (q', evs @ evs', err)))"

lemma feed_chunks_Cons_ok:
  "feed_chunks f p (c # cs) = (q', evs, None) \<longleftrightarrow>
     (\<exists>q evs1 evs2. f p c = (q, Inr evs1) \<and> feed_chunks f q cs = (q', evs2, None) \<and> evs = evs1 @ evs2)"
  by (auto split: prod.splits sum.splits)

lemma feed_chunks_Cons_fail:
  "feed_chunks f p (c # cs) = (q', evs, Some e) \<longleftrightarrow>
     f p c = (q', Inl e) \<and> evs = [] \<or>
     (\<exists>q evs1 evs2. f p c = (q, Inr evs1) \<and> feed_chunks f q cs = (q', evs2, Some e) \<and> evs = evs1 @ evs2)"
  by (auto split: prod.splits sum.splits)

locale incremental_parser =
  fixes feed :: "'p \<Rightarrow> 'c list \<Rightarrow> 'p \<times> ('e + 'ev list)"
    and at_rest :: "'p \<Rightarrow> bool"
    and unread :: "'p \<Rightarrow> 'c list \<Rightarrow> 'p"
  assumes feed_ok_rest: "feed p a = (q, Inr evs) \<Longrightarrow> at_rest q"
    and feed_rest_Nil: "at_rest p \<Longrightarrow> feed p [] = (p, Inr [])"
    and feed_append_ok:
      "feed p a = (q, Inr evs) \<Longrightarrow> feed q b = (q', Inr evs') \<Longrightarrow> feed p (a @ b) = (q', Inr (evs @ evs'))"
    and feed_append_fail:
      "feed p a = (q, Inr evs) \<Longrightarrow> feed q b = (q', Inl e) \<Longrightarrow> feed p (a @ b) = (q', Inl e)"
    and feed_error_final: "feed p a = (q, Inl e) \<Longrightarrow> feed p (a @ b) = (unread q b, Inl e)"
begin

lemma chunks_ok_concat:
  "at_rest p \<Longrightarrow> feed_chunks feed p cs = (q, evs, None) \<Longrightarrow> feed p (concat cs) = (q, Inr evs)"
proof (induction cs arbitrary: p evs)
  case Nil
  then show ?case by (simp add: feed_rest_Nil)
next
  case (Cons c cs)
  from Cons.prems(2) obtain p1 e1 e2 where
    step: "feed p c = (p1, Inr e1)" "feed_chunks feed p1 cs = (q, e2, None)" "evs = e1 @ e2"
    unfolding feed_chunks_Cons_ok by blast
  from Cons.IH [OF feed_ok_rest [OF step(1)] step(2)] have "feed p1 (concat cs) = (q, Inr e2)" .
  with step(1,3) show ?case by (simp add: feed_append_ok)
qed

text \<open>
  A failing run splits at the chunk that fails: what was delivered is what the chunks
  before it give at once, and the error is the one that the bytes up to it give at once.
\<close>

lemma chunks_fail_split:
  "at_rest p \<Longrightarrow> feed_chunks feed p cs = (q, evs, Some e) \<Longrightarrow>
   \<exists>before c later. cs = before @ c # later
     \<and> (\<exists>p'. feed p (concat before) = (p', Inr evs)) \<and> feed p (concat before @ c) = (q, Inl e)"
proof (induction cs arbitrary: p evs)
  case Nil
  then show ?case by simp
next
  case (Cons c cs)
  from Cons.prems(2) consider (here) "feed p c = (q, Inl e)" "evs = []"
    | (later) p1 e1 e2 where "feed p c = (p1, Inr e1)" "feed_chunks feed p1 cs = (q, e2, Some e)" "evs = e1 @ e2"
    unfolding feed_chunks_Cons_fail by blast
  then show ?case
  proof cases
    case here
    with feed_rest_Nil [OF Cons.prems(1)] show ?thesis
      by (intro exI [of _ "[]"] exI [of _ c] exI [of _ cs]) simp
  next
    case later
    from Cons.IH [OF feed_ok_rest [OF later(1)] later(2)] obtain before d rest p' where
      cs: "cs = before @ d # rest" and ok: "feed p1 (concat before) = (p', Inr e2)"
      and fail: "feed p1 (concat before @ d) = (q, Inl e)" by blast
    from feed_append_ok [OF later(1) ok] feed_append_fail [OF later(1) fail] later(3) cs show ?thesis
      by (intro exI [of _ "c # before"] exI [of _ d] exI [of _ rest]) simp
  qed
qed

lemma chunks_result:
  assumes "at_rest p"
  shows "case feed_chunks feed p cs of
      (q, evs, None) \<Rightarrow> feed p (concat cs) = (q, Inr evs)
    | (q, evs, Some e) \<Rightarrow>
        (\<exists>before c later. cs = before @ c # later
           \<and> snd (feed p (concat before)) = Inr evs
           \<and> feed p (concat before @ c) = (q, Inl e)
           \<and> feed p (concat cs) = (unread q (concat later), Inl e))"
proof (cases "feed_chunks feed p cs")
  case (fields q evs err)
  show ?thesis
  proof (cases err)
    case None
    with fields chunks_ok_concat [OF assms, of cs q evs] show ?thesis by simp
  next
    case (Some e)
    with fields chunks_fail_split [OF assms, of cs q evs e] obtain before c later p' where
      cs: "cs = before @ c # later" and ok: "feed p (concat before) = (p', Inr evs)"
      and fail: "feed p (concat before @ c) = (q, Inl e)" by auto
    have "feed p (concat cs) = (unread q (concat later), Inl e)"
      using feed_error_final [OF fail, of "concat later"] by (simp add: cs)
    with cs ok fail have "\<exists>before c later. cs = before @ c # later \<and> snd (feed p (concat before)) = Inr evs
        \<and> feed p (concat before @ c) = (q, Inl e) \<and> feed p (concat cs) = (unread q (concat later), Inl e)"
      by (intro exI [of _ before] exI [of _ c] exI [of _ later]) simp
    with fields Some show ?thesis by simp
  qed
qed

end

end
