(* ===== verification/Hci_Correct.thy ===== *)
theory Hci_Correct
  imports Hci Stream_Parser
begin

section \<open>Correctness of the H4 parser and session\<close>

text \<open>
  The wire grammar of H4 is stated as an encoder of packets. The parser is shown to invert
  it, to keep exactly the incomplete tail, and to satisfy the interface of an incremental
  parser; the session, its client, then delivers the events of the transcript in order,
  each once.
\<close>

subsection \<open>The wire grammar\<close>

datatype h4_packet = AclPacket bytes | EventPacket hci_event

fun encode_packet :: "h4_packet \<Rightarrow> bytes" where
  "encode_packet (AclPacket body) = H4_ACL # body"
| "encode_packet (EventPacket e) =
     [H4_EVENT, event_code e, word_of_nat (length (parameters e))] @ parameters e"

fun valid_packet :: "h4_packet \<Rightarrow> bool" where
  "valid_packet (AclPacket body) = (4 \<le> length body \<and> length body = from_le (py_slice body 2 4) + 4)"
| "valid_packet (EventPacket e) = (length (parameters e) < 256)"

definition encode_packets :: "h4_packet list \<Rightarrow> bytes" where
  "encode_packets pkts = concat (map encode_packet pkts)"

fun events_of :: "h4_packet list \<Rightarrow> hci_event list" where
  "events_of [] = []"
| "events_of (AclPacket b # ps) = events_of ps"
| "events_of (EventPacket e # ps) = e # events_of ps"

fun acls_of :: "h4_packet list \<Rightarrow> bytes list" where
  "acls_of [] = []"
| "acls_of (AclPacket b # ps) = b # acls_of ps"
| "acls_of (EventPacket e # ps) = acls_of ps"

text \<open>A buffer that is the proper beginning of a packet, and one no packet begins.\<close>

definition incomplete :: "bytes \<Rightarrow> bool" where
  "incomplete bs \<longleftrightarrow>
     bs = [] \<or>
     (bs ! 0 = H4_ACL \<and> (length bs < 5 \<or> length bs < from_le (py_slice bs 3 5) + 5)) \<or>
     (bs ! 0 = H4_EVENT \<and> (length bs < 3 \<or> length bs < unat (bs ! 2) + 3))"

definition bad_start :: "bytes \<Rightarrow> bool" where
  "bad_start bs \<longleftrightarrow> bs \<noteq> [] \<and> bs ! 0 \<noteq> H4_ACL \<and> bs ! 0 \<noteq> H4_EVENT"

subsection \<open>One packet at a time\<close>

lemma feed_loop_incomplete:
  "incomplete (buffer p) \<Longrightarrow> feed_loop p evs = (p, Inr evs)"
  by (subst feed_loop.simps) (auto simp: incomplete_def Let_def)

lemma feed_loop_bad:
  "bad_start (buffer p) \<Longrightarrow> feed_loop p evs = (p, Inl (UnexpectedPacketType (buffer p ! 0)))"
  by (subst feed_loop.simps) (auto simp: bad_start_def)

lemma feed_loop_event:
  assumes "length (parameters e) < 256"
  shows "feed_loop (p\<lparr>buffer := encode_packet (EventPacket e) @ rest\<rparr>) evs
       = feed_loop (p\<lparr>buffer := rest\<rparr>) (evs @ [e])"
proof -
  define b where "b = encode_packet (EventPacket e) @ rest"
  have parts: "b \<noteq> []" "b ! 0 = H4_EVENT" "b ! Suc 0 = event_code e" "unat (b ! 2) = length (parameters e)"
    using assms by (simp_all add: b_def unat_of_nat)
  have len: "length b = length (parameters e) + 3 + length rest" by (simp add: b_def)
  have split: "py_slice b 3 (length (parameters e) + 3) = parameters e"
    "drop (length (parameters e) + 3) b = rest"
    by (simp_all add: b_def py_slice_def numeral_3_eq_3)
  have eta: "\<lparr>event_code = event_code e, parameters = parameters e\<rparr> = e" by simp
  show ?thesis
    unfolding b_def [symmetric]
    by (subst feed_loop.simps) (simp add: parts len split eta Let_def)
qed

lemma feed_loop_acl:
  assumes "valid_packet (AclPacket body)"
  shows "feed_loop (p\<lparr>buffer := encode_packet (AclPacket body) @ rest\<rparr>) evs
       = feed_loop (p\<lparr>acl_packets := acl_packets p @ [body], buffer := rest\<rparr>) evs"
proof -
  define b where "b = encode_packet (AclPacket body) @ rest"
  define n where "n = from_le (py_slice body 2 4)"
  have valid: "4 \<le> length body" "length body = n + 4" using assms by (simp_all add: n_def)
  have parts: "b \<noteq> []" "b ! 0 = H4_ACL" by (simp_all add: b_def)
  have len: "length b = n + 5 + length rest" using valid by (simp add: b_def)
  have size: "from_le (py_slice b 3 5) = n"
    using valid(1) by (simp add: b_def n_def py_slice_def)
  have ends: "n + 5 = length (encode_packet (AclPacket body))"
    using valid(2) by simp
  have split: "py_slice b (Suc 0) (n + 5) = body" "drop (n + 5) b = rest"
    unfolding ends by (simp_all add: b_def py_slice_def)
  show ?thesis
    unfolding b_def [symmetric]
    by (subst feed_loop.simps) (simp add: parts len size split Let_def)
qed

lemma feed_loop_packets:
  assumes "list_all valid_packet pkts"
  shows "feed_loop (p\<lparr>buffer := encode_packets pkts @ rest\<rparr>) evs
       = feed_loop (p\<lparr>acl_packets := acl_packets p @ acls_of pkts, buffer := rest\<rparr>)
           (evs @ events_of pkts)"
  using assms
proof (induction pkts arbitrary: p evs)
  case Nil
  then show ?case by (simp add: encode_packets_def)
next
  case (Cons k pkts)
  show ?case
  proof (cases k)
    case (AclPacket b)
    with Cons.prems Cons.IH [of "p\<lparr>acl_packets := acl_packets p @ [b]\<rparr>" evs]
    show ?thesis
      using feed_loop_acl [where body = b and p = p and rest = "encode_packets pkts @ rest" and evs = evs]
      by (simp add: encode_packets_def)
  next
    case (EventPacket e)
    with Cons.prems Cons.IH [of p "evs @ [e]"] show ?thesis
      using feed_loop_event [where e = e and p = p and rest = "encode_packets pkts @ rest" and evs = evs]
      by (simp add: encode_packets_def)
  qed
qed

subsection \<open>Every buffer decomposes\<close>

lemma event_prefix:
  assumes "bs ! 0 = H4_EVENT" and "unat (bs ! 2) + 3 \<le> length bs"
  obtains e where "valid_packet (EventPacket e)"
    and "bs = encode_packet (EventPacket e) @ drop (unat (bs ! 2) + 3) bs"
proof -
  from assms(2) obtain a b c cs where bs: "bs = a # b # c # cs"
    by (cases bs; cases "tl bs"; cases "tl (tl bs)") auto
  define e where "e = \<lparr>event_code = b, parameters = take (unat c) cs\<rparr>"
  have len: "unat c \<le> length cs" using assms(2) by (simp add: bs)
  have "valid_packet (EventPacket e)" by (simp add: e_def len)
  moreover have "bs = encode_packet (EventPacket e) @ drop (unat (bs ! 2) + 3) bs"
    using assms(1) len by (simp add: bs e_def min_def eval_nat_numeral)
  ultimately show thesis by (rule that)
qed

lemma acl_prefix:
  assumes "bs ! 0 = H4_ACL" and "5 \<le> length bs" and "from_le (py_slice bs 3 5) + 5 \<le> length bs"
  obtains body where "valid_packet (AclPacket body)"
    and "bs = encode_packet (AclPacket body) @ drop (from_le (py_slice bs 3 5) + 5) bs"
proof -
  define n where "n = from_le (py_slice bs 3 5)"
  define body where "body = take (n + 4) (tl bs)"
  from assms(2) obtain a cs where bs: "bs = a # cs" by (cases bs) auto
  have "py_slice body 2 4 = py_slice bs 3 5"
    by (simp add: body_def bs py_slice_def drop_take min_def)
  then have "valid_packet (AclPacket body)"
    using assms(2,3) by (simp add: body_def bs n_def min_def)
  moreover have "bs = encode_packet (AclPacket body) @ drop (n + 5) bs"
    using assms by (simp add: bs body_def n_def eval_nat_numeral)
  ultimately show thesis using that by (simp add: n_def)
qed

lemma encode_packet_nonempty [simp]: "encode_packet k \<noteq> []"
  by (cases k) auto

lemma complete_packet_prefix:
  assumes "\<not> (incomplete bs \<or> bad_start bs)"
  obtains k tail where "valid_packet k" and "bs = encode_packet k @ tail"
proof -
  from assms have "(bs ! 0 = H4_ACL \<and> 5 \<le> length bs \<and> from_le (py_slice bs 3 5) + 5 \<le> length bs) \<or>
      (bs ! 0 = H4_EVENT \<and> unat (bs ! 2) + 3 \<le> length bs)"
    by (auto simp: incomplete_def bad_start_def)
  then show thesis
    using event_prefix acl_prefix that by metis
qed

lemma buffer_decomposes:
  obtains pkts rest where "list_all valid_packet pkts" and "bs = encode_packets pkts @ rest"
    and "incomplete rest \<or> bad_start rest"
proof (induction bs arbitrary: thesis rule: length_induct)
  case (1 bs)
  show ?case
  proof (cases "incomplete bs \<or> bad_start bs")
    case True
    then show ?thesis using "1.prems" [of "[]" bs] by (simp add: encode_packets_def)
  next
    case False
    then obtain k tail where k: "valid_packet k" "bs = encode_packet k @ tail"
      by (rule complete_packet_prefix)
    then have "length tail < length bs" by simp
    with "1.IH" obtain pkts rest where "list_all valid_packet pkts" "tail = encode_packets pkts @ rest"
      "incomplete rest \<or> bad_start rest" by blast
    with k show ?thesis
      using "1.prems" [of "k # pkts" rest] by (simp add: encode_packets_def)
  qed
qed

lemma feed_cases:
  obtains (ok) pkts rest where "list_all valid_packet pkts"
      "buffer p @ data = encode_packets pkts @ rest" "incomplete rest"
      "feed p data = (p\<lparr>acl_packets := acl_packets p @ acls_of pkts, buffer := rest\<rparr>, Inr (events_of pkts))"
  | (bad) pkts rest where "list_all valid_packet pkts"
      "buffer p @ data = encode_packets pkts @ rest" "bad_start rest"
      "feed p data = (p\<lparr>acl_packets := acl_packets p @ acls_of pkts, buffer := rest\<rparr>,
         Inl (UnexpectedPacketType (rest ! 0)))"
proof -
  obtain pkts rest where d: "list_all valid_packet pkts"
    "buffer p @ data = encode_packets pkts @ rest" "incomplete rest \<or> bad_start rest"
    by (rule buffer_decomposes)
  then have "feed p data = feed_loop (p\<lparr>acl_packets := acl_packets p @ acls_of pkts, buffer := rest\<rparr>)
      (events_of pkts)"
    by (simp add: feed_def feed_loop_packets)
  with d show thesis
    using ok [of pkts rest] bad [of pkts rest]
    by (auto simp: feed_loop_incomplete feed_loop_bad)
qed

subsection \<open>The parser is an incremental parser\<close>

lemma encode_packets_append:
  "encode_packets (xs @ ys) = encode_packets xs @ encode_packets ys"
  by (simp add: encode_packets_def)

lemma feed_encoded:
  assumes "list_all valid_packet pkts" and "buffer p @ data = encode_packets pkts @ rest"
  shows "feed p data =
    feed_loop (p\<lparr>acl_packets := acl_packets p @ acls_of pkts, buffer := rest\<rparr>) (events_of pkts)"
  using assms by (simp add: feed_def feed_loop_packets)

lemma events_of_append [simp]: "events_of (xs @ ys) = events_of xs @ events_of ys"
  by (induction xs rule: events_of.induct) auto

lemma acls_of_append [simp]: "acls_of (xs @ ys) = acls_of xs @ acls_of ys"
  by (induction xs rule: acls_of.induct) auto

lemma not_incomplete_bad: "\<not> (incomplete bs \<and> bad_start bs)"
  by (auto simp: incomplete_def bad_start_def)

lemma feed_append_decomposed:
  assumes ok: "feed p a = (q, Inr evs)"
    and second: "list_all valid_packet ys" "buffer q @ b = encode_packets ys @ rest"
  shows "\<exists>xs. feed p (a @ b) =
           feed_loop (q\<lparr>acl_packets := acl_packets q @ acls_of ys, buffer := rest\<rparr>) (evs @ events_of ys)
           \<and> list_all valid_packet xs"
proof (rule feed_cases [of p a])
  fix xs tail
  assume x: "list_all valid_packet xs" "buffer p @ a = encode_packets xs @ tail" "incomplete tail"
    and f: "feed p a = (p\<lparr>acl_packets := acl_packets p @ acls_of xs, buffer := tail\<rparr>, Inr (events_of xs))"
  from f ok have q: "q = p\<lparr>acl_packets := acl_packets p @ acls_of xs, buffer := tail\<rparr>"
    and evs: "evs = events_of xs" by auto
  have "buffer p @ (a @ b) = encode_packets xs @ (tail @ b)"
    using x(2) by (simp flip: append_assoc)
  also have "\<dots> = encode_packets (xs @ ys) @ rest"
    using second(2) by (simp add: q encode_packets_append)
  finally have "buffer p @ (a @ b) = encode_packets (xs @ ys) @ rest" .
  from feed_encoded [OF _ this] x(1) second(1) show ?thesis
    by (auto simp: q evs)
next
  fix xs tail
  assume "feed p a = (p\<lparr>acl_packets := acl_packets p @ acls_of xs, buffer := tail\<rparr>,
    Inl (UnexpectedPacketType (tail ! 0)))"
  with ok show ?thesis by simp
qed

interpretation h4: incremental_parser feed "\<lambda>p. incomplete (buffer p)"
  "\<lambda>p later. p\<lparr>buffer := buffer p @ later\<rparr>"
proof unfold_locales
  fix p q :: h4_parser and a evs
  assume "feed p a = (q, Inr evs)"
  then show "incomplete (buffer q)" by (cases rule: feed_cases [of p a]) auto
next
  fix p :: h4_parser
  assume "incomplete (buffer p)"
  then show "feed p [] = (p, Inr [])" by (simp add: feed_def feed_loop_incomplete)
next
  fix p q q' :: h4_parser and a b evs evs'
  assume 1: "feed p a = (q, Inr evs)" and 2: "feed q b = (q', Inr evs')"
  show "feed p (a @ b) = (q', Inr (evs @ evs'))"
  proof (rule feed_cases [of q b])
    fix ys rest
    assume y: "list_all valid_packet ys" "buffer q @ b = encode_packets ys @ rest" "incomplete rest"
      and f: "feed q b = (q\<lparr>acl_packets := acl_packets q @ acls_of ys, buffer := rest\<rparr>, Inr (events_of ys))"
    from feed_append_decomposed [OF 1 y(1,2)] y(3) f 2 show ?thesis
      by (auto simp: feed_loop_incomplete)
  qed (use 2 in auto)
next
  fix p q q' :: h4_parser and a b evs e
  assume 1: "feed p a = (q, Inr evs)" and 2: "feed q b = (q', Inl e)"
  show "feed p (a @ b) = (q', Inl e)"
  proof (rule feed_cases [of q b])
    fix ys rest
    assume y: "list_all valid_packet ys" "buffer q @ b = encode_packets ys @ rest" "bad_start rest"
      and f: "feed q b = (q\<lparr>acl_packets := acl_packets q @ acls_of ys, buffer := rest\<rparr>,
        Inl (UnexpectedPacketType (rest ! 0)))"
    from feed_append_decomposed [OF 1 y(1,2)] y(3) f 2 show ?thesis
      by (auto simp: feed_loop_bad)
  qed (use 2 in auto)
next
  fix p q :: h4_parser and a b e
  assume 1: "feed p a = (q, Inl e)"
  show "feed p (a @ b) = (q\<lparr>buffer := buffer q @ b\<rparr>, Inl e)"
  proof (rule feed_cases [of p a])
    fix xs tail
    assume x: "list_all valid_packet xs" "buffer p @ a = encode_packets xs @ tail" "bad_start tail"
      and f: "feed p a = (p\<lparr>acl_packets := acl_packets p @ acls_of xs, buffer := tail\<rparr>,
        Inl (UnexpectedPacketType (tail ! 0)))"
    have "buffer p @ (a @ b) = encode_packets xs @ (tail @ b)"
      using x(2) by (simp flip: append_assoc)
    from feed_encoded [OF x(1) this] have "feed p (a @ b) =
      feed_loop (p\<lparr>acl_packets := acl_packets p @ acls_of xs, buffer := tail @ b\<rparr>) (events_of xs)" .
    moreover have "bad_start (tail @ b)" "(tail @ b) ! 0 = tail ! 0"
      using x(3) by (auto simp: bad_start_def nth_append)
    ultimately show ?thesis
      using f 1 by (simp add: feed_loop_bad)
  qed (use 1 in auto)
qed

subsection \<open>Sessions deliver the transcript's events\<close>

text \<open>
  A session that has handed out \<open>delivered\<close> agrees with its transcript when parsing the
  whole transcript afresh gives the events handed out followed by the pending ones, and
  ends in the session's own parser state.
\<close>

definition session_agrees :: "h4_session \<Rightarrow> hci_event list \<Rightarrow> bool" where
  "session_agrees s delivered \<longleftrightarrow>
     feed h4_parser_init (transcript s) = (parser s, Inr (delivered @ pending s))"

lemma session_agrees_init: "session_agrees (h4_session_init rs ws) []"
  by (simp add: session_agrees_def h4_session_init_def h4.feed_rest_Nil h4_parser_init_def incomplete_def)

lemma session_agrees_frame [simp]:
  "session_agrees (s\<lparr>reads := rs\<rparr>) d = session_agrees s d"
  "session_agrees (s\<lparr>writes := ws\<rparr>) d = session_agrees s d"
  "session_agrees (s\<lparr>accepted := x\<rparr>) d = session_agrees s d"
  by (simp_all add: session_agrees_def)

lemma session_agrees_deliver:
  "session_agrees s d \<Longrightarrow> pending s = ev # rest \<Longrightarrow> session_agrees (s\<lparr>pending := rest\<rparr>) (d @ [ev])"
  by (simp add: session_agrees_def)

lemma receive_agrees:
  "session_agrees s d \<Longrightarrow> receive s data = (s', Inr u) \<Longrightarrow> session_agrees s' d"
  by (auto simp: receive_def session_agrees_def Let_def dest: h4.feed_append_ok split: prod.splits sum.splits)

lemma write_loop_agrees:
  "session_agrees s d \<Longrightarrow> session_agrees (fst (write_loop ws data s)) d"
  by (induction ws data s rule: write_loop.induct) auto

lemma await_event_agrees:
  "session_agrees s d \<Longrightarrow> await_event rs s = (s', Returned ev) \<Longrightarrow> session_agrees s' (d @ [ev])"
proof (induction rs s rule: await_event.induct)
  case (4 data rs s)
  from "4.prems"(2) obtain s1 u where r: "receive s data = (s1, Inr u)" "data \<noteq> []"
    by (auto split: if_splits prod.splits sum.splits)
  have a: "session_agrees s1 d" using "4.prems"(1) r(1) by (rule receive_agrees)
  show ?case
  proof (cases "pending s1")
    case Nil
    with "4.prems"(2) r have "await_event rs s1 = (s', Returned ev)" by simp
    with "4.IH" r Nil a show ?thesis by auto
  next
    case (Cons x xs)
    with "4.prems"(2) r have "s' = s1\<lparr>pending := xs, reads := rs\<rparr>" "x = ev" by auto
    with session_agrees_deliver [OF a Cons] show ?thesis by (simp add: session_agrees_def)
  qed
qed auto

lemma next_event_agrees:
  "session_agrees s d \<Longrightarrow> next_event s = (s', Returned ev) \<Longrightarrow> session_agrees s' (d @ [ev])"
  by (auto simp: next_event_def dest: await_event_agrees session_agrees_deliver split: list.splits)

lemma command_loop_agrees:
  "session_agrees s d \<Longrightarrow> command_loop opcode s = (s', Returned r) \<Longrightarrow>
     \<exists>skipped ev. session_agrees s' (d @ skipped @ [ev])
       \<and> (\<forall>e \<in> set skipped. command_complete e opcode = Inr None)
       \<and> command_complete ev opcode = Inr (Some r)"
proof (induction opcode s arbitrary: d rule: command_loop.induct)
  case (1 opcode s)
  from "1.prems"(2) obtain s1 ev x where
    n: "next_event s = (s1, Returned ev)" and c: "command_complete ev opcode = Inr x"
    and k: "x = None \<Longrightarrow> command_loop opcode s1 = (s', Returned r)"
      "x \<noteq> None \<Longrightarrow> s1 = s' \<and> x = Some r"
    by (subst (asm) command_loop.simps) (auto split: prod.splits outcome.splits sum.splits option.splits)
  have a: "session_agrees s1 (d @ [ev])" using "1.prems"(1) n by (rule next_event_agrees)
  show ?case
  proof (cases x)
    case None
    with "1.IH" [OF n [symmetric] refl c None a] k(1) obtain skipped ev' where
      "session_agrees s' ((d @ [ev]) @ skipped @ [ev'])"
      "\<forall>e \<in> set skipped. command_complete e opcode = Inr None"
      "command_complete ev' opcode = Inr (Some r)" by auto
    with c None show ?thesis by (intro exI [of _ "ev # skipped"] exI [of _ ev']) auto
  next
    case (Some y)
    with k(2) a c show ?thesis by (intro exI [of _ "[]"] exI [of _ ev]) auto
  qed
qed

subsection \<open>Writing, and what writing leaves alone\<close>

lemma write_loop_accepts:
  "write_loop ws data s = (s', Returned u) \<Longrightarrow> accepted s' = accepted s @ data"
proof (induction ws data s rule: write_loop.induct)
  case (5 n ws d ds s)
  then have "accepted s' = (accepted s @ take n (d # ds)) @ drop n (d # ds)" by simp
  then show ?case by (metis append.assoc append_take_drop_id)
qed auto

lemma write_loop_frame:
  "write_loop ws data s = (s', r) \<Longrightarrow>
     parser s' = parser s \<and> pending s' = pending s \<and> transcript s' = transcript s \<and> reads s' = reads s"
  by (induction ws data s rule: write_loop.induct) auto

lemma receive_accepted: "accepted (fst (receive s data)) = accepted s"
  by (auto simp: receive_def Let_def split: prod.splits sum.splits)

lemma await_event_accepted: "accepted (fst (await_event rs s)) = accepted s"
proof (induction rs s rule: await_event.induct)
  case (4 data rs s)
  then show ?case
    using receive_accepted [of s data]
    by (auto split: prod.splits sum.splits list.splits)
qed auto

lemma command_loop_accepted: "accepted (fst (command_loop opcode s)) = accepted s"
proof (induction opcode s rule: command_loop.induct)
  case (1 opcode s)
  have n: "accepted (fst (next_event s)) = accepted s"
    using await_event_accepted [of "reads s" s] by (auto simp: next_event_def split: list.splits)
  show ?case
    using 1 n by (subst command_loop.simps)
      (auto split: prod.splits outcome.splits sum.splits option.splits)
qed

subsection \<open>A command returns once its event has arrived\<close>

lemma await_event_returns:
  assumes "pending s = []" and "[] \<notin> set chunks" and "feed_chunks feed (parser s) chunks = (q, x # xs, None)"
  shows "\<exists>s' chunks' evs'. await_event (map ReadData chunks @ rest_reads) s = (s', Returned x)
    \<and> reads s' = map ReadData chunks' @ rest_reads \<and> [] \<notin> set chunks'
    \<and> feed_chunks feed (parser s') chunks' = (q, evs', None) \<and> pending s' @ evs' = xs"
  using assms
proof (induction chunks arbitrary: s)
  case Nil
  then show ?case by simp
next
  case (Cons c cs)
  from Cons.prems(3) obtain p1 e1 e2 where
    f: "feed (parser s) c = (p1, Inr e1)" "feed_chunks feed p1 cs = (q, e2, None)" "x # xs = e1 @ e2"
    by (auto split: prod.splits sum.splits)
  let ?s1 = "s\<lparr>transcript := transcript s @ c, parser := p1, pending := e1\<rparr>"
  have r: "receive s c = (?s1, Inr ())" using f(1) Cons.prems(1) by (simp add: receive_def)
  show ?case
  proof (cases e1)
    case Nil
    with f(2,3) Cons.prems(2) Cons.IH [of ?s1] show ?thesis by (auto simp: r)
  next
    case (Cons y ys)
    with f(2,3) Cons.prems(2) show ?thesis by (auto simp: r intro!: exI [of _ cs])
  qed
qed

lemma next_event_returns:
  assumes "reads s = map ReadData chunks @ rest_reads" and "[] \<notin> set chunks"
    and "feed_chunks feed (parser s) chunks = (q, evs, None)" and "pending s @ evs = x # xs"
  shows "\<exists>s' chunks' evs'. next_event s = (s', Returned x)
    \<and> reads s' = map ReadData chunks' @ rest_reads \<and> [] \<notin> set chunks'
    \<and> feed_chunks feed (parser s') chunks' = (q, evs', None) \<and> pending s' @ evs' = xs"
proof (cases "pending s")
  case Nil
  with assms await_event_returns [of s chunks q x xs rest_reads] show ?thesis by (simp add: next_event_def)
next
  case (Cons y ys)
  with assms show ?thesis
    by (auto simp: next_event_def intro!: exI [of _ "s\<lparr>pending := ys\<rparr>"] exI [of _ chunks])
qed

lemma command_loop_returns:
  assumes "reads s = map ReadData chunks @ rest_reads" and "[] \<notin> set chunks"
    and "feed_chunks feed (parser s) chunks = (q, evs, None)" and "pending s @ evs = skipped @ ev # later"
    and "\<forall>e \<in> set skipped. command_complete e opcode = Inr None"
    and "command_complete ev opcode = Inr (Some r)"
  shows "\<exists>s'. command_loop opcode s = (s', Returned r)"
  using assms
proof (induction skipped arbitrary: s chunks evs)
  case Nil
  then obtain s' where "next_event s = (s', Returned ev)"
    using next_event_returns [of s chunks rest_reads q evs ev later] by auto
  with Nil.prems show ?case by (subst command_loop.simps) simp
next
  case (Cons e es)
  then obtain s' chunks' evs' where n: "next_event s = (s', Returned e)"
    and inv: "reads s' = map ReadData chunks' @ rest_reads" "[] \<notin> set chunks'"
      "feed_chunks feed (parser s') chunks' = (q, evs', None)" "pending s' @ evs' = es @ ev # later"
    using next_event_returns [of s chunks rest_reads q evs e "es @ ev # later"] by auto
  from Cons.IH [OF inv] Cons.prems(5,6) obtain s'' where "command_loop opcode s' = (s'', Returned r)"
    by auto
  with n Cons.prems(5) show ?case by (subst command_loop.simps) simp
qed

subsection \<open>Advertising payloads\<close>

text \<open>The wire form of one advertising report and of one advertising-data structure.\<close>

record adv_wire =
  w_event_type :: byte
  w_address_type :: byte
  w_address :: bytes
  w_data :: bytes
  w_rssi :: byte

definition encode_report :: "adv_wire \<Rightarrow> bytes" where
  "encode_report w = [w_event_type w, w_address_type w] @ w_address w
     @ [word_of_nat (length (w_data w))] @ w_data w @ [w_rssi w]"

definition valid_report :: "adv_wire \<Rightarrow> bool" where
  "valid_report w = (length (w_address w) = 6 \<and> length (w_data w) < 256)"

definition report_of :: "adv_wire \<Rightarrow> adv_report" where
  "report_of w = \<lparr>event_type = w_event_type w, address_type = w_address_type w,
     address = address_text (w_address w), adv_data = w_data w, rssi = sint (w_rssi w)\<rparr>"

lemma reports_loop_step:
  assumes "valid_report w"
  shows "reports_loop (Suc n) (pre @ encode_report w @ post) (length pre) acc =
    reports_loop n (pre @ encode_report w @ post) (length (pre @ encode_report w)) (acc @ [report_of w])"
proof -
  define ps where "ps = pre @ encode_report w @ post"
  define d where "d = length (w_data w)"
  have len: "length (w_address w) = 6" "d < 256"
    using assms by (simp_all add: valid_report_def d_def)
  have head: "ps ! length pre = w_event_type w" "ps ! (length pre + 1) = w_address_type w"
    by (simp_all add: ps_def encode_report_def nth_append)
  have size: "unat (ps ! (length pre + 8)) = d"
    using len by (simp add: ps_def encode_report_def nth_append unat_of_nat d_def)
  have addr: "py_slice ps (length pre + 2) (length pre + 8) = w_address w"
    using len by (simp add: ps_def encode_report_def py_slice_def)
  have data: "py_slice ps (length pre + 9) (length pre + 9 + d) = w_data w"
    using len by (simp add: ps_def encode_report_def py_slice_def d_def)
  have rssi: "ps ! (length pre + 9 + d) = w_rssi w"
    using len by (simp add: ps_def encode_report_def nth_append d_def)
  have bounds: "length pre + 9 + d + 1 \<le> length ps" "length (pre @ encode_report w) = length pre + 9 + d + 1"
    using len by (simp_all add: ps_def encode_report_def d_def)
  have fits: "(length ps < length pre + 9) = False" "(length ps < length pre + 9 + d + 1) = False"
    using bounds(1) by auto
  show ?thesis
    unfolding ps_def [symmetric] report_of_def
    by (simp only: reports_loop.simps Let_def head size addr data rssi bounds(2) fits if_False)
qed

lemma reports_loop_encode:
  assumes "list_all valid_report ws"
  shows "reports_loop (length ws) (pre @ concat (map encode_report ws)) (length pre) acc
    = Inr (length (pre @ concat (map encode_report ws)), acc @ map report_of ws)"
  using assms
proof (induction ws arbitrary: pre acc)
  case Nil
  then show ?case by simp
next
  case (Cons w ws)
  then show ?case
    using reports_loop_step [of w "length ws" pre "concat (map encode_report ws)" acc]
      Cons.IH [of "pre @ encode_report w" "acc @ [report_of w]"] by simp
qed

definition encode_ad :: "byte \<times> bytes \<Rightarrow> bytes" where
  "encode_ad ad = [word_of_nat (Suc (length (snd ad))), fst ad] @ snd ad"

definition is_name_ad :: "byte \<times> bytes \<Rightarrow> bool" where
  "is_name_ad ad = (fst ad = 0x08 \<or> fst ad = 0x09)"

lemma name_loop_step:
  assumes "length (snd ad) < 255"
  shows "name_loop (pre @ encode_ad ad @ post) (length pre) =
    (if is_name_ad ad
     then (case utf8_decode (snd ad) of None \<Rightarrow> Inl HciUnicodeDecodeError | Some n \<Rightarrow> Inr (Some n))
     else name_loop (pre @ encode_ad ad @ post) (length (pre @ encode_ad ad)))"
proof -
  define ds where "ds = pre @ encode_ad ad @ post"
  have size: "unat (word_of_nat (Suc (length (snd ad))) :: byte) = Suc (length (snd ad))"
    using assms by (intro unat_byte_of_nat) simp
  have parts: "length pre < length ds" "unat (ds ! length pre) = Suc (length (snd ad))"
    "ds ! (length pre + 1) = fst ad"
    using size by (simp_all add: ds_def encode_ad_def nth_append del: of_nat_Suc)
  have body: "py_slice ds (length pre + 2) (length pre + Suc (length (snd ad)) + 1) = snd ad"
    by (simp add: ds_def encode_ad_def py_slice_def)
  have stop: "length (pre @ encode_ad ad) = length pre + Suc (length (snd ad)) + 1"
    "length pre + Suc (length (snd ad)) + 1 \<le> length ds"
    by (simp_all add: ds_def encode_ad_def)
  define m where "m = Suc (length (snd ad))"
  have guards: "(m = 0) = False" "(m < 1) = False" "(length ds < length pre + m + 1) = False"
    using stop(2) by (auto simp: m_def)
  show ?thesis
    unfolding ds_def [symmetric] stop(1)
    using parts(1)
    by (subst name_loop.simps)
       (simp only: Let_def parts(2,3) body is_name_ad_def m_def [symmetric]
         body [folded m_def] guards simp_thms if_True if_False)
qed

lemma name_loop_encode:
  assumes "list_all (\<lambda>ad. length (snd ad) < 255) ads"
  shows "name_loop (pre @ concat (map encode_ad ads)) (length pre) =
    (case find is_name_ad ads of
       None \<Rightarrow> Inr None
     | Some ad \<Rightarrow> (case utf8_decode (snd ad) of
         None \<Rightarrow> Inl HciUnicodeDecodeError | Some n \<Rightarrow> Inr (Some n)))"
  using assms
proof (induction ads arbitrary: pre)
  case Nil
  then show ?case by (subst name_loop.simps) simp
next
  case (Cons ad ads)
  then show ?case
    using name_loop_step [of ad pre "concat (map encode_ad ads)"] Cons.IH [of "pre @ encode_ad ad"]
    by simp
qed

subsection \<open>Properties of the component\<close>

text \<open>
  C1. What the H4 parser makes of a byte stream does not depend on how the transport cut it
  into reads. When feeding the chunks one after the other raises nothing, one call with
  their concatenation returns exactly the events delivered and leaves exactly the same
  parser: the same stored ACL packets and the same buffered tail. When a call fails, the
  events delivered by then are exactly those of the chunks before it; one call with the
  whole stream fails with the same error, has stored the same ACL packets, and its buffer
  holds in addition only the chunks that were never fed.
\<close>

theorem h4_chunking_irrelevant:
  "case feed_chunks feed h4_parser_init chunks of
      (q, evs, None) \<Rightarrow> feed h4_parser_init (concat chunks) = (q, Inr evs)
    | (q, evs, Some e) \<Rightarrow>
        (\<exists>before c later. chunks = before @ c # later
           \<and> snd (feed h4_parser_init (concat before)) = Inr evs
           \<and> feed h4_parser_init (concat before @ c) = (q, Inl e)
           \<and> feed h4_parser_init (concat chunks) = (q\<lparr>buffer := buffer q @ concat later\<rparr>, Inl e))"
  by (rule h4.chunks_result) (simp add: h4_parser_init_def incomplete_def)

text \<open>
  C2. Round trip of the H4 framing: feeding the encoding of any sequence of well-formed
  packets gives exactly its events, in order, stores exactly its ACL packets, in order,
  and leaves the buffer empty.
\<close>

theorem h4_feed_encode_roundtrip:
  assumes "list_all valid_packet pkts"
  shows "feed h4_parser_init (encode_packets pkts)
    = (\<lparr>buffer = [], acl_packets = acls_of pkts\<rparr>, Inr (events_of pkts))"
proof -
  from feed_encoded [OF assms, of h4_parser_init "encode_packets pkts" "[]"]
  show ?thesis by (simp add: h4_parser_init_def feed_loop_incomplete incomplete_def)
qed

theorem h4_feed_encode_roundtrip_witness:
  "feed h4_parser_init [4, 0x0E, 4, 1, 3, 0x0C, 0, 2, 0x40, 0x20, 1, 0, 0xAA]
    = (\<lparr>buffer = [], acl_packets = [[0x40, 0x20, 1, 0, 0xAA]]\<rparr>,
       Inr [\<lparr>event_code = 0x0E, parameters = [1, 3, 0x0C, 0]\<rparr>])"
  using h4_feed_encode_roundtrip [of "[EventPacket \<lparr>event_code = 0x0E, parameters = [1, 3, 0x0C, 0]\<rparr>,
      AclPacket [0x40, 0x20, 1, 0, 0xAA]]"]
  by (simp add: encode_packets_def py_slice_def)

text \<open>
  C3. No byte is lost or invented: after a successful feed the old buffer followed by the
  new data is the encoding of some packets, whose events were returned and whose ACL
  packets were stored, followed by the new buffer, which is a packet cut short.
\<close>

theorem h4_feed_accounts_for_every_byte:
  assumes "feed p data = (q, Inr evs)"
  shows "\<exists>pkts. list_all valid_packet pkts \<and> buffer p @ data = encode_packets pkts @ buffer q
    \<and> evs = events_of pkts \<and> acl_packets q = acl_packets p @ acls_of pkts \<and> incomplete (buffer q)"
  using assms by (cases rule: feed_cases [of p data]) auto

theorem h4_feed_accounts_for_every_byte_witness:
  "\<exists>pkts. list_all valid_packet pkts \<and> [4, 0x0F, 1, 7, 2] = encode_packets pkts @ [2]
    \<and> [\<lparr>event_code = 0x0F, parameters = [7]\<rparr>] = events_of pkts"
proof -
  have "feed \<lparr>buffer = [4, 0x0F], acl_packets = []\<rparr> [1, 7, 2]
      = (\<lparr>buffer = [2], acl_packets = []\<rparr>, Inr [\<lparr>event_code = 0x0F, parameters = [7]\<rparr>])"
    by (simp add: feed_def feed_loop.simps py_slice_def)
  from h4_feed_accounts_for_every_byte [OF this] show ?thesis by auto
qed

text \<open>
  C4. A command returns only the parameters of a successful Command Complete event for its
  own opcode, and it is sent whole: every byte of its packet was accepted by the
  descriptor, the events between the command and its answer were for other commands, and
  the session still agrees with its transcript, so no event was lost or delivered twice.
\<close>

theorem session_command_sound:
  assumes "session_agrees s d" and "session_command s opcode params = (s', Returned r)"
  shows "\<exists>packet skipped ev. command_packet opcode params = Inr packet
    \<and> accepted s' = accepted s @ packet
    \<and> session_agrees s' (d @ skipped @ [ev])
    \<and> (\<forall>e \<in> set skipped. command_complete e opcode = Inr None)
    \<and> command_complete ev opcode = Inr (Some r)"
proof -
  from assms(2) obtain packet s1 u where p: "command_packet opcode params = Inr packet"
    and w: "session_write s packet = (s1, Returned u)" and l: "command_loop opcode s1 = (s', Returned r)"
    by (auto simp: session_command_def split: sum.splits prod.splits outcome.splits)
  have "session_agrees s1 d"
    using write_loop_agrees [OF assms(1), of "writes s" packet] w by (simp add: session_write_def)
  moreover have "accepted s1 = accepted s @ packet"
    using w write_loop_accepts by (simp add: session_write_def)
  moreover have "accepted s' = accepted s1"
    using command_loop_accepted [of opcode s1] l by simp
  ultimately show ?thesis
    using command_loop_agrees [OF _ l, of d] p by auto
qed

theorem session_command_sound_witness:
  "\<exists>packet skipped ev. command_packet 0x0C03 [] = Inr packet
    \<and> [1, 3, 0x0C, 0] = packet
    \<and> (\<forall>e \<in> set skipped. command_complete e 0x0C03 = Inr None)
    \<and> command_complete ev 0x0C03 = Inr (Some [])"
proof -
  let ?s = "h4_session_init [ReadData [4, 0x0F, 4, 0, 1, 5, 4], ReadData [4, 0x0E, 4, 1, 3, 0x0C, 0]]
    [Wrote 3, Wrote 9]"
  have eval: "snd (session_command ?s 0x0C03 []) = Returned []"
    "accepted (fst (session_command ?s 0x0C03 [])) = [1, 3, 0x0C, 0]"
    by (simp_all add: session_command_def command_packet_def session_write_def h4_session_init_def
        h4_parser_init_def command_loop.simps next_event_def receive_def feed_def feed_loop.simps
        py_slice_def command_complete_def)
  obtain s' where run: "session_command ?s 0x0C03 [] = (s', Returned [])" and acc: "accepted s' = [1, 3, 0x0C, 0]"
    using eval by (cases "session_command ?s 0x0C03 []") auto
  from session_command_sound [OF session_agrees_init run] acc show ?thesis
    by (auto simp: h4_session_init_def)
qed

text \<open>
  C5. A command does return: when the descriptor accepts the packet and the non-empty reads
  that follow carry, after any events for other commands, a successful Command Complete
  for the opcode, the call returns that event's parameters, however the reads are cut.
\<close>

theorem session_command_returns:
  assumes "command_packet opcode params = Inr packet"
    and "session_write s packet = (s1, Returned u)"
    and "reads s = map ReadData chunks @ rest_reads" and "[] \<notin> set chunks"
    and "feed_chunks feed (parser s) chunks = (q, evs, None)"
    and "pending s @ evs = skipped @ ev # later"
    and "\<forall>e \<in> set skipped. command_complete e opcode = Inr None"
    and "command_complete ev opcode = Inr (Some r)"
  shows "\<exists>s'. session_command s opcode params = (s', Returned r)"
proof -
  have "parser s1 = parser s" "pending s1 = pending s" "reads s1 = reads s"
    using write_loop_frame assms(2) by (auto simp: session_write_def)
  then show ?thesis
    using command_loop_returns [of s1 chunks rest_reads q evs skipped ev later opcode r] assms
    by (simp add: session_command_def)
qed

theorem session_command_returns_witness:
  "\<exists>s'. session_command (h4_session_init [ReadData [4, 0x0E, 4, 1], ReadData [3, 0x0C, 0]] [Wrote 4])
     0x0C03 [] = (s', Returned [])"
proof (rule session_command_returns)
  show "command_packet 0x0C03 [] = Inr [1, 3, 0x0C, 0]"
    by (simp add: command_packet_def)
  show "session_write (h4_session_init [ReadData [4, 0x0E, 4, 1], ReadData [3, 0x0C, 0]] [Wrote 4])
      [1, 3, 0x0C, 0] = (h4_session_init [ReadData [4, 0x0E, 4, 1], ReadData [3, 0x0C, 0]] []
        \<lparr>accepted := [1, 3, 0x0C, 0]\<rparr>, Returned ())"
    by (simp add: session_write_def h4_session_init_def)
  show "reads (h4_session_init [ReadData [4, 0x0E, 4, 1], ReadData [3, 0x0C, 0]] [Wrote 4])
      = map ReadData [[4, 0x0E, 4, 1], [3, 0x0C, 0]] @ []"
    by (simp add: h4_session_init_def)
  show "feed_chunks feed (parser (h4_session_init [ReadData [4, 0x0E, 4, 1], ReadData [3, 0x0C, 0]] [Wrote 4]))
      [[4, 0x0E, 4, 1], [3, 0x0C, 0]]
    = (h4_parser_init, [\<lparr>event_code = 0x0E, parameters = [1, 3, 0x0C, 0]\<rparr>], None)"
    by (simp add: h4_session_init_def h4_parser_init_def feed_def feed_loop.simps py_slice_def)
  show "pending (h4_session_init [ReadData [4, 0x0E, 4, 1], ReadData [3, 0x0C, 0]] [Wrote 4])
      @ [\<lparr>event_code = 0x0E, parameters = [1, 3, 0x0C, 0]\<rparr>]
    = [] @ \<lparr>event_code = 0x0E, parameters = [1, 3, 0x0C, 0]\<rparr> # []"
    by (simp add: h4_session_init_def)
  show "command_complete \<lparr>event_code = 0x0E, parameters = [1, 3, 0x0C, 0]\<rparr> 0x0C03 = Inr (Some [])"
    by (simp add: command_complete_def py_slice_def)
qed simp_all

text \<open>
  C6. Round trip of advertising reports: an LE Meta event that carries up to 255 well-formed
  reports is decoded to exactly those reports, with the address in display order and the
  RSSI as a signed byte.
\<close>

theorem advertising_reports_roundtrip:
  assumes "list_all valid_report ws" and "length ws < 256"
  shows "advertising_reports \<lparr>event_code = EVENT_LE_META,
      parameters = [LE_ADVERTISING_REPORT, word_of_nat (length ws)] @ concat (map encode_report ws)\<rparr>
    = Inr (map report_of ws)"
  using reports_loop_encode [OF assms(1), of "[LE_ADVERTISING_REPORT, word_of_nat (length ws)]" "[]"] assms(2)
  by (simp add: advertising_reports_def unat_byte_of_nat eval_nat_numeral)

theorem advertising_reports_roundtrip_witness:
  "advertising_reports \<lparr>event_code = 0x3E, parameters = [2, 1, 0, 1, 6, 5, 4, 3, 2, 1, 2, 9, 0x41, 0xD8]\<rparr>
    = Inr [\<lparr>event_type = 0, address_type = 1, address = ''01:02:03:04:05:06'', adv_data = [9, 0x41], rssi = -40\<rparr>]"
  using advertising_reports_roundtrip [of "[\<lparr>w_event_type = 0, w_address_type = 1,
      w_address = [6, 5, 4, 3, 2, 1], w_data = [9, 0x41], w_rssi = 0xD8\<rparr>]"]
  by (simp add: valid_report_def encode_report_def report_of_def address_text_def hex_byte_def hex_digit_def)

text \<open>
  C7. The advertised name is the first complete or shortened local name of a well-formed
  advertising payload, decoded as strict UTF-8; a payload without one has no name.
\<close>

theorem advertising_name_first:
  assumes "list_all (\<lambda>ad. length (snd ad) < 255) ads"
  shows "advertising_name (concat (map encode_ad ads)) =
    (case find is_name_ad ads of
       None \<Rightarrow> Inr None
     | Some ad \<Rightarrow> (case utf8_decode (snd ad) of
         None \<Rightarrow> Inl HciUnicodeDecodeError | Some n \<Rightarrow> Inr (Some n)))"
  using name_loop_encode [OF assms, of "[]"] by (simp add: advertising_name_def)

theorem advertising_name_first_witness:
  "advertising_name [2, 1, 6, 4, 9, 0x6E, 0x52, 0x46] = Inr (Some (code_points_of ''nRF''))"
  using advertising_name_first [of "[(1, [6]), (9, [0x6E, 0x52, 0x46])]"]
  by (simp add: encode_ad_def is_name_ad_def code_points_of_def)

end
