(* ===== verification/Effects.thy ===== *)
theory Effects
  imports Prelude
begin

section \<open>Effects: actions on a state that may raise\<close>

text \<open>
  A call that changes state and may raise is a function from the state to the state it
  leaves behind and a result; what was written before an exception stays written. The
  sequencing operator is Python's statement sequence. \<open>forA\<close> and \<open>mapA\<close> are \<open>for\<close> loops over
  a list, the second collecting a value per iteration.
\<close>

named_theorems action_simps \<open>inversion of the operators on actions\<close>

type_synonym ('s, 'e, 'a) action = "'s \<Rightarrow> 's \<times> ('e + 'a)"

definition pureA :: "'a \<Rightarrow> ('s, 'e, 'a) action" where
  "pureA x s = (s, Inr x)"

definition raiseA :: "'e \<Rightarrow> ('s, 'e, 'a) action" where
  "raiseA e s = (s, Inl e)"

definition bindA :: "('s, 'e, 'a) action \<Rightarrow> ('a \<Rightarrow> ('s, 'e, 'b) action) \<Rightarrow> ('s, 'e, 'b) action" where
  "bindA m f s = (case m s of (s', Inl e) \<Rightarrow> (s', Inl e) | (s', Inr x) \<Rightarrow> f x s')"

text \<open>A pure computation that may raise, a look at the state, an update, a guard.\<close>

definition liftA :: "'e + 'a \<Rightarrow> ('s, 'e, 'a) action" where
  "liftA r s = (s, r)"

definition readA :: "('s \<Rightarrow> 'a) \<Rightarrow> ('s, 'e, 'a) action" where
  "readA f s = (s, Inr (f s))"

definition updateA :: "('s \<Rightarrow> 's) \<Rightarrow> ('s, 'e, unit) action" where
  "updateA f s = (f s, Inr ())"

definition requireA :: "bool \<Rightarrow> 'e \<Rightarrow> ('s, 'e, unit) action" where
  "requireA c e = (if c then pureA () else raiseA e)"

fun forA :: "('x \<Rightarrow> ('s, 'e, unit) action) \<Rightarrow> 'x list \<Rightarrow> ('s, 'e, unit) action" where
  "forA f [] = pureA ()"
| "forA f (x # xs) = bindA (f x) (\<lambda>_. forA f xs)"

fun mapA :: "('x \<Rightarrow> ('s, 'e, 'a) action) \<Rightarrow> 'x list \<Rightarrow> ('s, 'e, 'a list) action" where
  "mapA f [] = pureA []"
| "mapA f (x # xs) = bindA (f x) (\<lambda>y. bindA (mapA f xs) (\<lambda>ys. pureA (y # ys)))"

text \<open>
  \<open>try: m finally: f\<close>, and \<open>try: m except BaseException as e: h(e); raise\<close>. An exception
  of the handler replaces the one being handled.
\<close>

definition finallyA :: "('s, 'e, 'a) action \<Rightarrow> ('s, 'e, unit) action \<Rightarrow> ('s, 'e, 'a) action" where
  "finallyA m f s =
     (case m s of (s1, r) \<Rightarrow> case f s1 of (s2, Inl e) \<Rightarrow> (s2, Inl e) | (s2, Inr _) \<Rightarrow> (s2, r))"

definition reraiseA :: "('s, 'e, 'a) action \<Rightarrow> ('e \<Rightarrow> ('s, 'e, unit) action) \<Rightarrow> ('s, 'e, 'a) action" where
  "reraiseA m h s =
     (case m s of
        (s1, Inr x) \<Rightarrow> (s1, Inr x)
      | (s1, Inl e) \<Rightarrow> (case h e s1 of (s2, Inl e') \<Rightarrow> (s2, Inl e') | (s2, Inr _) \<Rightarrow> (s2, Inl e)))"

text \<open>\<open>try: m except BaseException as e: saved = e\<close>: the result is kept and nothing is raised.\<close>

definition attemptA :: "('s, 'e, 'a) action \<Rightarrow> ('s, 'd, 'e + 'a) action" where
  "attemptA m s = (case m s of (s', r) \<Rightarrow> (s', Inr r))"

text \<open>The same call under another type of exceptions, and \<open>try: m except E as e: h(e)\<close>.\<close>

definition retype :: "('e \<Rightarrow> 'f) \<Rightarrow> ('s, 'e, 'a) action \<Rightarrow> ('s, 'f, 'a) action" where
  "retype h m s = (case m s of (s', r) \<Rightarrow> (s', mapE h r))"

definition handleA :: "('s, 'e, 'a) action \<Rightarrow> ('e \<Rightarrow> ('s, 'e, 'a) action) \<Rightarrow> ('s, 'e, 'a) action" where
  "handleA m h s = (case m s of (s', Inl e) \<Rightarrow> h e s' | (s', Inr x) \<Rightarrow> (s', Inr x))"

text \<open>A loop over results rather than actions.\<close>

fun forR :: "('x \<Rightarrow> 'e + unit) \<Rightarrow> 'x list \<Rightarrow> 'e + unit" where
  "forR f [] = Inr ()"
| "forR f (x # xs) = bindR (f x) (\<lambda>_. forR f xs)"

fun mapR :: "('x \<Rightarrow> 'e + 'a) \<Rightarrow> 'x list \<Rightarrow> 'e + 'a list" where
  "mapR f [] = Inr []"
| "mapR f (x # xs) = bindR (f x) (\<lambda>y. bindR (mapR f xs) (\<lambda>ys. Inr (y # ys)))"

subsection \<open>Inversion\<close>

lemma pureA_eq [action_simps]: "pureA x s = (s', r) \<longleftrightarrow> s' = s \<and> r = Inr x"
  by (auto simp: pureA_def)

lemma raiseA_eq [action_simps]: "raiseA e s = (s', r) \<longleftrightarrow> s' = s \<and> r = Inl e"
  by (auto simp: raiseA_def)

lemma liftA_eq [action_simps]: "liftA q s = (s', r) \<longleftrightarrow> s' = s \<and> q = r"
  by (auto simp: liftA_def)

lemma readA_eq [action_simps]: "readA f s = (s', r) \<longleftrightarrow> s' = s \<and> r = Inr (f s)"
  by (auto simp: readA_def)

lemma updateA_eq [action_simps]: "updateA f s = (s', r) \<longleftrightarrow> s' = f s \<and> r = Inr ()"
  by (auto simp: updateA_def)

lemma requireA_eq [action_simps]:
  "requireA c e s = (s', r) \<longleftrightarrow> s' = s \<and> r = (if c then Inr () else Inl e)"
  by (auto simp: requireA_def action_simps)

lemma bindA_Inr_iff [action_simps]:
  "bindA m f s = (s', Inr y) \<longleftrightarrow> (\<exists>s1 x. m s = (s1, Inr x) \<and> f x s1 = (s', Inr y))"
  by (auto simp: bindA_def split: prod.splits sum.splits)

lemma bindA_Inl_iff [action_simps]:
  "bindA m f s = (s', Inl e) \<longleftrightarrow>
     m s = (s', Inl e) \<or> (\<exists>s1 x. m s = (s1, Inr x) \<and> f x s1 = (s', Inl e))"
  by (auto simp: bindA_def split: prod.splits sum.splits)

lemma bindA_Inr: "m s = (s1, Inr x) \<Longrightarrow> bindA m f s = f x s1"
  by (simp add: bindA_def)

lemma retype_eq [action_simps]: "retype h m s = (s', r) \<longleftrightarrow> (\<exists>q. m s = (s', q) \<and> r = mapE h q)"
  by (auto simp: retype_def split: prod.splits)

lemma handleA_Inr_iff [action_simps]:
  "handleA m h s = (s', Inr x) \<longleftrightarrow> m s = (s', Inr x) \<or> (\<exists>s1 e. m s = (s1, Inl e) \<and> h e s1 = (s', Inr x))"
  by (auto simp: handleA_def split: prod.splits sum.splits)

lemma handleA_Inl_iff [action_simps]:
  "handleA m h s = (s', Inl d) \<longleftrightarrow> (\<exists>s1 e. m s = (s1, Inl e) \<and> h e s1 = (s', Inl d))"
  by (auto simp: handleA_def split: prod.splits sum.splits)

lemma mapR_Inr_iff: "mapR f xs = Inr ys \<longleftrightarrow> list_all2 (\<lambda>x y. f x = Inr y) xs ys"
  by (induction xs arbitrary: ys) (auto simp: result_simps list_all2_Cons1)

lemma forR_Inr_iff: "forR f xs = Inr () \<longleftrightarrow> (\<forall>x \<in> set xs. f x = Inr ())"
  by (induction xs) (auto simp: result_simps)

subsection \<open>Preservation\<close>

text \<open>
  \<open>stable R m\<close>: however the action ends, its final state is related to its initial one by
  \<open>R\<close>. For a reflexive and transitive \<open>R\<close> the operators preserve it.
\<close>

definition stable :: "('s \<Rightarrow> 's \<Rightarrow> bool) \<Rightarrow> ('s, 'e, 'a) action \<Rightarrow> bool" where
  "stable R m \<longleftrightarrow> (\<forall>s s' r. m s = (s', r) \<longrightarrow> R s s')"

lemma stableD: "stable R m \<Longrightarrow> m s = (s', r) \<Longrightarrow> R s s'"
  by (auto simp: stable_def)

locale state_order =
  fixes R :: "'s \<Rightarrow> 's \<Rightarrow> bool"
  assumes R_refl: "R s s" and R_trans: "R s t \<Longrightarrow> R t u \<Longrightarrow> R s u"
begin

lemma stable_pureA [intro, simp]: "stable R (pureA x)"
  by (simp add: stable_def action_simps R_refl)

lemma stable_raiseA [intro, simp]: "stable R (raiseA e)"
  by (simp add: stable_def action_simps R_refl)

lemma stable_liftA [intro, simp]: "stable R (liftA r)"
  by (simp add: stable_def action_simps R_refl)

lemma stable_readA [intro, simp]: "stable R (readA f)"
  by (simp add: stable_def action_simps R_refl)

lemma stable_requireA [intro, simp]: "stable R (requireA c e)"
  by (simp add: stable_def action_simps R_refl)

lemma stable_updateA: "(\<And>s. R s (f s)) \<Longrightarrow> stable R (updateA f)"
  by (simp add: stable_def action_simps)

lemma stable_bindA [intro]:
  assumes "stable R m" and "\<And>x. stable R (f x)"
  shows "stable R (bindA m f)"
  unfolding stable_def
proof (intro allI impI)
  fix s s' r
  assume run: "bindA m f s = (s', r)"
  obtain s1 q where m: "m s = (s1, q)" by fastforce
  show "R s s'"
  proof (cases q)
    case (Inl e)
    with run m assms(1) show ?thesis by (auto simp: bindA_def dest: stableD)
  next
    case (Inr x)
    with run m have "f x s1 = (s', r)" by (simp add: bindA_def)
    with m assms show ?thesis by (blast intro: R_trans dest: stableD)
  qed
qed

lemma stable_forA [intro]: "(\<And>x. stable R (f x)) \<Longrightarrow> stable R (forA f xs)"
  by (induction xs) auto

lemma stable_mapA [intro]: "(\<And>x. stable R (f x)) \<Longrightarrow> stable R (mapA f xs)"
  by (induction xs) auto

lemma stable_finallyA [intro]: "stable R m \<Longrightarrow> stable R f \<Longrightarrow> stable R (finallyA m f)"
  unfolding stable_def finallyA_def
  by (auto split: prod.splits sum.splits) (metis R_trans)+

lemma stable_reraiseA [intro]: "stable R m \<Longrightarrow> (\<And>e. stable R (h e)) \<Longrightarrow> stable R (reraiseA m h)"
  unfolding stable_def reraiseA_def
  by (auto split: prod.splits sum.splits) (metis R_trans)+

lemma stable_attemptA [intro]: "stable R m \<Longrightarrow> stable R (attemptA m)"
  by (auto simp: stable_def attemptA_def split: prod.splits)

lemma stable_if [intro]: "stable R m \<Longrightarrow> stable R n \<Longrightarrow> stable R (if c then m else n)"
  by simp

end

subsection \<open>Triples\<close>

text \<open>
  \<open>triple P m Q E\<close>: from a state where \<open>P\<close> holds, the action ends in \<open>Q\<close> of its value or in
  \<open>E\<close> of its exception. The rules below step through a sequence of statements.
\<close>

definition triple ::
  "('s \<Rightarrow> bool) \<Rightarrow> ('s, 'e, 'a) action \<Rightarrow> ('a \<Rightarrow> 's \<Rightarrow> bool) \<Rightarrow> ('e \<Rightarrow> 's \<Rightarrow> bool) \<Rightarrow> bool" where
  "triple P m Q E \<longleftrightarrow> (\<forall>s s' r. P s \<longrightarrow> m s = (s', r) \<longrightarrow> (case r of Inl e \<Rightarrow> E e s' | Inr x \<Rightarrow> Q x s'))"

lemma tripleI:
  assumes "\<And>s s' x. P s \<Longrightarrow> m s = (s', Inr x) \<Longrightarrow> Q x s'" and "\<And>s s' e. P s \<Longrightarrow> m s = (s', Inl e) \<Longrightarrow> E e s'"
  shows "triple P m Q E"
  using assms by (auto simp: triple_def split: sum.splits)

lemma triple_Inr: "triple P m Q E \<Longrightarrow> P s \<Longrightarrow> m s = (s', Inr x) \<Longrightarrow> Q x s'"
  and triple_Inl: "triple P m Q E \<Longrightarrow> P s \<Longrightarrow> m s = (s', Inl e) \<Longrightarrow> E e s'"
  by (auto simp: triple_def)

lemma triple_weaken:
  "triple P m Q E \<Longrightarrow> (\<And>s. P' s \<Longrightarrow> P s) \<Longrightarrow> (\<And>x s. Q x s \<Longrightarrow> Q' x s) \<Longrightarrow> (\<And>e s. E e s \<Longrightarrow> E' e s) \<Longrightarrow> triple P' m Q' E'"
  by (fastforce simp: triple_def split: sum.splits)

lemma triple_bindA:
  assumes "triple P m Q E" and "\<And>x. triple (Q x) (f x) R E"
  shows "triple P (bindA m f) R E"
  using assms by (intro tripleI) (auto simp: action_simps dest: triple_Inr triple_Inl)

text \<open>A statement that only moves along \<open>R\<close> keeps what is closed under \<open>R\<close>.\<close>

lemma triple_stable:
  assumes "stable R m" and "\<And>s s'. P s \<Longrightarrow> R s s' \<Longrightarrow> P s'" and "\<And>e s. P s \<Longrightarrow> E e s"
  shows "triple P m (\<lambda>_. P) E"
  using assms by (intro tripleI) (auto dest: stableD)

lemma triple_liftA: "(\<And>e s. P s \<Longrightarrow> E e s) \<Longrightarrow> triple P (liftA r) (\<lambda>x s. P s \<and> r = Inr x) E"
  by (auto intro!: tripleI simp: action_simps)

lemma triple_readA: "triple P (readA f) (\<lambda>x s. P s \<and> x = f s) E"
  by (auto intro!: tripleI simp: action_simps)

lemma triple_requireA: "(\<And>e s. P s \<Longrightarrow> E e s) \<Longrightarrow> triple P (requireA c e) (\<lambda>_ s. P s \<and> c) E"
  by (auto intro!: tripleI simp: action_simps split: if_splits)

lemma triple_forA:
  assumes "\<And>x. triple I (f x) (\<lambda>_. I) E"
  shows "triple I (forA f xs) (\<lambda>_. I) E"
proof (induction xs)
  case Nil
  then show ?case by (auto intro!: tripleI simp: action_simps)
next
  case (Cons x xs)
  then show ?case using assms by (auto intro: triple_bindA)
qed

lemma finallyA_eq:
  "finallyA m f s = (s', r) \<longleftrightarrow>
     (\<exists>s1 q p. m s = (s1, q) \<and> f s1 = (s', p) \<and> r = (case p of Inl e \<Rightarrow> Inl e | Inr _ \<Rightarrow> q))"
  by (fastforce simp: finallyA_def split: prod.splits sum.splits)

lemma finallyA_Inr_iff [action_simps]:
  "finallyA m f s = (s', Inr x) \<longleftrightarrow> (\<exists>s1. m s = (s1, Inr x) \<and> f s1 = (s', Inr ()))"
  by (auto simp: finallyA_def split: prod.splits sum.splits)

lemma finallyA_Inl_iff [action_simps]:
  "finallyA m f s = (s', Inl e) \<longleftrightarrow> (\<exists>s1 q. m s = (s1, q) \<and> (f s1 = (s', Inl e) \<or> q = Inl e \<and> f s1 = (s', Inr ())))"
  by (auto simp: finallyA_def split: prod.splits sum.splits)

lemma reraiseA_Inr_iff [action_simps]: "reraiseA m h s = (s', Inr x) \<longleftrightarrow> m s = (s', Inr x)"
  by (auto simp: reraiseA_def split: prod.splits sum.splits)

lemma reraiseA_Inl_iff [action_simps]:
  "reraiseA m h s = (s', Inl e) \<longleftrightarrow>
     (\<exists>s1 d. m s = (s1, Inl d) \<and> (h d s1 = (s', Inl e) \<or> e = d \<and> h d s1 = (s', Inr ())))"
  by (auto simp: reraiseA_def split: prod.splits sum.splits)

lemma triple_finallyA:
  assumes "triple P m Q E" and "\<And>x. triple (Q x) f (\<lambda>_. R x) F" and "\<And>e. triple (E e) f (\<lambda>_. F e) F"
  shows "triple P (finallyA m f) R F"
proof (rule tripleI)
  fix s s' x
  assume "P s" "finallyA m f s = (s', Inr x)"
  then obtain s1 where "m s = (s1, Inr x)" "f s1 = (s', Inr ())" by (auto simp: action_simps)
  with assms(1,2) \<open>P s\<close> show "R x s'" by (blast dest: triple_Inr)
next
  fix s s' e
  assume "P s" "finallyA m f s = (s', Inl e)"
  then obtain s1 q where r: "m s = (s1, q)" "f s1 = (s', Inl e) \<or> q = Inl e \<and> f s1 = (s', Inr ())" by (auto simp: action_simps)
  show "F e s'"
  proof (cases q)
    case (Inl d)
    with r(1) assms(1) \<open>P s\<close> have "E d s1" by (blast dest: triple_Inl)
    with r(2) assms(3) [of d] Inl show ?thesis by (auto dest: triple_Inl triple_Inr)
  next
    case (Inr x)
    with r(1) assms(1) \<open>P s\<close> have "Q x s1" by (blast dest: triple_Inr)
    with r(2) assms(2) [of x] Inr show ?thesis by (auto dest: triple_Inl)
  qed
qed

lemma triple_reraiseA:
  assumes "triple P m Q E" and "\<And>e. triple (E e) (h e) (\<lambda>_. F e) F"
  shows "triple P (reraiseA m h) Q F"
  using assms by (intro tripleI) (auto simp: action_simps dest: triple_Inl triple_Inr)

lemma attemptA_eq [action_simps]: "attemptA m s = (s', r) \<longleftrightarrow> (\<exists>q. m s = (s', q) \<and> r = Inr q)"
  by (auto simp: attemptA_def split: prod.splits)

lemma triple_attemptA:
  "triple P m Q E \<Longrightarrow> triple P (attemptA m) (\<lambda>r s. case r of Inl e \<Rightarrow> E e s | Inr x \<Rightarrow> Q x s) F"
  by (auto simp: triple_def action_simps split: sum.splits)

lemma triple_case_sum:
  assumes "triple P m Q E" and "\<And>x s. Q x s \<Longrightarrow> R s" and "\<And>e s. E e s \<Longrightarrow> R s" and "P s" and "m s = (s', r)"
  shows "R s'"
  using assms by (cases r) (auto dest: triple_Inl triple_Inr)

lemma triple_some: "(\<And>x. triple (P x) m Q E) \<Longrightarrow> triple (\<lambda>s. \<exists>x. P x s) m Q E"
  by (auto simp: triple_def)

lemma triple_fact: "(c \<Longrightarrow> triple P m Q E) \<Longrightarrow> triple (\<lambda>s. P s \<and> c) m Q E"
  by (auto simp: triple_def)

lemma triple_post: "triple P m Q E \<Longrightarrow> (\<And>e s. E e s \<Longrightarrow> E' e s) \<Longrightarrow> triple P m Q E'"
  by (rule triple_weaken)

lemma triple_keeps:
  "triple P (liftA r) (\<lambda>_. P) (\<lambda>_. P)" "triple P (requireA c e) (\<lambda>_. P) (\<lambda>_. P)" "triple P (pureA x) (\<lambda>_. P) (\<lambda>_. P)"
  "triple P (raiseA e) Q (\<lambda>_. P)" "triple P (readA f) (\<lambda>_. P) (\<lambda>_. P)"
  by (auto intro!: tripleI simp: action_simps split: if_splits)

lemma bindA_assoc: "bindA (bindA m f) g = bindA m (\<lambda>x. bindA (f x) g)"
  by (rule ext) (simp add: bindA_def split: prod.splits sum.splits)

lemma bindA_pureA: "bindA (pureA x) f = f x"
  by (rule ext) (simp add: bindA_def pureA_def)

lemma bindA_raiseA [simp]: "bindA (raiseA e) f = raiseA e"
  by (rule ext) (simp add: bindA_def raiseA_def)

end
