(* ===== verification/Pytext.thy ===== *)
theory Pytext
  imports Prelude Complex_Main
begin

section \<open>Text the tools print and read: numbers, words of a line\<close>

text \<open>
  Decimal and hexadecimal printing of integers, \<open>int(text)\<close> and \<open>int(text, 0)\<close>,
  \<open>str.split(sep)\<close>, the \<open>%g\<close> rendering of a number, and UTF-8 encoding of text. Text is
  an Isabelle string, so a character is a code point below 256.
\<close>

subsection \<open>Printing integers\<close>

fun dec :: "nat \<Rightarrow> string" where
  "dec n = (if n < 10 then [hex_digit n] else dec (n div 10) @ [hex_digit (n mod 10)])"

declare dec.simps [simp del]

definition dec_int :: "int \<Rightarrow> string" where
  "dec_int i = (if i < 0 then ''-'' @ dec (nat (- i)) else dec (nat i))"

fun hex_nat :: "nat \<Rightarrow> string" where
  "hex_nat n = (if n < 16 then [hex_digit n] else hex_nat (n div 16) @ [hex_digit (n mod 16)])"

declare hex_nat.simps [simp del]

definition zero_fill :: "nat \<Rightarrow> string \<Rightarrow> string" where
  "zero_fill w s = replicate (w - length s) (CHR ''0'') @ s"

text \<open>\<open>format(i, "0<w>x")\<close>: the sign counts towards the width.\<close>

definition hex_int :: "nat \<Rightarrow> int \<Rightarrow> string" where
  "hex_int w i = (if i < 0 then ''-'' @ zero_fill (w - 1) (hex_nat (nat (- i))) else zero_fill w (hex_nat (nat i)))"

subsection \<open>Printed numbers are distinct\<close>

definition dec_value :: "string \<Rightarrow> nat" where
  "dec_value s = foldl (\<lambda>acc c. acc * 10 + (of_char c - 48)) 0 s"

lemma digit_code: "n < 10 \<Longrightarrow> (of_char (hex_digit n) :: nat) = n + 48"
  using less_16_cases [of n] by (auto simp: hex_digit_def)

lemma dec_value_dec: "dec_value (dec n) = n"
proof (induction n rule: dec.induct)
  case (1 n)
  show ?case
  proof (cases "n < 10")
    case True
    then show ?thesis by (subst dec.simps) (simp add: dec_value_def digit_code)
  next
    case False
    have "dec_value (dec (n div 10) @ [hex_digit (n mod 10)]) = dec_value (dec (n div 10)) * 10 + n mod 10"
      by (simp add: dec_value_def digit_code)
    with 1 False show ?thesis by (subst dec.simps) simp
  qed
qed

lemma dec_digits: "c \<in> set (dec n) \<Longrightarrow> 48 \<le> (of_char c :: nat) \<and> (of_char c :: nat) \<le> 57"
proof (induction n rule: dec.induct)
  case (1 n)
  show ?case
  proof (cases "n < 10")
    case True
    with "1.prems" have "c = hex_digit n" by (subst (asm) dec.simps) simp
    with True digit_code [of n] show ?thesis by simp
  next
    case False
    with "1.prems" have "c \<in> set (dec (n div 10)) \<or> c = hex_digit (n mod 10)"
      by (subst (asm) dec.simps) auto
    with "1.IH" False digit_code [of "n mod 10"] show ?thesis by auto
  qed
qed

lemma zero_fill_dec: "dec_value (zero_fill w (dec i)) = i" "CHR ''-'' \<notin> set (zero_fill w (dec i))"
proof -
  have "dec_value (replicate k (CHR ''0'') @ s) = dec_value s" for k s
    by (induction k) (simp_all add: dec_value_def)
  then show "dec_value (zero_fill w (dec i)) = i" by (simp add: zero_fill_def dec_value_dec)
  show "CHR ''-'' \<notin> set (zero_fill w (dec i))" using dec_digits [of "CHR ''-''" i] by (auto simp: zero_fill_def)
qed

lemma append_sep_inject: "c \<notin> set a \<Longrightarrow> c \<notin> set b \<Longrightarrow> a @ c # x = b @ c # y \<Longrightarrow> a = b"
  by (induction a arbitrary: b) (auto simp: Cons_eq_append_conv append_eq_Cons_conv)

subsection \<open>Reading integers\<close>

definition py_space :: "char \<Rightarrow> bool" where
  "py_space c = (let n = of_char c :: nat in
     (9 \<le> n \<and> n \<le> 13) \<or> (28 \<le> n \<and> n \<le> 32) \<or> n = 133 \<or> n = 160)"

definition py_strip :: "string \<Rightarrow> string" where
  "py_strip s = rev (dropWhile py_space (rev (dropWhile py_space s)))"

definition digit_value :: "char \<Rightarrow> nat option" where
  "digit_value c =
     (let n = of_char c :: nat in
      if 48 \<le> n \<and> n \<le> 57 then Some (n - 48)
      else if 65 \<le> n \<and> n \<le> 90 then Some (n - 55)
      else if 97 \<le> n \<and> n \<le> 122 then Some (n - 87)
      else None)"

definition digit_in :: "nat \<Rightarrow> char \<Rightarrow> nat option" where
  "digit_in b c = (case digit_value c of Some v \<Rightarrow> if v < b then Some v else None | None \<Rightarrow> None)"

text \<open>Digits with single underscores between them.\<close>

fun more_digits :: "nat \<Rightarrow> nat \<Rightarrow> string \<Rightarrow> nat option" where
  "more_digits b acc [] = Some acc"
| "more_digits b acc (c # cs) =
     (if c = CHR ''_'' then
        (case cs of
           d # ds \<Rightarrow> (case digit_in b d of Some v \<Rightarrow> more_digits b (acc * b + v) ds | None \<Rightarrow> None)
         | [] \<Rightarrow> None)
      else case digit_in b c of Some v \<Rightarrow> more_digits b (acc * b + v) cs | None \<Rightarrow> None)"

text \<open>CPython refuses to convert more than 4300 digits in a base that is no power of two.\<close>

definition int_digits :: "nat \<Rightarrow> string \<Rightarrow> nat option" where
  "int_digits b s =
     (case s of
        [] \<Rightarrow> None
      | c # cs \<Rightarrow>
          if b = 10 \<and> 4300 < length (filter (\<lambda>c. c \<noteq> CHR ''_'') s) then None
          else (case digit_in b c of Some v \<Rightarrow> more_digits b v cs | None \<Rightarrow> None))"

definition drop_underscore :: "string \<Rightarrow> string" where
  "drop_underscore s = (case s of c # cs \<Rightarrow> if c = CHR ''_'' then cs else s | [] \<Rightarrow> s)"

definition int_base0 :: "string \<Rightarrow> nat option" where
  "int_base0 s =
     (case s of
        z # x # rest \<Rightarrow>
          if z \<noteq> CHR ''0'' then int_digits 10 s
          else if x = CHR ''x'' \<or> x = CHR ''X'' then int_digits 16 (drop_underscore rest)
          else if x = CHR ''o'' \<or> x = CHR ''O'' then int_digits 8 (drop_underscore rest)
          else if x = CHR ''b'' \<or> x = CHR ''B'' then int_digits 2 (drop_underscore rest)
          else (case int_digits 10 s of Some v \<Rightarrow> if v = 0 then Some 0 else None | None \<Rightarrow> None)
      | _ \<Rightarrow> int_digits 10 s)"

definition signed_int :: "(string \<Rightarrow> nat option) \<Rightarrow> string \<Rightarrow> int option" where
  "signed_int magnitude s =
     (case s of
        c # cs \<Rightarrow>
          if c = CHR ''-'' then map_option (\<lambda>n. - int n) (magnitude cs)
          else if c = CHR ''+'' then map_option int (magnitude cs)
          else map_option int (magnitude s)
      | [] \<Rightarrow> None)"

text \<open>\<open>int(s, 0)\<close> and \<open>int(s)\<close>; \<^const>\<open>None\<close> is \<open>ValueError\<close>.\<close>

definition py_int0 :: "string \<Rightarrow> int option" where
  "py_int0 s = signed_int int_base0 (py_strip s)"

definition py_int :: "string \<Rightarrow> int option" where
  "py_int s = signed_int (int_digits 10) (py_strip s)"

subsection \<open>Splitting\<close>

text \<open>\<open>s.split(c)\<close> for one separator character.\<close>

fun split_on :: "char \<Rightarrow> string \<Rightarrow> string list" where
  "split_on c [] = [[]]"
| "split_on c (d # ds) =
     (if d = c then [] # split_on c ds
      else case split_on c ds of
        w # ws \<Rightarrow> (d # w) # ws
      | [] \<Rightarrow> [[d]])"

lemma split_on_not_Nil [simp]: "split_on c s \<noteq> []"
  by (induction c s rule: split_on.induct) (auto split: list.splits)

lemma split_on_Cons_other:
  "d \<noteq> c \<Longrightarrow> split_on c (d # ds) = (d # hd (split_on c ds)) # tl (split_on c ds)"
  using split_on_not_Nil [of c ds] by (cases "split_on c ds") (auto simp del: split_on_not_Nil)

lemma join_split_on: "join_str [c] (split_on c s) = s"
proof (induction s)
  case (Cons d ds)
  show ?case
  proof (cases "d = c")
    case True
    with Cons.IH show ?thesis by (cases "split_on c ds") (auto simp: split_on_not_Nil)
  next
    case False
    obtain w ws where w: "split_on c ds = w # ws"
      using split_on_not_Nil [of c ds] by (cases "split_on c ds") (auto simp del: split_on_not_Nil)
    with False Cons.IH show ?thesis by (cases ws) auto
  qed
qed simp

lemma split_on_no_sep: "\<forall>w \<in> set (split_on c s). c \<notin> set w"
  by (induction c s rule: split_on.induct) (auto split: list.splits)

subsection \<open>Rounding and the \<open>%g\<close> rendering\<close>

definition round_half_even :: "rat \<Rightarrow> int" where
  "round_half_even x =
     (let f = \<lfloor>x\<rfloor>; r = x - of_int f in
      if r < 1 / 2 then f else if 1 / 2 < r then f + 1 else if even f then f else f + 1)"

text \<open>The decimal exponent of a positive number: \<open>10^e <= x < 10^(e+1)\<close>.\<close>

definition decimal_exponent :: "rat \<Rightarrow> int" where
  "decimal_exponent x =
     (if 1 \<le> x then int (length (dec (nat \<lfloor>x\<rfloor>))) - 1
      else case filter (\<lambda>k. 1 \<le> x * 10 ^ k) [1..<Suc (length (dec (nat (snd (quotient_of x)))))] of
        k # _ \<Rightarrow> - int k
      | [] \<Rightarrow> 0)"

definition strip_zeros :: "string \<Rightarrow> string" where
  "strip_zeros s = rev (dropWhile (\<lambda>c. c = CHR ''0'') (rev s))"

definition with_point :: "string \<Rightarrow> string \<Rightarrow> string" where
  "with_point whole rest = (if rest = [] then whole else whole @ ''.'' @ rest)"

definition scale10 :: "rat \<Rightarrow> int \<Rightarrow> rat" where
  "scale10 x k = (if 0 \<le> k then x * 10 ^ nat k else x / 10 ^ nat (- k))"

text \<open>A non-negative number with \<open>p\<close> significant digits, as \<open>format(x, '.<p>g')\<close> prints it.\<close>

definition format_sig :: "nat \<Rightarrow> rat \<Rightarrow> string" where
  "format_sig p x =
     (if x \<le> 0 then ''0''
      else let e = decimal_exponent x; n = nat (round_half_even (scale10 x (int p - 1 - e)));
               (n', e') = (if n = 10 ^ p then (10 ^ (p - 1), e + 1) else (n, e));
               ds = dec n' in
        if e' < - 4 \<or> int p \<le> e' then
          with_point (take 1 ds) (strip_zeros (drop 1 ds)) @ ''e'' @ (if e' < 0 then ''-'' else ''+'')
            @ zero_fill 2 (dec (nat \<bar>e'\<bar>))
        else if e' < 0 then with_point ''0'' (strip_zeros (replicate (nat (- e' - 1)) (CHR ''0'') @ ds))
        else with_point (take (nat e' + 1) ds) (strip_zeros (drop (nat e' + 1) ds)))"

definition format_g :: "rat \<Rightarrow> string" where
  "format_g = format_sig 6"

subsection \<open>UTF-8 encoding\<close>

definition utf8_char :: "char \<Rightarrow> bytes" where
  "utf8_char c = (let n = of_char c :: nat in
     if n < 128 then [word_of_nat n] else [word_of_nat (0xC0 + n div 64), word_of_nat (0x80 + n mod 64)])"

definition utf8_encode :: "string \<Rightarrow> bytes" where
  "utf8_encode s = concat (map utf8_char s)"

subsection \<open>Unicode\<close>

text \<open>\<open>\s\<close> and \<open>\d\<close> of regular expressions, which are what \<open>int\<close> and \<open>float\<close> take for white space and digits: code points of Unicode 14, the digits in blocks of ten.\<close>

definition space_point :: "nat \<Rightarrow> bool" where
  "space_point c \<longleftrightarrow> 9 \<le> c \<and> c \<le> 13 \<or> 28 \<le> c \<and> c \<le> 32 \<or> 8192 \<le> c \<and> c \<le> 8202
     \<or> c \<in> {133, 160, 5760, 8232, 8233, 8239, 8287, 12288}"

definition unicode_zeros :: "nat list" where
  "unicode_zeros =
     [48, 1632, 1776, 1984, 2406, 2534, 2662, 2790, 2918, 3046, 3174, 3302, 3430, 3558, 3664, 3792, 3872, 4160, 4240, 6112, 6160, 6470,
      6608, 6784, 6800, 6992, 7088, 7232, 7248, 42528, 43216, 43264, 43472, 43504, 43600, 44016, 65296, 66720, 68912, 69734, 69872, 69942,
      70096, 70384, 70736, 70864, 71248, 71360, 71472, 71904, 72016, 72784, 73040, 73120, 92768, 92864, 93008, 120782, 120792, 120802,
      120812, 120822, 123200, 123632, 125264, 130032]"

definition decimal_point :: "nat \<Rightarrow> nat option" where
  "decimal_point c = map_option (\<lambda>z. c - z) (find (\<lambda>z. z \<le> c \<and> c < z + 10) unicode_zeros)"

end
