(* ===== verification/Image.thy ===== *)
theory Image
  imports Prelude "HOL-Library.AList" "HOL-Library.Product_Lexorder" "HOL-Library.List_Lexorder"
begin

section \<open>Firmware images: Intel HEX, ELF and the programming guard\<close>

text \<open>
  Models \<open>src/tools/nrfkit_tools/image.py\<close>. A file system maps a path to the bytes of a
  readable file (\<^const>\<open>None\<close>: reading raises \<open>OSError\<close>). Addresses and range bounds are
  unbounded integers as in Python; offsets into a file are naturals. Every
  \<open>raise ImageContractError\<close> is a constructor of \<open>image_error\<close>, and \<open>StructError\<close> is the
  \<open>struct.error\<close> of an \<open>unpack_from\<close> past the end of the data. A dictionary is an
  association list in insertion order.
\<close>

type_synonym path = string
type_synonym filesystem = "path \<Rightarrow> bytes option"
type_synonym addr_range = "int \<times> int"

abbreviation ADDRESS_LIMIT :: int where "ADDRESS_LIMIT \<equiv> 0x100000000"

datatype image_error =
    CannotReadElf path
  | LayoutNotElf32
  | LayoutNotArmExecutable
  | InvalidSectionTable
  | InvalidSymbolTable
  | InvalidStringTable
  | InvalidSymbolNameOffset
  | UnterminatedSymbolName
  | SymbolNameNotUtf8
  | SymbolNotGlobalAbsolute code_points
  | DuplicatedSymbol code_points
  | MissingSymbols "code_points list"
  | NoImageData
  | CannotReadHex path
  | NoRecordMarker nat
  | NotHexadecimal nat
  | InvalidRecordLength nat
  | InvalidChecksum nat
  | RecordsAfterEof
  | ExceedsAddressSpace
  | ConflictingData int
  | MalformedEof
  | MalformedSegmentAddress
  | MalformedLinearAddress
  | MalformedStartAddress
  | UnsupportedRecordType nat
  | NoEofRecord
  | NotElf
  | ElfClassOrEncoding
  | ElfMachineNotArm
  | InvalidProgramTable
  | InvalidLoadRange
  | NoLoadSegments
  | InvalidImageRange
  | ForbiddenRegion addr_range string
  | OutsideAllowlist addr_range
  | BondImageNotExact
  | StructError

record parsed_image =
  image_path :: path
  ranges :: "addr_range list"
  entry :: "int option"

definition FORBIDDEN_RANGES :: "(int \<times> int \<times> string) list" where
  "FORBIDDEN_RANGES =
    [(0x00FFD080, 0x00FFD084, ''BOOTCONF''),
     (0x00FFD500, 0x00FFDA00, ''OTP''),
     (0x00FFD000, 0x00FFE000, ''UICR''),
     (0x00FFE000, 0x00FFF000, ''SICR''),
     (0x50049000, 0x5004A000, ''KMU''),
     (0x00FF8000, 0x00FFD000, ''factory information''),
     (0x00FFF000, 0x01000000, ''reserved configuration''),
     (0x0FF00000, 0x10000000, ''configuration alias'')]"

subsection \<open>Little-endian structures\<close>

text \<open>
  \<open>struct.Struct(f).unpack_from(data, offset)\<close> for a little-endian format given by its
  field widths; a byte-string field is represented by the integer of its bytes.
\<close>

fun unpack_fields :: "nat list \<Rightarrow> bytes \<Rightarrow> nat list" where
  "unpack_fields [] bs = []"
| "unpack_fields (w # ws) bs = from_le (take w bs) # unpack_fields ws (drop w bs)"

definition unpack_from :: "nat list \<Rightarrow> bytes \<Rightarrow> nat \<Rightarrow> image_error + nat list" where
  "unpack_from ws data offset =
     (if length data < offset + sum_list ws then Inl StructError
      else Inr (unpack_fields ws (drop offset data)))"

definition ELF32_HEADER :: "nat list" where
  "ELF32_HEADER = [16, 2, 2, 4, 4, 4, 4, 4, 2, 2, 2, 2, 2, 2]"
definition ELF64_HEADER :: "nat list" where
  "ELF64_HEADER = [16, 2, 2, 4, 8, 8, 8, 4, 2, 2, 2, 2, 2, 2]"
definition ELF32_PROGRAM :: "nat list" where
  "ELF32_PROGRAM = [4, 4, 4, 4, 4, 4, 4, 4]"
definition ELF64_PROGRAM :: "nat list" where
  "ELF64_PROGRAM = [4, 4, 8, 8, 8, 8, 8, 8]"
definition ELF32_SECTION :: "nat list" where
  "ELF32_SECTION = [4, 4, 4, 4, 4, 4, 4, 4, 4, 4]"
definition ELF32_SYMBOL :: "nat list" where
  "ELF32_SYMBOL = [4, 4, 4, 1, 1, 2]"

text \<open>\<open>[unpack_from(data, offset + i * size) for i in range(count)]\<close>.\<close>

fun unpack_table :: "nat list \<Rightarrow> bytes \<Rightarrow> nat \<Rightarrow> nat \<Rightarrow> image_error + nat list list" where
  "unpack_table ws data offset 0 = Inr []"
| "unpack_table ws data offset (Suc n) =
     bindR (unpack_from ws data offset) (\<lambda>vals.
       bindR (unpack_table ws data (offset + sum_list ws) n) (\<lambda>rest. Inr (vals # rest)))"

subsection \<open>Absolute symbols of an ELF32 image\<close>

type_synonym symbol_map = "(code_points \<times> nat) list"

definition symbol_name :: "bytes \<Rightarrow> nat \<Rightarrow> image_error + code_points" where
  "symbol_name strings name_offset =
     (if length strings \<le> name_offset then Inl InvalidSymbolNameOffset
      else if (0::byte) \<notin> set (drop name_offset strings) then Inl UnterminatedSymbolName
      else case utf8_decode (takeWhile (\<lambda>b. b \<noteq> 0) (drop name_offset strings)) of
        None \<Rightarrow> Inl SymbolNameNotUtf8
      | Some name \<Rightarrow> Inr name)"

fun symbol_entry ::
  "code_points set \<Rightarrow> bytes \<Rightarrow> nat list \<Rightarrow> symbol_map \<Rightarrow> image_error + symbol_map" where
  "symbol_entry wanted strings vals found =
     bindR (symbol_name strings (vals ! 0)) (\<lambda>name.
       if name \<notin> wanted then Inr found
       else if vals ! 5 \<noteq> 0xFFF1 \<or> vals ! 3 div 16 \<noteq> 1 then Inl (SymbolNotGlobalAbsolute name)
       else if map_of found name \<noteq> None then Inl (DuplicatedSymbol name)
       else Inr (found @ [(name, vals ! 1)]))"

fun symbol_entries ::
  "code_points set \<Rightarrow> bytes \<Rightarrow> nat list list \<Rightarrow> symbol_map \<Rightarrow> image_error + symbol_map" where
  "symbol_entries wanted strings [] found = Inr found"
| "symbol_entries wanted strings (e # es) found =
     bindR (symbol_entry wanted strings e found) (symbol_entries wanted strings es)"

definition symbol_section ::
  "code_points set \<Rightarrow> bytes \<Rightarrow> nat list list \<Rightarrow> nat list \<Rightarrow> symbol_map \<Rightarrow> image_error + symbol_map" where
  "symbol_section wanted data sections sh found =
     (if sh ! 1 \<noteq> 2 then Inr found
      else let symbol_offset = sh ! 4; symbol_size = sh ! 5; string_table = sh ! 6 in
        if length sections \<le> string_table \<or> sh ! 9 \<noteq> 16 \<or> symbol_size mod 16 \<noteq> 0
           \<or> symbol_offset < 52 \<or> length data < symbol_offset + symbol_size
        then Inl InvalidSymbolTable
        else let string_header = sections ! string_table;
                 string_offset = string_header ! 4; string_size = string_header ! 5 in
          if string_header ! 1 \<noteq> 3 \<or> string_size = 0 \<or> string_offset < 52
             \<or> length data < string_offset + string_size
          then Inl InvalidStringTable
          else let strings = py_slice data string_offset (string_offset + string_size) in
            bindR (unpack_table ELF32_SYMBOL data symbol_offset (symbol_size div 16))
              (\<lambda>entries. symbol_entries wanted strings entries found))"

fun symbol_sections ::
  "code_points set \<Rightarrow> bytes \<Rightarrow> nat list list \<Rightarrow> nat list list \<Rightarrow> symbol_map \<Rightarrow> image_error + symbol_map" where
  "symbol_sections wanted data sections [] found = Inr found"
| "symbol_sections wanted data sections (sh # shs) found =
     bindR (symbol_section wanted data sections sh found) (symbol_sections wanted data sections shs)"

definition parse_elf_absolute_symbols ::
  "filesystem \<Rightarrow> path \<Rightarrow> string list \<Rightarrow> string list \<Rightarrow> image_error + symbol_map" where
  "parse_elf_absolute_symbols fs path names optional =
     (let required = map code_points_of names;
          wanted = set required \<union> set (map code_points_of optional) in
      case fs path of
        None \<Rightarrow> Inl (CannotReadElf path)
      | Some data \<Rightarrow>
        if length data < 52 \<or> take 7 data \<noteq> [0x7F, 0x45, 0x4C, 0x46, 1, 1, 1] then Inl LayoutNotElf32
        else bindR (unpack_from ELF32_HEADER data 0) (\<lambda>vals.
          if vals ! 1 \<noteq> 2 \<or> vals ! 2 \<noteq> 40 \<or> vals ! 3 \<noteq> 1 then Inl LayoutNotArmExecutable
          else let offset = vals ! 6; entry_size = vals ! 11; count = vals ! 12 in
          if vals ! 8 \<noteq> 52 \<or> entry_size \<noteq> 40 \<or> count = 0 \<or> offset < 52
             \<or> length data < offset + count * entry_size
          then Inl InvalidSectionTable
          else bindR (unpack_table ELF32_SECTION data offset count) (\<lambda>sections.
            bindR (symbol_sections wanted data sections sections []) (\<lambda>found.
              let missing = filter (\<lambda>n. map_of found n = None) (sort (remdups required)) in
              if missing \<noteq> [] then Inl (MissingSymbols missing) else Inr found))))"

subsection \<open>Contiguous ranges of a set of addresses\<close>

fun ranges_loop :: "int \<Rightarrow> int \<Rightarrow> int list \<Rightarrow> addr_range list" where
  "ranges_loop start previous [] = [(start, previous + 1)]"
| "ranges_loop start previous (address # rest) =
     (if address \<noteq> previous + 1 then (start, previous + 1) # ranges_loop address address rest
      else ranges_loop start address rest)"

definition image_ranges :: "int list \<Rightarrow> image_error + addr_range list" where
  "image_ranges addresses =
     (case sort (remdups addresses) of
        [] \<Rightarrow> Inl NoImageData
      | first # rest \<Rightarrow> Inr (ranges_loop first first rest))"

subsection \<open>Intel HEX\<close>

type_synonym hex_memory = "(int \<times> byte) list"

record ihex_state =
  memory :: hex_memory
  base :: int
  eof :: bool

definition ihex_init :: ihex_state where
  "ihex_init = \<lparr>memory = [], base = 0, eof = False\<rparr>"

text \<open>The loop over a data record's payload, with \<open>memory.setdefault\<close> per byte.\<close>

fun store_payload :: "int \<Rightarrow> bytes \<Rightarrow> hex_memory \<Rightarrow> image_error + hex_memory" where
  "store_payload address [] m = Inr m"
| "store_payload address (v # vs) m =
     (case map_of m address of
        None \<Rightarrow> store_payload (address + 1) vs (m @ [(address, v)])
      | Some previous \<Rightarrow>
          if previous \<noteq> v then Inl (ConflictingData address)
          else store_payload (address + 1) vs m)"

definition ihex_record :: "nat \<Rightarrow> bytes \<Rightarrow> ihex_state \<Rightarrow> image_error + ihex_state" where
  "ihex_record number raw st =
     (if length raw < 5 \<or> length raw \<noteq> unat (raw ! 0) + 5 then Inl (InvalidRecordLength number)
      else if sum_list (map unat raw) mod 256 \<noteq> 0 then Inl (InvalidChecksum number)
      else let len = unat (raw ! 0); offset = unat (raw ! 1) * 256 + unat (raw ! 2);
               kind = unat (raw ! 3); payload = py_slice raw 4 (4 + len) in
        if eof st then Inl RecordsAfterEof
        else if kind = 0 then
          (let start = base st + int offset in
           if ADDRESS_LIMIT < start + int len then Inl ExceedsAddressSpace
           else bindR (store_payload start payload (memory st)) (\<lambda>m. Inr (st\<lparr>memory := m\<rparr>)))
        else if kind = 1 then
          (if len \<noteq> 0 \<or> offset \<noteq> 0 then Inl MalformedEof else Inr (st\<lparr>eof := True\<rparr>))
        else if kind = 2 then
          (if len \<noteq> 2 \<or> offset \<noteq> 0 then Inl MalformedSegmentAddress
           else Inr (st\<lparr>base := int (from_be payload) * 16\<rparr>))
        else if kind = 4 then
          (if len \<noteq> 2 \<or> offset \<noteq> 0 then Inl MalformedLinearAddress
           else Inr (st\<lparr>base := int (from_be payload) * 65536\<rparr>))
        else if kind = 3 \<or> kind = 5 then
          (if len \<noteq> 4 then Inl MalformedStartAddress else Inr st)
        else Inl (UnsupportedRecordType kind))"

definition ihex_line :: "nat \<Rightarrow> string \<Rightarrow> ihex_state \<Rightarrow> image_error + ihex_state" where
  "ihex_line number text st =
     (if \<not> prefix '':'' text then Inl (NoRecordMarker number)
      else case fromhex (drop 1 text) of
        None \<Rightarrow> Inl (NotHexadecimal number)
      | Some raw \<Rightarrow> ihex_record number raw st)"

fun ihex_lines :: "nat \<Rightarrow> string list \<Rightarrow> ihex_state \<Rightarrow> image_error + ihex_state" where
  "ihex_lines number [] st = Inr st"
| "ihex_lines number (l # ls) st = bindR (ihex_line number l st) (ihex_lines (Suc number) ls)"

definition ihex_text :: "filesystem \<Rightarrow> path \<Rightarrow> image_error + string list" where
  "ihex_text fs path =
     (case Option.bind (fs path) ascii_decode of
        None \<Rightarrow> Inl (CannotReadHex path)
      | Some text \<Rightarrow> Inr (splitlines text))"

definition parse_ihex :: "filesystem \<Rightarrow> path \<Rightarrow> image_error + parsed_image" where
  "parse_ihex fs path =
     bindR (ihex_text fs path) (\<lambda>lines.
       bindR (ihex_lines 1 lines ihex_init) (\<lambda>st.
         if \<not> eof st then Inl NoEofRecord
         else bindR (image_ranges (map fst (memory st))) (\<lambda>rs.
           Inr \<lparr>image_path = path, ranges = rs, entry = None\<rparr>)))"

subsection \<open>ELF load ranges\<close>

text \<open>\<open>(file_offset, physical, file_size)\<close> of a program header of either class.\<close>

definition load_fields :: "nat \<Rightarrow> nat list \<Rightarrow> nat \<times> nat \<times> nat" where
  "load_fields elf_class v =
     (if elf_class = 1 then (v ! 1, v ! 3, v ! 4) else (v ! 2, v ! 4, v ! 5))"

fun load_ranges ::
  "nat \<Rightarrow> nat \<Rightarrow> nat list list \<Rightarrow> addr_range list \<Rightarrow> image_error + addr_range list" where
  "load_ranges elf_class avail [] acc = Inr acc"
| "load_ranges elf_class avail (v # vs) acc =
     (if v ! 0 \<noteq> 1 then load_ranges elf_class avail vs acc
      else case load_fields elf_class v of (file_offset, physical, file_size) \<Rightarrow>
        if file_size = 0 then load_ranges elf_class avail vs acc
        else if avail < file_offset + file_size \<or> ADDRESS_LIMIT < int (physical + file_size)
        then Inl InvalidLoadRange
        else load_ranges elf_class avail vs (acc @ [(int physical, int (physical + file_size))]))"

definition parse_elf :: "filesystem \<Rightarrow> path \<Rightarrow> image_error + parsed_image" where
  "parse_elf fs path =
     (case fs path of
        None \<Rightarrow> Inl (CannotReadElf path)
      | Some data \<Rightarrow>
        if length data < 52 \<or> take 4 data \<noteq> [0x7F, 0x45, 0x4C, 0x46] then Inl NotElf
        else let elf_class = unat (data ! 4); encoding = unat (data ! 5) in
        if encoding \<noteq> 1 \<or> (elf_class \<noteq> 1 \<and> elf_class \<noteq> 2) then Inl ElfClassOrEncoding
        else let header = (if elf_class = 1 then ELF32_HEADER else ELF64_HEADER);
                 program = (if elf_class = 1 then ELF32_PROGRAM else ELF64_PROGRAM) in
        bindR (unpack_from header data 0) (\<lambda>vals.
          if vals ! 2 \<noteq> 40 then Inl ElfMachineNotArm
          else let offset = vals ! 5; entry_size = vals ! 9; count = vals ! 10 in
          if entry_size \<noteq> sum_list program \<or> length data < offset + count * entry_size
          then Inl InvalidProgramTable
          else bindR (unpack_table program data offset count) (\<lambda>headers.
            bindR (load_ranges elf_class (length data) headers []) (\<lambda>rs.
              if rs = [] then Inl NoLoadSegments
              else Inr \<lparr>image_path = path, ranges = sort rs, entry = Some (int (vals ! 4))\<rparr>))))"

subsection \<open>The programming guard\<close>

fun forbidden_label :: "addr_range \<Rightarrow> (int \<times> int \<times> string) list \<Rightarrow> string option" where
  "forbidden_label r [] = None"
| "forbidden_label r ((forbidden_start, forbidden_end, label) # rest) =
     (if fst r < forbidden_end \<and> forbidden_start < snd r then Some label
      else forbidden_label r rest)"

fun require_allowed :: "addr_range list \<Rightarrow> addr_range list \<Rightarrow> image_error + unit" where
  "require_allowed [] allowed = Inr ()"
| "require_allowed ((start, stop) # rest) allowed =
     (if start < 0 \<or> stop \<le> start \<or> ADDRESS_LIMIT < stop then Inl InvalidImageRange
      else case forbidden_label (start, stop) FORBIDDEN_RANGES of
        Some label \<Rightarrow> Inl (ForbiddenRegion (start, stop) label)
      | None \<Rightarrow>
        if \<not> list_ex (\<lambda>(a, b). a \<le> start \<and> stop \<le> b) allowed then Inl (OutsideAllowlist (start, stop))
        else require_allowed rest allowed)"

end
