(* ===== verification/Process.thy ===== *)
theory Process
  imports Effects Pytext Image
begin

section \<open>Child processes and atomic reports\<close>

text \<open>
  Models \<open>src/tools/nrfkit_tools/process.py\<close>. The host state holds the files, the paths that were
  made read-only with \<open>chmod 0o400\<close>, the children launched so far (argument vector and the files
  they could see), and the outside world as a value of an arbitrary type. A child is a
  parameter: given the outside world, the files and its arguments it yields a new outside
  world, new files, and either an exit code with its output or the output it had produced when the
  timeout expired. That a child cannot be started, or that its output cannot be decoded, is not modelled.
\<close>

record launch =
  launch_argv :: "string list"
  launch_files :: filesystem

record 'h host =
  files :: filesystem
  sealed :: "path list"
  launches :: "launch list"
  outside :: 'h

datatype run_end = Completed int string | Expired string

type_synonym 'h child = "'h \<Rightarrow> filesystem \<Rightarrow> string list \<Rightarrow> 'h \<times> filesystem \<times> run_end"

record process_result =
  returncode :: int
  timed_out :: bool
  stdout :: string

definition write_file :: "path \<Rightarrow> bytes \<Rightarrow> ('h host, 'e, unit) action" where
  "write_file p data = updateA (\<lambda>w. w\<lparr>files := (files w)(p := Some data)\<rparr>)"

definition seal :: "path \<Rightarrow> ('h host, 'e, unit) action" where
  "seal p = updateA (\<lambda>w. w\<lparr>sealed := sealed w @ [p]\<rparr>)"

definition read_file :: "'e \<Rightarrow> path \<Rightarrow> ('h host, 'e, bytes) action" where
  "read_file e p w = (case files w p of None \<Rightarrow> (w, Inl e) | Some data \<Rightarrow> (w, Inr data))"

definition path_join :: "path \<Rightarrow> string \<Rightarrow> path" where
  "path_join d name = d @ ''/'' @ name"

definition run_logged ::
  "'h child \<Rightarrow> (py_error \<Rightarrow> 'e) \<Rightarrow> string list \<Rightarrow> path \<Rightarrow> rat \<Rightarrow> ('h host, 'e, process_result) action" where
  "run_logged child raising argv log_path timeout w =
     (if timeout \<le> 0 then (w, Inl (raising ValueError))
      else case child (outside w) (files w) argv of (outside', files', ending) \<Rightarrow>
        let result = (case ending of
              Completed code out \<Rightarrow> \<lparr>returncode = code, timed_out = False, stdout = out\<rparr>
            | Expired out \<Rightarrow> \<lparr>returncode = 124, timed_out = True,
                stdout = out @ [LF] @ ''command timed out after '' @ format_g timeout @ '' seconds'' @ [LF]\<rparr>)
        in (w\<lparr>outside := outside', files := files'(log_path := Some (utf8_encode (stdout result))),
              launches := launches w @ [\<lparr>launch_argv = argv, launch_files = files w\<rparr>]\<rparr>,
            Inr result))"

text \<open>
  \<open>atomic_json\<close> prints to a temporary file beside the target and renames it over the target;
  \<open>rendered\<close> is the text \<open>json.dump(value, indent=2, sort_keys=True)\<close> prints.
\<close>

definition atomic_json :: "path \<Rightarrow> path \<Rightarrow> string \<Rightarrow> ('h host, 'e, unit) action" where
  "atomic_json temporary p rendered w =
     (let written = (files w)(temporary := Some (utf8_encode (rendered @ [LF])));
          replaced = written(p := written temporary, temporary := None) in
      (w\<lparr>files := replaced\<rparr>, Inr ()))"

lemma path_join_inject [simp]: "path_join d a = path_join d b \<longleftrightarrow> a = b"
  by (simp add: path_join_def)

subsection \<open>Launches are only ever added\<close>

definition host_grows :: "'h host \<Rightarrow> 'h host \<Rightarrow> bool" where
  "host_grows w w' \<longleftrightarrow> prefix (launches w) (launches w')"

definition quiet :: "'h host \<Rightarrow> 'h host \<Rightarrow> bool" where
  "quiet w w' \<longleftrightarrow> launches w' = launches w \<and> outside w' = outside w"

interpretation growing: state_order host_grows
  by unfold_locales (auto simp: host_grows_def)

interpretation quiet: state_order quiet
  by unfold_locales (auto simp: quiet_def)

lemma quiet_basic [simp]:
  "stable quiet (write_file p data)" "stable quiet (seal p)" "stable quiet (read_file e p)"
  "stable quiet (atomic_json t p rendered)"
  by (auto simp: stable_def quiet_def write_file_def seal_def read_file_def atomic_json_def
      action_simps Let_def split: option.splits)

lemma growing_basic [simp]:
  "stable host_grows (write_file p data)" "stable host_grows (seal p)" "stable host_grows (read_file e p)"
  "stable host_grows (atomic_json t p rendered)" "stable host_grows (run_logged c r argv log_path timeout)"
  by (auto simp: stable_def host_grows_def write_file_def seal_def read_file_def atomic_json_def
      run_logged_def action_simps Let_def split: option.splits if_splits prod.splits)

lemma read_file_eq [action_simps]:
  "read_file e p w = (w', Inr data) \<longleftrightarrow> w' = w \<and> files w p = Some data"
  by (auto simp: read_file_def split: option.splits)

lemma run_logged_timeout:
  "run_logged child raising argv log_path timeout w = (w', Inr result) \<Longrightarrow> timed_out result \<Longrightarrow> returncode result = 124"
  by (auto simp: run_logged_def Let_def split: if_splits prod.splits run_end.splits)

subsection \<open>Jobs that each write their own file\<close>

text \<open>
  A loop over numbered jobs, where job \<open>i\<close> writes only the path \<open>out i\<close> and leaves the outside
  world alone. What a job establishes survives the later jobs when it depends on no path they write.
\<close>

lemma mapA_jobs:
  assumes step: "\<And>i x w w' y. f (i, x) w = (w', Inr y) \<Longrightarrow>
      (\<forall>q. q \<noteq> out i \<longrightarrow> files w' q = files w q) \<and> set (sealed w) \<subseteq> set (sealed w') \<and> quiet w w' \<and> P w' i x y"
    and frame: "\<And>w w' i x y. P w i x y \<Longrightarrow> (\<And>q. (\<And>j. i < j \<Longrightarrow> q \<noteq> out j) \<Longrightarrow> files w' q = files w q) \<Longrightarrow>
      set (sealed w) \<subseteq> set (sealed w') \<Longrightarrow> P w' i x y"
  shows "mapA f (enumerate k xs) w = (w', Inr ys) \<Longrightarrow>
    length ys = length xs \<and> (\<forall>i < length xs. P w' (k + i) (xs ! i) (ys ! i))
    \<and> (\<forall>q. (\<forall>j \<ge> k. q \<noteq> out j) \<longrightarrow> files w' q = files w q) \<and> quiet w w' \<and> set (sealed w) \<subseteq> set (sealed w')"
proof (induction xs arbitrary: k w ys)
  case Nil
  then show ?case by (auto simp: action_simps quiet_def)
next
  case (Cons x xs)
  from Cons.prems obtain w1 y rest where
    r: "f (k, x) w = (w1, Inr y)" "mapA f (enumerate (Suc k) xs) w1 = (w', Inr rest)" "ys = y # rest"
    by (auto simp: action_simps)
  note one = step [OF r(1)] and ih = Cons.IH [OF r(2)]
  have "P w' k x y"
    using one ih by (intro frame [of w1 k x y w']) (auto simp: Suc_le_eq)
  moreover have "P w' (Suc (k + i)) (xs ! i) (rest ! i)" if "i < length xs" for i using ih that by simp
  ultimately have "\<forall>i < length (x # xs). P w' (k + i) ((x # xs) ! i) ((y # rest) ! i)"
    by (auto simp: nth_Cons split: nat.splits)
  moreover have "files w' q = files w q" if "\<forall>j \<ge> k. q \<noteq> out j" for q
    using one ih that by (metis Suc_leD order_refl)
  moreover have "quiet w w'" using one ih by (auto simp: quiet_def)
  ultimately show ?case using one ih r(3) by auto
qed

end
