(* ===== verification/Ranges.thy ===== *)
theory Ranges
  imports Image
begin

section \<open>Address ranges: coverage and normal form\<close>

text \<open>
  Half-open ranges \<open>(start, end)\<close> occur in three components: the ranges of a parsed image,
  the merged ranges that compare an ELF with a HEX image, and the merged ranges of a
  backup. Here is what they mean (\<open>covers\<close>), the normal form all three produce
  (non-empty, ascending, never touching), and the uniqueness of that form.
\<close>

definition covers :: "addr_range list \<Rightarrow> int set" where
  "covers rs = (\<Union>(a, b) \<in> set rs. {a..<b})"

definition nonempty_ranges :: "addr_range list \<Rightarrow> bool" where
  "nonempty_ranges rs = list_all (\<lambda>(a, b). a < b) rs"

fun normal_ranges :: "addr_range list \<Rightarrow> bool" where
  "normal_ranges [] = True"
| "normal_ranges [(a, b)] = (a < b)"
| "normal_ranges ((a, b) # (c, d) # rest) = (a < b \<and> b < c \<and> normal_ranges ((c, d) # rest))"

lemma covers_Nil [simp]: "covers [] = {}"
  by (simp add: covers_def)

lemma covers_Cons [simp]: "covers ((a, b) # rs) = {a..<b} \<union> covers rs"
  by (simp add: covers_def)

lemma covers_append [simp]: "covers (xs @ ys) = covers xs \<union> covers ys"
  by (simp add: covers_def)

lemma covers_set_eq: "set xs = set ys \<Longrightarrow> covers xs = covers ys"
  by (simp add: covers_def)

lemma covers_memI: "(a, b) \<in> set rs \<Longrightarrow> a \<le> x \<Longrightarrow> x < b \<Longrightarrow> x \<in> covers rs"
  by (force simp: covers_def)

lemma covers_memD: "x \<in> covers rs \<Longrightarrow> \<exists>a b. (a, b) \<in> set rs \<and> a \<le> x \<and> x < b"
  by (auto simp: covers_def) blast

lemma normal_ranges_tl: "normal_ranges (r # rs) \<Longrightarrow> normal_ranges rs"
  by (cases r; cases rs rule: normal_ranges.cases) auto

lemma normal_ranges_nonempty: "normal_ranges rs \<Longrightarrow> (a, b) \<in> set rs \<Longrightarrow> a < b"
  by (induction rs rule: normal_ranges.induct) auto

lemma normal_ranges_above:
  "normal_ranges ((a, b) # rs) \<Longrightarrow> x \<in> covers rs \<Longrightarrow> b < x"
proof (induction rs arbitrary: a b)
  case Nil
  then show ?case by simp
next
  case (Cons r rs)
  obtain c d where r: "r = (c, d)" by (cases r)
  from Cons.prems r have step: "b < c" "c < d" "normal_ranges ((c, d) # rs)"
    by (auto dest: normal_ranges_tl normal_ranges_nonempty)
  from Cons.prems(2) r have "x \<in> {c..<d} \<or> x \<in> covers rs" by auto
  with step Cons.IH [of c d] show ?case by auto
qed

lemma normal_ranges_head_min:
  "normal_ranges ((a, b) # rs) \<Longrightarrow> a \<in> covers ((a, b) # rs) \<and> (\<forall>x \<in> covers ((a, b) # rs). a \<le> x)"
  using normal_ranges_above [of a b rs] normal_ranges_nonempty [of "(a, b) # rs" a b] by fastforce

text \<open>The head range of a normal form is the maximal run that starts at the least address.\<close>

lemma normal_ranges_head_end:
  assumes "normal_ranges ((a, b) # rs)"
  shows "b \<notin> covers ((a, b) # rs) \<and> (\<forall>x. a \<le> x \<and> x < b \<longrightarrow> x \<in> covers ((a, b) # rs))"
  using normal_ranges_above [OF assms] by auto

theorem normal_ranges_unique:
  "normal_ranges xs \<Longrightarrow> normal_ranges ys \<Longrightarrow> covers xs = covers ys \<Longrightarrow> xs = ys"
proof (induction xs arbitrary: ys)
  case Nil
  then show ?case
    using normal_ranges_head_min by (cases ys) (auto, metis emptyE surj_pair covers_Cons)
next
  case (Cons x xs)
  obtain a b where x: "x = (a, b)" by (cases x)
  from Cons.prems x have "covers ys \<noteq> {}" using normal_ranges_head_min [of a b xs] by auto
  then obtain c d zs where ys: "ys = (c, d) # zs" by (cases ys) auto
  have nx: "normal_ranges ((a, b) # xs)" and ny: "normal_ranges ((c, d) # zs)"
    and eq: "covers ((a, b) # xs) = covers ((c, d) # zs)"
    using Cons.prems x ys by auto
  have ac: "a = c"
    using normal_ranges_head_min [OF nx] normal_ranges_head_min [OF ny] eq
    by (metis order_antisym)
  have bd: "b = d"
    using normal_ranges_head_end [OF nx] normal_ranges_head_end [OF ny] eq ac
      normal_ranges_nonempty [OF nx, of a b] normal_ranges_nonempty [OF ny, of c d]
    by (metis less_imp_le linorder_neqE list.set_intros(1))
  have tails: "covers xs = covers zs"
  proof -
    have "covers xs = covers ((a, b) # xs) - {a..<b}"
      using normal_ranges_above [OF nx] by fastforce
    moreover have "covers zs = covers ((c, d) # zs) - {c..<d}"
      using normal_ranges_above [OF ny] by fastforce
    ultimately show ?thesis using eq ac bd by simp
  qed
  from Cons.IH [OF normal_ranges_tl [OF nx] normal_ranges_tl [OF ny] tails] ac bd x ys
  show ?case by simp
qed

subsection \<open>The interface of a range normaliser\<close>

text \<open>
  Both merging routines of the program promise the same: on non-empty ranges the result is
  normal and covers the same addresses. Everything their callers use follows from that.
\<close>

locale range_normaliser =
  fixes norm :: "addr_range list \<Rightarrow> addr_range list"
  assumes norm_covers: "nonempty_ranges rs \<Longrightarrow> covers (norm rs) = covers rs"
    and norm_normal: "nonempty_ranges rs \<Longrightarrow> normal_ranges (norm rs)"
begin

lemma norm_eq_iff:
  "nonempty_ranges xs \<Longrightarrow> nonempty_ranges ys \<Longrightarrow> norm xs = norm ys \<longleftrightarrow> covers xs = covers ys"
  by (metis norm_covers norm_normal normal_ranges_unique)

lemma norm_fixpoint: "normal_ranges xs \<Longrightarrow> norm xs = xs"
proof -
  assume n: "normal_ranges xs"
  then have "nonempty_ranges xs"
    by (auto simp: nonempty_ranges_def list_all_iff dest: normal_ranges_nonempty)
  with n show ?thesis by (intro normal_ranges_unique) (auto simp: norm_covers norm_normal)
qed

lemma norm_idem: "nonempty_ranges xs \<Longrightarrow> norm (norm xs) = norm xs"
  by (simp add: norm_fixpoint norm_normal)

end

text \<open>
  Merging by one sweep over the sorted ranges, the loop of \<open>sdk._merged\<close> and of
  \<open>openocd_cli._backup_ranges\<close>: the last merged range is extended when the next range
  starts inside it or right at its end.
\<close>

fun merge_sweep :: "addr_range list \<Rightarrow> addr_range list \<Rightarrow> addr_range list" where
  "merge_sweep result [] = result"
| "merge_sweep result ((start, stop) # rest) =
     (if result \<noteq> [] \<and> start \<le> snd (last result)
      then merge_sweep (butlast result @ [(fst (last result), max (snd (last result)) stop)]) rest
      else merge_sweep (result @ [(start, stop)]) rest)"

lemma normal_ranges_snoc:
  "normal_ranges (xs @ [(a, b)]) \<longleftrightarrow>
     normal_ranges xs \<and> a < b \<and> (xs \<noteq> [] \<longrightarrow> snd (last xs) < a)"
  by (induction xs rule: normal_ranges.induct) auto

lemma normal_ranges_extend:
  "normal_ranges (xs @ [(a, b)]) \<Longrightarrow> normal_ranges (xs @ [(a, max b c)])"
  by (auto simp: normal_ranges_snoc)

lemma merge_sweep_spec:
  assumes "normal_ranges result" and "nonempty_ranges rest" and "sorted rest"
    and "result \<noteq> [] \<Longrightarrow> list_all (\<lambda>r. fst (last result) \<le> fst r) rest"
  shows "normal_ranges (merge_sweep result rest)
    \<and> covers (merge_sweep result rest) = covers result \<union> covers rest"
  using assms
proof (induction result rest rule: merge_sweep.induct)
  case (1 result)
  then show ?case by simp
next
  case (2 result start stop rest)
  have se: "start < stop" and ne: "nonempty_ranges rest"
    using "2.prems"(2) by (auto simp: nonempty_ranges_def)
  have so: "sorted rest" using "2.prems"(3) by simp
  have "\<forall>r \<in> set rest. (start, stop) \<le> r" using "2.prems"(3) by simp
  then have lo: "list_all (\<lambda>r. start \<le> fst r) rest"
    by (auto simp: list_all_iff less_eq_prod_def)
  show ?case
  proof (cases "result \<noteq> [] \<and> start \<le> snd (last result)")
    case True
    then obtain init a b where r: "result = init @ [(a, b)]" by (metis rev_exhaust surj_pair)
    with True "2.prems"(4) have ab: "a \<le> start" "start \<le> b" by auto
    have "normal_ranges (init @ [(a, max b stop)])"
      using "2.prems"(1) r normal_ranges_extend by simp
    moreover have "list_all (\<lambda>x. a \<le> fst x) rest"
      using lo ab by (auto simp: list_all_iff intro: order_trans)
    ultimately have "normal_ranges (merge_sweep (init @ [(a, max b stop)]) rest) \<and>
        covers (merge_sweep (init @ [(a, max b stop)]) rest)
          = covers (init @ [(a, max b stop)]) \<union> covers rest"
      using "2.IH"(1) [OF True] r ne so by simp
    moreover have "{a..<max b stop} = {a..<b} \<union> {start..<stop}"
      using ab se by auto
    ultimately show ?thesis using True r by (auto simp: Un_ac)
  next
    case False
    have "normal_ranges (result @ [(start, stop)])"
      using "2.prems"(1) False se by (auto simp: normal_ranges_snoc)
    then show ?thesis
      using "2.IH"(2) [OF False] ne so lo False by (auto simp: Un_ac)
  qed
qed

lemma merge_sweep_normaliser: "range_normaliser (\<lambda>rs. merge_sweep [] (sort rs))"
proof unfold_locales
  fix rs :: "addr_range list"
  assume "nonempty_ranges rs"
  then have "normal_ranges (merge_sweep [] (sort rs)) \<and> covers (merge_sweep [] (sort rs)) = covers [] \<union> covers (sort rs)"
    by (intro merge_sweep_spec) (auto simp: nonempty_ranges_def list_all_iff)
  then show "covers (merge_sweep [] (sort rs)) = covers rs" "normal_ranges (merge_sweep [] (sort rs))"
    using covers_set_eq [of "sort rs" rs] by auto
qed

end
