(* ===== verification/Image_Correct.thy ===== *)
theory Image_Correct
  imports Ranges
begin

section \<open>Correctness of image parsing and of the programming guard\<close>

text \<open>
  The ranges of an address set are its normal form; a parsed Intel HEX image covers exactly
  the addresses it stored; an ELF's load ranges are well formed; the symbol reader returns
  what was asked for and never runs off the file; the guard accepts exactly the images
  that stay inside the allowlist and outside every forbidden region.
\<close>

subsection \<open>Ranges of an address set\<close>

lemma ranges_loop_spec:
  "start \<le> previous \<Longrightarrow> sorted_wrt (<) (previous # rest) \<Longrightarrow>
     normal_ranges (ranges_loop start previous rest)
     \<and> covers (ranges_loop start previous rest) = {start..previous} \<union> set rest
     \<and> fst (hd (ranges_loop start previous rest)) = start \<and> ranges_loop start previous rest \<noteq> []"
proof (induction start previous rest rule: ranges_loop.induct)
  case (1 start previous)
  then show ?case by auto
next
  case (2 start previous address rest)
  show ?case
  proof (cases "address = previous + 1")
    case True
    have "{start..address} = insert address {start..previous}" using True "2.prems"(1) by auto
    with True "2.IH"(2) "2.prems" show ?thesis by auto
  next
    case False
    let ?t = "ranges_loop address address rest"
    have t: "normal_ranges ?t" "covers ?t = {address..address} \<union> set rest" "fst (hd ?t) = address" "?t \<noteq> []"
      using "2.IH"(1) [OF False] "2.prems"(2) by auto
    obtain d ds where hd: "?t = (address, d) # ds" using t(3,4) by (cases ?t) auto
    have "previous + 1 < address" using False "2.prems"(2) by auto
    with t hd have "normal_ranges ((start, previous + 1) # ?t)" using "2.prems"(1) by simp
    moreover have "{start..<previous + 1} = {start..previous}" by auto
    ultimately show ?thesis using False t(2) by simp
  qed
qed

lemma sorted_remdups_strict: "sorted_wrt (<) (sort (remdups (xs :: int list)))"
  by (simp add: strict_sorted_iff)

lemma image_ranges_normal:
  assumes "image_ranges xs = Inr rs"
  shows "normal_ranges rs \<and> covers rs = set xs"
proof -
  from assms obtain f r where s: "sort (remdups xs) = f # r" and rs: "rs = ranges_loop f f r"
    by (auto simp: image_ranges_def split: list.splits)
  have "sorted_wrt (<) (f # r)" using sorted_remdups_strict [of xs] s by simp
  moreover have "set xs = insert f (set r)"
    using arg_cong [OF s, of set] by simp
  ultimately show ?thesis using ranges_loop_spec [of f f r] rs by simp
qed

lemma image_ranges_total: "xs \<noteq> [] \<Longrightarrow> returns (image_ranges xs)"
proof -
  assume "xs \<noteq> []"
  then have "sort (remdups xs) \<noteq> []" by (metis remdups_eq_nil_iff set_empty set_sort)
  then show ?thesis by (auto simp: image_ranges_def split: list.splits)
qed

subsection \<open>Intel HEX\<close>

definition hex_invariant :: "ihex_state \<Rightarrow> bool" where
  "hex_invariant st \<longleftrightarrow> distinct (map fst (memory st)) \<and> 0 \<le> base st
     \<and> (\<forall>a \<in> fst ` set (memory st). 0 \<le> a \<and> a < ADDRESS_LIMIT)"

lemma store_payload_lookup:
  "store_payload address payload m = Inr m' \<Longrightarrow>
     map_of m' x = (if address \<le> x \<and> x < address + int (length payload)
       then Some (payload ! nat (x - address)) else map_of m x)"
proof (induction address payload m rule: store_payload.induct)
  case (1 address m)
  then show ?case by auto
next
  case (2 address v vs m)
  have shift: "nat (x - address) = Suc (nat (x - (address + 1)))" if "address + 1 \<le> x"
    using that by simp
  show ?case
  proof (cases "map_of m address")
    case None
    with "2.prems" have "store_payload (address + 1) vs (m @ [(address, v)]) = Inr m'" by simp
    from "2.IH"(1) [OF None this] None show ?thesis
      by (cases "x = address") (auto simp: shift map_add_def split: option.splits)
  next
    case (Some w)
    with "2.prems" have w: "w = v" and r: "store_payload (address + 1) vs m = Inr m'"
      by (auto split: if_splits)
    from "2.IH"(2) [OF Some _ r] w Some show ?thesis by (cases "x = address") (auto simp: shift)
  qed
qed

lemma store_payload_distinct:
  "store_payload address payload m = Inr m' \<Longrightarrow> distinct (map fst m) \<Longrightarrow> distinct (map fst m')"
proof (induction address payload m rule: store_payload.induct)
  case (2 address v vs m)
  then show ?case
    by (auto simp: map_of_eq_None_iff split: option.splits if_splits)
qed simp

lemma store_payload_keys:
  assumes "store_payload address payload m = Inr m'"
  shows "fst ` set m' = fst ` set m \<union> {address..<address + int (length payload)}"
proof -
  have "x \<in> fst ` set m' \<longleftrightarrow> x \<in> fst ` set m \<union> {address..<address + int (length payload)}" for x
    using store_payload_lookup [OF assms, of x] map_of_eq_None_iff [of m' x] map_of_eq_None_iff [of m x]
    by (auto split: if_splits)
  then show ?thesis by blast
qed

lemma store_payload_fresh:
  "\<forall>x \<in> fst ` set m. \<not> (address \<le> x \<and> x < address + int (length payload)) \<Longrightarrow>
     store_payload address payload m = Inr (m @ zip [address..address + int (length payload) - 1] payload)"
proof (induction payload arbitrary: address m)
  case Nil
  then show ?case by simp
next
  case (Cons v vs)
  have "address \<notin> fst ` set m" using Cons.prems by force
  then have none: "map_of m address = None" by (simp add: map_of_eq_None_iff)
  have "store_payload (address + 1) vs (m @ [(address, v)])
      = Inr ((m @ [(address, v)]) @ zip [address + 1..(address + 1) + int (length vs) - 1] vs)"
    using Cons.prems by (intro Cons.IH) auto
  moreover have "[address..address + int (length (v # vs)) - 1]
      = address # [address + 1..(address + 1) + int (length vs) - 1]"
    by (simp add: upto_rec1 algebra_simps)
  ultimately show ?case using none by simp
qed

lemma ihex_record_cases:
  assumes "ihex_record n raw st = Inr st'"
  obtains (data) m where "st' = st\<lparr>memory := m\<rparr>"
      "store_payload (base st + int (unat (raw ! 1) * 256 + unat (raw ! 2))) (py_slice raw 4 (4 + unat (raw ! 0)))
         (memory st) = Inr m"
      "base st + int (unat (raw ! 1) * 256 + unat (raw ! 2)) + int (unat (raw ! 0)) \<le> ADDRESS_LIMIT"
      "length raw = unat (raw ! 0) + 5"
  | (other) "memory st' = memory st" "base st' = base st \<or> (\<exists>k. base st' = int k)"
proof (cases "unat (raw ! 3) = 0")
  case True
  with assms that(1) show thesis
    by (auto simp: ihex_record_def Let_def result_simps not_less split: if_splits)
next
  case False
  with assms have "memory st' = memory st \<and> (base st' = base st \<or> (\<exists>k. base st' = int k))"
    unfolding ihex_record_def Let_def
    by (auto split: if_splits intro: exI [of _ "from_be p * 16" for p] exI [of _ "from_be p * 65536" for p])
  with that(2) show thesis by blast
qed

lemma ihex_record_invariant:
  assumes inv: "hex_invariant st" and "ihex_record n raw st = Inr st'"
  shows "hex_invariant st'"
  using assms(2)
proof (cases rule: ihex_record_cases)
  case (data m)
  define start where "start = base st + int (unat (raw ! 1) * 256 + unat (raw ! 2))"
  have "length (py_slice raw 4 (4 + unat (raw ! 0))) = unat (raw ! 0)" using data(4) by simp
  with store_payload_keys [OF data(2)]
  have keys: "fst ` set m = fst ` set (memory st) \<union> {start..<start + int (unat (raw ! 0))}"
    unfolding start_def by metis
  have "0 \<le> base st" using inv by (simp add: hex_invariant_def)
  then have "0 \<le> start" unfolding start_def by (rule add_nonneg_nonneg) (rule of_nat_0_le_iff)
  moreover have "start + int (unat (raw ! 0)) \<le> ADDRESS_LIMIT" using data(3) by (simp only: start_def)
  ultimately have "\<forall>a \<in> fst ` set m. 0 \<le> a \<and> a < ADDRESS_LIMIT"
    unfolding keys using inv by (auto simp: hex_invariant_def)
  then show ?thesis
    using inv store_payload_distinct [OF data(2)] data(1) by (simp add: hex_invariant_def)
next
  case other
  with inv show ?thesis by (auto simp: hex_invariant_def)
qed

lemma ihex_lines_invariant:
  "hex_invariant st \<Longrightarrow> ihex_lines n ls st = Inr st' \<Longrightarrow> hex_invariant st'"
proof (induction ls arbitrary: n st)
  case (Cons l ls)
  then show ?case
    by (auto simp: ihex_line_def result_simps split: if_splits option.splits dest: ihex_record_invariant)
qed simp

lemma hex_invariant_init: "hex_invariant ihex_init"
  by (simp add: hex_invariant_def ihex_init_def)

text \<open>Lines of printable ASCII survive being written to a file and read back.\<close>

definition plain_line :: "string \<Rightarrow> bool" where
  "plain_line l = list_all (\<lambda>c. (32::nat) \<le> of_char c \<and> (of_char c :: nat) < 128) l"

lemma plain_line_no_boundary: "plain_line l \<Longrightarrow> list_all (\<lambda>c. \<not> line_boundary c) l"
  by (auto simp: plain_line_def list_all_iff line_boundary_def Let_def)

lemma ihex_text_unlines:
  assumes "\<forall>l \<in> set ls. plain_line l" and "fs p = Some (ascii_encode (unlines ls))"
  shows "ihex_text fs p = Inr ls"
proof -
  have "list_all (\<lambda>c. (of_char c :: nat) < 128) (unlines ls)"
    using assms(1) by (induction ls) (auto simp: unlines_def plain_line_def list_all_iff)
  then have "ascii_decode (ascii_encode (unlines ls)) = Some (unlines ls)" by (rule ascii_decode_encode)
  moreover have "splitlines (unlines ls) = ls"
    using assms(1) by (intro splitlines_unlines) (auto dest: plain_line_no_boundary)
  ultimately show ?thesis using assms(2) by (simp add: ihex_text_def)
qed

text \<open>The memory a HEX file denotes.\<close>

definition hex_memory_of :: "filesystem \<Rightarrow> path \<Rightarrow> image_error + hex_memory" where
  "hex_memory_of fs p =
     bindR (ihex_text fs p) (\<lambda>lines. bindR (ihex_lines 1 lines ihex_init) (\<lambda>st. Inr (memory st)))"

lemma parse_ihex_memory:
  assumes "parse_ihex fs p = Inr img"
  shows "\<exists>m. hex_memory_of fs p = Inr m \<and> distinct (map fst m) \<and> covers (ranges img) = fst ` set m
    \<and> (\<forall>a \<in> covers (ranges img). 0 \<le> a \<and> a < ADDRESS_LIMIT) \<and> normal_ranges (ranges img)"
proof -
  from assms obtain lines st where t: "ihex_text fs p = Inr lines"
    and l: "ihex_lines 1 lines ihex_init = Inr st" and r: "image_ranges (map fst (memory st)) = Inr (ranges img)"
    by (auto simp: parse_ihex_def result_simps)
  from ihex_lines_invariant [OF hex_invariant_init l] image_ranges_normal [OF r] t l show ?thesis
    by (auto simp: hex_memory_of_def hex_invariant_def)
qed

subsection \<open>ELF load ranges\<close>

lemma unpack_from_in_bounds:
  "offset + sum_list ws \<le> length data \<Longrightarrow> unpack_from ws data offset = Inr (unpack_fields ws (drop offset data))"
  by (simp add: unpack_from_def)

lemma unpack_table_numeral:
  "unpack_table ws data offset (numeral n) =
     bindR (unpack_from ws data offset) (\<lambda>vals.
       bindR (unpack_table ws data (offset + sum_list ws) (pred_numeral n)) (\<lambda>rest. Inr (vals # rest)))"
  by (simp add: numeral_eq_Suc)

lemma unpack_table_in_bounds:
  "offset + n * sum_list ws \<le> length data \<Longrightarrow> \<exists>t. unpack_table ws data offset n = Inr t \<and> length t = n"
proof (induction n arbitrary: offset)
  case 0
  then show ?case by simp
next
  case (Suc n)
  then have "(offset + sum_list ws) + n * sum_list ws \<le> length data" by simp
  from Suc.IH [OF this]
  obtain t where "unpack_table ws data (offset + sum_list ws) n = Inr t" "length t = n" by blast
  with Suc.prems show ?case by (simp add: unpack_from_in_bounds)
qed

lemma load_ranges_valid:
  assumes "load_ranges c n vs acc = Inr rs" and "\<forall>(a, b) \<in> set acc. 0 \<le> a \<and> a < b \<and> b \<le> ADDRESS_LIMIT"
  shows "\<forall>(a, b) \<in> set rs. 0 \<le> a \<and> a < b \<and> b \<le> ADDRESS_LIMIT"
  using assms
proof (induction c n vs acc rule: load_ranges.induct)
  case (2 c n v vs acc)
  then show ?case by (fastforce split: if_splits prod.splits)
qed auto

lemma load_ranges_no_struct_error: "load_ranges c n vs acc \<noteq> Inl StructError"
  by (induction c n vs acc rule: load_ranges.induct) (auto split: prod.splits)

lemma parse_elf_body_struct_error:
  assumes "bindR (unpack_table program data offset count) (\<lambda>headers.
    bindR (load_ranges c n headers []) (\<lambda>rs. if rs = [] then Inl NoLoadSegments else Inr (f rs)))
    = Inl StructError"
  shows "length data < offset + count * sum_list program"
proof (rule ccontr)
  assume "\<not> length data < offset + count * sum_list program"
  then obtain t where "unpack_table program data offset count = Inr t"
    using unpack_table_in_bounds [of offset count program data] by auto
  with assms show False using load_ranges_no_struct_error [of c n t "[]"]
    by (auto simp: result_simps split: if_splits)
qed

subsection \<open>Symbols\<close>

lemma symbol_name_no_struct_error: "symbol_name s n \<noteq> Inl StructError"
  by (auto simp: symbol_name_def split: option.splits)

lemma symbol_entries_no_struct_error: "symbol_entries w s es f \<noteq> Inl StructError"
proof (induction es arbitrary: f)
  case (Cons e es)
  then show ?case
    using symbol_name_no_struct_error [of s "e ! 0"] by (auto simp: result_simps split: if_splits)
qed simp

lemma symbol_section_no_struct_error: "symbol_section w data secs sh f \<noteq> Inl StructError"
proof -
  have "\<exists>t. unpack_table ELF32_SYMBOL data (sh ! 4) (sh ! 5 div 16) = Inr t"
    if "\<not> length data < sh ! 4 + sh ! 5" "sh ! 5 mod 16 = 0"
    using unpack_table_in_bounds [of "sh ! 4" "sh ! 5 div 16" ELF32_SYMBOL data] that
    by (auto simp: ELF32_SYMBOL_def)
  then show ?thesis
    using symbol_entries_no_struct_error
    by (auto simp: symbol_section_def Let_def result_simps split: if_splits)
qed

lemma symbol_sections_no_struct_error: "symbol_sections w data secs shs f \<noteq> Inl StructError"
proof (induction shs arbitrary: f)
  case (Cons sh shs)
  then show ?case using symbol_section_no_struct_error by (auto simp: result_simps)
qed simp

definition found_ok :: "code_points set \<Rightarrow> symbol_map \<Rightarrow> bool" where
  "found_ok wanted found \<longleftrightarrow> distinct (map fst found) \<and> fst ` set found \<subseteq> wanted
     \<and> (\<forall>v \<in> snd ` set found. v < 2 ^ 32)"

lemma unpack_fields_bound:
  "i < length ws \<Longrightarrow> unpack_fields ws bs ! i < 256 ^ (ws ! i)"
proof (induction ws bs arbitrary: i rule: unpack_fields.induct)
  case (2 w ws bs)
  have "from_le (take w bs) < 256 ^ length (take w bs)" by (rule from_le_bound)
  also have "\<dots> \<le> 256 ^ w" by (simp add: power_increasing)
  finally show ?case using 2 by (cases i) auto
qed simp

lemma length_unpack_fields [simp]: "length (unpack_fields ws bs) = length ws"
  by (induction ws bs rule: unpack_fields.induct) auto

lemma unpack_table_entries:
  "unpack_table ws data offset n = Inr t \<Longrightarrow> e \<in> set t \<Longrightarrow> \<exists>bs. e = unpack_fields ws bs"
  by (induction n arbitrary: offset t) (auto simp: result_simps unpack_from_def split: if_splits)

lemma symbol_entries_found_ok:
  "found_ok w found \<Longrightarrow> \<forall>e \<in> set es. e ! 1 < 2 ^ 32 \<Longrightarrow> symbol_entries w strs es found = Inr found' \<Longrightarrow>
     found_ok w found'"
proof (induction es arbitrary: found)
  case (Cons e es)
  from Cons.prems(3) obtain f1 where f: "symbol_entry w strs e found = Inr f1"
    and r: "symbol_entries w strs es f1 = Inr found'"
    by (auto simp del: symbol_entry.simps simp: result_simps)
  have "found_ok w f1"
    using f Cons.prems(1,2)
    by (auto simp: found_ok_def result_simps map_of_eq_None_iff image_subset_iff split: if_splits)
  with Cons.IH Cons.prems(2) r show ?case by simp
qed simp

lemma symbol_section_found_ok:
  assumes "found_ok w found" and "symbol_section w data secs sh found = Inr found'"
  shows "found_ok w found'"
proof (cases "sh ! 1 = 2")
  case True
  with assms(2) obtain strs es where t: "unpack_table ELF32_SYMBOL data (sh ! 4) (sh ! 5 div 16) = Inr es"
    and r: "symbol_entries w strs es found = Inr found'"
    by (auto simp: symbol_section_def Let_def result_simps split: if_splits)
  have "\<forall>e \<in> set es. e ! 1 < 2 ^ 32"
    using unpack_table_entries [OF t] unpack_fields_bound [of 1 ELF32_SYMBOL]
    by (fastforce simp: ELF32_SYMBOL_def)
  with symbol_entries_found_ok [OF assms(1) _ r] show ?thesis by blast
next
  case False
  with assms show ?thesis by (simp add: symbol_section_def)
qed

lemma symbol_sections_found_ok:
  "found_ok w found \<Longrightarrow> symbol_sections w data secs shs found = Inr found' \<Longrightarrow> found_ok w found'"
  by (induction shs arbitrary: found) (auto simp: result_simps dest: symbol_section_found_ok)

subsection \<open>The guard\<close>

lemma forbidden_label_None:
  "forbidden_label r fs = None \<longleftrightarrow> (\<forall>(a, b, l) \<in> set fs. \<not> (fst r < b \<and> a < snd r))"
  by (induction r fs rule: forbidden_label.induct) auto

definition range_allowed :: "addr_range list \<Rightarrow> addr_range \<Rightarrow> bool" where
  "range_allowed allowed r \<longleftrightarrow> 0 \<le> fst r \<and> fst r < snd r \<and> snd r \<le> ADDRESS_LIMIT
     \<and> (\<forall>(a, b, l) \<in> set FORBIDDEN_RANGES. snd r \<le> a \<or> b \<le> fst r)
     \<and> (\<exists>(a, b) \<in> set allowed. a \<le> fst r \<and> snd r \<le> b)"

lemma require_allowed_all:
  "require_allowed rs allowed = Inr () \<longleftrightarrow> (\<forall>r \<in> set rs. range_allowed allowed r)"
proof (induction rs allowed rule: require_allowed.induct)
  case (2 start stop rest allowed)
  have f: "forbidden_label (start, stop) FORBIDDEN_RANGES = None \<longleftrightarrow>
      (\<forall>(a, b, l) \<in> set FORBIDDEN_RANGES. stop \<le> a \<or> b \<le> start)"
    by (auto simp: forbidden_label_None not_less)
  have e: "list_ex (\<lambda>(a, b). a \<le> start \<and> stop \<le> b) allowed \<longleftrightarrow> (\<exists>(a, b) \<in> set allowed. a \<le> start \<and> stop \<le> b)"
    by (simp add: list_ex_iff)
  show ?case
    using "2.IH" by (cases "forbidden_label (start, stop) FORBIDDEN_RANGES")
      (auto simp: range_allowed_def f [symmetric] e not_less not_le)
qed simp

lemma range_allowed_address:
  assumes "range_allowed allowed r" and "fst r \<le> x" and "x < snd r"
  shows "x \<in> covers allowed \<and> (\<forall>(a, b, l) \<in> set FORBIDDEN_RANGES. \<not> (a \<le> x \<and> x < b))"
proof
  from assms show "x \<in> covers allowed"
    by (auto simp: range_allowed_def intro: covers_memI)
  from assms show "\<forall>(a, b, l) \<in> set FORBIDDEN_RANGES. \<not> (a \<le> x \<and> x < b)"
    by (fastforce simp: range_allowed_def)
qed

text \<open>What every caller of the guard uses: an accepted image touches no other address.\<close>

lemma require_allowed_covers:
  assumes "require_allowed rs allowed = Inr ()" and "x \<in> covers rs"
  shows "x \<in> covers allowed \<and> (\<forall>(a, b, l) \<in> set FORBIDDEN_RANGES. \<not> (a \<le> x \<and> x < b))"
  using covers_memD [OF assms(2)] assms(1) range_allowed_address
  by (fastforce simp: require_allowed_all)

subsection \<open>Properties of the component\<close>

definition two_record_hex :: filesystem where
  "two_record_hex p = Some (ascii_encode (unlines
     ['':0400100001020304E2'', '':020016000506DD'', '':00000001FF'']))"

lemma two_record_hex_text:
  "ihex_text two_record_hex p = Inr ['':0400100001020304E2'', '':020016000506DD'', '':00000001FF'']"
  by (rule ihex_text_unlines) (auto simp: two_record_hex_def plain_line_def)

lemma two_record_hex_parsed:
  "parse_ihex two_record_hex ''app.hex'' =
     Inr \<lparr>image_path = ''app.hex'', ranges = [(16, 20), (22, 24)], entry = None\<rparr>"
  by (simp add: parse_ihex_def two_record_hex_text ihex_line_def ihex_record_def hex_value_def ascii_space_def
      py_slice_def ihex_init_def image_ranges_def cong: bindR_weak_cong)

text \<open>
  C8. A HEX file that is accepted denotes a memory with one value per address, and the
  reported ranges cover exactly the addresses it stores: they are non-empty, ascending,
  never touch, and lie in the 32-bit address space.
\<close>

theorem parse_ihex_ranges_exact:
  assumes "parse_ihex fs p = Inr img"
  shows "\<exists>m. hex_memory_of fs p = Inr m \<and> distinct (map fst m) \<and> covers (ranges img) = fst ` set m
    \<and> (\<forall>a \<in> covers (ranges img). 0 \<le> a \<and> a < ADDRESS_LIMIT) \<and> normal_ranges (ranges img)"
  using assms by (rule parse_ihex_memory)

theorem parse_ihex_ranges_exact_witness:
  "\<exists>m. hex_memory_of two_record_hex ''app.hex'' = Inr m \<and> distinct (map fst m)
    \<and> covers [(16, 20), (22, 24)] = fst ` set m \<and> normal_ranges [(16, 20), (22, 24)]"
  using parse_ihex_ranges_exact [OF two_record_hex_parsed] by auto

text \<open>
  C9. The programming guard is exact: it accepts a list of ranges if and only if every one
  is a non-empty range of the 32-bit space, is disjoint from every forbidden region
  (BOOTCONF, OTP, UICR, SICR, KMU, factory and configuration areas) and lies inside a single
  entry of the allowlist.
\<close>

theorem require_allowed_iff:
  "require_allowed rs allowed = Inr () \<longleftrightarrow>
     (\<forall>r \<in> set rs. 0 \<le> fst r \<and> fst r < snd r \<and> snd r \<le> ADDRESS_LIMIT
        \<and> (\<forall>(a, b, l) \<in> set FORBIDDEN_RANGES. snd r \<le> a \<or> b \<le> fst r)
        \<and> (\<exists>(a, b) \<in> set allowed. a \<le> fst r \<and> snd r \<le> b))"
  by (simp add: require_allowed_all range_allowed_def)

theorem require_allowed_iff_witness:
  "require_allowed [(0x1000, 0x2000)] [(0, 0x1FD000)] = Inr ()
    \<and> require_allowed [(0x00FFD000, 0x00FFD010)] [(0, 0x01000000)] \<noteq> Inr ()"
  using require_allowed_iff [of "[(0x1000, 0x2000)]" "[(0, 0x1FD000)]"]
    require_allowed_iff [of "[(0x00FFD000, 0x00FFD010)]" "[(0, 0x01000000)]"]
  by (simp add: FORBIDDEN_RANGES_def)

text \<open>
  C10. The load ranges of an accepted ELF are sorted, there is at least one, and each is a
  non-empty range of the 32-bit address space, whatever the file contains.
\<close>

theorem parse_elf_ranges_valid:
  assumes "parse_elf fs p = Inr img"
  shows "ranges img \<noteq> [] \<and> sorted (ranges img) \<and> entry img \<noteq> None
    \<and> (\<forall>(a, b) \<in> set (ranges img). 0 \<le> a \<and> a < b \<and> b \<le> ADDRESS_LIMIT)"
proof -
  from assms obtain c n vs rs where r: "load_ranges c n vs [] = Inr rs" "rs \<noteq> []"
    and img: "ranges img = sort rs" "entry img \<noteq> None"
    by (auto simp: parse_elf_def Let_def result_simps split: option.splits if_splits)
  have "set (sort rs) = set rs" by simp
  with load_ranges_valid [OF r(1)] r(2) img show ?thesis by (auto simp flip: set_empty)
qed

definition elf32_one_segment :: bytes where
  "elf32_one_segment =
     [0x7F, 0x45, 0x4C, 0x46, 1, 1, 1, 0, 0, 0, 0, 0, 0, 0, 0, 0,
      2, 0, 40, 0, 1, 0, 0, 0, 1, 1, 0, 0, 52, 0, 0, 0, 0, 0, 0, 0, 0, 0, 0, 0,
      52, 0, 32, 0, 1, 0, 40, 0, 0, 0, 0, 0,
      1, 0, 0, 0, 84, 0, 0, 0, 0, 1, 0, 0, 0, 1, 0, 0, 4, 0, 0, 0, 4, 0, 0, 0, 5, 0, 0, 0, 4, 0, 0, 0,
      0xAA, 0xBB, 0xCC, 0xDD]"

lemma elf32_one_segment_parsed:
  "parse_elf (\<lambda>_. Some elf32_one_segment) ''app.elf''
    = Inr \<lparr>image_path = ''app.elf'', ranges = [(0x100, 0x104)], entry = Some 0x101\<rparr>"
  by (simp add: parse_elf_def elf32_one_segment_def unpack_from_def ELF32_HEADER_def ELF32_PROGRAM_def
      load_fields_def Let_def cong: bindR_weak_cong)

theorem parse_elf_ranges_valid_witness:
  "parse_elf (\<lambda>_. Some elf32_one_segment) ''app.elf''
      = Inr \<lparr>image_path = ''app.elf'', ranges = [(0x100, 0x104)], entry = Some 0x101\<rparr>
    \<and> sorted [(0x100, 0x104) :: addr_range] \<and> (0x104 :: int) \<le> ADDRESS_LIMIT"
  using parse_elf_ranges_valid [OF elf32_one_segment_parsed] elf32_one_segment_parsed by simp

text \<open>
  C11. The symbol reader returns each requested name once: every required symbol is present,
  nothing that was not requested is, and every value is a 32-bit one.
\<close>

theorem elf_symbols_exact:
  assumes "parse_elf_absolute_symbols fs p names optional = Inr found"
  shows "distinct (map fst found) \<and> code_points_of ` set names \<subseteq> fst ` set found
    \<and> fst ` set found \<subseteq> code_points_of ` (set names \<union> set optional)
    \<and> (\<forall>v \<in> snd ` set found. v < 2 ^ 32)"
proof -
  let ?w = "set (map code_points_of names) \<union> set (map code_points_of optional)"
  from assms obtain data secs where f: "symbol_sections ?w data secs secs [] = Inr found"
    and none: "filter (\<lambda>n. map_of found n = None) (sort (remdups (map code_points_of names))) = []"
    by (auto simp: parse_elf_absolute_symbols_def Let_def result_simps split: option.splits if_splits)
  have "found_ok ?w found" by (rule symbol_sections_found_ok [OF _ f]) (simp add: found_ok_def)
  moreover have "code_points_of ` set names \<subseteq> fst ` set found"
    using none by (auto simp: filter_empty_conv map_of_eq_None_iff)
  ultimately show ?thesis by (auto simp: found_ok_def image_Un)
qed

definition elf32_symbols :: bytes where
  "elf32_symbols =
     [0x7F, 0x45, 0x4C, 0x46, 1, 1, 1, 0, 0, 0, 0, 0, 0, 0, 0, 0,
      2, 0, 40, 0, 1, 0, 0, 0, 0, 0, 0, 0, 0, 0, 0, 0, 71, 0, 0, 0, 0, 0, 0, 0,
      52, 0, 0, 0, 0, 0, 40, 0, 2, 0, 0, 0,
      1, 0, 0, 0, 0, 0x10, 0, 0, 0, 0, 0, 0, 0x10, 0, 0xF1, 0xFF,
      0, 0x61, 0,
      0, 0, 0, 0, 2, 0, 0, 0, 0, 0, 0, 0, 0, 0, 0, 0, 52, 0, 0, 0, 16, 0, 0, 0, 1, 0, 0, 0,
      0, 0, 0, 0, 4, 0, 0, 0, 16, 0, 0, 0,
      0, 0, 0, 0, 3, 0, 0, 0, 0, 0, 0, 0, 0, 0, 0, 0, 68, 0, 0, 0, 3, 0, 0, 0, 0, 0, 0, 0,
      0, 0, 0, 0, 1, 0, 0, 0, 0, 0, 0, 0]"

lemma elf32_symbols_parsed:
  "parse_elf_absolute_symbols (\<lambda>_. Some elf32_symbols) ''app.elf'' [''a''] [''b'']
    = Inr [(code_points_of ''a'', 0x1000)]"
  by (simp add: parse_elf_absolute_symbols_def elf32_symbols_def unpack_from_def ELF32_HEADER_def
      ELF32_SECTION_def ELF32_SYMBOL_def Let_def symbol_section_def symbol_name_def code_points_of_def
      py_slice_def unpack_table_numeral cong: bindR_weak_cong)

theorem elf_symbols_exact_witness:
  "distinct (map fst [(code_points_of ''a'', 0x1000 :: nat)])
    \<and> code_points_of ` set [''a''] \<subseteq> fst ` set [(code_points_of ''a'', 0x1000 :: nat)]"
  using elf_symbols_exact [OF elf32_symbols_parsed] by blast

text \<open>
  C12. On no file does the symbol reader fail with \<open>struct.error\<close>: its bounds checks cover
  every structure it unpacks, so a malformed ELF always ends in \<open>ImageContractError\<close>.
\<close>

theorem elf_symbols_never_struct_error:
  "parse_elf_absolute_symbols fs p names optional \<noteq> Inl StructError"
proof -
  have h: "\<exists>v. unpack_from ELF32_HEADER data 0 = Inr v" if "\<not> length data < 52" for data
    using that by (simp add: unpack_from_def ELF32_HEADER_def)
  have t: "\<exists>v. unpack_table ELF32_SECTION data o' n = Inr v" if "\<not> length data < o' + n * 40" for data o' n
    using unpack_table_in_bounds [of o' n ELF32_SECTION data] that by (auto simp: ELF32_SECTION_def)
  show ?thesis
    using h t symbol_sections_no_struct_error
    by (fastforce simp: parse_elf_absolute_symbols_def Let_def result_simps split: option.splits if_splits)
qed

text \<open>
  C13. The load-range reader does let \<open>struct.error\<close> escape, in exactly one situation: the
  file announces a little-endian ELF64 but is shorter than the 64-byte ELF64 header, because
  the length check before it is the one of the 52-byte ELF32 header.
\<close>

theorem parse_elf_struct_error_iff:
  "parse_elf fs p = Inl StructError \<longleftrightarrow>
     (\<exists>data. fs p = Some data \<and> 52 \<le> length data \<and> length data < 64
        \<and> take 4 data = [0x7F, 0x45, 0x4C, 0x46] \<and> unat (data ! 4) = 2 \<and> unat (data ! 5) = 1)"
proof (cases "fs p")
  case None
  then show ?thesis by (simp add: parse_elf_def)
next
  case (Some data)
  let ?h = "if unat (data ! 4) = 1 then ELF32_HEADER else ELF64_HEADER"
  have size: "sum_list ELF32_HEADER = 52" "sum_list ELF64_HEADER = 64"
    by (simp_all add: ELF32_HEADER_def ELF64_HEADER_def)
  have "parse_elf fs p = Inl StructError \<longleftrightarrow>
     \<not> (length data < 52 \<or> take 4 data \<noteq> [0x7F, 0x45, 0x4C, 0x46]) \<and>
     \<not> (unat (data ! 5) \<noteq> 1 \<or> unat (data ! 4) \<noteq> 1 \<and> unat (data ! 4) \<noteq> 2) \<and>
     unpack_from ?h data 0 = Inl StructError"
    by (auto simp: parse_elf_def Some Let_def bindR_Inl_iff [of "unpack_from _ _ _"] split: if_splits
        dest!: parse_elf_body_struct_error)
  then show ?thesis
    by (auto simp: Some unpack_from_def size split: if_splits)
qed
end
