(* ===== verification/Ihex_Writer.thy ===== *)
theory Ihex_Writer
  imports Image_Correct
begin

section \<open>The interface of an Intel HEX record writer\<close>

text \<open>
  Two components print Intel HEX records for themselves (\<open>bond._record\<close> and the local
  \<open>record\<close> of \<open>openocd.addressed_hex\<close>). What the parser needs of either is stated as a
  locale: on arguments that fit their fields the record is printed, as one plain line
  whose digits are the record's bytes with the two's complement checksum.
\<close>

definition record_body :: "nat \<Rightarrow> nat \<Rightarrow> bytes \<Rightarrow> bytes" where
  "record_body kind offset payload =
     [word_of_nat (length payload), word_of_nat (offset div 256), word_of_nat (offset mod 256),
      word_of_nat kind] @ payload"

definition checksum :: "bytes \<Rightarrow> byte" where
  "checksum raw = word_of_int ((- int (sum_list (map unat raw))) mod 256)"

definition raw_record :: "nat \<Rightarrow> nat \<Rightarrow> bytes \<Rightarrow> bytes" where
  "raw_record kind offset payload =
     record_body kind offset payload @ [checksum (record_body kind offset payload)]"

definition record_text :: "bytes \<Rightarrow> string" where
  "record_text raw = '':'' @ bytes_hex_upper raw"

lemma checksum_closes: "(sum_list (map unat raw) + unat (checksum raw)) mod 256 = 0"
proof -
  define n where "n = sum_list (map unat raw)"
  have "int (unat (checksum raw)) = (- int n) mod 256"
    by (simp add: checksum_def n_def uint_word_of_int)
  then have "int (n + unat (checksum raw)) mod 256 = (int n + (- int n) mod 256) mod 256"
    by simp
  also have "\<dots> = 0" by (simp add: mod_simps)
  finally show ?thesis unfolding n_def by (metis of_nat_eq_0_iff zmod_int of_nat_numeral)
qed

lemma hex_digit_upper_plain:
  "n < 16 \<Longrightarrow> 32 \<le> (of_char (hex_digit_upper n) :: nat) \<and> (of_char (hex_digit_upper n) :: nat) < 128"
  by (drule less_16_cases) (auto simp: hex_digit_upper_def)

lemma record_text_plain: "plain_line (record_text raw)"
proof -
  have "plain_line (bytes_hex_upper raw)"
    by (induction raw)
       (auto simp: plain_line_def bytes_hex_upper_def hex_byte_upper_def hex_digit_upper_plain)
  then show ?thesis by (simp add: plain_line_def record_text_def)
qed

lemma record_text_parsed: "ihex_line n (record_text raw) st = ihex_record n raw st"
  by (simp add: ihex_line_def record_text_def fromhex_upper)

lemma raw_record_fields:
  assumes "length payload < 256" and "offset < 65536" and "kind < 256"
  shows "length (raw_record kind offset payload) = length payload + 5"
    and "unat (raw_record kind offset payload ! 0) = length payload"
    and "unat (raw_record kind offset payload ! 1) * 256 + unat (raw_record kind offset payload ! 2) = offset"
    and "unat (raw_record kind offset payload ! 3) = kind"
    and "py_slice (raw_record kind offset payload) 4 (4 + length payload) = payload"
    and "sum_list (map unat (raw_record kind offset payload)) mod 256 = 0"
proof -
  have "offset div 256 < 256" using assms(2) by linarith
  then show "unat (raw_record kind offset payload ! 1) * 256 + unat (raw_record kind offset payload ! 2) = offset"
    by (simp add: raw_record_def record_body_def unat_byte_of_nat)
  show "sum_list (map unat (raw_record kind offset payload)) mod 256 = 0"
    using checksum_closes [of "record_body kind offset payload"] by (simp add: raw_record_def)
qed (use assms in \<open>simp_all add: raw_record_def record_body_def unat_byte_of_nat py_slice_def\<close>)

lemma ihex_record_raw:
  assumes "length payload < 256" and "offset < 65536" and "kind < 256" and "\<not> eof st"
  shows "ihex_record n (raw_record kind offset payload) st =
    (if kind = 0 then
       (if ADDRESS_LIMIT < base st + int offset + int (length payload) then Inl ExceedsAddressSpace
        else bindR (store_payload (base st + int offset) payload (memory st)) (\<lambda>m. Inr (st\<lparr>memory := m\<rparr>)))
     else if kind = 1 then
       (if length payload \<noteq> 0 \<or> offset \<noteq> 0 then Inl MalformedEof else Inr (st\<lparr>eof := True\<rparr>))
     else if kind = 2 then
       (if length payload \<noteq> 2 \<or> offset \<noteq> 0 then Inl MalformedSegmentAddress
        else Inr (st\<lparr>base := int (from_be payload) * 16\<rparr>))
     else if kind = 4 then
       (if length payload \<noteq> 2 \<or> offset \<noteq> 0 then Inl MalformedLinearAddress
        else Inr (st\<lparr>base := int (from_be payload) * 65536\<rparr>))
     else if kind = 3 \<or> kind = 5 then
       (if length payload \<noteq> 4 then Inl MalformedStartAddress else Inr st)
     else Inl (UnsupportedRecordType kind))"
  unfolding ihex_record_def Let_def raw_record_fields(1,2,6) [OF assms(1-3)]
    raw_record_fields(3,4,5) [OF assms(1-3)]
  using assms(4) by simp

locale ihex_writer =
  fixes put :: "int \<Rightarrow> int \<Rightarrow> bytes \<Rightarrow> py_error + string"
  assumes put_fits:
    "0 \<le> kind \<Longrightarrow> kind < 256 \<Longrightarrow> 0 \<le> offset \<Longrightarrow> offset < 65536 \<Longrightarrow> length payload < 256 \<Longrightarrow>
       put kind offset payload = Inr (record_text (raw_record (nat kind) (nat offset) payload))"
begin

lemma data_line:
  assumes "0 \<le> offset" and "offset < 65536" and "length payload < 256" and "\<not> eof st"
    and "base st + offset + int (length payload) \<le> ADDRESS_LIMIT"
    and "\<forall>x \<in> fst ` set (memory st). x < base st + offset"
  shows "\<exists>line. put 0 offset payload = Inr line \<and> plain_line line \<and> ihex_line n line st =
    Inr (st\<lparr>memory := memory st @ zip [base st + offset..base st + offset + int (length payload) - 1] payload\<rparr>)"
proof -
  have "store_payload (base st + offset) payload (memory st)
      = Inr (memory st @ zip [base st + offset..base st + offset + int (length payload) - 1] payload)"
    using assms(6) by (intro store_payload_fresh) force
  then show ?thesis
    using assms(1-5) by (simp add: put_fits record_text_plain record_text_parsed ihex_record_raw)
qed

lemma linear_address_line:
  assumes "0 \<le> upper" and "upper < 65536" and "\<not> eof st"
  shows "\<exists>line. put 4 0 (to_be 2 (nat upper)) = Inr line \<and> plain_line line
    \<and> ihex_line n line st = Inr (st\<lparr>base := upper * 65536\<rparr>)"
  using assms by (simp add: put_fits record_text_plain record_text_parsed ihex_record_raw from_be_to_be)

lemma eof_line:
  assumes "\<not> eof st"
  shows "\<exists>line. put 1 0 [] = Inr line \<and> plain_line line \<and> ihex_line n line st = Inr (st\<lparr>eof := True\<rparr>)"
  using assms by (simp add: put_fits record_text_plain record_text_parsed ihex_record_raw)

end

lemma ihex_lines_append:
  "ihex_lines n (xs @ ys) st = bindR (ihex_lines n xs st) (ihex_lines (n + length xs) ys)"
proof (induction xs arbitrary: n st)
  case (Cons x xs)
  then show ?case by (cases "ihex_line n x st") auto
qed simp

text \<open>The ranges of a memory that is one contiguous block.\<close>

lemma image_ranges_block:
  assumes "a < b" and "set xs = {a..<b}"
  shows "image_ranges xs = Inr [(a, b)]"
proof -
  have "xs \<noteq> []" using assms by auto
  from image_ranges_total [OF this] obtain rs where rs: "image_ranges xs = Inr rs" by blast
  from image_ranges_normal [OF rs] assms have "rs = [(a, b)]"
    by (intro normal_ranges_unique) auto
  with rs show ?thesis by simp
qed

lemma parse_ihex_block:
  assumes "ihex_text fs p = Inr lines" and "ihex_lines 1 lines ihex_init = Inr st" and "eof st"
    and "memory st = zip [a..a + int (length data) - 1] data" and "data \<noteq> []"
  shows "parse_ihex fs p = Inr \<lparr>image_path = p, ranges = [(a, a + int (length data))], entry = None\<rparr>"
proof -
  have "map fst (memory st) = [a..a + int (length data) - 1]" using assms(4) by simp
  then have "set (map fst (memory st)) = {a..<a + int (length data)}" by auto
  then have "image_ranges (map fst (memory st)) = Inr [(a, a + int (length data))]"
    using assms(5) by (intro image_ranges_block) simp_all
  with assms(1-3) show ?thesis by (simp add: parse_ihex_def)
qed

lemma zip_upto_append:
  "zip [a..a + int (length xs) - 1] xs @ zip [a + int (length xs)..a + int (length xs) + int (length ys) - 1] ys
    = zip [a..a + int (length (xs @ ys)) - 1] (xs @ ys)"
proof -
  have "[a..a + int (length (xs @ ys)) - 1]
      = [a..a + int (length xs) - 1] @ [a + int (length xs)..a + int (length xs) + int (length ys) - 1]"
    using upto_split1 [of a "a + int (length xs)" "a + int (length xs) + int (length ys) - 1"]
    by (cases ys) (auto simp: algebra_simps)
  then show ?thesis by simp
qed

lemma zip_upto_keys: "fst ` set (zip [a..a + int (length xs) - 1] xs) = {a..<a + int (length xs)}"
proof -
  have "map fst (zip [a..a + int (length xs) - 1] xs) = [a..a + int (length xs) - 1]" by simp
  then have "set (map fst (zip [a..a + int (length xs) - 1] xs)) = {a..a + int (length xs) - 1}"
    by (simp del: set_map)
  then have "fst ` set (zip [a..a + int (length xs) - 1] xs) = {a..a + int (length xs) - 1}"
    by (simp only: set_map)
  then show ?thesis by auto
qed

lemma map_of_zip_upto:
  "i < length xs \<Longrightarrow> map_of (zip [a..a + int (length xs) - 1] xs) (a + int i) = Some (xs ! i)"
proof -
  assume "i < length xs"
  then have "[a..a + int (length xs) - 1] ! i = a + int i" by (simp add: nth_upto)
  with map_of_zip_nth [of "[a..a + int (length xs) - 1]" xs i] \<open>i < length xs\<close>
  show ?thesis by simp
qed

end
