(* ===== verification/Openocd.thy ===== *)
theory Openocd
  imports Process Ihex_Writer
begin

section \<open>The CMSIS-DAP/OpenOCD transport\<close>

text \<open>
  Models \<open>src/tools/nrfkit_tools/openocd.py\<close>: probe discovery over the USB tree, the checks on
  observation arguments, Tcl quoting, the generated configuration and identification script,
  reading the target identity back from OpenOCD's output, printing a backup as Intel HEX, and
  the \<open>OpenOcd\<close> class, whose child process is the parameter of \<^const>\<open>run_logged\<close>. Paths are
  taken as already resolved.
\<close>

datatype openocd_error =
    OcdImage image_error
  | OcdPython py_error
  | ObservationNotInteger
  | ObservationOutsideScb
  | UnsupportedTclCharacter
  | SpeedNotValidated
  | InvalidGdbPort
  | IdentityNotReported
  | IdentityMismatch
  | HexRangesNotAligned
  | ExecutableOrScriptsMissing
  | PinResetCannotHalt
  | OpenOcdRunFailed string
  | SettingsNeedAuditedElf
  | SettingsNotSeparate
  | BackupRangesNotAligned
  | BackupReadsDiffer
  | ClearSnapshotNotExact
  | ClearReadbackMismatch
  | BackupReportRequired
  | BackupArtifactChanged
  | BackupRangeMismatch
  | BackupOtherTarget

abbreviation RRAM_END :: int where "RRAM_END \<equiv> 0x001FD000"

subsection \<open>Observation arguments\<close>

definition identifier_head :: "char \<Rightarrow> bool" where
  "identifier_head c = (let n = of_char c :: nat in
     (65 \<le> n \<and> n \<le> 90) \<or> (97 \<le> n \<and> n \<le> 122) \<or> n = 95)"

definition identifier_char :: "char \<Rightarrow> bool" where
  "identifier_char c = (identifier_head c \<or> (let n = of_char c :: nat in 48 \<le> n \<and> n \<le> 57))"

text \<open>The states of the regular expression: at the start of a name, inside one.\<close>

fun observation_start :: "string \<Rightarrow> bool" and observation_inside :: "string \<Rightarrow> bool" where
  "observation_start [] = False"
| "observation_start (c # cs) = (identifier_head c \<and> observation_inside cs)"
| "observation_inside [] = True"
| "observation_inside (c # cs) =
     (if c = CHR ''.'' then observation_start cs else identifier_char c \<and> observation_inside cs)"

definition observation_path_valid :: "string \<Rightarrow> bool" where
  "observation_path_valid p = observation_start p"

definition system_control_observation_address :: "string \<Rightarrow> openocd_error + int" where
  "system_control_observation_address v =
     (case py_int0 v of
        None \<Rightarrow> Inl ObservationNotInteger
      | Some a \<Rightarrow>
          if a mod 4 \<noteq> 0 \<or> \<not> (0xE000ED00 \<le> a \<and> a < 0xE000EE00) then Inl ObservationOutsideScb
          else Inr a)"

definition tcl_special :: "char \<Rightarrow> bool" where
  "tcl_special c = (let n = of_char c :: nat in n = 123 \<or> n = 125 \<or> n = 92 \<or> n = 10 \<or> n = 13 \<or> n = 0)"

definition tcl_word :: "string \<Rightarrow> openocd_error + string" where
  "tcl_word v = (if list_ex tcl_special v then Inl UnsupportedTclCharacter else Inr (''{'' @ v @ ''}''))"

subsection \<open>Probe discovery\<close>

record usb_endpoint =
  bmAttributes :: nat
  bEndpointAddress :: nat

record usb_interface =
  interface_name :: "string option"
  bInterfaceNumber :: int
  endpoints :: "usb_endpoint list"

record usb_device =
  serial_number :: "string option"
  product_name :: "string option"
  usb_configurations :: "usb_interface list list"

record ocd_device =
  dev_serial :: string
  dev_vid :: int
  dev_pid :: int
  dev_interface :: int
  dev_product :: "string option"

definition cmsis_dap_interface :: "usb_interface \<Rightarrow> bool" where
  "cmsis_dap_interface i =
     (let name = (case interface_name i of None \<Rightarrow> '''' | Some n \<Rightarrow> n);
          bulk = filter (\<lambda>ep. bmAttributes ep mod 4 = 2) (endpoints i) in
      sublist ''CMSIS-DAP'' name
      \<and> list_ex (\<lambda>ep. bEndpointAddress ep div 128 mod 2 = 1) bulk
      \<and> list_ex (\<lambda>ep. \<not> bEndpointAddress ep div 128 mod 2 = 1) bulk)"

definition discover_one :: "int \<Rightarrow> int \<Rightarrow> string option \<Rightarrow> usb_device \<Rightarrow> ocd_device list" where
  "discover_one vid pid serial d =
     (case serial_number d of
        None \<Rightarrow> []
      | Some identity \<Rightarrow>
          if identity = [] \<or> (serial \<noteq> None \<and> serial \<noteq> Some identity) then []
          else case filter cmsis_dap_interface (concat (usb_configurations d)) of
            [i] \<Rightarrow> [\<lparr>dev_serial = identity, dev_vid = vid, dev_pid = pid,
                     dev_interface = bInterfaceNumber i, dev_product = product_name d\<rparr>]
          | _ \<Rightarrow> [])"

text \<open>\<open>found\<close> is what \<open>usb.core.find\<close> yields for the vendor and product.\<close>

definition discover :: "usb_device list \<Rightarrow> int \<Rightarrow> int \<Rightarrow> string option \<Rightarrow> ocd_device list" where
  "discover found vid pid serial = concat (map (discover_one vid pid serial) found)"

subsection \<open>Generated scripts\<close>

definition configuration :: "ocd_device \<Rightarrow> int \<Rightarrow> int option \<Rightarrow> openocd_error + string" where
  "configuration device speed gdb_port =
     (if speed \<notin> {1000, 2000, 4000} then Inl SpeedNotValidated
      else if (case gdb_port of None \<Rightarrow> False | Some p \<Rightarrow> \<not> (1024 \<le> p \<and> p \<le> 65535)) then Inl InvalidGdbPort
      else bindR (tcl_word (dev_serial device)) (\<lambda>quoted.
        Inr (unlines
         [''adapter driver cmsis-dap'',
          ''cmsis-dap backend usb_bulk'',
          ''cmsis-dap usb interface '' @ dec_int (dev_interface device),
          ''adapter usb vid_pid 0x'' @ hex_int 4 (dev_vid device) @ '' 0x'' @ hex_int 4 (dev_pid device),
          ''adapter serial '' @ quoted,
          ''bindto 127.0.0.1'',
          ''gdb port '' @ (case gdb_port of None \<Rightarrow> ''disabled'' | Some p \<Rightarrow> dec_int p),
          ''tcl port disabled'',
          ''telnet port disabled'',
          ''source [find target/nordic/nrf54lm20.cfg]'',
          ''adapter speed '' @ dec_int speed,
          ''# Require the target-owned, anomaly-63-safe reset contract before init.'',
          ''nrf54lm20_reset_config system'',
          ''''])))"

definition IDENTIFY :: string where
  \<open>IDENTIFY = unlines
    [''set part [lindex [read_memory 0x00ffc31c 32 1] 0]'',
     ''set variant [lindex [read_memory 0x00ffc320 32 1] 0]'',
     ''set rram_kib [lindex [read_memory 0x00ffc32c 32 1] 0]'',
     ''if {($part != 0x054bc20a && $part != 0x054bc20b) || $rram_kib != 2036} {'',
     ''    error "Target is not an accepted LM20 application device"'',
     ''}'',
     ''echo [format "NRFKIT_ID %08x %08x %u" $part $variant $rram_kib]'',
     ''echo [format "NRFKIT_DEVICEID %08x %08x" [lindex [read_memory 0x00ffc304 32 1] 0] [lindex [read_memory 0x00ffc308 32 1] 0]]'']\<close>

subsection \<open>The target identity\<close>

record target_identity =
  part :: nat
  variant :: nat
  rram_kib :: nat
  device_id :: string

definition lower_hex8 :: "string \<Rightarrow> bool" where
  "lower_hex8 s = (length s = 8 \<and> list_all (\<lambda>c. let n = of_char c :: nat in
     (48 \<le> n \<and> n \<le> 57) \<or> (97 \<le> n \<and> n \<le> 102)) s)"

definition decimal :: "string \<Rightarrow> bool" where
  "decimal s = (s \<noteq> [] \<and> list_all (\<lambda>c. let n = of_char c :: nat in 48 \<le> n \<and> n \<le> 57) s)"

definition hex_number :: "string \<Rightarrow> nat" where
  "hex_number s = foldl (\<lambda>acc c. acc * 16 + (case hex_value c of Some v \<Rightarrow> v | None \<Rightarrow> 0)) 0 s"

text \<open>
  The two multi-line patterns match within one line (none of their characters is a newline), so
  a search is the first line that matches as a whole. The groups are at fixed positions.
\<close>

definition identity_line :: "string \<Rightarrow> (string \<times> string \<times> string) option" where
  "identity_line l =
     (let a = py_slice l 10 18; b = py_slice l 19 27; c = drop 28 l in
      if take 10 l = ''NRFKIT_ID '' \<and> lower_hex8 a \<and> py_slice l 18 19 = '' '' \<and> lower_hex8 b
         \<and> py_slice l 27 28 = '' '' \<and> decimal c then Some (a, b, c) else None)"

definition device_line :: "string \<Rightarrow> (string \<times> string) option" where
  "device_line l =
     (let a = py_slice l 16 24; b = drop 25 l in
      if take 16 l = ''NRFKIT_DEVICEID '' \<and> lower_hex8 a \<and> py_slice l 24 25 = '' '' \<and> lower_hex8 b
      then Some (a, b) else None)"

fun first_match :: "('a \<Rightarrow> 'b option) \<Rightarrow> 'a list \<Rightarrow> 'b option" where
  "first_match f [] = None"
| "first_match f (x # xs) = (case f x of Some y \<Rightarrow> Some y | None \<Rightarrow> first_match f xs)"

definition parse_identity :: "string \<Rightarrow> openocd_error + target_identity" where
  "parse_identity output =
     (let lines = split_on LF output in
      case (first_match identity_line lines, first_match device_line lines) of
        (Some (p, v, k), Some (d1, d2)) \<Rightarrow>
          (case py_int k of
             None \<Rightarrow> Inl (OcdPython ValueError)
           | Some kib \<Rightarrow>
               if hex_number p \<notin> {0x054BC20A, 0x054BC20B} \<or> kib \<noteq> 2036 then Inl IdentityMismatch
               else Inr \<lparr>part = hex_number p, variant = hex_number v, rram_kib = nat kib, device_id = d1 @ d2\<rparr>)
      | _ \<Rightarrow> Inl IdentityNotReported)"

subsection \<open>Backups as Intel HEX\<close>

definition hex_record :: "int \<Rightarrow> int \<Rightarrow> bytes \<Rightarrow> py_error + string" where
  "hex_record offset kind payload =
     (if 255 < length payload then Inl ValueError
      else if offset < 0 \<or> 65536 \<le> offset then Inl OverflowError
      else if kind < 0 \<or> 256 \<le> kind then Inl ValueError
      else let body = [word_of_nat (length payload)] @ to_be 2 (nat offset) @ [word_of_nat (nat kind)] @ payload in
        Inr ('':'' @ bytes_hex_upper (body @ [word_of_int ((- int (sum_list (map unat body))) mod 256)])))"

text \<open>The loop over 16-byte pieces; \<open>upper\<close> is the current extended linear address, if any.\<close>

function hex_chunks :: "int option \<Rightarrow> int \<Rightarrow> bytes \<Rightarrow> py_error + string list" where
  "hex_chunks upper address data =
     (if data = [] then Inr []
      else let current = address div 65536 in
        bindR (if upper \<noteq> Some current
               then (if current < 0 \<or> 65536 \<le> current then Inl OverflowError
                     else bindR (hex_record 0 4 (to_be 2 (nat current))) (\<lambda>l. Inr [l]))
               else Inr []) (\<lambda>switch.
          bindR (hex_record (address mod 65536) 0 (take 16 data)) (\<lambda>line.
            bindR (hex_chunks (Some current) (address + 16) (drop 16 data)) (\<lambda>rest.
              Inr (switch @ line # rest)))))"
  by pat_completeness auto
termination
  by (relation "measure (\<lambda>(_, _, data). length data)") auto

declare hex_chunks.simps [simp del]

definition addressed_hex :: "int \<Rightarrow> bytes \<Rightarrow> openocd_error + string" where
  "addressed_hex start data =
     bindR (mapE OcdImage (require_allowed [(start, start + int (length data))] [(0, RRAM_END)])) (\<lambda>_.
       if start mod 16 \<noteq> 0 \<or> length data mod 16 \<noteq> 0 then Inl HexRangesNotAligned
       else mapE OcdPython
         (bindR (hex_chunks None start data) (\<lambda>body.
            bindR (hex_record 0 1 []) (\<lambda>final.
              Inr (join_str [LF] (body @ [final]) @ [LF])))))"

subsection \<open>The \<open>OpenOcd\<close> class\<close>

record open_ocd =
  ocd_executable :: path
  ocd_scripts :: path
  ocd_dev :: ocd_device
  run_dir :: path
  speed_khz :: int
  ocd_timeout :: rat

definition OpenOcd ::
  "path \<Rightarrow> path \<Rightarrow> ocd_device \<Rightarrow> path \<Rightarrow> int \<Rightarrow> rat \<Rightarrow> ('h host, openocd_error, open_ocd) action" where
  "OpenOcd executable scripts device dir speed timeout w =
     (if files w executable = None \<or> files w (path_join scripts ''target/nordic/nrf54lm20.cfg'') = None
      then (w, Inl ExecutableOrScriptsMissing)
      else (w, Inr \<lparr>ocd_executable = executable, ocd_scripts = scripts, ocd_dev = device,
                    run_dir = dir, speed_khz = speed, ocd_timeout = timeout\<rparr>))"

record ocd_receipt =
  rc_executable :: path
  rc_sha256 :: string
  rc_scripts :: path
  rc_target_sha256 :: string
  rc_family_sha256 :: string
  rc_swd_khz_requested :: int

definition ocd_receipt_of ::
  "(bytes \<Rightarrow> string) \<Rightarrow> open_ocd \<Rightarrow> ('h host, openocd_error, ocd_receipt) action" where
  "ocd_receipt_of digest b =
     bindA (read_file (OcdPython OSError) (ocd_executable b)) (\<lambda>executable.
       bindA (read_file (OcdPython OSError) (path_join (ocd_scripts b) ''target/nordic/nrf54lm20.cfg'')) (\<lambda>target.
         bindA (read_file (OcdPython OSError) (path_join (ocd_scripts b) ''target/nordic/nrf54l.cfg'')) (\<lambda>family.
           pureA \<lparr>rc_executable = ocd_executable b, rc_sha256 = digest executable, rc_scripts = ocd_scripts b,
                  rc_target_sha256 = digest target, rc_family_sha256 = digest family,
                  rc_swd_khz_requested = speed_khz b\<rparr>)))"

definition ocd_argv ::
  "open_ocd \<Rightarrow> string \<Rightarrow> string \<Rightarrow> int option \<Rightarrow> ('h host, openocd_error, string list) action" where
  "ocd_argv b name commands gdb_port =
     (let script = path_join (run_dir b) (name @ ''.tcl'') in
      bindA (liftA (configuration (ocd_dev b) (speed_khz b) gdb_port)) (\<lambda>config.
        bindA (write_file script (utf8_encode (config @ commands))) (\<lambda>_.
          bindA (seal script) (\<lambda>_.
            pureA [ocd_executable b, ''-s'', ocd_scripts b, ''-f'', script]))))"

definition run_script ::
  "'h child \<Rightarrow> open_ocd \<Rightarrow> string \<Rightarrow> string \<Rightarrow> ('h host, openocd_error, string) action" where
  "run_script child b name commands =
     bindA (ocd_argv b name (commands @ [LF] @ ''shutdown'' @ [LF]) None) (\<lambda>argv.
       bindA (run_logged child OcdPython argv (path_join (run_dir b) (name @ ''.log'')) (ocd_timeout b)) (\<lambda>result.
         bindA (requireA (returncode result = 0 \<and> \<not> timed_out result) (OpenOcdRunFailed name)) (\<lambda>_.
           bindA (liftA (parse_identity (stdout result))) (\<lambda>_. pureA (stdout result)))))"

definition ocd_run ::
  "'h child \<Rightarrow> open_ocd \<Rightarrow> string \<Rightarrow> string \<Rightarrow> ('h host, openocd_error, string) action" where
  "ocd_run child b name commands = run_script child b name (''init'' @ [LF] @ IDENTIFY @ commands)"

definition reset_commands :: "bool \<Rightarrow> bool \<Rightarrow> bool \<Rightarrow> string" where
  "reset_commands halt diagnostics pin =
     (let setup = (if pin then ''nrf54lm20_reset_config pin'' @ [LF] else '''');
          release = (if pin then ''adapter deassert srst'' @ [LF] else '''');
          mode = (if pin then ''run'' else ''halt'');
          resume = (if \<not> halt \<and> \<not> pin then ''resume'' @ [LF] else '''');
          trace = (if diagnostics then ''debug_level 3'' @ [LF] else '''') in
      trace @ setup @ ''set reset_failed [catch {'' @ [LF] @ ''init'' @ [LF] @ ''reset '' @ mode @ [LF]
        @ resume @ ''} reset_message]'' @ [LF] @ release @ ''if {$reset_failed} {error $reset_message}'' @ [LF]
        @ (if diagnostics then ''debug_level 2'' @ [LF] else '''') @ IDENTIFY)"

definition ocd_reset ::
  "'h child \<Rightarrow> open_ocd \<Rightarrow> bool \<Rightarrow> bool \<Rightarrow> bool \<Rightarrow> ('h host, openocd_error, string) action" where
  "ocd_reset child b halt diagnostics pin =
     (if halt \<and> pin then raiseA PinResetCannotHalt
      else run_script child b ''reset'' (reset_commands halt diagnostics pin))"

end
