(* ===== verification/Openocd_Correct.thy ===== *)
theory Openocd_Correct
  imports Openocd
begin

section \<open>Correctness of the OpenOCD transport\<close>

text \<open>
  A backup printed by \<^const>\<open>addressed_hex\<close> is read back by the image parser as exactly the
  bytes at their addresses; observation paths are dotted identifiers; a Tcl word is read by Tcl as the
  value it quotes; the identity reader inverts the identification script's output; and a run returns
  only after the child succeeded on an accepted target.
\<close>

interpretation ocd_hex: ihex_writer "\<lambda>kind offset. hex_record offset kind"
proof unfold_locales
  fix kind offset :: int and payload :: bytes
  assume k: "0 \<le> kind" "kind < 256" and o': "0 \<le> offset" "offset < 65536" and l: "length payload < 256"
  then have "nat offset < 65536" by simp
  then have "nat offset div 256 mod 256 = nat offset div 256" by simp
  then have "to_be 2 (nat offset) = [word_of_nat (nat offset div 256), word_of_nat (nat offset mod 256)]"
    by (simp add: to_be_def numeral_2_eq_2)
  then have "[word_of_nat (length payload)] @ to_be 2 (nat offset) @ [word_of_nat (nat kind)] @ payload
      = record_body (nat kind) (nat offset) payload"
    by (simp only: record_body_def append_Cons append_Nil)
  moreover have "\<not> 255 < length payload" "\<not> (offset < 0 \<or> 65536 \<le> offset)" "\<not> (kind < 0 \<or> 256 \<le> kind)"
    using k o' l by simp_all
  ultimately show "hex_record offset kind payload = Inr (record_text (raw_record (nat kind) (nat offset) payload))"
    unfolding hex_record_def record_text_def raw_record_def checksum_def Let_def by (simp only: if_False)
qed

lemma hex_chunks_step:
  assumes "0 \<le> address" and "address < 0x100000000" and "\<not> eof st"
    and "\<And>u. upper = Some u \<Longrightarrow> base st = u * 65536"
  shows "\<exists>switch st'. (if upper \<noteq> Some (address div 65536)
        then (if address div 65536 < 0 \<or> 65536 \<le> address div 65536 then Inl OverflowError
              else bindR (hex_record 0 4 (to_be 2 (nat (address div 65536)))) (\<lambda>l. Inr [l]))
        else Inr []) = Inr switch
      \<and> (\<forall>l \<in> set switch. plain_line l) \<and> ihex_lines n switch st = Inr st'
      \<and> st' = st\<lparr>base := address div 65536 * 65536\<rparr>"
proof (cases "upper = Some (address div 65536)")
  case True
  then show ?thesis using assms(4) by auto
next
  case False
  have "0 \<le> address div 65536" "address div 65536 < 65536" using assms(1,2) by auto
  with ocd_hex.linear_address_line [of "address div 65536" st n] assms(3) False show ?thesis by auto
qed

lemma hex_chunks_parsed:
  assumes "\<not> eof st" and "\<And>u. upper = Some u \<Longrightarrow> base st = u * 65536"
    and "memory st = zip [start..start + int (length done) - 1] done"
    and "address = start + int (length done)" and "address mod 16 = 0" and "length data mod 16 = 0"
    and "0 \<le> start" and "address + int (length data) \<le> 0x100000000"
  shows "\<exists>ls st'. hex_chunks upper address data = Inr ls \<and> (\<forall>l \<in> set ls. plain_line l)
    \<and> ihex_lines n ls st = Inr st' \<and> \<not> eof st'
    \<and> memory st' = zip [start..start + int (length (done @ data)) - 1] (done @ data)"
  using assms
proof (induction upper address data arbitrary: "done" st n rule: hex_chunks.induct)
  case (1 upper address data)
  show ?case
  proof (cases "data = []")
    case True
    with "1.prems" show ?thesis by (subst hex_chunks.simps) auto
  next
    case False
    have len: "16 \<le> length data" using False "1.prems"(6) by (metis length_0_conv mod_less not_le)
    have a: "0 \<le> address" "address < 0x100000000" using "1.prems"(4,7,8) False by (auto simp: neq_Nil_conv)
    from hex_chunks_step [OF a, of st upper n] "1.prems"(1,2) obtain switch st1 where
      sw: "(if upper \<noteq> Some (address div 65536)
        then (if address div 65536 < 0 \<or> 65536 \<le> address div 65536 then Inl OverflowError
              else bindR (hex_record 0 4 (to_be 2 (nat (address div 65536)))) (\<lambda>l. Inr [l]))
        else Inr []) = Inr switch" "\<forall>l \<in> set switch. plain_line l" "ihex_lines n switch st = Inr st1"
        "st1 = st\<lparr>base := address div 65536 * 65536\<rparr>" by auto
    have dm: "address div 65536 * 65536 + address mod 65536 = address" by simp
    let ?new = "done @ take 16 data"
    let ?st2 = "st1\<lparr>memory := zip [start..start + int (length ?new) - 1] ?new\<rparr>"
    have "\<exists>line. hex_record (address mod 65536) 0 (take 16 data) = Inr line \<and> plain_line line \<and>
        ihex_line (n + length switch) line st1 = Inr (st1\<lparr>memory := memory st1 @
          zip [base st1 + address mod 65536..base st1 + address mod 65536 + int (length (take 16 data)) - 1] (take 16 data)\<rparr>)"
      using "1.prems"(1,3,4,8) len sw(4) dm zip_upto_keys [of start "done"]
      by (intro ocd_hex.data_line) auto
    then obtain line where line: "hex_record (address mod 65536) 0 (take 16 data) = Inr line" "plain_line line"
      "ihex_line (n + length switch) line st1 = Inr ?st2"
      using "1.prems"(3,4) sw(4) dm zip_upto_append [of start "done" "take 16 data"] by auto
    have "\<exists>ls st'. hex_chunks (Some (address div 65536)) (address + 16) (drop 16 data) = Inr ls
      \<and> (\<forall>l \<in> set ls. plain_line l) \<and> ihex_lines (Suc (n + length switch)) ls ?st2 = Inr st' \<and> \<not> eof st'
      \<and> memory st' = zip [start..start + int (length (?new @ drop 16 data)) - 1] (?new @ drop 16 data)"
    proof (rule "1.IH" [OF False refl sw(1) line(1)])
      show "(address + 16) mod 16 = 0" "length (drop 16 data) mod 16 = 0"
        using "1.prems"(5,6) len by (auto simp: mod_0_imp_dvd)
    qed (use "1.prems" sw(4) len in auto)
    then obtain ls st' where ls: "hex_chunks (Some (address div 65536)) (address + 16) (drop 16 data) = Inr ls"
      "\<forall>l \<in> set ls. plain_line l" "ihex_lines (Suc (n + length switch)) ls ?st2 = Inr st'" "\<not> eof st'"
      "memory st' = zip [start..start + int (length (done @ data)) - 1] (done @ data)" by auto
    have "hex_chunks upper address data = Inr (switch @ line # ls)"
      using False sw(1) line(1) ls(1) by (subst hex_chunks.simps) (simp only: if_False Let_def bindR.simps)
    moreover have "ihex_lines n (switch @ line # ls) st = Inr st'"
      using sw(3) line(3) ls(3) by (simp add: ihex_lines_append)
    ultimately show ?thesis using sw(2) line(2) ls(2,4,5) by auto
  qed
qed


lemma addressed_hex_parsed:
  assumes "0 \<le> start" and "data \<noteq> []" and "start + int (length data) \<le> RRAM_END"
    and "start mod 16 = 0" and "length data mod 16 = 0"
  shows "\<exists>out. addressed_hex start data = Inr out
    \<and> (\<forall>fs p. fs p = Some (ascii_encode out) \<longrightarrow>
         parse_ihex fs p = Inr \<lparr>image_path = p, ranges = [(start, start + int (length data))], entry = None\<rparr>
         \<and> hex_memory_of fs p = Inr (zip [start..start + int (length data) - 1] data))"
proof -
  have allowed: "require_allowed [(start, start + int (length data))] [(0, RRAM_END)] = Inr ()"
    using assms(1-3) by (auto simp: FORBIDDEN_RANGES_def)
  obtain ls st where ls: "hex_chunks None start data = Inr ls" "\<forall>l \<in> set ls. plain_line l"
    "ihex_lines 1 ls ihex_init = Inr st" "\<not> eof st" "memory st = zip [start..start + int (length data) - 1] data"
    using hex_chunks_parsed [of ihex_init None start "[]" start data 1] assms by (auto simp: ihex_init_def)
  obtain final where final: "hex_record 0 1 [] = Inr final" "plain_line final"
    "ihex_line (1 + length ls) final st = Inr (st\<lparr>eof := True\<rparr>)"
    using ocd_hex.eof_line [OF ls(4), of "1 + length ls"] by blast
  have "addressed_hex start data = Inr (unlines (ls @ [final]))"
    using assms(4,5) allowed ls(1) final(1)
    by (simp add: addressed_hex_def join_LF_unlines del: join_str.simps require_allowed.simps)
  moreover have "parse_ihex fs p = Inr \<lparr>image_path = p, ranges = [(start, start + int (length data))], entry = None\<rparr>
      \<and> hex_memory_of fs p = Inr (zip [start..start + int (length data) - 1] data)"
    if content: "fs p = Some (ascii_encode (unlines (ls @ [final])))" for fs p
  proof -
    have t: "ihex_text fs p = Inr (ls @ [final])"
      using ls(2) final(2) by (intro ihex_text_unlines content) auto
    have l: "ihex_lines 1 (ls @ [final]) ihex_init = Inr (st\<lparr>eof := True\<rparr>)"
      unfolding ihex_lines_append ls(3) using final(3) by simp
    have m: "memory (st\<lparr>eof := True\<rparr>) = zip [start..start + int (length data) - 1] data" using ls(5) by simp
    have "hex_memory_of fs p = Inr (memory (st\<lparr>eof := True\<rparr>))"
      by (simp only: hex_memory_of_def t l bindR.simps)
    with parse_ihex_block [OF t l _ m assms(2)] m show ?thesis by simp
  qed
  ultimately show ?thesis by blast
qed

text \<open>
  C16. A backup is a faithful image: for every non-empty, 16-byte aligned range inside ordinary
  RRAM, \<open>addressed_hex\<close> succeeds, and any file holding its text is parsed as exactly that range,
  with every byte of the data at its own address.
\<close>

theorem addressed_hex_roundtrip:
  assumes "0 \<le> start" and "data \<noteq> []" and "start + int (length data) \<le> RRAM_END"
    and "start mod 16 = 0" and "length data mod 16 = 0"
  shows "\<exists>out. addressed_hex start data = Inr out
    \<and> (\<forall>fs p. fs p = Some (ascii_encode out) \<longrightarrow>
         (\<exists>img m. parse_ihex fs p = Inr img \<and> ranges img = [(start, start + int (length data))]
            \<and> hex_memory_of fs p = Inr m
            \<and> (\<forall>i < length data. map_of m (start + int i) = Some (data ! i))))"
proof -
  obtain out where "addressed_hex start data = Inr out" and content: "\<And>fs p. fs p = Some (ascii_encode out) \<Longrightarrow>
         parse_ihex fs p = Inr \<lparr>image_path = p, ranges = [(start, start + int (length data))], entry = None\<rparr>
         \<and> hex_memory_of fs p = Inr (zip [start..start + int (length data) - 1] data)"
    using addressed_hex_parsed [OF assms] by blast
  moreover have "\<forall>i < length data. map_of (zip [start..start + int (length data) - 1] data) (start + int i) = Some (data ! i)"
    using map_of_zip_upto by blast
  ultimately show ?thesis by (intro exI [of _ out]) fastforce
qed

theorem addressed_hex_roundtrip_witness:
  "\<exists>out. addressed_hex 0xFFF0 (replicate 32 0xA5) = Inr out
    \<and> (\<exists>img m. parse_ihex (\<lambda>_. Some (ascii_encode out)) ''b.hex'' = Inr img \<and> ranges img = [(0xFFF0, 0x10010)]
         \<and> hex_memory_of (\<lambda>_. Some (ascii_encode out)) ''b.hex'' = Inr m
         \<and> map_of m (0xFFF0 + int 20) = Some 0xA5)"
proof -
  define data where "data = replicate 32 (0xA5 :: byte)"
  have len: "length data = 32" "data ! 20 = 0xA5" by (simp_all add: data_def)
  then have "0 \<le> (0xFFF0 :: int)" "data \<noteq> []" "0xFFF0 + int (length data) \<le> RRAM_END"
    "(0xFFF0 :: int) mod 16 = 0" "length data mod 16 = 0" by auto
  from addressed_hex_roundtrip [OF this] obtain out where both: "addressed_hex 0xFFF0 data = Inr out
    \<and> (\<forall>fs p. fs p = Some (ascii_encode out) \<longrightarrow>
         (\<exists>img m. parse_ihex fs p = Inr img \<and> ranges img = [(0xFFF0, 0xFFF0 + int (length data))]
            \<and> hex_memory_of fs p = Inr m \<and> (\<forall>i < length data. map_of m (0xFFF0 + int i) = Some (data ! i))))" ..
  note out = conjunct1 [OF both] and all = conjunct2 [OF both]
  from spec [OF spec [OF all], of "\<lambda>_. Some (ascii_encode out)" "''b.hex''"]
  obtain img m where "parse_ihex (\<lambda>_. Some (ascii_encode out)) ''b.hex'' = Inr img"
    "ranges img = [(0xFFF0, 0xFFF0 + int (length data))]"
    "hex_memory_of (\<lambda>_. Some (ascii_encode out)) ''b.hex'' = Inr m"
    and m: "\<forall>i < length data. map_of m (0xFFF0 + int i) = Some (data ! i)"
    by blast
  moreover from m have "map_of m (0xFFF0 + int 20) = Some (data ! 20)"
    by (rule allE [of _ 20]) (simp add: len)
  ultimately show ?thesis using out unfolding data_def [symmetric] by (auto simp: len)
qed


subsection \<open>Observation paths\<close>

definition c_identifier :: "string \<Rightarrow> bool" where
  "c_identifier s \<longleftrightarrow> s \<noteq> [] \<and> identifier_head (hd s) \<and> list_all identifier_char (tl s)"

lemma dot_not_identifier [simp]: "\<not> identifier_char (CHR ''.'')" "\<not> identifier_head (CHR ''.'')"
  by (simp_all add: identifier_char_def identifier_head_def)

lemma observation_parts:
  "observation_start s \<longleftrightarrow> list_all c_identifier (split_on (CHR ''.'') s)"
  "observation_inside s \<longleftrightarrow> list_all identifier_char (hd (split_on (CHR ''.'') s))
     \<and> list_all c_identifier (tl (split_on (CHR ''.'') s))"
proof (induction s rule: observation_start_observation_inside.induct)
  case (2 c cs)
  then show ?case
    by (cases "c = CHR ''.''") (auto simp: split_on_Cons_other c_identifier_def simp del: split_on.simps(2),
      auto simp: c_identifier_def)
next
  case (4 c cs)
  show ?case
  proof (cases "c = CHR ''.''")
    case True
    with "4.IH" show ?thesis by simp
  next
    case False
    with "4.IH" show ?thesis by (auto simp: split_on_Cons_other simp del: split_on.simps(2))
  qed
qed (simp_all add: c_identifier_def)

text \<open>
  C17. An observation argument is accepted exactly when every component between dots is a C
  identifier; so what is spliced into the GDB script is free of blanks, quotes and operators.
\<close>

theorem observation_path_valid_iff:
  "observation_path_valid s \<longleftrightarrow> list_all c_identifier (split_on (CHR ''.'') s)"
  by (simp add: observation_path_valid_def observation_parts)

subsection \<open>The identity reported by a run\<close>

lemma hex_number_snoc: "hex_number (s @ [c]) = hex_number s * 16 + (case hex_value c of Some v \<Rightarrow> v | None \<Rightarrow> 0)"
  by (simp add: hex_number_def)

lemma hex_number_hex_nat: "hex_number (hex_nat n) = n"
proof (induction n rule: hex_nat.induct)
  case (1 n)
  show ?case
  proof (cases "n < 16")
    case True
    then show ?thesis by (subst hex_nat.simps) (simp add: hex_number_def)
  next
    case False
    with 1 show ?thesis by (subst hex_nat.simps) (simp add: hex_number_snoc)
  qed
qed

lemma hex_number_zeros: "hex_number (replicate k (CHR ''0'') @ s) = hex_number s"
  by (induction k) (simp_all add: hex_number_def hex_value_def)

definition lower_hex_char :: "char \<Rightarrow> bool" where
  "lower_hex_char c = (let n = of_char c :: nat in (48 \<le> n \<and> n \<le> 57) \<or> (97 \<le> n \<and> n \<le> 102))"

lemma lower_hex_char_digit: "n < 16 \<Longrightarrow> lower_hex_char (hex_digit n)"
  by (drule less_16_cases) (auto simp: lower_hex_char_def hex_digit_def)

lemma lower_hex_char_hex_nat: "list_all lower_hex_char (hex_nat n)"
proof (induction n rule: hex_nat.induct)
  case (1 n)
  then show ?case by (subst hex_nat.simps) (simp add: lower_hex_char_digit)
qed

lemma length_hex_nat: "n < 16 ^ k \<Longrightarrow> 0 < k \<Longrightarrow> length (hex_nat n) \<le> k"
proof (induction n arbitrary: k rule: hex_nat.induct)
  case (1 n)
  show ?case
  proof (cases "n < 16")
    case True
    with 1 show ?thesis by (subst hex_nat.simps) simp
  next
    case False
    with "1.prems" obtain j where k: "k = Suc j" "0 < j" by (cases k; cases "k = 1") auto
    have "n div 16 < 16 ^ j" using "1.prems" k by (simp add: div_less_iff_less_mult mult.commute)
    with "1.IH" False k have "length (hex_nat (n div 16)) \<le> j" by simp
    with False k show ?thesis by (subst hex_nat.simps) simp
  qed
qed

lemma hex_int_8:
  assumes "v < 2 ^ 32"
  shows "lower_hex8 (hex_int 8 (int v))" and "hex_number (hex_int 8 (int v)) = v"
proof -
  have h: "hex_int 8 (int v) = replicate (8 - length (hex_nat v)) (CHR ''0'') @ hex_nat v"
    by (simp add: hex_int_def zero_fill_def)
  show "hex_number (hex_int 8 (int v)) = v" by (simp add: h hex_number_zeros hex_number_hex_nat)
  have "length (hex_nat v) \<le> 8" using length_hex_nat [of v 8] assms by simp
  moreover have "list_all lower_hex_char (hex_int 8 (int v))"
    using lower_hex_char_hex_nat [of v] lower_hex_char_digit [of 0]
    by (auto simp: h list_all_iff hex_digit_def)
  ultimately show "lower_hex8 (hex_int 8 (int v))"
    by (simp add: lower_hex8_def h lower_hex_char_def [abs_def, symmetric])
qed

lemma lower_hex8_no_LF: "lower_hex8 s \<Longrightarrow> LF \<notin> set s"
  by (auto simp: lower_hex8_def list_all_iff Let_def)

text \<open>The two lines the identification script prints.\<close>

definition id_line :: "nat \<Rightarrow> nat \<Rightarrow> string" where
  "id_line p v = ''NRFKIT_ID '' @ hex_int 8 (int p) @ '' '' @ hex_int 8 (int v) @ '' 2036''"

definition dev_line :: "nat \<Rightarrow> nat \<Rightarrow> string" where
  "dev_line a b = ''NRFKIT_DEVICEID '' @ hex_int 8 (int a) @ '' '' @ hex_int 8 (int b)"

lemma id_line_matches:
  assumes "p < 2 ^ 32" and "v < 2 ^ 32"
  shows "identity_line (id_line p v) = Some (hex_int 8 (int p), hex_int 8 (int v), ''2036'')"
    and "device_line (id_line p v) = None" and "LF \<notin> set (id_line p v)"
proof -
  define P V where "P = hex_int 8 (int p)" and "V = hex_int 8 (int v)"
  have l: "lower_hex8 P" "lower_hex8 V" using hex_int_8(1) assms by (auto simp: P_def V_def)
  then have len: "length P = 8" "length V = 8" by (simp_all add: lower_hex8_def)
  show "identity_line (id_line p v) = Some (hex_int 8 (int p), hex_int 8 (int v), ''2036'')"
    using l len unfolding id_line_def P_def [symmetric] V_def [symmetric] identity_line_def
    by (simp add: py_slice_def decimal_def)
  show "device_line (id_line p v) = None"
    by (simp add: device_line_def id_line_def)
  show "LF \<notin> set (id_line p v)"
    using lower_hex8_no_LF [OF l(1)] lower_hex8_no_LF [OF l(2)]
    unfolding id_line_def P_def [symmetric] V_def [symmetric] by simp
qed

lemma dev_line_matches:
  assumes "a < 2 ^ 32" and "b < 2 ^ 32"
  shows "device_line (dev_line a b) = Some (hex_int 8 (int a), hex_int 8 (int b))" and "LF \<notin> set (dev_line a b)"
proof -
  define A B where "A = hex_int 8 (int a)" and "B = hex_int 8 (int b)"
  have l: "lower_hex8 A" "lower_hex8 B" using hex_int_8(1) assms by (auto simp: A_def B_def)
  then have len: "length A = 8" "length B = 8" by (simp_all add: lower_hex8_def)
  show "device_line (dev_line a b) = Some (hex_int 8 (int a), hex_int 8 (int b))"
    using l len unfolding dev_line_def A_def [symmetric] B_def [symmetric] device_line_def
    by (simp add: py_slice_def)
  show "LF \<notin> set (dev_line a b)"
    using lower_hex8_no_LF [OF l(1)] lower_hex8_no_LF [OF l(2)]
    unfolding dev_line_def A_def [symmetric] B_def [symmetric] by simp
qed

lemma split_on_append_sep: "c \<notin> set l \<Longrightarrow> split_on c (l @ c # rest) = l # split_on c rest"
  by (induction l) auto

lemma split_on_unlines: "\<forall>l \<in> set ls. LF \<notin> set l \<Longrightarrow> split_on LF (unlines ls @ rest) = ls @ split_on LF rest"
  by (induction ls) (auto simp: unlines_def split_on_append_sep)

lemma first_match_append: "\<forall>x \<in> set xs. f x = None \<Longrightarrow> first_match f (xs @ ys) = first_match f ys"
  by (induction xs) auto

lemma not_reported:
  assumes "\<not> prefix ''NRFKIT_'' l"
  shows "identity_line l = None" and "device_line l = None"
proof -
  have seven: "take 7 l \<noteq> ''NRFKIT_''" using assms take_is_prefix [of 7 l] by auto
  have "take 10 l \<noteq> ''NRFKIT_ID ''"
  proof
    assume "take 10 l = ''NRFKIT_ID ''"
    then have "take 7 (take 10 l) = take 7 ''NRFKIT_ID ''" by (rule arg_cong)
    with seven show False by simp
  qed
  moreover have "take 16 l \<noteq> ''NRFKIT_DEVICEID ''"
  proof
    assume "take 16 l = ''NRFKIT_DEVICEID ''"
    then have "take 7 (take 16 l) = take 7 ''NRFKIT_DEVICEID ''" by (rule arg_cong)
    with seven show False by simp
  qed
  ultimately show "identity_line l = None" "device_line l = None" by (auto simp: identity_line_def device_line_def)
qed

text \<open>
  C18. The identity reader inverts the identification script: whatever OpenOCD logs before and
  after, if the script printed its two lines for an accepted part, the reader returns that part, variant,
  memory size and device id.
\<close>

theorem parse_identity_roundtrip:
  assumes "p \<in> {0x054BC20A, 0x054BC20B}" and "v < 2 ^ 32" and "a < 2 ^ 32" and "b < 2 ^ 32"
    and "\<forall>l \<in> set before. LF \<notin> set l \<and> \<not> prefix ''NRFKIT_'' l"
  shows "parse_identity (unlines (before @ [id_line p v, dev_line a b]) @ after) =
    Inr \<lparr>part = p, variant = v, rram_kib = 2036, device_id = hex_int 8 (int a) @ hex_int 8 (int b)\<rparr>"
proof -
  have p: "p < 2 ^ 32" using assms(1) by auto
  have "split_on LF (unlines (before @ [id_line p v, dev_line a b]) @ after)
      = (before @ [id_line p v, dev_line a b]) @ split_on LF after"
    using assms id_line_matches(3) [OF p assms(2)] dev_line_matches(2) [OF assms(3,4)]
    by (intro split_on_unlines) auto
  moreover have "first_match identity_line ((before @ [id_line p v, dev_line a b]) @ split_on LF after)
      = Some (hex_int 8 (int p), hex_int 8 (int v), ''2036'')"
    using assms(5) not_reported id_line_matches [OF p assms(2)] by (simp add: first_match_append)
  moreover have "first_match device_line ((before @ [id_line p v, dev_line a b]) @ split_on LF after)
      = Some (hex_int 8 (int a), hex_int 8 (int b))"
    using assms(5) not_reported id_line_matches [OF p assms(2)] dev_line_matches [OF assms(3,4)]
    by (simp add: first_match_append)
  moreover have "py_int ''2036'' = Some 2036"
    by (simp add: py_int_def py_strip_def py_space_def signed_int_def int_digits_def digit_in_def digit_value_def)
  ultimately show ?thesis
    using assms(1) hex_int_8(2) [OF p] hex_int_8(2) [OF assms(2)] by (auto simp: parse_identity_def)
qed

theorem parse_identity_roundtrip_witness:
  "parse_identity (unlines ([''Info : CMSIS-DAP: ready''] @ [id_line 0x054BC20A 0x41414130, dev_line 1 0xDEADBEEF]) @ ''bye'') =
    Inr \<lparr>part = 0x054BC20A, variant = 0x41414130, rram_kib = 2036,
         device_id = hex_int 8 (int 1) @ hex_int 8 (int 0xDEADBEEF)\<rparr>"
  by (rule parse_identity_roundtrip) simp_all

lemma parse_identity_accepted:
  "parse_identity out = Inr ident \<Longrightarrow> part ident \<in> {0x054BC20A, 0x054BC20B} \<and> rram_kib ident = 2036"
  by (auto simp: parse_identity_def Let_def split: option.splits prod.splits if_splits)

subsection \<open>Quoting\<close>

text \<open>
  How Tcl reads a braced word: up to the brace that closes the first one, where a backslash
  protects the next character and braces nest. The result is the word and the rest of the script.
\<close>

fun tcl_braced :: "nat \<Rightarrow> string \<Rightarrow> (string \<times> string) option" where
  "tcl_braced depth [] = None"
| "tcl_braced depth (c # cs) =
     (if c = CHR 0x5C then
        (case cs of [] \<Rightarrow> None
         | d # ds \<Rightarrow> map_option (\<lambda>(w, r). (c # d # w, r)) (tcl_braced depth ds))
      else if c = CHR ''{'' then map_option (\<lambda>(w, r). (c # w, r)) (tcl_braced (Suc depth) cs)
      else if c = CHR ''}'' then
        (case depth of 0 \<Rightarrow> Some ([], cs)
         | Suc d \<Rightarrow> map_option (\<lambda>(w, r). (c # w, r)) (tcl_braced d cs))
      else map_option (\<lambda>(w, r). (c # w, r)) (tcl_braced depth cs))"

lemma tcl_braced_plain:
  "list_all (\<lambda>c. \<not> tcl_special c) v \<Longrightarrow> tcl_braced 0 (v @ CHR ''}'' # rest) = Some (v, rest)"
  by (induction v) (auto simp: tcl_special_def)

lemma tcl_special_iff: "tcl_special c \<longleftrightarrow> c \<in> {CHR ''{'', CHR ''}'', CHR 0x5C, LF, CR, CHR 0x00}"
proof -
  have "c = d \<longleftrightarrow> (of_char c :: nat) = of_char d" for d :: char by simp
  from this [of "CHR ''{''"] this [of "CHR ''}''"] this [of "CHR 0x5C"] this [of LF] this [of CR] this [of "CHR 0x00"]
  show ?thesis by (simp add: tcl_special_def Let_def)
qed

text \<open>
  C19. Tcl reads back what was quoted: whenever \<open>tcl_word\<close> accepts a value, its output is an
  opening brace from which Tcl reads exactly that value and leaves the rest of the script alone; it
  refuses exactly the values holding a brace, a backslash, a line break or a NUL.
\<close>

theorem tcl_word_reads_back:
  "(case tcl_word v of
      Inl e \<Rightarrow> e = UnsupportedTclCharacter \<and> (\<exists>c \<in> set v. c \<in> {CHR ''{'', CHR ''}'', CHR 0x5C, LF, CR, CHR 0x00})
    | Inr w \<Rightarrow> hd w = CHR ''{'' \<and> tcl_braced 0 (tl w @ rest) = Some (v, rest))"
proof (cases "list_ex tcl_special v")
  case True
  then obtain c where c: "c \<in> set v" "tcl_special c" by (auto simp: list_ex_iff)
  then have "\<exists>c \<in> set v. c \<in> {CHR ''{'', CHR ''}'', CHR 0x5C, LF, CR, CHR 0x00}"
    unfolding tcl_special_iff by blast
  with True show ?thesis by (simp add: tcl_word_def)
next
  case False
  then have "list_all (\<lambda>c. \<not> tcl_special c) v" by (auto simp: list_ex_iff list_all_iff)
  from tcl_braced_plain [OF this, of rest] False show ?thesis by (simp add: tcl_word_def)
qed

subsection \<open>Runs\<close>

definition script_of :: "open_ocd \<Rightarrow> string \<Rightarrow> path" where
  "script_of b name = path_join (run_dir b) (name @ ''.tcl'')"

lemma run_script_returns:
  assumes "run_script child b name commands w = (w', Inr out)"
  obtains config ident outside' files' where
    "configuration (ocd_dev b) (speed_khz b) None = Inr config" "parse_identity out = Inr ident"
    "child (outside w) ((files w)(script_of b name := Some (utf8_encode (config @ commands @ [LF] @ ''shutdown'' @ [LF]))))
       [ocd_executable b, ''-s'', ocd_scripts b, ''-f'', script_of b name] = (outside', files', Completed 0 out)"
    "launches w' = launches w @ [\<lparr>launch_argv = [ocd_executable b, ''-s'', ocd_scripts b, ''-f'', script_of b name],
       launch_files = (files w)(script_of b name := Some (utf8_encode (config @ commands @ [LF] @ ''shutdown'' @ [LF])))\<rparr>]"
    "files w' = files'(path_join (run_dir b) (name @ ''.log'') := Some (utf8_encode out))"
    "outside w' = outside'" "sealed w' = sealed w @ [script_of b name]"
  using assms that
  unfolding run_script_def ocd_argv_def script_of_def
  by (auto simp: action_simps write_file_def seal_def run_logged_def Let_def
      split: if_splits prod.splits run_end.splits)

text \<open>
  C20. A run returns output only when exactly one child was launched, on a script that
  begins with the validated configuration and the identification guard before any caller command
  and ends with \<open>shutdown\<close>; the child exited with code zero in time, and the output reports an
  accepted part.
\<close>

theorem ocd_run_guarded:
  assumes "ocd_run child b name commands w = (w', Inr out)"
  shows "\<exists>config ident l. configuration (ocd_dev b) (speed_khz b) None = Inr config
    \<and> parse_identity out = Inr ident \<and> part ident \<in> {0x054BC20A, 0x054BC20B} \<and> rram_kib ident = 2036
    \<and> launches w' = launches w @ [l]
    \<and> launch_argv l = [ocd_executable b, ''-s'', ocd_scripts b, ''-f'', script_of b name]
    \<and> launch_files l (script_of b name) = Some (utf8_encode
        (config @ ''init'' @ [LF] @ IDENTIFY @ commands @ [LF] @ ''shutdown'' @ [LF]))
    \<and> (\<exists>h fs. child (outside w) (launch_files l) (launch_argv l) = (h, fs, Completed 0 out))"
  using assms unfolding ocd_run_def
  by (elim run_script_returns) (auto dest: parse_identity_accepted)

text \<open>A bench for the witnesses: one probe, and a child that reports an accepted target.\<close>

definition bench_device :: ocd_device where
  "bench_device = \<lparr>dev_serial = ''0700'', dev_vid = 0x0D28, dev_pid = 0x0204, dev_interface = 3, dev_product = None\<rparr>"

definition bench :: open_ocd where
  "bench = \<lparr>ocd_executable = ''/bin/openocd'', ocd_scripts = ''/scripts'', ocd_dev = bench_device,
     run_dir = ''/run'', speed_khz = 1000, ocd_timeout = 90\<rparr>"

definition bench_output :: string where
  "bench_output = unlines [id_line 0x054BC20A 0x41414130, dev_line 1 2]"

definition bench_identity :: target_identity where
  "bench_identity = \<lparr>part = 0x054BC20A, variant = 0x41414130, rram_kib = 2036,
     device_id = hex_int 8 (int 1) @ hex_int 8 (int 2)\<rparr>"

definition bench_config :: string where
  "bench_config = (case configuration bench_device 1000 None of Inr c \<Rightarrow> c | Inl _ \<Rightarrow> [])"

lemma bench_configured: "configuration bench_device 1000 None = Inr bench_config"
proof -
  have "returns (configuration bench_device 1000 None)"
    by (simp add: configuration_def bench_device_def tcl_word_def tcl_special_def)
  then show ?thesis by (auto simp: bench_config_def)
qed

lemma bench_reports: "parse_identity bench_output = Inr bench_identity"
proof -
  have b: "(0x054BC20A::nat) < 2 ^ 32" "(0x41414130::nat) < 2 ^ 32" "(1::nat) < 2 ^ 32" "(2::nat) < 2 ^ 32" by simp_all
  note i = id_line_matches [OF b(1,2)] and d = dev_line_matches [OF b(3,4)]
  have s: "split_on LF bench_output = [id_line 0x054BC20A 0x41414130, dev_line 1 2, []]"
    using split_on_unlines [of "[id_line 0x054BC20A 0x41414130, dev_line 1 2]" "[]"] i(3) d(2)
    by (simp add: bench_output_def)
  have "py_int ''2036'' = Some 2036"
    by (simp add: py_int_def py_strip_def py_space_def signed_int_def int_digits_def digit_in_def digit_value_def)
  with s i d hex_int_8(2) [OF b(1)] hex_int_8(2) [OF b(2)] show ?thesis
    by (simp add: parse_identity_def bench_identity_def)
qed

definition bench_child :: "(filesystem \<Rightarrow> string list \<Rightarrow> filesystem) \<Rightarrow> unit child" where
  "bench_child act h fs argv = (h, act fs argv, Completed 0 bench_output)"

definition bench_world :: "filesystem \<Rightarrow> unit host" where
  "bench_world fs = \<lparr>files = fs, sealed = [], launches = [], outside = ()\<rparr>"

lemma bench_run:
  "ocd_run (bench_child act) bench name commands w =
     (let script = script_of bench name;
          fs = (files w)(script := Some (utf8_encode (bench_config @ ''init'' @ [LF] @ IDENTIFY @ commands @ [LF] @ ''shutdown'' @ [LF])));
          argv = [''/bin/openocd'', ''-s'', ''/scripts'', ''-f'', script] in
      (w\<lparr>files := (act fs argv)(path_join ''/run'' (name @ ''.log'') := Some (utf8_encode bench_output)),
         sealed := sealed w @ [script], launches := launches w @ [\<lparr>launch_argv = argv, launch_files = fs\<rparr>]\<rparr>,
       Inr bench_output))"
proof -
  have f: "ocd_dev bench = bench_device" "speed_khz bench = 1000" "run_dir bench = ''/run''"
    "ocd_executable bench = ''/bin/openocd''" "ocd_scripts bench = ''/scripts''" "ocd_timeout bench = 90"
    by (simp_all add: bench_def)
  show ?thesis
    unfolding ocd_run_def run_script_def ocd_argv_def script_of_def f
    by (simp add: bench_configured bindA_def liftA_def write_file_def seal_def updateA_def pureA_def
        run_logged_def bench_child_def requireA_def bench_reports Let_def)
qed

theorem ocd_run_guarded_witness:
  "\<exists>config ident l. configuration (ocd_dev bench) (speed_khz bench) None = Inr config
    \<and> parse_identity bench_output = Inr ident \<and> part ident \<in> {0x054BC20A, 0x054BC20B} \<and> rram_kib ident = 2036
    \<and> launches (fst (ocd_run (bench_child (\<lambda>fs _. fs)) bench ''info'' [] (bench_world (\<lambda>_. None)))) = [] @ [l]
    \<and> launch_files l ''/run/info.tcl'' = Some (utf8_encode
        (config @ ''init'' @ [LF] @ IDENTIFY @ [] @ [LF] @ ''shutdown'' @ [LF]))"
proof -
  obtain w' where w': "ocd_run (bench_child (\<lambda>fs _. fs)) bench ''info'' [] (bench_world (\<lambda>_. None)) = (w', Inr bench_output)"
    by (simp add: bench_run Let_def)
  have "script_of bench ''info'' = ''/run/info.tcl''" "launches (bench_world (\<lambda>_. None)) = []"
    by (simp_all add: script_of_def bench_def path_join_def bench_world_def)
  with ocd_run_guarded [OF w'] w' show ?thesis by (simp only: fst_conv) blast
qed

end
