(* ===== verification/Json.thy ===== *)
theory Json
  imports Pytext Effects
begin

section \<open>JSON values as Python sees them\<close>

text \<open>
  The values \<open>json.loads\<close> yields, Python's equality on them (objects as maps, numbers across
  types), and the accesses the tools make: subscripting, \<open>dict.get\<close>, iteration and
  conversion, each with the exception a value of the wrong shape raises. NaN and the
  infinities are left out.
\<close>

datatype json =
    JNull
  | JBool bool
  | JInt int
  | JReal rat
  | JStr string
  | JList "json list"
  | JObj "(string \<times> json) list"

fun jnum :: "json \<Rightarrow> rat option" where
  "jnum (JBool b) = Some (of_bool b)"
| "jnum (JInt i) = Some (of_int i)"
| "jnum (JReal r) = Some r"
| "jnum _ = None"

lemma size_json_value: "kv \<in> set kvs \<Longrightarrow> size (snd kv) < Suc (size_list (size_prod (\<lambda>_. 0) size) kvs)"
  by (induction kvs) (auto simp: less_Suc_eq_le)

lemma size_json_value' [termination_simp]:
  "kv \<in> set kvs \<Longrightarrow> size (snd kv) < Suc (size_list (\<lambda>p. Suc (size (snd p))) kvs)"
  by (induction kvs) (auto simp: less_Suc_eq_le)

fun py_eq :: "json \<Rightarrow> json \<Rightarrow> bool" where
  "py_eq (JList xs) b = (case b of JList ys \<Rightarrow> list_all2 py_eq xs ys | _ \<Rightarrow> False)"
| "py_eq (JObj kvs) b =
     (case b of
        JObj lws \<Rightarrow> length kvs = length lws \<and>
          list_all (\<lambda>kv. case map_of lws (fst kv) of Some w \<Rightarrow> py_eq (snd kv) w | None \<Rightarrow> False) kvs
      | _ \<Rightarrow> False)"
| "py_eq JNull b = (b = JNull)"
| "py_eq (JStr s) b = (b = JStr s)"
| "py_eq (JBool x) b = (jnum b = Some (of_bool x))"
| "py_eq (JInt i) b = (jnum b = Some (of_int i))"
| "py_eq (JReal r) b = (jnum b = Some r)"

subsection \<open>Accesses\<close>

text \<open>\<open>value[key]\<close>, \<open>value.get(key, default)\<close>, iteration, and a path or string argument.\<close>

fun jitem :: "json \<Rightarrow> string \<Rightarrow> py_error + json" where
  "jitem (JObj kvs) k = (case map_of kvs k of Some v \<Rightarrow> Inr v | None \<Rightarrow> Inl KeyError)"
| "jitem _ k = Inl TypeError"

fun jget :: "json \<Rightarrow> string \<Rightarrow> json \<Rightarrow> py_error + json" where
  "jget (JObj kvs) k d = Inr (case map_of kvs k of Some v \<Rightarrow> v | None \<Rightarrow> d)"
| "jget _ k d = Inl AttributeError"

fun jiter :: "json \<Rightarrow> py_error + json list" where
  "jiter (JList xs) = Inr xs"
| "jiter (JObj kvs) = Inr (map (JStr \<circ> fst) kvs)"
| "jiter (JStr s) = Inr (map (\<lambda>c. JStr [c]) s)"
| "jiter _ = Inl TypeError"

fun jstr :: "json \<Rightarrow> py_error + string" where
  "jstr (JStr s) = Inr s"
| "jstr _ = Inl TypeError"

fun is_dict :: "json \<Rightarrow> bool" where
  "is_dict (JObj _) = True"
| "is_dict _ = False"

text \<open>The items of a value that is a non-empty list; \<^const>\<open>None\<close> otherwise.\<close>

fun nonempty_list :: "json \<Rightarrow> json list option" where
  "nonempty_list (JList xs) = (if xs = [] then None else Some xs)"
| "nonempty_list _ = None"

text \<open>Truth of a value in a condition.\<close>

fun jtruth :: "json \<Rightarrow> bool" where
  "jtruth JNull = False"
| "jtruth (JBool b) = b"
| "jtruth (JInt i) = (i \<noteq> 0)"
| "jtruth (JReal r) = (r \<noteq> 0)"
| "jtruth (JStr s) = (s \<noteq> [])"
| "jtruth (JList xs) = (xs \<noteq> [])"
| "jtruth (JObj kvs) = (kvs \<noteq> [])"

definition jint_pair :: "int \<times> int \<Rightarrow> json" where
  "jint_pair r = JList [JInt (fst r), JInt (snd r)]"

text \<open>Filtering a list by a condition that may raise.\<close>

fun filterR :: "('x \<Rightarrow> 'e + bool) \<Rightarrow> 'x list \<Rightarrow> 'e + 'x list" where
  "filterR f [] = Inr []"
| "filterR f (x # xs) =
     bindR (f x) (\<lambda>b. bindR (filterR f xs) (\<lambda>ys. Inr (if b then x # ys else ys)))"

text \<open>Short-circuit \<open>any\<close>, \<open>or\<close> over conditions that may raise.\<close>

fun anyR :: "('x \<Rightarrow> 'e + bool) \<Rightarrow> 'x list \<Rightarrow> 'e + bool" where
  "anyR f [] = Inr False"
| "anyR f (x # xs) = bindR (f x) (\<lambda>b. if b then Inr True else anyR f xs)"

definition orR :: "'e + bool \<Rightarrow> ('e + bool) \<Rightarrow> 'e + bool" where
  "orR a b = bindR a (\<lambda>x. if x then Inr True else b)"

subsection \<open>Laws\<close>

lemma list_all2_same: "list_all2 P xs xs \<longleftrightarrow> (\<forall>x \<in> set xs. P x x)"
  by (induction xs) auto

text \<open>Objects with distinct keys, as every dict has.\<close>

fun json_wf :: "json \<Rightarrow> bool" where
  "json_wf (JList xs) = list_all json_wf xs"
| "json_wf (JObj kvs) = (distinct (map fst kvs) \<and> list_all (\<lambda>kv. json_wf (snd kv)) kvs)"
| "json_wf _ = True"

lemma py_eq_refl: "json_wf v \<Longrightarrow> py_eq v v"
proof (induction v rule: json_wf.induct)
  case (1 xs)
  then show ?case by (auto simp: list_all2_same list_all_iff)
next
  case (2 kvs)
  then have "map_of kvs (fst kv) = Some (snd kv)" if "kv \<in> set kvs" for kv
    using that by (intro map_of_is_SomeI) auto
  with 2 show ?case by (auto simp: list_all_iff)
qed auto

lemma py_eq_JStr [simp]: "py_eq v (JStr s) \<longleftrightarrow> v = JStr s"
  by (cases v) auto

lemma py_eq_JNull [simp]: "py_eq v JNull \<longleftrightarrow> v = JNull"
  by (cases v) auto

lemma filterR_Inr_iff: "filterR f xs = Inr ys \<longleftrightarrow>
    (\<forall>x \<in> set xs. \<exists>b. f x = Inr b) \<and> ys = filter (\<lambda>x. f x = Inr True) xs"
proof (induction xs arbitrary: ys)
  case (Cons x xs)
  show ?case
  proof (cases "f x")
    case (Inr b)
    with Cons.IH show ?thesis by (cases b) (auto simp: result_simps)
  qed simp
qed auto

lemma anyR_False_iff: "anyR f xs = Inr False \<longleftrightarrow> (\<forall>x \<in> set xs. f x = Inr False)"
  by (induction xs) (auto simp: result_simps split: if_splits)

lemma orR_False_iff [result_simps]: "orR a b = Inr False \<longleftrightarrow> a = Inr False \<and> b = Inr False"
  by (auto simp: orR_def result_simps split: if_splits)

lemma jitem_Inr_iff [result_simps]: "jitem v k = Inr x \<longleftrightarrow> (\<exists>kvs. v = JObj kvs \<and> map_of kvs k = Some x)"
  by (cases v) (auto split: option.splits)

lemma jstr_Inr_iff [result_simps]: "jstr v = Inr s \<longleftrightarrow> v = JStr s"
  by (cases v) auto

lemma nonempty_list_Some_iff [result_simps]: "nonempty_list v = Some xs \<longleftrightarrow> v = JList xs \<and> xs \<noteq> []"
  by (cases v) auto

end
