(* ===== verification/Device.thy ===== *)
theory Device
  imports Json Process
begin

section \<open>The device backend contract\<close>

text \<open>
  Models \<open>src/tools/nrfkit_tools/device.py\<close>: the safe programming options, reading the one
  relevant event from nrfutil's output, selecting the probe, resolving a local alias, and the argument
  vectors. \<open>loads\<close> stands for \<open>json.loads\<close> (\<^const>\<open>None\<close> is \<open>JSONDecodeError\<close>).
\<close>

datatype device_error =
    InvalidJsonEvent nat
  | NotOneInfoEvent string
  | NoDeviceMatches
  | MultipleDevicesMatch
  | AliasInventoryInvalid
  | AliasInventorySchema
  | AliasInventoryHasNoAliases
  | AliasBoardMismatch string
  | AliasHasNoSerial string
  | DevPython py_error

definition SAFE_PROGRAM_OPTIONS :: "(string \<times> string) list" where
  "SAFE_PROGRAM_OPTIONS =
    [(''chip_erase_mode'', ''ERASE_NONE''), (''verify'', ''VERIFY_READ''), (''reset'', ''RESET_NONE'')]"

definition safe_backend_contract :: json where
  "safe_backend_contract = JObj
    [(''programmer'', JStr ''nrfutil-device''),
     (''program_options'', JObj (map (\<lambda>(k, v). (k, JStr v)) SAFE_PROGRAM_OPTIONS)),
     (''resetter'', JStr ''nrfutil-device-reset'')]"

subsection \<open>Events of the nrfutil log\<close>

fun json_line_matches ::
  "(string \<Rightarrow> json option) \<Rightarrow> string \<Rightarrow> nat \<Rightarrow> string list \<Rightarrow> device_error + json list" where
  "json_line_matches loads field number [] = Inr []"
| "json_line_matches loads field number (line # lines) =
     (if py_strip line = [] then json_line_matches loads field (Suc number) lines
      else case loads line of
        None \<Rightarrow> Inl (InvalidJsonEvent number)
      | Some event \<Rightarrow>
          bindR (mapE DevPython (jget event ''type'' JNull)) (\<lambda>kind.
            bindR (if py_eq kind (JStr ''info'') then mapE DevPython (jget event ''data'' JNull) else Inr JNull) (\<lambda>data.
              bindR (json_line_matches loads field (Suc number) lines) (\<lambda>rest.
                Inr (case data of
                       JObj kvs \<Rightarrow> (case map_of kvs field of Some v \<Rightarrow> v # rest | None \<Rightarrow> rest)
                     | _ \<Rightarrow> rest)))))"

definition parse_json_lines :: "(string \<Rightarrow> json option) \<Rightarrow> string \<Rightarrow> string \<Rightarrow> device_error + json" where
  "parse_json_lines loads output field =
     bindR (json_line_matches loads field 1 (splitlines output)) (\<lambda>matches.
       case matches of [m] \<Rightarrow> Inr m | _ \<Rightarrow> Inl (NotOneInfoEvent field))"

subsection \<open>Selection\<close>

definition device_matches :: "json \<Rightarrow> string option \<Rightarrow> json \<Rightarrow> py_error + bool" where
  "device_matches board_version serial device =
     bindR (jget device ''devkit'' (JObj [])) (\<lambda>devkit.
       bindR (jget devkit ''boardVersion'' JNull) (\<lambda>version.
         if \<not> py_eq version board_version then Inr False
         else case serial of
           None \<Rightarrow> Inr True
         | Some s \<Rightarrow> bindR (jget device ''serialNumber'' JNull) (\<lambda>n. Inr (py_eq n (JStr s)))))"

definition select_device :: "json list \<Rightarrow> json \<Rightarrow> string option \<Rightarrow> device_error + json" where
  "select_device devices board_version serial =
     bindR (mapE DevPython (filterR (device_matches board_version serial) devices)) (\<lambda>matches.
       case matches of
         [] \<Rightarrow> Inl NoDeviceMatches
       | [d] \<Rightarrow> Inr d
       | _ \<Rightarrow> Inl MultipleDevicesMatch)"

definition lower_char :: "char \<Rightarrow> char" where
  "lower_char c = (let n = of_char c :: nat in
     if (65 \<le> n \<and> n \<le> 90) \<or> (192 \<le> n \<and> n \<le> 222 \<and> n \<noteq> 215) then char_of (n + 32) else c)"

definition lower :: "string \<Rightarrow> string" where
  "lower s = map lower_char s"

text \<open>
  \<open>decode\<close> is strict UTF-8 decoding of a file followed by \<open>json.loads\<close>: \<open>Inl True\<close> is a decoding
  error, \<open>Inl False\<close> a JSON error.
\<close>

definition resolve_probe_alias ::
  "(bytes \<Rightarrow> bool + json) \<Rightarrow> filesystem \<Rightarrow> string option \<Rightarrow> json \<Rightarrow> path \<Rightarrow> device_error + string option" where
  "resolve_probe_alias decode fs selection board_version aliases_path =
     (case (selection, fs aliases_path) of
        (Some chosen, Some content) \<Rightarrow>
          (case decode content of
             Inl True \<Rightarrow> Inl (DevPython UnicodeDecodeError)
           | Inl False \<Rightarrow> Inl AliasInventoryInvalid
           | Inr document \<Rightarrow>
               bindR (mapE DevPython (jget document ''schema'' JNull)) (\<lambda>schema.
                 if \<not> py_eq schema (JStr ''nrfkit-local-hardware-aliases/v1'') then Inl AliasInventorySchema
                 else bindR (mapE DevPython (jget document ''aliases'' JNull)) (\<lambda>aliases.
                   if \<not> is_dict aliases then Inl AliasInventoryHasNoAliases
                   else bindR (mapE DevPython (jget aliases (lower chosen) JNull)) (\<lambda>alias.
                     if alias = JNull then Inr (Some chosen)
                     else if \<not> is_dict alias then Inl (AliasBoardMismatch chosen)
                     else bindR (mapE DevPython (jget alias ''board_version'' JNull)) (\<lambda>version.
                       if \<not> py_eq version board_version then Inl (AliasBoardMismatch chosen)
                       else bindR (mapE DevPython (jget alias ''probe_serial'' JNull)) (\<lambda>serial.
                         case serial of
                           JStr s \<Rightarrow> if s = [] then Inl (AliasHasNoSerial chosen) else Inr (Some s)
                         | _ \<Rightarrow> Inl (AliasHasNoSerial chosen)))))))
      | _ \<Rightarrow> Inr selection)"

subsection \<open>Argument vectors\<close>

definition nrfutil_prefix :: "string \<Rightarrow> string list" where
  "nrfutil_prefix executable = [executable, ''--log-output'', ''stdout'', ''--json'']"

definition program_argv :: "string \<Rightarrow> string \<Rightarrow> string \<Rightarrow> string \<Rightarrow> string \<Rightarrow> string list" where
  "program_argv executable firmware serial family core =
     nrfutil_prefix executable @
     [''device'', ''program'', ''--firmware'', firmware, ''--serial-number'', serial,
      ''--traits'', ''jlink'', ''--core'', lower core, ''--family'', lower family,
      ''--options'', join_str '','' (map (\<lambda>(name, v). name @ ''='' @ v) SAFE_PROGRAM_OPTIONS)]"

definition reset_argv :: "string \<Rightarrow> string \<Rightarrow> string \<Rightarrow> string \<Rightarrow> string \<Rightarrow> string list" where
  "reset_argv executable serial family core reset_kind =
     nrfutil_prefix executable @
     [''device'', ''reset'', ''--serial-number'', serial, ''--traits'', ''jlink'',
      ''--family'', lower family, ''--core'', lower core, ''--reset-kind'', reset_kind]"

definition read_memory_argv ::
  "string \<Rightarrow> string \<Rightarrow> string \<Rightarrow> string \<Rightarrow> string \<Rightarrow> int \<Rightarrow> int \<Rightarrow> string list" where
  "read_memory_argv executable output serial family core addr count =
     nrfutil_prefix executable @
     [''device'', ''read'', ''--address'', ''0x'' @ hex_int 8 addr, ''--bytes'', dec_int count, ''--width'', ''8'',
      ''--to-file'', output, ''--serial-number'', serial, ''--traits'', ''jlink'',
      ''--core'', lower core, ''--family'', lower family]"

text \<open>What an nrfutil command does: its two words after the prefix.\<close>

definition nrfutil_verb :: "string list \<Rightarrow> string list" where
  "nrfutil_verb argv = take 2 (drop 4 argv)"

lemma nrfutil_verbs [simp]:
  "nrfutil_verb (nrfutil_prefix n @ [''device'', ''list'']) = [''device'', ''list'']"
  "nrfutil_verb (program_argv n firmware serial family core) = [''device'', ''program'']"
  "nrfutil_verb (reset_argv n serial family core kind) = [''device'', ''reset'']"
  "nrfutil_verb (read_memory_argv n destination serial family core addr count) = [''device'', ''read'']"
  by (simp_all add: nrfutil_verb_def nrfutil_prefix_def program_argv_def reset_argv_def read_memory_argv_def)

end
