(* ===== verification/Sdk.thy ===== *)
theory Sdk
  imports Device Ranges "HOL-Library.Char_ord"
begin

section \<open>SDK device manifests\<close>

text \<open>
  Models \<open>src/tools/nrfkit_tools/sdk.py\<close>: merging load ranges, the memory budget of an ELF, the
  layout declared by absolute symbols, the audit of a Controller build, and the device
  manifest. \<open>digest\<close> stands for the SHA-256 of a file's bytes and \<open>loads\<close> for \<open>json.loads\<close>;
  text read from a file is taken to stay below code point 256, and a file that does not decode
  to such text counts as undecodable.
\<close>

datatype sdk_error =
    SdkImage image_error
  | SdkPython py_error
  | BudgetNotElf32
  | BudgetProgramTableInvalid
  | SegmentExceedsRam
  | SegmentExceedsRram
  | LayoutBoundaryMissing string
  | LayoutRangeUnsafe string
  | LayoutRegionsOverlap string string
  | UnsafeTargetName
  | UnsafeToken
  | ArtifactMissing path
  | LoadRangesDiffer
  | EntryOutsideImage
  | InvalidSdcEvidence
  | NotOneControllerVariant
  | LinkContractMismatch
  | InvalidBinaryContract
  | InvalidResourceContract

abbreviation FREESTANDING_STACK_BYTES :: int where "FREESTANDING_STACK_BYTES \<equiv> 0x4000"
abbreviation LM20_SAFE_RRAM_END :: int where "LM20_SAFE_RRAM_END \<equiv> 0x001FD000"
abbreviation LM20_RAM0_ORIGIN :: int where "LM20_RAM0_ORIGIN \<equiv> 0x20000000"
abbreviation LM20_RAM0_END :: int where "LM20_RAM0_END \<equiv> 0x20040000"

definition sdk_merged :: "addr_range list \<Rightarrow> addr_range list" where
  "sdk_merged rs = merge_sweep [] (sort rs)"

definition sha256 :: "(bytes \<Rightarrow> string) \<Rightarrow> filesystem \<Rightarrow> path \<Rightarrow> py_error + string" where
  "sha256 digest fs p = (case fs p of None \<Rightarrow> Inl OSError | Some data \<Rightarrow> Inr (digest data))"

subsection \<open>Memory budget\<close>

record load_budget =
  ram_allocated :: int
  ram_initialized :: int
  rram_file :: int

text \<open>One program header: kind, virtual and physical address, file and memory size.\<close>

definition budget_segment ::
  "int \<Rightarrow> int \<Rightarrow> int \<Rightarrow> int \<Rightarrow> nat list \<Rightarrow> load_budget \<Rightarrow> sdk_error + load_budget" where
  "budget_segment ram_origin ram_length rram_origin rram_length v acc =
     (let kind = v ! 0; virtual = int (v ! 2); physical = int (v ! 3);
          file_size = int (v ! 4); memory_size = int (v ! 5) in
      if kind \<noteq> 1 then Inr acc
      else bindR
        (if ram_origin \<le> virtual \<and> virtual < ram_origin + ram_length then
           (if ram_origin + ram_length < virtual + memory_size then Inl SegmentExceedsRam
            else Inr (acc\<lparr>ram_allocated := ram_allocated acc + memory_size,
                          ram_initialized := ram_initialized acc + file_size\<rparr>))
         else Inr acc) (\<lambda>acc.
         if rram_origin \<le> physical \<and> physical < rram_origin + rram_length then
           (if rram_origin + rram_length < physical + file_size then Inl SegmentExceedsRram
            else Inr (acc\<lparr>rram_file := rram_file acc + file_size\<rparr>))
         else Inr acc))"

fun budget_segments ::
  "int \<Rightarrow> int \<Rightarrow> int \<Rightarrow> int \<Rightarrow> nat list list \<Rightarrow> load_budget \<Rightarrow> sdk_error + load_budget" where
  "budget_segments ro rl fo fl [] acc = Inr acc"
| "budget_segments ro rl fo fl (v # vs) acc =
     bindR (budget_segment ro rl fo fl v acc) (budget_segments ro rl fo fl vs)"

definition elf_load_budget ::
  "filesystem \<Rightarrow> path \<Rightarrow> int \<Rightarrow> int \<Rightarrow> int \<Rightarrow> int \<Rightarrow> sdk_error + json" where
  "elf_load_budget fs elf ram_origin ram_length rram_origin rram_length =
     (case fs elf of
        None \<Rightarrow> Inl (SdkPython OSError)
      | Some data \<Rightarrow>
        if length data < 52 \<or> take 5 data \<noteq> [0x7F, 0x45, 0x4C, 0x46, 1] \<or> data ! 5 \<noteq> 1 then Inl BudgetNotElf32
        else bindR (mapE SdkImage (unpack_from ELF32_HEADER data 0)) (\<lambda>vals.
          let offset = vals ! 5; entry_size = vals ! 9; count = vals ! 10 in
          if entry_size \<noteq> sum_list ELF32_PROGRAM \<or> length data < offset + count * entry_size
          then Inl BudgetProgramTableInvalid
          else bindR (mapE SdkImage (unpack_table ELF32_PROGRAM data offset count)) (\<lambda>headers.
            bindR (budget_segments ram_origin ram_length rram_origin rram_length headers
                     \<lparr>ram_allocated = 0, ram_initialized = 0, rram_file = 0\<rparr>) (\<lambda>b.
              let total_reserved = ram_allocated b + FREESTANDING_STACK_BYTES in
              Inr (JObj
                [(''ram_allocated_bytes'', JInt (ram_allocated b)),
                 (''ram_initialized_bytes'', JInt (ram_initialized b)),
                 (''stack_reserved_bytes'', JInt FREESTANDING_STACK_BYTES),
                 (''ram_total_reserved_bytes'', JInt total_reserved),
                 (''ram_headroom_bytes'', JInt (ram_length - total_reserved)),
                 (''ram_capacity_bytes'', JInt ram_length),
                 (''rram_file_bytes'', JInt (rram_file b))])))))"

subsection \<open>Layout symbols\<close>

definition elf_layout_symbols :: "filesystem \<Rightarrow> path \<Rightarrow> image_error + symbol_map" where
  "elf_layout_symbols fs elf =
     parse_elf_absolute_symbols fs elf
       [''__nrfkit_rram_start'', ''__nrfkit_rram_end'', ''__nrfkit_ram_start'', ''__nrfkit_ram_end'']
       [''__nrfkit_settings_start'', ''__nrfkit_settings_end'',
        ''__nrfkit_rram_scratch_start'', ''__nrfkit_rram_scratch_end'']"

text \<open>A layout lists its regions in order, each with origin and length.\<close>

type_synonym layout = "(string \<times> int \<times> int) list"

definition symbol_value :: "symbol_map \<Rightarrow> string \<Rightarrow> int option" where
  "symbol_value symbols name = map_option int (map_of symbols (code_points_of name))"

fun layout_loop :: "symbol_map \<Rightarrow> (string \<times> int \<times> int) list \<Rightarrow> sdk_error + layout" where
  "layout_loop symbols [] = Inr []"
| "layout_loop symbols ((name, low, high) # rest) =
     (let start = symbol_value symbols (''__nrfkit_'' @ name @ ''_start'');
          stop = symbol_value symbols (''__nrfkit_'' @ name @ ''_end'') in
      if name \<in> {''settings'', ''rram_scratch''} \<and> start = None \<and> stop = None then layout_loop symbols rest
      else case (start, stop) of
        (Some a, Some b) \<Rightarrow>
          if \<not> (low \<le> a \<and> a < b \<and> b \<le> high) then Inl (LayoutRangeUnsafe name)
          else bindR (layout_loop symbols rest) (\<lambda>l. Inr ((name, a, b - a) # l))
      | _ \<Rightarrow> Inl (LayoutBoundaryMissing name))"

fun overlap_with :: "string \<times> int \<times> int \<Rightarrow> (string \<times> int \<times> int) list \<Rightarrow> sdk_error + unit" where
  "overlap_with r [] = Inr ()"
| "overlap_with (n, a, b) ((m, c, d) # rest) =
     (if a < d \<and> c < b then Inl (LayoutRegionsOverlap n m) else overlap_with (n, a, b) rest)"

fun overlap_loop :: "(string \<times> int \<times> int) list \<Rightarrow> sdk_error + unit" where
  "overlap_loop [] = Inr ()"
| "overlap_loop (r # rest) = bindR (overlap_with r rest) (\<lambda>_. overlap_loop rest)"

definition layout_from_symbols :: "symbol_map \<Rightarrow> sdk_error + layout" where
  "layout_from_symbols symbols =
     bindR (layout_loop symbols
       [(''rram'', 0, LM20_SAFE_RRAM_END), (''ram'', LM20_RAM0_ORIGIN, LM20_RAM0_END),
        (''settings'', 0, LM20_SAFE_RRAM_END), (''rram_scratch'', 0, LM20_SAFE_RRAM_END)]) (\<lambda>layout.
       bindR (overlap_loop (map (\<lambda>(n, o', l). (n, o', o' + l)) (filter (\<lambda>(n, _). n \<noteq> ''ram'') layout)))
         (\<lambda>_. Inr layout))"

definition read_elf_layout :: "filesystem \<Rightarrow> path \<Rightarrow> sdk_error + layout" where
  "read_elf_layout fs elf = bindR (mapE SdkImage (elf_layout_symbols fs elf)) layout_from_symbols"

definition region :: "layout \<Rightarrow> string \<Rightarrow> sdk_error + int \<times> int" where
  "region layout name =
     (case map_of layout name of None \<Rightarrow> Inl (SdkPython KeyError) | Some r \<Rightarrow> Inr r)"

definition symbols_json :: "symbol_map \<Rightarrow> json" where
  "symbols_json symbols = JObj (map (\<lambda>(k, v). (map char_of k, JInt (int v))) symbols)"

definition ranges_json :: "addr_range list \<Rightarrow> json" where
  "ranges_json rs = JList (map jint_pair rs)"

subsection \<open>Evidence of a Controller build\<close>

definition latin_text :: "bytes \<Rightarrow> string option" where
  "latin_text bs = (case utf8_decode bs of
     None \<Rightarrow> None
   | Some cps \<Rightarrow> if list_all (\<lambda>n. n < 256) cps then Some (map char_of cps) else None)"

definition word_char :: "char \<Rightarrow> bool" where
  "word_char c = (let n = of_char c :: nat in
     (48 \<le> n \<and> n \<le> 57) \<or> (65 \<le> n \<and> n \<le> 90) \<or> (97 \<le> n \<and> n \<le> 122) \<or> n = 95
     \<or> n \<in> {170, 178, 179, 181, 185, 186, 188, 189, 190} \<or> (192 \<le> n \<and> n \<noteq> 215 \<and> n \<noteq> 247))"

definition controller_variants :: "string \<Rightarrow> string list" where
  "controller_variants link_map =
     filter (\<lambda>v. sublist (''libsoftdevice_controller_'' @ v @ ''.a('') link_map)
       [''multirole'', ''peripheral'', ''central'']"

text \<open>
  The search \<open>\bnrfkit_timeslot_open\s*$\<close> with \<open>re.MULTILINE\<close>: the name after a non-word
  character, and nothing but whitespace up to the end of its line.
\<close>

fun timeslot_at :: "bool \<Rightarrow> string \<Rightarrow> bool" where
  "timeslot_at boundary [] = False"
| "timeslot_at boundary (c # cs) =
     (boundary \<and> prefix ''nrfkit_timeslot_open'' (c # cs)
        \<and> list_all py_space (takeWhile (\<lambda>d. d \<noteq> LF) (drop 20 (c # cs)))
      \<or> timeslot_at (\<not> word_char c) cs)"

definition sdc_resources :: "json \<Rightarrow> sdk_error + string list" where
  "sdc_resources resources =
     bindR (mapR (\<lambda>group.
       bindR (mapE SdkPython (jget resources group JNull)) (\<lambda>entries.
         case nonempty_list entries of
           None \<Rightarrow> Inl InvalidResourceContract
         | Some es \<Rightarrow> mapR (\<lambda>e. case e of JStr s \<Rightarrow> if s = [] then Inl InvalidResourceContract else Inr s
                               | _ \<Rightarrow> Inl InvalidResourceContract) es))
       [''mpsl_interrupt_peripherals'', ''mpsl_non_interrupt_peripherals'', ''sdc_owned_peripherals''])
       (\<lambda>groups. Inr (concat groups))"

definition sdc_evidence ::
  "(bytes \<Rightarrow> string) \<Rightarrow> (string \<Rightarrow> json option) \<Rightarrow> filesystem \<Rightarrow> path \<Rightarrow> path \<Rightarrow> path \<Rightarrow> layout \<Rightarrow> sdk_error + json" where
  "sdc_evidence digest loads fs map_path contract_path elf layout =
     (case (fs map_path, fs contract_path) of
        (Some map_bytes, contract_bytes) \<Rightarrow>
          (case latin_text map_bytes of
             None \<Rightarrow> Inl (SdkPython UnicodeDecodeError)
           | Some link_map \<Rightarrow>
          case contract_bytes of
             None \<Rightarrow> Inl InvalidSdcEvidence
           | Some raw \<Rightarrow>
          case latin_text raw of
             None \<Rightarrow> Inl (SdkPython UnicodeDecodeError)
           | Some contract_text \<Rightarrow>
          case loads contract_text of
             None \<Rightarrow> Inl InvalidSdcEvidence
           | Some contract \<Rightarrow>
          case controller_variants link_map of
            [variant] \<Rightarrow>
              (let archives = [''libmpsl.a'', ''libmpsl_fem_common.a'', ''libsoftdevice_controller_'' @ variant @ ''.a''] in
               if \<not> list_all (\<lambda>name. sublist (name @ ''('') link_map) archives then Inl LinkContractMismatch
               else bindR (mapE SdkPython
                 (orR (bindR (jget contract ''schema'' JNull)
                         (\<lambda>v. Inr (\<not> py_eq v (JStr ''nrfkit-m6-sdc-mpsl-contract/v1''))))
                  (orR (bindR (jget contract ''source'' (JObj [])) (\<lambda>source.
                          bindR (jget source ''security_domain'' JNull) (\<lambda>v. Inr (\<not> py_eq v (JStr ''secure'')))))
                       (bindR (jget contract ''source'' (JObj [])) (\<lambda>source.
                          bindR (jget source ''float_abi'' JNull) (\<lambda>v. Inr (\<not> py_eq v (JStr ''hard-float'')))))))) (\<lambda>bad.
                 if bad then Inl InvalidBinaryContract
                 else bindR (mapE SdkPython (jget contract ''lm20_resources'' (JObj []))) (\<lambda>resources.
                   bindR (sdc_resources resources) (\<lambda>owned.
                     bindR (mapE SdkPython (sha256 digest fs contract_path)) (\<lambda>contract_sha.
                       bindR (mapE SdkPython (sha256 digest fs map_path)) (\<lambda>map_sha.
                         bindR (region layout ''ram'') (\<lambda>(ram_origin, ram_length).
                           bindR (region layout ''rram'') (\<lambda>(rram_origin, rram_length).
                             bindR (elf_load_budget fs elf ram_origin ram_length rram_origin rram_length) (\<lambda>budget.
                               Inr (JObj
                                 [(''status'', JStr ''ok''), (''variant'', JStr variant),
                                  (''timeslot'', JBool (timeslot_at True link_map)),
                                  (''security_domain'', JStr ''secure''), (''float_abi'', JStr ''hard-float''),
                                  (''archives'', JList (map JStr (sort archives))),
                                  (''resources'', JList (map JStr (sort owned))),
                                  (''resource_contract_sha256'', JStr contract_sha),
                                  (''map_sha256'', JStr map_sha),
                                  (''elf_budget'', budget)]))))))))))
          | _ \<Rightarrow> Inl NotOneControllerVariant)
      | _ \<Rightarrow> Inl InvalidSdcEvidence)"

subsection \<open>The device manifest\<close>

definition safe_target :: "string \<Rightarrow> bool" where
  "safe_target t = (t \<noteq> [] \<and> list_all (\<lambda>c. let n = of_char c :: nat in
     (48 \<le> n \<and> n \<le> 57) \<or> (65 \<le> n \<and> n \<le> 90) \<or> (97 \<le> n \<and> n \<le> 122) \<or> n = 95 \<or> n = 46 \<or> n = 45) t)"

definition safe_token :: "string \<Rightarrow> bool" where
  "safe_token t = (t \<noteq> [] \<and> length t \<le> 256
     \<and> list_all (\<lambda>c. let n = of_char c :: nat in 0x20 \<le> n \<and> n \<le> 0x7E) t)"

definition manifest_fields ::
  "string \<Rightarrow> string \<Rightarrow> path \<Rightarrow> path \<Rightarrow> parsed_image \<Rightarrow> parsed_image \<Rightarrow> symbol_map \<Rightarrow> json
     \<Rightarrow> string \<Rightarrow> string \<Rightarrow> string \<Rightarrow> (string \<times> json) list" where
  "manifest_fields target token elf ihex elf_image hex_image symbols allowlist ihex_sha lock_sha elf_sha =
     [(''schema'', JStr ''nrfkit-image/v1''),
      (''oracle'', JStr (''sdk-'' @ target)),
      (''source_receipt_sha256'', JStr lock_sha),
      (''soc'', JStr ''nrf54lm20a''),
      (''core'', JStr ''Application''),
      (''board'', JStr ''nrf54lm20dk/nrf54lm20a/cpuapp''),
      (''board_version'', JStr ''PCA10184''),
      (''device_family'', JStr ''NRF54L''),
      (''expected_token'', JStr token),
      (''vcom'', JInt 1),
      (''backend'', safe_backend_contract),
      (''image_layout'', JObj [(''source'', JStr ''elf-symbols''), (''path'', JStr elf),
                             (''sha256'', JStr elf_sha), (''symbols'', symbols_json symbols)]),
      (''debug_allowlist'', allowlist),
      (''debug_elf'', JObj [(''path'', JStr elf), (''sha256'', JStr elf_sha),
                          (''entry'', case entry elf_image of None \<Rightarrow> JNull | Some e \<Rightarrow> JInt e),
                          (''ranges'', ranges_json (ranges elf_image))]),
      (''images'', JList [JObj [(''domain'', JStr target), (''order'', JInt 0), (''path'', JStr ihex),
                              (''sha256'', JStr ihex_sha), (''ranges'', ranges_json (ranges hex_image)),
                              (''allowlist'', allowlist)]])]"

definition device_manifest ::
  "(bytes \<Rightarrow> string) \<Rightarrow> (string \<Rightarrow> json option) \<Rightarrow> filesystem \<Rightarrow> path \<Rightarrow> path \<Rightarrow> string \<Rightarrow> string \<Rightarrow> bool \<Rightarrow> sdk_error + json" where
  "device_manifest digest loads fs project build_dir target token hci_h4_hwfc_1m =
     (if \<not> safe_target target then Inl UnsafeTargetName
      else if \<not> safe_token token then Inl UnsafeToken
      else let elf = path_join build_dir (target @ ''.elf''); ihex = path_join build_dir (target @ ''.hex'') in
      if fs elf = None then Inl (ArtifactMissing elf)
      else if fs ihex = None then Inl (ArtifactMissing ihex)
      else bindR (mapE SdkImage (parse_elf fs elf)) (\<lambda>elf_image.
        bindR (mapE SdkImage (elf_layout_symbols fs elf)) (\<lambda>symbols.
          bindR (layout_from_symbols symbols) (\<lambda>layout.
            bindR (region layout ''rram'') (\<lambda>(origin, len).
              bindR (mapE SdkImage (parse_ihex fs ihex)) (\<lambda>hex_image.
                bindR (mapE SdkImage (require_allowed (ranges elf_image) [(origin, origin + len)])) (\<lambda>_.
                  bindR (mapE SdkImage (require_allowed (ranges hex_image) [(origin, origin + len)])) (\<lambda>_.
                    if sdk_merged (ranges elf_image) \<noteq> sdk_merged (ranges hex_image) then Inl LoadRangesDiffer
                    else if (case entry elf_image of None \<Rightarrow> True
                             | Some e \<Rightarrow> \<not> list_ex (\<lambda>(a, b). a \<le> e \<and> e < b) (ranges elf_image))
                    then Inl EntryOutsideImage
                    else bindR (mapE SdkPython (sha256 digest fs ihex)) (\<lambda>ihex_sha.
                      bindR (mapE SdkPython (sha256 digest fs (path_join project ''docs/provenance/sources.lock''))) (\<lambda>lock_sha.
                        bindR (mapE SdkPython (sha256 digest fs elf)) (\<lambda>elf_sha.
                          let fields = manifest_fields target token elf ihex elf_image hex_image symbols
                                (ranges_json [(origin, origin + len)]) ihex_sha lock_sha elf_sha in
                          if \<not> hci_h4_hwfc_1m then Inr (JObj fields)
                          else bindR (sdc_evidence digest loads fs (path_join build_dir (target @ ''.map''))
                                 (path_join project ''docs/provenance/m6-sdc-mpsl-contract.json'') elf layout) (\<lambda>evidence.
                            Inr (JObj (fields @
                              [(''hci_transport'', JObj [(''type'', JStr ''H4''), (''baud'', JInt 1000000),
                                                       (''hardware_flow_control'', JBool True)]),
                               (''build_evidence'', evidence)]))))))))))))))"

definition create_device_manifest ::
  "(bytes \<Rightarrow> string) \<Rightarrow> (string \<Rightarrow> json option) \<Rightarrow> (json \<Rightarrow> string) \<Rightarrow> (path \<Rightarrow> path) \<Rightarrow> path \<Rightarrow> path \<Rightarrow> string \<Rightarrow> string \<Rightarrow> bool
     \<Rightarrow> ('h host, sdk_error, path) action" where
  "create_device_manifest digest loads dumps temporary project build_dir target token hci_h4_hwfc_1m =
     bindA (readA files) (\<lambda>fs.
       bindA (liftA (device_manifest digest loads fs project build_dir target token hci_h4_hwfc_1m)) (\<lambda>manifest.
         let output = path_join build_dir (target @ ''.device-manifest.json'') in
         bindA (atomic_json (temporary output) output (dumps manifest)) (\<lambda>_. pureA output)))"

end
