(* ===== verification/Manifest.thy ===== *)
theory Manifest
  imports Sdk
begin

section \<open>Loading an image manifest\<close>

text \<open>
  Models \<open>load_manifest\<close> and \<open>_snapshot_hexes\<close> of \<open>src/tools/nrfkit_tools/cli.py\<close>. A manifest is a JSON
  value of unknown shape: every access states the exception a wrong shape raises.
  \<open>decode\<close> is strict UTF-8 decoding followed by \<open>json.loads\<close> (\<open>Inl True\<close> a decoding error,
  \<open>Inl False\<close> a JSON error) and \<open>digest\<close> the SHA-256 of a file's bytes.
\<close>

datatype tool_error =
    ToolImage image_error
  | ToolSdk sdk_error
  | ToolDevice device_error
  | ToolPython py_error
  | CannotReadManifest path
  | ManifestFieldsInvalid
  | BackendContractInvalid
  | LayoutEvidenceInvalid
  | LayoutReceiptStale
  | ElfLayoutEvidenceInvalid
  | AllowlistDiffersFromLayout
  | DebugAllowlistInvalid
  | NoProgrammingImages
  | ProgrammingOrderInvalid
  | ArtifactStale
  | ArtifactAllowlistInvalid
  | ArtifactEntryStale
  | ArtifactRangesStale
  | SnapshotChanged
  | EnumerationFailed
  | NonListInventory
  | ProbeLocked
  | SafeProgramFailed
  | MsdCommandFailed
  | MsdStateTimeout

definition MANIFEST_REQUIRED :: "string list" where
  "MANIFEST_REQUIRED =
    [''schema'', ''oracle'', ''source_receipt_sha256'', ''soc'', ''core'', ''board'',
     ''board_version'', ''device_family'', ''expected_token'', ''vcom'', ''debug_allowlist'',
     ''debug_elf'', ''images'', ''backend'']"

definition MANIFEST_OPTIONAL :: "string list" where
  "MANIFEST_OPTIONAL = [''build_evidence'', ''hci_transport'', ''image_layout'']"

subsection \<open>The programming guard on an allowlist read from JSON\<close>

text \<open>
  \<open>any(a <= start and end <= b for a, b in allowed)\<close>: each entry is unpacked and
  compared only when the search reaches it.
\<close>

fun any_allows :: "int \<Rightarrow> int \<Rightarrow> json list list \<Rightarrow> py_error + bool" where
  "any_allows start stop [] = Inr False"
| "any_allows start stop (e # es) =
     (case e of
        [a, b] \<Rightarrow>
          (case jnum a of
             None \<Rightarrow> Inl TypeError
           | Some x \<Rightarrow>
               if x \<le> of_int start then
                 (case jnum b of
                    None \<Rightarrow> Inl TypeError
                  | Some y \<Rightarrow> if of_int stop \<le> y then Inr True else any_allows start stop es)
               else any_allows start stop es)
      | _ \<Rightarrow> Inl ValueError)"

fun require_allowed_json :: "addr_range list \<Rightarrow> json list list \<Rightarrow> tool_error + unit" where
  "require_allowed_json [] allowed = Inr ()"
| "require_allowed_json ((start, stop) # rest) allowed =
     (if start < 0 \<or> stop \<le> start \<or> ADDRESS_LIMIT < stop then Inl (ToolImage InvalidImageRange)
      else case forbidden_label (start, stop) FORBIDDEN_RANGES of
        Some label \<Rightarrow> Inl (ToolImage (ForbiddenRegion (start, stop) label))
      | None \<Rightarrow> bindR (mapE ToolPython (any_allows start stop allowed)) (\<lambda>ok.
          if \<not> ok then Inl (ToolImage (OutsideAllowlist (start, stop)))
          else require_allowed_json rest allowed))"

subsection \<open>Artifacts\<close>

definition is_absolute :: "path \<Rightarrow> bool" where
  "is_absolute p = prefix ''/'' p"

definition check_artifact ::
  "(bytes \<Rightarrow> string) \<Rightarrow> filesystem \<Rightarrow> json \<Rightarrow> (filesystem \<Rightarrow> path \<Rightarrow> image_error + parsed_image) \<Rightarrow> json
     \<Rightarrow> tool_error + unit" where
  "check_artifact digest fs artifact parser allowlist =
     bindR (mapE ToolPython (bindR (jitem artifact ''path'') jstr)) (\<lambda>artifact_path.
       if \<not> is_absolute artifact_path then Inl ArtifactStale
       else bindR (mapE ToolPython (sha256 digest fs artifact_path)) (\<lambda>actual.
         bindR (mapE ToolPython (jitem artifact ''sha256'')) (\<lambda>expected.
           if \<not> py_eq (JStr actual) expected then Inl ArtifactStale
           else bindR (mapE ToolImage (parser fs artifact_path)) (\<lambda>parsed.
             case nonempty_list allowlist of
               None \<Rightarrow> Inl ArtifactAllowlistInvalid
             | Some entries \<Rightarrow>
                 bindR (mapE ToolPython (mapR jiter entries)) (\<lambda>allowed.
                   bindR (require_allowed_json (ranges parsed) allowed) (\<lambda>_.
                     bindR (case entry parsed of
                              None \<Rightarrow> Inr False
                            | Some e \<Rightarrow> bindR (mapE ToolPython (jget artifact ''entry'' JNull))
                                         (\<lambda>v. Inr (\<not> py_eq v (JInt e)))) (\<lambda>stale.
                       if stale then Inl ArtifactEntryStale
                       else bindR (mapE ToolPython (jitem artifact ''ranges'')) (\<lambda>declared.
                         if \<not> py_eq (ranges_json (ranges parsed)) declared then Inl ArtifactRangesStale
                         else Inr ()))))))))"

definition check_artifacts :: "(bytes \<Rightarrow> string) \<Rightarrow> filesystem \<Rightarrow> json \<Rightarrow> tool_error + unit" where
  "check_artifacts digest fs v =
     bindR (mapE ToolPython (jitem v ''debug_elf'')) (\<lambda>debug_elf.
       bindR (mapE ToolPython (jitem v ''debug_allowlist'')) (\<lambda>debug_allowlist.
         bindR (mapE ToolPython (jitem v ''images'')) (\<lambda>images.
           case nonempty_list images of
             None \<Rightarrow> Inl NoProgrammingImages
           | Some items \<Rightarrow>
               bindR (mapE ToolPython (mapR (\<lambda>item. jget item ''order'' JNull) items)) (\<lambda>orders.
                 if \<not> py_eq (JList orders) (JList (map (JInt \<circ> int) [0..<length items])) then Inl ProgrammingOrderInvalid
                 else bindR (mapE ToolPython (mapR (\<lambda>item. jget item ''allowlist'' JNull) items)) (\<lambda>allowlists.
                   bindR (check_artifact digest fs debug_elf parse_elf debug_allowlist) (\<lambda>_.
                     forR (\<lambda>(item, allowlist). check_artifact digest fs item parse_ihex allowlist)
                       (zip items allowlists)))))))"

subsection \<open>Layout evidence\<close>

definition check_layout :: "(bytes \<Rightarrow> string) \<Rightarrow> filesystem \<Rightarrow> json \<Rightarrow> json \<Rightarrow> tool_error + unit" where
  "check_layout digest fs v layout =
     (case layout of
        JObj kvs \<Rightarrow>
          let keys = set (map fst kvs) in
          if keys \<noteq> {''path'', ''sha256''} \<and> keys \<noteq> {''source'', ''path'', ''sha256'', ''symbols''}
          then Inl LayoutEvidenceInvalid
          else bindR (mapE ToolPython (bindR (jitem layout ''path'') jstr)) (\<lambda>layout_path.
            bindR (mapE ToolPython (jitem layout ''sha256'')) (\<lambda>layout_sha.
              if \<not> is_absolute layout_path
                 \<or> (case fs layout_path of None \<Rightarrow> True | Some data \<Rightarrow> \<not> py_eq (JStr (digest data)) layout_sha)
              then Inl LayoutReceiptStale
              else case map_of kvs ''source'' of
                None \<Rightarrow> Inr ()
              | Some source \<Rightarrow>
                  bindR (orR (Inr (\<not> py_eq source (JStr ''elf-symbols'')))
                    (orR (mapE ToolPython (bindR (bindR (jitem v ''debug_elf'') (\<lambda>d. jitem d ''path''))
                             (\<lambda>p. Inr (\<not> py_eq (JStr layout_path) p))))
                      (orR (mapE ToolPython (bindR (bindR (jitem v ''debug_elf'') (\<lambda>d. jitem d ''sha256''))
                               (\<lambda>h. Inr (\<not> py_eq layout_sha h))))
                        (bindR (mapE ToolPython (jitem layout ''symbols'')) (\<lambda>symbols.
                           bindR (mapE ToolImage (elf_layout_symbols fs layout_path)) (\<lambda>actual.
                             Inr (\<not> py_eq symbols (symbols_json actual)))))))) (\<lambda>bad.
                    if bad then Inl ElfLayoutEvidenceInvalid
                    else bindR (mapE ToolSdk (bindR (read_elf_layout fs layout_path) (\<lambda>l. region l ''rram''))) (\<lambda>(origin, len).
                      let allowlist = ranges_json [(origin, origin + len)] in
                      bindR (mapE ToolPython
                        (orR (bindR (jitem v ''debug_allowlist'') (\<lambda>a. Inr (\<not> py_eq a allowlist)))
                          (bindR (bindR (jitem v ''images'') jiter) (\<lambda>items.
                             anyR (\<lambda>item. bindR (jget item ''allowlist'' JNull) (\<lambda>a. Inr (\<not> py_eq a allowlist))) items)))) (\<lambda>differs.
                        if differs then Inl AllowlistDiffersFromLayout else Inr ())))))
      | _ \<Rightarrow> Inl LayoutEvidenceInvalid)"

subsection \<open>The loader\<close>

definition load_manifest ::
  "(bytes \<Rightarrow> string) \<Rightarrow> (bytes \<Rightarrow> bool + json) \<Rightarrow> filesystem \<Rightarrow> path \<Rightarrow> bool \<Rightarrow> tool_error + json" where
  "load_manifest digest decode fs p artifacts =
     (case fs p of
        None \<Rightarrow> Inl (CannotReadManifest p)
      | Some content \<Rightarrow>
        case decode content of
          Inl True \<Rightarrow> Inl (ToolPython UnicodeDecodeError)
        | Inl False \<Rightarrow> Inl (CannotReadManifest p)
        | Inr v \<Rightarrow>
          bindR (mapE ToolPython (jget v ''schema'' JNull)) (\<lambda>schema.
            case v of
              JObj kvs \<Rightarrow>
                if \<not> py_eq schema (JStr ''nrfkit-image/v1'') \<or> \<not> set MANIFEST_REQUIRED \<subseteq> set (map fst kvs)
                   \<or> \<not> set (map fst kvs) \<subseteq> set MANIFEST_REQUIRED \<union> set MANIFEST_OPTIONAL
                then Inl ManifestFieldsInvalid
                else bindR (mapE ToolPython (jitem v ''backend'')) (\<lambda>backend.
                  if \<not> py_eq backend safe_backend_contract then Inl BackendContractInvalid
                  else bindR (case map_of kvs ''image_layout'' of
                                None \<Rightarrow> Inr ()
                              | Some layout \<Rightarrow> check_layout digest fs v layout) (\<lambda>_.
                    bindR (mapE ToolPython (jitem v ''debug_allowlist'')) (\<lambda>debug_allowlist.
                      if nonempty_list debug_allowlist = None then Inl DebugAllowlistInvalid
                      else bindR (if artifacts then check_artifacts digest fs v else Inr ()) (\<lambda>_. Inr v))))
            | _ \<Rightarrow> Inl (ToolPython AttributeError)))"

subsection \<open>Programming snapshots\<close>

text \<open>\<open>format(v, "02d")\<close> and \<open>str(v)\<close>; \<open>render\<close> prints a value that is not a string.\<close>

fun format_02d :: "json \<Rightarrow> py_error + string" where
  "format_02d (JInt i) = Inr (if i < 0 then ''-'' @ zero_fill 1 (dec (nat (- i))) else zero_fill 2 (dec (nat i)))"
| "format_02d (JBool b) = Inr (if b then ''01'' else ''00'')"
| "format_02d (JReal r) = Inl ValueError"
| "format_02d (JStr s) = Inl ValueError"
| "format_02d _ = Inl TypeError"

definition str_of :: "(json \<Rightarrow> string) \<Rightarrow> json \<Rightarrow> string" where
  "str_of render v = (case v of JStr s \<Rightarrow> s | _ \<Rightarrow> render v)"

definition snapshot_item ::
  "(bytes \<Rightarrow> string) \<Rightarrow> (json \<Rightarrow> string) \<Rightarrow> path \<Rightarrow> json \<Rightarrow> ('h host, tool_error, path) action" where
  "snapshot_item digest render dir item =
     bindA (liftA (mapE ToolPython (bindR (jitem item ''path'') jstr))) (\<lambda>source.
       bindA (liftA (mapE ToolPython (bindR (jitem item ''order'') format_02d))) (\<lambda>order.
         bindA (liftA (mapE ToolPython (jitem item ''domain''))) (\<lambda>domain.
           let snapshot = path_join dir (order @ ''-'' @ str_of render domain @ ''.hex'') in
           bindA (read_file (ToolPython OSError) source) (\<lambda>content.
             bindA (write_file snapshot content) (\<lambda>_.
               bindA (seal snapshot) (\<lambda>_.
                 bindA (read_file (ToolPython OSError) snapshot) (\<lambda>copied.
                   bindA (liftA (mapE ToolPython (jitem item ''sha256''))) (\<lambda>expected.
                     bindA (requireA (py_eq (JStr (digest copied)) expected) SnapshotChanged) (\<lambda>_.
                       bindA (readA files) (\<lambda>fs.
                         bindA (liftA (mapE ToolImage (parse_ihex fs snapshot))) (\<lambda>parsed.
                           bindA (liftA (mapE ToolPython (bindR (bindR (jitem item ''allowlist'') jiter) (mapR jiter)))) (\<lambda>allowed.
                             bindA (liftA (require_allowed_json (ranges parsed) allowed)) (\<lambda>_.
                               pureA snapshot)))))))))))))"

definition snapshot_hexes ::
  "(bytes \<Rightarrow> string) \<Rightarrow> (json \<Rightarrow> string) \<Rightarrow> json \<Rightarrow> path \<Rightarrow> ('h host, tool_error, path list) action" where
  "snapshot_hexes digest render manifest dir =
     bindA (liftA (mapE ToolPython (bindR (jitem manifest ''images'') jiter))) (\<lambda>items.
       mapA (snapshot_item digest render dir) items)"

end
