(* ===== verification/Run_Report.thy ===== *)
theory Run_Report
  imports Manifest
begin

section \<open>Commands with a report\<close>

text \<open>
  The state of a command: the host and the report it fills in, a JSON object with its keys in the order they were first set.
  What was recorded before an exception stays recorded. A command with local variables an exception handler reads
  extends the record.
\<close>

record 'h cmd_state =
  host :: "'h host"
  report :: "(string \<times> json) list"

definition onHost :: "('e \<Rightarrow> 'f) \<Rightarrow> ('h host, 'e, 'a) action \<Rightarrow> (('h, 'z) cmd_state_scheme, 'f, 'a) action" where
  "onHost raising m s = (case m (host s) of (h, r) \<Rightarrow> (s\<lparr>host := h\<rparr>, mapE raising r))"

definition put_report :: "string \<Rightarrow> json \<Rightarrow> (('h, 'z) cmd_state_scheme, 'e, unit) action" where
  "put_report k v = updateA (\<lambda>s. s\<lparr>report := AList.update k v (report s)\<rparr>)"

lemma onHost_eq [action_simps]:
  "onHost raising m s = (s', r) \<longleftrightarrow> (\<exists>h q. m (host s) = (h, q) \<and> s' = s\<lparr>host := h\<rparr> \<and> r = mapE raising q)"
  by (auto simp: onHost_def split: prod.splits)

lemma put_report_eq [action_simps]:
  "put_report k v s = (s', r) \<longleftrightarrow> s' = s\<lparr>report := AList.update k v (report s)\<rparr> \<and> r = Inr ()"
  by (auto simp: put_report_def action_simps)

end
