(* ===== verification/Openocd_Cli.thy ===== *)
theory Openocd_Cli
  imports Openocd Run_Report
begin

section \<open>The OpenOCD commands\<close>

text \<open>
  Models \<open>src/tools/nrfkit_tools/openocd_cli.py\<close>: the settings span of an audited manifest, the backup
  of selected ranges, clearing the ordinary RRAM, restoring a backup, the GDB smoke test and the command
  that dispatches them. The state is the host together with the report the command fills in;
  the report keeps what was recorded before an exception. Numbers of a manifest that stand for
  addresses are integers; one written as a float is treated as a type error.
\<close>

datatype ocd_cmd_error =
    Ocd openocd_error
  | Tool tool_error
  | Lm20Only
  | SelectOneProbe
  | AttachAndRuntimeContract
  | ObservationNotIdentifier
  | DebugElfChanged
  | GdbMissing
  | ServerExitedEarly
  | ServerReadinessTimeout
  | GdbContractFailed

definition pure_ocd :: "openocd_error + 'a \<Rightarrow> ('s, ocd_cmd_error, 'a) action" where
  "pure_ocd r = liftA (mapE Ocd r)"

definition pure_py :: "py_error + 'a \<Rightarrow> ('s, ocd_cmd_error, 'a) action" where
  "pure_py r = liftA (mapE (Ocd \<circ> OcdPython) r)"

definition pure_image :: "image_error + 'a \<Rightarrow> ('s, ocd_cmd_error, 'a) action" where
  "pure_image r = liftA (mapE (Ocd \<circ> OcdImage) r)"

fun jint :: "json \<Rightarrow> int option" where
  "jint (JInt i) = Some i"
| "jint (JBool b) = Some (of_bool b)"
| "jint _ = None"

definition identity_json :: "target_identity \<Rightarrow> json" where
  "identity_json t = JObj [(''part'', JInt (int (part t))), (''variant'', JInt (int (variant t))),
     (''rram_kib'', JInt (int (rram_kib t))), (''device_id'', JStr (device_id t))]"

subsection \<open>The settings region of a manifest\<close>

text \<open>\<open>any(start < b and a < end for a, b in entries)\<close>.\<close>

fun any_overlaps :: "int \<Rightarrow> int \<Rightarrow> json list \<Rightarrow> py_error + bool" where
  "any_overlaps start stop [] = Inr False"
| "any_overlaps start stop (e # es) =
     bindR (jiter e) (\<lambda>items.
       case items of
         [a, b] \<Rightarrow>
           (case jnum b of
              None \<Rightarrow> Inl TypeError
            | Some y \<Rightarrow>
                if of_int start < y then
                  (case jnum a of
                     None \<Rightarrow> Inl TypeError
                   | Some x \<Rightarrow> if x < of_int stop then Inr True else any_overlaps start stop es)
                else any_overlaps start stop es)
       | _ \<Rightarrow> Inl ValueError)"

definition settings_span :: "json \<Rightarrow> ocd_cmd_error + int \<times> int" where
  "settings_span manifest =
     bindR (mapE (Ocd \<circ> OcdPython) (jget manifest ''image_layout'' (JObj []))) (\<lambda>layout.
       bindR (mapE (Ocd \<circ> OcdPython) (jget layout ''symbols'' (JObj []))) (\<lambda>symbols.
         bindR (mapE (Ocd \<circ> OcdPython) (jget symbols ''__nrfkit_settings_start'' JNull)) (\<lambda>start.
           bindR (mapE (Ocd \<circ> OcdPython) (jget symbols ''__nrfkit_settings_end'' JNull)) (\<lambda>stop.
             bindR (mapE (Ocd \<circ> OcdPython) (jget layout ''source'' JNull)) (\<lambda>source.
               case (jint start, jint stop) of
                 (Some a, Some b) \<Rightarrow>
                   if \<not> py_eq source (JStr ''elf-symbols'') \<or> a mod 16 \<noteq> 0 \<or> b mod 16 \<noteq> 0
                   then Inl (Ocd SettingsNeedAuditedElf)
                   else bindR (mapE (Ocd \<circ> OcdImage) (require_allowed [(a, b)] [(0, RRAM_END)])) (\<lambda>_.
                     if b \<le> a then Inl (Ocd SettingsNotSeparate)
                     else bindR (mapE (Ocd \<circ> OcdPython)
                            (bindR (bindR (jitem manifest ''debug_allowlist'') jiter) (any_overlaps a b))) (\<lambda>overlaps.
                       if overlaps then Inl (Ocd SettingsNotSeparate) else Inr (a, b)))
               | _ \<Rightarrow> Inl (Ocd SettingsNeedAuditedElf))))))"

subsection \<open>Backups\<close>

definition backup_bin :: "path \<Rightarrow> nat \<Rightarrow> nat \<Rightarrow> path" where
  "backup_bin dir i k = path_join dir (''backup-'' @ dec i @ ''-'' @ dec k @ ''.bin'')"

definition backup_hex :: "path \<Rightarrow> nat \<Rightarrow> path" where
  "backup_hex dir i = path_join dir (''backup-'' @ dec i @ ''.hex'')"

definition dump_command :: "path \<Rightarrow> nat \<Rightarrow> int \<times> int \<Rightarrow> nat \<Rightarrow> openocd_error + string" where
  "dump_command dir i r k =
     bindR (tcl_word (backup_bin dir i k)) (\<lambda>w.
       Inr (''dump_image '' @ w @ '' '' @ dec_int (fst r) @ '' '' @ dec_int (snd r - fst r)))"

definition dump_commands :: "path \<Rightarrow> (int \<times> int) list \<Rightarrow> openocd_error + string list" where
  "dump_commands dir merged =
     bindR (mapR (\<lambda>(i, r). mapR (dump_command dir i r) [1, 2]) (enumerate 0 merged)) (\<lambda>lines. Inr (concat lines))"

record backup_item =
  bk_path :: path
  bk_sha256 :: string
  bk_range :: "int \<times> int"

definition backup_json :: "backup_item \<Rightarrow> json" where
  "backup_json b = JObj [(''path'', JStr (bk_path b)), (''sha256'', JStr (bk_sha256 b)),
     (''range'', jint_pair (bk_range b))]"

definition keep_backup ::
  "(bytes \<Rightarrow> string) \<Rightarrow> path \<Rightarrow> nat \<times> int \<times> int \<Rightarrow> ('h host, openocd_error, backup_item) action" where
  "keep_backup digest dir job =
     (case job of (i, start, stop) \<Rightarrow>
      let first = backup_bin dir i 1; second = backup_bin dir i 2; p = backup_hex dir i in
      bindA (read_file (OcdPython OSError) first) (\<lambda>data.
        bindA (requireA (int (length data) = stop - start) BackupReadsDiffer) (\<lambda>_.
          bindA (read_file (OcdPython OSError) second) (\<lambda>again.
            bindA (requireA (data = again) BackupReadsDiffer) (\<lambda>_.
              bindA (liftA (addressed_hex start data)) (\<lambda>out.
                bindA (write_file p (ascii_encode out)) (\<lambda>_.
                  bindA (seal p) (\<lambda>_. bindA (seal first) (\<lambda>_. bindA (seal second) (\<lambda>_.
                    bindA (read_file (OcdPython OSError) p) (\<lambda>content.
                      pureA \<lparr>bk_path = p, bk_sha256 = digest content, bk_range = (start, stop)\<rparr>)))))))))))"

definition backup_merged :: "(int \<times> int) list \<Rightarrow> (int \<times> int) list" where
  "backup_merged rs = merge_sweep [] (sort rs)"

definition backup_ranges ::
  "'h child \<Rightarrow> (bytes \<Rightarrow> string) \<Rightarrow> open_ocd \<Rightarrow> (int \<times> int) list \<Rightarrow> ('h cmd_state, ocd_cmd_error, unit) action" where
  "backup_ranges child digest backend rs =
     bindA (pure_image (require_allowed rs [(0, RRAM_END)])) (\<lambda>_.
       bindA (requireA (\<not> (rs = [] \<or> list_ex (\<lambda>(a, b). a mod 16 \<noteq> 0 \<or> b mod 16 \<noteq> 0 \<or> b \<le> a) rs))
                (Ocd BackupRangesNotAligned)) (\<lambda>_.
         let merged = backup_merged rs in
         bindA (pure_ocd (dump_commands (run_dir backend) merged)) (\<lambda>dumps.
           bindA (onHost Ocd (ocd_run child backend ''backup'' (join_str [LF] (''halt'' # dumps)))) (\<lambda>output.
             bindA (pure_ocd (parse_identity output)) (\<lambda>target.
               bindA (put_report ''target'' (identity_json target)) (\<lambda>_.
                 bindA (onHost Ocd (mapA (keep_backup digest (run_dir backend)) (enumerate 0 merged))) (\<lambda>backups.
                   bindA (put_report ''backups'' (JList (map backup_json backups))) (\<lambda>_.
                     put_report ''target_state'' (JStr ''halted'')))))))))"

text \<open>The spans a manifest's images can overwrite, rounded to the 16-byte data unit.\<close>

fun image_span :: "json \<Rightarrow> py_error + int \<times> int" where
  "image_span r =
     bindR (jiter r) (\<lambda>items.
       case items of
         [a, b] \<Rightarrow>
           (case (jint a, jint b) of
              (Some x, Some y) \<Rightarrow> Inr (x div 16 * 16, (y + 15) div 16 * 16)
            | _ \<Rightarrow> Inl TypeError)
       | _ \<Rightarrow> Inl ValueError)"

definition checked_span :: "json \<Rightarrow> json \<Rightarrow> ocd_cmd_error + int \<times> int" where
  "checked_span item r =
     bindR (mapE (Ocd \<circ> OcdPython) (image_span r)) (\<lambda>span.
       bindR (mapE (Ocd \<circ> OcdPython) (bindR (bindR (jitem item ''allowlist'') jiter) (mapR jiter))) (\<lambda>allowed.
         bindR (mapE Tool (require_allowed_json [span] allowed)) (\<lambda>_. Inr span)))"

definition manifest_spans :: "bool \<Rightarrow> json \<Rightarrow> ocd_cmd_error + (int \<times> int) list" where
  "manifest_spans include_settings manifest =
     bindR (if include_settings then bindR (settings_span manifest) (\<lambda>s. Inr [s]) else Inr []) (\<lambda>settings.
       bindR (mapE (Ocd \<circ> OcdPython) (bindR (jitem manifest ''images'') jiter)) (\<lambda>items.
         bindR (mapR (\<lambda>item. bindR (mapE (Ocd \<circ> OcdPython) (bindR (jitem item ''ranges'') jiter)) (mapR (checked_span item))) items) (\<lambda>spans.
           Inr (settings @ concat spans))))"

definition ocd_backup ::
  "'h child \<Rightarrow> (bytes \<Rightarrow> string) \<Rightarrow> open_ocd \<Rightarrow> json list \<Rightarrow> bool \<Rightarrow> ('h cmd_state, ocd_cmd_error, unit) action" where
  "ocd_backup child digest backend manifests include_settings =
     bindA (liftA (mapR (manifest_spans include_settings) manifests)) (\<lambda>spans.
       bindA (backup_ranges child digest backend (concat spans)) (\<lambda>_.
         put_report ''includes_declared_settings'' (JBool include_settings)))"

subsection \<open>Clearing the ordinary RRAM\<close>

text \<open>The check that the target is still the one that was backed up, as Tcl.\<close>

definition guard_text :: "int \<Rightarrow> int \<Rightarrow> string \<Rightarrow> string" where
  \<open>guard_text p v device =
     ''if {$part != '' @ dec_int p @ '' || $variant != '' @ dec_int v
     @ '' || [lindex [read_memory 0x00ffc304 32 1] 0] != 0x'' @ take 8 device
     @ '' || [lindex [read_memory 0x00ffc308 32 1] 0] != 0x'' @ drop 8 device
     @ ''} {error "target changed after backup"}''\<close>

definition identity_guard :: "json \<Rightarrow> py_error + string" where
  "identity_guard target =
     bindR (jitem target ''device_id'') (\<lambda>d. bindR (jitem target ''part'') (\<lambda>p. bindR (jitem target ''variant'') (\<lambda>v.
       case (d, jint p, jint v) of
         (JStr device, Some a, Some b) \<Rightarrow> Inr (guard_text a b device)
       | _ \<Rightarrow> Inl TypeError)))"

definition backup_report_json :: "json \<Rightarrow> json \<Rightarrow> json" where
  "backup_report_json target backups = JObj
     [(''operation'', JStr ''openocd-backup''), (''status'', JStr ''ok''), (''target'', target), (''backups'', backups),
      (''target_state'', JStr ''halted''), (''range'', JList [JInt 0, JInt RRAM_END])]"

definition get_report :: "string \<Rightarrow> ('h cmd_state, ocd_cmd_error, json) action" where
  "get_report k s = (case map_of (report s) k of Some v \<Rightarrow> (s, Inr v) | None \<Rightarrow> (s, Inl (Ocd (OcdPython KeyError))))"

definition cleared_bytes :: bytes where
  "cleared_bytes = replicate (nat RRAM_END) 0xFF"

definition clear_rram ::
  "'h child \<Rightarrow> (bytes \<Rightarrow> string) \<Rightarrow> (json \<Rightarrow> string) \<Rightarrow> (path \<Rightarrow> path) \<Rightarrow> open_ocd \<Rightarrow> ('h cmd_state, ocd_cmd_error, unit) action" where
  "clear_rram child digest dumps temporary backend =
     (let dir = run_dir backend; snapshot = path_join dir ''clear-rram.hex'';
          backup_report = path_join dir ''backup.json''; readback = path_join dir ''clear-readback.bin'' in
      bindA (pure_ocd (addressed_hex 0 cleared_bytes)) (\<lambda>out.
      bindA (onHost Ocd (write_file snapshot (ascii_encode out))) (\<lambda>_.
      bindA (onHost Ocd (seal snapshot)) (\<lambda>_.
      bindA (readA (files \<circ> host)) (\<lambda>fs.
      bindA (pure_image (parse_ihex fs snapshot)) (\<lambda>img.
      bindA (pure_image (require_allowed (ranges img) [(0, RRAM_END)])) (\<lambda>_.
      bindA (requireA (ranges img = [(0, RRAM_END)]) (Ocd ClearSnapshotNotExact)) (\<lambda>_.
      bindA (put_report ''clear_range'' (JList [JInt 0, JInt RRAM_END])) (\<lambda>_.
      bindA (pure_py (sha256 digest fs snapshot)) (\<lambda>h.
      bindA (put_report ''clear_sha256'' (JStr h)) (\<lambda>_.
      bindA (backup_ranges child digest backend [(0, RRAM_END)]) (\<lambda>_.
      bindA (get_report ''target'') (\<lambda>target.
      bindA (get_report ''backups'') (\<lambda>backups.
      bindA (onHost Ocd (atomic_json (temporary backup_report) backup_report
               (dumps (backup_report_json target backups)))) (\<lambda>_.
      bindA (put_report ''backup_report'' (JStr backup_report)) (\<lambda>_.
      bindA (pure_py (identity_guard target)) (\<lambda>guard.
      bindA (put_report ''target_state'' (JStr ''unverified'')) (\<lambda>_.
      bindA (pure_ocd (tcl_word snapshot)) (\<lambda>quoted.
      bindA (pure_ocd (tcl_word readback)) (\<lambda>quoted_readback.
      bindA (onHost Ocd (ocd_run child backend ''clear'' (join_str [LF]
               [guard, ''halt'', ''flash write_image '' @ quoted, ''verify_image '' @ quoted,
                ''dump_image '' @ quoted_readback @ '' 0 '' @ dec_int RRAM_END]))) (\<lambda>_.
      bindA (onHost Ocd (read_file (OcdPython OSError) readback)) (\<lambda>content.
      bindA (requireA (content = cleared_bytes) (Ocd ClearReadbackMismatch)) (\<lambda>_.
      bindA (put_report ''clear_verified'' (JBool True)) (\<lambda>_.
      bindA (put_report ''target_state'' (JStr ''halted'')) (\<lambda>_.
        put_report ''readback_sha256'' (JStr (digest content)))))))))))))))))))))))))))"

subsection \<open>Restoring a backup\<close>

definition restore_hex :: "path \<Rightarrow> nat \<Rightarrow> path" where
  "restore_hex dir i = path_join dir (''restore-'' @ dec i @ ''.hex'')"

definition restore_item ::
  "(bytes \<Rightarrow> string) \<Rightarrow> path \<Rightarrow> json list list \<Rightarrow> nat \<times> json \<Rightarrow> ('h host, ocd_cmd_error, path) action" where
  "restore_item digest dir allowlist job =
     (case job of (i, item) \<Rightarrow>
      let destination = restore_hex dir i in
      bindA (pure_py (bindR (jitem item ''path'') jstr)) (\<lambda>source.
      bindA (read_file (Ocd (OcdPython OSError)) source) (\<lambda>content.
      bindA (write_file destination content) (\<lambda>_.
      bindA (seal destination) (\<lambda>_.
      bindA (readA files) (\<lambda>fs.
      bindA (pure_py (sha256 digest fs destination)) (\<lambda>h.
      bindA (pure_py (jitem item ''sha256'')) (\<lambda>expected.
      bindA (requireA (py_eq (JStr h) expected) (Ocd BackupArtifactChanged)) (\<lambda>_.
      bindA (pure_image (parse_ihex fs destination)) (\<lambda>img.
      bindA (liftA (mapE Tool (require_allowed_json (ranges img) allowlist))) (\<lambda>_.
      bindA (pure_image (require_allowed (ranges img) [(0, RRAM_END)])) (\<lambda>_.
      bindA (pure_py (bindR (jitem item ''range'') jiter)) (\<lambda>declared.
      bindA (requireA (py_eq (ranges_json (ranges img)) (JList [JList declared])) (Ocd BackupRangeMismatch)) (\<lambda>_.
        pureA destination))))))))))))))"

definition write_and_verify :: "path \<Rightarrow> openocd_error + string list" where
  "write_and_verify p = bindR (tcl_word p) (\<lambda>w. Inr [''flash write_image '' @ w, ''verify_image '' @ w])"

definition ocd_restore ::
  "'h child \<Rightarrow> (bytes \<Rightarrow> string) \<Rightarrow> (bytes \<Rightarrow> bool + json) \<Rightarrow> open_ocd \<Rightarrow> json \<Rightarrow> path \<Rightarrow> bool
     \<Rightarrow> ('h cmd_state, ocd_cmd_error, unit) action" where
  "ocd_restore child digest decode backend manifest p include_settings =
     bindA (onHost Ocd (read_file (OcdPython OSError) p)) (\<lambda>content.
     bindA (pure_py (case decode content of Inl b \<Rightarrow> Inl (if b then UnicodeDecodeError else ValueError) | Inr v \<Rightarrow> Inr v)) (\<lambda>backup.
     bindA (pure_py (jget backup ''operation'' JNull)) (\<lambda>operation.
     bindA (pure_py (jget backup ''status'' JNull)) (\<lambda>status.
     bindA (pure_py (jget backup ''backups'' JNull)) (\<lambda>backups.
     bindA (pure_py (jget backup ''target'' JNull)) (\<lambda>target.
     bindA (requireA (py_eq operation (JStr ''openocd-backup'') \<and> py_eq status (JStr ''ok'') \<and> jtruth backups \<and> jtruth target)
              (Ocd BackupReportRequired)) (\<lambda>_.
     bindA (pure_py (bindR (bindR (jitem manifest ''debug_allowlist'') jiter) (mapR jiter))) (\<lambda>debug_allowlist.
     bindA (liftA (if include_settings then bindR (settings_span manifest) (\<lambda>(a, b). Inr [[JInt a, JInt b]]) else Inr [])) (\<lambda>settings.
     bindA (pure_py (jiter backups)) (\<lambda>items.
     bindA (onHost (\<lambda>e. e) (mapA (restore_item digest (run_dir backend) (debug_allowlist @ settings)) (enumerate 0 items))) (\<lambda>snapshots.
     bindA (onHost Ocd (ocd_run child backend ''restore-identity'' '''')) (\<lambda>output.
     bindA (pure_ocd (parse_identity output)) (\<lambda>current.
     bindA (requireA (py_eq (identity_json current) target) (Ocd BackupOtherTarget)) (\<lambda>_.
     bindA (put_report ''target'' (identity_json current)) (\<lambda>_.
     bindA (pure_ocd (mapR write_and_verify snapshots)) (\<lambda>commands.
     bindA (onHost Ocd (ocd_run child backend ''restore'' (join_str [LF] (''halt'' # concat commands)))) (\<lambda>_.
     bindA (put_report ''restore_verified'' (JBool True)) (\<lambda>_.
     bindA (put_report ''target_state'' (JStr ''halted'')) (\<lambda>_.
       put_report ''backup_report'' (JStr p))))))))))))))))))))"

subsection \<open>The GDB smoke test\<close>

record gdb_args =
  g_attach :: bool
  g_runtime_contract :: bool
  g_observe :: "string list"
  g_observe_system_control :: "string list"
  g_timeout :: rat

text \<open>
  The commands and the markers the session must print; \<open>elf\<close> is the JSON rendering of the
  ELF path. A backslash followed by \<open>n\<close> is what GDB receives.
\<close>

definition escaped_newline :: string where
  "escaped_newline = [CHR 0x5C, CHR ''n'']"

definition gdb_printf :: "string \<Rightarrow> string \<Rightarrow> string" where
  \<open>gdb_printf fmt arguments = ''printf "'' @ fmt @ escaped_newline @ ''"'' @ arguments\<close>

definition gdb_commands :: "gdb_args \<Rightarrow> int list \<Rightarrow> string \<Rightarrow> int \<Rightarrow> string list" where
  \<open>gdb_commands args addresses elf port =
     [''set pagination off'', ''set confirm off'', ''set remotetimeout 10'',
      ''file '' @ elf, ''target remote 127.0.0.1:'' @ dec_int port,
      ''monitor halt'', gdb_printf ''CPUID=%08x'' '', *(unsigned*)0xe000ed00'', ''info registers pc sp'']
     @ (if \<not> g_attach args then
          [''monitor reset halt'', ''maintenance flush register-cache'', ''hbreak main'', ''continue'',
           gdb_printf ''MAIN_REACHED'' '''', ''stepi'', gdb_printf ''STEP_COMPLETE'' '''']
        else [])
     @ (if g_runtime_contract args then
          [''delete breakpoints'', ''hbreak nrfkit_post_main'', ''continue'',
           gdb_printf ''MAIN_STATE=%08x'' '', nrfkit_main_observed'',
           ''set nrfkit_gdb_scratch = 0xa55a5aa5'',
           gdb_printf ''RAM_VALUE=%08x'' '', nrfkit_gdb_scratch'',
           ''delete breakpoints'', ''monitor reset halt'', ''maintenance flush register-cache'',
           ''if $pc != ((unsigned)&Reset_Handler & ~1)'',
           ''  echo Unexpected reset PC'' @ escaped_newline, ''  quit 1'', ''end'',
           gdb_printf ''RESET_HANDLER_REACHED'' '''',
           ''watch -l *(unsigned*)&nrfkit_gdb_scratch'', ''continue'',
           gdb_printf ''WATCHPOINT_VALUE=%08x'' '', nrfkit_gdb_scratch'']
        else [])
     @ map (\<lambda>symbol. gdb_printf (''OBSERVE '' @ symbol @ ''=%08x'') ('', *(unsigned*)&'' @ symbol)) (g_observe args)
     @ map (\<lambda>a. gdb_printf (''OBSERVE SCS_'' @ hex_int 8 a @ ''=%08x'') ('', *(unsigned*)0x'' @ hex_int 8 a)) addresses
     @ [''delete breakpoints'', ''monitor resume'', ''detach'', ''quit'']\<close>

definition gdb_markers :: "gdb_args \<Rightarrow> string list" where
  "gdb_markers args = [''CPUID='']
     @ (if \<not> g_attach args then [''MAIN_REACHED'', ''STEP_COMPLETE''] else [])
     @ (if g_runtime_contract args then
          [''MAIN_STATE=4d324d41'', ''RAM_VALUE=a55a5aa5'', ''RESET_HANDLER_REACHED'',
           ''Hardware watchpoint'', ''WATCHPOINT_VALUE=00000000'']
        else [])"

text \<open>
  The running server, as the loop that waits for it sees it: at each look it has exited, it is
  listening, or neither; when no look is left the deadline has passed. \<open>server_log\<close> is what it has written at the end.
\<close>

datatype server_look = ServerExited | ServerListening | ServerQuiet

record gdb_env =
  gdb_path :: path
  gdb_executable :: bool
  listen_port :: int
  server_looks :: "server_look list"
  server_log :: string
  json_text :: "string \<Rightarrow> string"

fun await_server :: "server_look list \<Rightarrow> ocd_cmd_error + unit" where
  "await_server [] = Inl ServerReadinessTimeout"
| "await_server (ServerExited # rest) = Inl ServerExitedEarly"
| "await_server (ServerListening # rest) = Inr ()"
| "await_server (ServerQuiet # rest) = await_server rest"

definition start_server :: "open_ocd \<Rightarrow> int \<Rightarrow> ('h host, openocd_error, unit) action" where
  "start_server backend port =
     bindA (ocd_argv backend ''server'' (''init'' @ [LF] @ IDENTIFY) (Some port)) (\<lambda>argv.
       updateA (\<lambda>w. w\<lparr>launches := launches w @ [\<lparr>launch_argv = argv, launch_files = files w\<rparr>]\<rparr>))"

definition gdb_session ::
  "'h child \<Rightarrow> gdb_env \<Rightarrow> open_ocd \<Rightarrow> gdb_args \<Rightarrow> int list \<Rightarrow> path \<Rightarrow> ('h cmd_state, ocd_cmd_error, unit) action" where
  "gdb_session child env backend args addresses elf =
     (let script = path_join (run_dir backend) ''smoke.gdb'' in
      bindA (onHost Ocd (start_server backend (listen_port env))) (\<lambda>_.
      bindA (liftA (await_server (server_looks env))) (\<lambda>_.
      bindA (onHost Ocd (write_file script (utf8_encode
               (join_str [LF] (gdb_commands args addresses (json_text env elf) (listen_port env)) @ [LF])))) (\<lambda>_.
      bindA (onHost Ocd (run_logged child OcdPython [gdb_path env, ''--nx'', ''--batch'', ''-x'', script]
               (path_join (run_dir backend) ''gdb.log'') (g_timeout args))) (\<lambda>result.
      bindA (requireA (returncode result = 0 \<and> list_all (\<lambda>m. sublist m (stdout result)) (gdb_markers args)) GdbContractFailed) (\<lambda>_.
      bindA (pure_ocd (parse_identity (server_log env))) (\<lambda>target.
      bindA (put_report ''target'' (identity_json target)) (\<lambda>_.
      bindA (put_report ''gdb_contract'' (JList (map JStr (gdb_markers args)))) (\<lambda>_.
        put_report ''target_state'' (JStr ''running''))))))))))"

definition ocd_gdb ::
  "'h child \<Rightarrow> (bytes \<Rightarrow> string) \<Rightarrow> gdb_env \<Rightarrow> open_ocd \<Rightarrow> json \<Rightarrow> gdb_args \<Rightarrow> ('h cmd_state, ocd_cmd_error, unit) action" where
  "ocd_gdb child digest env backend manifest args =
     (let elf = path_join (run_dir backend) ''debug.elf'' in
      bindA (requireA (\<not> (g_attach args \<and> g_runtime_contract args)) AttachAndRuntimeContract) (\<lambda>_.
      bindA (requireA (list_all observation_path_valid (g_observe args)) ObservationNotIdentifier) (\<lambda>_.
      bindA (pure_ocd (mapR system_control_observation_address (g_observe_system_control args))) (\<lambda>addresses.
      bindA (pure_py (jitem manifest ''debug_elf'')) (\<lambda>debug_elf.
      bindA (pure_py (bindR (jitem debug_elf ''path'') jstr)) (\<lambda>source.
      bindA (onHost Ocd (read_file (OcdPython OSError) source)) (\<lambda>content.
      bindA (onHost Ocd (write_file elf content)) (\<lambda>_.
      bindA (onHost Ocd (seal elf)) (\<lambda>_.
      bindA (pure_py (jitem debug_elf ''sha256'')) (\<lambda>expected.
      bindA (requireA (py_eq (JStr (digest content)) expected) DebugElfChanged) (\<lambda>_.
      bindA (requireA (gdb_executable env) GdbMissing) (\<lambda>_.
        finallyA (gdb_session child env backend args addresses elf)
          (put_report ''server_cleanup'' (JBool True))))))))))))))"

subsection \<open>The command\<close>

datatype ocd_action = ActList | ActInfo | ActBackup | ActFlash | ActRestore | ActReset | ActGdbSmoke | ActClearRram

record ocd_args =
  ac_action :: ocd_action
  ac_vid :: int
  ac_pid :: int
  ac_probe_serial :: "string option"
  ac_timeout :: rat
  ac_openocd :: path
  ac_scripts :: path
  ac_speed :: int
  ac_manifests :: "path list"
  ac_include_settings :: bool
  ac_backup_report :: path
  ac_halt :: bool
  ac_diagnostics :: bool
  ac_pin :: bool
  ac_gdb :: gdb_args

text \<open>What the command meets outside: files decoded, digests, USB, locks, the clock's temporary names.\<close>

record 'h ocd_world =
  w_child :: "'h child"
  w_digest :: "bytes \<Rightarrow> string"
  w_decode :: "bytes \<Rightarrow> bool + json"
  w_dumps :: "json \<Rightarrow> string"
  w_temporary :: "path \<Rightarrow> path"
  w_render :: "json \<Rightarrow> string"
  w_usb :: "usb_device list"
  w_locked :: "string \<Rightarrow> bool"
  w_gdb :: gdb_env
  w_describe :: "ocd_cmd_error \<Rightarrow> string"

definition device_json :: "ocd_device \<Rightarrow> json" where
  "device_json d = JObj [(''serial'', JStr (dev_serial d)), (''vid'', JInt (dev_vid d)), (''pid'', JInt (dev_pid d)),
     (''interface'', JInt (dev_interface d)), (''product'', case dev_product d of None \<Rightarrow> JNull | Some s \<Rightarrow> JStr s)]"

definition receipt_json :: "ocd_receipt \<Rightarrow> json" where
  "receipt_json r = JObj [(''executable'', JStr (rc_executable r)), (''sha256'', JStr (rc_sha256 r)),
     (''scripts'', JStr (rc_scripts r)), (''target_sha256'', JStr (rc_target_sha256 r)),
     (''family_sha256'', JStr (rc_family_sha256 r)), (''swd_khz_requested'', JInt (rc_swd_khz_requested r))]"

definition load_one :: "'h ocd_world \<Rightarrow> path \<Rightarrow> ('h cmd_state, ocd_cmd_error, json) action" where
  "load_one env p =
     bindA (readA (files \<circ> host)) (\<lambda>fs. liftA (mapE Tool (load_manifest (w_digest env) (w_decode env) fs p True)))"

definition load_manifests :: "'h ocd_world \<Rightarrow> ocd_args \<Rightarrow> ('h cmd_state, ocd_cmd_error, json list) action" where
  "load_manifests env args =
     (if ac_action args \<notin> {ActBackup, ActFlash, ActRestore, ActGdbSmoke} then pureA [] else
     bindA (mapA (load_one env) (ac_manifests args)) (\<lambda>manifests.
     bindA (pure_py (anyR (\<lambda>m. bindR (jitem m ''soc'') (\<lambda>v. Inr (\<not> py_eq v (JStr ''nrf54lm20a'')))) manifests)) (\<lambda>other.
     bindA (requireA (\<not> other) Lm20Only) (\<lambda>_.
     bindA (readA (files \<circ> host)) (\<lambda>fs.
     bindA (pure_py (mapR (\<lambda>p. bindR (sha256 (w_digest env) fs p) (\<lambda>h. Inr (JObj [(''path'', JStr p), (''sha256'', JStr h)])))
              (ac_manifests args))) (\<lambda>entries.
     bindA (put_report ''manifests'' (JList entries)) (\<lambda>_.
     bindA (liftA (if ac_include_settings args \<and> ac_action args \<in> {ActBackup, ActRestore}
                   then mapR settings_span manifests else Inr [])) (\<lambda>_.
       pureA manifests))))))))"

definition flash_images :: "'h ocd_world \<Rightarrow> open_ocd \<Rightarrow> json \<Rightarrow> ('h cmd_state, ocd_cmd_error, unit) action" where
  "flash_images env backend manifest =
     bindA (onHost Tool (snapshot_hexes (w_digest env) (w_render env) manifest (run_dir backend))) (\<lambda>snapshots.
     bindA (pure_ocd (mapR write_and_verify snapshots)) (\<lambda>commands.
     bindA (onHost Ocd (ocd_run (w_child env) backend ''program'' (join_str [LF] (''halt'' # concat commands)))) (\<lambda>output.
     bindA (pure_ocd (parse_identity output)) (\<lambda>target.
     bindA (put_report ''target'' (identity_json target)) (\<lambda>_.
     bindA (readA (files \<circ> host)) (\<lambda>fs.
     bindA (pure_py (mapR (sha256 (w_digest env) fs) snapshots)) (\<lambda>digests.
     bindA (put_report ''image_sha256'' (JList (map JStr digests))) (\<lambda>_.
       put_report ''target_state'' (JStr ''halted'')))))))))"

definition first_manifest :: "json list \<Rightarrow> ('h cmd_state, ocd_cmd_error, json) action" where
  "first_manifest ms = (case ms of m # _ \<Rightarrow> pureA m | [] \<Rightarrow> raiseA (Ocd (OcdPython IndexError)))"

definition ocd_dispatch ::
  "'h ocd_world \<Rightarrow> ocd_args \<Rightarrow> open_ocd \<Rightarrow> json list \<Rightarrow> ('h cmd_state, ocd_cmd_error, unit) action" where
  "ocd_dispatch env args backend manifests =
     (case ac_action args of
        ActInfo \<Rightarrow>
          bindA (onHost Ocd (ocd_run (w_child env) backend ''info'' '''')) (\<lambda>output.
          bindA (pure_ocd (parse_identity output)) (\<lambda>target. put_report ''target'' (identity_json target)))
      | ActClearRram \<Rightarrow> clear_rram (w_child env) (w_digest env) (w_dumps env) (w_temporary env) backend
      | ActBackup \<Rightarrow> ocd_backup (w_child env) (w_digest env) backend manifests (ac_include_settings args)
      | ActRestore \<Rightarrow>
          bindA (first_manifest manifests) (\<lambda>m.
            ocd_restore (w_child env) (w_digest env) (w_decode env) backend m (ac_backup_report args) (ac_include_settings args))
      | ActFlash \<Rightarrow> bindA (first_manifest manifests) (flash_images env backend)
      | ActReset \<Rightarrow>
          bindA (onHost Ocd (ocd_reset (w_child env) backend (ac_halt args) (ac_diagnostics args) (ac_pin args))) (\<lambda>output.
          bindA (pure_ocd (parse_identity output)) (\<lambda>target.
          bindA (put_report ''target'' (identity_json target)) (\<lambda>_.
            put_report ''target_state'' (JStr (if ac_halt args then ''halted'' else ''running'')))))
      | ActGdbSmoke \<Rightarrow>
          bindA (first_manifest manifests) (\<lambda>m. ocd_gdb (w_child env) (w_digest env) (w_gdb env) backend m (ac_gdb args))
      | ActList \<Rightarrow> pureA ())"

definition ocd_body :: "'h ocd_world \<Rightarrow> ocd_args \<Rightarrow> path \<Rightarrow> ('h cmd_state, ocd_cmd_error, unit) action" where
  "ocd_body env args dir =
     bindA (load_manifests env args) (\<lambda>manifests.
     let devices = discover (w_usb env) (ac_vid args) (ac_pid args) (ac_probe_serial args) in
     bindA (put_report ''devices'' (JList (map device_json devices))) (\<lambda>_.
     bindA (if ac_action args = ActList then pureA ()
            else case devices of
              [device] \<Rightarrow>
                bindA (onHost Ocd (OpenOcd (ac_openocd args) (ac_scripts args) device dir (ac_speed args) (ac_timeout args))) (\<lambda>backend.
                bindA (onHost Ocd (ocd_receipt_of (w_digest env) backend)) (\<lambda>receipt.
                bindA (put_report ''backend'' (receipt_json receipt)) (\<lambda>_.
                bindA (requireA (\<not> w_locked env (dev_serial device)) (Tool ProbeLocked)) (\<lambda>_.
                  ocd_dispatch env args backend manifests))))
            | _ \<Rightarrow> raiseA SelectOneProbe) (\<lambda>_.
       put_report ''status'' (JStr ''ok''))))"

definition ocd_command :: "'h ocd_world \<Rightarrow> ocd_args \<Rightarrow> path \<Rightarrow> ('h cmd_state, ocd_cmd_error, unit) action" where
  "ocd_command env args dir =
     finallyA
       (reraiseA (ocd_body env args dir) (\<lambda>e.
          bindA (put_report ''status'' (JStr ''failed'')) (\<lambda>_. put_report ''error'' (JStr (w_describe env e)))))
       (\<lambda>s. onHost Ocd (atomic_json (w_temporary env (path_join dir ''run.json'')) (path_join dir ''run.json'')
               (w_dumps env (JObj (report s)))) s)"

end
