(* ===== verification/Sdk_Correct.thy ===== *)
theory Sdk_Correct
  imports Sdk Image_Correct
begin

section \<open>Correctness of SDK manifests\<close>

text \<open>
  Merging is the normal form of a set of ranges; a layout's regions are bounded and disjoint; and
  what a device manifest certifies holds of the files it names.
\<close>

interpretation sdk_ranges: range_normaliser sdk_merged
  using merge_sweep_normaliser unfolding sdk_merged_def [abs_def] .

text \<open>
  C21. Comparing merged ranges is comparing what they cover: on non-empty ranges, in any order,
  overlapping or split anyhow, two images have equal merged ranges exactly when they occupy
  the same addresses; and merging is idempotent.
\<close>

theorem sdk_merged_canonical:
  assumes "nonempty_ranges xs" and "nonempty_ranges ys"
  shows "(sdk_merged xs = sdk_merged ys \<longleftrightarrow> covers xs = covers ys)
    \<and> normal_ranges (sdk_merged xs) \<and> covers (sdk_merged xs) = covers xs
    \<and> sdk_merged (sdk_merged xs) = sdk_merged xs"
  using assms sdk_ranges.norm_eq_iff sdk_ranges.norm_normal sdk_ranges.norm_covers sdk_ranges.norm_idem by blast

theorem sdk_merged_canonical_witness:
  "sdk_merged [(4, 8), (0, 4), (6, 7)] = sdk_merged [(0, 8)] \<longleftrightarrow> covers [(4, 8), (0, 4), (6, 7)] = covers [(0, 8)]"
  using sdk_merged_canonical [of "[(4, 8), (0, 4), (6, 7)]" "[(0, 8)]"] by (simp add: nonempty_ranges_def)

subsection \<open>Layouts\<close>

definition span :: "string \<times> int \<times> int \<Rightarrow> int set" where
  "span r = (case r of (n, a, l) \<Rightarrow> {a..<a + l})"

lemma layout_loop_Cons:
  "layout_loop symbols ((name, low, high) # rest) = Inr l \<longleftrightarrow>
     (name \<in> {''settings'', ''rram_scratch''} \<and> symbol_value symbols (''__nrfkit_'' @ name @ ''_start'') = None
        \<and> symbol_value symbols (''__nrfkit_'' @ name @ ''_end'') = None \<and> layout_loop symbols rest = Inr l)
     \<or> (\<exists>a b l'. symbol_value symbols (''__nrfkit_'' @ name @ ''_start'') = Some a
        \<and> symbol_value symbols (''__nrfkit_'' @ name @ ''_end'') = Some b
        \<and> low \<le> a \<and> a < b \<and> b \<le> high \<and> layout_loop symbols rest = Inr l' \<and> l = (name, a, b - a) # l')"
proof -
  define s e where "s = symbol_value symbols (''__nrfkit_'' @ name @ ''_start'')"
    and "e = symbol_value symbols (''__nrfkit_'' @ name @ ''_end'')"
  show ?thesis
    unfolding layout_loop.simps Let_def s_def [symmetric] e_def [symmetric]
    by (cases s; cases e) (auto simp: result_simps)
qed

lemma layout_loop_bounds:
  "layout_loop symbols specs = Inr l \<Longrightarrow> (n, a, len) \<in> set l \<Longrightarrow>
     \<exists>low high. (n, low, high) \<in> set specs \<and> low \<le> a \<and> 0 < len \<and> a + len \<le> high"
proof (induction specs arbitrary: l)
  case (Cons s specs)
  obtain name low high where s: "s = (name, low, high)" by (cases s)
  from Cons.prems(1) [unfolded s layout_loop_Cons] show ?case
  proof (elim disjE exE conjE)
    assume "layout_loop symbols specs = Inr l"
    from Cons.IH [OF this Cons.prems(2)] show ?thesis by auto
  next
    fix x b l'
    assume h: "low \<le> x" "x < b" "b \<le> high" "layout_loop symbols specs = Inr l'" "l = (name, x, b - x) # l'"
    show ?thesis
    proof (cases "(n, a, len) \<in> set l'")
      case True
      from Cons.IH [OF h(4) True] show ?thesis by auto
    next
      case False
      with h Cons.prems(2) have "n = name" "a = x" "len = b - x" by auto
      with h s show ?thesis by (intro exI [of _ low] exI [of _ high]) auto
    qed
  qed
qed simp

lemma layout_loop_names:
  "layout_loop symbols specs = Inr l \<Longrightarrow> distinct (map fst specs) \<Longrightarrow>
     distinct (map fst l) \<and> fst ` set l \<subseteq> fst ` set specs
     \<and> fst ` set specs - {''settings'', ''rram_scratch''} \<subseteq> fst ` set l"
proof (induction specs arbitrary: l)
  case (Cons s specs)
  obtain name low high where s: "s = (name, low, high)" by (cases s)
  have d: "distinct (map fst specs)" "name \<notin> fst ` set specs" using Cons.prems(2) s by auto
  from Cons.prems(1) [unfolded s layout_loop_Cons] show ?case
  proof (elim disjE exE conjE)
    assume "layout_loop symbols specs = Inr l" "name \<in> {''settings'', ''rram_scratch''}"
    with Cons.IH d s show ?thesis by auto
  next
    fix x b l'
    assume h: "layout_loop symbols specs = Inr l'" "l = (name, x, b - x) # l'"
    from Cons.IH [OF h(1) d(1)] h(2) d(2) s show ?thesis by auto
  qed
qed simp

lemma overlap_with_Inr: "overlap_with (n, a, b) rs = Inr () \<longleftrightarrow> (\<forall>(m, c, d) \<in> set rs. \<not> (a < d \<and> c < b))"
  by (induction "(n, a, b)" rs rule: overlap_with.induct) auto

lemma overlap_loop_Inr:
  "overlap_loop rs = Inr () \<longleftrightarrow> sorted_wrt (\<lambda>(n, a, b) (m, c, d). \<not> (a < d \<and> c < b)) rs"
proof (induction rs)
  case (Cons r rs)
  obtain n a b where "r = (n, a, b)" by (cases r)
  with Cons show ?case by (auto simp: result_simps overlap_with_Inr)
qed simp

lemma layout_from_symbols_regions:
  assumes "layout_from_symbols symbols = Inr l"
  shows "distinct (map fst l)" and "{''rram'', ''ram''} \<subseteq> fst ` set l"
    and "(n, a, len) \<in> set l \<Longrightarrow> 0 < len \<and> (if n = ''ram'' then LM20_RAM0_ORIGIN \<le> a \<and> a + len \<le> LM20_RAM0_END
          else 0 \<le> a \<and> a + len \<le> LM20_SAFE_RRAM_END)"
    and "sorted_wrt (\<lambda>(n, a, b) (m, c, d). \<not> (a < d \<and> c < b))
          (map (\<lambda>(n, o', l). (n, o', o' + l)) (filter (\<lambda>(n, _). n \<noteq> ''ram'') l))"
proof -
  let ?specs = "[(''rram'', 0, LM20_SAFE_RRAM_END), (''ram'', LM20_RAM0_ORIGIN, LM20_RAM0_END),
        (''settings'', 0, LM20_SAFE_RRAM_END), (''rram_scratch'', 0, LM20_SAFE_RRAM_END)]"
  from assms have l: "layout_loop symbols ?specs = Inr l"
    and o': "overlap_loop (map (\<lambda>(n, o', l). (n, o', o' + l)) (filter (\<lambda>(n, _). n \<noteq> ''ram'') l)) = Inr ()"
    unfolding layout_from_symbols_def by (simp_all only: bindR_Inr_iff) auto
  show "distinct (map fst l)" "{''rram'', ''ram''} \<subseteq> fst ` set l"
    using layout_loop_names [OF l] by auto
  show "0 < len \<and> (if n = ''ram'' then LM20_RAM0_ORIGIN \<le> a \<and> a + len \<le> LM20_RAM0_END
          else 0 \<le> a \<and> a + len \<le> LM20_SAFE_RRAM_END)" if "(n, a, len) \<in> set l"
    using layout_loop_bounds [OF l that] by auto
  show "sorted_wrt (\<lambda>(n, a, b) (m, c, d). \<not> (a < d \<and> c < b))
          (map (\<lambda>(n, o', l). (n, o', o' + l)) (filter (\<lambda>(n, _). n \<noteq> ''ram'') l))"
    using o' unfolding overlap_loop_Inr .
qed

lemma sorted_wrt_either:
  "sorted_wrt P xs \<Longrightarrow> x \<in> set xs \<Longrightarrow> y \<in> set xs \<Longrightarrow> x \<noteq> y \<Longrightarrow> P x y \<or> P y x"
  by (induction xs) auto

lemma layout_regions_disjoint:
  assumes "layout_from_symbols symbols = Inr l" and "r \<in> set l" and "q \<in> set l" and "fst r \<noteq> fst q"
  shows "span r \<inter> span q = {}"
proof -
  obtain n a k where r: "r = (n, a, k)" by (cases r)
  obtain m c j where q: "q = (m, c, j)" by (cases q)
  note bounds = layout_from_symbols_regions(3) [OF assms(1)]
  have nm: "n \<noteq> m" using assms(4) r q by simp
  show ?thesis
  proof (cases "n = ''ram'' \<or> m = ''ram''")
    case True
    with nm bounds [of n a k] bounds [of m c j] assms(2,3) r q show ?thesis
      by (auto simp: span_def split: if_splits)
  next
    case False
    let ?rs = "map (\<lambda>(n, o', l). (n, o', o' + l)) (filter (\<lambda>(n, _). n \<noteq> ''ram'') l)"
    have "(n, a, a + k) \<in> set ?rs" "(m, c, c + j) \<in> set ?rs" using assms(2,3) r q False by force+
    with sorted_wrt_either [OF layout_from_symbols_regions(4) [OF assms(1)], of "(n, a, a + k)" "(m, c, c + j)"] nm
    have "\<not> (a < c + j \<and> c < a + k)" by auto
    then show ?thesis by (auto simp: span_def r q)
  qed
qed

text \<open>
  C22. An accepted layout is safe: RRAM and RAM are always present, every region is non-empty and
  inside its own memory (the ordinary RRAM or RAM0), and no two regions share an address.
\<close>

theorem layout_from_symbols_safe:
  assumes "layout_from_symbols symbols = Inr l"
  shows "{''rram'', ''ram''} \<subseteq> fst ` set l
    \<and> (\<forall>(n, a, len) \<in> set l. 0 < len \<and> (if n = ''ram'' then LM20_RAM0_ORIGIN \<le> a \<and> a + len \<le> LM20_RAM0_END
          else 0 \<le> a \<and> a + len \<le> LM20_SAFE_RRAM_END))
    \<and> (\<forall>r \<in> set l. \<forall>q \<in> set l. fst r \<noteq> fst q \<longrightarrow> span r \<inter> span q = {})"
proof (intro conjI ballI impI)
  fix r assume r: "r \<in> set l"
  obtain n a len where "r = (n, a, len)" by (cases r)
  with r layout_from_symbols_regions(3) [OF assms, of n a len]
  show "case r of (n, a, len) \<Rightarrow> 0 < len \<and> (if n = ''ram'' then LM20_RAM0_ORIGIN \<le> a \<and> a + len \<le> LM20_RAM0_END
          else 0 \<le> a \<and> a + len \<le> LM20_SAFE_RRAM_END)" by simp
qed (rule layout_from_symbols_regions(2) [OF assms], rule layout_regions_disjoint [OF assms])

definition bench_symbols :: symbol_map where
  "bench_symbols =
     [(code_points_of ''__nrfkit_rram_start'', 0), (code_points_of ''__nrfkit_rram_end'', 0x1E0000),
      (code_points_of ''__nrfkit_ram_start'', 0x20000000), (code_points_of ''__nrfkit_ram_end'', 0x20040000),
      (code_points_of ''__nrfkit_settings_start'', 0x1E1800), (code_points_of ''__nrfkit_settings_end'', 0x1E3800)]"

lemma bench_symbols_layout:
  "layout_from_symbols bench_symbols = Inr [(''rram'', 0, 0x1E0000), (''ram'', 0x20000000, 0x40000), (''settings'', 0x1E1800, 0x2000)]"
  by (simp add: layout_from_symbols_def symbol_value_def bench_symbols_def code_points_of_def)

theorem layout_from_symbols_safe_witness:
  "span (''rram'', 0, 0x1E0000) \<inter> span (''settings'', 0x1E1800, 0x2000) = {}"
proof -
  have "(''rram'' :: string) \<noteq> ''settings''" by simp
  with layout_from_symbols_safe [OF bench_symbols_layout] show ?thesis by auto
qed

subsection \<open>What a manifest certifies\<close>

lemma device_manifest_inv:
  assumes "device_manifest digest loads fs project build_dir target token hci = Inr m"
  obtains elf_image hex_image symbols layout origin len ihex_sha lock_sha elf_sha extra
  where "safe_target target" "safe_token token"
    "parse_elf fs (path_join build_dir (target @ ''.elf'')) = Inr elf_image"
    "elf_layout_symbols fs (path_join build_dir (target @ ''.elf'')) = Inr symbols"
    "layout_from_symbols symbols = Inr layout" "map_of layout ''rram'' = Some (origin, len)"
    "parse_ihex fs (path_join build_dir (target @ ''.hex'')) = Inr hex_image"
    "require_allowed (ranges elf_image) [(origin, origin + len)] = Inr ()"
    "require_allowed (ranges hex_image) [(origin, origin + len)] = Inr ()"
    "sdk_merged (ranges elf_image) = sdk_merged (ranges hex_image)"
    "\<exists>e. entry elf_image = Some e \<and> list_ex (\<lambda>(a, b). a \<le> e \<and> e < b) (ranges elf_image)"
    "sha256 digest fs (path_join build_dir (target @ ''.hex'')) = Inr ihex_sha"
    "sha256 digest fs (path_join build_dir (target @ ''.elf'')) = Inr elf_sha"
    "m = JObj (manifest_fields target token (path_join build_dir (target @ ''.elf'')) (path_join build_dir (target @ ''.hex''))
       elf_image hex_image symbols (ranges_json [(origin, origin + len)]) ihex_sha lock_sha elf_sha @ extra)"
    "extra = [] \<or> (\<exists>e. extra = [(''hci_transport'', JObj [(''type'', JStr ''H4''), (''baud'', JInt 1000000),
       (''hardware_flow_control'', JBool True)]), (''build_evidence'', e)])"
    "sha256 digest fs (path_join project ''docs/provenance/sources.lock'') = Inr lock_sha"
    "if hci then \<exists>evidence. sdc_evidence digest loads fs (path_join build_dir (target @ ''.map''))
         (path_join project ''docs/provenance/m6-sdc-mpsl-contract.json'') (path_join build_dir (target @ ''.elf'')) layout = Inr evidence
       \<and> map_of extra ''build_evidence'' = Some evidence else extra = []"
proof -
  define elf ihex where "elf = path_join build_dir (target @ ''.elf'')" and "ihex = path_join build_dir (target @ ''.hex'')"
  note run = assms [unfolded device_manifest_def Let_def elf_def [symmetric] ihex_def [symmetric]]
  have safe: "safe_target target" "safe_token token" using run by (auto split: if_splits)
  from run safe obtain elf_image symbols layout r hex_image where
    p: "parse_elf fs elf = Inr elf_image" "elf_layout_symbols fs elf = Inr symbols"
      "layout_from_symbols symbols = Inr layout" "region layout ''rram'' = Inr r" "parse_ihex fs ihex = Inr hex_image"
    by (auto simp: result_simps split: if_splits)
  obtain origin len where r: "r = (origin, len)" by (cases r)
  have rram: "map_of layout ''rram'' = Some (origin, len)"
    using p(4) r by (auto simp: region_def split: option.splits)
  from run safe p r have g: "require_allowed (ranges elf_image) [(origin, origin + len)] = Inr ()"
    "require_allowed (ranges hex_image) [(origin, origin + len)] = Inr ()"
    "sdk_merged (ranges elf_image) = sdk_merged (ranges hex_image)"
    by (auto simp: result_simps split: if_splits)
  let ?bad = "case entry elf_image of None \<Rightarrow> True | Some e \<Rightarrow> \<not> list_ex (\<lambda>(a, b). a \<le> e \<and> e < b) (ranges elf_image)"
  from run safe p r g have "\<not> ?bad" by (auto simp: result_simps split: if_splits)
  then have e: "\<exists>e. entry elf_image = Some e \<and> list_ex (\<lambda>(a, b). a \<le> e \<and> e < b) (ranges elf_image)"
    by (auto split: option.splits)
  from run safe p r g \<open>\<not> ?bad\<close> obtain ihex_sha lock_sha elf_sha extra where
    h: "sha256 digest fs ihex = Inr ihex_sha" "sha256 digest fs elf = Inr elf_sha"
      "m = JObj (manifest_fields target token elf ihex elf_image hex_image symbols (ranges_json [(origin, origin + len)])
         ihex_sha lock_sha elf_sha @ extra)"
      "extra = [] \<or> (\<exists>e. extra = [(''hci_transport'', JObj [(''type'', JStr ''H4''), (''baud'', JInt 1000000),
       (''hardware_flow_control'', JBool True)]), (''build_evidence'', e)])"
      "sha256 digest fs (path_join project ''docs/provenance/sources.lock'') = Inr lock_sha"
      "if hci then \<exists>evidence. sdc_evidence digest loads fs (path_join build_dir (target @ ''.map''))
         (path_join project ''docs/provenance/m6-sdc-mpsl-contract.json'') elf layout = Inr evidence
       \<and> map_of extra ''build_evidence'' = Some evidence else extra = []"
    by (cases hci) (fastforce simp: result_simps split: if_splits)+
  from that [folded elf_def ihex_def, OF safe p(1-3) rram p(5) g e h] show thesis .
qed

lemma require_allowed_nonempty: "require_allowed rs allowed = Inr () \<Longrightarrow> nonempty_ranges rs"
  by (auto simp: require_allowed_all range_allowed_def nonempty_ranges_def list_all_iff)

text \<open>The fields of a manifest by their names.\<close>

lemma manifest_fields_named:
  fixes target token elf ihex elf_image hex_image symbols allowlist ihex_sha lock_sha elf_sha extra and fields :: "(string \<times> json) list"
  defines "fields \<equiv> manifest_fields target token elf ihex elf_image hex_image symbols allowlist ihex_sha lock_sha elf_sha @ extra"
  shows "map_of fields ''images'' = Some (JList [JObj [(''domain'', JStr target), (''order'', JInt 0), (''path'', JStr ihex),
        (''sha256'', JStr ihex_sha), (''ranges'', ranges_json (ranges hex_image)), (''allowlist'', allowlist)]])"
    and "map_of fields ''debug_elf'' = Some (JObj [(''path'', JStr elf), (''sha256'', JStr elf_sha),
        (''entry'', case entry elf_image of None \<Rightarrow> JNull | Some e \<Rightarrow> JInt e), (''ranges'', ranges_json (ranges elf_image))])"
    and "map_of fields ''image_layout'' = Some (JObj [(''source'', JStr ''elf-symbols''), (''path'', JStr elf),
        (''sha256'', JStr elf_sha), (''symbols'', symbols_json symbols)])"
    and "map_of fields ''source_receipt_sha256'' = Some (JStr lock_sha)"
    and "map_of fields ''expected_token'' = Some (JStr token)"
    and "map_of fields ''debug_allowlist'' = Some allowlist"
    and "map_of fields ''build_evidence'' = map_of extra ''build_evidence''"
  by (simp_all add: fields_def manifest_fields_def)

lemma sha256_Inr: "sha256 digest fs p = Inr h \<longleftrightarrow> (\<exists>data. fs p = Some data \<and> h = digest data)"
  by (auto simp: sha256_def split: option.splits)

text \<open>
  C23. What a device manifest certifies. It names the build's HEX file as its one image, with the digest of that file's bytes, the
  ranges parsed from it and its allowlist; the build's ELF file as its debug image, with its digest, entry point and ranges, and as the source of
  the layout symbols; and the digest of the source lock. The ELF and the HEX file occupy the same addresses; all of
  them lie in the RRAM region the ELF declares, which is the manifest's allowlist, and outside every
  forbidden region; the entry point is one of them; and none of them is in the settings or
  scratch region of the layout. A Controller build's manifest carries the evidence audited for it, and no other manifest carries any.
\<close>

theorem device_manifest_sound:
  assumes "device_manifest digest loads fs project build_dir target token hci = Inr m"
  shows "\<exists>fields elf hex lock elf_image hex_image symbols layout origin len e. m = JObj fields
    \<and> fs (path_join build_dir (target @ ''.elf'')) = Some elf \<and> fs (path_join build_dir (target @ ''.hex'')) = Some hex
    \<and> fs (path_join project ''docs/provenance/sources.lock'') = Some lock
    \<and> parse_elf fs (path_join build_dir (target @ ''.elf'')) = Inr elf_image
    \<and> parse_ihex fs (path_join build_dir (target @ ''.hex'')) = Inr hex_image
    \<and> elf_layout_symbols fs (path_join build_dir (target @ ''.elf'')) = Inr symbols
    \<and> layout_from_symbols symbols = Inr layout \<and> map_of layout ''rram'' = Some (origin, len)
    \<and> map_of fields ''images'' = Some (JList [JObj
        [(''domain'', JStr target), (''order'', JInt 0), (''path'', JStr (path_join build_dir (target @ ''.hex''))),
         (''sha256'', JStr (digest hex)), (''ranges'', ranges_json (ranges hex_image)),
         (''allowlist'', ranges_json [(origin, origin + len)])]])
    \<and> map_of fields ''debug_elf'' = Some (JObj
        [(''path'', JStr (path_join build_dir (target @ ''.elf''))), (''sha256'', JStr (digest elf)),
         (''entry'', JInt e), (''ranges'', ranges_json (ranges elf_image))])
    \<and> map_of fields ''image_layout'' = Some (JObj
        [(''source'', JStr ''elf-symbols''), (''path'', JStr (path_join build_dir (target @ ''.elf''))),
         (''sha256'', JStr (digest elf)), (''symbols'', symbols_json symbols)])
    \<and> map_of fields ''source_receipt_sha256'' = Some (JStr (digest lock))
    \<and> map_of fields ''expected_token'' = Some (JStr token)
    \<and> map_of fields ''debug_allowlist'' = Some (ranges_json [(origin, origin + len)])
    \<and> (if hci then \<exists>evidence. map_of fields ''build_evidence'' = Some evidence
         \<and> sdc_evidence digest loads fs (path_join build_dir (target @ ''.map''))
             (path_join project ''docs/provenance/m6-sdc-mpsl-contract.json'') (path_join build_dir (target @ ''.elf'')) layout = Inr evidence
       else map_of fields ''build_evidence'' = None)
    \<and> covers (ranges elf_image) = covers (ranges hex_image)
    \<and> covers (ranges hex_image) \<subseteq> {origin..<origin + len}
    \<and> (\<forall>x \<in> covers (ranges hex_image). \<forall>(a, b, l) \<in> set FORBIDDEN_RANGES. \<not> (a \<le> x \<and> x < b))
    \<and> entry elf_image = Some e \<and> e \<in> covers (ranges hex_image)
    \<and> (\<forall>r \<in> set layout. fst r \<noteq> ''rram'' \<longrightarrow> span r \<inter> covers (ranges hex_image) = {})"
  using assms
proof (rule device_manifest_inv)
  fix elf_image hex_image symbols layout origin len ihex_sha lock_sha elf_sha extra
  assume parsed: "parse_elf fs (path_join build_dir (target @ ''.elf'')) = Inr elf_image"
      "elf_layout_symbols fs (path_join build_dir (target @ ''.elf'')) = Inr symbols"
      "parse_ihex fs (path_join build_dir (target @ ''.hex'')) = Inr hex_image"
    and layout: "layout_from_symbols symbols = Inr layout" "map_of layout ''rram'' = Some (origin, len)"
    and ok: "require_allowed (ranges elf_image) [(origin, origin + len)] = Inr ()"
      "require_allowed (ranges hex_image) [(origin, origin + len)] = Inr ()"
      "sdk_merged (ranges elf_image) = sdk_merged (ranges hex_image)"
      "\<exists>e. entry elf_image = Some e \<and> list_ex (\<lambda>(a, b). a \<le> e \<and> e < b) (ranges elf_image)"
    and m: "m = JObj (manifest_fields target token (path_join build_dir (target @ ''.elf'')) (path_join build_dir (target @ ''.hex''))
       elf_image hex_image symbols (ranges_json [(origin, origin + len)]) ihex_sha lock_sha elf_sha @ extra)"
    and shas: "sha256 digest fs (path_join build_dir (target @ ''.hex'')) = Inr ihex_sha"
      "sha256 digest fs (path_join build_dir (target @ ''.elf'')) = Inr elf_sha"
      "sha256 digest fs (path_join project ''docs/provenance/sources.lock'') = Inr lock_sha"
    and evidence: "if hci then \<exists>evidence. sdc_evidence digest loads fs (path_join build_dir (target @ ''.map''))
         (path_join project ''docs/provenance/m6-sdc-mpsl-contract.json'') (path_join build_dir (target @ ''.elf'')) layout = Inr evidence
       \<and> map_of extra ''build_evidence'' = Some evidence else extra = []"
  define fields where "fields = manifest_fields target token (path_join build_dir (target @ ''.elf''))
    (path_join build_dir (target @ ''.hex'')) elf_image hex_image symbols (ranges_json [(origin, origin + len)])
    ihex_sha lock_sha elf_sha @ extra"
  have m': "m = JObj fields" using m by (simp only: fields_def)
  have same: "covers (ranges elf_image) = covers (ranges hex_image)"
    using ok(3) sdk_ranges.norm_eq_iff require_allowed_nonempty ok(1,2) by blast
  have inside: "covers (ranges hex_image) \<subseteq> {origin..<origin + len}"
    using require_allowed_covers [OF ok(2)] by fastforce
  from ok(4) obtain e a b where e: "entry elf_image = Some e" and "(a, b) \<in> set (ranges elf_image)" "a \<le> e" "e < b"
    by (auto simp: list_ex_iff)
  then have start: "e \<in> covers (ranges hex_image)" using same covers_memI by blast
  from shas obtain hex elf lock where there: "fs (path_join build_dir (target @ ''.elf'')) = Some elf"
      "fs (path_join build_dir (target @ ''.hex'')) = Some hex" "fs (path_join project ''docs/provenance/sources.lock'') = Some lock"
    and digests: "ihex_sha = digest hex" "elf_sha = digest elf" "lock_sha = digest lock"
    unfolding sha256_Inr by blast
  have kept: "\<forall>r \<in> set layout. fst r \<noteq> ''rram'' \<longrightarrow> span r \<inter> covers (ranges hex_image) = {}"
  proof (intro ballI impI)
    fix r assume r: "r \<in> set layout" "fst r \<noteq> ''rram''"
    have "(''rram'', origin, len) \<in> set layout" using layout(2) by (rule map_of_SomeD)
    from layout_regions_disjoint [OF layout(1) r(1) this] r(2)
    have "span r \<inter> {origin..<origin + len} = {}" by (simp add: span_def)
    with inside show "span r \<inter> covers (ranges hex_image) = {}" by blast
  qed
  note named = manifest_fields_named [of target token "path_join build_dir (target @ ''.elf'')" "path_join build_dir (target @ ''.hex'')"
      elf_image hex_image symbols "ranges_json [(origin, origin + len)]" ihex_sha lock_sha elf_sha extra, folded fields_def,
      unfolded digests e option.case]
  note named(7)
  with evidence have built: "if hci then \<exists>evidence. map_of fields ''build_evidence'' = Some evidence
         \<and> sdc_evidence digest loads fs (path_join build_dir (target @ ''.map''))
             (path_join project ''docs/provenance/m6-sdc-mpsl-contract.json'') (path_join build_dir (target @ ''.elf'')) layout = Inr evidence
       else map_of fields ''build_evidence'' = None"
    by (auto split: if_splits)
  have forbidden: "\<forall>x \<in> covers (ranges hex_image). \<forall>(a, b, l) \<in> set FORBIDDEN_RANGES. \<not> (a \<le> x \<and> x < b)"
    using require_allowed_covers [OF ok(2)] by blast
  show ?thesis
    by (intro exI [of _ fields] exI [of _ elf] exI [of _ hex] exI [of _ lock] exI [of _ elf_image] exI [of _ hex_image]
        exI [of _ symbols] exI [of _ layout] exI [of _ origin] exI [of _ len] exI [of _ e] conjI m' there
        parsed layout named(1-6) built same inside forbidden e start kept)
qed

text \<open>A small build for the witnesses: one segment, the four layout symbols, the matching HEX.\<close>

definition bench_elf :: bytes where
  "bench_elf =
     [
      0x7F, 0x45, 0x4C, 0x46, 1, 1, 1, 0, 0, 0, 0, 0, 0, 0, 0, 0, 2, 0, 0x28, 0, 1, 0, 0, 0,
      1, 1, 0, 0, 0x34, 0, 0, 0, 0xE3, 0, 0, 0, 0, 0, 0, 0, 0x34, 0, 0x20, 0, 1, 0, 0x28, 0,
      2, 0, 0, 0, 1, 0, 0, 0, 0x54, 0, 0, 0, 0, 1, 0, 0, 0, 1, 0, 0, 4, 0, 0, 0,
      4, 0, 0, 0, 5, 0, 0, 0, 4, 0, 0, 0, 0xAA, 0xBB, 0xCC, 0xDD, 1, 0, 0, 0, 0, 0, 0, 0,
      0, 0, 0, 0, 0x10, 0, 0xF1, 0xFF, 0x15, 0, 0, 0, 0, 0xD0, 0x1F, 0, 0, 0, 0, 0, 0x10, 0, 0xF1, 0xFF,
      0x27, 0, 0, 0, 0, 0, 0, 0x20, 0, 0, 0, 0, 0x10, 0, 0xF1, 0xFF, 0x3A, 0, 0, 0, 0, 0, 4, 0x20,
      0, 0, 0, 0, 0x10, 0, 0xF1, 0xFF, 0, 0x5F, 0x5F, 0x6E, 0x72, 0x66, 0x6B, 0x69, 0x74, 0x5F, 0x72, 0x72, 0x61, 0x6D, 0x5F, 0x73,
      0x74, 0x61, 0x72, 0x74, 0, 0x5F, 0x5F, 0x6E, 0x72, 0x66, 0x6B, 0x69, 0x74, 0x5F, 0x72, 0x72, 0x61, 0x6D, 0x5F, 0x65, 0x6E, 0x64, 0, 0x5F,
      0x5F, 0x6E, 0x72, 0x66, 0x6B, 0x69, 0x74, 0x5F, 0x72, 0x61, 0x6D, 0x5F, 0x73, 0x74, 0x61, 0x72, 0x74, 0, 0x5F, 0x5F, 0x6E, 0x72, 0x66, 0x6B,
      0x69, 0x74, 0x5F, 0x72, 0x61, 0x6D, 0x5F, 0x65, 0x6E, 0x64, 0, 0, 0, 0, 0, 2, 0, 0, 0, 0, 0, 0, 0, 0,
      0, 0, 0, 0x58, 0, 0, 0, 0x40, 0, 0, 0, 1, 0, 0, 0, 0, 0, 0, 0, 4, 0, 0, 0, 0x10,
      0, 0, 0, 0, 0, 0, 0, 3, 0, 0, 0, 0, 0, 0, 0, 0, 0, 0, 0, 0x98, 0, 0, 0, 0x4B,
      0, 0, 0, 0, 0, 0, 0, 0, 0, 0, 0, 1, 0, 0, 0, 0, 0, 0, 0]"

definition bench_build :: filesystem where
  "bench_build p =
     (if p = ''/b/app.elf'' then Some bench_elf
      else if p = ''/b/app.hex'' then Some (ascii_encode (unlines ['':04010000AABBCCDDED'', '':00000001FF'']))
      else Some [])"

lemma bench_elf_parsed:
  "parse_elf bench_build ''/b/app.elf'' = Inr \<lparr>image_path = ''/b/app.elf'', ranges = [(0x100, 0x104)], entry = Some 0x101\<rparr>"
  by (simp add: parse_elf_def bench_build_def bench_elf_def unpack_from_def ELF32_HEADER_def ELF32_PROGRAM_def
      load_fields_def Let_def cong: bindR_weak_cong)

lemma bench_elf_symbols:
  "elf_layout_symbols bench_build ''/b/app.elf'' = Inr
     [(code_points_of ''__nrfkit_rram_start'', 0), (code_points_of ''__nrfkit_rram_end'', 0x1FD000),
      (code_points_of ''__nrfkit_ram_start'', 0x20000000), (code_points_of ''__nrfkit_ram_end'', 0x20040000)]"
  by (simp add: elf_layout_symbols_def parse_elf_absolute_symbols_def bench_build_def bench_elf_def unpack_from_def ELF32_HEADER_def
      ELF32_SECTION_def ELF32_SYMBOL_def Let_def symbol_section_def symbol_name_def code_points_of_def
      py_slice_def unpack_table_numeral cong: bindR_weak_cong)

lemma bench_hex_parsed:
  "parse_ihex bench_build ''/b/app.hex'' = Inr \<lparr>image_path = ''/b/app.hex'', ranges = [(0x100, 0x104)], entry = None\<rparr>"
proof -
  have "ihex_text bench_build ''/b/app.hex'' = Inr ['':04010000AABBCCDDED'', '':00000001FF'']"
    by (rule ihex_text_unlines) (auto simp: bench_build_def plain_line_def)
  then show ?thesis
    by (simp add: parse_ihex_def ihex_init_def ihex_line_def ihex_record_def hex_value_def ascii_space_def
        py_slice_def image_ranges_def cong: bindR_weak_cong)
qed

definition bench_layout :: layout where
  "bench_layout = [(''rram'', 0, 0x1FD000), (''ram'', 0x20000000, 0x40000)]"

lemma bench_layout_read:
  "layout_from_symbols
     [(code_points_of ''__nrfkit_rram_start'', 0), (code_points_of ''__nrfkit_rram_end'', 0x1FD000),
      (code_points_of ''__nrfkit_ram_start'', 0x20000000), (code_points_of ''__nrfkit_ram_end'', 0x20040000)] = Inr bench_layout"
  by (simp add: layout_from_symbols_def symbol_value_def bench_layout_def code_points_of_def)

lemma bench_manifest:
  "\<exists>m. device_manifest digest loads bench_build ''/p'' ''/b'' ''app'' ''ready'' False = Inr m"
proof -
  have paths: "path_join ''/b'' (''app'' @ ''.elf'') = ''/b/app.elf''" "path_join ''/b'' (''app'' @ ''.hex'') = ''/b/app.hex''"
    by (simp_all add: path_join_def)
  have safe: "safe_target ''app''" "safe_token ''ready''" by (simp_all add: safe_target_def safe_token_def)
  have there: "bench_build ''/b/app.elf'' \<noteq> None" "bench_build ''/b/app.hex'' \<noteq> None"
    "bench_build (path_join ''/p'' ''docs/provenance/sources.lock'') \<noteq> None" by (simp_all add: bench_build_def)
  have allowed: "require_allowed [(0x100, 0x104)] [(0, 0 + 0x1FD000)] = Inr ()" by (simp add: FORBIDDEN_RANGES_def)
  have rram: "region bench_layout ''rram'' = Inr (0, 0x1FD000)" by (simp add: region_def bench_layout_def)
  obtain a b c where sha: "sha256 digest bench_build ''/b/app.elf'' = Inr a" "sha256 digest bench_build ''/b/app.hex'' = Inr b"
    "sha256 digest bench_build (path_join ''/p'' ''docs/provenance/sources.lock'') = Inr c"
    using there by (auto simp: sha256_def)
  show ?thesis
    unfolding device_manifest_def Let_def paths
    using safe there allowed rram sha bench_elf_parsed bench_elf_symbols bench_layout_read bench_hex_parsed
    by (simp del: require_allowed.simps)
qed

theorem device_manifest_sound_witness:
  "\<exists>fields allowlist. device_manifest (\<lambda>_. []) (\<lambda>_. None) bench_build ''/p'' ''/b'' ''app'' ''ready'' False = Inr (JObj fields)
    \<and> map_of fields ''images'' = Some (JList [JObj [(''domain'', JStr ''app''), (''order'', JInt 0), (''path'', JStr ''/b/app.hex''),
        (''sha256'', JStr []), (''ranges'', ranges_json [(0x100, 0x104)]), (''allowlist'', allowlist)]])"
proof -
  obtain m where m: "device_manifest (\<lambda>_. []) (\<lambda>_. None) bench_build ''/p'' ''/b'' ''app'' ''ready'' False = Inr m"
    using bench_manifest by blast
  have paths: "path_join ''/b'' (''app'' @ ''.elf'') = ''/b/app.elf''" "path_join ''/b'' (''app'' @ ''.hex'') = ''/b/app.hex''"
    by (simp_all add: path_join_def)
  from device_manifest_sound [OF m, unfolded paths] obtain fields hex_image origin len where
    f: "m = JObj fields" "parse_ihex bench_build ''/b/app.hex'' = Inr hex_image"
      "map_of fields ''images'' = Some (JList [JObj [(''domain'', JStr ''app''), (''order'', JInt 0), (''path'', JStr ''/b/app.hex''),
        (''sha256'', JStr []), (''ranges'', ranges_json (ranges hex_image)), (''allowlist'', ranges_json [(origin, origin + len)])]])"
    by (elim exE conjE) blast
  from f(2) have "ranges hex_image = [(0x100, 0x104)]" by (auto simp: bench_hex_parsed)
  with m f(1,3) show ?thesis by (metis (no_types))
qed

end
