(* ===== verification/Manifest_Correct.thy ===== *)
theory Manifest_Correct
  imports Manifest Sdk_Correct
begin

section \<open>Correctness of manifest loading\<close>

text \<open>
  The guard on a JSON allowlist agrees with the guard on ranges and admits only ranges some
  entry contains; a loaded manifest describes the files it names; a manifest the SDK
  produced is accepted; and programming snapshots are the audited images.
\<close>

subsection \<open>The guard on JSON allowlists\<close>

lemma any_allows_ints:
  "any_allows start stop (map (\<lambda>(a, b). [JInt a, JInt b]) allowed)
     = Inr (list_ex (\<lambda>(a, b). a \<le> start \<and> stop \<le> b) allowed)"
  by (induction allowed) (auto split: prod.splits)

lemma require_allowed_json_ints:
  "require_allowed_json rs (map (\<lambda>(a, b). [JInt a, JInt b]) allowed) = mapE ToolImage (require_allowed rs allowed)"
  by (induction rs allowed rule: require_allowed.induct) (auto simp: any_allows_ints split: option.splits)

text \<open>An entry of a JSON allowlist that contains a range.\<close>

definition entry_allows :: "addr_range \<Rightarrow> json list \<Rightarrow> bool" where
  "entry_allows r e \<longleftrightarrow> (\<exists>a b x y. e = [a, b] \<and> jnum a = Some x \<and> jnum b = Some y
     \<and> x \<le> of_int (fst r) \<and> of_int (snd r) \<le> y)"

definition json_allowed :: "json list list \<Rightarrow> addr_range \<Rightarrow> bool" where
  "json_allowed allowed r \<longleftrightarrow> 0 \<le> fst r \<and> fst r < snd r \<and> snd r \<le> ADDRESS_LIMIT
     \<and> (\<forall>(a, b, l) \<in> set FORBIDDEN_RANGES. snd r \<le> a \<or> b \<le> fst r)
     \<and> (\<exists>e \<in> set allowed. entry_allows r e)"

lemma any_allows_True: "any_allows start stop es = Inr True \<Longrightarrow> \<exists>e \<in> set es. entry_allows (start, stop) e"
proof (induction es)
  case (Cons e es)
  from Cons.prems obtain a b x where e: "e = [a, b]" "jnum a = Some x"
    by (auto split: list.splits option.splits)
  show ?case
  proof (cases "\<exists>y. x \<le> of_int start \<and> jnum b = Some y \<and> of_int stop \<le> y")
    case True
    with e show ?thesis by (auto simp: entry_allows_def)
  next
    case False
    with Cons.prems e have "any_allows start stop es = Inr True" by (auto split: if_splits option.splits)
    with Cons.IH show ?thesis by auto
  qed
qed simp

lemma require_allowed_json_sound:
  "require_allowed_json rs allowed = Inr () \<Longrightarrow> \<forall>r \<in> set rs. json_allowed allowed r"
proof (induction rs allowed rule: require_allowed_json.induct)
  case (2 start stop rest allowed)
  from "2.prems" have b: "0 \<le> start" "start < stop" "stop \<le> ADDRESS_LIMIT" by (auto split: if_splits)
  with "2.prems" have f: "forbidden_label (start, stop) FORBIDDEN_RANGES = None"
    by (auto split: option.splits)
  with "2.prems" b have a: "any_allows start stop allowed = Inr True" "require_allowed_json rest allowed = Inr ()"
    by (auto simp: result_simps split: if_splits)
  have "\<forall>r \<in> set rest. json_allowed allowed r" using "2.IH" b f a by simp
  moreover have "json_allowed allowed (start, stop)"
    using b f any_allows_True [OF a(1)] unfolding json_allowed_def forbidden_label_None by (auto simp: not_less)
  ultimately show ?case by simp
qed simp

subsection \<open>Artifacts\<close>

text \<open>What the loader has established about one artifact.\<close>

definition audited ::
  "(bytes \<Rightarrow> string) \<Rightarrow> filesystem \<Rightarrow> (filesystem \<Rightarrow> path \<Rightarrow> image_error + parsed_image) \<Rightarrow> json \<Rightarrow> json \<Rightarrow> bool" where
  "audited digest fs parser artifact allowlist \<longleftrightarrow>
     (\<exists>kvs p content img entries allowed declared. artifact = JObj kvs
        \<and> map_of kvs ''path'' = Some (JStr p) \<and> is_absolute p \<and> fs p = Some content
        \<and> map_of kvs ''sha256'' = Some (JStr (digest content)) \<and> parser fs p = Inr img
        \<and> (\<forall>e. entry img = Some e \<longrightarrow> py_eq (case map_of kvs ''entry'' of Some v \<Rightarrow> v | None \<Rightarrow> JNull) (JInt e))
        \<and> map_of kvs ''ranges'' = Some declared \<and> py_eq (ranges_json (ranges img)) declared
        \<and> allowlist = JList entries \<and> mapR jiter entries = Inr allowed
        \<and> (\<forall>r \<in> set (ranges img). json_allowed allowed r))"

lemma check_artifact_audited:
  assumes "check_artifact digest fs artifact parser allowlist = Inr ()"
  shows "audited digest fs parser artifact allowlist"
proof -
  note run = assms [unfolded check_artifact_def]
  from run obtain kvs p where a: "artifact = JObj kvs" "map_of kvs ''path'' = Some (JStr p)" "is_absolute p"
    by (auto simp: result_simps split: if_splits)
  note run = run [unfolded a(1) jitem.simps a(2) option.case bindR.simps jstr.simps mapE.simps]
  from run a(3) obtain content where c: "fs p = Some content" "map_of kvs ''sha256'' = Some (JStr (digest content))"
    by (auto simp: result_simps sha256_def split: if_splits option.splits)
  have h: "sha256 digest fs p = Inr (digest content)" by (simp add: sha256_def c(1))
  from run a(3) h c(2) obtain img where img: "parser fs p = Inr img" by (auto simp: result_simps)
  from run a(3) h c(2) img obtain entries allowed where l: "allowlist = JList entries" "entries \<noteq> []"
    "mapR jiter entries = Inr allowed" "require_allowed_json (ranges img) allowed = Inr ()"
    by (auto simp: result_simps split: option.splits)
  define e where "e = (case map_of kvs ''entry'' of Some v \<Rightarrow> v | None \<Rightarrow> JNull)"
  have get: "jget artifact ''entry'' JNull = Inr e" by (simp add: a(1) e_def)
  from run a h c(2) img l obtain declared where d: "map_of kvs ''ranges'' = Some declared"
    "py_eq (ranges_json (ranges img)) declared"
    by (auto simp: result_simps simp del: jget.simps split: if_splits option.splits)
  have "py_eq e (JInt n)" if "entry img = Some n" for n
    using run a h c(2) img l get that by (auto simp: result_simps simp del: jget.simps split: if_splits)
  with a c img d l(1,3) require_allowed_json_sound [OF l(4)] show ?thesis
    unfolding audited_def e_def by blast
qed

definition item_allowlist :: "json \<Rightarrow> json" where
  "item_allowlist item = (case item of JObj kvs \<Rightarrow> (case map_of kvs ''allowlist'' of Some v \<Rightarrow> v | None \<Rightarrow> JNull) | _ \<Rightarrow> JNull)"

definition item_order :: "json \<Rightarrow> json" where
  "item_order item = (case item of JObj kvs \<Rightarrow> (case map_of kvs ''order'' of Some v \<Rightarrow> v | None \<Rightarrow> JNull) | _ \<Rightarrow> JNull)"

lemma mapR_jget_allowlist: "mapR (\<lambda>item. jget item ''allowlist'' JNull) items = Inr as \<Longrightarrow> as = map item_allowlist items"
proof (induction items arbitrary: as)
  case (Cons i items)
  then show ?case by (cases i) (auto simp: result_simps item_allowlist_def)
qed simp

lemma mapR_jget_order: "mapR (\<lambda>item. jget item ''order'' JNull) items = Inr os \<Longrightarrow> os = map item_order items"
proof (induction items arbitrary: os)
  case (Cons i items)
  then show ?case by (cases i) (auto simp: result_simps item_order_def)
qed simp

lemma check_artifacts_audited:
  assumes "check_artifacts digest fs (JObj kvs) = Inr ()"
  shows "\<exists>items d a. map_of kvs ''images'' = Some (JList items) \<and> items \<noteq> []
    \<and> (\<forall>i < length items. jnum (item_order (items ! i)) = Some (of_nat i)
         \<and> audited digest fs parse_ihex (items ! i) (item_allowlist (items ! i)))
    \<and> map_of kvs ''debug_elf'' = Some d \<and> map_of kvs ''debug_allowlist'' = Some a \<and> audited digest fs parse_elf d a"
proof -
  note run = assms [unfolded check_artifacts_def]
  from run obtain d a items where f: "map_of kvs ''debug_elf'' = Some d" "map_of kvs ''debug_allowlist'' = Some a"
    "map_of kvs ''images'' = Some (JList items)" "items \<noteq> []"
    by (auto simp: result_simps split: option.splits)
  from run f obtain os as where
    o': "mapR (\<lambda>item. jget item ''order'' JNull) items = Inr os"
      "py_eq (JList os) (JList (map (JInt \<circ> int) [0..<length items]))"
    and as: "mapR (\<lambda>item. jget item ''allowlist'' JNull) items = Inr as"
    and elf: "check_artifact digest fs d parse_elf a = Inr ()"
    and hex: "forR (\<lambda>(item, allowlist). check_artifact digest fs item parse_ihex allowlist) (zip items as) = Inr ()"
    by (auto simp: result_simps split: if_splits)
  have os: "os = map item_order items" by (rule mapR_jget_order [OF o'(1)])
  have "jnum (item_order (items ! i)) = Some (of_nat i)
      \<and> audited digest fs parse_ihex (items ! i) (item_allowlist (items ! i))" if i: "i < length items" for i
  proof
    have "py_eq (item_order (items ! i)) (JInt (int i))"
      using o'(2) i list_all2_nthD [of py_eq os "map (JInt \<circ> int) [0..<length items]" i] by (simp add: os)
    then show "jnum (item_order (items ! i)) = Some (of_nat i)"
      by (cases "item_order (items ! i)") auto
    have "(items ! i, item_allowlist (items ! i)) \<in> set (zip items as)"
      using i by (auto simp: set_zip mapR_jget_allowlist [OF as])
    with hex show "audited digest fs parse_ihex (items ! i) (item_allowlist (items ! i))"
      by (intro check_artifact_audited) (auto simp: forR_Inr_iff)
  qed
  with f check_artifact_audited [OF elf] show ?thesis by blast
qed

lemma load_manifest_inv:
  assumes "load_manifest digest decode fs p artifacts = Inr v"
  obtains content kvs backend where "fs p = Some content" "decode content = Inr v" "v = JObj kvs"
    "map_of kvs ''schema'' = Some (JStr ''nrfkit-image/v1'')"
    "set MANIFEST_REQUIRED \<subseteq> fst ` set kvs" "fst ` set kvs \<subseteq> set MANIFEST_REQUIRED \<union> set MANIFEST_OPTIONAL"
    "map_of kvs ''backend'' = Some backend" "py_eq backend safe_backend_contract"
    "\<And>layout. map_of kvs ''image_layout'' = Some layout \<Longrightarrow> check_layout digest fs v layout = Inr ()"
    "artifacts \<Longrightarrow> check_artifacts digest fs v = Inr ()"
proof -
  note run = assms [unfolded load_manifest_def]
  from run obtain content j where c: "fs p = Some content" "decode content = Inr j"
    by (auto split: option.splits sum.splits bool.splits)
  note run = run [unfolded c option.case sum.case]
  from run obtain kvs where j: "j = JObj kvs" by (cases j) auto
  note run = run [unfolded j json.case jget.simps mapE.simps bindR.simps]
  from run have schema: "map_of kvs ''schema'' = Some (JStr ''nrfkit-image/v1'')"
    and keys: "set MANIFEST_REQUIRED \<subseteq> fst ` set kvs" "fst ` set kvs \<subseteq> set MANIFEST_REQUIRED \<union> set MANIFEST_OPTIONAL"
    by (auto split: if_splits option.splits)
  have ok: "(\<not> py_eq (case map_of kvs ''schema'' of None \<Rightarrow> JNull | Some v \<Rightarrow> v) (JStr ''nrfkit-image/v1'') \<or>
      \<not> set MANIFEST_REQUIRED \<subseteq> set (map fst kvs) \<or> \<not> set (map fst kvs) \<subseteq> set MANIFEST_REQUIRED \<union> set MANIFEST_OPTIONAL) = False"
    using schema keys by simp
  note run = run [unfolded ok if_False]
  from run obtain backend where b: "map_of kvs ''backend'' = Some backend" "py_eq backend safe_backend_contract"
    by (cases "map_of kvs ''backend''") (auto simp: result_simps split: if_splits)
  from run b have v: "v = JObj kvs" by (auto simp: result_simps split: if_splits)
  from run b have l: "check_layout digest fs v layout = Inr ()" if "map_of kvs ''image_layout'' = Some layout" for layout
    using that v by (auto simp: result_simps split: if_splits)
  from run b have "check_artifacts digest fs v = Inr ()" if artifacts
    using that v by (auto simp: result_simps split: if_splits)
  with that [of content kvs backend] c j v schema keys b l show thesis by blast
qed

text \<open>
  C24. A loaded manifest describes the files it names. Its images are numbered in programming
  order; each of them, and the debug ELF, exists at an absolute path, has the recorded digest,
  parses, has exactly the recorded ranges (and entry), and every range lies inside an entry of its allowlist,
  in the 32-bit address space and outside every forbidden region. The backend contract is the safe one.
\<close>

theorem load_manifest_sound:
  assumes "load_manifest digest decode fs p True = Inr v"
  shows "\<exists>kvs items d a backend. v = JObj kvs
    \<and> map_of kvs ''backend'' = Some backend \<and> py_eq backend safe_backend_contract
    \<and> map_of kvs ''images'' = Some (JList items) \<and> items \<noteq> []
    \<and> (\<forall>i < length items. jnum (item_order (items ! i)) = Some (of_nat i)
         \<and> audited digest fs parse_ihex (items ! i) (item_allowlist (items ! i)))
    \<and> map_of kvs ''debug_elf'' = Some d \<and> map_of kvs ''debug_allowlist'' = Some a \<and> audited digest fs parse_elf d a"
proof (rule load_manifest_inv [OF assms])
  fix kvs backend
  assume v: "v = JObj kvs" and b: "map_of kvs ''backend'' = Some backend" "py_eq backend safe_backend_contract"
    and c: "True \<Longrightarrow> check_artifacts digest fs v = Inr ()"
  from check_artifacts_audited [of digest fs kvs] c v
  obtain items d a where "map_of kvs ''images'' = Some (JList items)" "items \<noteq> []"
    "\<forall>i < length items. jnum (item_order (items ! i)) = Some (of_nat i)
         \<and> audited digest fs parse_ihex (items ! i) (item_allowlist (items ! i))"
    "map_of kvs ''debug_elf'' = Some d" "map_of kvs ''debug_allowlist'' = Some a" "audited digest fs parse_elf d a"
    by auto
  with v b show ?thesis by blast
qed

subsection \<open>Manifests the SDK wrote are accepted\<close>

lemma py_eq_ranges_json: "py_eq (ranges_json rs) (ranges_json rs)"
  by (simp add: ranges_json_def jint_pair_def list_all2_same)

lemma jiter_ranges: "mapR jiter (map jint_pair rs) = Inr (map (\<lambda>(a, b). [JInt a, JInt b]) rs)"
  by (induction rs) (auto simp: jint_pair_def)

lemma check_artifact_accepts:
  assumes "map_of kvs ''path'' = Some (JStr p)" and "is_absolute p" and "sha256 digest fs p = Inr h"
    and "map_of kvs ''sha256'' = Some (JStr h)" and "parser fs p = Inr img"
    and "require_allowed (ranges img) allowed = Inr ()" and "allowed \<noteq> []"
    and "map_of kvs ''ranges'' = Some (ranges_json (ranges img))"
    and "\<And>e. entry img = Some e \<Longrightarrow> map_of kvs ''entry'' = Some (JInt e)"
  shows "check_artifact digest fs (JObj kvs) parser (ranges_json allowed) = Inr ()"
proof -
  have n: "nonempty_list (ranges_json allowed) = Some (map jint_pair allowed)"
    using assms(7) by (simp add: ranges_json_def)
  have g: "require_allowed_json (ranges img) (map (\<lambda>(a, b). [JInt a, JInt b]) allowed) = Inr ()"
    using assms(6) by (simp add: require_allowed_json_ints)
  have e: "(case entry img of None \<Rightarrow> Inr False
      | Some e \<Rightarrow> bindR (mapE ToolPython (jget (JObj kvs) ''entry'' JNull)) (\<lambda>v. Inr (\<not> py_eq v (JInt e)))) = Inr False"
    using assms(9) by (cases "entry img") auto
  show ?thesis
    unfolding check_artifact_def n
    by (simp add: assms(1-5,8) jiter_ranges g e [simplified] py_eq_ranges_json)
qed

lemma symbols_json_wf:
  assumes "elf_layout_symbols fs p = Inr symbols"
  shows "json_wf (symbols_json symbols)"
proof -
  from assms obtain names data secs where "symbol_sections (code_points_of ` names) data secs secs [] = Inr symbols"
    unfolding elf_layout_symbols_def parse_elf_absolute_symbols_def Let_def set_map image_Un [symmetric]
    by (auto simp only: result_simps split: option.splits if_splits)
  then have "found_ok (code_points_of ` names) symbols"
    by (rule symbol_sections_found_ok [rotated]) (simp add: found_ok_def)
  then have d: "distinct (map fst symbols)" and k: "fst ` set symbols \<subseteq> code_points_of ` names"
    by (auto simp: found_ok_def)
  have "map char_of (code_points_of n) = n" for n by (simp add: code_points_of_def comp_def)
  with k have "inj_on (map char_of :: nat list \<Rightarrow> string) (fst ` set symbols)"
    by (intro inj_onI) (metis imageE subsetD)
  with d have "distinct (map (map char_of \<circ> fst) symbols)" by (simp add: distinct_map comp_inj_on)
  then show ?thesis by (auto simp: symbols_json_def list_all_iff case_prod_beta comp_def)
qed

lemma manifest_keys:
  "map fst (manifest_fields target token elf ihex elf_image hex_image symbols allowlist h1 h2 h3) =
     [''schema'', ''oracle'', ''source_receipt_sha256'', ''soc'', ''core'', ''board'', ''board_version'', ''device_family'',
      ''expected_token'', ''vcom'', ''backend'', ''image_layout'', ''debug_allowlist'', ''debug_elf'', ''images'']"
  by (simp add: manifest_fields_def)

lemma check_layout_accepts:
  assumes "is_absolute elf" and "sha256 digest fs elf = Inr h" and "elf_layout_symbols fs elf = Inr symbols"
    and "layout_from_symbols symbols = Inr layout" and "map_of layout ''rram'' = Some (origin, len)"
    and "map_of kvs ''debug_elf'' = Some (JObj dkvs)" and "map_of dkvs ''path'' = Some (JStr elf)"
    and "map_of dkvs ''sha256'' = Some (JStr h)"
    and "map_of kvs ''debug_allowlist'' = Some (ranges_json [(origin, origin + len)])"
    and "map_of kvs ''images'' = Some (JList [JObj ikvs])"
    and "map_of ikvs ''allowlist'' = Some (ranges_json [(origin, origin + len)])"
  shows "check_layout digest fs (JObj kvs) (JObj [(''source'', JStr ''elf-symbols''), (''path'', JStr elf),
                             (''sha256'', JStr h), (''symbols'', symbols_json symbols)]) = Inr ()"
proof -
  obtain data where d: "fs elf = Some data" "digest data = h"
    using assms(2) by (auto simp: sha256_def split: option.splits)
  have r: "bindR (read_elf_layout fs elf) (\<lambda>l. region l ''rram'') = Inr (origin, len)"
    using assms(3-5) by (simp add: read_elf_layout_def region_def)
  have s: "py_eq (symbols_json symbols) (symbols_json symbols)"
    using symbols_json_wf [OF assms(3)] by (rule py_eq_refl)
  show ?thesis
    unfolding check_layout_def
    by (simp add: assms(1,3,6-11) d r s py_eq_ranges_json orR_def insert_commute del: py_eq.simps(1,2))
qed

lemma manifest_lookups:
  fixes target token elf ihex elf_image hex_image symbols allowlist h1 h2 h3 extra
  defines "kvs \<equiv> manifest_fields target token elf ihex elf_image hex_image symbols allowlist h1 h2 h3 @ extra"
  shows "map_of kvs ''schema'' = Some (JStr ''nrfkit-image/v1'')" "map_of kvs ''backend'' = Some safe_backend_contract"
    "map_of kvs ''debug_allowlist'' = Some allowlist"
    "map_of kvs ''image_layout'' = Some (JObj [(''source'', JStr ''elf-symbols''), (''path'', JStr elf),
                             (''sha256'', JStr h3), (''symbols'', symbols_json symbols)])"
    "map_of kvs ''debug_elf'' = Some (JObj [(''path'', JStr elf), (''sha256'', JStr h3),
                          (''entry'', case entry elf_image of None \<Rightarrow> JNull | Some e \<Rightarrow> JInt e),
                          (''ranges'', ranges_json (ranges elf_image))])"
    "map_of kvs ''images'' = Some (JList [JObj [(''domain'', JStr target), (''order'', JInt 0), (''path'', JStr ihex),
                              (''sha256'', JStr h1), (''ranges'', ranges_json (ranges hex_image)),
                              (''allowlist'', allowlist)]])"
  by (simp_all add: kvs_def manifest_fields_def)

lemma parse_ihex_entry: "parse_ihex fs p = Inr img \<Longrightarrow> entry img = None"
  by (auto simp: parse_ihex_def result_simps split: if_splits)

lemma backend_eq: "py_eq safe_backend_contract safe_backend_contract"
  by (rule py_eq_refl) (simp add: safe_backend_contract_def SAFE_PROGRAM_OPTIONS_def)

lemma sdk_manifest_loads:
  assumes "device_manifest digest loads fs project build_dir target token hci = Inr m"
    and "is_absolute build_dir" and "fs p = Some content" and "decode content = Inr m"
  shows "load_manifest digest decode fs p True = Inr m"
  using assms(1)
proof (rule device_manifest_inv)
  fix elf_image hex_image symbols layout origin len ihex_sha lock_sha elf_sha extra
  define elf ihex where "elf = path_join build_dir (target @ ''.elf'')" and "ihex = path_join build_dir (target @ ''.hex'')"
  assume "parse_elf fs (path_join build_dir (target @ ''.elf'')) = Inr elf_image"
    "elf_layout_symbols fs (path_join build_dir (target @ ''.elf'')) = Inr symbols"
    "parse_ihex fs (path_join build_dir (target @ ''.hex'')) = Inr hex_image"
    "sha256 digest fs (path_join build_dir (target @ ''.hex'')) = Inr ihex_sha"
    "sha256 digest fs (path_join build_dir (target @ ''.elf'')) = Inr elf_sha"
  then have parsed: "parse_elf fs elf = Inr elf_image" "elf_layout_symbols fs elf = Inr symbols" "parse_ihex fs ihex = Inr hex_image"
    "sha256 digest fs ihex = Inr ihex_sha" "sha256 digest fs elf = Inr elf_sha" by (simp_all only: elf_def ihex_def)
  assume layout: "layout_from_symbols symbols = Inr layout" "map_of layout ''rram'' = Some (origin, len)"
  assume ok: "require_allowed (ranges elf_image) [(origin, origin + len)] = Inr ()"
    "require_allowed (ranges hex_image) [(origin, origin + len)] = Inr ()"
  define fields where "fields = manifest_fields target token elf ihex elf_image hex_image symbols
    (ranges_json [(origin, origin + len)]) ihex_sha lock_sha elf_sha"
  define kvs where "kvs = fields @ extra"
  note get = manifest_lookups [of target token elf ihex elf_image hex_image symbols
    "ranges_json [(origin, origin + len)]" ihex_sha lock_sha elf_sha extra, folded fields_def, folded kvs_def]
  assume "m = JObj (manifest_fields target token (path_join build_dir (target @ ''.elf''))
    (path_join build_dir (target @ ''.hex'')) elf_image hex_image symbols (ranges_json [(origin, origin + len)])
    ihex_sha lock_sha elf_sha @ extra)"
  then have m: "m = JObj kvs" by (simp only: kvs_def fields_def elf_def ihex_def)
  have abs: "is_absolute elf" "is_absolute ihex"
    using assms(2) by (simp_all add: elf_def ihex_def is_absolute_def path_join_def prefix_append)
  assume extra: "extra = [] \<or> (\<exists>e. extra = [(''hci_transport'', JObj [(''type'', JStr ''H4''), (''baud'', JInt 1000000),
       (''hardware_flow_control'', JBool True)]), (''build_evidence'', e)])"
  have keys: "set MANIFEST_REQUIRED \<subseteq> set (map fst kvs)" "set (map fst kvs) \<subseteq> set MANIFEST_REQUIRED \<union> set MANIFEST_OPTIONAL"
    using extra unfolding kvs_def fields_def map_append manifest_keys MANIFEST_REQUIRED_def MANIFEST_OPTIONAL_def by auto
  have l: "check_layout digest fs (JObj kvs) (JObj [(''source'', JStr ''elf-symbols''), (''path'', JStr elf),
                             (''sha256'', JStr elf_sha), (''symbols'', symbols_json symbols)]) = Inr ()"
    by (rule check_layout_accepts [OF abs(1) parsed(5,2) layout get(5) _ _ get(3,6)]) simp_all
  have e: "check_artifact digest fs (JObj [(''path'', JStr elf), (''sha256'', JStr elf_sha),
        (''entry'', case entry elf_image of None \<Rightarrow> JNull | Some e \<Rightarrow> JInt e), (''ranges'', ranges_json (ranges elf_image))])
        parse_elf (ranges_json [(origin, origin + len)]) = Inr ()"
    by (rule check_artifact_accepts [where parser = parse_elf, OF _ abs(1) parsed(5) _ parsed(1) ok(1)]) simp_all
  have h: "check_artifact digest fs (JObj [(''domain'', JStr target), (''order'', JInt 0), (''path'', JStr ihex),
        (''sha256'', JStr ihex_sha), (''ranges'', ranges_json (ranges hex_image)),
        (''allowlist'', ranges_json [(origin, origin + len)])]) parse_ihex (ranges_json [(origin, origin + len)]) = Inr ()"
    using parse_ihex_entry [OF parsed(3)]
    by (intro check_artifact_accepts [where parser = parse_ihex, OF _ abs(2) parsed(4) _ parsed(3) ok(2)]) simp_all
  have "check_artifacts digest fs (JObj kvs) = Inr ()"
    unfolding check_artifacts_def by (simp add: get e h)
  moreover have "nonempty_list (ranges_json [(origin, origin + len)]) \<noteq> None" by (simp add: ranges_json_def)
  ultimately show ?thesis
    unfolding load_manifest_def assms(3) option.case assms(4) sum.case m
    using l get keys backend_eq by simp
qed

text \<open>
  C25. Every device manifest the SDK writes is accepted by the loader, as long as the files it
  describes have not changed, the build directory is absolute, and reading the manifest file yields
  the value that was written.
\<close>

theorem sdk_manifest_accepted:
  assumes "device_manifest digest loads fs project build_dir target token hci = Inr m"
    and "is_absolute build_dir" and "fs p = Some content" and "decode content = Inr m"
  shows "load_manifest digest decode fs p True = Inr m"
  using assms by (rule sdk_manifest_loads)

theorem sdk_manifest_accepted_witness:
  "\<exists>m. device_manifest (\<lambda>_. []) (\<lambda>_. None) bench_build ''/p'' ''/b'' ''app'' ''ready'' False = Inr m
     \<and> load_manifest (\<lambda>_. []) (\<lambda>_. Inr m) bench_build ''/b/app.device-manifest.json'' True = Inr m"
proof -
  obtain m where m: "device_manifest (\<lambda>_. []) (\<lambda>_. None) bench_build ''/p'' ''/b'' ''app'' ''ready'' False = Inr m"
    using bench_manifest by blast
  have "is_absolute ''/b''" "bench_build ''/b/app.device-manifest.json'' = Some []"
    by (simp_all add: is_absolute_def bench_build_def)
  from sdk_manifest_accepted [where decode = "\<lambda>_. Inr m", OF m this refl] m show ?thesis by blast
qed

theorem load_manifest_sound_witness:
  "\<exists>m kvs items. load_manifest (\<lambda>_. []) (\<lambda>_. Inr m) bench_build ''/b/app.device-manifest.json'' True = Inr m
     \<and> m = JObj kvs \<and> map_of kvs ''images'' = Some (JList items) \<and> items \<noteq> []"
proof -
  obtain m where m: "device_manifest (\<lambda>_. []) (\<lambda>_. None) bench_build ''/p'' ''/b'' ''app'' ''ready'' False = Inr m"
    using bench_manifest by blast
  have "is_absolute ''/b''" "bench_build ''/b/app.device-manifest.json'' = Some []"
    by (simp_all add: is_absolute_def bench_build_def)
  from sdk_manifest_loads [where decode = "\<lambda>_. Inr m", OF m this refl]
  have l: "load_manifest (\<lambda>_. []) (\<lambda>_. Inr m) bench_build ''/b/app.device-manifest.json'' True = Inr m" .
  from load_manifest_sound [OF l] l show ?thesis by blast
qed

subsection \<open>Programming snapshots\<close>

lemma parse_ihex_cong: "fs p = fs' p \<Longrightarrow> parse_ihex fs p = parse_ihex fs' p"
  by (simp add: parse_ihex_def ihex_text_def)

definition snap_name :: "path \<Rightarrow> nat \<Rightarrow> string \<Rightarrow> path" where
  "snap_name dir i domain = path_join dir (zero_fill 2 (dec i) @ ''-'' @ domain @ ''.hex'')"

lemma snap_name_inj:
  assumes "snap_name dir i d = snap_name dir j e"
  shows "i = j"
proof -
  from assms have "zero_fill 2 (dec i) @ CHR ''-'' # (d @ ''.hex'') = zero_fill 2 (dec j) @ CHR ''-'' # (e @ ''.hex'')"
    by (simp add: snap_name_def path_join_def)
  from append_sep_inject [OF zero_fill_dec(2) zero_fill_dec(2) this]
  have "dec_value (zero_fill 2 (dec i)) = dec_value (zero_fill 2 (dec j))" by simp
  then show ?thesis by (simp only: zero_fill_dec(1))
qed

text \<open>What a snapshot in the run directory is, at a given moment.\<close>

definition snapshot_ok :: "(bytes \<Rightarrow> string) \<Rightarrow> filesystem \<Rightarrow> json \<Rightarrow> path \<Rightarrow> bool" where
  "snapshot_ok digest fs item snap \<longleftrightarrow>
     (\<exists>kvs content img allowlist entries allowed. item = JObj kvs \<and> fs snap = Some content
        \<and> map_of kvs ''sha256'' = Some (JStr (digest content)) \<and> parse_ihex fs snap = Inr img
        \<and> map_of kvs ''allowlist'' = Some allowlist \<and> jiter allowlist = Inr entries \<and> mapR jiter entries = Inr allowed
        \<and> (\<forall>r \<in> set (ranges img). json_allowed allowed r))"

lemma snapshot_ok_cong: "fs snap = fs' snap \<Longrightarrow> snapshot_ok digest fs item snap = snapshot_ok digest fs' item snap"
  using parse_ihex_cong [of fs snap fs'] by (simp add: snapshot_ok_def)

lemma snapshot_item_effect:
  assumes "snapshot_item digest render dir item w = (w', Inr snap)"
    and "item_order item = JInt (int i)"
  shows "\<exists>domain content. snap = snap_name dir i domain \<and> files w' = (files w)(snap := Some content)
    \<and> sealed w' = sealed w @ [snap] \<and> quiet w w' \<and> snapshot_ok digest (files w') item snap"
proof -
  note run = assms(1) [unfolded snapshot_item_def Let_def]
  from run obtain kvs source order domain where
    f: "item = JObj kvs" "map_of kvs ''path'' = Some (JStr source)" "map_of kvs ''order'' = Some order"
      "map_of kvs ''domain'' = Some domain"
    by (auto simp: action_simps result_simps)
  have o': "order = JInt (int i)" using assms(2) f by (simp add: item_order_def)
  let ?snap = "snap_name dir i (str_of render domain)"
  from run f o' obtain content img allowlist entries allowed where
    c: "files w source = Some content" "map_of kvs ''sha256'' = Some (JStr (digest content))"
      "parse_ihex ((files w)(?snap := Some content)) ?snap = Inr img"
      "map_of kvs ''allowlist'' = Some allowlist" "jiter allowlist = Inr entries" "mapR jiter entries = Inr allowed"
      "require_allowed_json (ranges img) allowed = Inr ()" "snap = ?snap"
    and w': "w' = w\<lparr>files := (files w)(?snap := Some content), sealed := sealed w @ [?snap]\<rparr>"
    by (auto simp: action_simps result_simps write_file_def seal_def snap_name_def split: if_splits option.splits)
  have fs: "files w' = (files w)(?snap := Some content)" using w' by simp
  have "snapshot_ok digest (files w') item snap"
    unfolding snapshot_ok_def fs c(8) using f(1) c(2-6) require_allowed_json_sound [OF c(7)] by auto
  with w' fs c(8) show ?thesis
    by (intro exI [of _ "str_of render domain"] exI [of _ content]) (simp add: quiet_def)
qed

lemma snapshot_items_effect:
  "mapA (snapshot_item digest render dir) items w = (w', Inr snaps) \<Longrightarrow>
   \<forall>i < length items. item_order (items ! i) = JInt (int (k + i)) \<Longrightarrow>
     length snaps = length items \<and> quiet w w' \<and> set snaps \<subseteq> set (sealed w') \<and> set (sealed w) \<subseteq> set (sealed w')
     \<and> (\<forall>i < length items. snapshot_ok digest (files w') (items ! i) (snaps ! i))
     \<and> (\<forall>j d. j < k \<longrightarrow> files w' (snap_name dir j d) = files w (snap_name dir j d))"
proof (induction items arbitrary: w snaps k)
  case Nil
  then show ?case by (auto simp: action_simps quiet_def)
next
  case (Cons item items)
  from Cons.prems(1) obtain w1 snap rest where
    r: "snapshot_item digest render dir item w = (w1, Inr snap)"
      "mapA (snapshot_item digest render dir) items w1 = (w', Inr rest)" "snaps = snap # rest"
    by (auto simp: action_simps)
  have "item_order item = JInt (int k)" using Cons.prems(2) by (metis add_0_right length_greater_0_conv list.distinct(1) nth_Cons_0)
  from snapshot_item_effect [OF r(1) this] obtain domain content where
    one: "snap = snap_name dir k domain" "files w1 = (files w)(snap := Some content)"
      "sealed w1 = sealed w @ [snap]" "quiet w w1" "snapshot_ok digest (files w1) item snap" by blast
  have "\<forall>i < length items. item_order (items ! i) = JInt (int (Suc k + i))"
    using Cons.prems(2) by (metis Suc_less_eq add_Suc_shift length_Cons nth_Cons_Suc)
  from Cons.IH [OF r(2) this] have
    ih: "length rest = length items" "quiet w1 w'" "set rest \<subseteq> set (sealed w')" "set (sealed w1) \<subseteq> set (sealed w')"
      "\<forall>i < length items. snapshot_ok digest (files w') (items ! i) (rest ! i)"
      "\<forall>j d. j < Suc k \<longrightarrow> files w' (snap_name dir j d) = files w1 (snap_name dir j d)" by auto
  have "files w' snap = files w1 snap" using ih(6) one(1) by blast
  then have first: "snapshot_ok digest (files w') item snap"
    using snapshot_ok_cong one(5) by blast
  have ok: "\<forall>i < length (item # items). snapshot_ok digest (files w') ((item # items) ! i) ((snap # rest) ! i)"
    using first ih(5) by (auto simp: nth_Cons split: nat.splits)
  have keep: "files w' (snap_name dir j d) = files w (snap_name dir j d)" if "j < k" for j d
  proof -
    have "snap_name dir j d \<noteq> snap" using that snap_name_inj one(1) by blast
    with one(2) ih(6) that show ?thesis by (metis fun_upd_other less_SucI)
  qed
  have "quiet w w'" using one(4) ih(2) by (auto simp: quiet_def)
  moreover have "set (snap # rest) \<subseteq> set (sealed w')" "set (sealed w) \<subseteq> set (sealed w')"
    using ih(3,4) one(3) by auto
  ultimately show ?case using r(3) ih(1) ok keep by simp
qed

text \<open>
  C26. Programming snapshots are the audited images: for a manifest whose images are numbered from
  zero, if taking snapshots succeeds then there is one snapshot per image, in order, each
  still present afterwards with the recorded digest, made read-only, parsing as Intel HEX with every range
  admitted by its allowlist; and no child process has been launched.
\<close>

theorem snapshots_are_audited:
  assumes "snapshot_hexes digest render (JObj kvs) dir w = (w', Inr snaps)"
    and "map_of kvs ''images'' = Some (JList items)"
    and "\<forall>i < length items. item_order (items ! i) = JInt (int i)"
  shows "length snaps = length items \<and> launches w' = launches w
    \<and> (\<forall>i < length items. snapshot_ok digest (files w') (items ! i) (snaps ! i) \<and> snaps ! i \<in> set (sealed w'))"
proof -
  from assms(1,2) have "mapA (snapshot_item digest render dir) items w = (w', Inr snaps)"
    by (simp add: snapshot_hexes_def action_simps)
  from snapshot_items_effect [OF this, of 0] assms(3)
  have "length snaps = length items" "quiet w w'" "set snaps \<subseteq> set (sealed w')"
    "\<forall>i < length items. snapshot_ok digest (files w') (items ! i) (snaps ! i)" by simp_all
  then show ?thesis by (auto simp: quiet_def)
qed

lemma parse_ihex_same_content:
  assumes "parse_ihex fs p = Inr img" and "fs' q = fs p"
  shows "parse_ihex fs' q = Inr (img\<lparr>image_path := q\<rparr>)"
proof -
  from assms(1) obtain lines where l: "ihex_text fs p = Inr lines" by (auto simp: parse_ihex_def result_simps)
  then have "ihex_text fs' q = Inr lines" using assms(2) by (auto simp: ihex_text_def split: option.splits)
  with assms(1) l show ?thesis by (auto simp: parse_ihex_def result_simps split: if_splits)
qed

definition bench_item :: json where
  "bench_item = JObj [(''domain'', JStr ''app''), (''order'', JInt 0), (''path'', JStr ''/b/app.hex''), (''sha256'', JStr ''''),
     (''allowlist'', ranges_json [(0, 0x1FD000)])]"

lemma bench_snapshot:
  assumes "files w = bench_build"
  shows "snapshot_hexes (\<lambda>_. []) render (JObj [(''images'', JList [bench_item])]) ''/run'' w =
    (w\<lparr>files := (files w)(''/run/00-app.hex'' := bench_build ''/b/app.hex''), sealed := sealed w @ [''/run/00-app.hex'']\<rparr>,
     Inr [''/run/00-app.hex''])"
proof -
  define content where "content = ascii_encode (unlines ['':04010000AABBCCDDED'', '':00000001FF''])"
  have c: "bench_build ''/b/app.hex'' = Some content" by (simp add: bench_build_def content_def)
  have p: "parse_ihex (bench_build(''/run/00-app.hex'' := Some content)) ''/run/00-app.hex'' =
    Inr \<lparr>image_path = ''/run/00-app.hex'', ranges = [(0x100, 0x104)], entry = None\<rparr>"
    using parse_ihex_same_content [OF bench_hex_parsed, of "bench_build(''/run/00-app.hex'' := Some content)" "''/run/00-app.hex''"] c
    by simp
  have name: "path_join ''/run'' (zero_fill 2 (dec 0) @ ''-'' @ ''app'' @ ''.hex'') = ''/run/00-app.hex''"
    by (simp add: path_join_def zero_fill_def dec.simps hex_digit_def)
  have g: "require_allowed_json [(0x100, 0x104)] [[JInt 0, JInt 0x1FD000]] = Inr ()"
    by (simp add: FORBIDDEN_RANGES_def)
  show ?thesis
    by (simp add: snapshot_hexes_def snapshot_item_def Let_def bench_item_def bindA_def liftA_def pureA_def read_file_def assms c
        write_file_def seal_def updateA_def readA_def requireA_def str_of_def name [simplified] p g ranges_json_def jint_pair_def
        del: require_allowed_json.simps)
qed

theorem snapshots_are_audited_witness:
  "\<exists>w'. snapshot_hexes (\<lambda>_. []) (\<lambda>_. []) (JObj [(''images'', JList [bench_item])]) ''/run''
      \<lparr>files = bench_build, sealed = [], launches = [], outside = ()\<rparr> = (w', Inr [''/run/00-app.hex''])
    \<and> snapshot_ok (\<lambda>_. []) (files w') bench_item ''/run/00-app.hex'' \<and> launches w' = []"
proof -
  let ?w = "\<lparr>files = bench_build, sealed = [], launches = [], outside = ()\<rparr>"
  obtain w' where w': "snapshot_hexes (\<lambda>_. []) (\<lambda>_. []) (JObj [(''images'', JList [bench_item])]) ''/run'' ?w = (w', Inr [''/run/00-app.hex''])"
    using bench_snapshot [of ?w "\<lambda>_. []"] by simp
  have "map_of [(''images'', JList [bench_item])] ''images'' = Some (JList [bench_item])"
    "\<forall>i < length [bench_item]. item_order ([bench_item] ! i) = JInt (int i)"
    by (simp_all add: item_order_def bench_item_def)
  from snapshots_are_audited [OF w' this] w' show ?thesis by auto
qed

end
