(* ===== verification/Openocd_Cli_Correct.thy ===== *)
theory Openocd_Cli_Correct
  imports Openocd_Cli Openocd_Correct Manifest_Correct
begin

section \<open>Correctness of the OpenOCD commands\<close>

text \<open>
  A backup holds every byte it set out to save; clearing never starts before the original
  bytes are published; restoring writes only verified snapshots to the target they came from.
\<close>

interpretation backup_normal: range_normaliser backup_merged
  using merge_sweep_normaliser unfolding backup_merged_def [abs_def] .

lemma mapE_Inr_sym [simp]: "Inr x = mapE h r \<longleftrightarrow> r = Inr x" "Inl e = mapE h r \<longleftrightarrow> (\<exists>d. r = Inl d \<and> e = h d)"
  by (cases r; auto)+

lemmas pure_defs = pure_ocd_def pure_py_def pure_image_def

subsection \<open>Names of backup files\<close>

lemma dec_inject [simp]: "dec i = dec j \<longleftrightarrow> i = j"
  by (metis dec_value_dec)

lemma backup_hex_inject [simp]: "backup_hex dir i = backup_hex dir j \<longleftrightarrow> i = j"
  by (simp add: backup_hex_def path_join_def)

lemma last_of_names: "last (backup_hex dir i) = CHR ''x''" "last (backup_bin dir i k) = CHR ''n''"
  by (simp_all add: backup_hex_def backup_bin_def path_join_def)

lemma backup_bin_not_hex [simp]: "backup_bin dir i k \<noteq> backup_hex dir j" "backup_hex dir j \<noteq> backup_bin dir i k"
proof -
  show "backup_bin dir i k \<noteq> backup_hex dir j"
  proof
    assume "backup_bin dir i k = backup_hex dir j"
    then have "last (backup_bin dir i k) = last (backup_hex dir j)" by (rule arg_cong)
    then show False by (simp add: last_of_names)
  qed
  then show "backup_hex dir j \<noteq> backup_bin dir i k" by (rule not_sym)
qed

lemma restore_hex_inject [simp]: "restore_hex dir i = restore_hex dir j \<longleftrightarrow> i = j"
  by (simp add: restore_hex_def path_join_def)

subsection \<open>One range of a backup\<close>

text \<open>What is known of the \<open>i\<close>-th range once it has been kept.\<close>

definition kept :: "(bytes \<Rightarrow> string) \<Rightarrow> path \<Rightarrow> 'h host \<Rightarrow> nat \<Rightarrow> int \<times> int \<Rightarrow> backup_item \<Rightarrow> bool" where
  "kept digest dir w i r item \<longleftrightarrow>
     (\<exists>data out. files w (backup_bin dir i 1) = Some data \<and> files w (backup_bin dir i 2) = Some data
        \<and> int (length data) = snd r - fst r \<and> addressed_hex (fst r) data = Inr out
        \<and> files w (backup_hex dir i) = Some (ascii_encode out)
        \<and> item = \<lparr>bk_path = backup_hex dir i, bk_sha256 = digest (ascii_encode out), bk_range = r\<rparr>
        \<and> {backup_hex dir i, backup_bin dir i 1, backup_bin dir i 2} \<subseteq> set (sealed w))"

lemma keep_backup_kept:
  assumes "keep_backup digest dir (i, r) w = (w', Inr item)"
  shows "(\<forall>q. q \<noteq> backup_hex dir i \<longrightarrow> files w' q = files w q) \<and> set (sealed w) \<subseteq> set (sealed w')
    \<and> quiet w w' \<and> kept digest dir w' i r item"
proof -
  obtain start stop where r: "r = (start, stop)" by (cases r)
  from assms obtain data out where
    d: "files w (backup_bin dir i 1) = Some data" "int (length data) = stop - start"
      "files w (backup_bin dir i 2) = Some data" "addressed_hex start data = Inr out"
    and w': "w' = w\<lparr>files := (files w)(backup_hex dir i := Some (ascii_encode out)),
        sealed := sealed w @ [backup_hex dir i, backup_bin dir i 1, backup_bin dir i 2]\<rparr>"
    and item: "item = \<lparr>bk_path = backup_hex dir i, bk_sha256 = digest (ascii_encode out), bk_range = (start, stop)\<rparr>"
    unfolding keep_backup_def r
    by (auto simp: action_simps write_file_def seal_def Let_def split: if_splits)
  then show ?thesis by (auto simp: quiet_def kept_def r)
qed

lemma kept_frame:
  assumes "kept digest dir w i r item" and "\<And>q. (\<And>j. i < j \<Longrightarrow> q \<noteq> backup_hex dir j) \<Longrightarrow> files w' q = files w q"
    and "set (sealed w) \<subseteq> set (sealed w')"
  shows "kept digest dir w' i r item"
proof -
  have "files w' (backup_bin dir i 1) = files w (backup_bin dir i 1)" "files w' (backup_bin dir i 2) = files w (backup_bin dir i 2)"
    "files w' (backup_hex dir i) = files w (backup_hex dir i)" by (rule assms(2); simp)+
  moreover note assms(3)
  ultimately show ?thesis using assms(1) by (auto simp: kept_def)
qed

lemma keep_backups:
  assumes "mapA (keep_backup digest dir) (enumerate k rs) w = (w', Inr items)"
  shows "length items = length rs \<and> (\<forall>i < length rs. kept digest dir w' (k + i) (rs ! i) (items ! i))
    \<and> (\<forall>q. (\<forall>j \<ge> k. q \<noteq> backup_hex dir j) \<longrightarrow> files w' q = files w q) \<and> quiet w w' \<and> set (sealed w) \<subseteq> set (sealed w')"
  by (rule mapA_jobs [OF keep_backup_kept _ assms], assumption, erule kept_frame; blast)

lemma backup_ranges_inv:
  assumes "backup_ranges child digest backend rs s = (s', Inr ())"
  obtains dumps out target backups h1 where
    "require_allowed rs [(0, RRAM_END)] = Inr ()" "rs \<noteq> []" "\<forall>(a, b) \<in> set rs. a mod 16 = 0 \<and> b mod 16 = 0 \<and> a < b"
    "dump_commands (run_dir backend) (backup_merged rs) = Inr dumps"
    "ocd_run child backend ''backup'' (join_str [LF] (''halt'' # dumps)) (host s) = (h1, Inr out)"
    "parse_identity out = Inr target"
    "mapA (keep_backup digest (run_dir backend)) (enumerate 0 (backup_merged rs)) h1 = (host s', Inr backups)"
    "map_of (report s') ''target'' = Some (identity_json target)"
    "map_of (report s') ''backups'' = Some (JList (map backup_json backups))"
proof -
  from assms obtain dumps out target backups h1 h2 where
    "require_allowed rs [(0, RRAM_END)] = Inr ()" "\<not> (rs = [] \<or> list_ex (\<lambda>(a, b). a mod 16 \<noteq> 0 \<or> b mod 16 \<noteq> 0 \<or> b \<le> a) rs)"
    "dump_commands (run_dir backend) (backup_merged rs) = Inr dumps"
    "ocd_run child backend ''backup'' (join_str [LF] (''halt'' # dumps)) (host s) = (h1, Inr out)"
    "parse_identity out = Inr target"
    "mapA (keep_backup digest (run_dir backend)) (enumerate 0 (backup_merged rs)) h1 = (h2, Inr backups)"
    "s' = s\<lparr>host := h2, report := AList.update ''target_state'' (JStr ''halted'')
       (AList.update ''backups'' (JList (map backup_json backups)) (AList.update ''target'' (identity_json target) (report s)))\<rparr>"
    unfolding backup_ranges_def Let_def pure_defs
    by (auto simp: action_simps simp del: mapA.simps join_str.simps split: if_splits)
  then show thesis
    by (intro that [of dumps h1 out target backups]) (auto simp: list_ex_iff AList.update_conv' not_le)
qed

text \<open>
  The \<open>i\<close>-th saved range: both dumps hold the same bytes, as many as the range is long; the HEX file
  parses to that range with those bytes at their addresses; its digest is the recorded one; all three are read-only.
\<close>

definition saved :: "(bytes \<Rightarrow> string) \<Rightarrow> path \<Rightarrow> 'h host \<Rightarrow> nat \<Rightarrow> int \<times> int \<Rightarrow> backup_item \<Rightarrow> bool" where
  "saved digest dir w i r item \<longleftrightarrow>
     (\<exists>data m img. files w (backup_bin dir i 1) = Some data \<and> files w (backup_bin dir i 2) = Some data
        \<and> int (length data) = snd r - fst r
        \<and> parse_ihex (files w) (backup_hex dir i) = Inr img \<and> ranges img = [r]
        \<and> hex_memory_of (files w) (backup_hex dir i) = Inr m
        \<and> (\<forall>k < length data. map_of m (fst r + int k) = Some (data ! k))
        \<and> bk_path item = backup_hex dir i \<and> bk_range item = r
        \<and> sha256 digest (files w) (backup_hex dir i) = Inr (bk_sha256 item)
        \<and> {backup_hex dir i, backup_bin dir i 1, backup_bin dir i 2} \<subseteq> set (sealed w))"

lemma addressed_hex_inv:
  assumes "addressed_hex start data = Inr out" and "data \<noteq> []"
  shows "0 \<le> start" "start + int (length data) \<le> RRAM_END" "start mod 16 = 0" "length data mod 16 = 0"
  using assms by (auto simp: addressed_hex_def result_simps split: if_splits option.splits)

lemma kept_saved:
  assumes "kept digest dir w i r item" and "fst r < snd r"
  shows "saved digest dir w i r item"
proof -
  from assms(1) obtain data out where k: "files w (backup_bin dir i 1) = Some data" "files w (backup_bin dir i 2) = Some data"
      "int (length data) = snd r - fst r" "addressed_hex (fst r) data = Inr out"
      "files w (backup_hex dir i) = Some (ascii_encode out)"
      "item = \<lparr>bk_path = backup_hex dir i, bk_sha256 = digest (ascii_encode out), bk_range = r\<rparr>"
      "{backup_hex dir i, backup_bin dir i 1, backup_bin dir i 2} \<subseteq> set (sealed w)"
    unfolding kept_def by blast
  have "data \<noteq> []" using k(3) assms(2) by auto
  note inv = addressed_hex_inv [OF k(4) this]
  from addressed_hex_parsed [OF inv(1) \<open>data \<noteq> []\<close> inv(2-4)] k(4,5)
  have p: "parse_ihex (files w) (backup_hex dir i)
       = Inr \<lparr>image_path = backup_hex dir i, ranges = [(fst r, fst r + int (length data))], entry = None\<rparr>"
      "hex_memory_of (files w) (backup_hex dir i) = Inr (zip [fst r..fst r + int (length data) - 1] data)" by auto
  show ?thesis unfolding saved_def
  proof (intro exI [of _ data] exI [of _ "zip [fst r..fst r + int (length data) - 1] data"]
      exI [of _ "\<lparr>image_path = backup_hex dir i, ranges = [(fst r, fst r + int (length data))], entry = None\<rparr>"] conjI k(1-3,7) p(1,2) allI impI)
    show "map_of (zip [fst r..fst r + int (length data) - 1] data) (fst r + int j) = Some (data ! j)" if "j < length data" for j
      using map_of_zip_upto that by blast
  qed (use k in \<open>auto simp: sha256_def\<close>)
qed

text \<open>
  C27. A backup that succeeds has saved every byte it was asked for: the ranges it saves are a
  normal form covering exactly the requested addresses, and for each of them both dumps agree, the
  published HEX file parses to exactly that range with the dumped bytes at their addresses, its
  digest is the one in the report, and the files are read-only.
\<close>

theorem backup_ranges_faithful:
  assumes "backup_ranges child digest backend rs s = (s', Inr ())"
  shows "covers (backup_merged rs) = covers rs \<and> normal_ranges (backup_merged rs)
    \<and> (\<exists>backups. map_of (report s') ''backups'' = Some (JList (map backup_json backups))
        \<and> length backups = length (backup_merged rs)
        \<and> (\<forall>i < length backups. saved digest (run_dir backend) (host s') i (backup_merged rs ! i) (backups ! i)))"
proof -
  from assms obtain dumps out target backups h1 where
    b: "\<forall>(a, b) \<in> set rs. a mod 16 = 0 \<and> b mod 16 = 0 \<and> a < b"
    "mapA (keep_backup digest (run_dir backend)) (enumerate 0 (backup_merged rs)) h1 = (host s', Inr backups)"
    "map_of (report s') ''backups'' = Some (JList (map backup_json backups))"
    by (rule backup_ranges_inv)
  have ne: "nonempty_ranges rs" using b(1) by (auto simp: nonempty_ranges_def list_all_iff)
  note normal = backup_normal.norm_normal [OF ne]
  from keep_backups [OF b(2)] have len: "length backups = length (backup_merged rs)"
    and "\<forall>i < length (backup_merged rs). kept digest (run_dir backend) (host s') i (backup_merged rs ! i) (backups ! i)" by auto
  moreover have "fst r < snd r" if "r \<in> set (backup_merged rs)" for r
    using normal_ranges_nonempty [OF normal, of "fst r" "snd r"] that by simp
  ultimately have "\<forall>i < length backups. saved digest (run_dir backend) (host s') i (backup_merged rs ! i) (backups ! i)"
    using kept_saved nth_mem by metis
  with len b(3) backup_normal.norm_covers [OF ne] normal show ?thesis by blast
qed

subsection \<open>Clearing\<close>

lemma ocd_run_launches:
  assumes "ocd_run child b name commands w = (w', r)"
  shows "launches w' = launches w \<or>
    (\<exists>l config. launches w' = launches w @ [l] \<and> configuration (ocd_dev b) (speed_khz b) None = Inr config
       \<and> launch_argv l = [ocd_executable b, ''-s'', ocd_scripts b, ''-f'', script_of b name]
       \<and> launch_files l = (files w)(script_of b name := Some (utf8_encode
           (config @ ''init'' @ [LF] @ IDENTIFY @ commands @ [LF] @ ''shutdown'' @ [LF]))))"
  using assms unfolding ocd_run_def run_script_def ocd_argv_def script_of_def
  by (cases r) (auto simp: action_simps write_file_def seal_def run_logged_def Let_def
      split: if_splits prod.splits run_end.splits)

definition same_host :: "'h cmd_state \<Rightarrow> 'h cmd_state \<Rightarrow> bool" where
  "same_host s s' \<longleftrightarrow> host s' = host s"

definition same_launches :: "'h cmd_state \<Rightarrow> 'h cmd_state \<Rightarrow> bool" where
  "same_launches s s' \<longleftrightarrow> launches (host s') = launches (host s)"

interpretation reporting: state_order same_host
  by unfold_locales (auto simp: same_host_def)

interpretation idle: state_order same_launches
  by unfold_locales (auto simp: same_launches_def)

lemma same_host_basic [simp]:
  "stable same_host (put_report k v)" "stable same_host (get_report k)" "stable same_host (pure_ocd a)"
  "stable same_host (pure_py b)" "stable same_host (pure_image c)" "stable same_host (liftA d)"
  "stable same_host (requireA e f)" "stable same_host (readA g)"
  by (auto simp: stable_def same_host_def action_simps get_report_def pure_defs split: option.splits)

lemma same_launches_host: "stable quiet m \<Longrightarrow> stable same_launches (onHost raising m)"
  unfolding stable_def same_launches_def by (auto simp: action_simps quiet_def)

lemma same_launches_report: "stable same_host m \<Longrightarrow> stable same_launches m"
  by (auto simp: stable_def same_launches_def same_host_def)

lemma same_launches_basic [simp]:
  "stable same_launches (put_report k v)" "stable same_launches (get_report k)" "stable same_launches (pure_ocd a)"
  "stable same_launches (pure_py b)" "stable same_launches (pure_image c)"
  "stable same_launches (requireA e f)" "stable same_launches (readA g)"
  by (rule same_launches_report, simp)+

declare same_launches_host [simp]

text \<open>What the launch of a named script looks like.\<close>

definition runs_script :: "open_ocd \<Rightarrow> string \<Rightarrow> launch \<Rightarrow> bool" where
  "runs_script b name l \<longleftrightarrow> launch_argv l = [ocd_executable b, ''-s'', ocd_scripts b, ''-f'', script_of b name]"

definition one_more :: "open_ocd \<Rightarrow> string \<Rightarrow> launch list \<Rightarrow> 'h cmd_state \<Rightarrow> bool" where
  "one_more b name L s \<longleftrightarrow> launches (host s) = L \<or> (\<exists>l. launches (host s) = L @ [l] \<and> runs_script b name l)"

lemma one_more_run:
  "triple (\<lambda>s. launches (host s) = L) (onHost raising (ocd_run child b name commands)) (\<lambda>_. one_more b name L) (\<lambda>_. one_more b name L)"
  by (intro tripleI; auto simp: action_simps one_more_def runs_script_def dest!: ocd_run_launches)

lemma one_more_kept:
  "stable same_launches m \<Longrightarrow> triple (one_more b name L) m (\<lambda>_. one_more b name L) (\<lambda>_. one_more b name L)"
  by (erule triple_stable) (simp_all add: one_more_def same_launches_def)

lemma idle_start:
  "stable same_launches m \<Longrightarrow> triple (\<lambda>s. launches (host s) = L) m (\<lambda>_ s. launches (host s) = L) (\<lambda>_. one_more b name L)"
  by (erule triple_stable) (simp_all add: one_more_def same_launches_def)

lemma stable_keep_backup [simp]: "stable quiet (keep_backup digest dir job)"
  unfolding keep_backup_def by (auto simp: Let_def split: prod.splits intro!: quiet.stable_bindA)

lemma stable_keep_backups [simp]: "stable quiet (mapA (keep_backup digest dir) jobs)"
  by (intro quiet.stable_mapA) simp

lemma backup_ranges_launches:
  "triple (\<lambda>s. launches (host s) = L) (backup_ranges child digest backend rs)
     (\<lambda>_. one_more backend ''backup'' L) (\<lambda>_. one_more backend ''backup'' L)"
  unfolding backup_ranges_def Let_def
  by (rule triple_bindA [OF idle_start] triple_bindA [OF one_more_run] triple_bindA [OF one_more_kept] one_more_kept | simp; fail)+

lemma backup_ranges_succeeds:
  assumes "backup_ranges child digest backend rs s = (s', Inr ())"
  shows "\<exists>l. launches (host s') = launches (host s) @ [l] \<and> runs_script backend ''backup'' l"
proof -
  from assms obtain dumps out target backups h1 where
    run: "ocd_run child backend ''backup'' (join_str [LF] (''halt'' # dumps)) (host s) = (h1, Inr out)"
    and kept: "mapA (keep_backup digest (run_dir backend)) (enumerate 0 (backup_merged rs)) h1 = (host s', Inr backups)"
    by (rule backup_ranges_inv)
  have "\<exists>l. launches h1 = launches (host s) @ [l] \<and> runs_script backend ''backup'' l"
    using run unfolding ocd_run_def runs_script_def by (elim run_script_returns) auto
  moreover have "launches (host s') = launches h1" using stableD [OF stable_keep_backups kept] by (simp add: quiet_def)
  ultimately show ?thesis by simp
qed

definition published :: "(bytes \<Rightarrow> string) \<Rightarrow> (json \<Rightarrow> string) \<Rightarrow> open_ocd \<Rightarrow> target_identity \<Rightarrow> backup_item \<Rightarrow> 'h host \<Rightarrow> bool" where
  "published digest dumps backend t item w \<longleftrightarrow>
     files w (path_join (run_dir backend) ''backup.json'')
       = Some (utf8_encode (dumps (backup_report_json (identity_json t) (JList [backup_json item])) @ [LF]))
     \<and> saved digest (run_dir backend) w 0 (0, RRAM_END) item"

text \<open>
  A launch of the clearing script: the files it sees are a host with the whole ordinary RRAM published,
  and the script refuses any other target before it halts and writes.
\<close>

definition clear_launch :: "(bytes \<Rightarrow> string) \<Rightarrow> (json \<Rightarrow> string) \<Rightarrow> open_ocd \<Rightarrow> launch \<Rightarrow> bool" where
  "clear_launch digest dumps backend l \<longleftrightarrow> runs_script backend ''clear'' l
     \<and> (\<exists>w :: unit host. \<exists>t item config rest. published digest dumps backend t item w
         \<and> launch_files l = (files w)(script_of backend ''clear'' := Some (utf8_encode
             (config @ ''init'' @ [LF] @ IDENTIFY @ guard_text (int (part t)) (int (variant t)) (device_id t) @ [LF] @ ''halt'' @ rest))))"

definition backed_up :: "(bytes \<Rightarrow> string) \<Rightarrow> open_ocd \<Rightarrow> launch list \<Rightarrow> launch \<Rightarrow> target_identity \<Rightarrow> backup_item \<Rightarrow> 'h cmd_state \<Rightarrow> bool" where
  "backed_up digest backend L l t item s \<longleftrightarrow> launches (host s) = L @ [l] \<and> runs_script backend ''backup'' l
     \<and> map_of (report s) ''target'' = Some (identity_json t) \<and> map_of (report s) ''backups'' = Some (JList [backup_json item])
     \<and> saved digest (run_dir backend) (host s) 0 (0, RRAM_END) item"

definition cleared :: "(bytes \<Rightarrow> string) \<Rightarrow> (json \<Rightarrow> string) \<Rightarrow> open_ocd \<Rightarrow> launch list \<Rightarrow> 'h cmd_state \<Rightarrow> bool" where
  "cleared digest dumps backend L s \<longleftrightarrow>
     (\<exists>l1 l2. launches (host s) = L @ [l1, l2] \<and> runs_script backend ''backup'' l1 \<and> clear_launch digest dumps backend l2)"

lemma whole_rram_merged: "backup_merged [(0, RRAM_END)] = [(0, RRAM_END)]"
  by (simp add: backup_merged_def)

lemma backup_whole_rram:
  "triple (\<lambda>s. launches (host s) = L) (backup_ranges child digest backend [(0, RRAM_END)])
     (\<lambda>_ s. \<exists>l t item. backed_up digest backend L l t item s) (\<lambda>_. one_more backend ''backup'' L)"
proof (rule tripleI)
  fix s s' and x :: unit
  assume L: "launches (host s) = L" and "backup_ranges child digest backend [(0, RRAM_END)] s = (s', Inr x)"
  then have ok: "backup_ranges child digest backend [(0, RRAM_END)] s = (s', Inr ())" by simp
  from ok obtain target backups h1 where r: "map_of (report s') ''target'' = Some (identity_json target)"
      "map_of (report s') ''backups'' = Some (JList (map backup_json backups))"
      "mapA (keep_backup digest (run_dir backend)) (enumerate 0 (backup_merged [(0, RRAM_END)])) h1 = (host s', Inr backups)"
    by (rule backup_ranges_inv)
  from keep_backups [OF r(3)] obtain item where "backups = [item]" "kept digest (run_dir backend) (host s') 0 (0, RRAM_END) item"
    unfolding whole_rram_merged by (cases backups) auto
  moreover obtain l where "launches (host s') = L @ [l]" "runs_script backend ''backup'' l"
    using backup_ranges_succeeds [OF ok] L by auto
  ultimately show "\<exists>l t item. backed_up digest backend L l t item s'"
    using r(1,2) by (intro exI [of _ l] exI [of _ target] exI [of _ item]) (simp add: backed_up_def kept_saved)
next
  fix s s' e
  assume "launches (host s) = L" and "backup_ranges child digest backend [(0, RRAM_END)] s = (s', Inl e)"
  then show "one_more backend ''backup'' L s'" using triple_Inl [OF backup_ranges_launches] by blast
qed

lemma saved_frame:
  assumes "saved digest dir w i r item" and "files w' (backup_bin dir i 1) = files w (backup_bin dir i 1)"
    and "files w' (backup_bin dir i 2) = files w (backup_bin dir i 2)" and "files w' (backup_hex dir i) = files w (backup_hex dir i)"
    and "set (sealed w) \<subseteq> set (sealed w')"
  shows "saved digest dir w' i r item"
proof -
  have "parse_ihex (files w') (backup_hex dir i) = parse_ihex (files w) (backup_hex dir i)"
    "hex_memory_of (files w') (backup_hex dir i) = hex_memory_of (files w) (backup_hex dir i)"
    "sha256 digest (files w') (backup_hex dir i) = sha256 digest (files w) (backup_hex dir i)"
    using assms(4) by (simp_all add: parse_ihex_def hex_memory_of_def ihex_text_def sha256_def)
  with assms show ?thesis unfolding saved_def by (metis (no_types, lifting) subset_trans)
qed

lemma clear_names [simp]:
  "path_join dir ''backup.json'' \<noteq> backup_hex dir i" "path_join dir ''backup.json'' \<noteq> backup_bin dir i k"
  "path_join dir (''.backup.json.'' @ rand) \<noteq> backup_hex dir i" "path_join dir (''.backup.json.'' @ rand) \<noteq> backup_bin dir i k"
  "path_join dir (''.backup.json.'' @ rand) \<noteq> path_join dir ''backup.json''"
  by (simp_all add: path_join_def backup_hex_def backup_bin_def)

abbreviation clear_end :: "(bytes \<Rightarrow> string) \<Rightarrow> (json \<Rightarrow> string) \<Rightarrow> open_ocd \<Rightarrow> launch list \<Rightarrow> 'h cmd_state \<Rightarrow> bool" where
  "clear_end digest dumps backend L s \<equiv> one_more backend ''backup'' L s \<or> cleared digest dumps backend L s"

text \<open>Publishing the report, and launching the clearing script from a published state.\<close>

lemma publish_triple:
  assumes "temporary = path_join (run_dir backend) (''.backup.json.'' @ rand)"
  shows "triple (backed_up digest backend L l t item)
    (onHost raising (atomic_json temporary (path_join (run_dir backend) ''backup.json'')
       (dumps (backup_report_json (identity_json t) (JList [backup_json item])))))
    (\<lambda>_ s. launches (host s) = L @ [l] \<and> runs_script backend ''backup'' l \<and> published digest dumps backend t item (host s)) E"
proof (rule tripleI)
  fix s s' x
  assume b: "backed_up digest backend L l t item s" and run: "onHost raising (atomic_json temporary (path_join (run_dir backend) ''backup.json'')
       (dumps (backup_report_json (identity_json t) (JList [backup_json item])))) s = (s', Inr x)"
  let ?p = "path_join (run_dir backend) ''backup.json''"
  let ?content = "Some (utf8_encode (dumps (backup_report_json (identity_json t) (JList [backup_json item])) @ [LF]))"
  from run have h: "files (host s') = (files (host s))(temporary := None, ?p := ?content)"
    "launches (host s') = launches (host s)" "sealed (host s') = sealed (host s)"
    by (auto simp: action_simps atomic_json_def Let_def assms fun_eq_iff)
  have "saved digest (run_dir backend) (host s') 0 (0, RRAM_END) item"
    by (rule saved_frame [where w = "host s"]) (use b h clear_names [symmetric] in \<open>auto simp: assms backed_up_def\<close>)
  with b h show "launches (host s') = L @ [l] \<and> runs_script backend ''backup'' l \<and> published digest dumps backend t item (host s')"
    by (simp add: backed_up_def published_def)
qed (auto simp: action_simps atomic_json_def Let_def)

lemma published_frame:
  assumes "published digest dumps backend t item w" and "files w' = files w" and "sealed w' = sealed w"
  shows "published digest dumps backend t item w'"
  using assms saved_frame [of digest "run_dir backend" w 0 "(0, RRAM_END)" item w'] by (simp add: published_def)

lemma identity_guard_of: "identity_guard (identity_json t) = Inr (guard_text (int (part t)) (int (variant t)) (device_id t))"
  by (simp add: identity_guard_def identity_json_def)

abbreviation (input) ready :: "(bytes \<Rightarrow> string) \<Rightarrow> (json \<Rightarrow> string) \<Rightarrow> open_ocd \<Rightarrow> launch list \<Rightarrow> launch \<Rightarrow> target_identity \<Rightarrow> backup_item
    \<Rightarrow> 'h cmd_state \<Rightarrow> bool" where
  "ready digest dumps backend L l t item s \<equiv>
     launches (host s) = L @ [l] \<and> runs_script backend ''backup'' l \<and> published digest dumps backend t item (host s)"

lemma clear_launch_of:
  assumes "ocd_run child backend ''clear'' (guard_text (int (part t)) (int (variant t)) (device_id t) @ [LF] @ ''halt'' @ rest) (host s) = (h, r)"
    and "ready digest dumps backend L l t item s" and "s' = s\<lparr>host := h\<rparr>"
  shows "clear_end digest dumps backend L s'"
proof -
  from ocd_run_launches [OF assms(1)] show ?thesis
  proof (elim disjE exE conjE)
    assume "launches h = launches (host s)"
    with assms(2,3) show ?thesis by (auto simp: one_more_def)
  next
    fix l2 config
    assume l2: "launches h = launches (host s) @ [l2]"
      "launch_argv l2 = [ocd_executable backend, ''-s'', ocd_scripts backend, ''-f'', script_of backend ''clear'']"
      "launch_files l2 = (files (host s))(script_of backend ''clear'' := Some (utf8_encode (config @ ''init'' @ [LF] @ IDENTIFY
         @ (guard_text (int (part t)) (int (variant t)) (device_id t) @ [LF] @ ''halt'' @ rest) @ [LF] @ ''shutdown'' @ [LF])))"
    let ?w = "\<lparr>files = files (host s), sealed = sealed (host s), launches = [], outside = ()\<rparr>"
    have "published digest dumps backend t item ?w" using assms(2) by (intro published_frame [where w = "host s" and w' = ?w]) auto
    then have "clear_launch digest dumps backend l2" unfolding clear_launch_def runs_script_def
      by (intro conjI l2(2) exI [of _ ?w] exI [of _ t] exI [of _ item] exI [of _ config]
          exI [of _ "rest @ [LF] @ ''shutdown'' @ [LF]"]) (simp_all add: l2(3))
    then show ?thesis using assms(2,3) l2(1) by (auto simp: cleared_def)
  qed
qed

lemma clear_launch_triple:
  "triple (ready digest dumps backend L l t item)
     (onHost raising (ocd_run child backend ''clear'' (join_str [LF] [guard_text (int (part t)) (int (variant t)) (device_id t), ''halt'', a, b, c])))
     (\<lambda>_. cleared digest dumps backend L) (\<lambda>_. clear_end digest dumps backend L)"
proof (rule tripleI)
  fix s s' x
  let ?script = "guard_text (int (part t)) (int (variant t)) (device_id t) @ [LF] @ ''halt'' @ [LF] @ a @ [LF] @ b @ [LF] @ c"
  assume r: "ready digest dumps backend L l t item s" and
    run: "onHost raising (ocd_run child backend ''clear'' (join_str [LF] [guard_text (int (part t)) (int (variant t)) (device_id t), ''halt'', a, b, c])) s = (s', Inr x)"
  then obtain h where h: "ocd_run child backend ''clear'' ?script (host s) = (h, Inr x)" "s' = s\<lparr>host := h\<rparr>"
    by (auto simp: action_simps)
  then have "launches (host s') \<noteq> L @ [l]" "launches (host s') \<noteq> L" using r unfolding ocd_run_def by (auto elim!: run_script_returns)
  with clear_launch_of [OF h(1) r h(2)] show "cleared digest dumps backend L s'"
    using h r unfolding ocd_run_def by (auto simp: one_more_def elim!: run_script_returns)
next
  fix s s' e
  assume r: "ready digest dumps backend L l t item s" and
    "onHost raising (ocd_run child backend ''clear'' (join_str [LF] [guard_text (int (part t)) (int (variant t)) (device_id t), ''halt'', a, b, c])) s = (s', Inl e)"
  then obtain h d where h: "ocd_run child backend ''clear'' (guard_text (int (part t)) (int (variant t)) (device_id t)
      @ [LF] @ ''halt'' @ [LF] @ a @ [LF] @ b @ [LF] @ c) (host s) = (h, Inl d)" "s' = s\<lparr>host := h\<rparr>"
    by (auto simp: action_simps)
  from clear_launch_of [OF h(1) r h(2)] show "clear_end digest dumps backend L s'" .
qed

lemma clear_prepare:
  "stable same_launches m \<Longrightarrow> triple (\<lambda>s. launches (host s) = L) m (\<lambda>_ s. launches (host s) = L) (\<lambda>_. clear_end digest dumps backend L)"
  by (erule triple_stable) (simp_all add: one_more_def same_launches_def)

lemma clear_ready:
  "stable same_host m \<Longrightarrow> triple (ready digest dumps backend L l t item) m (\<lambda>_. ready digest dumps backend L l t item) (\<lambda>_. clear_end digest dumps backend L)"
  by (erule triple_stable) (auto simp: one_more_def same_host_def)

lemma clear_reported:
  assumes "\<And>s. P s \<Longrightarrow> \<exists>l. launches (host s) = L @ [l] \<and> runs_script backend ''backup'' l"
    and "\<And>s. P s \<Longrightarrow> map_of (report s) k = Some v"
  shows "triple P (get_report k) (\<lambda>x s. P s \<and> x = v) (\<lambda>_. clear_end digest dumps backend L)"
  using assms by (intro tripleI) (fastforce simp: get_report_def one_more_def split: option.splits)+

lemma clear_done:
  assumes "stable same_host m"
  shows "triple (\<lambda>s. cleared digest dumps backend L s \<and> files (host s) p = Some c) m
    (\<lambda>_ s. cleared digest dumps backend L s \<and> files (host s) p = Some c) (\<lambda>_. clear_end digest dumps backend L)"
  using assms by (rule triple_stable) (auto simp: cleared_def same_host_def)

lemma clear_readback:
  "triple (cleared digest dumps backend L) (onHost raising (read_file e p))
    (\<lambda>c s. cleared digest dumps backend L s \<and> files (host s) p = Some c) (\<lambda>_. clear_end digest dumps backend L)"
proof (rule tripleI)
  fix s s' x
  assume "cleared digest dumps backend L s" "onHost raising (read_file e p) s = (s', Inr x)"
  then show "cleared digest dumps backend L s' \<and> files (host s') p = Some x" by (auto simp: action_simps)
next
  fix s s' x
  assume "cleared digest dumps backend L s" "onHost raising (read_file e p) s = (s', Inl x)"
  then show "clear_end digest dumps backend L s'" by (auto simp: action_simps read_file_def split: option.splits)
qed

lemma clear_backup:
  "triple (\<lambda>s. launches (host s) = L) (backup_ranges child digest backend [(0, RRAM_END)])
     (\<lambda>_ s. \<exists>l t item. backed_up digest backend L l t item s) (\<lambda>_. clear_end digest dumps backend L)"
  by (rule triple_weaken [OF backup_whole_rram]) auto

lemma clear_rram_triple:
  assumes "temporary (path_join (run_dir backend) ''backup.json'') = path_join (run_dir backend) (''.backup.json.'' @ rand)"
  shows "triple (\<lambda>s. launches (host s) = L) (clear_rram child digest dumps temporary backend)
    (\<lambda>_ s. cleared digest dumps backend L s \<and> files (host s) (path_join (run_dir backend) ''clear-readback.bin'') = Some cleared_bytes)
    (\<lambda>_. clear_end digest dumps backend L)"
  unfolding clear_rram_def Let_def
  apply (rule triple_bindA [OF clear_prepare], (simp; fail))+
  apply (rule triple_bindA [OF clear_backup])
  apply (intro triple_some)
  subgoal for _ _ _ _ _ _ _ _ _ _ _ l t item
    apply (rule triple_bindA [OF clear_reported [where v = "identity_json t"]])
      apply (auto simp: backed_up_def) [2]
    apply (rule triple_fact)
    apply (rule triple_bindA [OF clear_reported [where v = "JList [backup_json item]"]])
      apply (auto simp: backed_up_def) [2]
    apply (rule triple_fact)
    apply hypsubst
    apply (rule triple_bindA [OF publish_triple [OF assms]])
    apply (rule triple_bindA [OF clear_ready], simp)
    apply (unfold identity_guard_of pure_py_def mapE.simps)
    apply (rule triple_bindA [OF triple_liftA])
     apply (auto simp: one_more_def) [1]
    apply (rule triple_fact)
    apply (simp only: sum.inject)
    apply hypsubst
    apply (rule triple_bindA [OF clear_ready], (simp; fail))+
    apply (rule triple_bindA [OF clear_launch_triple])
    apply (rule triple_bindA [OF clear_readback])
    apply (rule triple_bindA [OF triple_requireA], simp)
    apply (rule triple_fact)
    apply hypsubst
    apply (rule triple_bindA [OF clear_done], (simp; fail))+
    apply (rule clear_done, simp)
    done
  done

text \<open>A bench whose child dumps the same bytes twice.\<close>

definition dumping :: "bytes \<Rightarrow> (path \<times> bytes) list \<Rightarrow> unit child" where
  "dumping data others = bench_child (\<lambda>fs _ p.
     if p \<in> {''/run/backup-0-1.bin'', ''/run/backup-0-2.bin''} then Some data
     else case map_of others p of Some content \<Rightarrow> Some content | None \<Rightarrow> fs p)"

definition fresh_state :: "unit cmd_state" where
  "fresh_state = \<lparr>host = bench_world (\<lambda>_. None), report = []\<rparr>"

lemma bench_names:
  "run_dir bench = ''/run''" "backup_bin ''/run'' 0 1 = ''/run/backup-0-1.bin''" "backup_bin ''/run'' 0 2 = ''/run/backup-0-2.bin''"
  "backup_hex ''/run'' 0 = ''/run/backup-0.hex''"
  by (simp_all add: bench_def backup_bin_def backup_hex_def path_join_def dec.simps hex_digit_def)

lemma bench_backup:
  assumes rs: "backup_merged rs = [(a, b)]" "rs \<noteq> []" "list_all (\<lambda>(a, b). a mod 16 = 0 \<and> b mod 16 = 0 \<and> a < b) rs"
      "require_allowed rs [(0, RRAM_END)] = Inr ()"
    and data: "int (length data) = b - a" "addressed_hex a data = Inr out"
  shows "\<exists>s'. backup_ranges (dumping data others) digest bench rs s = (s', Inr ())"
proof -
  have "\<exists>dumps. dump_commands ''/run'' [(a, b)] = Inr dumps"
    by (simp add: dump_commands_def dump_command_def bench_names [simplified] tcl_word_def tcl_special_def)
  then obtain dumps where dumps: "dump_commands ''/run'' [(a, b)] = Inr dumps" ..
  have aligned: "\<not> (rs = [] \<or> list_ex (\<lambda>(a, b). a mod 16 \<noteq> 0 \<or> b mod 16 \<noteq> 0 \<or> b \<le> a) rs)"
    using rs(2,3) by (fastforce simp: list_ex_iff list_all_iff)
  note guard = requireA_def [of "\<not> (rs = [] \<or> list_ex (\<lambda>(a, b). a mod 16 \<noteq> 0 \<or> b mod 16 \<noteq> 0 \<or> b \<le> a) rs)", unfolded if_P [OF aligned]]
  define act where "act = (\<lambda>(fs :: filesystem) (argv :: string list) p.
     if p \<in> {''/run/backup-0-1.bin'', ''/run/backup-0-2.bin''} then Some data
     else case map_of others p of Some content \<Rightarrow> Some content | None \<Rightarrow> fs p)"
  have child: "dumping data others = bench_child act" by (simp add: dumping_def act_def)
  have kept: "\<exists>w'' item. keep_backup digest ''/run'' (0, a, b) w' = (w'', Inr item)"
    if "files w' ''/run/backup-0-1.bin'' = Some data" "files w' ''/run/backup-0-2.bin'' = Some data" for w' :: "unit host"
    using that data by (simp add: keep_backup_def Let_def bench_names bench_names [simplified] bindA_def read_file_def requireA_def pureA_def liftA_def
        write_file_def seal_def updateA_def)
  obtain h1 where run: "ocd_run (dumping data others) bench ''backup'' (join_str [LF] (''halt'' # dumps)) (host s) = (h1, Inr bench_output)"
    and h1: "files h1 ''/run/backup-0-1.bin'' = Some data" "files h1 ''/run/backup-0-2.bin'' = Some data"
    unfolding child bench_run Let_def by (simp add: path_join_def act_def)
  from kept [OF h1] obtain h2 item where "keep_backup digest ''/run'' (0, a, b) h1 = (h2, Inr item)" by blast
  then have "mapA (keep_backup digest ''/run'') (enumerate 0 [(a, b)]) h1 = (h2, Inr [item])"
    by (simp add: action_simps)
  with dumps run show ?thesis
    unfolding backup_ranges_def Let_def rs(1) pure_defs bench_names(1) guard
    by (simp add: rs(4) bench_reports bindA_def liftA_def pureA_def onHost_def put_report_def updateA_def
        del: mapA.simps enumerate_simps join_str.simps require_allowed.simps)
qed

theorem backup_ranges_faithful_witness:
  "\<exists>s' backups. backup_ranges (dumping (replicate 32 0xA5) []) (\<lambda>_. ''d'') bench [(0x20, 0x30), (0x10, 0x20)] fresh_state = (s', Inr ())
    \<and> covers (backup_merged [(0x20, 0x30), (0x10, 0x20)]) = {0x10..<0x30}
    \<and> map_of (report s') ''backups'' = Some (JList (map backup_json backups))
    \<and> saved (\<lambda>_. ''d'') ''/run'' (host s') 0 (0x10, 0x30) (backups ! 0)"
proof -
  define rs :: "(int \<times> int) list" where "rs = [(0x20, 0x30), (0x10, 0x20)]"
  have m: "backup_merged rs = [(0x10, 0x30)]" by (simp add: rs_def backup_merged_def less_eq_prod_def)
  obtain out where "addressed_hex 0x10 (replicate 32 0xA5) = Inr out"
    using addressed_hex_parsed [where start = "0x10" and data = "replicate 32 0xA5"] by auto
  from bench_backup [OF m _ _ _ _ this, of "[]" "\<lambda>_. ''d''" fresh_state] obtain s'
    where run: "backup_ranges (dumping (replicate 32 0xA5) []) (\<lambda>_. ''d'') bench rs fresh_state = (s', Inr ())"
    by (auto simp: rs_def FORBIDDEN_RANGES_def)
  from backup_ranges_faithful [OF run] obtain backups where b: "covers (backup_merged rs) = covers rs"
    "map_of (report s') ''backups'' = Some (JList (map backup_json backups))" "length backups = length (backup_merged rs)"
    "\<forall>i < length backups. saved (\<lambda>_. ''d'') (run_dir bench) (host s') i (backup_merged rs ! i) (backups ! i)" by blast
  from b(3,4) have "saved (\<lambda>_. ''d'') ''/run'' (host s') 0 (0x10, 0x30) (backups ! 0)" by (simp add: m bench_names(1))
  moreover have "covers rs = {0x10..<0x30}" by (auto simp: rs_def)
  ultimately show ?thesis using run b(1,2) unfolding rs_def by blast
qed

text \<open>
  C28. Clearing never starts before the original bytes are safe: whatever happens, at most two children
  are launched, the first on the backup script and the second on the clearing script; when the second is
  launched, the files it sees hold a published \<open>backup.json\<close> naming a backup of the whole ordinary RRAM that
  parses to the dumped bytes, and its script refuses any target but the one backed up before it halts and
  writes. Clearing succeeds only if the read-back is all ones.
\<close>

theorem clear_rram_ordered:
  assumes "temporary (path_join (run_dir backend) ''backup.json'') = path_join (run_dir backend) (''.backup.json.'' @ rand)"
    and "clear_rram child digest dumps temporary backend s = (s', r)"
  shows "\<exists>ls. launches (host s') = launches (host s) @ ls \<and> length ls \<le> 2
    \<and> (\<forall>l \<in> set (take 1 ls). runs_script backend ''backup'' l) \<and> (\<forall>l \<in> set (drop 1 ls). clear_launch digest dumps backend l)
    \<and> (r = Inr () \<longrightarrow> length ls = 2
         \<and> files (host s') (path_join (run_dir backend) ''clear-readback.bin'') = Some (replicate (nat RRAM_END) 0xFF))"
proof -
  note t = clear_rram_triple [where temporary = temporary and backend = backend and L = "launches (host s)", OF assms(1)]
  show ?thesis
  proof (cases r)
    case (Inl e)
    from triple_Inl [OF t refl assms(2) [unfolded Inl]] Inl show ?thesis
      by (auto simp: one_more_def cleared_def)
  next
    case (Inr x)
    from triple_Inr [OF t refl assms(2) [unfolded Inr]] Inr show ?thesis
      by (auto simp: cleared_def cleared_bytes_def)
  qed
qed

lemma bindA_returns:
  "m s = (s1, Inr x) \<Longrightarrow> \<exists>s'. f x s1 = (s', Inr y) \<Longrightarrow> \<exists>s'. bindA m f s = (s', Inr y)"
  by (simp add: bindA_def)

lemma bindA_returns_any:
  "\<exists>s1. m s = (s1, Inr x) \<Longrightarrow> (\<And>s1. m s = (s1, Inr x) \<Longrightarrow> \<exists>s'. f x s1 = (s', Inr y)) \<Longrightarrow> \<exists>s'. bindA m f s = (s', Inr y)"
  by (auto simp: bindA_def)

lemma put_report_returns: "put_report k v s = (s\<lparr>report := AList.update k v (report s)\<rparr>, Inr ())"
  by (simp add: action_simps)

abbreviation bench_clear :: "unit cmd_state \<times> (ocd_cmd_error + unit)" where
  "bench_clear \<equiv> clear_rram (dumping (replicate (nat RRAM_END) 0x5A) [(''/run/clear-readback.bin'', replicate (nat RRAM_END) 0xFF)])
     (\<lambda>_. ''d'') (\<lambda>_. ''{}'') (\<lambda>p. ''/run/.backup.json.x1'') bench fresh_state"

lemma bench_clear_returns: "\<exists>s'. bench_clear = (s', Inr ())"
proof -
  have len: "length cleared_bytes = 2084864" by (simp add: cleared_bytes_def)
  have ne: "cleared_bytes \<noteq> []" using len by auto
  obtain out where out: "addressed_hex 0 cleared_bytes = Inr out" and
    img: "\<And>fs p. fs p = Some (ascii_encode out) \<Longrightarrow> parse_ihex fs p = Inr \<lparr>image_path = p, ranges = [(0, RRAM_END)], entry = None\<rparr>"
    using addressed_hex_parsed [of 0 cleared_bytes] ne by (auto simp: len)
  have dumped: "\<exists>out. addressed_hex 0 (replicate (nat RRAM_END) 0x5A) = Inr out"
    using addressed_hex_parsed [of 0 "replicate (nat RRAM_END) 0x5A"] by auto
  define child where "child = dumping (replicate (nat RRAM_END) 0x5A) [(''/run/clear-readback.bin'', cleared_bytes)]"
  have allowed: "require_allowed [(0, RRAM_END)] [(0, RRAM_END)] = Inr ()" by (simp add: FORBIDDEN_RANGES_def)
  have backup: "\<exists>s'. backup_ranges child (\<lambda>_. ''d'') bench [(0, RRAM_END)] s = (s', Inr ())" for s
    using dumped allowed unfolding child_def by (elim exE, intro bench_backup [OF whole_rram_merged]) auto
  have words: "tcl_word ''/run/clear-rram.hex'' = Inr ''{/run/clear-rram.hex}''" "tcl_word ''/run/clear-readback.bin'' = Inr ''{/run/clear-readback.bin}''"
    by (simp_all add: tcl_word_def tcl_special_def)
  have readback: "\<exists>w'. ocd_run child bench ''clear'' commands w = (w', Inr bench_output) \<and> files w' ''/run/clear-readback.bin'' = Some cleared_bytes"
    for commands w unfolding child_def dumping_def bench_run Let_def by (simp add: path_join_def)
  have clears: "\<exists>s'. onHost Ocd (ocd_run child bench ''clear'' commands) s = (s', Inr bench_output)" for commands s
    using readback [of commands "host s"] by (auto simp: onHost_def)
  have clears_to: "files (host s') ''/run/clear-readback.bin'' = Some cleared_bytes"
    if "onHost Ocd (ocd_run child bench ''clear'' commands) s = (s', Inr bench_output)" for commands s s'
    using readback [of commands "host s"] that by (auto simp: onHost_eq)
  have "\<exists>s'. clear_rram child (\<lambda>_. ''d'') (\<lambda>_. ''{}'') (\<lambda>p. ''/run/.backup.json.x1'') bench fresh_state = (s', Inr ())"
    unfolding clear_rram_def Let_def bench_names(1) pure_defs path_join_def append.simps
    apply (rule bindA_returns, simp add: out liftA_def)
    apply (rule bindA_returns, simp add: onHost_def write_file_def updateA_def)
    apply (rule bindA_returns, simp add: onHost_def seal_def updateA_def)
    apply (rule bindA_returns, simp add: readA_def)
    apply (rule bindA_returns, simp add: img liftA_def)
    apply (rule bindA_returns, simp add: allowed liftA_def del: require_allowed.simps)
    apply (rule bindA_returns, simp add: requireA_def pureA_def)
    apply (rule bindA_returns, rule put_report_returns)
    apply (rule bindA_returns, simp add: sha256_def liftA_def)
    apply (rule bindA_returns, rule put_report_returns)
    apply (rule bindA_returns_any, rule backup)
    apply (drule triple_Inr [OF backup_whole_rram refl])
    apply (elim exE)
    apply (rule bindA_returns, simp add: backed_up_def get_report_def)
    apply (rule bindA_returns, simp add: backed_up_def get_report_def)
    apply (rule bindA_returns, simp add: onHost_def atomic_json_def Let_def)
    apply (rule bindA_returns, rule put_report_returns)
    apply (rule bindA_returns, simp add: identity_guard_of liftA_def)
    apply (rule bindA_returns, rule put_report_returns)
    apply (rule bindA_returns, simp add: words liftA_def)
    apply (rule bindA_returns, simp add: words liftA_def)
    apply (rule bindA_returns_any, rule clears)
    apply (drule clears_to)
    apply (rule bindA_returns, simp add: onHost_def read_file_def)
    apply (rule bindA_returns, simp add: requireA_def pureA_def)
    apply (rule bindA_returns, rule put_report_returns)
    apply (rule bindA_returns, rule put_report_returns)
    apply (simp add: put_report_returns)
    done
  then show ?thesis by (simp add: child_def cleared_bytes_def)
qed

theorem clear_rram_ordered_witness:
  "\<exists>s' l1 l2. bench_clear = (s', Inr ()) \<and> launches (host s') = [l1, l2]
    \<and> runs_script bench ''backup'' l1 \<and> clear_launch (\<lambda>_. ''d'') (\<lambda>_. ''{}'') bench l2
    \<and> files (host s') ''/run/clear-readback.bin'' = Some (replicate (nat RRAM_END) 0xFF)"
proof -
  have tmp: "(\<lambda>p. ''/run/.backup.json.x1'') (path_join (run_dir bench) ''backup.json'') = path_join (run_dir bench) (''.backup.json.'' @ ''x1'')"
    by (simp add: bench_names path_join_def)
  have start: "launches (host fresh_state) = []" by (simp add: fresh_state_def bench_world_def)
  obtain s' where run: "bench_clear = (s', Inr ())" using bench_clear_returns by blast
  from clear_rram_ordered [where temporary = "\<lambda>p. ''/run/.backup.json.x1''", OF tmp run] start obtain l1 l2
    where "launches (host s') = [l1, l2]" "runs_script bench ''backup'' l1" "clear_launch (\<lambda>_. ''d'') (\<lambda>_. ''{}'') bench l2"
      "files (host s') (path_join (run_dir bench) ''clear-readback.bin'') = Some (replicate (nat RRAM_END) 0xFF)"
    by (auto simp: numeral_2_eq_2 length_Suc_conv)
  then show ?thesis using run by (auto simp: bench_names path_join_def)
qed

end
