(* ===== verification/Openocd_Restore.thy ===== *)
theory Openocd_Restore
  imports Openocd_Cli_Correct
begin

section \<open>Correctness of restoring a backup\<close>

text \<open>
  What the restore command of \<open>openocd_cli.py\<close> writes, and to which target.
\<close>

text \<open>
  The \<open>i\<close>-th snapshot of a restore, in a filesystem: its content has the recorded digest, it parses, its
  ranges are the declared ones, inside the allowlist and inside ordinary RRAM.
\<close>

definition restored :: "(bytes \<Rightarrow> string) \<Rightarrow> path \<Rightarrow> json list list \<Rightarrow> filesystem \<Rightarrow> nat \<Rightarrow> json \<Rightarrow> bool" where
  "restored digest dir allow fs i item \<longleftrightarrow>
     (\<exists>h expected img declared. sha256 digest fs (restore_hex dir i) = Inr h
        \<and> jitem item ''sha256'' = Inr expected \<and> py_eq (JStr h) expected
        \<and> parse_ihex fs (restore_hex dir i) = Inr img
        \<and> require_allowed_json (ranges img) allow = Inr () \<and> require_allowed (ranges img) [(0, RRAM_END)] = Inr ()
        \<and> bindR (jitem item ''range'') jiter = Inr declared
        \<and> py_eq (ranges_json (ranges img)) (JList [JList declared]))"

lemma restored_cong: "fs' (restore_hex dir i) = fs (restore_hex dir i) \<Longrightarrow> restored digest dir allow fs' i item = restored digest dir allow fs i item"
  by (simp add: restored_def parse_ihex_def ihex_text_def sha256_def)

lemma restore_item_step:
  assumes "restore_item digest dir allow (i, item) w = (w', Inr p)"
  shows "(\<forall>q. q \<noteq> restore_hex dir i \<longrightarrow> files w' q = files w q) \<and> set (sealed w) \<subseteq> set (sealed w') \<and> quiet w w'
    \<and> (restored digest dir allow (files w') i item \<and> p = restore_hex dir i)"
proof -
  from assms obtain content source h expected img declared where
    "files w source = Some content" and w': "w' = w\<lparr>files := (files w)(restore_hex dir i := Some content), sealed := sealed w @ [restore_hex dir i]\<rparr>"
    and r: "sha256 digest (files w') (restore_hex dir i) = Inr h" "jitem item ''sha256'' = Inr expected" "py_eq (JStr h) expected"
      "parse_ihex (files w') (restore_hex dir i) = Inr img" "require_allowed_json (ranges img) allow = Inr ()"
      "require_allowed (ranges img) [(0, RRAM_END)] = Inr ()" "bindR (jitem item ''range'') jiter = Inr declared"
      "py_eq (ranges_json (ranges img)) (JList [JList declared])" "p = restore_hex dir i"
    unfolding restore_item_def prod.case Let_def pure_defs
    by (auto simp: action_simps write_file_def seal_def simp del: require_allowed.simps py_eq.simps jitem_Inr_iff split: if_splits)
  have "restored digest dir allow (files w') i item"
    unfolding restored_def by (intro exI [of _ h] exI [of _ expected] exI [of _ img] exI [of _ declared] conjI r(1-8))
  with w' r(9) show ?thesis by (auto simp: quiet_def)
qed

lemma restore_items:
  assumes "mapA (restore_item digest dir allow) (enumerate 0 items) w = (w', Inr snaps)"
  shows "snaps = map (restore_hex dir) [0..<length items]" "\<forall>i < length items. restored digest dir allow (files w') i (items ! i)"
    "quiet w w'" "\<forall>q. (\<forall>j. q \<noteq> restore_hex dir j) \<longrightarrow> files w' q = files w q"
proof -
  have frame: "restored digest dir allow (files v') i item \<and> y = restore_hex dir i"
    if "restored digest dir allow (files v) i item \<and> y = restore_hex dir i"
      and "\<And>q. (\<And>j. i < j \<Longrightarrow> q \<noteq> restore_hex dir j) \<Longrightarrow> files v' q = files v q" for v v' :: "'a host" and i item y
    using that(1) restored_cong [of "files v'" dir i "files v"] that(2) [of "restore_hex dir i"] by simp
  have "length snaps = length items \<and> (\<forall>i < length items. restored digest dir allow (files w') (0 + i) (items ! i) \<and> snaps ! i = restore_hex dir (0 + i))
    \<and> (\<forall>q. (\<forall>j \<ge> 0. q \<noteq> restore_hex dir j) \<longrightarrow> files w' q = files w q) \<and> quiet w w' \<and> set (sealed w) \<subseteq> set (sealed w')"
    by (rule mapA_jobs [where P = "\<lambda>w i item p. restored digest dir allow (files w) i item \<and> p = restore_hex dir i" and out = "restore_hex dir",
          OF restore_item_step _ assms], assumption, erule frame; blast)
  then show "snaps = map (restore_hex dir) [0..<length items]" "\<forall>i < length items. restored digest dir allow (files w') i (items ! i)"
    "quiet w w'" "\<forall>q. (\<forall>j. q \<noteq> restore_hex dir j) \<longrightarrow> files w' q = files w q"
    by (auto intro: nth_equalityI)
qed

lemma triple_pure_py: "(\<And>e s. P s \<Longrightarrow> E e s) \<Longrightarrow> triple P (pure_py r) (\<lambda>x s. P s \<and> r = Inr x) E"
  and triple_pure_ocd: "(\<And>e s. P s \<Longrightarrow> E e s) \<Longrightarrow> triple P (pure_ocd q) (\<lambda>x s. P s \<and> q = Inr x) E"
  by (auto intro!: tripleI simp: pure_defs action_simps)

lemma triple_host_read: "(\<And>e s. P s \<Longrightarrow> E e s) \<Longrightarrow> triple P (onHost raising (read_file e0 p)) (\<lambda>x s. P s \<and> files (host s) p = Some x) E"
  by (auto intro!: tripleI simp: onHost_eq read_file_def split: option.splits)

text \<open>The allowlist a restore is held to.\<close>

definition restore_allowlist :: "json \<Rightarrow> bool \<Rightarrow> json list list \<Rightarrow> bool" where
  "restore_allowlist manifest include_settings allow \<longleftrightarrow>
     (\<exists>d st. bindR (bindR (jitem manifest ''debug_allowlist'') jiter) (mapR jiter) = Inr d
        \<and> (if include_settings then bindR (settings_span manifest) (\<lambda>(a, b). Inr [[JInt a, JInt b]]) else Inr []) = Inr st
        \<and> allow = d @ st)"

lemma restore_allowlistI:
  "bindR (bindR (jitem manifest ''debug_allowlist'') jiter) (mapR jiter) = Inr d \<Longrightarrow>
   (if inc then bindR (settings_span manifest) (\<lambda>(a, b). Inr [[JInt a, JInt b]]) else Inr []) = Inr st \<Longrightarrow>
   restore_allowlist manifest inc (d @ st)"
  unfolding restore_allowlist_def by (intro exI [of _ d] exI [of _ st] conjI refl)

definition write_lines :: "path \<Rightarrow> nat \<Rightarrow> openocd_error + string list" where
  "write_lines dir n = bindR (mapR write_and_verify (map (restore_hex dir) [0..<n])) (\<lambda>c. Inr (concat c))"

text \<open>
  The two launches of a restore: the first child reported the identity the backup records; the files the
  second sees hold every snapshot verified, and its script writes and verifies exactly those.
\<close>

definition restore_launches ::
  "'h child \<Rightarrow> (bytes \<Rightarrow> string) \<Rightarrow> (bytes \<Rightarrow> bool + json) \<Rightarrow> open_ocd \<Rightarrow> json \<Rightarrow> path \<Rightarrow> bool \<Rightarrow> 'h host \<Rightarrow> launch \<Rightarrow> launch \<Rightarrow> bool" where
  "restore_launches child digest decode backend manifest p include_settings h0 l1 l2 \<longleftrightarrow>
     runs_script backend ''restore-identity'' l1 \<and> runs_script backend ''restore'' l2
     \<and> (\<exists>content backup target backups items allow t out h fs lines config.
          files h0 p = Some content \<and> decode content = Inr backup \<and> jget backup ''target'' JNull = Inr target
        \<and> child (outside h0) (launch_files l1) (launch_argv l1) = (h, fs, Completed 0 out)
        \<and> parse_identity out = Inr t \<and> py_eq (identity_json t) target
        \<and> jget backup ''backups'' JNull = Inr backups \<and> jiter backups = Inr items
        \<and> restore_allowlist manifest include_settings allow
        \<and> list_all (\<lambda>i. restored digest (run_dir backend) allow (launch_files l2) i (items ! i)) [0..<length items]
        \<and> write_lines (run_dir backend) (length items) = Inr lines
        \<and> launch_files l2 (script_of backend ''restore'') = Some (utf8_encode
            (config @ ''init'' @ [LF] @ IDENTIFY @ join_str [LF] (''halt'' # lines) @ [LF] @ ''shutdown'' @ [LF])))"

definition leaves_snapshots :: "'h child \<Rightarrow> path \<Rightarrow> bool" where
  "leaves_snapshots child dir \<longleftrightarrow>
     (\<forall>h fs argv h' fs' e i. child h fs argv = (h', fs', e) \<longrightarrow> fs' (restore_hex dir i) = fs (restore_hex dir i))"

lemma restore_names [simp]:
  "script_of backend ''restore'' \<noteq> restore_hex (run_dir backend) i" "script_of backend ''restore-identity'' \<noteq> restore_hex (run_dir backend) i"
  "path_join (run_dir backend) ''restore-identity.log'' \<noteq> restore_hex (run_dir backend) i"
proof -
  have x: "last (restore_hex (run_dir backend) i) = CHR ''x''" by (simp add: restore_hex_def path_join_def)
  have "last (script_of backend ''restore'') = CHR ''l''" "last (script_of backend ''restore-identity'') = CHR ''l''"
    "last (path_join (run_dir backend) ''restore-identity.log'') = CHR ''g''"
    by (simp_all add: script_of_def path_join_def)
  with x show "script_of backend ''restore'' \<noteq> restore_hex (run_dir backend) i"
    "script_of backend ''restore-identity'' \<noteq> restore_hex (run_dir backend) i"
    "path_join (run_dir backend) ''restore-identity.log'' \<noteq> restore_hex (run_dir backend) i" by auto
qed

definition restore_end ::
  "'h child \<Rightarrow> (bytes \<Rightarrow> string) \<Rightarrow> (bytes \<Rightarrow> bool + json) \<Rightarrow> open_ocd \<Rightarrow> json \<Rightarrow> path \<Rightarrow> bool \<Rightarrow> 'h host \<Rightarrow> 'h cmd_state \<Rightarrow> bool" where
  "restore_end child digest decode backend manifest p include_settings h0 s \<longleftrightarrow>
     one_more backend ''restore-identity'' (launches h0) s
     \<or> (\<exists>l1 l2. launches (host s) = launches h0 @ [l1, l2]
          \<and> restore_launches child digest decode backend manifest p include_settings h0 l1 l2)"

lemma triple_onHost:
  assumes "\<And>h' d s. m h = (h', Inl d) \<Longrightarrow> host s = h' \<Longrightarrow> E (raising d) s"
  shows "triple (\<lambda>s. host s = h) (onHost raising m) (\<lambda>x s. \<exists>h'. host s = h' \<and> m h = (h', Inr x)) E"
  using assms by (intro tripleI) (auto simp: onHost_eq)

lemma triple_report: "triple (\<lambda>s. host s = h) (put_report k v) (\<lambda>_ s. host s = h) E"
  by (auto intro!: tripleI simp: put_report_eq)

lemma restore_end_before: "launches (host s) = launches h0 \<Longrightarrow> restore_end child digest decode backend manifest p inc h0 s"
  by (simp add: restore_end_def one_more_def)

lemma restore_item_quiet: "stable quiet (restore_item digest dir allow job)"
  unfolding restore_item_def pure_defs by (auto simp: Let_def split: prod.splits intro!: quiet.stable_bindA)

lemma restore_items_quiet: "mapA (restore_item digest dir allow) jobs h = (h', r) \<Longrightarrow> launches h' = launches h \<and> outside h' = outside h"
  by (drule stableD [OF quiet.stable_mapA [OF restore_item_quiet]]) (simp add: quiet_def)

text \<open>The identity run keeps the snapshots.\<close>

lemma identity_run_keeps:
  assumes "leaves_snapshots child (run_dir backend)" and "ocd_run child backend ''restore-identity'' '''' h1 = (h2, Inr out)"
  shows "\<forall>i. files h2 (restore_hex (run_dir backend) i) = files h1 (restore_hex (run_dir backend) i)"
    "\<exists>l h fs. launches h2 = launches h1 @ [l] \<and> runs_script backend ''restore-identity'' l
      \<and> child (outside h1) (launch_files l) (launch_argv l) = (h, fs, Completed 0 out)"
proof -
  from assms(2) obtain config h fs where c: "child (outside h1) ((files h1)(script_of backend ''restore-identity'' := Some (utf8_encode
        (config @ (''init'' @ [LF] @ IDENTIFY @ '''') @ [LF] @ ''shutdown'' @ [LF]))))
       [ocd_executable backend, ''-s'', ocd_scripts backend, ''-f'', script_of backend ''restore-identity''] = (h, fs, Completed 0 out)"
    and l: "launches h2 = launches h1 @ [\<lparr>launch_argv = [ocd_executable backend, ''-s'', ocd_scripts backend, ''-f'', script_of backend ''restore-identity''],
       launch_files = (files h1)(script_of backend ''restore-identity'' := Some (utf8_encode
        (config @ (''init'' @ [LF] @ IDENTIFY @ '''') @ [LF] @ ''shutdown'' @ [LF])))\<rparr>]"
    and f: "files h2 = fs(path_join (run_dir backend) (''restore-identity'' @ ''.log'') := Some (utf8_encode out))"
    unfolding ocd_run_def by (rule run_script_returns)
  have "fs (restore_hex (run_dir backend) i) = files h1 (restore_hex (run_dir backend) i)" for i
    using assms(1) [unfolded leaves_snapshots_def, rule_format, OF c] not_sym [OF restore_names(2)] by simp
  then show "\<forall>i. files h2 (restore_hex (run_dir backend) i) = files h1 (restore_hex (run_dir backend) i)"
    unfolding f using not_sym [OF restore_names(3)] by simp
  show "\<exists>l h fs. launches h2 = launches h1 @ [l] \<and> runs_script backend ''restore-identity'' l
      \<and> child (outside h1) (launch_files l) (launch_argv l) = (h, fs, Completed 0 out)"
    using c by (simp add: l runs_script_def)
qed

text \<open>The second run, once everything has been checked.\<close>

lemma restore_run_end:
  assumes run: "ocd_run child backend ''restore'' (join_str [LF] (''halt'' # concat commands)) h2 = (h3, r)"
    and l1: "launches h2 = launches h0 @ [l1]" "runs_script backend ''restore-identity'' l1"
      "child (outside h0) (launch_files l1) (launch_argv l1) = (h, fs, Completed 0 out)"
    and facts: "files h0 p = Some content" "decode content = Inr backup" "jget backup ''target'' JNull = Inr target"
      "parse_identity out = Inr t" "py_eq (identity_json t) target" "jget backup ''backups'' JNull = Inr backups" "jiter backups = Inr items"
      "restore_allowlist manifest inc allow"
    and ok: "\<forall>i < length items. restored digest (run_dir backend) allow (files h2) i (items ! i)"
    and commands: "mapR write_and_verify (map (restore_hex (run_dir backend)) [0..<length items]) = Inr commands"
    and s: "host s = h3"
  shows "restore_end child digest decode backend manifest p inc h0 s"
proof -
  from ocd_run_launches [OF run] show ?thesis
  proof (elim disjE exE conjE)
    assume "launches h3 = launches h2"
    with l1(1,2) s show ?thesis by (auto simp: restore_end_def one_more_def)
  next
    fix l2 config
    assume l2: "launches h3 = launches h2 @ [l2]"
      "launch_argv l2 = [ocd_executable backend, ''-s'', ocd_scripts backend, ''-f'', script_of backend ''restore'']"
      "launch_files l2 = (files h2)(script_of backend ''restore'' := Some (utf8_encode (config @ ''init'' @ [LF] @ IDENTIFY
         @ join_str [LF] (''halt'' # concat commands) @ [LF] @ ''shutdown'' @ [LF])))"
    have "restored digest (run_dir backend) allow (launch_files l2) i (items ! i)" if "i < length items" for i
      using ok that restored_cong [of "launch_files l2" "run_dir backend" i "files h2"] not_sym [OF restore_names(1)] by (simp add: l2(3))
    then have all: "list_all (\<lambda>i. restored digest (run_dir backend) allow (launch_files l2) i (items ! i)) [0..<length items]"
      by (simp add: list_all_iff)
    have lines: "write_lines (run_dir backend) (length items) = Inr (concat commands)" by (simp add: write_lines_def commands)
    have text2: "launch_files l2 (script_of backend ''restore'') = Some (utf8_encode (config @ ''init'' @ [LF] @ IDENTIFY
         @ join_str [LF] (''halt'' # concat commands) @ [LF] @ ''shutdown'' @ [LF]))" by (simp add: l2(3))
    have two: "runs_script backend ''restore'' l2" by (simp add: runs_script_def l2(2))
    have "restore_launches child digest decode backend manifest p inc h0 l1 l2"
      unfolding restore_launches_def
      by (intro conjI l1(2) two exI [of _ content] exI [of _ backup] exI [of _ target] exI [of _ backups] exI [of _ items] exI [of _ allow]
          exI [of _ t] exI [of _ out] exI [of _ h] exI [of _ fs] exI [of _ "concat commands"] exI [of _ config] facts l1(3) all lines text2)
    then show ?thesis using l1(1) l2(1) s by (auto simp: restore_end_def)
  qed
qed

lemma restore_write_triple:
  assumes "launches h2 = launches h0 @ [l1]" "runs_script backend ''restore-identity'' l1"
      "child (outside h0) (launch_files l1) (launch_argv l1) = (h, fs, Completed 0 out)"
    and "files h0 p = Some content" "decode content = Inr backup" "jget backup ''target'' JNull = Inr target"
      "parse_identity out = Inr t" "py_eq (identity_json t) target" "jget backup ''backups'' JNull = Inr backups" "jiter backups = Inr items"
      "restore_allowlist manifest inc allow"
    and "\<forall>i < length items. restored digest (run_dir backend) allow (files h2) i (items ! i)"
    and "mapR write_and_verify (map (restore_hex (run_dir backend)) [0..<length items]) = Inr commands"
  shows "triple (\<lambda>s. host s = h2)
    (bindA (onHost Ocd (ocd_run child backend ''restore'' (join_str [LF] (''halt'' # concat commands)))) (\<lambda>_.
       bindA (put_report k1 v1) (\<lambda>_. bindA (put_report k2 v2) (\<lambda>_. put_report k3 v3))))
    (\<lambda>_. restore_end child digest decode backend manifest p inc h0) (\<lambda>_. restore_end child digest decode backend manifest p inc h0)"
proof -
  note over = restore_run_end [where child = child and decode = decode, OF _ assms]
  show ?thesis
    apply (rule triple_bindA [OF triple_onHost])
     apply (erule over, assumption)
    apply (intro triple_some triple_fact)
    apply (rule triple_bindA [OF triple_report])+
    apply (rule triple_weaken [OF triple_report], assumption)
     apply (rule over, assumption+)
    done
qed

lemma ocd_restore_triple:
  assumes "leaves_snapshots child (run_dir backend)"
  shows "triple (\<lambda>s. host s = h0) (ocd_restore child digest decode backend manifest p inc)
    (\<lambda>_. restore_end child digest decode backend manifest p inc h0) (\<lambda>_. restore_end child digest decode backend manifest p inc h0)"
  unfolding ocd_restore_def
  apply (rule triple_bindA [OF triple_onHost])
   apply (simp add: read_file_def restore_end_before split: option.splits)
  apply (intro triple_some triple_fact)
  apply (simp only: read_file_eq, elim conjE, hypsubst)
  apply (rule triple_bindA [OF triple_pure_py], simp add: restore_end_before, rule triple_fact)+
  apply (rule triple_bindA [OF triple_requireA], simp add: restore_end_before, rule triple_fact)
  apply (rule triple_bindA [OF triple_pure_py], simp add: restore_end_before, rule triple_fact)
  apply (rule triple_bindA [OF triple_liftA], simp add: restore_end_before, rule triple_fact)
  apply (rule triple_bindA [OF triple_pure_py], simp add: restore_end_before, rule triple_fact)
  apply (rule triple_bindA [OF triple_onHost])
   apply (drule restore_items_quiet, simp add: restore_end_before)
  apply (intro triple_some triple_fact)
  apply (rule triple_bindA [OF triple_onHost])
   apply (drule ocd_run_launches, drule restore_items_quiet)
   apply (auto simp: restore_end_def one_more_def runs_script_def) [1]
  apply (intro triple_some triple_fact)
  apply (frule restore_items_quiet, frule restore_items(1), drule restore_items(2))
  apply (frule identity_run_keeps(1) [OF assms], drule identity_run_keeps(2) [OF assms])
  apply (elim exE conjE)
  apply (rule triple_bindA [OF triple_pure_ocd], simp add: restore_end_def one_more_def, rule triple_fact)
  apply (rule triple_bindA [OF triple_requireA], simp add: restore_end_def one_more_def, rule triple_fact)
  apply (rule triple_bindA [OF triple_report])
  apply (rule triple_bindA [OF triple_pure_ocd], simp add: restore_end_def one_more_def, rule triple_fact)
  apply hypsubst
  apply (rule restore_write_triple, simp, assumption, simp, assumption, simp split: sum.splits)
        apply assumption+
    apply (erule restore_allowlistI, assumption)
   apply (intro allI impI, subst restored_cong, erule spec, blast)
  apply assumption
  done

text \<open>
  C29. Restoring writes only what was backed up, and only to the target it came from: however the command
  ends, it launched nothing, the identification alone, or the identification and then the writing script; in
  the last case the first child reported exactly the identity the backup records, and in the files the second
  child sees every snapshot has its recorded digest, parses to its declared range inside the allowlist and inside ordinary
  RRAM, and the script writes and verifies those snapshots and nothing else.
\<close>

theorem restore_verified_only:
  assumes "leaves_snapshots child (run_dir backend)"
    and "ocd_restore child digest decode backend manifest p include_settings s = (s', r)"
  shows "\<exists>ls. launches (host s') = launches (host s) @ ls
    \<and> (case ls of
          [] \<Rightarrow> True
        | [l] \<Rightarrow> runs_script backend ''restore-identity'' l
        | [l1, l2] \<Rightarrow> restore_launches child digest decode backend manifest p include_settings (host s) l1 l2
        | _ \<Rightarrow> False)"
proof -
  note t = ocd_restore_triple [OF assms(1), of "host s"]
  have "restore_end child digest decode backend manifest p include_settings (host s) s'"
    using assms(2) triple_Inr [OF t refl] triple_Inl [OF t refl] by (cases r) auto
  then show ?thesis by (auto simp: restore_end_def one_more_def)
qed

lemma bindA_returns_with:
  "m s = (s1, Inr x) \<Longrightarrow> \<exists>s'. f x s1 = (s', Inr y) \<and> Q s' \<Longrightarrow> \<exists>s'. bindA m f s = (s', Inr y) \<and> Q s'"
  by (simp add: bindA_def)

definition bench_backup_report :: json where
  "bench_backup_report = JObj [(''operation'', JStr ''openocd-backup''), (''status'', JStr ''ok''), (''target'', identity_json bench_identity),
     (''backups'', JList [JObj [(''path'', JStr ''/b.hex''), (''sha256'', JStr ''d''), (''range'', JList [JInt 0x10, JInt 0x20])]])]"

abbreviation bench_restore :: "bytes \<Rightarrow> unit cmd_state \<times> (ocd_cmd_error + unit)" where
  "bench_restore content \<equiv> ocd_restore (bench_child (\<lambda>fs _. fs)) (\<lambda>_. ''d'') (\<lambda>_. Inr bench_backup_report) bench
     (JObj [(''debug_allowlist'', JList [JList [JInt 0, JInt 0x1000]])]) ''/b.json'' False
     \<lparr>host = bench_world [''/b.json'' \<mapsto> [], ''/b.hex'' \<mapsto> content], report = []\<rparr>"

lemma bench_restore_returns: "\<exists>content s'. bench_restore content = (s', Inr ()) \<and> length (launches (host s')) = 2"
proof -
  obtain out where out: "\<And>fs p. fs p = Some (ascii_encode out) \<Longrightarrow>
      parse_ihex fs p = Inr \<lparr>image_path = p, ranges = [(0x10, 0x20)], entry = None\<rparr>"
    using addressed_hex_parsed [where start = "0x10" and data = "replicate 16 0xA5"] by auto
  define item where "item = JObj [(''path'', JStr ''/b.hex''), (''sha256'', JStr ''d''), (''range'', JList [JInt 0x10, JInt 0x20])]"
  define w0 where "w0 = bench_world [''/b.json'' \<mapsto> [], ''/b.hex'' \<mapsto> ascii_encode out]"
  define w1 where "w1 = w0\<lparr>files := (files w0)(''/run/restore-0.hex'' := Some (ascii_encode out)), sealed := [''/run/restore-0.hex'']\<rparr>"
  have name: "restore_hex ''/run'' 0 = ''/run/restore-0.hex''" by (simp add: restore_hex_def path_join_def dec.simps hex_digit_def)
  have report_file: "files w0 ''/b.json'' = Some []" by (simp add: w0_def bench_world_def)
  have same_target: "py_eq (identity_json bench_identity) (identity_json bench_identity)"
    by (rule py_eq_refl) (simp add: identity_json_def)
  have restored_one: "mapA (restore_item (\<lambda>_. ''d'') ''/run'' [[JInt 0, JInt 0x1000]]) (enumerate 0 [item]) w0 = (w1, Inr [''/run/restore-0.hex''])"
    unfolding restore_item_def pure_defs w1_def
    by (simp add: item_def name w0_def bench_world_def bindA_def liftA_def readA_def read_file_def write_file_def seal_def updateA_def requireA_def pureA_def
        sha256_def out ranges_json_def jint_pair_def FORBIDDEN_RANGES_def Let_def)
  have launches0: "launches w1 = []" by (simp add: w1_def w0_def bench_world_def)
  have "\<exists>s'. bench_restore (ascii_encode out) = (s', Inr ()) \<and> length (launches (host s')) = 2"
    unfolding ocd_restore_def pure_defs bench_names(1) w0_def [symmetric]
    apply (rule bindA_returns_with, simp add: onHost_def read_file_def report_file)
    apply (rule bindA_returns_with, simp add: liftA_def)
    apply (rule bindA_returns_with, (simp add: liftA_def bench_backup_report_def item_def [symmetric]; fail))+
    apply (rule bindA_returns_with, simp add: requireA_def pureA_def identity_json_def)
    apply (rule bindA_returns_with, simp add: liftA_def)
    apply (rule bindA_returns_with, simp add: liftA_def)
    apply (rule bindA_returns_with, simp add: liftA_def)
    apply (rule bindA_returns_with)
     apply (simp add: onHost_def restored_one del: mapA.simps enumerate_simps)
    apply (rule bindA_returns_with, simp add: onHost_def bench_run Let_def bench_reports)
    apply (rule bindA_returns_with, simp add: liftA_def bench_reports)
    apply (rule bindA_returns_with, simp add: requireA_def pureA_def same_target)
    apply (rule bindA_returns_with, rule put_report_returns)
    apply (rule bindA_returns_with, simp add: write_and_verify_def tcl_word_def tcl_special_def liftA_def)
    apply (rule bindA_returns_with, simp add: onHost_def bench_run Let_def)
    apply (rule bindA_returns_with, rule put_report_returns)
    apply (rule bindA_returns_with, rule put_report_returns)
    apply (simp add: put_report_returns launches0)
    done
  then show ?thesis by blast
qed

theorem restore_verified_only_witness:
  "\<exists>content s' l1 l2. bench_restore content = (s', Inr ()) \<and> launches (host s') = [l1, l2]
    \<and> restore_launches (bench_child (\<lambda>fs _. fs)) (\<lambda>_. ''d'') (\<lambda>_. Inr bench_backup_report) bench
        (JObj [(''debug_allowlist'', JList [JList [JInt 0, JInt 0x1000]])]) ''/b.json'' False
        (bench_world [''/b.json'' \<mapsto> [], ''/b.hex'' \<mapsto> content]) l1 l2"
proof -
  obtain content s' where run: "bench_restore content = (s', Inr ())" and two: "length (launches (host s')) = 2"
    using bench_restore_returns by blast
  have "leaves_snapshots (bench_child (\<lambda>fs _. fs)) (run_dir bench)" by (auto simp: leaves_snapshots_def bench_child_def)
  moreover obtain l1 l2 where l: "launches (host s') = [l1, l2]" using two by (auto simp: numeral_2_eq_2 length_Suc_conv)
  moreover have "launches (bench_world fs) = []" for fs by (simp add: bench_world_def)
  ultimately have "restore_launches (bench_child (\<lambda>fs _. fs)) (\<lambda>_. ''d'') (\<lambda>_. Inr bench_backup_report) bench
        (JObj [(''debug_allowlist'', JList [JList [JInt 0, JInt 0x1000]])]) ''/b.json'' False
        (bench_world [''/b.json'' \<mapsto> [], ''/b.hex'' \<mapsto> content]) l1 l2"
    using restore_verified_only [OF _ run] by simp
  with run l show ?thesis by blast
qed

end
