(* ===== verification/Pyfloat.thy ===== *)
theory Pyfloat
  imports Pytext
begin

section \<open>Python floats\<close>

text \<open>
  IEEE 754 binary64 as Python uses it: a finite value is the rational it denotes, with a zero of either
  sign, and every operation rounds its exact result to the nearest representable
  number, ties to the even significand. Here are the rounding, the arithmetic and comparisons the
  measurement code performs, \<open>float(s)\<close>, and the renderings it prints.
\<close>

datatype pyfloat = Fin rat | NegZero | Infinite bool | NaN

subsection \<open>Rounding\<close>

fun bit_length :: "nat \<Rightarrow> nat" where
  "bit_length n = (if n = 0 then 0 else Suc (bit_length (n div 2)))"

declare bit_length.simps [simp del]

definition pow2 :: "int \<Rightarrow> rat" where
  "pow2 e = (if 0 \<le> e then 2 ^ nat e else 1 / 2 ^ nat (- e))"

text \<open>The exponent of a positive rational: \<open>2^e <= q < 2^(e+1)\<close>.\<close>

definition binary_exponent :: "rat \<Rightarrow> int" where
  "binary_exponent q =
     (case quotient_of q of (n, d) \<Rightarrow>
        let e = int (bit_length (nat n)) - int (bit_length (nat d)) in if pow2 e \<le> q then e else e - 1)"

definition round_positive :: "rat \<Rightarrow> rat" where
  "round_positive q =
     (let e = max (binary_exponent q - 52) (- 1074) in of_int (round_half_even (q / pow2 e)) * pow2 e)"

definition signed_zero :: "bool \<Rightarrow> pyfloat" where
  "signed_zero negative = (if negative then NegZero else Fin 0)"

definition dbl :: "rat \<Rightarrow> pyfloat" where
  "dbl q =
     (if q = 0 then Fin 0
      else let r = round_positive \<bar>q\<bar> in
        if r = 0 then signed_zero (q < 0)
        else if 2 ^ 1024 \<le> r then Infinite (q < 0)
        else Fin (if q < 0 then - r else r))"

subsection \<open>Arithmetic\<close>

fun num :: "pyfloat \<Rightarrow> rat" where
  "num (Fin q) = q"
| "num _ = 0"

fun negative :: "pyfloat \<Rightarrow> bool" where
  "negative (Fin q) = (q < 0)"
| "negative NegZero = True"
| "negative (Infinite s) = s"
| "negative NaN = False"

fun isfinite :: "pyfloat \<Rightarrow> bool" where
  "isfinite (Fin q) = True"
| "isfinite NegZero = True"
| "isfinite _ = False"

fun fneg :: "pyfloat \<Rightarrow> pyfloat" where
  "fneg (Fin q) = (if q = 0 then NegZero else Fin (- q))"
| "fneg NegZero = Fin 0"
| "fneg (Infinite s) = Infinite (\<not> s)"
| "fneg NaN = NaN"

definition fadd :: "pyfloat \<Rightarrow> pyfloat \<Rightarrow> pyfloat" where
  "fadd a b =
     (if a = NaN \<or> b = NaN then NaN
      else case (a, b) of
        (Infinite s, Infinite t) \<Rightarrow> if s = t then Infinite s else NaN
      | (Infinite s, _) \<Rightarrow> Infinite s
      | (_, Infinite t) \<Rightarrow> Infinite t
      | (NegZero, NegZero) \<Rightarrow> NegZero
      | _ \<Rightarrow> dbl (num a + num b))"

definition fsub :: "pyfloat \<Rightarrow> pyfloat \<Rightarrow> pyfloat" where
  "fsub a b = fadd a (fneg b)"

text \<open>The rounded product or quotient of two finite numbers, whose sign is known.\<close>

definition signed_dbl :: "bool \<Rightarrow> rat \<Rightarrow> pyfloat" where
  "signed_dbl s q = (if q = 0 then signed_zero s else dbl q)"

definition fmul :: "pyfloat \<Rightarrow> pyfloat \<Rightarrow> pyfloat" where
  "fmul a b =
     (let s = (negative a \<noteq> negative b) in
      if a = NaN \<or> b = NaN then NaN
      else if \<not> isfinite a \<or> \<not> isfinite b then
        (if isfinite a \<and> num a = 0 \<or> isfinite b \<and> num b = 0 then NaN else Infinite s)
      else signed_dbl s (num a * num b))"

text \<open>\<open>a / b\<close>; \<^const>\<open>None\<close> is \<open>ZeroDivisionError\<close>.\<close>

definition fdiv :: "pyfloat \<Rightarrow> pyfloat \<Rightarrow> pyfloat option" where
  "fdiv a b =
     (let s = (negative a \<noteq> negative b) in
      if isfinite b \<and> num b = 0 then None
      else Some (if a = NaN \<or> b = NaN then NaN
        else if \<not> isfinite a then (if isfinite b then Infinite s else NaN)
        else if \<not> isfinite b then signed_zero s
        else signed_dbl s (num a / num b)))"

text \<open>\<open>a < b\<close> and \<open>a == b\<close>; comparisons with a NaN are false. \<open>min\<close> and \<open>max\<close> keep their first argument when in doubt.\<close>

definition fless :: "pyfloat \<Rightarrow> pyfloat \<Rightarrow> bool" where
  "fless a b =
     (if a = NaN \<or> b = NaN then False
      else case (a, b) of
        (Infinite s, Infinite t) \<Rightarrow> s \<and> \<not> t
      | (Infinite s, _) \<Rightarrow> s
      | (_, Infinite t) \<Rightarrow> \<not> t
      | _ \<Rightarrow> num a < num b)"

definition feq :: "pyfloat \<Rightarrow> pyfloat \<Rightarrow> bool" where
  "feq a b = (if isfinite a \<and> isfinite b then num a = num b else a = b \<and> a \<noteq> NaN)"

definition fle :: "pyfloat \<Rightarrow> pyfloat \<Rightarrow> bool" where
  "fle a b = (fless a b \<or> feq a b)"

definition fmin :: "pyfloat \<Rightarrow> pyfloat \<Rightarrow> pyfloat" where
  "fmin a b = (if fless b a then b else a)"

definition fmax :: "pyfloat \<Rightarrow> pyfloat \<Rightarrow> pyfloat" where
  "fmax a b = (if fless a b then b else a)"

subsection \<open>Text\<close>

text \<open>Digits with single underscores between them, or nothing.\<close>

definition digit_part :: "string \<Rightarrow> string option" where
  "digit_part w =
     (case w of
        [] \<Rightarrow> Some []
      | c # cs \<Rightarrow> (case digit_in 10 c of
          None \<Rightarrow> None
        | Some v \<Rightarrow> if more_digits 10 v cs = None then None else Some (filter (\<lambda>c. c \<noteq> CHR ''_'') w)))"

definition digit_char :: "char \<Rightarrow> bool" where
  "digit_char c \<longleftrightarrow> c = CHR ''_'' \<or> digit_in 10 c \<noteq> None"

definition unsigned_float :: "string \<Rightarrow> rat option" where
  "unsigned_float s =
     (let whole = takeWhile digit_char s; rest = dropWhile digit_char s;
          (fraction, rest') = (case rest of
             c # cs \<Rightarrow> if c = CHR ''.'' then (takeWhile digit_char cs, dropWhile digit_char cs) else ([], rest)
           | [] \<Rightarrow> ([], rest));
          exponent = (case rest' of
             [] \<Rightarrow> Some 0
           | c # cs \<Rightarrow> if c = CHR ''e'' \<or> c = CHR ''E'' then signed_int (\<lambda>w. case digit_part w of
                 Some ds \<Rightarrow> if ds = [] then None else more_digits 10 0 ds | None \<Rightarrow> None) cs
               else None) in
      case (digit_part whole, digit_part fraction, exponent) of
        (Some a, Some b, Some k) \<Rightarrow>
          if a = [] \<and> b = [] then None
          else Some (scale10 (case more_digits 10 0 (a @ b) of Some n \<Rightarrow> of_nat n | None \<Rightarrow> 0) (k - int (length b)))
      | _ \<Rightarrow> None)"

definition ascii_lower :: "string \<Rightarrow> string" where
  "ascii_lower = map (\<lambda>c. if 65 \<le> (of_char c :: nat) \<and> (of_char c :: nat) \<le> 90 then char_of ((of_char c :: nat) + 32) else c)"

definition float_body :: "string \<Rightarrow> pyfloat option" where
  "float_body s =
     (if ascii_lower s \<in> {''inf'', ''infinity''} then Some (Infinite False)
      else if ascii_lower s = ''nan'' then Some NaN
      else map_option dbl (unsigned_float s))"

text \<open>\<open>float(s)\<close>; \<^const>\<open>None\<close> is \<open>ValueError\<close>.\<close>

definition py_float :: "string \<Rightarrow> pyfloat option" where
  "py_float s =
     (case py_strip s of
        [] \<Rightarrow> None
      | c # cs \<Rightarrow>
          if c = CHR ''-'' then map_option fneg (float_body cs)
          else if c = CHR ''+'' then float_body cs
          else float_body (c # cs))"

text \<open>\<open>format(x, '.<p>f')\<close> and \<open>format(x, '.<p>g')\<close>.\<close>

definition format_fixed :: "nat \<Rightarrow> rat \<Rightarrow> string" where
  "format_fixed p x =
     (let ds = zero_fill (Suc p) (dec (nat (round_half_even (x * 10 ^ p)))) in
      with_point (take (length ds - p) ds) (drop (length ds - p) ds))"

definition render :: "(rat \<Rightarrow> string) \<Rightarrow> pyfloat \<Rightarrow> string" where
  "render f x =
     (case x of
        Fin q \<Rightarrow> if q < 0 then ''-'' @ f (- q) else f q
      | NegZero \<Rightarrow> ''-'' @ f 0
      | Infinite s \<Rightarrow> if s then ''-inf'' else ''inf''
      | NaN \<Rightarrow> ''nan'')"

subsection \<open>The order on numbers\<close>

lemma fless_num: "isfinite a \<Longrightarrow> isfinite b \<Longrightarrow> fless a b \<longleftrightarrow> num a < num b"
  by (cases a; cases b) (auto simp: fless_def)

lemma fle_num: "isfinite a \<Longrightarrow> isfinite b \<Longrightarrow> fle a b \<longleftrightarrow> num a \<le> num b"
  by (cases a; cases b) (auto simp: fless_def feq_def fle_def)

lemma fmin_num: "isfinite a \<Longrightarrow> isfinite b \<Longrightarrow> isfinite (fmin a b) \<and> num (fmin a b) = min (num a) (num b)"
  by (auto simp: fmin_def fless_num)

lemma fmax_num: "isfinite a \<Longrightarrow> isfinite b \<Longrightarrow> isfinite (fmax a b) \<and> num (fmax a b) = max (num a) (num b)"
  by (auto simp: fmax_def fless_num)

lemma fmin_fmax_start: "isfinite b \<Longrightarrow> fmin (Infinite False) b = b" "isfinite b \<Longrightarrow> fmax (Infinite True) b = b"
  by (cases b; simp add: fmin_def fmax_def fless_def)+

lemma dbl_cases: "dbl q \<noteq> NaN"
  by (simp add: dbl_def Let_def signed_zero_def)

subsection \<open>Evaluating the rounding\<close>

text \<open>The binary exponent is right, so a result in the normal range is found by rounding its significand.\<close>

lemma pow2_powi: "pow2 e = 2 powi e"
  by (auto simp: pow2_def power_int_def inverse_eq_divide power_one_over)

lemma pow2_add: "pow2 (a + b) = pow2 a * pow2 b"
  by (simp add: pow2_powi power_int_add)

lemma pow2_pos [simp]: "0 < pow2 e"
  by (simp add: pow2_def)

lemma pow2_mono: "a < b \<Longrightarrow> pow2 a < pow2 b"
proof -
  assume "a < b"
  then have "1 < pow2 (b - a)" by (simp add: pow2_def one_less_power)
  then have "pow2 a * 1 < pow2 a * pow2 (b - a)" by (intro mult_strict_left_mono) simp_all
  then show ?thesis by (simp flip: pow2_add)
qed

lemma pow2_less_iff [simp]: "pow2 a < pow2 b \<longleftrightarrow> a < b"
  using pow2_mono [of a b] pow2_mono [of b a] by (cases a b rule: linorder_cases) auto

lemma pow2_nat: "pow2 (int n) = 2 ^ n"
  by (simp add: pow2_def)

lemma bit_length_bounds: "0 < n \<Longrightarrow> 2 ^ (bit_length n - 1) \<le> n \<and> n < 2 ^ bit_length n"
proof (induction n rule: bit_length.induct)
  case (1 n)
  show ?case
  proof (cases "n = 1")
    case True
    then show ?thesis by (simp add: bit_length.simps [of "Suc 0"] bit_length.simps [of 0])
  next
    case False
    with "1.prems" have pos: "0 < n div 2" "n \<noteq> 0" by auto
    obtain k where k: "bit_length (n div 2) = Suc k" using pos by (cases "bit_length (n div 2)") (auto simp: bit_length.simps [of "n div 2"])
    from "1.IH" pos have "2 ^ (bit_length (n div 2) - 1) \<le> n div 2" "n div 2 < 2 ^ bit_length (n div 2)" by auto
    then have "2 * 2 ^ k \<le> n" "n < 2 * 2 ^ Suc k" unfolding k by auto
    then show ?thesis using pos(2) by (simp add: bit_length.simps [of n] k)
  qed
qed
lemma bit_length_pos: "0 < n \<Longrightarrow> 0 < bit_length n"
  by (simp add: bit_length.simps [of n])

lemma binary_exponent_bounds:
  assumes "0 < q"
  shows "pow2 (binary_exponent q) \<le> q \<and> q < pow2 (binary_exponent q + 1)"
proof -
  obtain n d where nd: "quotient_of q = (n, d)" by (cases "quotient_of q")
  then have d: "0 < d" and q: "q = of_int n / of_int d" using quotient_of_denom_pos quotient_of_div by auto
  then have n: "0 < n" using assms by (simp add: zero_less_divide_iff)
  define a b where "a = bit_length (nat n)" and "b = bit_length (nat d)"
  have ab: "0 < a" "0 < b" using n d by (simp_all add: a_def b_def bit_length_pos)
  have "2 ^ (a - 1) \<le> nat n" "nat n < 2 ^ a" "2 ^ (b - 1) \<le> nat d" "nat d < 2 ^ b"
    using bit_length_bounds [of "nat n"] bit_length_bounds [of "nat d"] n d by (auto simp: a_def b_def)
  then have "of_nat (2 ^ (a - 1)) \<le> (of_nat (nat n) :: rat)" "of_nat (nat n) < (of_nat (2 ^ a) :: rat)"
    "of_nat (2 ^ (b - 1)) \<le> (of_nat (nat d) :: rat)" "of_nat (nat d) < (of_nat (2 ^ b) :: rat)"
    by (simp_all only: of_nat_le_iff of_nat_less_iff)
  then have r: "pow2 (int a - 1) \<le> of_int n" "of_int n < pow2 (int a)" "pow2 (int b - 1) \<le> of_int d" "of_int d < pow2 (int b)"
    using ab n d by (simp_all add: pow2_def nat_diff_distrib')
  have up: "q < pow2 (int a - int b + 1)"
  proof -
    have "of_int n < pow2 (int a - int b + 1) * pow2 (int b - 1)" using r(2) by (simp flip: pow2_add)
    also have "\<dots> \<le> pow2 (int a - int b + 1) * of_int d" using r(3) by (simp add: mult_left_mono less_imp_le)
    finally show ?thesis using d by (simp add: q divide_less_eq)
  qed
  have low: "pow2 (int a - int b - 1) \<le> q"
  proof -
    have "pow2 (int a - int b - 1) * of_int d \<le> pow2 (int a - int b - 1) * pow2 (int b)" using r(4) by (simp add: mult_left_mono less_imp_le)
    also have "\<dots> = pow2 (int a - 1)" by (simp flip: pow2_add)
    finally show ?thesis using r(1) d by (simp add: q le_divide_eq)
  qed
  have "binary_exponent q = (if pow2 (int a - int b) \<le> q then int a - int b else int a - int b - 1)"
    by (simp add: binary_exponent_def nd a_def b_def Let_def)
  with up low show ?thesis by auto
qed

lemma binary_exponent_unique:
  assumes "pow2 e \<le> q" and "q < pow2 (e + 1)"
  shows "binary_exponent q = e"
proof -
  have "0 < q" using assms(1) pow2_pos less_le_trans by blast
  from binary_exponent_bounds [OF this] assms
  have "pow2 (binary_exponent q) < pow2 (e + 1)" "pow2 e < pow2 (binary_exponent q + 1)" by linarith+
  then show ?thesis by simp
qed

lemma floor_rat_numeral: "\<lfloor>numeral a / numeral b :: rat\<rfloor> = numeral a div numeral b"
  by (metis floor_divide_of_int_eq of_int_numeral)

lemma round_half_even_bounds: "of_int a \<le> x \<Longrightarrow> a \<le> round_half_even x" "x < of_int b \<Longrightarrow> round_half_even x \<le> b"
proof -
  have r: "\<lfloor>x\<rfloor> \<le> round_half_even x" "round_half_even x \<le> \<lfloor>x\<rfloor> + 1" by (auto simp: round_half_even_def Let_def)
  show "of_int a \<le> x \<Longrightarrow> a \<le> round_half_even x" using r(1) by (metis le_floor_iff order_trans)
  show "x < of_int b \<Longrightarrow> round_half_even x \<le> b" using r(2) by (metis floor_less_iff order_trans zless_imp_add1_zle)
qed

lemma dbl_normal:
  assumes "pow2 e \<le> q" and "q < pow2 (e + 1)" and "- 1022 \<le> e" and "e \<le> 1022"
  shows "dbl q = Fin (of_int (round_half_even (q / pow2 (e - 52))) * pow2 (e - 52))"
proof -
  define m where "m = q / pow2 (e - 52)"
  have q: "0 < q" using assms(1) pow2_pos less_le_trans by blast
  have "pow2 52 \<le> m" "m < pow2 53"
    using assms(1,2) by (simp_all add: m_def le_divide_eq divide_less_eq add.commute flip: pow2_add)
  then have m: "of_int (2 ^ 52) \<le> m" "m < of_int (2 ^ 53)" by (simp_all add: pow2_def)
  note r = round_half_even_bounds(1) [OF m(1)] round_half_even_bounds(2) [OF m(2)]
  define v where "v = of_int (round_half_even m) * pow2 (e - 52)"
  have e: "max (binary_exponent q - 52) (- 1074) = e - 52" using binary_exponent_unique [OF assms(1,2)] assms(3) by simp
  have rp: "round_positive q = v" by (simp only: round_positive_def e Let_def v_def m_def)
  have "0 < (of_int (round_half_even m) :: rat)" using r(1) by simp
  then have v: "0 < v" by (simp add: v_def)
  have "(of_int (round_half_even m) :: rat) \<le> of_int (2 ^ 53)" using r(2) by (simp only: of_int_le_iff)
  then have "v \<le> pow2 53 * pow2 (e - 52)" unfolding v_def by (intro mult_right_mono) (simp_all add: pow2_def)
  also have "\<dots> = pow2 (e + 1)" by (simp add: add.commute flip: pow2_add)
  also have "\<dots> < pow2 1024" using assms(4) by (simp only: pow2_less_iff)
  finally have "v < 2 ^ 1024" by (simp add: pow2_def)
  then have "\<not> 2 ^ 1024 \<le> v" by (simp only: not_le)
  with q v have "dbl q = Fin v" unfolding dbl_def Let_def by (simp add: rp del: power_numeral)
  then show ?thesis by (simp only: v_def m_def)
qed

lemmas dbl_eval = pow2_def round_half_even_def Let_def floor_rat_numeral

subsection \<open>The shortest text of a number\<close>

text \<open>
  \<open>repr(x)\<close> of a finite double: the fewest significant digits that read back as the number, and of those the nearest to it,
  printed with a point and at least one digit on each side of it, or with an exponent when that is below \<open>-4\<close> or at least \<open>16\<close>.
\<close>

definition repr_candidates :: "rat \<Rightarrow> nat \<Rightarrow> (nat \<times> int) list" where
  "repr_candidates x p =
     (let e = decimal_exponent x; k = int p - 1 - e; n = nat \<lfloor>scale10 x k\<rfloor>;
          near = nat (round_half_even (scale10 x k)); other = (if near = n then Suc n else n) in
      filter (\<lambda>(m, k'). dbl (scale10 (of_nat m) (- k')) = Fin x) [(near, k), (other, k)])"

fun repr_search :: "rat \<Rightarrow> nat list \<Rightarrow> nat \<times> int" where
  "repr_search x [] = (0, 0)"
| "repr_search x (p # ps) = (case repr_candidates x p of [] \<Rightarrow> repr_search x ps | c # _ \<Rightarrow> c)"

definition float_repr_positive :: "rat \<Rightarrow> string" where
  "float_repr_positive x =
     (case repr_search x [1..<18] of (m, k) \<Rightarrow>
        let ds = dec m; e = int (length ds) - 1 - k; sig = take 1 ds @ strip_zeros (drop 1 ds) in
        if - 4 \<le> e \<and> e < 0 then ''0.'' @ replicate (nat (- e - 1)) (CHR ''0'') @ sig
        else if 0 \<le> e \<and> e < 16 then
          (if length sig \<le> nat e + 1 then sig @ replicate (nat e + 1 - length sig) (CHR ''0'') @ ''.0''
           else take (nat e + 1) sig @ ''.'' @ drop (nat e + 1) sig)
        else with_point (take 1 sig) (drop 1 sig) @ ''e'' @ (if e < 0 then ''-'' else ''+'') @ zero_fill 2 (dec (nat \<bar>e\<bar>)))"

definition float_repr :: "rat \<Rightarrow> string" where
  "float_repr x = (if x = 0 then ''0.0'' else if x < 0 then ''-'' @ float_repr_positive (- x) else float_repr_positive x)"

end
