(* ===== verification/Serial_Port.thy ===== *)
theory Serial_Port
  imports Process Pyfloat
begin

section \<open>Serial instruments\<close>

text \<open>
  Both power instruments are driven over a serial port. The port remembers every command it was given, and of each whether it was
  written completely, that is, whether the call that sent it returned; what
  the outside world answers is a list of write results (the count a write reports, or \<^const>\<open>None\<close> for an
  operating system error of the write or of the flush that follows it) and a list of looks, one per iteration of a loop that reads with a
  deadline: bytes arrived, the deadline had passed, or the port failed. When no look is left the deadline has passed.
  Both modules repeat the same acquisition code; it is modelled once here, with the
  module's own exceptions as parameters.
\<close>

datatype look = Arrived bytes | Elapsed | Broken

type_synonym sent = "bytes \<times> bool"

record port =
  pt_sent :: "sent list"
  pt_writes :: "nat option list"
  pt_looks :: "look list"
  pt_closed :: bool

definition onPort :: "(port \<Rightarrow> port \<times> ('e + 'a)) \<Rightarrow> (port host, 'e, 'a) action" where
  "onPort f w = (case f (outside w) of (p, r) \<Rightarrow> (w\<lparr>outside := p\<rparr>, r))"

definition onLooks :: "(look list \<Rightarrow> look list \<times> ('e + 'a)) \<Rightarrow> (port host, 'e, 'a) action" where
  "onLooks f = onPort (\<lambda>p. case f (pt_looks p) of (ls, r) \<Rightarrow> (p\<lparr>pt_looks := ls\<rparr>, r))"

text \<open>\<open>command\<close>: a write must be complete; \<open>close\<close>.\<close>

definition serial_command :: "(py_error \<Rightarrow> 'e) \<Rightarrow> 'e \<Rightarrow> bytes \<Rightarrow> (port host, 'e, unit) action" where
  "serial_command raising short data = onPort (\<lambda>p.
     case pt_writes p of
       [] \<Rightarrow> (p\<lparr>pt_sent := pt_sent p @ [(data, True)]\<rparr>, Inr ())
     | None # rest \<Rightarrow> (p\<lparr>pt_sent := pt_sent p @ [(data, False)], pt_writes := rest\<rparr>, Inl (raising OSError))
     | Some n # rest \<Rightarrow> (p\<lparr>pt_sent := pt_sent p @ [(data, n = length data)], pt_writes := rest\<rparr>,
         if n \<noteq> length data then Inl short else Inr ()))"

definition serial_close :: "(port host, 'e, unit) action" where
  "serial_close = onPort (\<lambda>p. (p\<lparr>pt_closed := True\<rparr>, Inr ()))"

subsection \<open>Ports and metadata\<close>

text \<open>What pyserial enumerates, and the key-value text both instruments report.\<close>

record serial_info =
  si_device :: path
  si_vid :: "int option"
  si_pid :: "int option"
  si_product :: "string option"
  si_serial :: "string option"
  si_description :: string
  si_interface :: "string option"

record serial_device =
  sd_port :: path
  sd_serial :: "string option"
  sd_vid :: int
  sd_pid :: int
  sd_description :: string

datatype meta = MetaNum pyfloat | MetaText string | MetaNone

type_synonym metadata = "(string \<times> meta) list"

text \<open>\<open>line.partition(c)\<close>: the part before, whether the separator was there, the part after.\<close>

definition partition_at :: "char \<Rightarrow> string \<Rightarrow> string \<times> bool \<times> string" where
  "partition_at c s = (takeWhile (\<lambda>x. x \<noteq> c) s, c \<in> set s, drop 1 (dropWhile (\<lambda>x. x \<noteq> c) s))"

definition meta_is :: "metadata \<Rightarrow> string \<Rightarrow> int \<Rightarrow> bool" where
  "meta_is m k i = (case map_of m k of Some (MetaNum x) \<Rightarrow> isfinite x \<and> num x = of_int i | _ \<Rightarrow> False)"

definition voltage_bytes :: "int \<Rightarrow> bytes" where
  "voltage_bytes v = [0x0D, word_of_int (v div 256), word_of_int (v mod 256)]"

subsection \<open>Acquisition\<close>

text \<open>The loop of \<open>capture\<close>: the bytes written to the file so far, and how it ended.\<close>

fun acquire :: "(py_error \<Rightarrow> 'e) \<Rightarrow> 'e \<Rightarrow> nat \<Rightarrow> bytes \<Rightarrow> look list \<Rightarrow> look list \<times> bytes \<times> ('e + unit)" where
  "acquire raising timeout wanted received [] =
     ([], received, if wanted \<le> length received then Inr () else Inl timeout)"
| "acquire raising timeout wanted received (look # rest) =
     (if wanted \<le> length received then (look # rest, received, Inr ())
      else case look of
        Arrived chunk \<Rightarrow> acquire raising timeout wanted (received @ take (wanted - length received) chunk) rest
      | Elapsed \<Rightarrow> (rest, received, Inl timeout)
      | Broken \<Rightarrow> (rest, received, Inl (raising OSError)))"

fun drain :: "(py_error \<Rightarrow> 'e) \<Rightarrow> look list \<Rightarrow> look list \<times> ('e + unit)" where
  "drain raising [] = ([], Inr ())"
| "drain raising (Arrived chunk # rest) = drain raising rest"
| "drain raising (Elapsed # rest) = (rest, Inr ())"
| "drain raising (Broken # rest) = (rest, Inl (raising OSError))"

definition open_new :: "(py_error \<Rightarrow> 'e) \<Rightarrow> path \<Rightarrow> ('h host, 'e, unit) action" where
  "open_new raising p w =
     (case files w p of
        Some _ \<Rightarrow> (w, Inl (raising OSError))
      | None \<Rightarrow> (w\<lparr>files := (files w)(p := Some [])\<rparr>, Inr ()))"

definition acquire_file :: "(py_error \<Rightarrow> 'e) \<Rightarrow> 'e \<Rightarrow> path \<Rightarrow> nat \<Rightarrow> (port host, 'e, unit) action" where
  "acquire_file raising timeout p wanted w =
     (case acquire raising timeout wanted [] (pt_looks (outside w)) of (ls, data, r) \<Rightarrow>
        (w\<lparr>files := (files w)(p := Some data), outside := (outside w)\<lparr>pt_looks := ls\<rparr>\<rparr>, r))"

definition capture_window :: "pyfloat \<Rightarrow> bool" where
  "capture_window d \<longleftrightarrow> isfinite d \<and> fle (dbl (1 / 100)) d \<and> fle d (Fin 600)"

definition capture_samples :: "pyfloat \<Rightarrow> nat" where
  "capture_samples d = nat \<lceil>num (fmul d (Fin 100000))\<rceil> + 1"

record acquisition =
  acq_bytes :: nat
  acq_sample_count :: nat

definition serial_capture ::
  "(py_error \<Rightarrow> 'e) \<Rightarrow> 'e \<Rightarrow> 'e \<Rightarrow> 'e \<Rightarrow> path \<Rightarrow> pyfloat \<Rightarrow> (port host, 'e, acquisition) action" where
  "serial_capture raising invalid short timeout p duration =
     bindA (requireA (capture_window duration) invalid) (\<lambda>_.
       let count = capture_samples duration; wanted = count * 4 in
       bindA (finallyA
           (bindA (open_new raising p) (\<lambda>_.
             bindA (serial_command raising short [0x06]) (\<lambda>_. acquire_file raising timeout p wanted)))
           (bindA (serial_command raising short [0x07]) (\<lambda>_. onLooks (drain raising)))) (\<lambda>_.
         pureA \<lparr>acq_bytes = wanted, acq_sample_count = count\<rparr>))"

subsection \<open>What acquisition promises\<close>

lemma acquire_length:
  "acquire raising timeout wanted received looks = (ls, data, r) \<Longrightarrow> length received \<le> wanted \<Longrightarrow>
     length data \<le> wanted \<and> (r = Inr () \<longrightarrow> length data = wanted)"
proof (induction looks arbitrary: received)
  case Nil
  then show ?case by (auto split: if_splits)
next
  case (Cons look rest)
  show ?case
  proof (cases "wanted \<le> length received")
    case False
    show ?thesis
    proof (cases look)
      case (Arrived chunk)
      with Cons.prems False have "acquire raising timeout wanted (received @ take (wanted - length received) chunk) rest = (ls, data, r)"
        by simp
      then show ?thesis by (rule Cons.IH) (use Cons.prems(2) in simp)
    qed (use Cons.prems False in auto)
  qed (use Cons.prems in auto)
qed

lemma onPort_eq [action_simps]:
  "onPort f w = (w', r) \<longleftrightarrow> (\<exists>p. f (outside w) = (p, r) \<and> w' = w\<lparr>outside := p\<rparr>)"
  by (auto simp: onPort_def split: prod.splits)

lemma open_new_eq [action_simps]:
  "open_new raising p w = (w', r) \<longleftrightarrow>
     (if files w p = None then w' = w\<lparr>files := (files w)(p := Some [])\<rparr> \<and> r = Inr () else w' = w \<and> r = Inl (raising OSError))"
  by (auto simp: open_new_def split: option.splits)

lemma acquire_file_eq [action_simps]:
  "acquire_file raising timeout p wanted w = (w', r) \<longleftrightarrow>
     (\<exists>ls data. acquire raising timeout wanted [] (pt_looks (outside w)) = (ls, data, r)
        \<and> w' = w\<lparr>files := (files w)(p := Some data), outside := (outside w)\<lparr>pt_looks := ls\<rparr>\<rparr>)"
  by (auto simp: acquire_file_def split: prod.splits)

lemma serial_command_sent:
  "serial_command raising short data w = (w', r) \<Longrightarrow>
     pt_sent (outside w') = pt_sent (outside w) @ [(data, \<not> isl r)] \<and> files w' = files w \<and> pt_closed (outside w') = pt_closed (outside w)"
  unfolding serial_command_def by (auto simp: action_simps split: list.splits option.splits if_splits)

lemma onLooks_sent:
  "onLooks f w = (w', r) \<Longrightarrow>
     pt_sent (outside w') = pt_sent (outside w) \<and> files w' = files w \<and> pt_closed (outside w') = pt_closed (outside w)"
  unfolding onLooks_def by (auto simp: action_simps split: prod.splits)

text \<open>Every capture that was allowed to start ends by telling the instrument to stop, or trying to.\<close>

definition capture_log :: "sent list \<Rightarrow> bool" where
  "capture_log cmds \<longleftrightarrow> (\<exists>started stopped. cmds \<in> {[([0x07], stopped)], [([0x06], started), ([0x07], stopped)]})"

lemma serial_capture_stops:
  assumes "serial_capture raising invalid short timeout p duration w = (w', r)"
  shows "if capture_window duration
    then \<exists>cmds. pt_sent (outside w') = pt_sent (outside w) @ cmds \<and> capture_log cmds
    else w' = w \<and> r = Inl invalid"
proof (cases "capture_window duration")
  case False
  with assms show ?thesis unfolding serial_capture_def by (cases r) (auto simp: action_simps split: if_splits)
next
  case True
  define body where "body = bindA (open_new raising p) (\<lambda>_. bindA (serial_command raising short [0x06]) (\<lambda>_.
    acquire_file raising timeout p (capture_samples duration * 4)))"
  define stop where "stop = bindA (serial_command raising short [0x07]) (\<lambda>_. onLooks (drain raising))"
  have body: "\<exists>b. pt_sent (outside w1) \<in> {pt_sent (outside w0), pt_sent (outside w0) @ [([0x06], b)]}" if "body w0 = (w1, q)" for w0 w1 q
    using that unfolding body_def
    by (cases q) (auto simp: action_simps dest!: serial_command_sent split: if_splits)
  have stop: "\<exists>b. pt_sent (outside w2) = pt_sent (outside w1) @ [([0x07], b)]" if "stop w1 = (w2, q)" for w1 w2 q
    using that unfolding stop_def by (cases q) (auto simp: action_simps dest!: serial_command_sent onLooks_sent)
  from assms True obtain w1 w2 q1 q2 where "body w = (w1, q1)" "stop w1 = (w2, q2)" "pt_sent (outside w') = pt_sent (outside w2)"
    unfolding serial_capture_def body_def [symmetric] stop_def [symmetric] Let_def
    by (cases r) (auto simp: action_simps)
  with body [of w w1 q1] stop [of w1 w2 q2] True show ?thesis by (auto simp: capture_log_def)
qed

lemma serial_capture_exact:
  assumes "serial_capture raising invalid short timeout p duration w = (w', Inr a)"
  shows "capture_window duration \<and> acq_sample_count a = capture_samples duration \<and> acq_bytes a = 4 * acq_sample_count a
    \<and> files w p = None \<and> (\<exists>data. files w' = (files w)(p := Some data) \<and> length data = acq_bytes a)"
proof -
  from assms obtain w1 w2 w3 u ls data where c: "capture_window duration" "a = \<lparr>acq_bytes = capture_samples duration * 4, acq_sample_count = capture_samples duration\<rparr>"
    "files w p = None" "serial_command raising short [0x06] (w\<lparr>files := (files w)(p := Some [])\<rparr>) = (w1, Inr ())"
    "acquire raising timeout (capture_samples duration * 4) [] (pt_looks (outside w1)) = (ls, data, Inr ())"
    "serial_command raising short [0x07] (w1\<lparr>files := (files w1)(p := Some data), outside := (outside w1)\<lparr>pt_looks := ls\<rparr>\<rparr>) = (w2, Inr ())"
    "onLooks (drain raising) w2 = (w3, Inr u)" "w' = w3"
    unfolding serial_capture_def Let_def
    by (auto simp: action_simps split: if_splits)
  from acquire_length [OF c(5)] serial_command_sent [OF c(4)] serial_command_sent [OF c(6)] onLooks_sent [OF c(7)] c(1-3,8)
  show ?thesis by (intro conjI exI [of _ data]) simp_all
qed

end
