(* ===== verification/Sampling.thy ===== *)
theory Sampling
  imports Serial_Port
begin

section \<open>Decoding a capture\<close>

text \<open>
  The loop of both \<open>decode_capture\<close> functions: 65536-byte reads of a capture, little-endian 32-bit words, one
  decoded current per word, a running tally and one CSV line per sample. Which word gives which
  current, and what else a decoder remembers, is the instrument's; what the loop promises about any
  decoder that keeps its own counts right is proved once, in the locale below.
\<close>

fun chunks_of :: "nat \<Rightarrow> bytes \<Rightarrow> bytes list" where
  "chunks_of n data = (if data = [] \<or> n = 0 then [] else take n data # chunks_of n (drop n data))"

declare chunks_of.simps [simp del]

text \<open>\<open>struct.iter_unpack("<I", chunk)\<close>, which raises on a length that is no multiple of four.\<close>

definition iter_words :: "bytes \<Rightarrow> (nat list) option" where
  "iter_words chunk = (if length chunk mod 4 = 0 then Some (map from_le (chunks_of 4 chunk)) else None)"

record tally =
  ta_index :: nat
  ta_first :: pyfloat
  ta_last :: pyfloat
  ta_sum :: pyfloat
  ta_low :: pyfloat
  ta_peak :: pyfloat
  ta_csv :: string

definition tally_init :: tally where
  "tally_init = \<lparr>ta_index = 0, ta_first = Fin 0, ta_last = Fin 0, ta_sum = Fin 0, ta_low = Infinite False, ta_peak = Infinite True,
     ta_csv = ''time_s,current_a'' @ [LF]\<rparr>"

definition csv_line :: "nat \<Rightarrow> pyfloat \<Rightarrow> string" where
  "csv_line index current =
     render (format_fixed 5) (dbl (of_nat index / 100000)) @ '','' @ render (format_sig 12) current @ [LF]"

definition tally_add :: "pyfloat \<Rightarrow> tally \<Rightarrow> tally" where
  "tally_add current t =
     \<lparr>ta_index = ta_index t + 1, ta_first = (if ta_index t = 0 then current else ta_first t), ta_last = current,
      ta_sum = fadd (ta_sum t) current, ta_low = fmin (ta_low t) current, ta_peak = fmax (ta_peak t) current,
      ta_csv = ta_csv t @ csv_line (ta_index t) current\<rparr>"

definition decode_word :: "(nat \<Rightarrow> ('d, 'e, pyfloat) action) \<Rightarrow> nat \<Rightarrow> ('d \<times> tally, 'e, unit) action" where
  "decode_word sample word s =
     (case s of (d, t) \<Rightarrow> case sample word d of
        (d', Inl e) \<Rightarrow> ((d', t), Inl e)
      | (d', Inr current) \<Rightarrow> ((d', tally_add current t), Inr ()))"

definition decode_chunk :: "'e \<Rightarrow> (nat \<Rightarrow> ('d, 'e, pyfloat) action) \<Rightarrow> bytes \<Rightarrow> ('d \<times> tally, 'e, unit) action" where
  "decode_chunk struct_error sample chunk =
     (case iter_words chunk of None \<Rightarrow> raiseA struct_error | Some ws \<Rightarrow> forA (decode_word sample) ws)"

definition decode_data :: "'e \<Rightarrow> (nat \<Rightarrow> ('d, 'e, pyfloat) action) \<Rightarrow> bytes \<Rightarrow> ('d \<times> tally, 'e, unit) action" where
  "decode_data struct_error sample data = forA (decode_chunk struct_error sample) (chunks_of 65536 data)"

text \<open>The fields of a 32-bit sample both instruments share.\<close>

definition sample_range :: "nat \<Rightarrow> nat" where
  "sample_range word = word div 2 ^ 14 mod 8"

definition adc_code :: "nat \<Rightarrow> pyfloat" where
  "adc_code word = dbl (of_nat (word mod 2 ^ 14 * 4))"

definition adc_scale :: pyfloat where
  "adc_scale = (case fdiv (dbl (18 / 10)) (Fin 163840) of Some x \<Rightarrow> x | None \<Rightarrow> NaN)"

record capture_summary =
  cs_sample_count :: nat
  cs_duration_s :: pyfloat
  cs_range_transitions :: nat
  cs_range_sample_counts :: "nat list"
  cs_negative_samples :: nat
  cs_average_current_a :: pyfloat
  cs_minimum_current_a :: pyfloat
  cs_peak_current_a :: pyfloat
  cs_charge_c :: pyfloat
  cs_estimated_energy_j :: pyfloat

text \<open>Division by a number the source knows to be nonzero raises all the same in the model.\<close>

definition quotient :: "'e \<Rightarrow> pyfloat \<Rightarrow> pyfloat \<Rightarrow> 'e + pyfloat" where
  "quotient zero a b = (case fdiv a b of None \<Rightarrow> Inl zero | Some x \<Rightarrow> Inr x)"

definition tally_duration :: "tally \<Rightarrow> pyfloat" where
  "tally_duration t = dbl (of_nat (ta_index t - 1) / 100000)"

definition tally_charge :: "'e \<Rightarrow> tally \<Rightarrow> 'e + pyfloat" where
  "tally_charge zero t =
     bindR (quotient zero (fadd (ta_first t) (ta_last t)) (Fin 2)) (\<lambda>half.
       quotient zero (fsub (ta_sum t) half) (Fin 100000))"

text \<open>The loop that writes the CSV file: what was written before an exception stays in the file.\<close>

definition decode_to_csv ::
  "(py_error \<Rightarrow> 'e) \<Rightarrow> 'e \<Rightarrow> (nat \<Rightarrow> ('d, 'e, pyfloat) action) \<Rightarrow> 'd \<Rightarrow> bytes \<Rightarrow> path \<Rightarrow> ('h host, 'e, 'd \<times> tally) action" where
  "decode_to_csv raising struct_error sample d data csv =
     bindA (open_new raising csv) (\<lambda>_ w.
       case decode_data struct_error sample data (d, tally_init) of ((d', t), r) \<Rightarrow>
         (w\<lparr>files := (files w)(csv := Some (ascii_encode (ta_csv t)))\<rparr>, case r of Inl e \<Rightarrow> Inl e | Inr _ \<Rightarrow> Inr (d', t)))"

lemma quotient_Inr [result_simps]: "quotient zero a b = Inr x \<longleftrightarrow> fdiv a b = Some x"
  by (simp add: quotient_def split: option.splits)

subsection \<open>Reading in blocks makes no difference\<close>

lemma chunks_of_append:
  "n > 0 \<Longrightarrow> n dvd length xs \<Longrightarrow> chunks_of n (xs @ ys) = chunks_of n xs @ chunks_of n ys"
proof (induction n xs rule: chunks_of.induct)
  case (1 n xs)
  show ?case
  proof (cases "xs = []")
    case True
    then show ?thesis by (simp add: chunks_of.simps)
  next
    case False
    with "1.prems" have "n \<le> length xs" by (auto dest: dvd_imp_le)
    with "1.prems" False "1.IH" show ?thesis
      by (subst (1 2) chunks_of.simps) (auto simp: dvd_diff_nat)
  qed
qed

lemma concat_chunks_of: "n > 0 \<Longrightarrow> concat (chunks_of n xs) = xs"
  by (induction n xs rule: chunks_of.induct) (subst chunks_of.simps, auto)

lemma chunks_of_lengths:
  "c \<in> set (chunks_of n xs) \<Longrightarrow> k dvd n \<Longrightarrow> k dvd length xs \<Longrightarrow> k dvd length c"
proof (induction n xs rule: chunks_of.induct)
  case (1 n xs)
  from "1.prems"(1) have ne: "xs \<noteq> []" "n \<noteq> 0" by (subst (asm) chunks_of.simps; auto split: if_splits)+
  have "k dvd length (take n xs)" using "1.prems"(2,3) by (simp add: min_def)
  moreover have "k dvd length (drop n xs)" using "1.prems"(2,3) by (cases "n \<le> length xs") (auto simp: dvd_diff_nat)
  ultimately show ?case using "1.prems" "1.IH" ne by (subst (asm) chunks_of.simps) auto
qed

lemma length_chunks_of: "n > 0 \<Longrightarrow> n dvd length xs \<Longrightarrow> length (chunks_of n xs) = length xs div n"
proof (induction n xs rule: chunks_of.induct)
  case (1 n xs)
  show ?case
  proof (cases "xs = []")
    case False
    with "1.prems" have "n \<le> length xs" by (auto dest: dvd_imp_le)
    with "1.prems" False "1.IH" show ?thesis
      by (subst chunks_of.simps) (simp add: dvd_diff_nat le_div_geq)
  qed (simp add: chunks_of.simps)
qed

definition words_of :: "bytes \<Rightarrow> nat list" where
  "words_of data = map from_le (chunks_of 4 data)"

lemma forA_append: "forA f (xs @ ys) = bindA (forA f xs) (\<lambda>_. forA f ys)"
proof (induction xs)
  case Nil
  show ?case by (rule ext) (simp add: bindA_def pureA_def)
next
  case (Cons x xs)
  show ?case by (rule ext) (simp add: Cons bindA_def split: prod.splits sum.splits)
qed

lemma decode_chunks:
  assumes "\<forall>c \<in> set cs. 4 dvd length c"
  shows "forA (decode_chunk struct_error sample) cs = forA (decode_word sample) (words_of (concat cs))"
  using assms
proof (induction cs)
  case Nil
  show ?case by (simp add: words_of_def chunks_of.simps)
next
  case (Cons c cs)
  then have c: "4 dvd length c" by simp
  have "decode_chunk struct_error sample c = forA (decode_word sample) (words_of c)"
    using c by (auto simp: decode_chunk_def iter_words_def words_of_def dvd_eq_mod_eq_0)
  moreover have "words_of (concat (c # cs)) = words_of c @ words_of (concat cs)"
    using c by (simp add: words_of_def chunks_of_append)
  ultimately show ?case using Cons by (simp add: forA_append)
qed

lemma decode_word_Inr [action_simps]:
  "decode_word sample w (d, t) = (s, Inr u) \<longleftrightarrow> (\<exists>d' c. sample w d = (d', Inr c) \<and> s = (d', tally_add c t))"
  by (auto simp: decode_word_def split: prod.splits sum.splits)

lemma decode_data_words:
  assumes "length data mod 4 = 0"
  shows "decode_data struct_error sample data = forA (decode_word sample) (words_of data)"
  unfolding decode_data_def
  using decode_chunks [of "chunks_of 65536 data" struct_error sample] chunks_of_lengths [of _ 65536 data 4] assms
  by (simp add: concat_chunks_of dvd_eq_mod_eq_0)

text \<open>What each accepted word establishes of the decoder holds of all the words of a run.\<close>

lemma decode_words_rule:
  assumes "forA (decode_word sample) ws (d, t) = ((d', t'), Inr ())" and "P [] d"
    and "\<And>ws w d d' c. P ws d \<Longrightarrow> sample w d = (d', Inr c) \<Longrightarrow> P (ws @ [w]) d'"
  shows "P ws d'"
  using assms(1)
proof (induction ws arbitrary: d' t' rule: rev_induct)
  case Nil
  with assms(2) show ?case by (simp add: action_simps)
next
  case (snoc w ws)
  from snoc.prems obtain d1 t1 c where "forA (decode_word sample) ws (d, t) = ((d1, t1), Inr ())" "sample w d1 = (d', Inr c)"
    by (auto simp: forA_append action_simps)
  with snoc.IH assms(3) show ?case by blast
qed

subsection \<open>The tally\<close>

definition tally_of :: "pyfloat list \<Rightarrow> tally" where
  "tally_of cs = fold tally_add cs tally_init"

lemma tally_of_snoc: "tally_of (cs @ [c]) = tally_add c (tally_of cs)"
  by (simp add: tally_of_def)

lemma tally_index: "ta_index (tally_of cs) = length cs"
  by (induction cs rule: rev_induct) (auto simp: tally_of_snoc, simp_all add: tally_of_def tally_init_def tally_add_def)

lemma tally_sum: "ta_sum (tally_of cs) = foldl fadd (Fin 0) cs"
  by (induction cs rule: rev_induct) (auto simp: tally_of_snoc tally_add_def, simp add: tally_of_def tally_init_def)

lemma tally_csv: "ta_csv (tally_of cs) = ''time_s,current_a'' @ [LF] @ concat (map (\<lambda>(i, c). csv_line i c) (enumerate 0 cs))"
  by (induction cs rule: rev_induct)
    (auto simp: tally_of_snoc tally_add_def tally_index enumerate_append_eq, simp add: tally_of_def tally_init_def)

lemma tally_ends: "cs \<noteq> [] \<Longrightarrow> ta_first (tally_of cs) = hd cs \<and> ta_last (tally_of cs) = last cs"
proof (induction cs rule: rev_induct)
  case (snoc c cs)
  then show ?case by (cases "cs = []") (auto simp: tally_of_snoc tally_add_def tally_index, simp_all add: tally_of_def tally_init_def tally_add_def)
qed simp

lemma tally_extremes:
  assumes "cs \<noteq> []" and "\<forall>c \<in> set cs. isfinite c"
  shows "isfinite (ta_low (tally_of cs)) \<and> num (ta_low (tally_of cs)) = Min (num ` set cs)
    \<and> isfinite (ta_peak (tally_of cs)) \<and> num (ta_peak (tally_of cs)) = Max (num ` set cs)"
  using assms
proof (induction cs rule: rev_induct)
  case (snoc c cs)
  show ?case
  proof (cases "cs = []")
    case True
    with snoc.prems show ?thesis by (simp add: tally_of_def tally_add_def tally_init_def fmin_fmax_start)
  next
    case False
    with snoc have ih: "isfinite (ta_low (tally_of cs))" "num (ta_low (tally_of cs)) = Min (num ` set cs)"
      "isfinite (ta_peak (tally_of cs))" "num (ta_peak (tally_of cs)) = Max (num ` set cs)" and c: "isfinite c" by auto
    have "Min (num ` set (cs @ [c])) = min (num c) (Min (num ` set cs))" "Max (num ` set (cs @ [c])) = max (num c) (Max (num ` set cs))"
      using False by (simp_all add: Min_insert Max_insert)
    with ih c fmin_num [OF ih(1) c] fmax_num [OF ih(3) c] show ?thesis
      by (simp add: tally_of_snoc tally_add_def min.commute max.commute)
  qed
qed simp

subsection \<open>The interface of a sample decoder\<close>

fun changes :: "nat list \<Rightarrow> nat" where
  "changes (x # y # zs) = (if x \<noteq> y then 1 else 0) + changes (y # zs)"
| "changes _ = 0"

lemma changes_snoc: "changes (xs @ [y]) = changes xs + (if xs \<noteq> [] \<and> last xs \<noteq> y then 1 else 0)"
  by (induction xs rule: changes.induct) auto

text \<open>
  A decoder gives a finite current for each word it accepts, and books the word's range, a change of range and
  a negative current as it does so. It may remember and check more than that.
\<close>

locale sample_decoder =
  fixes sample :: "nat \<Rightarrow> ('d, 'e, pyfloat) action"
    and range_of :: "nat \<Rightarrow> nat"
    and spans :: nat
    and histogram :: "'d \<Rightarrow> nat list"
    and switches :: "'d \<Rightarrow> nat"
    and last_range :: "'d \<Rightarrow> nat option"
    and negatives :: "'d \<Rightarrow> nat"
    and current :: "'d \<Rightarrow> nat \<Rightarrow> pyfloat option"
  assumes sample_step: "sample w d = (d', Inr c) \<Longrightarrow> length (histogram d) = spans \<Longrightarrow>
      current d w = Some c \<and> current d' = current d \<and> isfinite c \<and> range_of w < spans \<and> histogram d' = (histogram d)[range_of w := Suc (histogram d ! range_of w)]
      \<and> last_range d' = Some (range_of w)
      \<and> switches d' = switches d + (if last_range d \<notin> {None, Some (range_of w)} then 1 else 0)
      \<and> negatives d' = negatives d + (if num c < 0 then 1 else 0)"
begin

definition fresh :: "'d \<Rightarrow> bool" where
  "fresh d \<longleftrightarrow> histogram d = replicate spans 0 \<and> switches d = 0 \<and> last_range d = None \<and> negatives d = 0"

definition books :: "nat list \<Rightarrow> pyfloat list \<Rightarrow> 'd \<Rightarrow> bool" where
  "books ws cs d \<longleftrightarrow> map (current d) ws = map Some cs \<and> (\<forall>c \<in> set cs. isfinite c) \<and> (\<forall>w \<in> set ws. range_of w < spans)
     \<and> histogram d = map (\<lambda>k. count_list (map range_of ws) k) [0..<spans]
     \<and> switches d = changes (map range_of ws)
     \<and> last_range d = (if ws = [] then None else Some (range_of (last ws)))
     \<and> negatives d = length (filter (\<lambda>c. num c < 0) cs)"

lemma books_step:
  assumes "books ws cs d" and "sample w d = (d', Inr c)"
  shows "books (ws @ [w]) (cs @ [c]) d'"
proof -
  have len: "length (histogram d) = spans" using assms(1) by (simp add: books_def)
  note step = sample_step [OF assms(2) len]
  have "histogram d' = map (\<lambda>k. count_list (map range_of (ws @ [w])) k) [0..<spans]"
    using step assms(1) by (intro nth_equalityI) (auto simp: books_def nth_list_update)
  with step assms(1) show ?thesis by (auto simp: books_def changes_snoc last_map)
qed

lemma decoded:
  assumes "forA (decode_word sample) ws (d, tally_init) = ((d', t), Inr ())" and "fresh d"
  obtains cs where "books ws cs d'" and "t = tally_of cs" and "current d' = current d"
proof -
  have "\<exists>cs. books ws cs d' \<and> t = tally_of cs \<and> current d' = current d"
    using assms(1)
  proof (induction ws arbitrary: d' t rule: rev_induct)
    case Nil
    with assms(2) show ?case
      by (auto simp: books_def fresh_def action_simps tally_of_def map_replicate_const intro!: exI [of _ "[]"])
  next
    case (snoc w ws)
    from snoc.prems obtain d1 t1 c where s: "forA (decode_word sample) ws (d, tally_init) = ((d1, t1), Inr ())"
      "sample w d1 = (d', Inr c)" "t = tally_add c t1"
      by (auto simp: forA_append action_simps)
    from snoc.IH [OF s(1)] obtain cs where cs: "books ws cs d1" "t1 = tally_of cs" "current d1 = current d" by blast
    have "current d' = current d1" using sample_step [OF s(2)] cs(1) by (simp add: books_def)
    with cs books_step [OF cs(1) s(2)] s(3) show ?case by (intro exI [of _ "cs @ [c]"]) (simp add: tally_of_snoc)
  qed
  with that show thesis by blast
qed

end

end
