(* ===== verification/Ppk2.thy ===== *)
theory Ppk2
  imports Sampling
begin

section \<open>The PPK2\<close>

text \<open>
  Models \<open>src/tools/nrfkit_tools/ppk2.py\<close>: port discovery over what pyserial enumerates, the metadata reader,
  the instrument's commands, bounded captures, the sample decoder with its counter check, and the decoding of a
  capture file into a CSV file and a summary. Wall-clock durations are not modelled; \<open>checks\<close> are the
  answers of the deadline test of the configuration loop, one per iteration.
\<close>

datatype ppk2_error =
    PpkPython py_error
  | PpkZeroDivision
  | PpkStruct
  | PpkSelectOne
  | PpkNonAscii
  | PpkIncompleteMetadata
  | PpkMalformedMetadata
  | PpkShortWrite
  | PpkMetadataTimeout
  | PpkInvalidSetting
  | PpkReadbackDiffers
  | PpkInvalidDuration
  | PpkAcquisitionTimeout
  | PpkNonpositiveResistor
  | PpkDiscontinuity
  | PpkInvalidRange
  | PpkNonfiniteCurrent
  | PpkIncompleteSamples

subsection \<open>Discovery\<close>

definition ppk2_port :: "string option \<Rightarrow> serial_info \<Rightarrow> ppk2_error + serial_device list" where
  "ppk2_port wanted p =
     (if (si_vid p, si_pid p, si_product p) \<noteq> (Some 0x1915, Some 0xC00A, Some ''PPK2'') then Inr []
      else if wanted \<noteq> None \<and> si_serial p \<noteq> wanted then Inr []
      else case si_interface p of
        None \<Rightarrow> Inl (PpkPython OSError)
      | Some content \<Rightarrow>
          if py_strip content \<noteq> ''01'' then Inr []
          else Inr [\<lparr>sd_port = si_device p, sd_serial = si_serial p, sd_vid = 0x1915, sd_pid = 0xC00A,
                    sd_description = si_description p\<rparr>])"

definition ppk2_discover :: "serial_info list \<Rightarrow> string option \<Rightarrow> ppk2_error + serial_device list" where
  "ppk2_discover ports wanted = bindR (mapR (ppk2_port wanted) ports) (\<lambda>found. Inr (concat found))"

definition ppk2_select :: "serial_info list \<Rightarrow> string option \<Rightarrow> ppk2_error + serial_device" where
  "ppk2_select ports wanted =
     bindR (ppk2_discover ports wanted) (\<lambda>devices.
       case devices of
         [d] \<Rightarrow> if sd_serial d = None \<or> sd_serial d = Some '''' then Inl PpkSelectOne else Inr d
       | _ \<Rightarrow> Inl PpkSelectOne)"

subsection \<open>Metadata\<close>

definition ppk2_value :: "string \<Rightarrow> meta" where
  "ppk2_value v = (case py_float v of None \<Rightarrow> MetaText v | Some x \<Rightarrow> if isfinite x then MetaNum x else MetaNone)"

fun ppk2_lines :: "metadata \<Rightarrow> string list \<Rightarrow> ppk2_error + metadata" where
  "ppk2_lines result [] = Inr result"
| "ppk2_lines result (line # rest) =
     (case partition_at (CHR '':'') line of (k, separator, v) \<Rightarrow>
        let key = ascii_lower (py_strip k); val = py_strip v in
        if \<not> separator \<or> key = [] \<or> map_of result key \<noteq> None then Inl PpkMalformedMetadata
        else ppk2_lines (result @ [(key, ppk2_value val)]) rest)"

definition ppk2_parse_metadata :: "bytes \<Rightarrow> ppk2_error + metadata" where
  "ppk2_parse_metadata data =
     (case ascii_decode data of
        None \<Rightarrow> Inl PpkNonAscii
      | Some content \<Rightarrow>
          let lines = splitlines (py_strip content) in
          if lines = [] \<or> py_strip (last lines) \<noteq> ''END'' then Inl PpkIncompleteMetadata
          else ppk2_lines [] (butlast lines))"

subsection \<open>The instrument\<close>

definition ppk2_command :: "bytes \<Rightarrow> (port host, ppk2_error, unit) action" where
  "ppk2_command = serial_command PpkPython PpkShortWrite"

fun ppk2_metadata_loop :: "bytes \<Rightarrow> look list \<Rightarrow> look list \<times> (ppk2_error + bytes)" where
  "ppk2_metadata_loop data [] = ([], Inl PpkMetadataTimeout)"
| "ppk2_metadata_loop data (look # rest) =
     (if 16384 \<le> length data then (look # rest, Inl PpkMetadataTimeout)
      else case look of
        Arrived chunk \<Rightarrow>
          if sublist (ascii_encode ''END'') (data @ chunk) then (rest, Inr (data @ chunk))
          else ppk2_metadata_loop (data @ chunk) rest
      | Elapsed \<Rightarrow> (rest, Inl PpkMetadataTimeout)
      | Broken \<Rightarrow> (rest, Inl (PpkPython OSError)))"

definition ppk2_metadata :: "(port host, ppk2_error, metadata) action" where
  "ppk2_metadata =
     bindA (ppk2_command [0x19]) (\<lambda>_.
       bindA (onLooks (ppk2_metadata_loop [])) (\<lambda>data. liftA (ppk2_parse_metadata data)))"

definition mode_code :: "string \<Rightarrow> int" where
  "mode_code mode = (if mode = ''source'' then 2 else 1)"

fun ppk2_configure_loop :: "int \<Rightarrow> string \<Rightarrow> bool list \<Rightarrow> (port host, ppk2_error, metadata) action" where
  "ppk2_configure_loop voltage mode checks =
     bindA ppk2_metadata (\<lambda>m.
       if meta_is m ''vdd'' voltage \<and> meta_is m ''mode'' (mode_code mode) then pureA m
       else case checks of
         [] \<Rightarrow> raiseA PpkReadbackDiffers
       | late # rest \<Rightarrow> if late then raiseA PpkReadbackDiffers else ppk2_configure_loop voltage mode rest)"

definition ppk2_configure :: "bool list \<Rightarrow> int \<Rightarrow> string \<Rightarrow> (port host, ppk2_error, metadata) action" where
  "ppk2_configure checks voltage mode =
     bindA (requireA (800 \<le> voltage \<and> voltage \<le> 5000 \<and> mode \<in> {''source'', ''ampere''}) PpkInvalidSetting) (\<lambda>_.
       bindA (ppk2_command [0x11, word_of_int (mode_code mode)]) (\<lambda>_.
         bindA (ppk2_command (voltage_bytes voltage)) (\<lambda>_. ppk2_configure_loop voltage mode checks)))"

definition ppk2_power :: "bool \<Rightarrow> (port host, ppk2_error, unit) action" where
  "ppk2_power enabled = ppk2_command [0x0C, of_bool enabled]"

definition ppk2_capture :: "path \<Rightarrow> pyfloat \<Rightarrow> (port host, ppk2_error, acquisition) action" where
  "ppk2_capture = serial_capture PpkPython PpkInvalidDuration PpkShortWrite PpkAcquisitionTimeout"

subsection \<open>The decoder\<close>

record ppk2_decoder =
  pd_coefficients :: "(string \<times> pyfloat) list"
  pd_defaulted :: "string list"
  pd_voltage_v :: pyfloat
  pd_previous_counter :: "nat option"
  pd_previous_range :: "nat option"
  pd_range_transitions :: nat
  pd_range_counts :: "nat list"
  pd_negative_samples :: nat

definition ppk2_defaults :: "(string \<times> rat list) list" where
  "ppk2_defaults =
     [(''r'', [103164 / 100, 10165 / 100, 1015 / 100, 94 / 100, 43 / 1000]), (''gs'', replicate 5 1), (''gi'', replicate 5 1),
      (''o'', replicate 5 0), (''s'', replicate 5 0), (''i'', replicate 5 0), (''ug'', replicate 5 1)]"

definition coefficient_jobs :: "(string \<times> nat \<times> rat) list" where
  "coefficient_jobs = concat (map (\<lambda>(key, values). map (\<lambda>(i, d). (key, i, d)) (enumerate 0 values)) ppk2_defaults)"

fun ppk2_coefficients ::
  "metadata \<Rightarrow> (string \<times> nat \<times> rat) list \<Rightarrow> (string \<times> pyfloat) list \<times> string list \<Rightarrow> ppk2_error + (string \<times> pyfloat) list \<times> string list" where
  "ppk2_coefficients m [] acc = Inr acc"
| "ppk2_coefficients m ((key, i, d) # jobs) (coefficients, defaulted) =
     (let name = key @ dec i;
          known = (case map_of m name of Some (MetaNum x) \<Rightarrow> if isfinite x then Some x else None | _ \<Rightarrow> None);
          v = (case known of Some x \<Rightarrow> x | None \<Rightarrow> dbl d);
          defaulted' = (if known = None then defaulted @ [name] else defaulted) in
      if key = ''r'' \<and> fle v (Fin 0) then Inl PpkNonpositiveResistor
      else ppk2_coefficients m jobs (coefficients @ [(name, v)], defaulted'))"

definition ppk2_Decoder :: "metadata \<Rightarrow> int \<Rightarrow> ppk2_error + ppk2_decoder" where
  "ppk2_Decoder m voltage =
     bindR (ppk2_coefficients m coefficient_jobs ([], [])) (\<lambda>(coefficients, defaulted).
       Inr \<lparr>pd_coefficients = coefficients, pd_defaulted = defaulted, pd_voltage_v = dbl (of_int voltage / 1000),
            pd_previous_counter = None, pd_previous_range = None, pd_range_transitions = 0,
            pd_range_counts = replicate 5 0, pd_negative_samples = 0\<rparr>)"

definition coefficient :: "ppk2_decoder \<Rightarrow> string \<Rightarrow> nat \<Rightarrow> pyfloat" where
  "coefficient d key r = (case map_of (pd_coefficients d) (key @ dec r) of Some x \<Rightarrow> x | None \<Rightarrow> NaN)"

definition sample_counter :: "nat \<Rightarrow> nat" where
  "sample_counter word = word div 2 ^ 18 mod 64"

text \<open>The current of a word, from the coefficients of its range; \<^const>\<open>None\<close> is a division by zero.\<close>

definition ppk2_current :: "ppk2_decoder \<Rightarrow> nat \<Rightarrow> pyfloat option" where
  "ppk2_current d word =
     (let r = sample_range word; c = (\<lambda>key. coefficient d key r) in
      map_option (\<lambda>raw.
          fmul (c ''ug'') (fadd (fadd (fmul raw (fadd (fmul (c ''gs'') raw) (c ''gi''))) (fmul (c ''s'') (pd_voltage_v d))) (c ''i'')))
        (fdiv (fmul (fsub (adc_code word) (c ''o'')) adc_scale) (c ''r'')))"

definition ppk2_sample :: "nat \<Rightarrow> (ppk2_decoder, ppk2_error, pyfloat) action" where
  "ppk2_sample word d =
     (let counter = sample_counter word in
      if (case pd_previous_counter d of None \<Rightarrow> False | Some c \<Rightarrow> counter \<noteq> (c + 1) mod 64) then (d, Inl PpkDiscontinuity)
      else let d1 = d\<lparr>pd_previous_counter := Some counter\<rparr>; r = sample_range word in
        if 5 \<le> r then (d1, Inl PpkInvalidRange)
        else let d2 = d1\<lparr>pd_range_counts := (pd_range_counts d1)[r := Suc (pd_range_counts d1 ! r)],
                         pd_range_transitions := pd_range_transitions d1 + (if pd_previous_range d1 \<notin> {None, Some r} then 1 else 0),
                         pd_previous_range := Some r\<rparr> in
          case ppk2_current d word of
            None \<Rightarrow> (d2, Inl PpkZeroDivision)
          | Some current \<Rightarrow>
              if \<not> isfinite current then (d2, Inl PpkNonfiniteCurrent)
              else (d2\<lparr>pd_negative_samples := pd_negative_samples d2 + of_bool (fless current (Fin 0))\<rparr>, Inr current))"

subsection \<open>Decoding a capture\<close>

record ppk2_summary_record = capture_summary +
  ps_defaulted_coefficients :: "string list"
  ps_calibrated :: bool

definition ppk2_summary :: "ppk2_decoder \<Rightarrow> tally \<Rightarrow> metadata \<Rightarrow> int \<Rightarrow> ppk2_error + ppk2_summary_record" where
  "ppk2_summary d t m voltage =
     bindR (tally_charge PpkZeroDivision t) (\<lambda>charge.
       bindR (quotient PpkZeroDivision charge (tally_duration t)) (\<lambda>average.
         bindR (quotient PpkZeroDivision (fmul charge (dbl (of_int voltage))) (Fin 1000)) (\<lambda>energy.
           Inr \<lparr>cs_sample_count = ta_index t, cs_duration_s = tally_duration t,
                cs_range_transitions = pd_range_transitions d, cs_range_sample_counts = pd_range_counts d,
                cs_negative_samples = pd_negative_samples d, cs_average_current_a = average,
                cs_minimum_current_a = ta_low t, cs_peak_current_a = ta_peak t, cs_charge_c = charge,
                cs_estimated_energy_j = energy, ps_defaulted_coefficients = pd_defaulted d,
                ps_calibrated = meta_is m ''calibrated'' 1\<rparr>)))"

definition ppk2_decode_capture :: "path \<Rightarrow> path \<Rightarrow> metadata \<Rightarrow> int \<Rightarrow> ('h host, ppk2_error, ppk2_summary_record) action" where
  "ppk2_decode_capture raw csv m voltage =
     bindA (liftA (ppk2_Decoder m voltage)) (\<lambda>d.
       bindA (read_file (PpkPython OSError) raw) (\<lambda>data.
         bindA (requireA (8 \<le> length data \<and> length data mod 4 = 0) PpkIncompleteSamples) (\<lambda>_.
           bindA (decode_to_csv PpkPython PpkStruct ppk2_sample d data csv) (\<lambda>(d', t).
             liftA (ppk2_summary d' t m voltage)))))"

end
