(* ===== verification/Blu939.thy ===== *)
theory Blu939
  imports Sampling
begin

section \<open>The BLU939\<close>

text \<open>
  Models \<open>src/tools/nrfkit_tools/blu939.py\<close>: discovery, the stricter metadata reader with its quiet period,
  voltage configuration, power, captures, the decoder without a sample counter, and the decoding of a capture.
  As for the PPK2, wall-clock durations are left out and \<open>checks\<close> are the answers of the deadline test.
\<close>

datatype blu939_error =
    BluPython py_error
  | BluZeroDivision
  | BluStruct
  | BluSelectOne
  | BluNonAscii
  | BluIncompleteMetadata
  | BluMalformedMetadata
  | BluNonfiniteMetadata
  | BluIncompleteCalibration
  | BluNonpositiveResistor
  | BluShortWrite
  | BluMetadataTimeout
  | BluInvalidVoltage
  | BluReadbackDiffers
  | BluInvalidDuration
  | BluAcquisitionTimeout
  | BluInvalidCalibration
  | BluNonfiniteCurrent
  | BluIncompleteSamples

subsection \<open>Discovery\<close>

definition blu939_port :: "string option \<Rightarrow> serial_info \<Rightarrow> serial_device list" where
  "blu939_port wanted p =
     (if (si_vid p, si_pid p) \<noteq> (Some 0x15A2, Some 0x300A) then []
      else if wanted \<noteq> None \<and> si_serial p \<noteq> wanted then []
      else [\<lparr>sd_port = si_device p, sd_serial = si_serial p, sd_vid = 0x15A2, sd_pid = 0x300A,
             sd_description = si_description p\<rparr>])"

definition blu939_discover :: "serial_info list \<Rightarrow> string option \<Rightarrow> serial_device list" where
  "blu939_discover ports wanted = concat (map (blu939_port wanted) ports)"

definition blu939_select :: "serial_info list \<Rightarrow> string option \<Rightarrow> blu939_error + serial_device" where
  "blu939_select ports wanted =
     (case blu939_discover ports wanted of
        [d] \<Rightarrow> if sd_serial d = None \<or> sd_serial d = Some '''' then Inl BluSelectOne else Inr d
      | _ \<Rightarrow> Inl BluSelectOne)"

subsection \<open>Metadata\<close>

definition blu939_split :: "string \<Rightarrow> string \<times> bool \<times> string" where
  "blu939_split line =
     (case partition_at (CHR '':'') line of
        (k, True, v) \<Rightarrow> (k, True, v)
      | (k, False, v) \<Rightarrow> partition_at (CHR ''='') line)"

fun blu939_lines :: "metadata \<Rightarrow> string list \<Rightarrow> blu939_error + metadata" where
  "blu939_lines result [] = Inr result"
| "blu939_lines result (line # rest) =
     (case blu939_split line of (k, separator, v) \<Rightarrow>
        let key = ascii_lower (py_strip k); val = py_strip v in
        if \<not> separator \<or> key = [] \<or> val = [] \<or> map_of result key \<noteq> None then Inl BluMalformedMetadata
        else case py_float val of
          None \<Rightarrow> blu939_lines (result @ [(key, MetaText val)]) rest
        | Some x \<Rightarrow>
            if \<not> isfinite x then Inl BluNonfiniteMetadata
            else blu939_lines (result @ [(key, MetaNum x)]) rest)"

text \<open>\<open>float(result[key])\<close>: text that is no number raises \<open>ValueError\<close>.\<close>

definition meta_float :: "meta \<Rightarrow> py_error + pyfloat" where
  "meta_float v = (case v of
       MetaNum x \<Rightarrow> Inr x
     | MetaText s \<Rightarrow> (case py_float s of None \<Rightarrow> Inl ValueError | Some x \<Rightarrow> Inr x)
     | MetaNone \<Rightarrow> Inl TypeError)"

fun any_nonpositive :: "metadata \<Rightarrow> nat list \<Rightarrow> blu939_error + bool" where
  "any_nonpositive m [] = Inr False"
| "any_nonpositive m (i # rest) =
     (case map_of m (''r'' @ dec i) of
        None \<Rightarrow> Inl (BluPython KeyError)
      | Some v \<Rightarrow> bindR (mapE BluPython (meta_float v)) (\<lambda>x.
          if fle x (Fin 0) then Inr True else any_nonpositive m rest))"

definition blu939_parse_metadata :: "bytes \<Rightarrow> blu939_error + metadata" where
  "blu939_parse_metadata data =
     (case ascii_decode (rev (dropWhile (\<lambda>b. b = 0) (rev data))) of
        None \<Rightarrow> Inl BluNonAscii
      | Some content \<Rightarrow>
          let lines = splitlines content in
          if lines = [] \<or> py_strip (last lines) \<noteq> ''END'' then Inl BluIncompleteMetadata
          else bindR (blu939_lines [] (butlast lines)) (\<lambda>result.
            if list_ex (\<lambda>i. map_of result (''r'' @ dec i) = None \<or> map_of result (''o'' @ dec i) = None) [0..<6]
            then Inl BluIncompleteCalibration
            else bindR (any_nonpositive result [0..<6]) (\<lambda>bad.
              if bad then Inl BluNonpositiveResistor else Inr result)))"

subsection \<open>The instrument\<close>

definition blu939_command :: "bytes \<Rightarrow> (port host, blu939_error, unit) action" where
  "blu939_command = serial_command BluPython BluShortWrite"

text \<open>
  The reading loop: bytes arrive until the \<open>END\<close> line is complete, or an empty read (\<open>Arrived []\<close>) finds the
  quiet period over. Whether it is over is asked only after the first bytes; \<open>overs\<close> answers those questions in order.
\<close>

fun blu939_metadata_loop :: "bool list \<Rightarrow> bytes \<Rightarrow> look list \<Rightarrow> look list \<times> bytes \<times> (blu939_error + unit)" where
  "blu939_metadata_loop overs data [] = ([], data, Inl BluMetadataTimeout)"
| "blu939_metadata_loop overs data (look # rest) =
     (if 16384 \<le> length data then (look # rest, data, Inl BluMetadataTimeout)
      else case look of
        Arrived chunk \<Rightarrow>
          if chunk \<noteq> [] then
            (if sublist (ascii_encode ([LF] @ ''END'' @ [LF])) (data @ chunk) then (rest, data @ chunk, Inr ())
             else blu939_metadata_loop overs (data @ chunk) rest)
          else if data = [] then blu939_metadata_loop overs data rest
          else (case overs of
              [] \<Rightarrow> (rest, data, Inr ())
            | over # later \<Rightarrow> if over then (rest, data, Inr ()) else blu939_metadata_loop later data rest)
      | Elapsed \<Rightarrow> (rest, data, Inl BluMetadataTimeout)
      | Broken \<Rightarrow> (rest, data, Inl (BluPython OSError)))"

text \<open>The instrument object remembers the last response, which a run keeps as evidence.\<close>

record blu939 =
  bl_quiet :: "bool list"
  bl_last_response :: bytes

type_synonym blu_state = "blu939 \<times> port host"

definition onInstrument :: "(port host, 'e, 'a) action \<Rightarrow> (blu_state, 'e, 'a) action" where
  "onInstrument m s = (case s of (b, w) \<Rightarrow> case m w of (w', r) \<Rightarrow> ((b, w'), r))"

definition blu939_metadata :: "(blu_state, blu939_error, metadata) action" where
  "blu939_metadata =
     bindA (onInstrument (blu939_command [0x19])) (\<lambda>_ s.
       case s of (b, w) \<Rightarrow> case blu939_metadata_loop (bl_quiet b) [] (pt_looks (outside w)) of (ls, data, r) \<Rightarrow>
         let w' = w\<lparr>outside := (outside w)\<lparr>pt_looks := ls\<rparr>\<rparr> in
         case r of
           Inl (BluPython e) \<Rightarrow> ((b, w'), Inl (BluPython e))
         | Inl e \<Rightarrow> ((b\<lparr>bl_last_response := data\<rparr>, w'), Inl e)
         | Inr _ \<Rightarrow> ((b\<lparr>bl_last_response := data\<rparr>, w'), blu939_parse_metadata data))"

fun blu939_configure_loop :: "int \<Rightarrow> bool list \<Rightarrow> (blu_state, blu939_error, metadata) action" where
  "blu939_configure_loop voltage checks =
     bindA blu939_metadata (\<lambda>m.
       if meta_is m ''vdd'' voltage then pureA m
       else case checks of
         [] \<Rightarrow> raiseA BluReadbackDiffers
       | late # rest \<Rightarrow> if late then raiseA BluReadbackDiffers else blu939_configure_loop voltage rest)"

definition blu939_configure_voltage :: "bool list \<Rightarrow> int \<Rightarrow> (blu_state, blu939_error, metadata) action" where
  "blu939_configure_voltage checks voltage =
     bindA (requireA (500 \<le> voltage \<and> voltage \<le> 5000) BluInvalidVoltage) (\<lambda>_.
       bindA (onInstrument (blu939_command (voltage_bytes voltage))) (\<lambda>_. blu939_configure_loop voltage checks))"

definition blu939_power :: "bool \<Rightarrow> (blu_state, blu939_error, unit) action" where
  "blu939_power enabled = onInstrument (blu939_command [0x0C, of_bool enabled])"

definition blu939_capture :: "path \<Rightarrow> pyfloat \<Rightarrow> (blu_state, blu939_error, acquisition) action" where
  "blu939_capture p duration =
     onInstrument (serial_capture BluPython BluInvalidDuration BluShortWrite BluAcquisitionTimeout p duration)"

subsection \<open>The decoder\<close>

record blu939_decoder =
  bd_resistors :: "pyfloat list"
  bd_offsets :: "pyfloat list"
  bd_voltage_v :: pyfloat
  bd_previous_range :: "nat option"
  bd_range_transitions :: nat
  bd_range_counts :: "nat list"
  bd_saturated_range_samples :: nat
  bd_negative_samples :: nat

definition blu939_coefficient :: "metadata \<Rightarrow> nat \<Rightarrow> blu939_error + pyfloat \<times> pyfloat" where
  "blu939_coefficient m i =
     (case (map_of m (''r'' @ dec i), map_of m (''o'' @ dec i)) of
        (Some (MetaNum r), Some (MetaNum off)) \<Rightarrow>
          if \<not> isfinite r \<or> fle r (Fin 0) \<or> \<not> isfinite off then Inl BluInvalidCalibration else Inr (r, off)
      | _ \<Rightarrow> Inl BluInvalidCalibration)"

definition blu939_Decoder :: "metadata \<Rightarrow> int \<Rightarrow> blu939_error + blu939_decoder" where
  "blu939_Decoder m voltage =
     bindR (mapR (blu939_coefficient m) [0..<6]) (\<lambda>pairs.
       Inr \<lparr>bd_resistors = map fst pairs, bd_offsets = map snd pairs, bd_voltage_v = dbl (of_int voltage / 1000),
            bd_previous_range = None, bd_range_transitions = 0, bd_range_counts = replicate 6 0,
            bd_saturated_range_samples = 0, bd_negative_samples = 0\<rparr>)"

definition blu939_range :: "nat \<Rightarrow> nat" where
  "blu939_range word = min (sample_range word) 5"

definition blu939_sample :: "nat \<Rightarrow> (blu939_decoder, blu939_error, pyfloat) action" where
  "blu939_sample word d =
     (let r = blu939_range word;
          d2 = d\<lparr>bd_saturated_range_samples := bd_saturated_range_samples d + of_bool (5 < sample_range word),
                 bd_range_counts := (bd_range_counts d)[r := Suc (bd_range_counts d ! r)],
                 bd_range_transitions := bd_range_transitions d + (if bd_previous_range d \<notin> {None, Some r} then 1 else 0),
                 bd_previous_range := Some r\<rparr> in
      case fdiv (fmul (fsub (adc_code word) (bd_offsets d ! r)) adc_scale) (bd_resistors d ! r) of
        None \<Rightarrow> (d2, Inl BluZeroDivision)
      | Some current \<Rightarrow>
          if \<not> isfinite current then (d2, Inl BluNonfiniteCurrent)
          else (d2\<lparr>bd_negative_samples := bd_negative_samples d2 + of_bool (fless current (Fin 0))\<rparr>, Inr current))"

subsection \<open>Decoding a capture\<close>

record blu939_summary_record = capture_summary +
  bs_saturated_range_samples :: nat
  bs_calibration_metadata_flag :: "meta option"

definition blu939_summary :: "blu939_decoder \<Rightarrow> tally \<Rightarrow> metadata \<Rightarrow> blu939_error + blu939_summary_record" where
  "blu939_summary d t m =
     bindR (tally_charge BluZeroDivision t) (\<lambda>charge.
       bindR (quotient BluZeroDivision charge (tally_duration t)) (\<lambda>average.
         Inr \<lparr>cs_sample_count = ta_index t, cs_duration_s = tally_duration t,
              cs_range_transitions = bd_range_transitions d, cs_range_sample_counts = bd_range_counts d,
              cs_negative_samples = bd_negative_samples d, cs_average_current_a = average,
              cs_minimum_current_a = ta_low t, cs_peak_current_a = ta_peak t, cs_charge_c = charge,
              cs_estimated_energy_j = fmul charge (bd_voltage_v d),
              bs_saturated_range_samples = bd_saturated_range_samples d,
              bs_calibration_metadata_flag = map_of m ''calibrated''\<rparr>))"

definition blu939_decode_capture :: "path \<Rightarrow> path \<Rightarrow> metadata \<Rightarrow> int \<Rightarrow> ('h host, blu939_error, blu939_summary_record) action" where
  "blu939_decode_capture raw csv m voltage =
     bindA (liftA (blu939_Decoder m voltage)) (\<lambda>d.
       bindA (read_file (BluPython OSError) raw) (\<lambda>data.
         bindA (requireA (8 \<le> length data \<and> length data mod 4 = 0) BluIncompleteSamples) (\<lambda>_.
           bindA (decode_to_csv BluPython BluStruct blu939_sample d data csv) (\<lambda>(d', t).
             liftA (blu939_summary d' t m)))))"

end
