(* ===== verification/Instruments_Correct.thy ===== *)
theory Instruments_Correct
  imports Ppk2 Blu939
begin

section \<open>Correctness of the instrument decoders\<close>

text \<open>
  Both decoders satisfy the decoder contract, so the summary of a capture is exactly that of its words. The PPK2's words
  carry a 6-bit counter, which an accepted capture continues without a break; a loss of a multiple of 64 samples leaves
  no break, and neither the code nor a theorem here excludes it.
\<close>

lemma ppk2_sample_step:
  assumes "ppk2_sample w d = (d', Inr c)" and "length (pd_range_counts d) = 5"
  shows "ppk2_current d w = Some c \<and> ppk2_current d' = ppk2_current d \<and> isfinite c \<and> sample_range w < 5
      \<and> pd_range_counts d' = (pd_range_counts d)[sample_range w := Suc (pd_range_counts d ! sample_range w)]
      \<and> pd_previous_range d' = Some (sample_range w)
      \<and> pd_range_transitions d' = pd_range_transitions d + (if pd_previous_range d \<notin> {None, Some (sample_range w)} then 1 else 0)
      \<and> pd_negative_samples d' = pd_negative_samples d + (if num c < 0 then 1 else 0)"
proof -
  from assms have c: "ppk2_current d w = Some c" "isfinite c" "\<not> 5 \<le> sample_range w"
    and d': "d' = d\<lparr>pd_previous_counter := Some (sample_counter w),
       pd_range_counts := (pd_range_counts d)[sample_range w := Suc (pd_range_counts d ! sample_range w)],
       pd_range_transitions := pd_range_transitions d + (if pd_previous_range d \<notin> {None, Some (sample_range w)} then 1 else 0),
       pd_previous_range := Some (sample_range w), pd_negative_samples := pd_negative_samples d + of_bool (fless c (Fin 0))\<rparr>"
    unfolding ppk2_sample_def Let_def by (auto split: if_splits option.splits)
  have "ppk2_current d' = ppk2_current d" by (rule ext) (simp add: d' ppk2_current_def coefficient_def)
  with c d' show ?thesis by (simp add: fless_num)
qed

interpretation ppk2: sample_decoder ppk2_sample sample_range 5 pd_range_counts pd_range_transitions pd_previous_range pd_negative_samples ppk2_current
  by unfold_locales (rule ppk2_sample_step)

definition blu939_current :: "blu939_decoder \<Rightarrow> nat \<Rightarrow> pyfloat option" where
  "blu939_current d w =
     fdiv (fmul (fsub (adc_code w) (bd_offsets d ! blu939_range w)) adc_scale) (bd_resistors d ! blu939_range w)"

lemma blu939_sample_step:
  assumes "blu939_sample w d = (d', Inr c)" and "length (bd_range_counts d) = 6"
  shows "blu939_current d w = Some c \<and> blu939_current d' = blu939_current d \<and> isfinite c \<and> blu939_range w < 6
      \<and> bd_range_counts d' = (bd_range_counts d)[blu939_range w := Suc (bd_range_counts d ! blu939_range w)]
      \<and> bd_previous_range d' = Some (blu939_range w)
      \<and> bd_range_transitions d' = bd_range_transitions d + (if bd_previous_range d \<notin> {None, Some (blu939_range w)} then 1 else 0)
      \<and> bd_negative_samples d' = bd_negative_samples d + (if num c < 0 then 1 else 0)"
proof -
  from assms have c: "blu939_current d w = Some c" "isfinite c"
    and d': "d' = d\<lparr>bd_saturated_range_samples := bd_saturated_range_samples d + of_bool (5 < sample_range w),
       bd_range_counts := (bd_range_counts d)[blu939_range w := Suc (bd_range_counts d ! blu939_range w)],
       bd_range_transitions := bd_range_transitions d + (if bd_previous_range d \<notin> {None, Some (blu939_range w)} then 1 else 0),
       bd_previous_range := Some (blu939_range w), bd_negative_samples := bd_negative_samples d + of_bool (fless c (Fin 0))\<rparr>"
    unfolding blu939_sample_def blu939_current_def Let_def by (auto split: if_splits option.splits)
  have "blu939_current d' = blu939_current d" by (rule ext) (simp add: d' blu939_current_def)
  with c d' show ?thesis by (simp add: fless_num blu939_range_def)
qed

interpretation blu939: sample_decoder blu939_sample blu939_range 6 bd_range_counts bd_range_transitions bd_previous_range bd_negative_samples blu939_current
  by unfold_locales (rule blu939_sample_step)

subsection \<open>Decoding a capture file\<close>

lemma decode_to_csv_Inr:
  assumes "decode_to_csv raising struct_error sample d data csv w = (w', Inr (d', t))" and "length data mod 4 = 0"
  shows "forA (decode_word sample) (words_of data) (d, tally_init) = ((d', t), Inr ())"
    and "files w csv = None" and "w' = w\<lparr>files := (files w)(csv := Some (ascii_encode (ta_csv t)))\<rparr>"
  using assms unfolding decode_to_csv_def decode_data_words [OF assms(2)]
  by (auto simp: action_simps split: if_splits prod.splits sum.splits)

definition consecutive :: "nat list \<Rightarrow> bool" where
  "consecutive ws \<longleftrightarrow> (\<forall>i. Suc i < length ws \<longrightarrow> sample_counter (ws ! Suc i) = (sample_counter (ws ! i) + 1) mod 64)"

lemma consecutive_offset:
  assumes "consecutive ws" and "i < length ws"
  shows "sample_counter (ws ! i) = (sample_counter (ws ! 0) + i) mod 64"
  using assms(2)
proof (induction i)
  case 0
  then show ?case by (simp add: sample_counter_def)
next
  case (Suc i)
  then show ?case using assms(1) by (simp add: consecutive_def mod_Suc_eq)
qed

definition counters_run :: "nat list \<Rightarrow> ppk2_decoder \<Rightarrow> bool" where
  "counters_run ws d \<longleftrightarrow> consecutive ws
     \<and> pd_previous_counter d = (if ws = [] then None else Some (sample_counter (last ws)))"

lemma consecutive_snoc:
  assumes "consecutive ws" and "ws \<noteq> [] \<Longrightarrow> sample_counter w = (sample_counter (last ws) + 1) mod 64"
  shows "consecutive (ws @ [w])"
proof -
  have "ws ! i = last ws \<and> ws \<noteq> []" if "Suc i = length ws" for i using that by (cases ws rule: rev_cases) auto
  with assms show ?thesis by (auto simp: consecutive_def nth_append less_Suc_eq)
qed

lemma counters_run_step:
  assumes "counters_run ws d" and "ppk2_sample w d = (d', Inr c)"
  shows "counters_run (ws @ [w]) d'"
proof -
  from assms(2) have "case pd_previous_counter d of None \<Rightarrow> True | Some k \<Rightarrow> sample_counter w = (k + 1) mod 64"
    "pd_previous_counter d' = Some (sample_counter w)"
    unfolding ppk2_sample_def Let_def by (auto split: if_splits option.splits)
  with assms(1) show ?thesis by (auto simp: counters_run_def intro: consecutive_snoc)
qed

lemma ppk2_counted:
  assumes "forA (decode_word ppk2_sample) ws (d, t) = ((d', t'), Inr ())" and "pd_previous_counter d = None"
  shows "consecutive ws"
proof -
  have "counters_run ws d'"
    by (rule decode_words_rule [OF assms(1)]) (simp_all add: counters_run_step, simp add: assms(2) counters_run_def consecutive_def)
  then show ?thesis by (simp add: counters_run_def)
qed

lemma ppk2_defaulted_kept:
  assumes "forA (decode_word ppk2_sample) ws (d, t) = ((d', t'), Inr ())"
  shows "pd_defaulted d' = pd_defaulted d"
  by (rule decode_words_rule [where P = "\<lambda>ws d'. pd_defaulted d' = pd_defaulted d", OF assms])
    (auto simp: ppk2_sample_def Let_def split: if_splits option.splits)

text \<open>The samples whose range code lies outside the calibration table.\<close>

definition saturated :: "nat list \<Rightarrow> nat" where
  "saturated ws = length (filter (\<lambda>w. 5 < sample_range w) ws)"

lemma blu939_saturated_counted:
  assumes "forA (decode_word blu939_sample) ws (d, t) = ((d', t'), Inr ())" and "bd_saturated_range_samples d = 0"
  shows "bd_saturated_range_samples d' = saturated ws \<and> bd_voltage_v d' = bd_voltage_v d"
  by (rule decode_words_rule [where P = "\<lambda>ws d'. bd_saturated_range_samples d' = saturated ws \<and> bd_voltage_v d' = bd_voltage_v d", OF assms(1)])
    (auto simp: assms(2) saturated_def blu939_sample_def Let_def split: if_splits option.splits)

lemma ppk2_Decoder_fresh: "ppk2_Decoder m v = Inr d \<Longrightarrow> ppk2.fresh d \<and> pd_previous_counter d = None"
  by (auto simp: ppk2_Decoder_def ppk2.fresh_def result_simps)

lemma blu939_Decoder_fresh:
  "blu939_Decoder m v = Inr d \<Longrightarrow> blu939.fresh d \<and> bd_saturated_range_samples d = 0 \<and> bd_voltage_v d = dbl (of_int v / 1000)"
  by (auto simp: blu939_Decoder_def blu939.fresh_def result_simps)

text \<open>
  What the summary of a decoded capture says of its words and currents. The samples are 10 microseconds apart, so
  they span one period fewer than there are samples; the charge is the trapezoidal sum of the currents over that span, each operation
  rounded to a double; the average is the charge over the span.
\<close>

definition trapezoid_charge :: "pyfloat list \<Rightarrow> pyfloat option" where
  "trapezoid_charge cs =
     (case fdiv (fadd (hd cs) (last cs)) (Fin 2) of
        None \<Rightarrow> None
      | Some half \<Rightarrow> fdiv (fsub (foldl fadd (Fin 0) cs) half) (Fin 100000))"

definition summarises :: "('a \<Rightarrow> nat) \<Rightarrow> nat \<Rightarrow> 'a list \<Rightarrow> pyfloat list \<Rightarrow> 'z capture_summary_scheme \<Rightarrow> bool" where
  "summarises range_of spans ws cs sm \<longleftrightarrow>
     cs_sample_count sm = length ws \<and> length cs = length ws
     \<and> cs_range_sample_counts sm = map (\<lambda>k. count_list (map range_of ws) k) [0..<spans]
     \<and> cs_range_transitions sm = changes (map range_of ws)
     \<and> cs_negative_samples sm = length (filter (\<lambda>c. num c < 0) cs)
     \<and> num (cs_minimum_current_a sm) = Min (num ` set cs) \<and> num (cs_peak_current_a sm) = Max (num ` set cs)
     \<and> cs_duration_s sm = dbl (of_nat (length ws - 1) / 100000)
     \<and> trapezoid_charge cs = Some (cs_charge_c sm)
     \<and> fdiv (cs_charge_c sm) (cs_duration_s sm) = Some (cs_average_current_a sm)"

lemma tally_charge_Inr:
  "cs \<noteq> [] \<Longrightarrow> tally_charge zero (tally_of cs) = Inr charge \<Longrightarrow> trapezoid_charge cs = Some charge"
  by (auto simp: tally_charge_def trapezoid_charge_def tally_ends tally_sum result_simps)

definition csv_text :: "pyfloat list \<Rightarrow> string" where
  "csv_text cs = ''time_s,current_a'' @ [LF] @ concat (map (\<lambda>(i, c). csv_line i c) (enumerate 0 cs))"

lemma words_of_length: "length data mod 4 = 0 \<Longrightarrow> length (words_of data) = length data div 4"
  by (simp add: words_of_def length_chunks_of dvd_eq_mod_eq_0)

lemma ppk2_summary_of:
  assumes "ppk2_summary d t m v = Inr sm" and "t = tally_of cs" and "ppk2.books ws cs d" and "ws \<noteq> []"
  shows "summarises sample_range 5 ws cs sm"
    and "fdiv (fmul (cs_charge_c sm) (dbl (of_int v))) (Fin 1000) = Some (cs_estimated_energy_j sm)"
    and "ps_defaulted_coefficients sm = pd_defaulted d" and "ps_calibrated sm = meta_is m ''calibrated'' 1"
proof -
  have len: "length cs = length ws" using assms(3) map_eq_imp_length_eq unfolding ppk2.books_def by fastforce
  then have ne: "cs \<noteq> []" using assms(4) by auto
  with assms(3) tally_extremes [of cs] have ends: "num (ta_low t) = Min (num ` set cs)" "num (ta_peak t) = Max (num ` set cs)"
    by (auto simp: ppk2.books_def assms(2))
  from assms(1) obtain charge average energy where
    q: "tally_charge PpkZeroDivision t = Inr charge" "fdiv charge (tally_duration t) = Some average"
      "fdiv (fmul charge (dbl (of_int v))) (Fin 1000) = Some energy"
    and sm: "sm = \<lparr>cs_sample_count = ta_index t, cs_duration_s = tally_duration t,
                cs_range_transitions = pd_range_transitions d, cs_range_sample_counts = pd_range_counts d,
                cs_negative_samples = pd_negative_samples d, cs_average_current_a = average,
                cs_minimum_current_a = ta_low t, cs_peak_current_a = ta_peak t, cs_charge_c = charge,
                cs_estimated_energy_j = energy, ps_defaulted_coefficients = pd_defaulted d,
                ps_calibrated = meta_is m ''calibrated'' 1\<rparr>"
    by (auto simp: ppk2_summary_def result_simps)
  have "trapezoid_charge cs = Some charge" using tally_charge_Inr [OF ne] q(1) assms(2) by simp
  with ends len q(2) assms(3) show "summarises sample_range 5 ws cs sm"
    by (simp add: sm summarises_def ppk2.books_def assms(2) tally_index tally_duration_def)
  show "fdiv (fmul (cs_charge_c sm) (dbl (of_int v))) (Fin 1000) = Some (cs_estimated_energy_j sm)"
    and "ps_defaulted_coefficients sm = pd_defaulted d" and "ps_calibrated sm = meta_is m ''calibrated'' 1"
    by (simp_all add: sm q(3))
qed

lemma blu939_summary_of:
  assumes "blu939_summary d t m = Inr sm" and "t = tally_of cs" and "blu939.books ws cs d" and "ws \<noteq> []"
  shows "summarises blu939_range 6 ws cs sm"
    and "cs_estimated_energy_j sm = fmul (cs_charge_c sm) (bd_voltage_v d)"
    and "bs_saturated_range_samples sm = bd_saturated_range_samples d"
    and "bs_calibration_metadata_flag sm = map_of m ''calibrated''"
proof -
  have len: "length cs = length ws" using assms(3) map_eq_imp_length_eq unfolding blu939.books_def by fastforce
  then have ne: "cs \<noteq> []" using assms(4) by auto
  with assms(3) tally_extremes [of cs] have ends: "num (ta_low t) = Min (num ` set cs)" "num (ta_peak t) = Max (num ` set cs)"
    by (auto simp: blu939.books_def assms(2))
  from assms(1) obtain charge average where
    q: "tally_charge BluZeroDivision t = Inr charge" "fdiv charge (tally_duration t) = Some average"
    and sm: "sm = \<lparr>cs_sample_count = ta_index t, cs_duration_s = tally_duration t,
              cs_range_transitions = bd_range_transitions d, cs_range_sample_counts = bd_range_counts d,
              cs_negative_samples = bd_negative_samples d, cs_average_current_a = average,
              cs_minimum_current_a = ta_low t, cs_peak_current_a = ta_peak t, cs_charge_c = charge,
              cs_estimated_energy_j = fmul charge (bd_voltage_v d),
              bs_saturated_range_samples = bd_saturated_range_samples d,
              bs_calibration_metadata_flag = map_of m ''calibrated''\<rparr>"
    by (auto simp: blu939_summary_def result_simps)
  have "trapezoid_charge cs = Some charge" using tally_charge_Inr [OF ne] q(1) assms(2) by simp
  with ends len q(2) assms(3) show "summarises blu939_range 6 ws cs sm"
    by (simp add: sm summarises_def blu939.books_def assms(2) tally_index tally_duration_def)
  show "cs_estimated_energy_j sm = fmul (cs_charge_c sm) (bd_voltage_v d)"
    and "bs_saturated_range_samples sm = bd_saturated_range_samples d"
    and "bs_calibration_metadata_flag sm = map_of m ''calibrated''"
    by (simp_all add: sm)
qed

text \<open>
  C30. A PPK2 capture decodes only if its sample counters are continuous, and then its summary is exact: the file is
  two or more complete 32-bit words whose 6-bit counters run consecutively, modulo 64, from the first and whose ranges are
  all valid; each word's current is finite and given by the calibration; the range histogram, range changes, negative
  samples, minimum, peak, duration, trapezoidal charge and average are those of the words and their currents, the energy is the charge
  at the configured voltage, the coefficients that were defaulted are named; and the CSV file holds one line per sample.
\<close>

theorem ppk2_decode_continuous:
  assumes "ppk2_decode_capture raw csv m voltage w = (w', Inr sm)"
  shows "\<exists>data d cs. files w raw = Some data \<and> ppk2_Decoder m voltage = Inr d
    \<and> length data = 4 * length (words_of data) \<and> 2 \<le> length (words_of data)
    \<and> list_all (\<lambda>i. sample_counter (words_of data ! i) = (sample_counter (words_of data ! 0) + i) mod 64
         \<and> sample_range (words_of data ! i) < 5) [0..<length (words_of data)]
    \<and> map (ppk2_current d) (words_of data) = map Some cs \<and> list_all isfinite cs
    \<and> summarises sample_range 5 (words_of data) cs sm
    \<and> fdiv (fmul (cs_charge_c sm) (dbl (of_int voltage))) (Fin 1000) = Some (cs_estimated_energy_j sm)
    \<and> ps_defaulted_coefficients sm = pd_defaulted d \<and> ps_calibrated sm = meta_is m ''calibrated'' 1
    \<and> files w' csv = Some (ascii_encode (csv_text cs))"
proof -
  from assms obtain d data d' t where r: "ppk2_Decoder m voltage = Inr d" "files w raw = Some data" "8 \<le> length data" "length data mod 4 = 0"
    "decode_to_csv PpkPython PpkStruct ppk2_sample d data csv w = (w', Inr (d', t))" "ppk2_summary d' t m voltage = Inr sm"
    unfolding ppk2_decode_capture_def by (auto simp: action_simps split: if_splits prod.splits)
  note run = decode_to_csv_Inr [OF r(5,4)]
  note fresh = ppk2_Decoder_fresh [OF r(1)]
  from ppk2.decoded [OF run(1)] fresh obtain cs where cs: "ppk2.books (words_of data) cs d'" "t = tally_of cs" "ppk2_current d' = ppk2_current d"
    by blast
  have len: "length data = 4 * length (words_of data)" "2 \<le> length (words_of data)"
    using r(3,4) words_of_length [OF r(4)] by auto
  then have "words_of data \<noteq> []" by auto
  note sm = ppk2_summary_of [OF r(6) cs(2,1) this, unfolded ppk2_defaulted_kept [OF run(1)]]
  have counters: "list_all (\<lambda>i. sample_counter (words_of data ! i) = (sample_counter (words_of data ! 0) + i) mod 64
         \<and> sample_range (words_of data ! i) < 5) [0..<length (words_of data)]"
    using ppk2_counted [OF run(1)] fresh consecutive_offset cs(1) by (auto simp: list_all_iff ppk2.books_def)
  have currents: "map (ppk2_current d) (words_of data) = map Some cs" "list_all isfinite cs"
    using cs(1,3) by (auto simp: ppk2.books_def list_all_iff)
  have "files w' csv = Some (ascii_encode (csv_text cs))" by (simp add: run(3) cs(2) tally_csv csv_text_def)
  with r(1,2) len sm counters currents show ?thesis by blast
qed

text \<open>
  C31. The summary of a BLU939 capture is exact: the file is two or more complete words, each decoded to the
  finite current its calibration pair gives, with out-of-range codes booked under the highest range and counted as saturated; the
  histogram, range changes, negative samples, minimum, peak, duration, trapezoidal charge and average are those of the words and their
  currents, the energy is the charge at the configured voltage, and the CSV file holds one line per sample.
\<close>

theorem blu939_decode_exact:
  assumes "blu939_decode_capture raw csv m voltage w = (w', Inr sm)"
  shows "\<exists>data d cs. files w raw = Some data \<and> blu939_Decoder m voltage = Inr d
    \<and> length data = 4 * length (words_of data) \<and> 2 \<le> length (words_of data)
    \<and> map (blu939_current d) (words_of data) = map Some cs \<and> list_all isfinite cs
    \<and> summarises blu939_range 6 (words_of data) cs sm
    \<and> bs_saturated_range_samples sm = saturated (words_of data)
    \<and> cs_estimated_energy_j sm = fmul (cs_charge_c sm) (dbl (of_int voltage / 1000))
    \<and> bs_calibration_metadata_flag sm = map_of m ''calibrated''
    \<and> files w' csv = Some (ascii_encode (csv_text cs))"
proof -
  from assms obtain d data d' t where r: "blu939_Decoder m voltage = Inr d" "files w raw = Some data" "8 \<le> length data" "length data mod 4 = 0"
    "decode_to_csv BluPython BluStruct blu939_sample d data csv w = (w', Inr (d', t))" "blu939_summary d' t m = Inr sm"
    unfolding blu939_decode_capture_def by (auto simp: action_simps split: if_splits prod.splits)
  note run = decode_to_csv_Inr [OF r(5,4)]
  from blu939_Decoder_fresh [OF r(1)] have fresh: "blu939.fresh d" "bd_saturated_range_samples d = 0"
    and volts: "bd_voltage_v d = dbl (of_int voltage / 1000)" by auto
  from blu939.decoded [OF run(1) fresh(1)] obtain cs
    where cs: "blu939.books (words_of data) cs d'" "t = tally_of cs" "blu939_current d' = blu939_current d" by blast
  from blu939_saturated_counted [OF run(1) fresh(2)] volts
  have kept: "bd_saturated_range_samples d' = saturated (words_of data)" "bd_voltage_v d' = dbl (of_int voltage / 1000)" by auto
  have len: "length data = 4 * length (words_of data)" "2 \<le> length (words_of data)"
    using r(3,4) words_of_length [OF r(4)] by auto
  then have "words_of data \<noteq> []" by auto
  note sm = blu939_summary_of [OF r(6) cs(2,1) this, unfolded kept]
  have currents: "map (blu939_current d) (words_of data) = map Some cs" "list_all isfinite cs"
    using cs(1,3) by (auto simp: blu939.books_def list_all_iff)
  have "files w' csv = Some (ascii_encode (csv_text cs))" by (simp add: run(3) cs(2) tally_csv csv_text_def)
  with r(1,2) len sm currents show ?thesis by blast
qed

subsection \<open>A bench\<close>

text \<open>Unit resistors and zero offsets, and a capture of two zero readings with consecutive counters.\<close>

lemma dbl_values:
  "dbl 0 = Fin 0" "dbl 1 = Fin 1" "dbl 3000 = Fin 3000" "dbl 3 = Fin 3"
  "dbl (1 / 100000) = Fin (5902958103587057 / 590295810358705651712)"
  apply (simp add: dbl_def)
  apply (subst dbl_normal [where e = 0]; simp add: dbl_eval)
  apply (subst dbl_normal [where e = 11]; simp add: dbl_eval)
  apply (subst dbl_normal [where e = 1]; simp add: dbl_eval)
  apply (subst dbl_normal [where e = "-17"]; simp add: dbl_eval)
  done
lemma adc_scale_value: "adc_scale = Fin (3242591731706757 / 295147905179352825856)"
proof -
  have "dbl (18 / 10) = Fin (8106479329266893 / 4503599627370496)"
    by (subst dbl_normal [where e = 0]) (simp_all add: dbl_eval)
  then show ?thesis unfolding adc_scale_def fdiv_def signed_dbl_def Let_def
    by (simp add: signed_zero_def) (subst dbl_normal [where e = "- 17"], simp_all add: dbl_eval)
qed
lemma zero_arithmetic:
  "fsub (Fin 0) (Fin 0) = Fin 0" "fmul (Fin 0) (Fin 1) = Fin 0" "fmul (Fin 1) (Fin 0) = Fin 0" "fmul (Fin 0) (Fin 3) = Fin 0"
  "fadd (Fin 0) (Fin 0) = Fin 0" "fadd (Fin 0) (Fin 1) = Fin 1" "fdiv (Fin 0) (Fin 1) = Some (Fin 0)" "fmul (Fin 0) adc_scale = Fin 0"
  by (simp_all add: fsub_def fadd_def fmul_def fdiv_def signed_dbl_def signed_zero_def dbl_values adc_scale_value Let_def)

lemma small_decs: "dec 0 = ''0''" "dec (Suc 0) = ''1''" "dec (Suc (Suc 0)) = ''2''" "dec (Suc (Suc (Suc 0))) = ''3''"
  "dec (Suc (Suc (Suc (Suc 0)))) = ''4''" "dec (Suc (Suc (Suc (Suc (Suc 0))))) = ''5''"
  by (simp_all add: dec.simps hex_digit_def)

definition bench_meta :: metadata where
  "bench_meta = [(''r0'', MetaNum (Fin 1)), (''r1'', MetaNum (Fin 1)), (''r2'', MetaNum (Fin 1)), (''r3'', MetaNum (Fin 1)), (''r4'', MetaNum (Fin 1)), (''r5'', MetaNum (Fin 1)),
 (''o0'', MetaNum (Fin 0)), (''o1'', MetaNum (Fin 0)), (''o2'', MetaNum (Fin 0)), (''o3'', MetaNum (Fin 0)), (''o4'', MetaNum (Fin 0)), (''o5'', MetaNum (Fin 0))]"

lemma coefficient_jobs_list: "coefficient_jobs = concat (map (\<lambda>(key, d0, d1, d2, d3, d4). [(key, 0, d0), (key, Suc 0, d1), (key, Suc (Suc 0), d2), (key, Suc (Suc (Suc 0)), d3),
     (key, Suc (Suc (Suc (Suc 0))), d4)])
   [(''r'', 103164 / 100, 10165 / 100, 1015 / 100, 94 / 100, 43 / 1000), (''gs'', 1, 1, 1, 1, 1), (''gi'', 1, 1, 1, 1, 1),
    (''o'', 0, 0, 0, 0, 0), (''s'', 0, 0, 0, 0, 0), (''i'', 0, 0, 0, 0, 0), (''ug'', 1, 1, 1, 1, 1)])"
  by (simp add: coefficient_jobs_def ppk2_defaults_def numeral_nat)

definition calibrated :: "metadata \<Rightarrow> string \<times> nat \<times> rat \<Rightarrow> pyfloat option" where
  "calibrated m = (\<lambda>(key, i, d). case map_of m (key @ dec i) of Some (MetaNum x) \<Rightarrow> if isfinite x then Some x else None | _ \<Rightarrow> None)"

definition coefficient_value :: "metadata \<Rightarrow> string \<times> nat \<times> rat \<Rightarrow> pyfloat" where
  "coefficient_value m job = (case calibrated m job of Some x \<Rightarrow> x | None \<Rightarrow> case job of (key, i, d) \<Rightarrow> dbl d)"

lemma ppk2_coefficients_step:
  "ppk2_coefficients m (job # jobs) (cs, ds) =
     (if fst job = ''r'' \<and> fle (coefficient_value m job) (Fin 0) then Inl PpkNonpositiveResistor
      else ppk2_coefficients m jobs (cs @ [(fst job @ dec (fst (snd job)), coefficient_value m job)],
             if calibrated m job = None then ds @ [fst job @ dec (fst (snd job))] else ds))"
  by (cases job) (simp only: ppk2_coefficients.simps Let_def coefficient_value_def calibrated_def prod.case fst_conv snd_conv)

lemma ppk2_coefficients_closed:
  "ppk2_coefficients m jobs (cs, ds) =
     (if list_ex (\<lambda>job. fst job = ''r'' \<and> fle (coefficient_value m job) (Fin 0)) jobs then Inl PpkNonpositiveResistor
      else Inr (cs @ map (\<lambda>job. (fst job @ dec (fst (snd job)), coefficient_value m job)) jobs,
                ds @ map (\<lambda>job. fst job @ dec (fst (snd job))) (filter (\<lambda>job. calibrated m job = None) jobs)))"
proof (induction jobs arbitrary: cs ds)
  case (Cons job jobs)
  show ?case unfolding ppk2_coefficients_step Cons.IH by simp
qed simp

definition bench_coefficients :: "(string \<times> pyfloat) list" where
  "bench_coefficients =
  [(''r0'', Fin 1), (''r1'', Fin 1), (''r2'', Fin 1), (''r3'', Fin 1), (''r4'', Fin 1),
   (''gs0'', Fin 1), (''gs1'', Fin 1), (''gs2'', Fin 1), (''gs3'', Fin 1), (''gs4'', Fin 1),
   (''gi0'', Fin 1), (''gi1'', Fin 1), (''gi2'', Fin 1), (''gi3'', Fin 1), (''gi4'', Fin 1),
   (''o0'', Fin 0), (''o1'', Fin 0), (''o2'', Fin 0), (''o3'', Fin 0), (''o4'', Fin 0),
   (''s0'', Fin 0), (''s1'', Fin 0), (''s2'', Fin 0), (''s3'', Fin 0), (''s4'', Fin 0),
   (''i0'', Fin 0), (''i1'', Fin 0), (''i2'', Fin 0), (''i3'', Fin 0), (''i4'', Fin 0),
   (''ug0'', Fin 1), (''ug1'', Fin 1), (''ug2'', Fin 1), (''ug3'', Fin 1), (''ug4'', Fin 1)]"
lemma bench_coefficients_read: "\<exists>ds. ppk2_coefficients bench_meta coefficient_jobs ([], []) = Inr (bench_coefficients, ds)"
proof -
  have v: "map (\<lambda>job. (fst job @ dec (fst (snd job)), coefficient_value bench_meta job)) coefficient_jobs = bench_coefficients"
    by (simp add: coefficient_jobs_list small_decs dbl_values coefficient_value_def calibrated_def bench_meta_def bench_coefficients_def)
  have "\<not> list_ex (\<lambda>job. fst job = ''r'' \<and> fle (coefficient_value bench_meta job) (Fin 0)) coefficient_jobs"
    by (simp add: coefficient_jobs_list small_decs dbl_values coefficient_value_def calibrated_def bench_meta_def fle_def fless_def feq_def)
  with v show ?thesis by (simp add: ppk2_coefficients_closed)
qed

lemma bench_current:
  assumes "pd_coefficients d = bench_coefficients" "pd_voltage_v d = Fin 3" "w \<in> {0, 2 ^ 18}"
  shows "ppk2_current d w = Some (Fin 0)"
proof -
  have r: "sample_range w = 0" "adc_code w = Fin 0" using assms(3) by (auto simp: sample_range_def adc_code_def dbl_values)
  have c: "coefficient d ''ug'' 0 = Fin 1" "coefficient d ''gs'' 0 = Fin 1" "coefficient d ''gi'' 0 = Fin 1" "coefficient d ''r'' 0 = Fin 1"
    "coefficient d ''o'' 0 = Fin 0" "coefficient d ''s'' 0 = Fin 0" "coefficient d ''i'' 0 = Fin 0"
    by (simp_all add: coefficient_def assms(1) bench_coefficients_def small_decs)
  show ?thesis unfolding ppk2_current_def Let_def r c assms(2) zero_arithmetic by (simp add: zero_arithmetic)
qed

lemma bench_words: "words_of [0, 0, 0, 0, 0, 0, 4, 0] = [0, 2 ^ 18]"
  by (simp add: words_of_def chunks_of.simps)

lemma bench_ppk2_decodes:
  assumes "files w raw = Some [0, 0, 0, 0, 0, 0, 4, 0]" "files w csv = None"
  shows "\<exists>w' sm. ppk2_decode_capture raw csv bench_meta 3000 w = (w', Inr sm)"
proof -
  obtain d where d: "ppk2_Decoder bench_meta 3000 = Inr d" "pd_coefficients d = bench_coefficients" "pd_voltage_v d = Fin 3"
      "pd_previous_counter d = None" "pd_previous_range d = None" "pd_range_counts d = replicate 5 0"
    using bench_coefficients_read by (auto simp: ppk2_Decoder_def dbl_values)
  define d1 where "d1 = fst (ppk2_sample 0 d)"
  have s1: "ppk2_sample 0 d = (d1, Inr (Fin 0))"
    by (simp add: d1_def ppk2_sample_def Let_def d bench_current sample_counter_def sample_range_def)
  have d1: "pd_coefficients d1 = bench_coefficients" "pd_voltage_v d1 = Fin 3" "pd_previous_counter d1 = Some 0"
    unfolding d1_def ppk2_sample_def Let_def
    by (simp_all add: d bench_current sample_counter_def sample_range_def)
  obtain d2 where s2: "ppk2_sample (2 ^ 18) d1 = (d2, Inr (Fin 0))"
    using bench_current [OF d1(1,2), of "2 ^ 18"] by (simp add: ppk2_sample_def Let_def d1 sample_counter_def sample_range_def)
  have run: "decode_data PpkStruct ppk2_sample [0, 0, 0, 0, 0, 0, 4, 0] (d, tally_init) = ((d2, tally_of [Fin 0, Fin 0]), Inr ())"
    unfolding decode_data_words [of "[0, 0, 0, 0, 0, 0, 4, 0]", simplified]
    using s2 by (simp add: bench_words decode_word_def s1 bindA_def pureA_def tally_of_def)
  have "\<exists>sm. ppk2_summary d2 (tally_of [Fin 0, Fin 0]) bench_meta 3000 = Inr sm"
    by (simp add: ppk2_summary_def tally_charge_def quotient_def tally_duration_def tally_of_def tally_add_def tally_init_def
        fsub_def fadd_def fmul_def fdiv_def signed_dbl_def signed_zero_def dbl_values)
  with d(1) run assms show ?thesis
    by (simp add: ppk2_decode_capture_def decode_to_csv_def bindA_def liftA_def read_file_def requireA_def pureA_def open_new_def)
qed

lemma bench_blu939_decodes:
  assumes "files w raw = Some [0, 0, 0, 0, 0, 0, 4, 0]" "files w csv = None"
  shows "\<exists>w' sm. blu939_decode_capture raw csv bench_meta 3000 w = (w', Inr sm)"
proof -
  have six: "[0..<6] = [0, Suc 0, Suc (Suc 0), Suc (Suc (Suc 0)), Suc (Suc (Suc (Suc 0))), Suc (Suc (Suc (Suc (Suc 0))))]"
    by (simp add: upt_rec numeral_nat)
  obtain d where d: "blu939_Decoder bench_meta 3000 = Inr d" "bd_resistors d ! 0 = Fin 1" "bd_offsets d ! 0 = Fin 0" "bd_voltage_v d = Fin 3"
    by (simp add: blu939_Decoder_def six blu939_coefficient_def small_decs bench_meta_def fle_def fless_def feq_def dbl_values)
  have s: "\<exists>d'. blu939_sample w d = (d', Inr (Fin 0)) \<and> bd_resistors d' ! 0 = Fin 1 \<and> bd_offsets d' ! 0 = Fin 0 \<and> bd_voltage_v d' = Fin 3"
    if "w \<in> {0, 2 ^ 18}" "bd_resistors d ! 0 = Fin 1" "bd_offsets d ! 0 = Fin 0" "bd_voltage_v d = Fin 3" for w d
  proof -
    have "sample_range w = 0" "adc_code w = Fin 0" using that(1) by (auto simp: sample_range_def adc_code_def dbl_values)
    with that(2-4) show ?thesis by (simp add: blu939_sample_def Let_def blu939_range_def zero_arithmetic)
  qed
  obtain d1 where s1: "blu939_sample 0 d = (d1, Inr (Fin 0))" "bd_resistors d1 ! 0 = Fin 1" "bd_offsets d1 ! 0 = Fin 0" "bd_voltage_v d1 = Fin 3"
    using s [of 0 d] d by auto
  obtain d2 where s2: "blu939_sample (2 ^ 18) d1 = (d2, Inr (Fin 0))" "bd_voltage_v d2 = Fin 3" using s [of "2 ^ 18" d1] s1 by auto
  have run: "decode_data BluStruct blu939_sample [0, 0, 0, 0, 0, 0, 4, 0] (d, tally_init) = ((d2, tally_of [Fin 0, Fin 0]), Inr ())"
    unfolding decode_data_words [of "[0, 0, 0, 0, 0, 0, 4, 0]", simplified]
    using s2 by (simp add: bench_words decode_word_def s1 bindA_def pureA_def tally_of_def)
  have "\<exists>sm. blu939_summary d2 (tally_of [Fin 0, Fin 0]) bench_meta = Inr sm"
    by (simp add: blu939_summary_def tally_charge_def quotient_def tally_duration_def tally_of_def tally_add_def tally_init_def
        fsub_def fadd_def fdiv_def signed_dbl_def signed_zero_def dbl_values)
  with d(1) run assms show ?thesis
    by (simp add: blu939_decode_capture_def decode_to_csv_def bindA_def liftA_def read_file_def requireA_def pureA_def open_new_def)
qed

definition bench_captured :: "unit host" where
  "bench_captured = \<lparr>files = [''/raw'' \<mapsto> [0, 0, 0, 0, 0, 0, 4, 0]], sealed = [], launches = [], outside = ()\<rparr>"

theorem ppk2_decode_continuous_witness:
  "\<exists>w' sm d cs. ppk2_decode_capture ''/raw'' ''/csv'' bench_meta 3000 bench_captured = (w', Inr sm)
    \<and> map (ppk2_current d) [0, 2 ^ 18] = map Some cs \<and> summarises sample_range 5 [0, 2 ^ 18] cs sm
    \<and> files w' ''/csv'' = Some (ascii_encode (csv_text cs))"
proof -
  obtain w' sm where run: "ppk2_decode_capture ''/raw'' ''/csv'' bench_meta 3000 bench_captured = (w', Inr sm)"
    using bench_ppk2_decodes [of bench_captured "''/raw''" "''/csv''"] by (auto simp: bench_captured_def)
  have "files bench_captured ''/raw'' = Some [0, 0, 0, 0, 0, 0, 4, 0]" by (simp add: bench_captured_def)
  with ppk2_decode_continuous [OF run] obtain d cs where "map (ppk2_current d) (words_of [0, 0, 0, 0, 0, 0, 4, 0]) = map Some cs"
    "summarises sample_range 5 (words_of [0, 0, 0, 0, 0, 0, 4, 0]) cs sm" "files w' ''/csv'' = Some (ascii_encode (csv_text cs))"
    by (auto simp only: option.inject)
  with run show ?thesis unfolding bench_words by blast
qed

theorem blu939_decode_exact_witness:
  "\<exists>w' sm d cs. blu939_decode_capture ''/raw'' ''/csv'' bench_meta 3000 bench_captured = (w', Inr sm)
    \<and> map (blu939_current d) [0, 2 ^ 18] = map Some cs \<and> summarises blu939_range 6 [0, 2 ^ 18] cs sm
    \<and> files w' ''/csv'' = Some (ascii_encode (csv_text cs))"
proof -
  obtain w' sm where run: "blu939_decode_capture ''/raw'' ''/csv'' bench_meta 3000 bench_captured = (w', Inr sm)"
    using bench_blu939_decodes [of bench_captured "''/raw''" "''/csv''"] by (auto simp: bench_captured_def)
  have "files bench_captured ''/raw'' = Some [0, 0, 0, 0, 0, 0, 4, 0]" by (simp add: bench_captured_def)
  with blu939_decode_exact [OF run] obtain d cs where "map (blu939_current d) (words_of [0, 0, 0, 0, 0, 0, 4, 0]) = map Some cs"
    "summarises blu939_range 6 (words_of [0, 0, 0, 0, 0, 0, 4, 0]) cs sm" "files w' ''/csv'' = Some (ascii_encode (csv_text cs))"
    by (auto simp only: option.inject)
  with run show ?thesis unfolding bench_words by blast
qed

end
