(* ===== verification/Power_Run.thy ===== *)
theory Power_Run
  imports Sampling Manifest
begin

section \<open>Runs of a power instrument\<close>

text \<open>
  What the two instrument commands (\<open>ppk2_cli.py\<close> and \<open>blu939_cli.py\<close>) share: the arguments, what they meet outside, the report
  a run fills in, and the discipline of the power output. The report is a record of what was recorded; its rendering is a
  parameter. Sleeping has no effect in the model. \<open>pe_storable\<close> says whether the BLU939's last response can be written.
\<close>

datatype power_action = ShowInfo bool | SetPower bool | TakeCapture

record power_args =
  pa_action :: power_action
  pa_serial :: "string option"
  pa_voltage_mv :: "int option"
  pa_duration :: pyfloat
  pa_settle :: pyfloat
  pa_power_cycle :: bool
  pa_hold_after :: pyfloat
  pa_label :: string
  pa_manifest :: "path option"

record 's power_report =
  pr_firmware :: "(string \<times> json) option"
  pr_label :: "string option"
  pr_devices :: "serial_device list option"
  pr_metadata_before :: "metadata option"
  pr_metadata_after :: "metadata option"
  pr_metadata :: "metadata option"
  pr_output_requested :: "bool option"
  pr_phase :: "string option"
  pr_acquisition :: "acquisition option"
  pr_raw_sha256 :: "string option"
  pr_summary :: "'s option"
  pr_csv :: "(path \<times> string) option"
  pr_metadata_response :: "(path \<times> nat \<times> string) option"
  pr_cleanup_off :: bool
  pr_status :: "string option"
  pr_failure :: "string option"

definition new_report :: "'s power_report" where
  "new_report = \<lparr>pr_firmware = None, pr_label = None, pr_devices = None, pr_metadata_before = None, pr_metadata_after = None,
     pr_metadata = None, pr_output_requested = None, pr_phase = None, pr_acquisition = None, pr_raw_sha256 = None, pr_summary = None,
     pr_csv = None, pr_metadata_response = None, pr_cleanup_off = False, pr_status = None, pr_failure = None\<rparr>"

record ('s, 'e) power_env =
  pe_ports :: "serial_info list"
  pe_openable :: bool
  pe_locked :: bool
  pe_storable :: bool
  pe_checks :: "bool list"
  pe_digest :: "bytes \<Rightarrow> string"
  pe_decode :: "bytes \<Rightarrow> bool + json"
  pe_dumps :: "'s power_report \<Rightarrow> string"
  pe_temporary :: "path \<Rightarrow> path"
  pe_describe :: "'e \<Rightarrow> string"

text \<open>The state is the instrument's world and the report.\<close>

definition onWorld :: "('e \<Rightarrow> 'f) \<Rightarrow> ('w, 'e, 'a) action \<Rightarrow> ('w \<times> 'r, 'f, 'a) action" where
  "onWorld raising m s = (case s of (w, r) \<Rightarrow> case m w of (w', q) \<Rightarrow> ((w', r), mapE raising q))"

lemma onWorld_eq [action_simps]:
  "onWorld raising m (w, r) = (s', q) \<longleftrightarrow> (\<exists>w' p. m w = (w', p) \<and> s' = (w', r) \<and> mapE raising p = q)"
  by (auto simp: onWorld_def split: prod.splits)

definition record_in :: "('r \<Rightarrow> 'r) \<Rightarrow> ('w \<times> 'r, 'f, unit) action" where
  "record_in f = updateA (\<lambda>(w, r). (w, f r))"

definition fbetween :: "rat \<Rightarrow> pyfloat \<Rightarrow> rat \<Rightarrow> bool" where
  "fbetween lo x hi \<longleftrightarrow> isfinite x \<and> fle (dbl lo) x \<and> fle x (dbl hi)"

definition ftruth :: "pyfloat \<Rightarrow> bool" where
  "ftruth x \<longleftrightarrow> \<not> (isfinite x \<and> num x = 0)"

definition switches_on :: "power_args \<Rightarrow> bool" where
  "switches_on args \<longleftrightarrow> pa_action args = TakeCapture \<and> pa_power_cycle args \<or> pa_action args = SetPower True"

text \<open>The configured voltage of a metadata reading, if it is a number between the limits, and \<open>int\<close> of it.\<close>

definition configured_voltage :: "metadata \<Rightarrow> rat \<Rightarrow> int option" where
  "configured_voltage m lo =
     (case map_of m ''vdd'' of
        Some (MetaNum x) \<Rightarrow> if isfinite x \<and> lo \<le> num x \<and> num x \<le> 5000 then Some \<lfloor>num x\<rfloor> else None
      | _ \<Rightarrow> None)"

subsection \<open>The discipline of the output\<close>

text \<open>
  A scan of the commands sent. Its state says whether the requested voltage is known to be set and whether the output may be on. A command whose
  write was not complete has reached the instrument or it has not: after a failed switch-off the output may be on as before, after a failed
  switch-on it may be on, and a failed voltage command sets nothing that is known. (It is taken to arrive as a whole or not at all; how the
  instrument reads on after a part of a command is its firmware's.) The scan fails unless every voltage command (\<open>0x0D\<close>), complete or not, is the
  requested one and is sent only while the output is off, and the output is switched on (\<open>0x0C 1\<close>), completely or not, only when the voltage is set.
\<close>

definition scan_command :: "bytes \<Rightarrow> bool \<times> bool \<Rightarrow> sent \<Rightarrow> (bool \<times> bool) option" where
  "scan_command v st cmd =
     (case (st, cmd) of ((set_up, on), (c, written)) \<Rightarrow>
        if c = [0x0C, 1] then (if set_up then Some (set_up, True) else None)
        else if c = [0x0C, 0] then Some (set_up, on \<and> \<not> written)
        else if c \<noteq> [] \<and> hd c = 0x0D then (if c = v \<and> \<not> on then Some (set_up \<or> written, on) else None)
        else Some (set_up, on))"

fun scan :: "bytes \<Rightarrow> bool \<times> bool \<Rightarrow> sent list \<Rightarrow> (bool \<times> bool) option" where
  "scan v st [] = Some st"
| "scan v st (c # cs) = (case scan_command v st c of None \<Rightarrow> None | Some st' \<Rightarrow> scan v st' cs)"

lemma scan_append: "scan v st (xs @ ys) = (case scan v st xs of None \<Rightarrow> None | Some st' \<Rightarrow> scan v st' ys)"
  by (induction xs arbitrary: st) (auto split: option.splits)

text \<open>
  A run starts with an output that may be on or is known to be off, and with what had been sent before; \<open>stands v start st w\<close>: what was sent since
  scans to \<open>st\<close>.
\<close>

type_synonym beginning = "bool \<times> sent list"

definition stands :: "bytes \<Rightarrow> beginning \<Rightarrow> bool \<times> bool \<Rightarrow> port host \<Rightarrow> bool" where
  "stands v start st w \<longleftrightarrow> (\<exists>cmds. pt_sent (outside w) = snd start @ cmds \<and> scan v (False, fst start) cmds = Some st)"

lemma stands_more:
  assumes "stands v start st w" and "pt_sent (outside w') = pt_sent (outside w) @ cmds" and "scan v st cmds = Some st'"
  shows "stands v start st' w'"
  using assms by (auto simp: stands_def scan_append)

lemma stands_same: "stands v start st w \<Longrightarrow> pt_sent (outside w') = pt_sent (outside w) \<Longrightarrow> stands v start st w'"
  by (simp add: stands_def)

lemma serial_command_stands:
  assumes "scan_command v st (c, True) = Some st'" and "scan_command v st (c, False) = Some st''"
  shows "triple (stands v start st) (serial_command raising short c)
    (\<lambda>_. stands v start st') (\<lambda>_ w. stands v start st'' w \<and> last (pt_sent (outside w)) = (c, False))"
  using assms by (intro tripleI) (auto dest!: serial_command_sent intro: stands_more)

lemma neutral_command_stands:
  assumes "\<And>b. scan_command v st (c, b) = Some st"
  shows "triple (stands v start st) (serial_command raising short c) (\<lambda>_. stands v start st) (\<lambda>_. stands v start st)"
  by (rule triple_post [OF serial_command_stands [OF assms assms]]) simp

lemma onLooks_stands: "triple (stands v start st) (onLooks f) (\<lambda>_. stands v start st) (\<lambda>_. stands v start st)"
  by (intro tripleI) (auto dest!: onLooks_sent intro: stands_same)

lemma capture_stands:
  "triple (stands v start st) (serial_capture raising invalid short timeout p duration) (\<lambda>_. stands v start st) (\<lambda>_. stands v start st)"
proof -
  have "stands v start st w'" if "stands v start st w" and run: "serial_capture raising invalid short timeout p duration w = (w', r)" for w w' r
  proof -
    have "scan v st cmds = Some st" if "capture_log cmds" for cmds
      using that by (auto simp: capture_log_def scan_command_def split: prod.splits)
    with that(1) serial_capture_stops [OF run] show ?thesis by (auto split: if_splits intro: stands_more)
  qed
  then show ?thesis by (intro tripleI) blast+
qed

text \<open>A statement that leaves the instrument alone.\<close>

definition same_port :: "port host \<Rightarrow> port host \<Rightarrow> bool" where
  "same_port w w' \<longleftrightarrow> outside w' = outside w"

interpretation port_left: state_order same_port
  by unfold_locales (auto simp: same_port_def)

lemma stands_kept: "stable same_port m \<Longrightarrow> triple (stands v start st) m (\<lambda>_. stands v start st) (\<lambda>_. stands v start st)"
  by (erule triple_stable) (auto simp: same_port_def intro: stands_same)

lemma same_port_basic [simp]:
  "stable same_port (read_file e p)" "stable same_port (atomic_json t p rendered)" "stable same_port (write_file p data)"
  "stable same_port (decode_to_csv raising struct_error sample d data csv)"
  by (auto simp: stable_def same_port_def read_file_def atomic_json_def write_file_def decode_to_csv_def updateA_def
      open_new_def bindA_def Let_def split: option.splits prod.splits sum.splits)

lemma onWorld_triple:
  assumes "triple P m Q E"
  shows "triple (\<lambda>s. P (fst s)) (onWorld raising m) (\<lambda>x s. Q x (fst s)) (\<lambda>e s. \<exists>d. E d (fst s))"
proof (rule tripleI)
  fix s s' x
  assume "P (fst s)" "onWorld raising m s = (s', Inr x)"
  then obtain w' where "m (fst s) = (w', Inr x)" "s' = (w', snd s)" by (cases s) (auto simp: onWorld_eq result_simps)
  with assms \<open>P (fst s)\<close> show "Q x (fst s')" by (auto dest: triple_Inr)
next
  fix s s' e
  assume "P (fst s)" "onWorld raising m s = (s', Inl e)"
  then obtain w' d where "m (fst s) = (w', Inl d)" "s' = (w', snd s)" by (cases s) (auto simp: onWorld_eq result_simps)
  with assms \<open>P (fst s)\<close> show "\<exists>d. E d (fst s')" by (auto dest: triple_Inl)
qed

lemma record_in_triple: "triple (\<lambda>s. P (fst s)) (record_in f) (\<lambda>_ s. P (fst s)) E"
  by (intro tripleI) (auto simp: record_in_def action_simps split: prod.splits)

end
