(* ===== verification/Ppk2_Cli.thy ===== *)
theory Ppk2_Cli
  imports Ppk2 Power_Run
begin

section \<open>The PPK2 command\<close>

text \<open>
  Models \<open>command\<close> of \<open>src/tools/nrfkit_tools/ppk2_cli.py\<close>: the argument checks, discovery, the three actions, the cleanup that
  switches the output off and closes the port however the action ends, and the report.
\<close>

datatype ppk2_cmd_error = PpkE ppk2_error | PpkTool tool_error
  | PpkVoltage | PpkSessionDuration | PpkInterval | PpkCycleVoltage | PpkHold | PpkOnVoltage | PpkVoltageDiffers | PpkNoVoltage

type_synonym ppk2_run = "port host \<times> ppk2_summary_record power_report"

type_synonym 'a ppk2_step = "(ppk2_run, ppk2_cmd_error, 'a) action"

definition run_json :: "(ppk2_summary_record, ppk2_cmd_error) power_env \<Rightarrow> path \<Rightarrow> unit ppk2_step" where
  "run_json env dir s =
     onWorld PpkE (atomic_json (pe_temporary env (path_join dir ''run.json'')) (path_join dir ''run.json'') (pe_dumps env (snd s))) s"

definition ppk2_sha256 :: "(ppk2_summary_record, ppk2_cmd_error) power_env \<Rightarrow> path \<Rightarrow> string ppk2_step" where
  "ppk2_sha256 env p = bindA (onWorld PpkE (read_file (PpkPython OSError) p)) (\<lambda>content. pureA (pe_digest env content))"

definition ppk2_bind_firmware :: "(ppk2_summary_record, ppk2_cmd_error) power_env \<Rightarrow> power_args \<Rightarrow> unit ppk2_step" where
  "ppk2_bind_firmware env args =
     (case pa_manifest args of
        None \<Rightarrow> pureA ()
      | Some p \<Rightarrow>
          bindA (readA (\<lambda>s. files (fst s))) (\<lambda>fs.
          bindA (liftA (mapE PpkTool (load_manifest (pe_digest env) (pe_decode env) fs p True))) (\<lambda>manifest.
          bindA (ppk2_sha256 env p) (\<lambda>h.
          bindA (liftA (mapE (PpkE \<circ> PpkPython) (bindR (jitem manifest ''debug_elf'') (\<lambda>e. jitem e ''sha256'')))) (\<lambda>elf.
            record_in (\<lambda>r. r\<lparr>pr_firmware := Some (h, elf)\<rparr>))))))"

definition ppk2_check_args :: "power_args \<Rightarrow> unit ppk2_step" where
  "ppk2_check_args args =
     bindA (requireA (case pa_voltage_mv args of None \<Rightarrow> True | Some v \<Rightarrow> 800 \<le> v \<and> v \<le> 5000) PpkVoltage) (\<lambda>_.
       case pa_action args of
         ShowInfo _ \<Rightarrow> pureA ()
       | SetPower _ \<Rightarrow> requireA (fbetween 1 (pa_duration args) 600) PpkSessionDuration
       | TakeCapture \<Rightarrow>
           bindA (requireA (fbetween (1 / 100) (pa_duration args) 600 \<and> fbetween 0 (pa_settle args) 60) PpkInterval) (\<lambda>_.
           bindA (requireA (\<not> (pa_power_cycle args \<and> pa_voltage_mv args = None)) PpkCycleVoltage) (\<lambda>_.
           bindA (requireA (fbetween 0 (pa_hold_after args) 60 \<and> \<not> (ftruth (pa_hold_after args) \<and> \<not> pa_power_cycle args)) PpkHold) (\<lambda>_.
             record_in (\<lambda>r. r\<lparr>pr_label := Some (pa_label args)\<rparr>)))))"

definition ppk2_do_power :: "(ppk2_summary_record, ppk2_cmd_error) power_env \<Rightarrow> power_args \<Rightarrow> path \<Rightarrow> bool \<Rightarrow> unit ppk2_step" where
  "ppk2_do_power env args dir on =
     bindA (if on then
              (case pa_voltage_mv args of
                 None \<Rightarrow> raiseA PpkOnVoltage
               | Some v \<Rightarrow>
                   bindA (onWorld PpkE (ppk2_power False)) (\<lambda>_.
                   bindA (onWorld PpkE (ppk2_configure (pe_checks env) v ''source'')) (\<lambda>m.
                     record_in (\<lambda>r. r\<lparr>pr_metadata_after := Some m\<rparr>))))
            else pureA ()) (\<lambda>_.
     bindA (onWorld PpkE (ppk2_power on)) (\<lambda>_.
     bindA (record_in (\<lambda>r. r\<lparr>pr_output_requested := Some on\<rparr>)) (\<lambda>_.
       if on then bindA (record_in (\<lambda>r. r\<lparr>pr_phase := Some ''powered''\<rparr>)) (\<lambda>_. run_json env dir)
       else pureA ())))"

definition ppk2_set_up :: "(ppk2_summary_record, ppk2_cmd_error) power_env \<Rightarrow> power_args \<Rightarrow> metadata \<Rightarrow> metadata ppk2_step" where
  "ppk2_set_up env args m =
     (case (pa_power_cycle args, pa_voltage_mv args) of
        (True, Some v) \<Rightarrow>
          bindA (onWorld PpkE (ppk2_power False)) (\<lambda>_.
          bindA (onWorld PpkE (ppk2_configure (pe_checks env) v ''source'')) (\<lambda>m'.
          bindA (onWorld PpkE (ppk2_power True)) (\<lambda>_. pureA m')))
      | (True, None) \<Rightarrow> raiseA (PpkE (PpkPython TypeError))
      | (False, Some v) \<Rightarrow> if meta_is m ''vdd'' v then pureA m else raiseA PpkVoltageDiffers
      | (False, None) \<Rightarrow> pureA m)"

definition ppk2_keep_capture ::
  "(ppk2_summary_record, ppk2_cmd_error) power_env \<Rightarrow> power_args \<Rightarrow> path \<Rightarrow> metadata \<Rightarrow> int \<Rightarrow> acquisition \<Rightarrow> unit ppk2_step" where
  "ppk2_keep_capture env args dir m voltage acq =
     (let raw = path_join dir ''samples.bin''; csv = path_join dir ''current.csv'' in
      bindA (record_in (\<lambda>r. r\<lparr>pr_acquisition := Some acq\<rparr>)) (\<lambda>_.
      bindA (ppk2_sha256 env raw) (\<lambda>h.
      bindA (record_in (\<lambda>r. r\<lparr>pr_raw_sha256 := Some h\<rparr>)) (\<lambda>_.
      bindA (onWorld PpkE (ppk2_decode_capture raw csv m voltage)) (\<lambda>summary.
      bindA (record_in (\<lambda>r. r\<lparr>pr_summary := Some summary\<rparr>)) (\<lambda>_.
      bindA (ppk2_sha256 env csv) (\<lambda>h'.
      bindA (record_in (\<lambda>r. r\<lparr>pr_csv := Some (csv, h')\<rparr>)) (\<lambda>_.
        if ftruth (pa_hold_after args)
        then bindA (record_in (\<lambda>r. r\<lparr>pr_phase := Some ''post-capture-powered''\<rparr>)) (\<lambda>_. run_json env dir)
        else pureA ()))))))))"

definition ppk2_do_capture :: "(ppk2_summary_record, ppk2_cmd_error) power_env \<Rightarrow> power_args \<Rightarrow> path \<Rightarrow> metadata \<Rightarrow> unit ppk2_step" where
  "ppk2_do_capture env args dir before =
     bindA (ppk2_set_up env args before) (\<lambda>m.
     bindA (case configured_voltage m 800 of None \<Rightarrow> raiseA PpkNoVoltage | Some v \<Rightarrow> pureA v) (\<lambda>voltage.
     bindA (record_in (\<lambda>r. r\<lparr>pr_metadata := Some m\<rparr>)) (\<lambda>_.
     bindA (onWorld PpkE (ppk2_capture (path_join dir ''samples.bin'') (pa_duration args))) (ppk2_keep_capture env args dir m voltage))))"

definition ppk2_cleanup :: "power_args \<Rightarrow> unit ppk2_step" where
  "ppk2_cleanup args =
     finallyA
       (if switches_on args
        then bindA (onWorld PpkE (ppk2_power False)) (\<lambda>_. record_in (\<lambda>r. r\<lparr>pr_cleanup_off := True\<rparr>))
        else pureA ())
       (onWorld PpkE serial_close)"

definition ppk2_session :: "(ppk2_summary_record, ppk2_cmd_error) power_env \<Rightarrow> power_args \<Rightarrow> path \<Rightarrow> unit ppk2_step" where
  "ppk2_session env args dir =
     bindA (requireA (pe_openable env) (PpkE (PpkPython OSError))) (\<lambda>_.
       finallyA
         (bindA (onWorld PpkE ppk2_metadata) (\<lambda>m.
          bindA (record_in (\<lambda>r. r\<lparr>pr_metadata_before := Some m\<rparr>)) (\<lambda>_.
          bindA (run_json env dir) (\<lambda>_.
          bindA (case pa_action args of
                   ShowInfo _ \<Rightarrow> pureA ()
                 | SetPower on \<Rightarrow> ppk2_do_power env args dir on
                 | TakeCapture \<Rightarrow> ppk2_do_capture env args dir m) (\<lambda>_.
            record_in (\<lambda>r. r\<lparr>pr_status := Some ''ok''\<rparr>))))))
         (ppk2_cleanup args))"

definition ppk2_body :: "(ppk2_summary_record, ppk2_cmd_error) power_env \<Rightarrow> power_args \<Rightarrow> path \<Rightarrow> unit ppk2_step" where
  "ppk2_body env args dir =
     bindA (ppk2_bind_firmware env args) (\<lambda>_.
     bindA (ppk2_check_args args) (\<lambda>_.
     bindA (liftA (mapE PpkE (ppk2_discover (pe_ports env) (pa_serial args)))) (\<lambda>devices.
     bindA (record_in (\<lambda>r. r\<lparr>pr_devices := Some devices\<rparr>)) (\<lambda>_.
       if pa_action args = ShowInfo True then record_in (\<lambda>r. r\<lparr>pr_status := Some ''ok''\<rparr>)
       else bindA (liftA (mapE PpkE (ppk2_select (pe_ports env) (pa_serial args)))) (\<lambda>device.
            bindA (requireA (\<not> pe_locked env) (PpkTool ProbeLocked)) (\<lambda>_. ppk2_session env args dir))))))"

definition ppk2_main :: "(ppk2_summary_record, ppk2_cmd_error) power_env \<Rightarrow> power_args \<Rightarrow> path \<Rightarrow> unit ppk2_step" where
  "ppk2_main env args dir =
     finallyA
       (reraiseA (ppk2_body env args dir) (\<lambda>e.
          record_in (\<lambda>r. r\<lparr>pr_status := Some ''failed'', pr_failure := Some (pe_describe env e)\<rparr>)))
       (run_json env dir)"

end
