(* ===== verification/Power_Discipline.thy ===== *)
theory Power_Discipline
  imports Power_Run
begin

section \<open>The discipline of a powered run\<close>

text \<open>
  What both instrument commands owe the device under test: the output is switched on only after the requested voltage was set,
  the voltage changes only while the output is known to be off, and at the end the output is off, unless the very write that switches it off
  failed, and the port is closed. An instrument is an interface whose operations respect the scan of \<open>Power_Run\<close>; the steps of a run are
  proved once for it.
\<close>

text \<open>Known to be off; anything the scan accepts; on only if it may have been on when the run started.\<close>

definition off_again :: "bytes \<Rightarrow> beginning \<Rightarrow> port host \<Rightarrow> bool" where
  "off_again v start w \<longleftrightarrow> (\<exists>c. stands v start (c, False) w)"

definition disciplined :: "bytes \<Rightarrow> beginning \<Rightarrow> port host \<Rightarrow> bool" where
  "disciplined v start w \<longleftrightarrow> (\<exists>st. stands v start st w)"

definition idle :: "bytes \<Rightarrow> beginning \<Rightarrow> port host \<Rightarrow> bool" where
  "idle v start w \<longleftrightarrow> (\<exists>c on. stands v start (c, on) w \<and> (on \<longrightarrow> fst start))"

lemma off_idle: "off_again v start w \<Longrightarrow> idle v start w"
  by (auto simp: off_again_def idle_def)

lemma off_disciplined: "off_again v start w \<Longrightarrow> disciplined v start w"
  by (auto simp: off_again_def disciplined_def)

lemma idle_disciplined: "idle v start w \<Longrightarrow> disciplined v start w"
  by (auto simp: idle_def disciplined_def)

lemma stands_off: "stands v start (c, False) w \<Longrightarrow> off_again v start w"
  by (auto simp: off_again_def)

lemma stands_disciplined: "stands v start st w \<Longrightarrow> disciplined v start w"
  unfolding disciplined_def by blast

definition requested :: "power_args \<Rightarrow> bytes" where
  "requested args = voltage_bytes (case pa_voltage_mv args of Some u \<Rightarrow> u | None \<Rightarrow> 0)"

text \<open>
  How a run leaves the output. A run that switches it on and used the port leaves it on only if the last command is a switch-off whose write failed, or
  if the response that is kept before it could not be stored; any other run leaves it on only if it may have been on before.
\<close>

definition failed_off :: "port host \<Rightarrow> bool" where
  "failed_off w \<longleftrightarrow> last (pt_sent (outside w)) = ([0x0C, 0], False)"

definition left_safe :: "bool \<Rightarrow> bool \<Rightarrow> bytes \<Rightarrow> beginning \<Rightarrow> port host \<Rightarrow> bool" where
  "left_safe switching stored v start w \<longleftrightarrow> (\<exists>c on. stands v start (c, on) w
     \<and> (on \<longrightarrow> (if switching \<and> pt_sent (outside w) \<noteq> snd start then failed_off w \<or> \<not> stored else fst start)))"

definition settled :: "bool \<Rightarrow> bool \<Rightarrow> bytes \<Rightarrow> beginning \<Rightarrow> port host \<Rightarrow> bool" where
  "settled switching stored v start w \<longleftrightarrow> left_safe switching stored v start w \<and> (pt_sent (outside w) = snd start \<or> pt_closed (outside w))"

lemma unused_stands: "pt_sent (outside w) = snd start \<Longrightarrow> stands v start (False, fst start) w"
  by (auto simp: stands_def intro!: exI [of _ "[]"])

lemma unused_idle: "pt_sent (outside w) = snd start \<Longrightarrow> idle v start w"
  unfolding idle_def by (blast dest: unused_stands)

lemma unused_settled: "pt_sent (outside w) = snd start \<Longrightarrow> settled switching stored v start w"
  unfolding settled_def left_safe_def by (auto dest: unused_stands)

lemma off_safe: "off_again v start w \<Longrightarrow> left_safe switching stored v start w"
  by (auto simp: off_again_def left_safe_def)

lemma idle_safe: "idle v start w \<Longrightarrow> left_safe False stored v start w"
  by (auto simp: idle_def left_safe_def)

lemma excused_safe:
  assumes "disciplined v start w" and "failed_off w \<or> \<not> stored"
  shows "left_safe True stored v start w"
proof (cases "pt_sent (outside w) = snd start")
  case True
  with unused_settled [OF True] show ?thesis by (auto simp: settled_def)
next
  case False
  with assms show ?thesis by (auto simp: disciplined_def left_safe_def)
qed

lemma settled_end:
  assumes "settled switching stored v start w"
  shows "\<exists>cmds set_up on. pt_sent (outside w) = snd start @ cmds \<and> scan v (False, fst start) cmds = Some (set_up, on)
    \<and> (if on then if switching \<and> cmds \<noteq> [] then last cmds = ([0x0C, 0], False) \<or> \<not> stored else fst start else True)
    \<and> (cmds = [] \<or> pt_closed (outside w))"
proof -
  from assms obtain cmds set_up on where c: "pt_sent (outside w) = snd start @ cmds" "scan v (False, fst start) cmds = Some (set_up, on)"
    and on: "on \<longrightarrow> (if switching \<and> pt_sent (outside w) \<noteq> snd start then failed_off w \<or> \<not> stored else fst start)"
    and closed: "pt_sent (outside w) = snd start \<or> pt_closed (outside w)"
    unfolding settled_def left_safe_def stands_def by blast
  from on c(1) have "if on then if switching \<and> cmds \<noteq> [] then last cmds = ([0x0C, 0], False) \<or> \<not> stored else fst start else True"
    by (cases "cmds = []") (auto simp: failed_off_def)
  with c closed show ?thesis by (intro exI [of _ cmds] exI [of _ set_up] exI [of _ on]) simp
qed

text \<open>A step that leaves the port alone keeps everything said about it.\<close>

definition calm :: "('w \<Rightarrow> port host) \<Rightarrow> 'w \<times> 'r \<Rightarrow> 'w \<times> 'r \<Rightarrow> bool" where
  "calm hw s s' \<longleftrightarrow> outside (hw (fst s')) = outside (hw (fst s))"

interpretation calm: state_order "calm hw" for hw
  by unfold_locales (auto simp: calm_def)

lemma calm_onWorld: "(\<And>w. outside (hw (fst (m w))) = outside (hw w)) \<Longrightarrow> stable (calm hw) (onWorld raising m)"
  unfolding stable_def calm_def by (auto simp: action_simps) (metis fst_conv)

lemma calm_record [simp]: "stable (calm hw) (record_in f)"
  by (auto simp: stable_def calm_def record_in_def action_simps split: prod.splits)

definition about_port :: "(port host \<Rightarrow> bool) \<Rightarrow> bool" where
  "about_port X \<longleftrightarrow> (\<forall>w w'. outside w' = outside w \<longrightarrow> X w \<longrightarrow> X w')"

lemma about_port_facts [simp]:
  "about_port (off_again v start)" "about_port (disciplined v start)" "about_port (stands v start st)" "about_port (idle v start)"
  "about_port (left_safe switching stored v start)" "about_port (settled switching stored v start)"
  by (auto simp: about_port_def off_again_def disciplined_def idle_def stands_def settled_def left_safe_def failed_off_def)

lemma calm_keeps:
  "stable (calm hw) m \<Longrightarrow> about_port X \<Longrightarrow> triple (\<lambda>s. X (hw (fst s))) m (\<lambda>_ s. X (hw (fst s))) (\<lambda>_ s. X (hw (fst s)))"
  by (erule triple_stable) (auto simp: calm_def about_port_def)

lemma world_triple:
  "triple P m (\<lambda>_. Q) (\<lambda>_. X) \<Longrightarrow> triple (\<lambda>s. P (fst s)) (onWorld raising m) (\<lambda>_ s. Q (fst s)) (\<lambda>_ s. X (fst s))"
  by (drule onWorld_triple [where raising = raising]) (erule triple_weaken; auto)

lemma stands_everywhere:
  assumes "\<And>st. triple (\<lambda>w. stands v start st (hw w)) m (\<lambda>_ w. stands v start st (hw w)) (\<lambda>_ w. stands v start st (hw w))"
  shows "triple (\<lambda>w. disciplined v start (hw w)) m (\<lambda>_ w. disciplined v start (hw w)) (\<lambda>_ w. disciplined v start (hw w))"
    and "triple (\<lambda>w. idle v start (hw w)) m (\<lambda>_ w. idle v start (hw w)) (\<lambda>_ w. idle v start (hw w))"
  using assms by (fastforce simp: disciplined_def idle_def triple_def split: sum.splits)+

subsection \<open>Instruments\<close>

locale power_instrument =
  fixes hw :: "'w \<Rightarrow> port host"
    and raising :: "'e \<Rightarrow> 'f"
    and power :: "bool \<Rightarrow> ('w, 'e, unit) action"
    and configure :: "bool list \<Rightarrow> int \<Rightarrow> ('w, 'e, metadata) action"
    and read_metadata :: "('w, 'e, metadata) action"
    and capture :: "path \<Rightarrow> pyfloat \<Rightarrow> ('w, 'e, acquisition) action"
    and close :: "('w, 'e, unit) action"
  assumes power_off: "triple (\<lambda>w. stands v start (c, on) (hw w)) (power False)
      (\<lambda>_ w. stands v start (c, False) (hw w)) (\<lambda>_ w. stands v start (c, on) (hw w) \<and> failed_off (hw w))"
    and power_on: "triple (\<lambda>w. stands v start (True, False) (hw w)) (power True) (\<lambda>_ w. disciplined v start (hw w)) (\<lambda>_ w. disciplined v start (hw w))"
    and configure_sets: "triple (\<lambda>w. off_again (voltage_bytes u) start (hw w)) (configure checks u)
      (\<lambda>_ w. stands (voltage_bytes u) start (True, False) (hw w)) (\<lambda>_ w. off_again (voltage_bytes u) start (hw w))"
    and metadata_keeps: "triple (\<lambda>w. stands v start st (hw w)) read_metadata (\<lambda>_ w. stands v start st (hw w)) (\<lambda>_ w. stands v start st (hw w))"
    and capture_keeps: "triple (\<lambda>w. stands v start st (hw w)) (capture p d) (\<lambda>_ w. stands v start st (hw w)) (\<lambda>_ w. stands v start st (hw w))"
    and closes: "triple (\<lambda>w. outside (hw w) = port) close
      (\<lambda>_ w. outside (hw w) = port\<lparr>pt_closed := True\<rparr>) (\<lambda>_ w. outside (hw w) = port\<lparr>pt_closed := True\<rparr>)"
begin

abbreviation off_state :: "power_args \<Rightarrow> beginning \<Rightarrow> 'w \<times> 'r \<Rightarrow> bool" where
  "off_state args start s \<equiv> off_again (requested args) start (hw (fst s))"

abbreviation idle_state :: "power_args \<Rightarrow> beginning \<Rightarrow> 'w \<times> 'r \<Rightarrow> bool" where
  "idle_state args start s \<equiv> idle (requested args) start (hw (fst s))"

abbreviation good_state :: "power_args \<Rightarrow> beginning \<Rightarrow> 'w \<times> 'r \<Rightarrow> bool" where
  "good_state args start s \<equiv> disciplined (requested args) start (hw (fst s))"

abbreviation up_state :: "power_args \<Rightarrow> beginning \<Rightarrow> 'w \<times> 'r \<Rightarrow> bool" where
  "up_state args start s \<equiv> stands (requested args) start (True, False) (hw (fst s))"

abbreviation safe_state :: "bool \<Rightarrow> power_args \<Rightarrow> beginning \<Rightarrow> 'w \<times> 'r \<Rightarrow> bool" where
  "safe_state stored args start s \<equiv> left_safe (switches_on args) stored (requested args) start (hw (fst s))"

abbreviation end_state :: "bool \<Rightarrow> power_args \<Rightarrow> beginning \<Rightarrow> 'w \<times> 'r \<Rightarrow> bool" where
  "end_state stored args start s \<equiv> settled (switches_on args) stored (requested args) start (hw (fst s))"

abbreviation unused :: "beginning \<Rightarrow> 'w \<times> 'r \<Rightarrow> bool" where
  "unused start s \<equiv> pt_sent (outside (hw (fst s))) = snd start"

text \<open>Switching off, from whatever the scan accepts: it is off, or the write failed and nothing changed.\<close>

lemma off_step:
  "triple (good_state args start) (onWorld raising (power False)) (\<lambda>_. off_state args start) (\<lambda>_ s. good_state args start s \<and> failed_off (hw (fst s)))"
proof -
  have "triple (\<lambda>w. \<exists>st. stands v start st (hw w)) (power False) (\<lambda>_ w. off_again v start (hw w))
      (\<lambda>_ w. disciplined v start (hw w) \<and> failed_off (hw w))" for v
  proof (rule triple_some)
    fix st :: "bool \<times> bool"
    show "triple (\<lambda>w. stands v start st (hw w)) (power False) (\<lambda>_ w. off_again v start (hw w))
        (\<lambda>_ w. disciplined v start (hw w) \<and> failed_off (hw w))"
      by (cases st, simp only:, rule triple_weaken [OF power_off]) (auto dest: stands_off stands_disciplined)
  qed
  from world_triple [OF this [folded disciplined_def]] show ?thesis .
qed

lemma off_step_idle:
  "triple (idle_state args start) (onWorld raising (power False)) (\<lambda>_. idle_state args start) (\<lambda>_. idle_state args start)"
proof -
  have "triple (\<lambda>w. \<exists>c on. stands v start (c, on) (hw w) \<and> (on \<longrightarrow> fst start)) (power False) (\<lambda>_ w. idle v start (hw w)) (\<lambda>_ w. idle v start (hw w))" for v
    by (intro triple_some triple_fact triple_weaken [OF power_off]) (auto simp: idle_def)
  from world_triple [OF this [folded idle_def]] show ?thesis .
qed

lemma up_steps:
  assumes "pa_voltage_mv args = Some u"
  shows "triple (idle_state args start) (onWorld raising (power False)) (\<lambda>_. off_state args start) (\<lambda>_. good_state args start)"
    and "triple (off_state args start) (onWorld raising (configure checks u)) (\<lambda>_. up_state args start) (\<lambda>_. good_state args start)"
    and "triple (up_state args start) (onWorld raising (power True)) (\<lambda>_. good_state args start) (\<lambda>_. good_state args start)"
proof -
  have req: "requested args = voltage_bytes u" by (simp add: requested_def assms)
  show "triple (idle_state args start) (onWorld raising (power False)) (\<lambda>_. off_state args start) (\<lambda>_. good_state args start)"
    by (rule triple_weaken [OF off_step]) (auto intro: idle_disciplined)
  show "triple (off_state args start) (onWorld raising (configure checks u)) (\<lambda>_. up_state args start) (\<lambda>_. good_state args start)"
    unfolding req by (rule triple_post [OF world_triple [OF configure_sets]]) (rule off_disciplined)
  show "triple (up_state args start) (onWorld raising (power True)) (\<lambda>_. good_state args start) (\<lambda>_. good_state args start)"
    by (rule world_triple [OF power_on])
qed

lemma calm_up: "stable (calm hw) m \<Longrightarrow> triple (up_state args start) m (\<lambda>_. up_state args start) (\<lambda>_. good_state args start)"
  by (rule triple_post [OF calm_keeps]) (auto dest: stands_disciplined)

lemma calm_good: "stable (calm hw) m \<Longrightarrow> triple (good_state args start) m (\<lambda>_. good_state args start) (\<lambda>_. good_state args start)"
  by (rule calm_keeps) simp_all

lemma calm_off: "stable (calm hw) m \<Longrightarrow> triple (off_state args start) m (\<lambda>_. off_state args start) (\<lambda>_. off_state args start)"
  by (rule calm_keeps) simp_all

lemma calm_idle: "stable (calm hw) m \<Longrightarrow> triple (idle_state args start) m (\<lambda>_. idle_state args start) (\<lambda>_. idle_state args start)"
  by (rule calm_keeps) simp_all

lemma calm_end: "stable (calm hw) m \<Longrightarrow> triple (end_state stored args start) m (\<lambda>_. end_state stored args start) (\<lambda>_. end_state stored args start)"
  by (rule calm_keeps) simp_all

lemma calm_unused: "stable (calm hw) m \<Longrightarrow> triple (unused start) m (\<lambda>_. unused start) (\<lambda>_. end_state stored args start)"
  by (rule triple_post [OF calm_keeps]) (auto simp: about_port_def unused_settled)

lemma unused_end: "stable (calm hw) m \<Longrightarrow> triple (unused start) m (\<lambda>_. end_state stored args start) (\<lambda>_. end_state stored args start)"
  by (rule triple_weaken [OF calm_unused]) (auto simp: unused_settled)

lemma metadata_step: "triple (idle_state args start) (onWorld raising read_metadata) (\<lambda>_. idle_state args start) (\<lambda>_. idle_state args start)"
  by (rule world_triple [OF stands_everywhere(2) [OF metadata_keeps]])

lemma capture_steps:
  "triple (good_state args start) (onWorld raising (capture p d)) (\<lambda>_. good_state args start) (\<lambda>_. good_state args start)"
  "triple (idle_state args start) (onWorld raising (capture p d)) (\<lambda>_. idle_state args start) (\<lambda>_. idle_state args start)"
  by (rule world_triple [OF stands_everywhere(1) [OF capture_keeps]], rule world_triple [OF stands_everywhere(2) [OF capture_keeps]])

lemma close_step:
  "triple (safe_state stored args start) (onWorld raising close) (\<lambda>_. end_state stored args start) (\<lambda>_. end_state stored args start)"
proof -
  have "settled switching stored v start (hw w')"
    if "left_safe switching stored v start (hw w)" and "outside (hw w') = (outside (hw w))\<lparr>pt_closed := True\<rparr>" for switching v w w'
  proof -
    have "pt_sent (outside (hw w')) = pt_sent (outside (hw w))" "pt_closed (outside (hw w'))" using that(2) by simp_all
    with that(1) show ?thesis unfolding settled_def left_safe_def stands_def failed_off_def by (simp only: simp_thms)
  qed
  then have "triple (\<lambda>w. left_safe switching stored v start (hw w)) close
      (\<lambda>_ w. settled switching stored v start (hw w)) (\<lambda>_ w. settled switching stored v start (hw w))" for switching v
    by (intro tripleI) (metis triple_Inr [OF closes], metis triple_Inl [OF closes])
  from world_triple [OF this] show ?thesis .
qed

text \<open>The two sequences that switch on, and the clean-up.\<close>

lemma power_session:
  assumes "pa_voltage_mv args = Some u" and "\<And>m. stable (calm hw) (k m)" and "stable (calm hw) q"
  shows "triple (idle_state args start)
     (bindA (bindA (onWorld raising (power False)) (\<lambda>_. bindA (onWorld raising (configure checks u)) k)) (\<lambda>_.
        bindA (onWorld raising (power True)) (\<lambda>_. q))) (\<lambda>_. good_state args start) (\<lambda>_. good_state args start)"
  by (intro triple_bindA [OF triple_bindA [OF up_steps(1) [OF assms(1)] triple_bindA [OF up_steps(2) [OF assms(1)] calm_up [OF assms(2)]]]]
      triple_bindA [OF up_steps(3) [OF assms(1)] calm_good [OF assms(3)]])

lemma cycle_session:
  assumes "pa_voltage_mv args = Some u"
  shows "triple (idle_state args start)
     (bindA (onWorld raising (power False)) (\<lambda>_. bindA (onWorld raising (configure checks u)) (\<lambda>m.
        bindA (onWorld raising (power True)) (\<lambda>_. pureA m)))) (\<lambda>_. good_state args start) (\<lambda>_. good_state args start)"
  by (intro triple_bindA [OF up_steps(1) [OF assms] triple_bindA [OF up_steps(2) [OF assms] triple_bindA [OF up_steps(3) [OF assms]]]] triple_keeps(3))

lemma power_off_session:
  assumes "stable (calm hw) q"
  shows "triple (idle_state args start) (bindA (pureA ()) (\<lambda>_. bindA (onWorld raising (power False)) (\<lambda>_. q)))
    (\<lambda>_. idle_state args start) (\<lambda>_. idle_state args start)"
  by (intro triple_bindA [OF calm_idle triple_bindA [OF off_step_idle calm_idle]] assms calm.stable_pureA)

lemma raise_session:
  "triple (idle_state args start) (raiseA e) (\<lambda>_. good_state args start) (\<lambda>_. good_state args start)"
  by (rule triple_post [OF triple_keeps(4)]) (rule idle_disciplined)

lemma require_session:
  "triple (unused start) (requireA c e) (\<lambda>_. idle_state args start) (\<lambda>_. end_state stored args start)"
  by (intro tripleI) (auto simp: action_simps unused_idle unused_settled split: if_splits)

text \<open>The clean-up that switches off, followed by steps that leave the port alone.\<close>

lemma off_session:
  assumes "stable (calm hw) q" and "switches_on args"
  shows "triple (good_state args start) (bindA (onWorld raising (power False)) (\<lambda>_. q)) (\<lambda>_. safe_state stored args start) (\<lambda>_. safe_state stored args start)"
  by (rule triple_bindA [OF triple_post [OF off_step] triple_weaken [OF calm_off [OF assms(1)]]]) (auto simp: assms(2) intro: off_safe excused_safe)

text \<open>A capture: the set-up, then steps that leave the output alone.\<close>

lemma capture_session:
  assumes "triple (idle_state args start) set_up (\<lambda>_ s. if on then good_state args start s else idle_state args start s)
      (\<lambda>_ s. if on then good_state args start s else idle_state args start s)"
    and "\<And>m. stable (calm hw) (before m)" and "\<And>m x a. stable (calm hw) (after m x a)"
  shows "triple (idle_state args start) (bindA set_up (\<lambda>m. bindA (before m) (\<lambda>x. bindA (onWorld raising (capture p d)) (after m x))))
    (\<lambda>_ s. if on then good_state args start s else idle_state args start s) (\<lambda>_ s. if on then good_state args start s else idle_state args start s)"
proof (cases on)
  case True
  with assms(1) have "triple (idle_state args start) set_up (\<lambda>_. good_state args start) (\<lambda>_. good_state args start)" by simp
  from triple_bindA [OF this triple_bindA [OF calm_good [OF assms(2)] triple_bindA [OF capture_steps(1) calm_good [OF assms(3)]]]] True
  show ?thesis by simp
next
  case False
  with assms(1) have "triple (idle_state args start) set_up (\<lambda>_. idle_state args start) (\<lambda>_. idle_state args start)" by simp
  from triple_bindA [OF this triple_bindA [OF calm_idle [OF assms(2)] triple_bindA [OF capture_steps(2) calm_idle [OF assms(3)]]]] False
  show ?thesis by simp
qed

text \<open>The body of a session: metadata, steps that leave the port alone, the action, and the final record.\<close>

lemma session_body:
  assumes "\<And>m. triple (idle_state args start) (act m) (\<lambda>_ s. if on then good_state args start s else idle_state args start s)
      (\<lambda>_ s. if on then good_state args start s else idle_state args start s)"
    and "\<And>m. stable (calm hw) (note_metadata m)" and "stable (calm hw) store" and "stable (calm hw) finish"
  shows "triple (idle_state args start)
     (bindA (onWorld raising read_metadata) (\<lambda>m. bindA (note_metadata m) (\<lambda>_. bindA store (\<lambda>_. bindA (act m) (\<lambda>_. finish)))))
     (\<lambda>_ s. if on then good_state args start s else idle_state args start s) (\<lambda>_ s. if on then good_state args start s else idle_state args start s)"
proof -
  let ?D = "\<lambda>s. if on then good_state args start s else idle_state args start s"
  have early: "triple (idle_state args start) q (\<lambda>_. idle_state args start) (\<lambda>_. ?D)"
    if "triple (idle_state args start) q (\<lambda>_. idle_state args start) (\<lambda>_. idle_state args start)" for q
    using that by (rule triple_post) (auto dest: idle_disciplined)
  have late: "triple ?D finish (\<lambda>_. ?D) (\<lambda>_. ?D)" using calm_good [OF assms(4)] calm_idle [OF assms(4)] by (cases on) simp_all
  show ?thesis
    by (rule triple_bindA [OF early [OF metadata_step] triple_bindA [OF early [OF calm_idle [OF assms(2)]]
          triple_bindA [OF early [OF calm_idle [OF assms(3)]] triple_bindA [OF assms(1) late]]]])
qed

end

end
