(* ===== verification/Ppk2_Cli_Correct.thy ===== *)
theory Ppk2_Cli_Correct
  imports Ppk2_Cli Power_Discipline
begin

section \<open>Correctness of the PPK2 command\<close>

text \<open>
  However a run ends, the last command it sends switches an output it may have switched on off again, and the output is switched on only after the
  requested voltage has been set: the PPK2 is an instrument in the sense of \<open>Power_Discipline\<close>.
\<close>

lemma ppk2_power_off:
  "triple (stands v start (c, on)) (ppk2_power False) (\<lambda>_. stands v start (c, False)) (\<lambda>_ w. stands v start (c, on) w \<and> failed_off w)"
  unfolding ppk2_power_def ppk2_command_def failed_off_def of_bool_eq
  by (rule serial_command_stands) (simp_all add: scan_command_def)

lemma ppk2_power_on: "triple (stands v start (True, False)) (ppk2_power True) (\<lambda>_. disciplined v start) (\<lambda>_. disciplined v start)"
proof -
  have "scan_command v (True, False) ([0x0C, of_bool True], b) = Some (True, True)" for b by (simp add: scan_command_def)
  from serial_command_stands [OF this this] show ?thesis unfolding ppk2_power_def ppk2_command_def
    by (rule triple_weaken) (auto dest: stands_disciplined)
qed

lemma ppk2_metadata_stands: "triple (stands v start st) ppk2_metadata (\<lambda>_. stands v start st) (\<lambda>_. stands v start st)"
proof -
  have "scan_command v st ([0x19], b) = Some st" for b by (simp add: scan_command_def split: prod.splits)
  from neutral_command_stands [OF this] show ?thesis unfolding ppk2_metadata_def ppk2_command_def
    by (rule triple_bindA) (rule triple_bindA [OF onLooks_stands triple_keeps(1)])
qed

lemma ppk2_configure_loop_stands:
  "triple (stands v start st) (ppk2_configure_loop voltage mode checks) (\<lambda>_. stands v start st) (\<lambda>_. stands v start st)"
proof (induction checks)
  case Nil
  show ?case by (subst ppk2_configure_loop.simps, rule triple_bindA [OF ppk2_metadata_stands]) (auto intro!: tripleI simp: action_simps)
next
  case (Cons late rest)
  then show ?case
    by (subst ppk2_configure_loop.simps, intro triple_bindA [OF ppk2_metadata_stands])
      (auto intro!: tripleI simp: action_simps dest: triple_Inr triple_Inl split: if_splits simp del: ppk2_configure_loop.simps)
qed

lemma ppk2_configure_stands:
  "triple (off_again (voltage_bytes u) start) (ppk2_configure checks u mode)
     (\<lambda>_. stands (voltage_bytes u) start (True, False)) (\<lambda>_. off_again (voltage_bytes u) start)"
  unfolding off_again_def ppk2_configure_def ppk2_command_def
proof (intro triple_some)
  fix c
  let ?v = "voltage_bytes u" and ?E = "\<lambda>_ :: ppk2_error. \<lambda>s. \<exists>c. stands (voltage_bytes u) start (c, False) s"
  have s: "scan_command ?v (c, False) ([0x11, word_of_int (mode_code mode)], b) = Some (c, False)"
    "scan_command ?v (c, False) (?v, True) = Some (True, False)" "scan_command ?v (c, False) (?v, False) = Some (c, False)" for b
    by (simp_all add: scan_command_def voltage_bytes_def)
  have steps: "triple (stands ?v start (c, False)) (requireA b e) (\<lambda>_. stands ?v start (c, False)) ?E"
    "triple (stands ?v start (c, False)) (serial_command PpkPython PpkShortWrite [0x11, word_of_int (mode_code mode)]) (\<lambda>_. stands ?v start (c, False)) ?E"
    "triple (stands ?v start (c, False)) (serial_command PpkPython PpkShortWrite ?v) (\<lambda>_. stands ?v start (True, False)) ?E"
    "triple (stands ?v start (True, False)) (ppk2_configure_loop u mode checks) (\<lambda>_. stands ?v start (True, False)) ?E" for b e
    by (rule triple_post [OF triple_keeps(2)] triple_post [OF serial_command_stands [OF s(1,1)]] triple_post [OF serial_command_stands [OF s(2,3)]]
        triple_post [OF ppk2_configure_loop_stands]; blast)+
  show "triple (stands ?v start (c, False))
     (bindA (requireA (800 \<le> u \<and> u \<le> 5000 \<and> mode \<in> {''source'', ''ampere''}) PpkInvalidSetting) (\<lambda>_.
       bindA (serial_command PpkPython PpkShortWrite [0x11, word_of_int (mode_code mode)]) (\<lambda>_.
         bindA (serial_command PpkPython PpkShortWrite ?v) (\<lambda>_. ppk2_configure_loop u mode checks))))
     (\<lambda>_. stands ?v start (True, False)) ?E"
    by (intro triple_bindA [OF steps(1)] triple_bindA [OF steps(2)] triple_bindA [OF steps(3)] steps(4))
qed

lemma serial_close_closes:
  "triple (\<lambda>w. outside w = port) serial_close (\<lambda>_ w. outside w = port\<lparr>pt_closed := True\<rparr>) (\<lambda>_ w. outside w = port\<lparr>pt_closed := True\<rparr>)"
  by (intro tripleI) (auto simp: serial_close_def action_simps)

interpretation ppk2_out: power_instrument "\<lambda>w. w" PpkE ppk2_power "\<lambda>checks u. ppk2_configure checks u ''source''" ppk2_metadata ppk2_capture serial_close
  by unfold_locales (simp_all add: ppk2_power_off ppk2_power_on ppk2_configure_stands ppk2_metadata_stands ppk2_capture_def capture_stands serial_close_closes)

subsection \<open>Steps of a run\<close>

lemma calm_same_port: "stable same_port m \<Longrightarrow> stable (calm (\<lambda>w. w)) (onWorld raising m)"
  by (rule calm_onWorld) (metis prod.collapse same_port_def stable_def)

lemma calm_run_json [simp]: "stable (calm (\<lambda>w. w)) (run_json env dir)"
proof -
  have "stable (calm (\<lambda>w. w)) (onWorld PpkE (atomic_json t p rendered))" for t p rendered by (intro calm_same_port) simp
  then show ?thesis unfolding stable_def run_json_def by blast
qed

lemma calm_sha256 [simp]: "stable (calm (\<lambda>w. w)) (ppk2_sha256 env p)"
  unfolding ppk2_sha256_def by (intro calm.stable_bindA calm_same_port) simp_all

lemma calm_decode [simp]: "stable (calm (\<lambda>w. w)) (onWorld PpkE (ppk2_decode_capture raw csv m voltage))"
  unfolding ppk2_decode_capture_def
  by (intro calm_same_port port_left.stable_bindA) (auto intro: port_left.stable_liftA port_left.stable_requireA split: prod.splits)

lemma calm_bind_firmware [simp]: "stable (calm (\<lambda>w. w)) (ppk2_bind_firmware env args)"
  unfolding ppk2_bind_firmware_def by (auto split: option.splits intro!: calm.stable_bindA)

lemma calm_check_args [simp]: "stable (calm (\<lambda>w. w)) (ppk2_check_args args)"
  unfolding ppk2_check_args_def by (auto split: power_action.splits intro!: calm.stable_bindA)

lemma do_power_on:
  "triple (ppk2_out.idle_state args start) (ppk2_do_power env args dir True) (\<lambda>_. ppk2_out.good_state args start) (\<lambda>_. ppk2_out.good_state args start)"
proof (cases "pa_voltage_mv args")
  case None
  then show ?thesis by (simp add: ppk2_do_power_def ppk2_out.raise_session)
next
  case (Some u)
  show ?thesis unfolding ppk2_do_power_def Some option.case if_True
    by (rule ppk2_out.power_session [OF Some]) (simp_all add: calm.stable_bindA)
qed

lemma do_power_off:
  "triple (ppk2_out.idle_state args start) (ppk2_do_power env args dir False) (\<lambda>_. ppk2_out.idle_state args start) (\<lambda>_. ppk2_out.idle_state args start)"
  unfolding ppk2_do_power_def if_False by (rule ppk2_out.power_off_session) (simp add: calm.stable_bindA)

lemma set_up_discipline:
  "triple (ppk2_out.idle_state args start) (ppk2_set_up env args m)
     (\<lambda>_ s. if pa_power_cycle args then ppk2_out.good_state args start s else ppk2_out.idle_state args start s)
     (\<lambda>_ s. if pa_power_cycle args then ppk2_out.good_state args start s else ppk2_out.idle_state args start s)"
proof (cases "pa_power_cycle args")
  case True
  then show ?thesis
    by (cases "pa_voltage_mv args") (simp_all add: ppk2_set_up_def ppk2_out.raise_session ppk2_out.cycle_session)
next
  case False
  then have "stable (calm (\<lambda>w. w)) (ppk2_set_up env args m)" by (auto simp: ppk2_set_up_def split: option.splits)
  with False show ?thesis by (simp add: ppk2_out.calm_idle)
qed

lemma do_capture_discipline:
  "triple (ppk2_out.idle_state args start) (ppk2_do_capture env args dir m)
     (\<lambda>_ s. if pa_power_cycle args then ppk2_out.good_state args start s else ppk2_out.idle_state args start s)
     (\<lambda>_ s. if pa_power_cycle args then ppk2_out.good_state args start s else ppk2_out.idle_state args start s)"
proof -
  have run: "ppk2_do_capture env args dir m =
     bindA (ppk2_set_up env args m) (\<lambda>m'. bindA
       (bindA (case configured_voltage m' 800 of None \<Rightarrow> raiseA PpkNoVoltage | Some v \<Rightarrow> pureA v) (\<lambda>v.
          bindA (record_in (\<lambda>r. r\<lparr>pr_metadata := Some m'\<rparr>)) (\<lambda>_. pureA v))) (\<lambda>v.
       bindA (onWorld PpkE (ppk2_capture (path_join dir ''samples.bin'') (pa_duration args))) (ppk2_keep_capture env args dir m' v)))"
    by (simp add: ppk2_do_capture_def bindA_assoc bindA_pureA)
  have "stable (calm (\<lambda>w. w)) (ppk2_keep_capture env args dir m' v a)" for m' v a
    unfolding ppk2_keep_capture_def Let_def by (auto intro!: calm.stable_bindA)
  then show ?thesis unfolding run
    by - (rule ppk2_out.capture_session [OF set_up_discipline], auto split: option.splits intro!: calm.stable_bindA)
qed

subsection \<open>The run\<close>

lemma cleanup_settles:
  "triple (\<lambda>s. if switches_on args then ppk2_out.good_state args start s else ppk2_out.idle_state args start s) (ppk2_cleanup args)
     (\<lambda>_. ppk2_out.end_state True args start) (\<lambda>_. ppk2_out.end_state True args start)"
proof -
  note close = ppk2_out.close_step [where stored = True and args = args and start = start]
  show ?thesis
  proof (cases "switches_on args")
    case True
    have "triple (ppk2_out.good_state args start) (bindA (onWorld PpkE (ppk2_power False)) (\<lambda>_. record_in (\<lambda>r. r\<lparr>pr_cleanup_off := True\<rparr>)))
        (\<lambda>_. ppk2_out.safe_state True args start) (\<lambda>_. ppk2_out.safe_state True args start)"
      by (rule ppk2_out.off_session [OF _ True]) simp
    from triple_finallyA [OF this close close] True show ?thesis by (simp add: ppk2_cleanup_def)
  next
    case False
    have "triple (ppk2_out.idle_state args start) (pureA ()) (\<lambda>_. ppk2_out.safe_state True args start) (\<lambda>_. ppk2_out.safe_state True args start)"
      by (rule triple_weaken [OF ppk2_out.calm_idle [OF calm.stable_pureA]]) (auto simp: False intro: idle_safe)
    from triple_finallyA [OF this close close] False show ?thesis by (simp add: ppk2_cleanup_def)
  qed
qed

lemma action_discipline:
  "triple (ppk2_out.idle_state args start)
     (case pa_action args of ShowInfo l \<Rightarrow> pureA () | SetPower on \<Rightarrow> ppk2_do_power env args dir on | TakeCapture \<Rightarrow> ppk2_do_capture env args dir m)
     (\<lambda>_ s. if switches_on args then ppk2_out.good_state args start s else ppk2_out.idle_state args start s)
     (\<lambda>_ s. if switches_on args then ppk2_out.good_state args start s else ppk2_out.idle_state args start s)"
proof (cases "pa_action args")
  case (ShowInfo l)
  then show ?thesis by (simp add: switches_on_def ppk2_out.calm_idle)
next
  case (SetPower on)
  then show ?thesis by (cases on) (simp_all add: switches_on_def do_power_on do_power_off)
next
  case TakeCapture
  then show ?thesis using do_capture_discipline [of args start env dir m] by (simp add: switches_on_def)
qed

lemma session_settles:
  "triple (ppk2_out.unused start) (ppk2_session env args dir) (\<lambda>_. ppk2_out.end_state True args start) (\<lambda>_. ppk2_out.end_state True args start)"
  unfolding ppk2_session_def
  by (rule triple_bindA [OF ppk2_out.require_session triple_finallyA [OF ppk2_out.session_body [OF action_discipline] cleanup_settles cleanup_settles]])
    simp_all

lemma body_settles:
  "triple (ppk2_out.unused start) (ppk2_body env args dir) (\<lambda>_. ppk2_out.end_state True args start) (\<lambda>_. ppk2_out.end_state True args start)"
  unfolding ppk2_body_def
  by (rule triple_bindA [OF ppk2_out.calm_unused triple_bindA [OF ppk2_out.calm_unused triple_bindA [OF ppk2_out.calm_unused triple_bindA [OF ppk2_out.calm_unused]]]])
    (simp_all add: ppk2_out.unused_end triple_bindA [OF ppk2_out.calm_unused triple_bindA [OF ppk2_out.calm_unused session_settles]])

text \<open>
  C32. A PPK2 run never leaves the output on by its own doing, unless the instrument stops taking commands. Whatever the arguments, the instrument's
  answers, the outcomes of the writes and the way the run ends: it sends no voltage but the requested one, and only after a completely written switch-off or
  when the output was known to be off; it switches the output on, or tries to, only after the requested voltage was written completely; if it
  used the port, the port is closed; and the output may be on at the end only if the last command sent is a switch-off whose write failed or was short, or, for a
  run that is not one that switches the output on, if it may have been on before.
\<close>

theorem ppk2_output_disciplined:
  "\<exists>cmds set_up on. pt_sent (outside (fst (fst (ppk2_main env args dir (w, r))))) = pt_sent (outside w) @ cmds
    \<and> scan (voltage_bytes (case pa_voltage_mv args of Some u \<Rightarrow> u | None \<Rightarrow> 0)) (False, before) cmds = Some (set_up, on)
    \<and> (if on then if switches_on args \<and> cmds \<noteq> [] then last cmds = ([0x0C, 0], False) else before else True)
    \<and> (cmds = [] \<or> pt_closed (outside (fst (fst (ppk2_main env args dir (w, r))))))"
proof -
  let ?start = "(before, pt_sent (outside w))" and ?final = "fst (fst (ppk2_main env args dir (w, r)))"
  have "triple (ppk2_out.unused ?start) (ppk2_main env args dir) (\<lambda>_. ppk2_out.end_state True args ?start) (\<lambda>_. ppk2_out.end_state True args ?start)"
    unfolding ppk2_main_def
    by (rule triple_finallyA [OF triple_reraiseA [OF body_settles ppk2_out.calm_end] ppk2_out.calm_end ppk2_out.calm_end]) simp_all
  then have "settled (switches_on args) True (requested args) ?start ?final"
    by (rule triple_case_sum [where s = "(w, r)" and r = "snd (ppk2_main env args dir (w, r))"]) simp_all
  from settled_end [OF this] show ?thesis unfolding requested_def fst_conv snd_conv by (simp only: simp_thms)
qed

end
