(* ===== verification/Blu939_Cli.thy ===== *)
theory Blu939_Cli
  imports Blu939 Power_Run
begin

section \<open>The BLU939 command\<close>

text \<open>
  Models \<open>command\<close> of \<open>src/tools/nrfkit_tools/blu939_cli.py\<close>. It differs from the PPK2's in its limits, in the instrument object
  that remembers its last response, and in a clean-up that first stores that response. Storing it may fail
  (\<open>pe_storable\<close>): then the rest of the clean-up but the closing of the port is skipped.
\<close>

datatype blu939_cmd_error = BluE blu939_error | BluTool tool_error
  | BluVoltage | BluSessionDuration | BluInterval | BluCycleVoltage | BluHold | BluOnVoltage | BluVoltageDiffers | BluNoVoltage

type_synonym blu939_run = "blu_state \<times> blu939_summary_record power_report"

type_synonym 'a blu939_step = "(blu939_run, blu939_cmd_error, 'a) action"

type_synonym blu939_env = "(blu939_summary_record, blu939_cmd_error) power_env"

text \<open>A statement about files, in a run.\<close>

definition onBlu939 :: "(port host, blu939_error, 'a) action \<Rightarrow> 'a blu939_step" where
  "onBlu939 m = onWorld BluE (onInstrument m)"

definition blu939_run_json :: "blu939_env \<Rightarrow> path \<Rightarrow> unit blu939_step" where
  "blu939_run_json env dir s =
     onBlu939 (atomic_json (pe_temporary env (path_join dir ''run.json'')) (path_join dir ''run.json'') (pe_dumps env (snd s))) s"

definition blu939_sha256 :: "blu939_env \<Rightarrow> path \<Rightarrow> string blu939_step" where
  "blu939_sha256 env p = bindA (onBlu939 (read_file (BluPython OSError) p)) (\<lambda>content. pureA (pe_digest env content))"

definition blu939_bind_firmware :: "blu939_env \<Rightarrow> power_args \<Rightarrow> unit blu939_step" where
  "blu939_bind_firmware env args =
     (case pa_manifest args of
        None \<Rightarrow> pureA ()
      | Some p \<Rightarrow>
          bindA (readA (\<lambda>s. files (snd (fst s)))) (\<lambda>fs.
          bindA (liftA (mapE BluTool (load_manifest (pe_digest env) (pe_decode env) fs p True))) (\<lambda>manifest.
          bindA (blu939_sha256 env p) (\<lambda>h.
          bindA (liftA (mapE (BluE \<circ> BluPython) (bindR (jitem manifest ''debug_elf'') (\<lambda>e. jitem e ''sha256'')))) (\<lambda>elf.
            record_in (\<lambda>r. r\<lparr>pr_firmware := Some (h, elf)\<rparr>))))))"

definition blu939_check_args :: "power_args \<Rightarrow> unit blu939_step" where
  "blu939_check_args args =
     bindA (requireA (case pa_voltage_mv args of None \<Rightarrow> True | Some v \<Rightarrow> 500 \<le> v \<and> v \<le> 5000) BluVoltage) (\<lambda>_.
       case pa_action args of
         ShowInfo _ \<Rightarrow> pureA ()
       | SetPower _ \<Rightarrow> requireA (fbetween 1 (pa_duration args) 600) BluSessionDuration
       | TakeCapture \<Rightarrow>
           bindA (requireA (fbetween (1 / 100) (pa_duration args) 600 \<and> fbetween 0 (pa_settle args) 60 \<and> fbetween 0 (pa_hold_after args) 60)
             BluInterval) (\<lambda>_.
           bindA (requireA (\<not> (pa_power_cycle args \<and> pa_voltage_mv args = None)) BluCycleVoltage) (\<lambda>_.
           bindA (requireA (\<not> (ftruth (pa_hold_after args) \<and> \<not> pa_power_cycle args)) BluHold) (\<lambda>_.
             record_in (\<lambda>r. r\<lparr>pr_label := Some (pa_label args)\<rparr>)))))"

definition blu939_do_power :: "blu939_env \<Rightarrow> power_args \<Rightarrow> path \<Rightarrow> bool \<Rightarrow> unit blu939_step" where
  "blu939_do_power env args dir on =
     bindA (if on then
              (case pa_voltage_mv args of
                 None \<Rightarrow> raiseA BluOnVoltage
               | Some v \<Rightarrow>
                   bindA (onWorld BluE (blu939_power False)) (\<lambda>_.
                   bindA (onWorld BluE (blu939_configure_voltage (pe_checks env) v)) (\<lambda>m.
                     record_in (\<lambda>r. r\<lparr>pr_metadata_after := Some m\<rparr>))))
            else pureA ()) (\<lambda>_.
     bindA (onWorld BluE (blu939_power on)) (\<lambda>_.
     bindA (record_in (\<lambda>r. r\<lparr>pr_output_requested := Some on\<rparr>)) (\<lambda>_.
       if on then bindA (record_in (\<lambda>r. r\<lparr>pr_phase := Some ''powered''\<rparr>)) (\<lambda>_. blu939_run_json env dir)
       else pureA ())))"

definition blu939_set_up :: "blu939_env \<Rightarrow> power_args \<Rightarrow> metadata \<Rightarrow> metadata blu939_step" where
  "blu939_set_up env args m =
     (case (pa_power_cycle args, pa_voltage_mv args) of
        (True, Some v) \<Rightarrow>
          bindA (onWorld BluE (blu939_power False)) (\<lambda>_.
          bindA (onWorld BluE (blu939_configure_voltage (pe_checks env) v)) (\<lambda>m'.
          bindA (onWorld BluE (blu939_power True)) (\<lambda>_. pureA m')))
      | (True, None) \<Rightarrow> raiseA (BluE (BluPython TypeError))
      | (False, Some v) \<Rightarrow> if meta_is m ''vdd'' v then pureA m else raiseA BluVoltageDiffers
      | (False, None) \<Rightarrow> pureA m)"

definition blu939_keep_capture ::
  "blu939_env \<Rightarrow> power_args \<Rightarrow> path \<Rightarrow> metadata \<Rightarrow> int \<Rightarrow> acquisition \<Rightarrow> unit blu939_step" where
  "blu939_keep_capture env args dir m voltage acq =
     (let raw = path_join dir ''samples.bin''; csv = path_join dir ''current.csv'' in
      bindA (record_in (\<lambda>r. r\<lparr>pr_acquisition := Some acq\<rparr>)) (\<lambda>_.
      bindA (blu939_sha256 env raw) (\<lambda>h.
      bindA (record_in (\<lambda>r. r\<lparr>pr_raw_sha256 := Some h\<rparr>)) (\<lambda>_.
      bindA (onBlu939 (blu939_decode_capture raw csv m voltage)) (\<lambda>summary.
      bindA (record_in (\<lambda>r. r\<lparr>pr_summary := Some summary\<rparr>)) (\<lambda>_.
      bindA (blu939_sha256 env csv) (\<lambda>h'.
      bindA (record_in (\<lambda>r. r\<lparr>pr_csv := Some (csv, h')\<rparr>)) (\<lambda>_.
        if ftruth (pa_hold_after args)
        then bindA (record_in (\<lambda>r. r\<lparr>pr_phase := Some ''post-capture-powered''\<rparr>)) (\<lambda>_. blu939_run_json env dir)
        else pureA ()))))))))"

definition blu939_do_capture :: "blu939_env \<Rightarrow> power_args \<Rightarrow> path \<Rightarrow> metadata \<Rightarrow> unit blu939_step" where
  "blu939_do_capture env args dir before =
     bindA (blu939_set_up env args before) (\<lambda>m.
     bindA (case configured_voltage m 500 of None \<Rightarrow> raiseA BluNoVoltage | Some v \<Rightarrow> pureA v) (\<lambda>voltage.
     bindA (record_in (\<lambda>r. r\<lparr>pr_metadata := Some m\<rparr>)) (\<lambda>_.
     bindA (onWorld BluE (blu939_capture (path_join dir ''samples.bin'') (pa_duration args))) (blu939_keep_capture env args dir m voltage))))"

definition blu939_keep_response :: "blu939_env \<Rightarrow> path \<Rightarrow> unit blu939_step" where
  "blu939_keep_response env dir =
     (let p = path_join dir ''metadata-response.bin'' in
      bindA (readA (\<lambda>s. bl_last_response (fst (fst s)))) (\<lambda>response.
        if response = [] then pureA ()
        else bindA (requireA (pe_storable env) (BluE (BluPython OSError))) (\<lambda>_.
             bindA (onBlu939 (write_file p response)) (\<lambda>_.
             bindA (blu939_sha256 env p) (\<lambda>h.
               record_in (\<lambda>r. r\<lparr>pr_metadata_response := Some (p, length response, h)\<rparr>))))))"

definition blu939_cleanup :: "blu939_env \<Rightarrow> power_args \<Rightarrow> path \<Rightarrow> unit blu939_step" where
  "blu939_cleanup env args dir =
     finallyA
       (bindA (blu939_keep_response env dir) (\<lambda>_.
          if switches_on args
          then bindA (onWorld BluE (blu939_power False)) (\<lambda>_. record_in (\<lambda>r. r\<lparr>pr_cleanup_off := True\<rparr>))
          else pureA ()))
       (onBlu939 serial_close)"

definition blu939_open :: "blu939_env \<Rightarrow> unit blu939_step" where
  "blu939_open env =
     bindA (requireA (pe_openable env) (BluE (BluPython OSError))) (\<lambda>_.
       updateA (\<lambda>((b, w), r). ((b\<lparr>bl_last_response := []\<rparr>, w), r)))"

definition blu939_session :: "blu939_env \<Rightarrow> power_args \<Rightarrow> path \<Rightarrow> unit blu939_step" where
  "blu939_session env args dir =
     bindA (blu939_open env) (\<lambda>_.
       finallyA
         (bindA (onWorld BluE blu939_metadata) (\<lambda>m.
          bindA (record_in (\<lambda>r. r\<lparr>pr_metadata_before := Some m\<rparr>)) (\<lambda>_.
          bindA (blu939_run_json env dir) (\<lambda>_.
          bindA (case pa_action args of
                   ShowInfo _ \<Rightarrow> pureA ()
                 | SetPower on \<Rightarrow> blu939_do_power env args dir on
                 | TakeCapture \<Rightarrow> blu939_do_capture env args dir m) (\<lambda>_.
            record_in (\<lambda>r. r\<lparr>pr_status := Some ''ok''\<rparr>))))))
         (blu939_cleanup env args dir))"

definition blu939_body :: "blu939_env \<Rightarrow> power_args \<Rightarrow> path \<Rightarrow> unit blu939_step" where
  "blu939_body env args dir =
     bindA (blu939_bind_firmware env args) (\<lambda>_.
     bindA (blu939_check_args args) (\<lambda>_.
     bindA (pureA (blu939_discover (pe_ports env) (pa_serial args))) (\<lambda>devices.
     bindA (record_in (\<lambda>r. r\<lparr>pr_devices := Some devices\<rparr>)) (\<lambda>_.
       if pa_action args = ShowInfo True then record_in (\<lambda>r. r\<lparr>pr_status := Some ''ok''\<rparr>)
       else bindA (liftA (mapE BluE (blu939_select (pe_ports env) (pa_serial args)))) (\<lambda>device.
            bindA (requireA (\<not> pe_locked env) (BluTool ProbeLocked)) (\<lambda>_. blu939_session env args dir))))))"

definition blu939_main :: "blu939_env \<Rightarrow> power_args \<Rightarrow> path \<Rightarrow> unit blu939_step" where
  "blu939_main env args dir =
     finallyA
       (reraiseA (blu939_body env args dir) (\<lambda>e.
          record_in (\<lambda>r. r\<lparr>pr_status := Some ''failed'', pr_failure := Some (pe_describe env e)\<rparr>)))
       (blu939_run_json env dir)"

end
