(* ===== verification/Blu939_Cli_Correct.thy ===== *)
theory Blu939_Cli_Correct
  imports Blu939_Cli Power_Discipline
begin

section \<open>Correctness of the BLU939 command\<close>

text \<open>
  The BLU939 is an instrument in the sense of \<open>Power_Discipline\<close> too. Its clean-up stores the last metadata response before
  it switches the output off, so the output is known to be off at the end only when that could be stored and the write that switches it off
  was complete.
\<close>

lemma onInstrument_triple:
  assumes "triple P m (\<lambda>_. Q) (\<lambda>_. X)"
  shows "triple (\<lambda>s. P (snd s)) (onInstrument m) (\<lambda>_ s. Q (snd s)) (\<lambda>_ s. X (snd s))"
  using assms unfolding triple_def onInstrument_def by (fastforce split: prod.splits sum.splits)

lemma blu939_command_stands:
  assumes "scan_command v st (c, True) = Some st'" and "scan_command v st (c, False) = Some st''"
  shows "triple (\<lambda>s. stands v start st (snd s)) (onInstrument (blu939_command c)) (\<lambda>_ s. stands v start st' (snd s))
    (\<lambda>_ s. stands v start st'' (snd s) \<and> last (pt_sent (outside (snd s))) = (c, False))"
  unfolding blu939_command_def by (rule onInstrument_triple [OF serial_command_stands [OF assms]])

lemma blu939_power_off:
  "triple (\<lambda>s. stands v start (c, on) (snd s)) (blu939_power False) (\<lambda>_ s. stands v start (c, False) (snd s))
     (\<lambda>_ s. stands v start (c, on) (snd s) \<and> failed_off (snd s))"
  unfolding blu939_power_def failed_off_def of_bool_eq
  by (rule blu939_command_stands) (simp_all add: scan_command_def)

lemma blu939_power_on:
  "triple (\<lambda>s. stands v start (True, False) (snd s)) (blu939_power True) (\<lambda>_ s. disciplined v start (snd s)) (\<lambda>_ s. disciplined v start (snd s))"
proof -
  have "scan_command v (True, False) ([0x0C, of_bool True], b) = Some (True, True)" for b by (simp add: scan_command_def)
  from blu939_command_stands [OF this this] show ?thesis unfolding blu939_power_def
    by (rule triple_weaken) (auto dest: stands_disciplined)
qed

lemma blu939_metadata_stands:
  "triple (\<lambda>s. stands v start st (snd s)) blu939_metadata (\<lambda>_ s. stands v start st (snd s)) (\<lambda>_ s. stands v start st (snd s))"
proof -
  have "scan_command v st ([0x19], b) = Some st" for b by (simp add: scan_command_def split: prod.splits)
  from triple_post [OF blu939_command_stands [OF this this]] show ?thesis unfolding blu939_metadata_def
    by (rule triple_bindA) (auto simp: triple_def Let_def stands_def split: prod.splits sum.splits blu939_error.splits)
qed

lemma blu939_configure_loop_stands:
  "triple (\<lambda>s. stands v start st (snd s)) (blu939_configure_loop voltage checks) (\<lambda>_ s. stands v start st (snd s)) (\<lambda>_ s. stands v start st (snd s))"
proof (induction checks)
  case Nil
  show ?case by (subst blu939_configure_loop.simps, rule triple_bindA [OF blu939_metadata_stands]) (auto intro!: tripleI simp: action_simps)
next
  case (Cons late rest)
  then show ?case
    by (subst blu939_configure_loop.simps, intro triple_bindA [OF blu939_metadata_stands])
      (auto intro!: tripleI simp: action_simps dest: triple_Inr triple_Inl split: if_splits simp del: blu939_configure_loop.simps)
qed

lemma blu939_configure_stands:
  "triple (\<lambda>s. off_again (voltage_bytes u) start (snd s)) (blu939_configure_voltage checks u)
     (\<lambda>_ s. stands (voltage_bytes u) start (True, False) (snd s)) (\<lambda>_ s. off_again (voltage_bytes u) start (snd s))"
proof -
  let ?v = "voltage_bytes u"
  have "triple (\<lambda>s. stands ?v start (c, False) (snd s)) (blu939_configure_voltage checks u)
     (\<lambda>_ s. stands ?v start (True, False) (snd s)) (\<lambda>_ s. off_again ?v start (snd s))" for c
  proof -
    have "scan_command ?v (c, False) (?v, True) = Some (True, False)" "scan_command ?v (c, False) (?v, False) = Some (c, False)"
      by (simp_all add: scan_command_def voltage_bytes_def)
    note set_it = blu939_command_stands [OF this, of start]
    show ?thesis unfolding blu939_configure_voltage_def
      by (rule triple_bindA [OF triple_post [OF triple_keeps(2)]
            triple_bindA [OF triple_post [OF set_it] triple_post [OF blu939_configure_loop_stands]]]) (auto dest: stands_off)
  qed
  then show ?thesis unfolding off_again_def by (intro triple_some)
qed

lemma blu939_capture_stands:
  "triple (\<lambda>s. stands v start st (snd s)) (blu939_capture p d) (\<lambda>_ s. stands v start st (snd s)) (\<lambda>_ s. stands v start st (snd s))"
  unfolding blu939_capture_def by (rule onInstrument_triple [OF capture_stands])

lemma blu939_closes:
  "triple (\<lambda>s. outside (snd s) = port) (onInstrument serial_close) (\<lambda>_ s. outside (snd s) = port\<lparr>pt_closed := True\<rparr>)
     (\<lambda>_ s. outside (snd s) = port\<lparr>pt_closed := True\<rparr>)"
  by (rule onInstrument_triple, intro tripleI) (auto simp: serial_close_def action_simps)

interpretation blu939_out: power_instrument snd BluE blu939_power blu939_configure_voltage blu939_metadata blu939_capture "onInstrument serial_close"
  by unfold_locales (simp_all add: blu939_power_off blu939_power_on blu939_configure_stands blu939_metadata_stands blu939_capture_stands blu939_closes)

subsection \<open>Steps of a run\<close>

lemma calm_onBlu939: "stable same_port m \<Longrightarrow> stable (calm snd) (onBlu939 m)"
  unfolding onBlu939_def by (rule calm_onWorld) (auto simp: onInstrument_def stable_def same_port_def split: prod.splits)

lemma blu939_calm_run_json [simp]: "stable (calm snd) (blu939_run_json env dir)"
proof -
  have "stable (calm snd) (onBlu939 (atomic_json t p rendered))" for t p rendered by (intro calm_onBlu939) simp
  then show ?thesis unfolding stable_def blu939_run_json_def by blast
qed

lemma blu939_calm_sha256 [simp]: "stable (calm snd) (blu939_sha256 env p)"
  unfolding blu939_sha256_def by (intro calm.stable_bindA calm_onBlu939) simp_all

lemma blu939_calm_decode [simp]: "stable (calm snd) (onBlu939 (blu939_decode_capture raw csv m voltage))"
  unfolding blu939_decode_capture_def
  by (intro calm_onBlu939 port_left.stable_bindA) (auto intro: port_left.stable_liftA port_left.stable_requireA split: prod.splits)

lemma blu939_calm_bind_firmware [simp]: "stable (calm snd) (blu939_bind_firmware env args)"
  unfolding blu939_bind_firmware_def by (auto split: option.splits intro!: calm.stable_bindA)

lemma blu939_calm_check_args [simp]: "stable (calm snd) (blu939_check_args args)"
  unfolding blu939_check_args_def by (auto split: power_action.splits intro!: calm.stable_bindA)

lemma blu939_do_power_on:
  "triple (blu939_out.idle_state args start) (blu939_do_power env args dir True) (\<lambda>_. blu939_out.good_state args start) (\<lambda>_. blu939_out.good_state args start)"
proof (cases "pa_voltage_mv args")
  case None
  then show ?thesis by (simp add: blu939_do_power_def blu939_out.raise_session)
next
  case (Some u)
  show ?thesis unfolding blu939_do_power_def Some option.case if_True
    by (rule blu939_out.power_session [OF Some]) (simp_all add: calm.stable_bindA)
qed

lemma blu939_do_power_off:
  "triple (blu939_out.idle_state args start) (blu939_do_power env args dir False) (\<lambda>_. blu939_out.idle_state args start) (\<lambda>_. blu939_out.idle_state args start)"
  unfolding blu939_do_power_def if_False by (rule blu939_out.power_off_session) (simp add: calm.stable_bindA)

lemma blu939_set_up_discipline:
  "triple (blu939_out.idle_state args start) (blu939_set_up env args m)
     (\<lambda>_ s. if pa_power_cycle args then blu939_out.good_state args start s else blu939_out.idle_state args start s)
     (\<lambda>_ s. if pa_power_cycle args then blu939_out.good_state args start s else blu939_out.idle_state args start s)"
proof (cases "pa_power_cycle args")
  case True
  then show ?thesis
    by (cases "pa_voltage_mv args") (simp_all add: blu939_set_up_def blu939_out.raise_session blu939_out.cycle_session)
next
  case False
  then have "stable (calm snd) (blu939_set_up env args m)" by (auto simp: blu939_set_up_def split: option.splits)
  with False show ?thesis by (simp add: blu939_out.calm_idle)
qed

lemma blu939_do_capture_discipline:
  "triple (blu939_out.idle_state args start) (blu939_do_capture env args dir m)
     (\<lambda>_ s. if pa_power_cycle args then blu939_out.good_state args start s else blu939_out.idle_state args start s)
     (\<lambda>_ s. if pa_power_cycle args then blu939_out.good_state args start s else blu939_out.idle_state args start s)"
proof -
  have run: "blu939_do_capture env args dir m =
     bindA (blu939_set_up env args m) (\<lambda>m'. bindA
       (bindA (case configured_voltage m' 500 of None \<Rightarrow> raiseA BluNoVoltage | Some v \<Rightarrow> pureA v) (\<lambda>v.
          bindA (record_in (\<lambda>r. r\<lparr>pr_metadata := Some m'\<rparr>)) (\<lambda>_. pureA v))) (\<lambda>v.
       bindA (onWorld BluE (blu939_capture (path_join dir ''samples.bin'') (pa_duration args))) (blu939_keep_capture env args dir m' v)))"
    by (simp add: blu939_do_capture_def bindA_assoc bindA_pureA)
  have "stable (calm snd) (blu939_keep_capture env args dir m' v a)" for m' v a
    unfolding blu939_keep_capture_def Let_def by (auto intro!: calm.stable_bindA)
  then show ?thesis unfolding run
    by - (rule blu939_out.capture_session [OF blu939_set_up_discipline], auto split: option.splits intro!: calm.stable_bindA)
qed

subsection \<open>The run\<close>

lemma blu939_calm_keep_response [simp]: "stable (calm snd) (blu939_keep_response env dir)"
  unfolding blu939_keep_response_def Let_def by (auto intro!: calm.stable_bindA calm.stable_if calm_onBlu939)

lemma blu939_keep_response_stored:
  "pe_storable env \<Longrightarrow> blu939_keep_response env dir s = (s', r) \<Longrightarrow> r = Inr ()"
  unfolding blu939_keep_response_def Let_def blu939_sha256_def onBlu939_def
  by (cases s; cases r) (auto simp: action_simps onInstrument_def read_file_def write_file_def updateA_def record_in_def
      split: if_splits prod.splits)

lemma blu939_keep_response_safe:
  assumes "switches_on args"
  shows "triple (blu939_out.good_state args start) (blu939_keep_response env dir) (\<lambda>_. blu939_out.good_state args start)
    (\<lambda>_. blu939_out.safe_state (pe_storable env) args start)"
proof (cases "pe_storable env")
  case True
  have failing: "blu939_keep_response env dir s \<noteq> (s', Inl e)" for s s' e using blu939_keep_response_stored [OF True] by blast
  show ?thesis
    by (rule tripleI) (erule (1) triple_Inr [OF blu939_out.calm_good [OF blu939_calm_keep_response]], simp add: failing)
next
  case False
  show ?thesis
    by (rule triple_post [OF blu939_out.calm_good [OF blu939_calm_keep_response]]) (simp add: assms False excused_safe)
qed

lemma blu939_cleanup_settles:
  "triple (\<lambda>s. if switches_on args then blu939_out.good_state args start s else blu939_out.idle_state args start s) (blu939_cleanup env args dir)
     (\<lambda>_. blu939_out.end_state (pe_storable env) args start) (\<lambda>_. blu939_out.end_state (pe_storable env) args start)"
proof -
  note close = blu939_out.close_step [where stored = "pe_storable env" and args = args and start = start]
  show ?thesis
  proof (cases "switches_on args")
    case True
    have "triple (blu939_out.good_state args start) (bindA (onWorld BluE (blu939_power False)) (\<lambda>_. record_in (\<lambda>r. r\<lparr>pr_cleanup_off := True\<rparr>)))
        (\<lambda>_. blu939_out.safe_state (pe_storable env) args start) (\<lambda>_. blu939_out.safe_state (pe_storable env) args start)"
      by (rule blu939_out.off_session [OF _ True]) simp
    from triple_finallyA [OF triple_bindA [OF blu939_keep_response_safe [OF True] this] close close] True
    show ?thesis by (simp add: blu939_cleanup_def onBlu939_def)
  next
    case False
    have "triple (blu939_out.idle_state args start) (bindA (blu939_keep_response env dir) (\<lambda>_. pureA ()))
        (\<lambda>_. blu939_out.safe_state (pe_storable env) args start) (\<lambda>_. blu939_out.safe_state (pe_storable env) args start)"
      by (rule triple_weaken [OF blu939_out.calm_idle [OF calm.stable_bindA]]) (auto simp: False intro: idle_safe)
    from triple_finallyA [OF this close close] False show ?thesis unfolding blu939_cleanup_def onBlu939_def by (simp only: if_False)
  qed
qed

text \<open>
  The exception is real: when the response cannot be stored, the clean-up sends no command at all, so an output that was on is
  left on.
\<close>

lemma blu939_cleanup_skips_power_off:
  assumes "\<not> pe_storable env" and "bl_last_response b \<noteq> []"
  shows "blu939_cleanup env args dir ((b, w), r) = (((b, w\<lparr>outside := (outside w)\<lparr>pt_closed := True\<rparr>\<rparr>), r), Inl (BluE (BluPython OSError)))"
  using assms unfolding blu939_cleanup_def blu939_keep_response_def onBlu939_def serial_close_def
  by (simp add: finallyA_def bindA_def readA_def requireA_def onWorld_def onInstrument_def onPort_def raiseA_def Let_def)

text \<open>So is the other: when the write of the last switch-off fails, the clean-up has nothing left to try.\<close>

lemma blu939_cleanup_failed_off:
  assumes "bl_last_response b = []" and "switches_on args" and "pt_writes (outside w) = None # later"
  shows "blu939_cleanup env args dir ((b, w), r) =
    (((b, w\<lparr>outside := (outside w)\<lparr>pt_sent := pt_sent (outside w) @ [([0x0C, 0], False)], pt_writes := later, pt_closed := True\<rparr>\<rparr>), r),
     Inl (BluE (BluPython OSError)))"
  using assms unfolding blu939_cleanup_def blu939_keep_response_def onBlu939_def serial_close_def blu939_power_def blu939_command_def serial_command_def
  by (simp add: finallyA_def bindA_def readA_def pureA_def onWorld_def onInstrument_def onPort_def Let_def)

lemma blu939_open_session:
  "triple (blu939_out.unused start) (blu939_open env) (\<lambda>_. blu939_out.idle_state args start) (\<lambda>_. blu939_out.end_state stored args start)"
  unfolding blu939_open_def
  by (rule triple_bindA [OF blu939_out.require_session]) (auto simp: triple_def updateA_def split: prod.splits)

lemma blu939_action_discipline:
  "triple (blu939_out.idle_state args start)
     (case pa_action args of ShowInfo l \<Rightarrow> pureA () | SetPower on \<Rightarrow> blu939_do_power env args dir on | TakeCapture \<Rightarrow> blu939_do_capture env args dir m)
     (\<lambda>_ s. if switches_on args then blu939_out.good_state args start s else blu939_out.idle_state args start s)
     (\<lambda>_ s. if switches_on args then blu939_out.good_state args start s else blu939_out.idle_state args start s)"
proof (cases "pa_action args")
  case (ShowInfo l)
  then show ?thesis by (simp add: switches_on_def blu939_out.calm_idle)
next
  case (SetPower on)
  then show ?thesis by (cases on) (simp_all add: switches_on_def blu939_do_power_on blu939_do_power_off)
next
  case TakeCapture
  then show ?thesis using blu939_do_capture_discipline [of args start env dir m] by (simp add: switches_on_def)
qed

lemma blu939_session_settles:
  "triple (blu939_out.unused start) (blu939_session env args dir) (\<lambda>_. blu939_out.end_state (pe_storable env) args start) (\<lambda>_. blu939_out.end_state (pe_storable env) args start)"
  unfolding blu939_session_def
  by (rule triple_bindA [OF blu939_open_session triple_finallyA [OF blu939_out.session_body [OF blu939_action_discipline] blu939_cleanup_settles blu939_cleanup_settles]])
    simp_all

lemma blu939_body_settles:
  "triple (blu939_out.unused start) (blu939_body env args dir) (\<lambda>_. blu939_out.end_state (pe_storable env) args start) (\<lambda>_. blu939_out.end_state (pe_storable env) args start)"
  unfolding blu939_body_def
  by (rule triple_bindA [OF blu939_out.calm_unused triple_bindA [OF blu939_out.calm_unused triple_bindA [OF blu939_out.calm_unused triple_bindA [OF blu939_out.calm_unused]]]])
    (simp_all add: blu939_out.unused_end triple_bindA [OF blu939_out.calm_unused triple_bindA [OF blu939_out.calm_unused blu939_session_settles]])

text \<open>
  C33. A BLU939 run, however it ends and whatever the writes report, sends no voltage but the requested one, and only after a completely written switch-off or
  when the output was known to be off, switches the output on, or tries to, only after that voltage was written completely, and closes the
  port if it used it; and the output may be on at the end only if the last command sent is a switch-off whose write failed or was short, if the last
  metadata response, which is stored before that command, could not be stored, or, for a run that is not one that switches the output on, if
  it may have been on before.
\<close>

theorem blu939_output_disciplined:
  "\<exists>cmds set_up on. pt_sent (outside (snd (fst (fst (blu939_main env args dir ((b, w), r)))))) = pt_sent (outside w) @ cmds
    \<and> scan (voltage_bytes (case pa_voltage_mv args of Some u \<Rightarrow> u | None \<Rightarrow> 0)) (False, before) cmds = Some (set_up, on)
    \<and> (if on then if switches_on args \<and> cmds \<noteq> [] then if pe_storable env then last cmds = ([0x0C, 0], False) else True else before else True)
    \<and> (cmds = [] \<or> pt_closed (outside (snd (fst (fst (blu939_main env args dir ((b, w), r)))))))"
proof -
  let ?start = "(before, pt_sent (outside w))" and ?final = "snd (fst (fst (blu939_main env args dir ((b, w), r))))"
  have "triple (blu939_out.unused ?start) (blu939_main env args dir) (\<lambda>_. blu939_out.end_state (pe_storable env) args ?start)
      (\<lambda>_. blu939_out.end_state (pe_storable env) args ?start)"
    unfolding blu939_main_def
    by (rule triple_finallyA [OF triple_reraiseA [OF blu939_body_settles blu939_out.calm_end] blu939_out.calm_end blu939_out.calm_end]) simp_all
  then have "settled (switches_on args) (pe_storable env) (requested args) ?start ?final"
    by (rule triple_case_sum [where s = "((b, w), r)" and r = "snd (blu939_main env args dir ((b, w), r))"]) simp_all
  from settled_end [OF this] show ?thesis unfolding requested_def fst_conv snd_conv
    by (cases "pe_storable env") (simp_all only: simp_thms if_True if_False)
qed

end
