(* ===== verification/Bond.thy ===== *)
theory Bond
  imports Ihex_Writer
begin

section \<open>The bond store of the M6 settings region\<close>

text \<open>
  Models \<open>src/tools/nrfkit_tools/bond.py\<close>: printing the erased settings image, the check
  that an image covers exactly the settings region, and reading its bytes back.
\<close>

abbreviation M6_SETTINGS_START :: int where "M6_SETTINGS_START \<equiv> 0x001E1800"
abbreviation M6_SETTINGS_SIZE :: nat where "M6_SETTINGS_SIZE \<equiv> 0x2000"
abbreviation M6_SETTINGS_END :: int where "M6_SETTINGS_END \<equiv> 0x001E3800"

datatype bond_error = BondImage image_error | BondPython py_error

definition is_m6_bond_manifest :: "string \<Rightarrow> bool" where
  "is_m6_bond_manifest oracle = (oracle = ''nrf-bm-ble-hids-mouse-s115'')"

definition bond_record :: "int \<Rightarrow> int \<Rightarrow> bytes \<Rightarrow> py_error + string" where
  "bond_record kind offset data =
     (if 255 < length data \<or> \<not> (0 \<le> offset div 256 \<and> offset div 256 \<le> 255) \<or> \<not> (0 \<le> kind \<and> kind \<le> 255)
      then Inl ValueError
      else let raw = [word_of_nat (length data), word_of_int (offset div 256),
                      word_of_int (offset mod 256), word_of_int kind] @ data;
               sum = (- int (sum_list (map unat raw))) mod 256 in
        Inr ('':'' @ bytes_hex_upper (raw @ [word_of_int sum])))"

fun bond_data_lines :: "int list \<Rightarrow> py_error + string list" where
  "bond_data_lines [] = Inr []"
| "bond_data_lines (address # rest) =
     bindR (bond_record 0 (address mod 65536) (replicate 16 0xFF)) (\<lambda>line.
       bindR (bond_data_lines rest) (\<lambda>lines. Inr (line # lines)))"

definition settings_addresses :: "int list" where
  "settings_addresses = map (\<lambda>i. M6_SETTINGS_START + 16 * int i) [0..<M6_SETTINGS_SIZE div 16]"

definition erased_settings_text :: "py_error + string" where
  "erased_settings_text =
     bindR (bond_record 4 0 (to_be 2 (nat (M6_SETTINGS_START div 65536)))) (\<lambda>first.
       bindR (bond_data_lines settings_addresses) (\<lambda>body.
         bindR (bond_record 1 0 []) (\<lambda>last_line.
           Inr (join_str [LF] (first # body @ [last_line]) @ [LF]))))"

definition require_exact_m6_settings_image :: "filesystem \<Rightarrow> path \<Rightarrow> bond_error + unit" where
  "require_exact_m6_settings_image fs p =
     bindR (mapE BondImage (parse_ihex fs p)) (\<lambda>image.
       bindR (mapE BondImage (require_allowed (ranges image) [(M6_SETTINGS_START, M6_SETTINGS_END)])) (\<lambda>_.
         if ranges image \<noteq> [(M6_SETTINGS_START, M6_SETTINGS_END)] then Inl (BondImage BondImageNotExact)
         else Inr ()))"

definition write_erased_m6_settings :: "filesystem \<Rightarrow> path \<Rightarrow> filesystem \<times> (bond_error + unit)" where
  "write_erased_m6_settings fs p =
     (case erased_settings_text of
        Inl e \<Rightarrow> (fs, Inl (BondPython e))
      | Inr text \<Rightarrow>
          let fs' = fs(p := Some (ascii_encode text)) in
          (fs', require_exact_m6_settings_image fs' p))"

text \<open>The second reader: no checks, later bytes overwrite earlier ones.\<close>

fun overwrite_payload :: "int \<Rightarrow> bytes \<Rightarrow> hex_memory \<Rightarrow> hex_memory" where
  "overwrite_payload address [] m = m"
| "overwrite_payload address (v # vs) m = overwrite_payload (address + 1) vs (AList.update address v m)"

definition settings_line :: "string \<Rightarrow> hex_memory \<times> int \<Rightarrow> py_error + (hex_memory \<times> int)" where
  "settings_line text st =
     (case st of (m, b) \<Rightarrow>
      case fromhex (drop 1 text) of
        None \<Rightarrow> Inl ValueError
      | Some raw \<Rightarrow>
        if length raw < 4 then Inl ValueError
        else let len = unat (raw ! 0); payload = py_slice raw 4 (4 + len); kind = unat (raw ! 3) in
          if kind = 0 then
            Inr (overwrite_payload (b + int (unat (raw ! 1) * 256 + unat (raw ! 2))) payload m, b)
          else if kind = 2 then Inr (m, int (from_be payload) * 16)
          else if kind = 4 then Inr (m, int (from_be payload) * 65536)
          else Inr (m, b))"

fun settings_lines :: "string list \<Rightarrow> hex_memory \<times> int \<Rightarrow> py_error + (hex_memory \<times> int)" where
  "settings_lines [] st = Inr st"
| "settings_lines (l # ls) st = bindR (settings_line l st) (settings_lines ls)"

fun lookup_all :: "hex_memory \<Rightarrow> int list \<Rightarrow> py_error + bytes" where
  "lookup_all m [] = Inr []"
| "lookup_all m (a # as) =
     (case map_of m a of
        None \<Rightarrow> Inl KeyError
      | Some v \<Rightarrow> bindR (lookup_all m as) (\<lambda>vs. Inr (v # vs)))"

definition read_exact_m6_settings :: "filesystem \<Rightarrow> path \<Rightarrow> bond_error + bytes" where
  "read_exact_m6_settings fs p =
     bindR (require_exact_m6_settings_image fs p) (\<lambda>_.
       bindR (mapE BondImage (ihex_text fs p)) (\<lambda>lines.
         bindR (mapE BondPython (settings_lines lines ([], 0))) (\<lambda>(m, b).
           mapE BondPython (lookup_all m [M6_SETTINGS_START..M6_SETTINGS_END - 1]))))"

subsection \<open>The record printer\<close>

interpretation bond_hex: ihex_writer bond_record
proof unfold_locales
  fix kind offset :: int and payload :: bytes
  assume k: "0 \<le> kind" "kind < 256" and o': "0 \<le> offset" "offset < 65536" and l: "length payload < 256"
  have "offset div 256 \<le> 255" "0 \<le> offset div 256" "0 \<le> offset mod 256" using o' by auto
  note pos = this
  have fit: "\<not> (255 < length payload \<or> \<not> (0 \<le> offset div 256 \<and> offset div 256 \<le> 255) \<or> \<not> (0 \<le> kind \<and> kind \<le> 255))"
    using pos k l by simp
  have "nat (offset div 256) = nat offset div 256" "nat (offset mod 256) = nat offset mod 256"
    using o' by (simp_all add: nat_div_distrib nat_mod_distrib)
  with byte_of_int [OF pos(2)] byte_of_int [OF pos(3)] byte_of_int [OF k(1)]
  have w: "(word_of_int (offset div 256) :: byte) = word_of_nat (nat offset div 256)"
      "(word_of_int (offset mod 256) :: byte) = word_of_nat (nat offset mod 256)"
      "(word_of_int kind :: byte) = word_of_nat (nat kind)"
    by (simp_all only:)
  show "bond_record kind offset payload = Inr (record_text (raw_record (nat kind) (nat offset) payload))"
    unfolding bond_record_def record_text_def raw_record_def record_body_def checksum_def Let_def
    by (simp only: fit w if_False)
qed

subsection \<open>The erased image\<close>

text \<open>The settings region is not to be unrolled byte by byte.\<close>

declare upto_rec_numeral [simp del] and upt_rec_numeral [simp del]

lemma bond_data_lines_parsed:
  assumes "eof st = False" and "base st = 0x1E0000" and "length done + 16 * k \<le> 0x2000"
    and "memory st = zip [M6_SETTINGS_START..M6_SETTINGS_START + int (length done) - 1] done"
    and "as = map (\<lambda>i. M6_SETTINGS_START + int (length done) + 16 * int i) [0..<k]"
  shows "\<exists>ls. bond_data_lines as = Inr ls \<and> (\<forall>l \<in> set ls. plain_line l)
    \<and> ihex_lines n ls st = Inr (st\<lparr>memory := zip [M6_SETTINGS_START..M6_SETTINGS_START
        + int (length (done @ replicate (16 * k) 0xFF)) - 1] (done @ replicate (16 * k) 0xFF)\<rparr>)"
  using assms
proof (induction k arbitrary: "done" st n as)
  case 0
  then show ?case by simp
next
  case (Suc k)
  let ?a = "M6_SETTINGS_START + int (length done)" and ?new = "done @ replicate 16 (0xFF :: byte)"
  have as: "as = ?a # map (\<lambda>i. M6_SETTINGS_START + int (length ?new) + 16 * int i) [0..<k]"
    using Suc.prems(5) by (simp add: upt_rec [of 0 "Suc k"] map_Suc_upt [symmetric] comp_def del: upt_Suc)
  have bound: "length done + 16 \<le> 0x2000" using Suc.prems(3) by simp
  have off: "?a mod 65536 = ?a - 0x1E0000" 
  proof -
    have "(0x1800 + int (length done) + 30 * 65536) mod 65536 = 0x1800 + int (length done)"
      using bound by (subst mod_mult_self1) simp
    then show ?thesis by (simp add: algebra_simps)
  qed
  let ?st = "st\<lparr>memory := zip [M6_SETTINGS_START..M6_SETTINGS_START + int (length ?new) - 1] ?new\<rparr>"
  have "\<exists>line. bond_record 0 (?a - 0x1E0000) (replicate 16 0xFF) = Inr line \<and> plain_line line \<and>
    ihex_line n line st = Inr (st\<lparr>memory := memory st @
      zip [base st + (?a - 0x1E0000)..base st + (?a - 0x1E0000) + int (length (replicate 16 (0xFF::byte))) - 1]
        (replicate 16 0xFF)\<rparr>)"
    using Suc.prems(1,2,4) bound zip_upto_keys [of M6_SETTINGS_START "done"]
    by (intro bond_hex.data_line) auto
  then obtain line where line: "bond_record 0 (?a mod 65536) (replicate 16 0xFF) = Inr line" "plain_line line"
    "ihex_line n line st = Inr ?st"
    using Suc.prems(2,4) zip_upto_append [of M6_SETTINGS_START "done" "replicate 16 (0xFF::byte)"]
    by (auto simp: off)
  from Suc.IH [of ?st ?new "map (\<lambda>i. M6_SETTINGS_START + int (length ?new) + 16 * int i) [0..<k]" "Suc n"]
    Suc.prems(1,2,3)
  obtain ls where ls: "bond_data_lines (map (\<lambda>i. M6_SETTINGS_START + int (length ?new) + 16 * int i) [0..<k]) = Inr ls"
    "\<forall>l \<in> set ls. plain_line l"
    "ihex_lines (Suc n) ls ?st = Inr (?st\<lparr>memory := zip [M6_SETTINGS_START..M6_SETTINGS_START
        + int (length (?new @ replicate (16 * k) 0xFF)) - 1] (?new @ replicate (16 * k) 0xFF)\<rparr>)"
    by auto
  have rep: "?new @ replicate (16 * k) 0xFF = done @ replicate (16 * Suc k) 0xFF"
    by (simp add: replicate_add)
  show ?case
    using line ls rep unfolding as by auto
qed


lemma erased_settings_parsed:
  "\<exists>ls st. erased_settings_text = Inr (unlines ls) \<and> (\<forall>l \<in> set ls. plain_line l)
     \<and> ihex_lines 1 ls ihex_init = Inr st \<and> eof st
     \<and> memory st = zip [M6_SETTINGS_START..M6_SETTINGS_START + int (length (replicate 0x2000 (0xFF::byte))) - 1]
         (replicate 0x2000 0xFF)"
proof -
  obtain first where first: "bond_record 4 0 (to_be 2 (nat 30)) = Inr first" "plain_line first"
    "ihex_line 1 first ihex_init = Inr (ihex_init\<lparr>base := 30 * 65536\<rparr>)"
    using bond_hex.linear_address_line [of 30 ihex_init 1] by (auto simp: ihex_init_def)
  let ?st = "ihex_init\<lparr>base := 30 * 65536\<rparr>"
  obtain body where body: "bond_data_lines settings_addresses = Inr body" "\<forall>l \<in> set body. plain_line l"
    "ihex_lines 2 body ?st = Inr (?st\<lparr>memory := zip [M6_SETTINGS_START..M6_SETTINGS_START
        + int (length ([] @ replicate (16 * 512) (0xFF::byte))) - 1] ([] @ replicate (16 * 512) 0xFF)\<rparr>)"
    using bond_data_lines_parsed [of ?st "[]" 512 settings_addresses 2]
    by (auto simp: settings_addresses_def ihex_init_def)
  let ?st2 = "?st\<lparr>memory := zip [M6_SETTINGS_START..M6_SETTINGS_START
        + int (length (replicate 0x2000 (0xFF::byte))) - 1] (replicate 0x2000 0xFF)\<rparr>"
  have body3: "ihex_lines 2 body ?st = Inr ?st2"
  proof -
    have "16 * 512 = (0x2000 :: nat)" by simp
    with body(3) show ?thesis by (simp only: append_Nil)
  qed
  obtain l where l: "bond_record 1 0 [] = Inr l" "plain_line l"
    "ihex_line (2 + length body) l ?st2 = Inr (?st2\<lparr>eof := True\<rparr>)"
    using bond_hex.eof_line [of ?st2 "2 + length body"] by (auto simp: ihex_init_def)
  have "erased_settings_text = Inr (unlines (first # body @ [l]))"
    using first(1) body(1) l(1) by (simp add: erased_settings_text_def join_LF_unlines del: join_str.simps to_le_numeral)
  moreover have "ihex_lines 1 (first # body @ [l]) ihex_init = Inr (?st2\<lparr>eof := True\<rparr>)"
    using first(3) body3 l(3) by (simp add: ihex_lines_append numeral_2_eq_2 [symmetric])
  moreover have "\<forall>x \<in> set (first # body @ [l]). plain_line x" using first(2) body(2) l(2) by auto
  ultimately show ?thesis by (intro exI [of _ "first # body @ [l]"] exI [of _ "?st2\<lparr>eof := True\<rparr>"]) auto
qed

subsection \<open>The unchecked reader follows the checked one\<close>

lemma overwrite_payload_lookup:
  "map_of (overwrite_payload address payload m) x = (if address \<le> x \<and> x < address + int (length payload)
       then Some (payload ! nat (x - address)) else map_of m x)"
proof (induction address payload m rule: overwrite_payload.induct)
  case (2 address v vs m)
  have "nat (x - address) = Suc (nat (x - (address + 1)))" if "address + 1 \<le> x" using that by simp
  with 2 show ?case by (cases "x = address") (auto simp: AList.update_conv)
qed auto

lemma settings_line_follows:
  assumes "ihex_line n l st = Inr st'" and "map_of m = map_of (memory st)"
  shows "\<exists>m'. settings_line l (m, base st) = Inr (m', base st') \<and> map_of m' = map_of (memory st')"
proof -
  from assms(1) obtain raw where raw: "fromhex (drop 1 l) = Some raw" "ihex_record n raw st = Inr st'"
    by (auto simp: ihex_line_def split: if_splits option.splits)
  show ?thesis
  proof (cases "unat (raw ! 3) = 0")
    case True
    define a where "a = base st + int (unat (raw ! 1) * 256 + unat (raw ! 2))"
    define payload where "payload = py_slice raw 4 (4 + unat (raw ! 0))"
    from raw(2) True obtain k where k: "store_payload a payload (memory st) = Inr k" "st' = st\<lparr>memory := k\<rparr>"
      "4 \<le> length raw"
      by (auto simp: ihex_record_def Let_def result_simps a_def payload_def split: if_splits)
    have "map_of (overwrite_payload a payload m) = map_of k"
      by (rule ext) (simp add: overwrite_payload_lookup store_payload_lookup [OF k(1)] assms(2))
    with k True raw(1) show ?thesis by (auto simp: settings_line_def a_def payload_def Let_def)
  next
    case False
    with raw assms(2) show ?thesis
      by (auto simp: ihex_record_def settings_line_def Let_def split: if_splits)
  qed
qed

lemma settings_lines_follow:
  "ihex_lines n ls st = Inr st' \<Longrightarrow> map_of m = map_of (memory st) \<Longrightarrow>
     \<exists>m'. settings_lines ls (m, base st) = Inr (m', base st') \<and> map_of m' = map_of (memory st')"
proof (induction ls arbitrary: n st m)
  case (Cons l ls)
  from Cons.prems(1) obtain s where s: "ihex_line n l st = Inr s" "ihex_lines (Suc n) ls s = Inr st'"
    by (auto simp: result_simps)
  from settings_line_follows [OF s(1) Cons.prems(2)] Cons.IH [OF s(2)] show ?case by fastforce
qed auto

lemma lookup_all_total:
  "\<forall>a \<in> set as. map_of m a \<noteq> None \<Longrightarrow> lookup_all m as = Inr (map (\<lambda>a. the (map_of m a)) as)"
  by (induction as) auto

lemma require_exact_range:
  "require_exact_m6_settings_image fs p = Inr () \<Longrightarrow>
     \<exists>image. parse_ihex fs p = Inr image \<and> ranges image = [(M6_SETTINGS_START, M6_SETTINGS_END)]"
  by (auto simp: require_exact_m6_settings_image_def result_simps split: if_splits)

lemma read_exact_memory:
  assumes "require_exact_m6_settings_image fs p = Inr ()"
  shows "\<exists>m. hex_memory_of fs p = Inr m \<and> fst ` set m = {M6_SETTINGS_START..<M6_SETTINGS_END}
    \<and> read_exact_m6_settings fs p = Inr (map (\<lambda>a. the (map_of m a)) [M6_SETTINGS_START..M6_SETTINGS_END - 1])"
proof -
  from require_exact_range [OF assms] obtain image where image: "parse_ihex fs p = Inr image"
    "ranges image = [(M6_SETTINGS_START, M6_SETTINGS_END)]" by blast
  then obtain lines st where st: "ihex_text fs p = Inr lines" "ihex_lines 1 lines ihex_init = Inr st"
    by (auto simp: parse_ihex_def result_simps)
  then have m: "hex_memory_of fs p = Inr (memory st)" by (simp add: hex_memory_of_def)
  with parse_ihex_memory [OF image(1)] image(2)
  have dom: "fst ` set (memory st) = {M6_SETTINGS_START..<M6_SETTINGS_END}" by auto
  from settings_lines_follow [OF st(2), of "[]"] obtain m' where
    m': "settings_lines lines ([], 0) = Inr (m', base st)" "map_of m' = map_of (memory st)"
    by (auto simp: ihex_init_def)
  have "lookup_all m' [M6_SETTINGS_START..M6_SETTINGS_END - 1]
      = Inr (map (\<lambda>a. the (map_of m' a)) [M6_SETTINGS_START..M6_SETTINGS_END - 1])"
    by (rule lookup_all_total) (simp add: m'(2) map_of_eq_None_iff dom)
  then have "read_exact_m6_settings fs p
      = Inr (map (\<lambda>a. the (map_of (memory st) a)) [M6_SETTINGS_START..M6_SETTINGS_END - 1])"
    unfolding read_exact_m6_settings_def
    by (simp only: assms st(1) m' mapE.simps bindR.simps prod.case)
  with m dom show ?thesis by blast
qed


lemma erased_image_written:
  "\<exists>fs'. write_erased_m6_settings fs p = (fs', Inr ()) \<and> fs' = fs(p := fs' p)
     \<and> hex_memory_of fs' p = Inr (zip [M6_SETTINGS_START..M6_SETTINGS_START
         + int (length (replicate 0x2000 (0xFF::byte))) - 1] (replicate 0x2000 0xFF))"
proof -
  obtain ls st where ls: "erased_settings_text = Inr (unlines ls)" "\<forall>l \<in> set ls. plain_line l"
    "ihex_lines 1 ls ihex_init = Inr st" "eof st"
    "memory st = zip [M6_SETTINGS_START..M6_SETTINGS_START + int (length (replicate 0x2000 (0xFF::byte))) - 1]
         (replicate 0x2000 0xFF)"
    using erased_settings_parsed by blast
  define fs' where "fs' = fs(p := Some (ascii_encode (unlines ls)))"
  have lines: "ihex_text fs' p = Inr ls" using ls(2) by (intro ihex_text_unlines) (simp_all add: fs'_def)
  from parse_ihex_block [OF this ls(3,4,5)]
  have "parse_ihex fs' p = Inr \<lparr>image_path = p, ranges = [(M6_SETTINGS_START, M6_SETTINGS_END)], entry = None\<rparr>"
    by simp
  moreover have "require_allowed [(M6_SETTINGS_START, M6_SETTINGS_END)] [(M6_SETTINGS_START, M6_SETTINGS_END)] = Inr ()"
    by (simp add: FORBIDDEN_RANGES_def)
  ultimately have "require_exact_m6_settings_image fs' p = Inr ()"
    by (simp add: require_exact_m6_settings_image_def)
  then have "write_erased_m6_settings fs p = (fs', Inr ())"
    unfolding write_erased_m6_settings_def ls(1) by (simp add: fs'_def)
  moreover have "hex_memory_of fs' p = Inr (memory st)" by (simp only: hex_memory_of_def lines ls(3) bindR.simps)
  ultimately show ?thesis using ls(5) by (auto simp: fs'_def)
qed

lemma write_erased_then_exact:
  "write_erased_m6_settings fs p = (fs', Inr ()) \<Longrightarrow> require_exact_m6_settings_image fs' p = Inr ()"
  by (auto simp: write_erased_m6_settings_def Let_def split: sum.splits)

lemma erased_settings_read:
  "\<exists>fs'. write_erased_m6_settings fs p = (fs', Inr ()) \<and> fs' = fs(p := fs' p)
     \<and> read_exact_m6_settings fs' p = Inr (replicate 0x2000 0xFF)"
proof -
  let ?data = "replicate 0x2000 (0xFF::byte)"
  obtain fs' where fs': "write_erased_m6_settings fs p = (fs', Inr ())" "fs' = fs(p := fs' p)"
    "hex_memory_of fs' p = Inr (zip [M6_SETTINGS_START..M6_SETTINGS_START + int (length ?data) - 1] ?data)"
    using erased_image_written by blast
  let ?m = "zip [M6_SETTINGS_START..M6_SETTINGS_START + int (length ?data) - 1] ?data"
  have "read_exact_m6_settings fs' p = Inr (map (\<lambda>a. the (map_of ?m a)) [M6_SETTINGS_START..M6_SETTINGS_END - 1])"
    using read_exact_memory [OF write_erased_then_exact [OF fs'(1)]] fs'(3) by auto
  moreover have "map (\<lambda>a. the (map_of ?m a)) [M6_SETTINGS_START..M6_SETTINGS_END - 1] = ?data"
  proof (rule nth_equalityI)
    fix i assume "i < length (map (\<lambda>a. the (map_of ?m a)) [M6_SETTINGS_START..M6_SETTINGS_END - 1])"
    then have i: "i < length ?data" by simp
    then have "[M6_SETTINGS_START..M6_SETTINGS_END - 1] ! i = M6_SETTINGS_START + int i" by (simp add: nth_upto)
    with i map_of_zip_upto [OF i, of M6_SETTINGS_START]
    show "map (\<lambda>a. the (map_of ?m a)) [M6_SETTINGS_START..M6_SETTINGS_END - 1] ! i = ?data ! i" by simp
  qed simp
  ultimately show ?thesis using fs'(1,2) by auto
qed

text \<open>
  C14. Writing the erased settings image always succeeds, changes no other file, and reading the
  file back with the bond reader yields 8192 bytes of \<open>0xFF\<close>: the printed image covers exactly
  the settings region and is erased everywhere.
\<close>

theorem erased_settings_roundtrip:
  "\<exists>fs'. write_erased_m6_settings fs p = (fs', Inr ()) \<and> fs' = fs(p := fs' p)
     \<and> read_exact_m6_settings fs' p = Inr (replicate 0x2000 0xFF)"
  by (rule erased_settings_read)

text \<open>
  C15. The bond reader decodes the HEX file a second time and without the parser's checks. On
  every file the exactness check accepts, it returns, its 8192 bytes are the bytes the checked
  parser stored at the corresponding addresses, and neither of its own failure modes (a line it
  cannot unpack, an address it did not see) can occur.
\<close>

theorem read_exact_agrees_with_parser:
  assumes "require_exact_m6_settings_image fs p = Inr ()"
  shows "\<exists>m bs. hex_memory_of fs p = Inr m \<and> read_exact_m6_settings fs p = Inr bs \<and> length bs = M6_SETTINGS_SIZE
    \<and> (\<forall>i < M6_SETTINGS_SIZE. map_of m (M6_SETTINGS_START + int i) = Some (bs ! i))"
proof -
  from read_exact_memory [OF assms] obtain m where m: "hex_memory_of fs p = Inr m"
    "fst ` set m = {M6_SETTINGS_START..<M6_SETTINGS_END}"
    "read_exact_m6_settings fs p = Inr (map (\<lambda>a. the (map_of m a)) [M6_SETTINGS_START..M6_SETTINGS_END - 1])"
    by blast
  have "map_of m (M6_SETTINGS_START + int i)
      = Some (map (\<lambda>a. the (map_of m a)) [M6_SETTINGS_START..M6_SETTINGS_END - 1] ! i)" if "i < M6_SETTINGS_SIZE" for i
  proof -
    have "map_of m (M6_SETTINGS_START + int i) \<noteq> None"
      unfolding map_of_eq_None_iff m(2) using that by simp
    then show ?thesis using that by (auto simp: nth_upto)
  qed
  with m show ?thesis by auto
qed

theorem read_exact_agrees_with_parser_witness:
  "\<exists>fs m bs. hex_memory_of fs ''bond.hex'' = Inr m \<and> read_exact_m6_settings fs ''bond.hex'' = Inr bs
     \<and> length bs = M6_SETTINGS_SIZE
     \<and> map_of m (M6_SETTINGS_START + int 5) = Some (bs ! 5)"
proof -
  obtain fs' where "write_erased_m6_settings (\<lambda>_. None) ''bond.hex'' = (fs', Inr ())"
    using erased_image_written [of "\<lambda>_. None" "''bond.hex''"] by blast
  from read_exact_agrees_with_parser [OF write_erased_then_exact [OF this]]
  obtain m bs where "hex_memory_of fs' ''bond.hex'' = Inr m" "read_exact_m6_settings fs' ''bond.hex'' = Inr bs"
    "length bs = M6_SETTINGS_SIZE" "\<forall>i < M6_SETTINGS_SIZE. map_of m (M6_SETTINGS_START + int i) = Some (bs ! i)"
    by blast
  moreover from this(4) have "map_of m (M6_SETTINGS_START + int 5) = Some (bs ! 5)"
    by (rule allE [of _ 5]) simp
  ultimately have "hex_memory_of fs' ''bond.hex'' = Inr m \<and> read_exact_m6_settings fs' ''bond.hex'' = Inr bs
    \<and> length bs = M6_SETTINGS_SIZE \<and> map_of m (M6_SETTINGS_START + int 5) = Some (bs ! 5)"
    by (simp only: simp_thms)
  then show ?thesis by blast
qed

end
