(* ===== verification/Reference.thy ===== *)
theory Reference
  imports Json Process
begin

section \<open>The source lock\<close>

text \<open>
  Models \<open>load_lock\<close> and \<open>oracle\<close> of \<open>src/tools/nrfkit_tools/reference.py\<close>. \<open>decode\<close> is strict UTF-8 decoding followed by
  \<open>json.loads\<close> (\<open>Inl True\<close> a decoding error, \<open>Inl False\<close> a JSON error).
\<close>

datatype reference_error =
    CannotReadLock
  | UnsupportedLockSchema
  | UnknownOracle string
  | RefPython py_error

definition lock_path :: "path \<Rightarrow> path" where
  "lock_path project = path_join project ''docs/provenance/sources.lock''"

definition load_lock :: "(bytes \<Rightarrow> bool + json) \<Rightarrow> filesystem \<Rightarrow> path \<Rightarrow> reference_error + json" where
  "load_lock decode fs project =
     (case fs (lock_path project) of
        None \<Rightarrow> Inl CannotReadLock
      | Some content \<Rightarrow>
          case decode content of
            Inl True \<Rightarrow> Inl (RefPython UnicodeDecodeError)
          | Inl False \<Rightarrow> Inl CannotReadLock
          | Inr v \<Rightarrow>
              bindR (mapE RefPython (jget v ''schema'' JNull)) (\<lambda>schema.
                if \<not> py_eq schema (JStr ''nrfkit-sources/v1'') then Inl UnsupportedLockSchema else Inr v))"

definition oracle_contract :: "(bytes \<Rightarrow> bool + json) \<Rightarrow> filesystem \<Rightarrow> path \<Rightarrow> string \<Rightarrow> reference_error + json" where
  "oracle_contract decode fs project oracle_id =
     bindR (load_lock decode fs project) (\<lambda>v.
       case bindR (jitem v ''oracles'') (\<lambda>os. jitem os oracle_id) of
         Inl KeyError \<Rightarrow> Inl (UnknownOracle oracle_id)
       | Inl e \<Rightarrow> Inl (RefPython e)
       | Inr c \<Rightarrow> Inr c)"

end
