(* ===== verification/Device_Cli.thy ===== *)
theory Device_Cli
  imports Run_Report Bond Reference
begin

section \<open>The nrfutil device commands\<close>

text \<open>
  Models the device commands of \<open>src/tools/nrfkit_tools/cli.py\<close> that go through nrfutil and a J-Link probe: enumeration and
  selection, programming audited snapshots, reset, clearing the M6 bond settings with a backup and a restoration, and the
  probe's mass-storage switch. Durations are left out of the reports; the version of nrfutil, the rendering of a
  report and of an exception, whether a probe is locked for an operation, where an executable is found, and the time left at each
  iteration of a waiting loop (one list per directory the loop logs to) are parameters.
\<close>

datatype cli_error =
    CliTool tool_error
  | CliReference reference_error
  | CliBond bond_error
  | MissingExecutable string
  | SettingsReadFailed
  | BondClearNotAuthorized
  | NotBondManifest
  | ImageOverlapsSettings
  | BondClearFailed
  | SettingsNotErased
  | ResetAfterClearFailed
  | RestoreProgramFailed
  | RestoreVerificationFailed
  | DeviceResetFailed
  | MsdChangeNotAuthorized
  | MsdInterfaceContract
  | ChildFailed
  | ChildNotOneReport
  | ChildReportInvalid
  | GateInterfaceContract
  | GateNotAuthorized
  | GateManifest string
  | GateRestorationFailed cli_error cli_error

record 'h cli_world =
  cl_child :: "'h child"
  cl_digest :: "bytes \<Rightarrow> string"
  cl_decode :: "bytes \<Rightarrow> bool + json"
  cl_loads :: "string \<Rightarrow> json option"
  cl_dumps :: "json \<Rightarrow> string"
  cl_render :: "json \<Rightarrow> string"
  cl_temporary :: "path \<Rightarrow> path"
  cl_resolve :: "path \<Rightarrow> path"
  cl_root :: path
  cl_version :: json
  cl_locked :: "string \<Rightarrow> string \<Rightarrow> bool"
  cl_describe :: "cli_error \<Rightarrow> string"
  cl_executable :: "string \<Rightarrow> string \<Rightarrow> string option"
  cl_ticks :: "path \<Rightarrow> rat list"

record device_args =
  da_manifest :: path
  da_probe_serial :: "string option"
  da_nrfutil :: string
  da_timeout :: rat
  da_reset_kind :: string

type_synonym ('h, 'z, 'a) cli_step = "(('h, 'z) cmd_state_scheme, cli_error, 'a) action"

definition pure_cli :: "py_error + 'a \<Rightarrow> ('s, cli_error, 'a) action" where
  "pure_cli r = liftA (mapE (CliTool \<circ> ToolPython) r)"

definition pure_bond :: "bond_error + 'a \<Rightarrow> ('s, cli_error, 'a) action" where
  "pure_bond r = liftA (mapE CliBond r)"

definition onTool :: "('h host, tool_error, 'a) action \<Rightarrow> ('h, 'z, 'a) cli_step" where
  "onTool m = onHost CliTool m"

definition seeFiles :: "(filesystem \<Rightarrow> 'a) \<Rightarrow> ('h, 'z, 'a) cli_step" where
  "seeFiles f = readA (f \<circ> files \<circ> host)"

definition cli_run :: "'h cli_world \<Rightarrow> string list \<Rightarrow> path \<Rightarrow> rat \<Rightarrow> ('h, 'z, process_result) cli_step" where
  "cli_run env argv log_path timeout = onTool (run_logged (cl_child env) ToolPython argv log_path timeout)"

text \<open>A string value that is used as a string; any other value has no such attribute.\<close>

fun jattr :: "json \<Rightarrow> py_error + string" where
  "jattr (JStr s) = Inr s"
| "jattr _ = Inl AttributeError"

subsection \<open>The report\<close>

definition store_report :: "'h cli_world \<Rightarrow> path \<Rightarrow> ('h, 'z, unit) cli_step" where
  "store_report env dir s =
     onTool (atomic_json (cl_temporary env (path_join dir ''run.json'')) (path_join dir ''run.json'') (cl_dumps env (JObj (report s)))) s"

definition stage_entry :: "string \<Rightarrow> (string \<times> json) list \<Rightarrow> json" where
  "stage_entry name details = JObj ([(''name'', JStr name), (''status'', JStr ''ok'')] @ details)"

definition stage :: "'h cli_world \<Rightarrow> path \<Rightarrow> string \<Rightarrow> (string \<times> json) list \<Rightarrow> ('h, 'z, unit) cli_step" where
  "stage env dir name details =
     bindA (readA (\<lambda>s. map_of (report s) ''stages'')) (\<lambda>stages.
     bindA (case stages of
              None \<Rightarrow> raiseA (CliTool (ToolPython KeyError))
            | Some (JList xs) \<Rightarrow> put_report ''stages'' (JList (xs @ [stage_entry name details]))
            | Some _ \<Rightarrow> raiseA (CliTool (ToolPython AttributeError))) (\<lambda>_.
       store_report env dir))"

definition initialize_device_report :: "'h cli_world \<Rightarrow> path \<Rightarrow> path \<Rightarrow> json \<Rightarrow> device_args \<Rightarrow> ('h, 'z, unit) cli_step" where
  "initialize_device_report env dir manifest_path manifest args =
     bindA (pure_cli (jitem manifest ''oracle'')) (\<lambda>oracle.
     bindA (pure_cli (jitem manifest ''source_receipt_sha256'')) (\<lambda>receipt.
     bindA (readA (\<lambda>s. map_of (report s) ''tools'')) (\<lambda>tools.
     bindA (case tools of
              None \<Rightarrow> pureA []
            | Some (JObj kvs) \<Rightarrow> pureA kvs
            | Some _ \<Rightarrow> raiseA (CliTool (ToolPython TypeError))) (\<lambda>kvs.
     bindA (put_report ''manifest'' (JStr (cl_resolve env manifest_path))) (\<lambda>_.
     bindA (put_report ''oracle'' oracle) (\<lambda>_.
     bindA (put_report ''source_receipt_sha256'' receipt) (\<lambda>_.
     bindA (put_report ''timeout_seconds'' (JReal (da_timeout args))) (\<lambda>_.
     bindA (put_report ''tools'' (JObj (AList.update ''nrfutil'' (cl_version env) kvs))) (\<lambda>_.
     bindA (readA (\<lambda>s. map_of (report s) ''stages'')) (\<lambda>stages.
     bindA (case stages of
              None \<Rightarrow> put_report ''stages'' (JList [stage_entry ''manifest-audit'' []])
            | Some (JList xs) \<Rightarrow> put_report ''stages'' (JList (xs @ [stage_entry ''manifest-audit'' []]))
            | Some _ \<Rightarrow> raiseA (CliTool (ToolPython AttributeError))) (\<lambda>_.
       store_report env dir)))))))))))"

text \<open>The handlers that end every command: a failure is recorded, the report is stored.\<close>

definition record_failure :: "'h cli_world \<Rightarrow> cli_error \<Rightarrow> ('h, 'z, unit) cli_step" where
  "record_failure env e =
     bindA (put_report ''status'' (JStr ''failed'')) (\<lambda>_. put_report ''error'' (JStr (cl_describe env e)))"

definition reported :: "'h cli_world \<Rightarrow> path \<Rightarrow> ('h, 'z, unit) cli_step \<Rightarrow> ('h, 'z, unit) cli_step" where
  "reported env dir body =
     bindA (reraiseA body (\<lambda>e. bindA (record_failure env e) (\<lambda>_. store_report env dir))) (\<lambda>_. store_report env dir)"

subsection \<open>Enumeration and selection\<close>

definition enumerate_devices :: "'h cli_world \<Rightarrow> string \<Rightarrow> path \<Rightarrow> rat \<Rightarrow> ('h, 'z, json list) cli_step" where
  "enumerate_devices env nrfutil log_path timeout =
     bindA (cli_run env (nrfutil_prefix nrfutil @ [''device'', ''list'']) log_path timeout) (\<lambda>result.
     bindA (requireA (returncode result = 0) (CliTool EnumerationFailed)) (\<lambda>_.
     bindA (liftA (mapE (CliTool \<circ> ToolDevice) (parse_json_lines (cl_loads env) (stdout result) ''devices''))) (\<lambda>devices.
       case devices of JList ds \<Rightarrow> pureA ds | _ \<Rightarrow> raiseA (CliTool NonListInventory))))"

definition aliases_path :: "'h cli_world \<Rightarrow> path" where
  "aliases_path env = path_join (path_join (cl_root env) ''.local'') ''hardware-aliases.json''"

definition select_among :: "'h cli_world \<Rightarrow> json list \<Rightarrow> json \<Rightarrow> string option \<Rightarrow> ('h, 'z, json) cli_step" where
  "select_among env devices board_version chosen =
     bindA (seeFiles id) (\<lambda>fs.
     bindA (liftA (mapE (CliTool \<circ> ToolDevice) (resolve_probe_alias (cl_decode env) fs chosen board_version (aliases_path env)))) (\<lambda>serial.
       liftA (mapE (CliTool \<circ> ToolDevice) (select_device devices board_version serial))))"

definition select_probe :: "'h cli_world \<Rightarrow> json \<Rightarrow> device_args \<Rightarrow> path \<Rightarrow> ('h, 'z, json) cli_step" where
  "select_probe env manifest args dir =
     bindA (enumerate_devices env (da_nrfutil args) (path_join dir ''device-list.log'') (da_timeout args)) (\<lambda>devices.
     bindA (pure_cli (jitem manifest ''board_version'')) (\<lambda>board_version.
       select_among env devices board_version (da_probe_serial args)))"

text \<open>\<open>with _probe_lock(serial, operation)\<close>: the lock is taken or the command fails; releasing it has no effect in the model.\<close>

definition probe_lock :: "'h cli_world \<Rightarrow> json \<Rightarrow> string \<Rightarrow> ('h, 'z, string) cli_step" where
  "probe_lock env device operation =
     bindA (pure_cli (bindR (jitem device ''serialNumber'') jattr)) (\<lambda>serial.
     bindA (requireA (\<not> cl_locked env serial operation) (CliTool ProbeLocked)) (\<lambda>_. pureA serial))"

definition open_manifest :: "'h cli_world \<Rightarrow> path \<Rightarrow> ('h, 'z, json) cli_step" where
  "open_manifest env p = bindA (seeFiles id) (\<lambda>fs. liftA (mapE CliTool (load_manifest (cl_digest env) (cl_decode env) fs p True)))"

definition file_sha256 :: "'h cli_world \<Rightarrow> path \<Rightarrow> ('h, 'z, string) cli_step" where
  "file_sha256 env p = bindA (seeFiles id) (\<lambda>fs. pure_cli (sha256 (cl_digest env) fs p))"

text \<open>The family and core of a manifest, as the argument vectors use them.\<close>

definition target_of :: "json \<Rightarrow> py_error + string \<times> string" where
  "target_of manifest =
     bindR (jitem manifest ''device_family'') (\<lambda>family.
     bindR (jitem manifest ''core'') (\<lambda>core.
     bindR (jattr core) (\<lambda>c. bindR (jattr family) (\<lambda>f. Inr (f, c)))))"

subsection \<open>Programming and reset\<close>

text \<open>\<open>Path.stem\<close>: the last component without its last suffix, if it has one.\<close>

definition path_stem :: "path \<Rightarrow> string" where
  "path_stem p =
     (let name = rev (takeWhile (\<lambda>c. c \<noteq> CHR ''/'') (rev p));
          ending = rev (takeWhile (\<lambda>c. c \<noteq> CHR ''.'') (rev name));
          i = length name - length ending - 1 in
      if ending \<noteq> name \<and> ending \<noteq> [] \<and> 0 < i then take i name else name)"

definition program_image :: "'h cli_world \<Rightarrow> json \<Rightarrow> string \<Rightarrow> device_args \<Rightarrow> path \<Rightarrow> path \<Rightarrow> ('h, 'z, process_result) cli_step" where
  "program_image env manifest serial args firmware log_path =
     bindA (pure_cli (target_of manifest)) (\<lambda>(family, core).
       cli_run env (program_argv (da_nrfutil args) firmware serial family core) log_path (da_timeout args))"

definition program_snapshot :: "'h cli_world \<Rightarrow> json \<Rightarrow> string \<Rightarrow> device_args \<Rightarrow> path \<Rightarrow> path \<Rightarrow> ('h, 'z, unit) cli_step" where
  "program_snapshot env manifest serial args dir snapshot =
     bindA (program_image env manifest serial args snapshot (path_join dir (''program-'' @ path_stem snapshot @ ''.log''))) (\<lambda>result.
       requireA (returncode result = 0) (CliTool SafeProgramFailed))"

definition program_and_stage :: "'h cli_world \<Rightarrow> json \<Rightarrow> string \<Rightarrow> device_args \<Rightarrow> path \<Rightarrow> path \<Rightarrow> ('h, 'z, unit) cli_step" where
  "program_and_stage env manifest serial args dir snapshot =
     bindA (program_snapshot env manifest serial args dir snapshot) (\<lambda>_.
     bindA (file_sha256 env snapshot) (\<lambda>h.
       stage env dir ''program'' [(''image_sha256'', JStr h)]))"

definition reset_device :: "'h cli_world \<Rightarrow> json \<Rightarrow> string \<Rightarrow> device_args \<Rightarrow> path \<Rightarrow> ('h, 'z, process_result) cli_step" where
  "reset_device env manifest serial args dir =
     bindA (pure_cli (target_of manifest)) (\<lambda>(family, core).
       cli_run env (reset_argv (da_nrfutil args) serial family core (da_reset_kind args)) (path_join dir ''reset.log'') (da_timeout args))"

text \<open>What every command does first: audit the manifest, start the report, select the probe, take its lock.\<close>

definition begin_session :: "'h cli_world \<Rightarrow> device_args \<Rightarrow> path \<Rightarrow> string \<Rightarrow> json \<Rightarrow> ('h, 'z, json \<times> string) cli_step" where
  "begin_session env args dir operation manifest =
     bindA (initialize_device_report env dir (da_manifest args) manifest args) (\<lambda>_.
     bindA (select_probe env manifest args dir) (\<lambda>device.
     bindA (pure_cli (jitem manifest ''board_version'')) (\<lambda>board_version.
     bindA (stage env dir ''device-selection'' [(''board_version'', board_version)]) (\<lambda>_.
     bindA (probe_lock env device operation) (\<lambda>serial.
     bindA (stage env dir ''probe-lock'' []) (\<lambda>_.
       pureA (device, serial)))))))"

definition flash_snapshots :: "'h cli_world \<Rightarrow> device_args \<Rightarrow> path \<Rightarrow> json \<Rightarrow> string \<Rightarrow> ('h, 'z, path list) cli_step" where
  "flash_snapshots env args dir manifest serial =
     bindA (onTool (snapshot_hexes (cl_digest env) (cl_render env) manifest dir)) (\<lambda>snapshots.
     bindA (mapA (file_sha256 env) snapshots) (\<lambda>digests.
     bindA (stage env dir ''image-snapshot'' [(''sha256'', JList (map JStr digests))]) (\<lambda>_.
     bindA (forA (program_and_stage env manifest serial args dir) snapshots) (\<lambda>_.
       pureA snapshots))))"

definition command_flash :: "'h cli_world \<Rightarrow> device_args \<Rightarrow> path \<Rightarrow> ('h, 'z, unit) cli_step" where
  "command_flash env args dir =
     reported env dir
       (bindA (open_manifest env (da_manifest args)) (\<lambda>manifest.
        bindA (begin_session env args dir ''flash'' manifest) (\<lambda>(device, serial).
        bindA (flash_snapshots env args dir manifest serial) (\<lambda>snapshots.
        bindA (mapA (file_sha256 env) snapshots) (\<lambda>digests.
        bindA (put_report ''status'' (JStr ''ok'')) (\<lambda>_.
          put_report ''image_sha256'' (JList (map JStr digests))))))))"

definition command_reset :: "'h cli_world \<Rightarrow> device_args \<Rightarrow> path \<Rightarrow> ('h, 'z, unit) cli_step" where
  "command_reset env args dir =
     reported env dir
       (bindA (open_manifest env (da_manifest args)) (\<lambda>manifest.
        bindA (begin_session env args dir ''reset'' manifest) (\<lambda>(device, serial).
        bindA (reset_device env manifest serial args dir) (\<lambda>result.
        bindA (requireA (returncode result = 0) DeviceResetFailed) (\<lambda>_.
        bindA (stage env dir ''reset'' [(''returncode'', JInt (returncode result))]) (\<lambda>_.
          put_report ''status'' (JStr ''ok'')))))))"

end
