(* ===== verification/Bond_Clear.thy ===== *)
theory Bond_Clear
  imports Device_Cli
begin

section \<open>Clearing the bond settings\<close>

text \<open>
  Models \<open>_read_m6_settings\<close> and \<open>command_m6_bond_clear\<close> of \<open>src/tools/nrfkit_tools/cli.py\<close>: read the settings back twice over,
  erase, verify, reset, and restore the backup when the erasure was started and not verified. The local variables the
  exception handler reads are part of the state.
\<close>

record 'h bond_state = "'h cmd_state" +
  bc_clear_verified :: bool
  bc_restore_attempted :: bool
  bc_restore_verified :: bool
  bc_backup :: "path option"
  bc_device :: "json option"
  bc_manifest :: "json option"
  bc_original :: "bytes option"

type_synonym ('h, 'a) bond_step = "('h bond_state, cli_error, 'a) action"

record bond_args =
  ba_device :: device_args
  ba_authorize :: bool

definition start_state :: "'h host \<Rightarrow> (string \<times> json) list \<Rightarrow> 'h bond_state" where
  "start_state h r = \<lparr>host = h, report = r, bc_clear_verified = False, bc_restore_attempted = False, bc_restore_verified = False,
     bc_backup = None, bc_device = None, bc_manifest = None, bc_original = None\<rparr>"

text \<open>\<open>chmod(0o400)\<close> of a file that must exist.\<close>

definition seal_existing :: "path \<Rightarrow> ('h, 'z, unit) cli_step" where
  "seal_existing p = onTool (bindA (read_file (ToolPython OSError) p) (\<lambda>_. seal p))"

definition read_m6_settings :: "'h cli_world \<Rightarrow> json \<Rightarrow> string \<Rightarrow> device_args \<Rightarrow> path \<Rightarrow> path \<Rightarrow> ('h, 'z, bytes) cli_step" where
  "read_m6_settings env manifest serial args destination log_path =
     bindA (pure_cli (target_of manifest)) (\<lambda>(family, core).
     bindA (cli_run env (read_memory_argv (da_nrfutil args) destination serial family core M6_SETTINGS_START (int M6_SETTINGS_SIZE))
              log_path (da_timeout args)) (\<lambda>result.
     bindA (requireA (returncode result = 0) SettingsReadFailed) (\<lambda>_.
     bindA (seal_existing destination) (\<lambda>_.
     bindA (seeFiles id) (\<lambda>fs. pure_bond (read_exact_m6_settings fs destination))))))"

text \<open>\<open>any(start < RANGE[1] and end > RANGE[0] for image in images for start, end in image["ranges"])\<close>.\<close>

definition meets_settings :: "json \<Rightarrow> py_error + bool" where
  "meets_settings e =
     bindR (jiter e) (\<lambda>items.
       case items of
         [a, b] \<Rightarrow>
           (case jnum a of
              None \<Rightarrow> Inl TypeError
            | Some x \<Rightarrow>
                if x < of_int M6_SETTINGS_END
                then (case jnum b of None \<Rightarrow> Inl TypeError | Some y \<Rightarrow> Inr (of_int M6_SETTINGS_START < y))
                else Inr False)
       | _ \<Rightarrow> Inl ValueError)"

definition images_meet_settings :: "json \<Rightarrow> py_error + bool" where
  "images_meet_settings manifest =
     bindR (bindR (jitem manifest ''images'') jiter) (\<lambda>images.
       anyR (\<lambda>item. bindR (bindR (jitem item ''ranges'') jiter) (anyR meets_settings)) images)"

definition check_bond_manifest :: "json \<Rightarrow> cli_error + unit" where
  "check_bond_manifest manifest =
     bindR (mapE (CliTool \<circ> ToolPython) (jitem manifest ''soc'')) (\<lambda>soc.
     bindR (if py_eq soc (JStr ''nrf54lm20a'')
            then mapE (CliTool \<circ> ToolPython) (bindR (jitem manifest ''oracle'') (\<lambda>v.
                   Inr (case v of JStr s \<Rightarrow> is_m6_bond_manifest s | _ \<Rightarrow> False)))
            else Inr False) (\<lambda>suitable.
       if \<not> suitable then Inl NotBondManifest
       else bindR (mapE (CliTool \<circ> ToolPython) (images_meet_settings manifest)) (\<lambda>overlaps.
         if overlaps then Inl ImageOverlapsSettings else Inr ())))"

subsection \<open>The operation\<close>

definition write_erased :: "path \<Rightarrow> ('h, 'z, unit) cli_step" where
  "write_erased p = onHost CliBond (\<lambda>w. case write_erased_m6_settings (files w) p of (fs, r) \<Rightarrow> (w\<lparr>files := fs\<rparr>, r))"

definition require_exact :: "path \<Rightarrow> ('h, 'z, unit) cli_step" where
  "require_exact p = bindA (seeFiles id) (\<lambda>fs. pure_bond (require_exact_m6_settings_image fs p))"

definition bond_select :: "'h cli_world \<Rightarrow> device_args \<Rightarrow> path \<Rightarrow> ('h, json \<times> string) bond_step" where
  "bond_select env args dir =
     bindA (open_manifest env (da_manifest args)) (\<lambda>manifest.
     bindA (updateA (\<lambda>s. s\<lparr>bc_manifest := Some manifest\<rparr>)) (\<lambda>_.
     bindA (liftA (check_bond_manifest manifest)) (\<lambda>_.
     bindA (initialize_device_report env dir (da_manifest args) manifest args) (\<lambda>_.
     bindA (select_probe env manifest args dir) (\<lambda>device.
     bindA (updateA (\<lambda>s. s\<lparr>bc_device := Some device\<rparr>)) (\<lambda>_.
     bindA (pure_cli (jitem manifest ''board_version'')) (\<lambda>board_version.
     bindA (stage env dir ''device-selection'' [(''board_version'', board_version)]) (\<lambda>_.
     bindA (probe_lock env device ''m6-bond-clear'') (\<lambda>serial.
     bindA (stage env dir ''probe-lock'' []) (\<lambda>_. pureA (manifest, serial)))))))))))"

definition bond_backup :: "'h cli_world \<Rightarrow> device_args \<Rightarrow> path \<Rightarrow> json \<Rightarrow> string \<Rightarrow> ('h, unit) bond_step" where
  "bond_backup env args dir manifest serial =
     (let backup = path_join dir ''settings-before.hex'' in
      bindA (updateA (\<lambda>s. s\<lparr>bc_backup := Some backup\<rparr>)) (\<lambda>_.
      bindA (read_m6_settings env manifest serial args backup (path_join dir ''settings-read-before.log'')) (\<lambda>original.
      bindA (updateA (\<lambda>s. s\<lparr>bc_original := Some original\<rparr>)) (\<lambda>_.
      bindA (file_sha256 env backup) (\<lambda>h.
        stage env dir ''settings-backup'' [(''sha256'', JStr h)])))))"

definition bond_erase :: "'h cli_world \<Rightarrow> device_args \<Rightarrow> path \<Rightarrow> json \<Rightarrow> string \<Rightarrow> ('h, unit) bond_step" where
  "bond_erase env args dir manifest serial =
     (let erased = path_join dir ''settings-erased.hex'' in
      bindA (write_erased erased) (\<lambda>_.
      bindA (seal_existing erased) (\<lambda>_.
      bindA (require_exact erased) (\<lambda>_.
      bindA (program_image env manifest serial args erased (path_join dir ''settings-clear.log'')) (\<lambda>result.
      bindA (requireA (returncode result = 0) BondClearFailed) (\<lambda>_.
      bindA (read_m6_settings env manifest serial args (path_join dir ''settings-after.hex'') (path_join dir ''settings-read-after.log'')) (\<lambda>cleared.
      bindA (requireA (cleared = replicate M6_SETTINGS_SIZE 0xFF) SettingsNotErased) (\<lambda>_.
      bindA (updateA (\<lambda>s. s\<lparr>bc_clear_verified := True\<rparr>)) (\<lambda>_.
        stage env dir ''settings-clear'' [(''range'', jint_pair (M6_SETTINGS_START, M6_SETTINGS_END)), (''verified'', JBool True)])))))))))"

definition bond_operation :: "'h cli_world \<Rightarrow> bond_args \<Rightarrow> path \<Rightarrow> ('h, unit) bond_step" where
  "bond_operation env bargs dir =
     (let args = ba_device bargs in
      bindA (requireA (ba_authorize bargs) BondClearNotAuthorized) (\<lambda>_.
      bindA (bond_select env args dir) (\<lambda>(manifest, serial).
      bindA (bond_backup env args dir manifest serial) (\<lambda>_.
      bindA (bond_erase env args dir manifest serial) (\<lambda>_.
      bindA (reset_device env manifest serial args dir) (\<lambda>result.
      bindA (requireA (returncode result = 0) ResetAfterClearFailed) (\<lambda>_.
      bindA (stage env dir ''reset'' []) (\<lambda>_.
      bindA (put_report ''status'' (JStr ''ok'')) (\<lambda>_.
        put_report ''clear_verified'' (JBool True))))))))))"

subsection \<open>The restoration\<close>

definition bond_restore :: "'h cli_world \<Rightarrow> device_args \<Rightarrow> path \<Rightarrow> json \<Rightarrow> json \<Rightarrow> path \<Rightarrow> bytes \<Rightarrow> ('h, unit) bond_step" where
  "bond_restore env args dir manifest device backup original =
     bindA (probe_lock env device ''m6-bond-restore'') (\<lambda>serial.
     bindA (require_exact backup) (\<lambda>_.
     bindA (program_image env manifest serial args backup (path_join dir ''settings-restore.log'')) (\<lambda>result.
     bindA (requireA (returncode result = 0) RestoreProgramFailed) (\<lambda>_.
     bindA (read_m6_settings env manifest serial args (path_join dir ''settings-restored.hex'') (path_join dir ''settings-read-restored.log'')) (\<lambda>now.
     bindA (updateA (\<lambda>s. s\<lparr>bc_restore_verified := (now = original)\<rparr>)) (\<lambda>_.
       requireA (now = original) RestoreVerificationFailed))))))"

definition bond_rescue :: "'h cli_world \<Rightarrow> device_args \<Rightarrow> path \<Rightarrow> json \<Rightarrow> json \<Rightarrow> path \<Rightarrow> bytes \<Rightarrow> ('h, unit) bond_step" where
  "bond_rescue env args dir manifest device backup original =
     bindA (updateA (\<lambda>s. s\<lparr>bc_restore_attempted := True\<rparr>)) (\<lambda>_.
     bindA (attemptA (bond_restore env args dir manifest device backup original)) (\<lambda>r.
       case r of
         Inl e \<Rightarrow> put_report ''restore_error'' (JStr (cl_describe env e))
       | Inr _ \<Rightarrow> pureA ()))"

definition bond_handler :: "'h cli_world \<Rightarrow> device_args \<Rightarrow> path \<Rightarrow> cli_error \<Rightarrow> ('h, unit) bond_step" where
  "bond_handler env args dir e =
     bindA (readA (\<lambda>s. (bc_clear_verified s, bc_original s, bc_backup s, bc_device s, bc_manifest s))) (\<lambda>locals.
     bindA (case locals of
              (False, Some original, Some backup, Some device, Some manifest) \<Rightarrow> bond_rescue env args dir manifest device backup original
            | _ \<Rightarrow> pureA ()) (\<lambda>_.
       record_failure env e))"

definition record_cleanup :: "('h, unit) bond_step" where
  "record_cleanup =
     bindA (readA (\<lambda>s. JObj [(''clear_verified'', JBool (bc_clear_verified s)), (''restore_attempted'', JBool (bc_restore_attempted s)),
       (''restore_verified'', JBool (bc_restore_verified s))])) (\<lambda>cleanup. put_report ''cleanup'' cleanup)"

definition command_m6_bond_clear :: "'h cli_world \<Rightarrow> bond_args \<Rightarrow> path \<Rightarrow> ('h, unit) bond_step" where
  "command_m6_bond_clear env bargs dir =
     bindA (finallyA
       (reraiseA (bond_operation env bargs dir) (bond_handler env (ba_device bargs) dir))
       (bindA record_cleanup (\<lambda>_. store_report env dir))) (\<lambda>_.
     store_report env dir)"

end
