(* ===== verification/Bond_Clear_Correct.thy ===== *)
theory Bond_Clear_Correct
  imports Bond_Clear
begin

section \<open>Correctness of the bond clear\<close>

text \<open>
  What the clean-up record of \<open>m6-bond-clear\<close> says of the settings region is true. The region's content is a function \<open>mem\<close>
  of the outside world; nrfutil is the child process, of which only its documented behaviour is assumed.
\<close>

text \<open>
  The contract: only \<open>device program\<close> and \<open>device reset\<close> may change the region, and a read command that succeeds and leaves an
  image of exactly the region has read it. Nothing is assumed of what programming does.
\<close>

definition settings_contract :: "'h child \<Rightarrow> ('h \<Rightarrow> bytes) \<Rightarrow> bool" where
  "settings_contract child mem \<longleftrightarrow>
     (\<forall>h fs argv. nrfutil_verb argv \<notin> {[''device'', ''program''], [''device'', ''reset'']} \<longrightarrow> mem (fst (child h fs argv)) = mem h)
   \<and> (\<forall>h fs n destination serial family core h' fs' out b.
        child h fs (read_memory_argv n destination serial family core M6_SETTINGS_START (int M6_SETTINGS_SIZE)) = (h', fs', Completed 0 out) \<longrightarrow>
        read_exact_m6_settings fs' destination = Inr b \<longrightarrow> mem h' = b)"

definition cleanup_json :: "bool \<Rightarrow> bool \<Rightarrow> bool \<Rightarrow> json" where
  "cleanup_json cleared attempted verified =
     JObj [(''clear_verified'', JBool cleared), (''restore_attempted'', JBool attempted), (''restore_verified'', JBool verified)]"

subsection \<open>Steps that leave the region alone\<close>

definition locals_kept :: "'h bond_state \<Rightarrow> 'h bond_state \<Rightarrow> bool" where
  "locals_kept s s' \<longleftrightarrow> bc_clear_verified s' = bc_clear_verified s \<and> bc_restore_attempted s' = bc_restore_attempted s
     \<and> bc_restore_verified s' = bc_restore_verified s \<and> bc_backup s' = bc_backup s \<and> bc_device s' = bc_device s
     \<and> bc_manifest s' = bc_manifest s \<and> bc_original s' = bc_original s"

definition untouched :: "('h \<Rightarrow> bytes) \<Rightarrow> 'h bond_state \<Rightarrow> 'h bond_state \<Rightarrow> bool" where
  "untouched mem s s' \<longleftrightarrow> locals_kept s s' \<and> mem (outside (host s')) = mem (outside (host s))"

definition silent :: "'h bond_state \<Rightarrow> 'h bond_state \<Rightarrow> bool" where
  "silent s s' \<longleftrightarrow> locals_kept s s' \<and> outside (host s') = outside (host s)"

interpretation kept: state_order locals_kept
  by unfold_locales (auto simp: locals_kept_def)

interpretation untouched: state_order "untouched mem" for mem
  by unfold_locales (auto simp: untouched_def locals_kept_def)

interpretation silent: state_order silent
  by unfold_locales (auto simp: silent_def locals_kept_def)

lemma untouched_silent [simp]: "stable silent m \<Longrightarrow> stable (untouched mem) m"
  unfolding stable_def silent_def untouched_def by metis

lemma kept_cli_run [simp]: "stable locals_kept (cli_run env argv log_path timeout)"
  by (auto simp: cli_run_def onTool_def stable_def locals_kept_def action_simps)

lemma silent_onHost: "stable quiet m \<Longrightarrow> stable silent (onHost raising m)"
  by (auto simp: stable_def silent_def locals_kept_def quiet_def action_simps)

lemma silent_put_report [simp]: "stable silent (put_report k v)"
  by (auto simp: stable_def silent_def locals_kept_def action_simps)

lemma silent_store [simp]: "stable silent (store_report env dir)"
proof -
  have "stable silent (onTool (atomic_json t p rendered))" for t p rendered unfolding onTool_def by (rule silent_onHost) simp
  then show ?thesis unfolding store_report_def stable_def by blast
qed

lemma silent_pure [simp]: "stable silent (pure_cli r)" "stable silent (pure_bond r')" "stable silent (seeFiles f)"
  by (simp_all add: pure_cli_def pure_bond_def seeFiles_def)

lemma silent_stage [simp]: "stable silent (stage env dir name details)"
  unfolding stage_def by (intro silent.stable_bindA) (auto split: option.splits json.splits)

lemma silent_failure [simp]: "stable silent (record_failure env e)"
  unfolding record_failure_def by (intro silent.stable_bindA) simp_all

lemma silent_initialize [simp]: "stable silent (initialize_device_report env dir p manifest args)"
  unfolding initialize_device_report_def by (intro silent.stable_bindA) (auto split: option.splits json.splits)

lemma silent_open [simp]:
  "stable silent (open_manifest env p)" "stable silent (file_sha256 env p)" "stable silent (select_among env ds v chosen)"
  "stable silent (probe_lock env device operation)" "stable silent (require_exact p)"
  unfolding open_manifest_def file_sha256_def select_among_def probe_lock_def require_exact_def by (intro silent.stable_bindA; simp)+

lemma silent_seal [simp]: "stable silent (seal_existing p)"
  unfolding seal_existing_def onTool_def by (intro silent_onHost quiet.stable_bindA) simp_all

lemma silent_write_erased [simp]: "stable silent (write_erased p)"
  unfolding write_erased_def by (rule silent_onHost) (auto simp: stable_def quiet_def split: prod.splits)

lemma untouched_run:
  assumes "settings_contract (cl_child env) mem" and "nrfutil_verb argv \<notin> {[''device'', ''program''], [''device'', ''reset'']}"
  shows "stable (untouched mem) (cli_run env argv log_path timeout)"
proof -
  from assms have "mem (fst (cl_child env h fs argv)) = mem h" for h fs by (simp add: settings_contract_def)
  then show ?thesis
    by (auto simp: stable_def cli_run_def onTool_def action_simps run_logged_def untouched_def locals_kept_def Let_def
        split: if_splits prod.splits) (metis fst_conv)+
qed

lemma untouched_enumerate: "settings_contract (cl_child env) mem \<Longrightarrow> stable (untouched mem) (enumerate_devices env n log_path timeout)"
  unfolding enumerate_devices_def by (intro untouched.stable_bindA untouched_run) (auto split: json.splits)

lemma untouched_select: "settings_contract (cl_child env) mem \<Longrightarrow> stable (untouched mem) (select_probe env manifest args dir)"
  unfolding select_probe_def by (intro untouched.stable_bindA untouched_enumerate) simp_all

lemma untouched_read: "settings_contract (cl_child env) mem \<Longrightarrow> stable (untouched mem) (read_m6_settings env manifest serial args destination log_path)"
  unfolding read_m6_settings_def by (intro untouched.stable_bindA) (auto intro!: untouched.stable_bindA untouched_run)

lemma kept_program [simp]: "stable locals_kept (program_image env manifest serial args firmware log_path)"
  unfolding program_image_def pure_cli_def by (intro kept.stable_bindA) auto

subsection \<open>What a read has read\<close>

lemma read_exact_cong: "fs p = fs' p \<Longrightarrow> read_exact_m6_settings fs p = read_exact_m6_settings fs' p"
  unfolding read_exact_m6_settings_def require_exact_m6_settings_image_def parse_ihex_def ihex_text_def by (simp only:)

lemma seal_existing_frame: "seal_existing p s = (s', r) \<Longrightarrow> files (host s') = files (host s) \<and> outside (host s') = outside (host s)"
  unfolding seal_existing_def onTool_def onHost_def bindA_def read_file_def seal_def updateA_def
  by (auto split: option.splits)

lemma read_m6_settings_reads:
  assumes "settings_contract (cl_child env) mem" and "log_path \<noteq> destination"
    and "read_m6_settings env manifest serial args destination log_path s = (s', Inr b)"
  shows "mem (outside (host s')) = b"
proof -
  from assms(3) obtain family core s1 result where run:
    "cli_run env (read_memory_argv (da_nrfutil args) destination serial family core M6_SETTINGS_START (int M6_SETTINGS_SIZE)) log_path (da_timeout args) s = (s1, Inr result)"
    "returncode result = 0" "files (host s') = files (host s1)" "outside (host s') = outside (host s1)"
    "read_exact_m6_settings (files (host s')) destination = Inr b"
    unfolding read_m6_settings_def pure_cli_def pure_bond_def seeFiles_def
    by (auto simp: action_simps split: if_splits prod.splits dest!: seal_existing_frame)
  from run(1,2) obtain h' fs' out where child: "cl_child env (outside (host s)) (files (host s))
      (read_memory_argv (da_nrfutil args) destination serial family core M6_SETTINGS_START (int M6_SETTINGS_SIZE)) = (h', fs', Completed 0 out)"
    "outside (host s1) = h'" "files (host s1) = fs'(log_path := Some (utf8_encode (stdout result)))"
    by (auto simp: cli_run_def onTool_def action_simps run_logged_def Let_def split: if_splits prod.splits run_end.splits)
  have "read_exact_m6_settings fs' destination = Inr b"
    using run(3,5) child(3) assms(2) by (simp add: read_exact_cong [of fs' destination "files (host s')"])
  with child(1) assms(1) have "mem h' = b" unfolding settings_contract_def by blast
  with child(2) run(4) show ?thesis by simp
qed

subsection \<open>The phases\<close>

definition before_backup :: "('h \<Rightarrow> bytes) \<Rightarrow> bytes \<Rightarrow> 'h bond_state \<Rightarrow> bool" where
  "before_backup mem m0 s \<longleftrightarrow> \<not> bc_clear_verified s \<and> \<not> bc_restore_attempted s \<and> \<not> bc_restore_verified s \<and> bc_original s = None
     \<and> mem (outside (host s)) = m0"

definition after_backup :: "bytes \<Rightarrow> 'h bond_state \<Rightarrow> bool" where
  "after_backup m0 s \<longleftrightarrow> \<not> bc_clear_verified s \<and> \<not> bc_restore_attempted s \<and> \<not> bc_restore_verified s \<and> bc_original s = Some m0
     \<and> bc_backup s \<noteq> None \<and> bc_device s \<noteq> None \<and> bc_manifest s \<noteq> None"

text \<open>The world was seen erased, and only a reset may have followed.\<close>

definition seen_erased :: "'h child \<Rightarrow> ('h \<Rightarrow> bytes) \<Rightarrow> 'h \<Rightarrow> bool" where
  "seen_erased child mem h \<longleftrightarrow>
     (\<exists>h1. mem h1 = replicate M6_SETTINGS_SIZE 0xFF
        \<and> (h = h1 \<or> (\<exists>fs argv. nrfutil_verb argv = [''device'', ''reset''] \<and> h = fst (child h1 fs argv))))"

definition after_clear :: "'h child \<Rightarrow> ('h \<Rightarrow> bytes) \<Rightarrow> 'h bond_state \<Rightarrow> bool" where
  "after_clear child mem s \<longleftrightarrow> bc_clear_verified s \<and> \<not> bc_restore_attempted s \<and> \<not> bc_restore_verified s
     \<and> seen_erased child mem (outside (host s))"

text \<open>What keeps each phase.\<close>

lemma phases_kept:
  "untouched mem s s' \<Longrightarrow> before_backup mem m0 s \<Longrightarrow> before_backup mem m0 s'" "locals_kept s s' \<Longrightarrow> after_backup m0 s \<Longrightarrow> after_backup m0 s'"
  "silent s s' \<Longrightarrow> after_clear child mem s \<Longrightarrow> after_clear child mem s'"
  by (auto simp: untouched_def locals_kept_def silent_def before_backup_def after_backup_def after_clear_def)

definition outcome :: "'h child \<Rightarrow> ('h \<Rightarrow> bytes) \<Rightarrow> bytes \<Rightarrow> 'h bond_state \<Rightarrow> bool" where
  "outcome child mem m0 s \<longleftrightarrow>
     (if bc_clear_verified s then \<not> bc_restore_attempted s \<and> \<not> bc_restore_verified s \<and> seen_erased child mem (outside (host s))
      else if bc_restore_attempted s then bc_restore_verified s \<longrightarrow> mem (outside (host s)) = m0
      else \<not> bc_restore_verified s \<and> mem (outside (host s)) = m0)"

abbreviation failing :: "'h child \<Rightarrow> ('h \<Rightarrow> bytes) \<Rightarrow> bytes \<Rightarrow> 'h bond_state \<Rightarrow> bool" where
  "failing child mem m0 s \<equiv> before_backup mem m0 s \<or> after_backup m0 s \<or> after_clear child mem s"

lemma keep_before: "stable (untouched mem) m \<Longrightarrow> triple (before_backup mem m0) m (\<lambda>_. before_backup mem m0) (\<lambda>_. failing child mem m0)"
  by (erule triple_stable) (auto intro: phases_kept)

lemma keep_after_backup: "stable locals_kept m \<Longrightarrow> triple (after_backup m0) m (\<lambda>_. after_backup m0) (\<lambda>_. failing child mem m0)"
  by (erule triple_stable) (auto intro: phases_kept)

lemma keep_after_clear: "stable silent m \<Longrightarrow> triple (after_clear child mem) m (\<lambda>_. after_clear child mem) (\<lambda>_. failing child mem m0)"
  by (erule triple_stable) (auto intro: phases_kept)

lemma silent_kept: "stable silent m \<Longrightarrow> stable locals_kept m"
  unfolding stable_def silent_def by blast

lemma keep_before_with:
  assumes "stable (untouched mem) m" and "\<And>s s'. locals_kept s s' \<Longrightarrow> Q s \<Longrightarrow> Q s'"
  shows "triple (\<lambda>s. before_backup mem m0 s \<and> Q s) m (\<lambda>_ s. before_backup mem m0 s \<and> Q s) (\<lambda>_. failing child mem m0)"
  by (rule triple_stable [OF assms(1)]) (auto intro: phases_kept(1) assms(2) simp: untouched_def)

lemma set_before:
  assumes "\<And>s. before_backup mem m0 s \<Longrightarrow> P s \<Longrightarrow> before_backup mem m0 (f s) \<and> Q (f s)"
  shows "triple (\<lambda>s. before_backup mem m0 s \<and> P s) (updateA f) (\<lambda>_ s. before_backup mem m0 s \<and> Q s) E"
  using assms by (intro tripleI) (auto simp: action_simps)

lemma bond_select_triple:
  assumes "settings_contract (cl_child env) mem"
  shows "triple (before_backup mem m0) (bond_select env args dir)
    (\<lambda>_ s. before_backup mem m0 s \<and> bc_manifest s \<noteq> None \<and> bc_device s \<noteq> None) (\<lambda>_. failing child mem m0)"
proof -
  let ?M = "\<lambda>s :: 'a bond_state. bc_manifest s \<noteq> None" and ?D = "\<lambda>s :: 'a bond_state. bc_manifest s \<noteq> None \<and> bc_device s \<noteq> None"
  have "triple (\<lambda>s. before_backup mem m0 s \<and> True) (bond_select env args dir) (\<lambda>_ s. before_backup mem m0 s \<and> ?D s) (\<lambda>_. failing child mem m0)"
    unfolding bond_select_def
    apply (rule triple_bindA [OF keep_before_with], simp, simp)
    apply (rule triple_bindA [OF set_before [where Q = ?M]], simp add: before_backup_def)
    apply (rule triple_bindA [OF keep_before_with], simp, simp add: locals_kept_def)
    apply (rule triple_bindA [OF keep_before_with], simp, simp add: locals_kept_def)
    apply (rule triple_bindA [OF keep_before_with], rule untouched_select [OF assms], simp add: locals_kept_def)
    apply (rule triple_bindA [OF set_before [where Q = ?D]], simp add: before_backup_def)
    apply (rule triple_bindA [OF keep_before_with], simp, simp add: locals_kept_def)+
    apply (rule keep_before_with, simp, simp add: locals_kept_def)
    done
  then show ?thesis by simp
qed

lemma read_settings_triple:
  assumes "settings_contract (cl_child env) mem" and "log_path \<noteq> destination" and "\<And>s s'. untouched mem s s' \<Longrightarrow> P s \<Longrightarrow> P s'"
  shows "triple P (read_m6_settings env manifest serial args destination log_path) (\<lambda>b s. P s \<and> mem (outside (host s)) = b) (\<lambda>_. P)"
  by (rule tripleI) (blast intro: read_m6_settings_reads [OF assms(1,2)] assms(3) stableD [OF untouched_read [OF assms(1)]])+

lemma bond_backup_triple:
  assumes "settings_contract (cl_child env) mem"
  shows "triple (\<lambda>s. before_backup mem m0 s \<and> bc_manifest s \<noteq> None \<and> bc_device s \<noteq> None) (bond_backup env args dir manifest serial)
    (\<lambda>_. after_backup m0) (\<lambda>_. failing child mem m0)"
proof -
  let ?P = "\<lambda>s. before_backup mem m0 s \<and> bc_manifest s \<noteq> None \<and> bc_device s \<noteq> None \<and> bc_backup s \<noteq> None"
  have read: "triple ?P (read_m6_settings env manifest serial args (path_join dir ''settings-before.hex'') (path_join dir ''settings-read-before.log''))
      (\<lambda>b s. ?P s \<and> mem (outside (host s)) = b) (\<lambda>_. failing child mem m0)"
    by (rule triple_post [OF read_settings_triple [OF assms]]) (auto simp: phases_kept(1) untouched_def locals_kept_def before_backup_def)
  have note_it: "triple (\<lambda>s. ?P s \<and> mem (outside (host s)) = b) (updateA (\<lambda>s. s\<lparr>bc_original := Some b\<rparr>)) (\<lambda>_. after_backup m0) E" for b E
    by (intro tripleI) (auto simp: action_simps before_backup_def after_backup_def)
  show ?thesis unfolding bond_backup_def Let_def
    apply (rule triple_bindA [OF set_before [where Q = "\<lambda>s. bc_manifest s \<noteq> None \<and> bc_device s \<noteq> None \<and> bc_backup s \<noteq> None"]],
        simp add: before_backup_def)
    apply (rule triple_bindA [OF read], rule triple_bindA [OF note_it])
    apply (rule triple_bindA [OF keep_after_backup], simp add: silent_kept)
    apply (rule keep_after_backup, simp add: silent_kept)
    done
qed

definition clear_now :: "('h \<Rightarrow> bytes) \<Rightarrow> 'h bond_state \<Rightarrow> bool" where
  "clear_now mem s \<longleftrightarrow> bc_clear_verified s \<and> \<not> bc_restore_attempted s \<and> \<not> bc_restore_verified s
     \<and> mem (outside (host s)) = replicate M6_SETTINGS_SIZE 0xFF"

lemma clear_now_after: "clear_now mem s \<Longrightarrow> after_clear child mem s"
  unfolding clear_now_def after_clear_def seen_erased_def by blast

lemma keep_clear_now: "stable silent m \<Longrightarrow> triple (clear_now mem) m (\<lambda>_. clear_now mem) (\<lambda>_. failing child mem m0)"
  by (erule triple_stable) (auto simp: clear_now_def silent_def locals_kept_def intro!: clear_now_after)

lemma bond_erase_triple:
  assumes "settings_contract (cl_child env) mem"
  shows "triple (after_backup m0) (bond_erase env args dir manifest serial) (\<lambda>_. clear_now mem) (\<lambda>_. failing child mem m0)"
proof -
  let ?read = "read_m6_settings env manifest serial args (path_join dir ''settings-after.hex'') (path_join dir ''settings-read-after.log'')"
  have read: "triple (after_backup m0) ?read (\<lambda>b s. after_backup m0 s \<and> mem (outside (host s)) = b) (\<lambda>_. failing child mem m0)"
    by (rule triple_post [OF read_settings_triple [OF assms]]) (auto intro: phases_kept(2) simp: untouched_def)
  have verify: "triple (\<lambda>s. after_backup m0 s \<and> mem (outside (host s)) = b) (requireA (b = erased) e)
      (\<lambda>_ s. after_backup m0 s \<and> mem (outside (host s)) = erased) (\<lambda>_. failing child mem m0)" for b e erased
    by (intro tripleI) (auto simp: action_simps split: if_splits)
  have mark: "triple (\<lambda>s. after_backup m0 s \<and> mem (outside (host s)) = replicate M6_SETTINGS_SIZE 0xFF)
      (updateA (\<lambda>s. s\<lparr>bc_clear_verified := True\<rparr>)) (\<lambda>_. clear_now mem) E" for E
    unfolding after_backup_def clear_now_def by (rule tripleI) (auto simp: updateA_eq)
  show ?thesis unfolding bond_erase_def Let_def
    by (intro triple_bindA [OF keep_after_backup] triple_bindA [OF read] triple_bindA [OF verify] triple_bindA [OF mark] keep_clear_now)
      (simp_all add: silent_kept)
qed

lemma reset_triple:
  "triple (clear_now mem) (reset_device env manifest serial args dir) (\<lambda>_. after_clear (cl_child env) mem) (\<lambda>_. failing (cl_child env) mem m0)"
proof -
  have run: "triple (clear_now mem) (cli_run env (reset_argv n serial family core kind) log_path timeout)
      (\<lambda>_. after_clear (cl_child env) mem) (\<lambda>_. failing (cl_child env) mem m0)" for n family core kind log_path timeout
  proof (rule tripleI)
    fix s s' x
    assume pre: "clear_now mem s" and run: "cli_run env (reset_argv n serial family core kind) log_path timeout s = (s', Inr x)"
    from run obtain fs where "outside (host s') = fst (cl_child env (outside (host s)) fs (reset_argv n serial family core kind))"
      by (auto simp: cli_run_def onTool_def action_simps run_logged_def Let_def split: if_splits prod.splits)
        (metis fst_conv)
    with pre stableD [OF kept_cli_run run] show "after_clear (cl_child env) mem s'"
      unfolding clear_now_def after_clear_def seen_erased_def locals_kept_def by (metis nrfutil_verbs(3))
  next
    fix s s' e
    assume pre: "clear_now mem s" and run: "cli_run env (reset_argv n serial family core kind) log_path timeout s = (s', Inl e)"
    then have "s' = s" by (auto simp: cli_run_def onTool_def action_simps run_logged_def Let_def split: if_splits prod.splits)
    with pre show "failing (cl_child env) mem m0 s'" by (auto dest: clear_now_after)
  qed
  show ?thesis unfolding reset_device_def
    by (rule triple_bindA [OF keep_clear_now]) (simp, simp add: run split: prod.splits)
qed

lemma bond_operation_triple:
  assumes "settings_contract (cl_child env) mem"
  shows "triple (before_backup mem m0) (bond_operation env bargs dir) (\<lambda>_. after_clear (cl_child env) mem) (\<lambda>_. failing (cl_child env) mem m0)"
  unfolding bond_operation_def Let_def case_prod_unfold
  by (intro triple_bindA [OF keep_before] triple_bindA [OF bond_select_triple [OF assms]] triple_bindA [OF bond_backup_triple [OF assms]]
      triple_bindA [OF bond_erase_triple [OF assms]] triple_bindA [OF reset_triple] triple_bindA [OF keep_after_clear] keep_after_clear)
    simp_all

subsection \<open>The handler\<close>

definition restoring :: "'h bond_state \<Rightarrow> bool" where
  "restoring s \<longleftrightarrow> \<not> bc_clear_verified s \<and> bc_restore_attempted s \<and> \<not> bc_restore_verified s"

lemma restoring_outcome: "restoring s \<Longrightarrow> outcome child mem m0 s"
  by (simp add: restoring_def outcome_def)

lemma keep_restoring: "stable locals_kept m \<Longrightarrow> triple restoring m (\<lambda>_. restoring) (\<lambda>_. outcome child mem m0)"
  by (erule triple_stable) (auto simp: restoring_def locals_kept_def intro!: restoring_outcome)

lemma bond_restore_triple:
  assumes "settings_contract (cl_child env) mem"
  shows "triple restoring (bond_restore env args dir manifest device backup m0) (\<lambda>_. outcome child mem m0) (\<lambda>_. outcome child mem m0)"
proof -
  let ?read = "\<lambda>serial. read_m6_settings env manifest serial args (path_join dir ''settings-restored.hex'') (path_join dir ''settings-read-restored.log'')"
  have read: "triple restoring (?read serial) (\<lambda>b s. restoring s \<and> mem (outside (host s)) = b) (\<lambda>_. outcome child mem m0)" for serial
    by (rule triple_post [OF read_settings_triple [OF assms]])
      (auto simp: untouched_def locals_kept_def restoring_def intro!: restoring_outcome)
  have mark: "triple (\<lambda>s. restoring s \<and> mem (outside (host s)) = b) (updateA (\<lambda>s. s\<lparr>bc_restore_verified := (b = m0)\<rparr>))
      (\<lambda>_. outcome child mem m0) E" for b E
    unfolding restoring_def outcome_def by (rule tripleI) (auto simp: action_simps)
  show ?thesis unfolding bond_restore_def
    by (intro triple_bindA [OF keep_restoring] triple_bindA [OF read] triple_bindA [OF mark] triple_keeps(2)) (simp_all add: silent_kept)
qed

lemma outcome_kept: "stable silent m \<Longrightarrow> triple (outcome child mem m0) m (\<lambda>_. outcome child mem m0) (\<lambda>_. outcome child mem m0)"
  by (erule triple_stable) (auto simp: outcome_def silent_def locals_kept_def)

lemma bond_rescue_triple:
  assumes "settings_contract (cl_child env) mem"
  shows "triple (after_backup m0) (bond_rescue env args dir manifest device backup m0) (\<lambda>_. outcome child mem m0) (\<lambda>_. outcome child mem m0)"
proof -
  let ?O = "outcome child mem m0"
  have start: "triple (after_backup m0) (updateA (\<lambda>s. s\<lparr>bc_restore_attempted := True\<rparr>)) (\<lambda>_. restoring) (\<lambda>_. ?O)"
    by (rule tripleI) (auto simp: action_simps after_backup_def restoring_def)
  have attempt: "triple restoring (attemptA (bond_restore env args dir manifest device backup m0)) (\<lambda>_. ?O) (\<lambda>_. ?O)"
    by (rule triple_weaken [OF triple_attemptA [OF bond_restore_triple [OF assms]]]) (auto split: sum.splits)
  have finish: "triple ?O (case r of Inl e' \<Rightarrow> put_report ''restore_error'' (JStr (cl_describe env e')) | Inr _ \<Rightarrow> pureA ()) (\<lambda>_. ?O) (\<lambda>_. ?O)"
    for r :: "cli_error + unit"
    by (cases r) (simp_all add: outcome_kept)
  show ?thesis unfolding bond_rescue_def by (rule triple_bindA [OF start triple_bindA [OF attempt finish]])
qed

lemma bond_handler_triple:
  assumes "settings_contract (cl_child env) mem"
  shows "triple (failing (cl_child env) mem m0) (bond_handler env args dir e) (\<lambda>_. outcome (cl_child env) mem m0) (\<lambda>_. outcome (cl_child env) mem m0)"
proof -
  let ?O = "outcome (cl_child env) mem m0"
  let ?locals = "\<lambda>s. (bc_clear_verified s, bc_original s, bc_backup s, bc_device s, bc_manifest s)"
  have cases: "triple (\<lambda>s. failing (cl_child env) mem m0 s \<and> x = ?locals s)
      (case x of (False, Some original, Some backup, Some device, Some manifest) \<Rightarrow> bond_rescue env args dir manifest device backup original
       | _ \<Rightarrow> pureA ()) (\<lambda>_. ?O) (\<lambda>_. ?O)" for x :: "bool \<times> bytes option \<times> path option \<times> json option \<times> json option"
  proof (cases "\<exists>b p d m. x = (False, Some b, Some p, Some d, Some m)")
    case True
    then obtain b p d m where x: "x = (False, Some b, Some p, Some d, Some m)" by blast
    have "triple (\<lambda>s. failing (cl_child env) mem m0 s \<and> x = ?locals s) (bond_rescue env args dir m d p b) (\<lambda>_. ?O) (\<lambda>_. ?O)"
    proof (cases "b = m0")
      case True
      show ?thesis unfolding x True
        by (rule triple_weaken [OF bond_rescue_triple [OF assms, of m0 args dir m d p]])
          (auto simp: before_backup_def after_clear_def)
    qed (auto simp: triple_def x before_backup_def after_clear_def after_backup_def)
    with x show ?thesis by simp
  next
    case False
    then have "(case x of (False, Some original, Some backup, Some device, Some manifest) \<Rightarrow> bond_rescue env args dir manifest device backup original
       | _ \<Rightarrow> pureA ()) = pureA ()" by (auto split: prod.splits bool.splits option.splits)
    with False show ?thesis
      by (auto intro!: tripleI simp: action_simps before_backup_def after_clear_def after_backup_def outcome_def)
  qed
  show ?thesis unfolding bond_handler_def
    by (rule triple_bindA [OF triple_readA triple_bindA [OF cases outcome_kept]]) simp
qed

subsection \<open>The command\<close>

lemma record_cleanup_eq:
  "record_cleanup s = (s\<lparr>report := AList.update ''cleanup''
     (cleanup_json (bc_clear_verified s) (bc_restore_attempted s) (bc_restore_verified s)) (report s)\<rparr>, Inr ())"
  by (simp add: record_cleanup_def bindA_def readA_def put_report_def updateA_def cleanup_json_def)

lemma store_report_frame: "store_report env dir s = (s', r) \<Longrightarrow> report s' = report s \<and> silent s s'"
  unfolding store_report_def onTool_def
  by (auto simp: action_simps atomic_json_def Let_def silent_def locals_kept_def)

definition told :: "'h child \<Rightarrow> ('h \<Rightarrow> bytes) \<Rightarrow> bytes \<Rightarrow> 'h bond_state \<Rightarrow> bool" where
  "told child mem m0 s \<longleftrightarrow> outcome child mem m0 s \<and> map_of (report s) ''cleanup'' =
     Some (cleanup_json (bc_clear_verified s) (bc_restore_attempted s) (bc_restore_verified s))"

lemma tell_triple:
  "triple (\<lambda>s. outcome child mem m0 s \<and> P (bc_clear_verified s)) (bindA record_cleanup (\<lambda>_. store_report env dir))
     (\<lambda>_ s. told child mem m0 s \<and> P (bc_clear_verified s)) (\<lambda>_ s. told child mem m0 s \<and> P (bc_clear_verified s))"
proof -
  have "told child mem m0 s' \<and> P (bc_clear_verified s')"
    if "outcome child mem m0 s" "P (bc_clear_verified s)" "bindA record_cleanup (\<lambda>_. store_report env dir) s = (s', r)" for s s' r
    using that by (auto simp: bindA_def record_cleanup_eq told_def outcome_def silent_def locals_kept_def AList.update_conv dest!: store_report_frame)
  then show ?thesis by (intro tripleI) blast+
qed

lemma told_kept:
  "triple (\<lambda>s. told child mem m0 s \<and> P (bc_clear_verified s)) (store_report env dir)
     (\<lambda>_ s. told child mem m0 s \<and> P (bc_clear_verified s)) (\<lambda>_ s. told child mem m0 s \<and> P (bc_clear_verified s))"
  by (intro tripleI) (auto simp: told_def outcome_def silent_def locals_kept_def dest!: store_report_frame)

text \<open>
  C34. The record a bond clear leaves is true of the device. However the command ends, its report has a \<open>cleanup\<close> record; a
  command that returns has verified the erasure; if the record says the erasure was verified, the settings region was seen
  erased and at most a reset followed; if it says a restoration was verified, or that none was attempted, the region holds what it
  held before. (Of nrfutil it is assumed that only programming and reset change the region, and that a successful read has read it.)
\<close>

theorem bond_clear_report_true:
  assumes "settings_contract (cl_child env) mem" and "command_m6_bond_clear env bargs dir (start_state h r) = (s, res)"
  shows "\<exists>cleared attempted verified. map_of (report s) ''cleanup'' = Some (cleanup_json cleared attempted verified)
    \<and> (res = Inr () \<longrightarrow> cleared)
    \<and> (if cleared then \<not> attempted \<and> seen_erased (cl_child env) mem (outside (host s))
       else if attempted then verified \<longrightarrow> mem (outside (host s)) = mem (outside h)
       else mem (outside (host s)) = mem (outside h))"
proof -
  let ?m0 = "mem (outside h)" and ?child = "cl_child env"
  have op: "triple (before_backup mem ?m0) (reraiseA (bond_operation env bargs dir) (bond_handler env (ba_device bargs) dir))
      (\<lambda>_ s. outcome ?child mem ?m0 s \<and> bc_clear_verified s) (\<lambda>_ s. outcome ?child mem ?m0 s \<and> True)"
    by (rule triple_weaken [OF triple_reraiseA [OF bond_operation_triple [OF assms(1)] bond_handler_triple [OF assms(1)]]])
      (auto simp: after_clear_def outcome_def)
  have end_it: "triple (\<lambda>s. outcome ?child mem ?m0 s \<and> bc_clear_verified s) (bindA record_cleanup (\<lambda>_. store_report env dir))
      (\<lambda>_ s. told ?child mem ?m0 s \<and> bc_clear_verified s) (\<lambda>_ s. told ?child mem ?m0 s \<and> True)"
    by (rule triple_post [OF tell_triple [of _ _ _ "\<lambda>b. b"]]) simp
  have "triple (before_backup mem ?m0) (command_m6_bond_clear env bargs dir)
      (\<lambda>_ s. told ?child mem ?m0 s \<and> bc_clear_verified s) (\<lambda>_ s. told ?child mem ?m0 s \<and> True)"
    unfolding command_m6_bond_clear_def
    by (rule triple_bindA [OF triple_finallyA [OF op end_it tell_triple [of _ _ _ "\<lambda>_. True"]] triple_post [OF told_kept [of _ _ _ "\<lambda>b. b"]]]) simp
  moreover have "before_backup mem ?m0 (start_state h r)" by (simp add: before_backup_def start_state_def)
  ultimately have "told ?child mem ?m0 s \<and> (res = Inr () \<longrightarrow> bc_clear_verified s)"
    using assms(2) by (cases res) (auto dest: triple_Inr triple_Inl)
  then show ?thesis unfolding told_def outcome_def
    by (intro exI [of _ "bc_clear_verified s"] exI [of _ "bc_restore_attempted s"] exI [of _ "bc_restore_verified s"]) (auto split: if_splits)
qed

text \<open>A probe whose settings are erased and that answers every read.\<close>

definition erased_text :: string where
  "erased_text = (case erased_settings_text of Inl _ \<Rightarrow> [] | Inr content \<Rightarrow> content)"

definition bench_nrfutil :: "unit child" where
  "bench_nrfutil h fs argv =
     (if nrfutil_verb argv = [''device'', ''read''] then ((), fs(argv ! 13 \<mapsto> ascii_encode erased_text), Completed 0 '''')
      else ((), fs, Completed 0 ''''))"

lemma bench_nrfutil_contract: "settings_contract bench_nrfutil (\<lambda>_. replicate M6_SETTINGS_SIZE 0xFF)"
  unfolding settings_contract_def
proof (intro conjI allI impI)
  fix h fs n p serial family core h' fs' and out b
  assume run: "bench_nrfutil h fs (read_memory_argv n p serial family core M6_SETTINGS_START (int M6_SETTINGS_SIZE)) = (h', fs', Completed 0 out)"
    and b: "read_exact_m6_settings fs' p = Inr b"
  obtain w where w: "write_erased_m6_settings fs p = (w, Inr ())" "read_exact_m6_settings w p = Inr (replicate M6_SETTINGS_SIZE 0xFF)"
    using erased_settings_read by blast
  obtain ls where ls: "erased_settings_text = Inr ls" using erased_settings_parsed by blast
  have "w p = Some (ascii_encode erased_text)"
    using w(1) unfolding write_erased_m6_settings_def erased_text_def ls by (auto simp: Let_def)
  moreover have "fs' p = Some (ascii_encode erased_text)"
    using run by (auto simp: bench_nrfutil_def) (simp add: read_memory_argv_def nrfutil_prefix_def)
  ultimately have "read_exact_m6_settings fs' p = read_exact_m6_settings w p" by (intro read_exact_cong) simp
  with b w(2) show "replicate M6_SETTINGS_SIZE 0xFF = b" by simp
qed (rule refl)

definition bench_world :: "unit cli_world" where
  "bench_world = \<lparr>cl_child = bench_nrfutil, cl_digest = (\<lambda>_. []), cl_decode = (\<lambda>_. Inl False), cl_loads = (\<lambda>_. None), cl_dumps = (\<lambda>_. []),
     cl_render = (\<lambda>_. []), cl_temporary = (\<lambda>p. p @ ''.tmp''), cl_resolve = (\<lambda>p. p), cl_root = ''/src'', cl_version = JNull,
     cl_locked = (\<lambda>_ _. False), cl_describe = (\<lambda>_. ''failed''), cl_executable = (\<lambda>_ _. None), cl_ticks = (\<lambda>_. [])\<rparr>"

definition bench_bond_args :: bond_args where
  "bench_bond_args = \<lparr>ba_device = \<lparr>da_manifest = ''/m.json'', da_probe_serial = None, da_nrfutil = ''nrfutil'', da_timeout = 90,
     da_reset_kind = ''RESET_PIN''\<rparr>, ba_authorize = True\<rparr>"

definition idle_host :: "unit host" where
  "idle_host = \<lparr>files = (\<lambda>_. None), sealed = [], launches = [], outside = ()\<rparr>"

theorem bond_clear_report_true_witness:
  "settings_contract (cl_child bench_world) (\<lambda>_. replicate M6_SETTINGS_SIZE 0xFF)
   \<and> (\<exists>s cleared attempted verified. command_m6_bond_clear bench_world bench_bond_args ''/run'' (start_state idle_host []) = (s, Inl (CliTool (CannotReadManifest ''/m.json'')))
     \<and> map_of (report s) ''cleanup'' = Some (cleanup_json cleared attempted verified))"
proof -
  have contract: "settings_contract (cl_child bench_world) (\<lambda>_. replicate M6_SETTINGS_SIZE 0xFF)"
    by (simp add: bench_world_def bench_nrfutil_contract)
  obtain s where s: "command_m6_bond_clear bench_world bench_bond_args ''/run'' (start_state idle_host []) = (s, Inl (CliTool (CannotReadManifest ''/m.json'')))"
    by (simp add: command_m6_bond_clear_def bond_operation_def bond_select_def open_manifest_def bond_handler_def record_cleanup_def
        record_failure_def store_report_def onTool_def onHost_def atomic_json_def seeFiles_def load_manifest_def put_report_def
        bindA_def finallyA_def reraiseA_def requireA_def pureA_def readA_def liftA_def updateA_def Let_def
        bench_world_def bench_bond_args_def start_state_def idle_host_def)
  from bond_clear_report_true [OF contract s] contract s show ?thesis by blast
qed

end
