(* ===== verification/Probe_Msd.thy ===== *)
theory Probe_Msd
  imports Bond_Clear
begin

section \<open>The probe's mass-storage switch\<close>

text \<open>
  Models \<open>_probe_has_msd\<close>, \<open>_probe_interface_contract\<close>, \<open>_wait_for_probe_msd_state\<close>, \<open>_set_probe_msd\<close> and \<open>command_probe_msd\<close> of
  \<open>src/tools/nrfkit_tools/cli.py\<close>. The waiting loop takes one element of \<open>cl_ticks\<close> per iteration, the time left then; when
  none is left the deadline has passed.
\<close>

definition probe_has_msd :: "json \<Rightarrow> py_error + bool" where
  "probe_has_msd device =
     bindR (jget device ''usb'' (JObj [])) (\<lambda>usb.
     bindR (jget usb ''interfaces'' (JList [])) (\<lambda>interfaces.
     bindR (jiter interfaces) (anyR (\<lambda>i.
       bindR (jget i ''class'' JNull) (\<lambda>c.
         if py_eq c (JInt 8) then Inr True
         else bindR (jget i ''interfaceString'' JNull) (\<lambda>n. Inr (py_eq n (JStr ''MSD interface''))))))))"

text \<open>A set of values: a list or a dict cannot be a member of one.\<close>

fun hashable :: "json \<Rightarrow> bool" where
  "hashable (JList _) = False"
| "hashable (JObj _) = False"
| "hashable _ = True"

definition vcom_value :: "json \<Rightarrow> py_error + json" where
  "vcom_value port = bindR (jget port ''vcom'' JNull) (\<lambda>v. if hashable v then Inr v else Inl TypeError)"

definition both_vcoms :: "json list \<Rightarrow> bool" where
  "both_vcoms vs \<longleftrightarrow> list_all (\<lambda>v. py_eq v (JInt 0) \<or> py_eq v (JInt 1)) vs
     \<and> list_ex (\<lambda>v. py_eq v (JInt 0)) vs \<and> list_ex (\<lambda>v. py_eq v (JInt 1)) vs"

definition probe_interface_contract :: "json \<Rightarrow> bool \<Rightarrow> py_error + bool" where
  "probe_interface_contract device enabled =
     bindR (jget device ''serialPorts'' (JList [])) (\<lambda>ports.
     bindR (bindR (jiter ports) (mapR vcom_value)) (\<lambda>vcoms.
     bindR (probe_has_msd device) (\<lambda>msd.
       if msd \<noteq> enabled \<or> \<not> both_vcoms vcoms then Inr False
       else bindR (jget device ''traits'' (JObj [])) (\<lambda>traits.
            bindR (jget traits ''jlink'' JNull) (\<lambda>jlink. Inr (jlink = JBool True))))))"

subsection \<open>Waiting\<close>

text \<open>\<open>except (DeviceContractError, ToolError, OSError)\<close>.\<close>

fun retried :: "cli_error \<Rightarrow> bool" where
  "retried (CliTool (ToolDevice (DevPython e))) = (e = OSError)"
| "retried (CliTool (ToolDevice _)) = True"
| "retried (CliTool (ToolPython e)) = (e = OSError)"
| "retried (CliTool EnumerationFailed) = True"
| "retried (CliTool NonListInventory) = True"
| "retried _ = False"

definition look_at_probe ::
  "'h cli_world \<Rightarrow> string \<Rightarrow> string \<Rightarrow> json \<Rightarrow> bool \<Rightarrow> path \<Rightarrow> rat \<Rightarrow> ('h, 'z, json \<times> bool) cli_step" where
  "look_at_probe env nrfutil serial board_version enabled log_path timeout =
     bindA (enumerate_devices env nrfutil log_path timeout) (\<lambda>devices.
     bindA (liftA (mapE (CliTool \<circ> ToolDevice) (select_device devices board_version (Some serial)))) (\<lambda>device.
     bindA (pure_cli (probe_interface_contract device enabled)) (\<lambda>ok. pureA (device, ok))))"

fun wait_for_probe_msd_state ::
  "'h cli_world \<Rightarrow> string \<Rightarrow> string \<Rightarrow> json \<Rightarrow> bool \<Rightarrow> path \<Rightarrow> nat \<Rightarrow> rat list \<Rightarrow> ('h, 'z, json) cli_step" where
  "wait_for_probe_msd_state env nrfutil serial board_version enabled dir attempt [] = raiseA (CliTool MsdStateTimeout)"
| "wait_for_probe_msd_state env nrfutil serial board_version enabled dir attempt (left # later) =
     bindA (attemptA (look_at_probe env nrfutil serial board_version enabled
              (path_join dir (''device-list-'' @ zero_fill 2 (dec attempt) @ ''.log'')) (min 5 (max (1 / 10) left)))) (\<lambda>r.
       case r of
         Inr (device, True) \<Rightarrow> pureA device
       | Inr (device, False) \<Rightarrow> wait_for_probe_msd_state env nrfutil serial board_version enabled dir (Suc attempt) later
       | Inl e \<Rightarrow>
           if retried e then wait_for_probe_msd_state env nrfutil serial board_version enabled dir (Suc attempt) later
           else raiseA e)"

definition await_probe_msd :: "'h cli_world \<Rightarrow> string \<Rightarrow> string \<Rightarrow> json \<Rightarrow> bool \<Rightarrow> path \<Rightarrow> ('h, 'z, json) cli_step" where
  "await_probe_msd env nrfutil serial board_version enabled dir =
     wait_for_probe_msd_state env nrfutil serial board_version enabled dir 1 (cl_ticks env dir)"

subsection \<open>Switching\<close>

definition msd_action :: "bool \<Rightarrow> string" where
  "msd_action enabled = (if enabled then ''enable'' else ''disable'')"

definition msd_command_text :: "bool \<Rightarrow> string" where
  "msd_command_text enabled =
     (if enabled then ''MSDEnable'' else ''MSDDisable'') @ [LF] @ ''Reboot force'' @ [LF] @ ''Exit'' @ [LF]"

definition msd_markers :: "string list" where
  "msd_markers = [''Probe configured successfully.'', ''Rebooted successfully.'']"

definition set_probe_msd :: "'h cli_world \<Rightarrow> string \<Rightarrow> string \<Rightarrow> json \<Rightarrow> bool \<Rightarrow> path \<Rightarrow> rat \<Rightarrow> ('h, 'z, json) cli_step" where
  "set_probe_msd env jlink nrfutil device enabled dir timeout =
     (let act = msd_action enabled; command_file = path_join dir (''msd-'' @ act @ ''.jlink'') in
      bindA (onTool (write_file command_file (ascii_encode (msd_command_text enabled)))) (\<lambda>_.
      bindA (seal_existing command_file) (\<lambda>_.
      bindA (probe_lock env device (''probe-msd-'' @ act)) (\<lambda>serial.
      bindA (cli_run env [jlink, ''-USB'', serial, ''-NoGui'', ''1'', ''-ExitOnError'', ''1'', ''-CommandFile'', command_file]
               (path_join dir (''msd-'' @ act @ ''.log'')) timeout) (\<lambda>result.
      bindA (requireA (returncode result = 0 \<and> list_all (\<lambda>m. sublist m (stdout result)) msd_markers) (CliTool MsdCommandFailed)) (\<lambda>_.
      bindA (pure_cli (bindR (jitem device ''devkit'') (\<lambda>k. jitem k ''boardVersion''))) (\<lambda>board_version.
        await_probe_msd env nrfutil serial board_version enabled (path_join dir (''msd-'' @ act @ ''-verification'')))))))))"

subsection \<open>The command\<close>

record msd_args =
  ma_enabled :: bool
  ma_nrfutil :: string
  ma_timeout :: rat
  ma_probe_serial :: "string option"
  ma_board_version :: string
  ma_authorize :: bool
  ma_jlink_commander :: string

definition find_executable :: "'h cli_world \<Rightarrow> string \<Rightarrow> string \<Rightarrow> ('h, 'z, string) cli_step" where
  "find_executable env chosen fallback =
     (case cl_executable env chosen fallback of None \<Rightarrow> raiseA (MissingExecutable fallback) | Some p \<Rightarrow> pureA p)"

definition keep_json :: "'h cli_world \<Rightarrow> path \<Rightarrow> json \<Rightarrow> ('h, 'z, unit) cli_step" where
  "keep_json env p v = bindA (onTool (atomic_json (cl_temporary env p) p (cl_dumps env v))) (\<lambda>_. seal_existing p)"

definition apply_msd :: "'h cli_world \<Rightarrow> msd_args \<Rightarrow> path \<Rightarrow> string \<Rightarrow> json \<Rightarrow> bool \<Rightarrow> ('h, 'z, json) cli_step" where
  "apply_msd env args dir nrfutil device original =
     (let act = msd_action (ma_enabled args) in
      if original \<noteq> ma_enabled args then
        bindA (requireA (ma_authorize args) MsdChangeNotAuthorized) (\<lambda>_.
        bindA (find_executable env (ma_jlink_commander args) ''JLinkExe'') (\<lambda>jlink.
        bindA (set_probe_msd env jlink nrfutil device (ma_enabled args) (path_join dir ''probe-msd'') (ma_timeout args)) (\<lambda>device'.
        bindA (stage env dir (''probe-msd-'' @ act)
                 [(''command'', JStr (if ma_enabled args then ''MSDEnable'' else ''MSDDisable'')), (''rebooted'', JBool True), (''verified'', JBool True)]) (\<lambda>_.
        bindA (put_report ''persistent_change_applied'' (JBool True)) (\<lambda>_. pureA device')))))
      else
        bindA (pure_cli (probe_interface_contract device (ma_enabled args))) (\<lambda>ok.
        bindA (requireA ok MsdInterfaceContract) (\<lambda>_.
        bindA (stage env dir ''probe-msd-already-requested-state'' [(''verified'', JBool True)]) (\<lambda>_.
        bindA (put_report ''persistent_change_applied'' (JBool False)) (\<lambda>_. pureA device)))))"

definition command_probe_msd :: "'h cli_world \<Rightarrow> msd_args \<Rightarrow> path \<Rightarrow> ('h, 'z, unit) cli_step" where
  "command_probe_msd env args dir =
     (let before = path_join dir ''probe-state-before.json''; after = path_join dir ''probe-state-after.json'' in
      bindA (put_report ''status'' (JStr ''running'')) (\<lambda>_.
      bindA (put_report ''requested_state'' (JStr (if ma_enabled args then ''enabled'' else ''disabled''))) (\<lambda>_.
      bindA (put_report ''stages'' (JList [])) (\<lambda>_.
      bindA (store_report env dir) (\<lambda>_.
        reported env dir
          (bindA (find_executable env (ma_nrfutil args) ''nrfutil'') (\<lambda>nrfutil.
           bindA (enumerate_devices env nrfutil (path_join dir ''device-list.log'') (ma_timeout args)) (\<lambda>devices.
           bindA (select_among env devices (JStr (ma_board_version args)) (ma_probe_serial args)) (\<lambda>device.
           bindA (pure_cli (probe_has_msd device)) (\<lambda>original.
           bindA (keep_json env before device) (\<lambda>_.
           bindA (put_report ''probe_msd_originally_enabled'' (JBool original)) (\<lambda>_.
           bindA (put_report ''probe_state_backup'' (JStr (cl_resolve env before))) (\<lambda>_.
           bindA (stage env dir ''device-selection'' [(''board_version'', JStr (ma_board_version args)), (''msd_enabled'', JBool original)]) (\<lambda>_.
           bindA (apply_msd env args dir nrfutil device original) (\<lambda>device'.
           bindA (keep_json env after device') (\<lambda>_.
           bindA (pure_cli (probe_has_msd device')) (\<lambda>finally_enabled.
           bindA (put_report ''probe_msd_finally_enabled'' (JBool finally_enabled)) (\<lambda>_.
           bindA (put_report ''probe_state_after'' (JStr (cl_resolve env after))) (\<lambda>_.
             put_report ''status'' (JStr ''ok''))))))))))))))))))))"

end
