(* ===== verification/Gates.thy ===== *)
theory Gates
  imports Probe_Msd Pyfloat
begin

section \<open>The hardware gates\<close>

text \<open>
  Models \<open>_run_p0_child\<close>, \<open>command_p0_gate\<close> and \<open>command_m2_gate\<close> of \<open>src/tools/nrfkit_tools/cli.py\<close>: sequences of runs of the
  public command line as child processes, with a restoration (of the probe's mass storage, of the normal image) that is
  owed as soon as something may have changed. The local variables the clean-up reads are part of the state.
\<close>

record 'h gate_state = "'h cmd_state" +
  gs_owed :: bool
  gs_audited :: bool
  gs_device :: "json option"
  gs_nrfutil :: "string option"
  gs_jlink :: "string option"

type_synonym ('h, 'a) gate_step = "('h gate_state, cli_error, 'a) action"

definition gate_start :: "'h host \<Rightarrow> (string \<times> json) list \<Rightarrow> 'h gate_state" where
  "gate_start h r = \<lparr>host = h, report = r, gs_owed = False, gs_audited = False, gs_device = None, gs_nrfutil = None, gs_jlink = None\<rparr>"

text \<open>\<open>str(Path(s))\<close>: empty and \<open>.\<close> components are dropped; a root of exactly two slashes is kept.\<close>

definition path_text :: "string \<Rightarrow> path" where
  "path_text s =
     (let parts = filter (\<lambda>p. p \<noteq> [] \<and> p \<noteq> ''.'') (split_on (CHR ''/'') s);
          root_text = (if prefix ''//'' s \<and> \<not> prefix ''///'' s then ''//'' else if prefix ''/'' s then ''/'' else []) in
      if root_text = [] \<and> parts = [] then ''.'' else root_text @ drop 1 (concat (map (\<lambda>p. ''/'' @ p) parts)))"

definition run_p0_child :: "'h cli_world \<Rightarrow> string list \<Rightarrow> path \<Rightarrow> rat \<Rightarrow> ('h, 'z, string) cli_step" where
  "run_p0_child env argv log_path timeout =
     bindA (cli_run env argv log_path timeout) (\<lambda>result.
     bindA (requireA (returncode result = 0) ChildFailed) (\<lambda>_.
       case filter (\<lambda>line. py_strip line \<noteq> []) (splitlines (stdout result)) of
         [line] \<Rightarrow>
           let report_path = path_text line in
           bindA (seeFiles (\<lambda>fs. is_absolute report_path \<and> fs report_path \<noteq> None)) (\<lambda>ok.
           bindA (requireA ok ChildReportInvalid) (\<lambda>_. pureA report_path))
       | _ \<Rightarrow> raiseA ChildNotOneReport))"

definition child_log :: "path \<Rightarrow> nat \<Rightarrow> string \<Rightarrow> path" where
  "child_log dir n name = path_join dir (''child-'' @ zero_fill 2 (dec n) @ ''-'' @ name @ ''.log'')"

text \<open>\<open>report["child_reports"].append(child)\<close>.\<close>

definition add_child_report :: "string \<Rightarrow> ('h, 'z, unit) cli_step" where
  "add_child_report child =
     bindA (readA (\<lambda>s. map_of (report s) ''child_reports'')) (\<lambda>v.
       case v of
         None \<Rightarrow> raiseA (CliTool (ToolPython KeyError))
       | Some (JList xs) \<Rightarrow> put_report ''child_reports'' (JList (xs @ [JStr child]))
       | Some _ \<Rightarrow> raiseA (CliTool (ToolPython AttributeError)))"

definition child_stage ::
  "'h cli_world \<Rightarrow> path \<Rightarrow> string list \<Rightarrow> path \<Rightarrow> rat \<Rightarrow> string \<Rightarrow> (string \<times> json) list \<Rightarrow> ('h, 'z, unit) cli_step" where
  "child_stage env dir argv log_path timeout name details =
     bindA (run_p0_child env argv log_path timeout) (\<lambda>child.
     bindA (add_child_report child) (\<lambda>_.
       stage env dir name (details @ [(''child_report'', JStr child)])))"

text \<open>
  How both gates end: the failure of the operation is kept, the restoration is attempted when it is owed, its failure is
  recorded, and the failures are raised in the end.
\<close>

definition gate_restore ::
  "'h cli_world \<Rightarrow> ('h gate_state \<Rightarrow> bool) \<Rightarrow> ('h, unit) gate_step \<Rightarrow> ('h, cli_error option) gate_step" where
  "gate_restore env owed restore =
     bindA (readA owed) (\<lambda>required.
       if \<not> required then pureA None
       else bindA (attemptA restore) (\<lambda>r.
         case r of
           Inr _ \<Rightarrow> pureA None
         | Inl e \<Rightarrow>
             bindA (put_report ''status'' (JStr ''failed'')) (\<lambda>_.
             bindA (put_report ''restoration_error'' (JStr (cl_describe env e))) (\<lambda>_. pureA (Some e)))))"

definition gate_raise :: "cli_error option \<Rightarrow> cli_error option \<Rightarrow> ('h, unit) gate_step" where
  "gate_raise operation restoration =
     (case (operation, restoration) of
        (Some e, Some e') \<Rightarrow> raiseA (GateRestorationFailed e e')
      | (None, Some e') \<Rightarrow> raiseA e'
      | (Some e, None) \<Rightarrow> raiseA e
      | (None, None) \<Rightarrow> pureA ())"

definition gate_operation :: "'h cli_world \<Rightarrow> ('h, unit) gate_step \<Rightarrow> ('h, cli_error option) gate_step" where
  "gate_operation env body =
     bindA (attemptA body) (\<lambda>r.
       case r of
         Inr _ \<Rightarrow> pureA None
       | Inl e \<Rightarrow> bindA (record_failure env e) (\<lambda>_. pureA (Some e)))"

subsection \<open>The P0 gate\<close>

record p0_args =
  pg_nrfutil :: string
  pg_jlink_commander :: string
  pg_gdb :: string
  pg_jlink :: string
  pg_cmake :: string
  pg_ninja :: string
  pg_west :: string
  pg_probe_serial :: "string option"
  pg_timeout :: rat
  pg_build_timeout :: rat
  pg_gate_timeout :: rat
  pg_token_timeout :: rat
  pg_serial_ready_delay :: rat
  pg_authorize :: bool

definition public_cli :: "'h cli_world \<Rightarrow> path" where
  "public_cli env = path_join (cl_root env) ''tools/nrfkit''"

definition p0_common_run :: "'h cli_world \<Rightarrow> p0_args \<Rightarrow> string \<Rightarrow> string \<Rightarrow> string \<Rightarrow> string \<Rightarrow> string list" where
  "p0_common_run env args serial nrfutil jlink_server gdb =
     [public_cli env, ''run'', ''--probe-serial'', serial, ''--nrfutil'', nrfutil, ''--timeout'', float_repr (pg_timeout args),
      ''--build-timeout'', float_repr (pg_build_timeout args), ''--token-timeout'', float_repr (pg_token_timeout args),
      ''--serial-ready-delay'', float_repr (pg_serial_ready_delay args), ''--cmake'', pg_cmake args, ''--ninja'', pg_ninja args,
      ''--west'', pg_west args, ''--jlink'', jlink_server, ''--gdb'', gdb]"

definition p0_gdb_smoke :: "'h cli_world \<Rightarrow> p0_args \<Rightarrow> string \<Rightarrow> string \<Rightarrow> string \<Rightarrow> string \<Rightarrow> string list" where
  "p0_gdb_smoke env args serial nrfutil jlink_server gdb =
     [public_cli env, ''gdb-smoke'', ''--manifest'',
      path_join (cl_root env) ''.work/reference/build/nrf-bm-leds-s115/image-manifest.json'',
      ''--probe-serial'', serial, ''--nrfutil'', nrfutil, ''--timeout'', float_repr (pg_timeout args), ''--gdb'', gdb,
      ''--jlink'', jlink_server, ''--verify-token'', ''--token-timeout'', float_repr (pg_token_timeout args),
      ''--serial-ready-delay'', float_repr (pg_serial_ready_delay args)]"

definition serial_number :: "json \<Rightarrow> ('s, cli_error, string) action" where
  "serial_number device = pure_cli (bindR (jitem device ''serialNumber'') jstr)"

definition p0_select :: "'h cli_world \<Rightarrow> p0_args \<Rightarrow> path \<Rightarrow> string \<Rightarrow> ('h, json \<times> json \<times> bool) gate_step" where
  "p0_select env args dir nrfutil =
     bindA (seeFiles (\<lambda>fs. oracle_contract (cl_decode env) fs (cl_root env) ''ncs-hello-world'')) (\<lambda>r.
     bindA (liftA (mapE CliReference r)) (\<lambda>contract.
     bindA (enumerate_devices env nrfutil (path_join dir ''device-list.log'') (pg_timeout args)) (\<lambda>devices.
     bindA (pure_cli (jitem contract ''board_version'')) (\<lambda>board_version.
     bindA (select_among env devices board_version (pg_probe_serial args)) (\<lambda>device.
     bindA (updateA (\<lambda>s. s\<lparr>gs_device := Some device\<rparr>)) (\<lambda>_.
     bindA (pure_cli (probe_has_msd device)) (\<lambda>original.
     bindA (pure_cli (probe_interface_contract device original)) (\<lambda>ok.
     bindA (requireA ok GateInterfaceContract) (\<lambda>_.
     bindA (put_report ''probe_msd_originally_enabled'' (JBool original)) (\<lambda>_.
     bindA (stage env dir ''device-selection'' [(''board_version'', board_version), (''msd_enabled'', JBool original)]) (\<lambda>_.
       pureA (device, board_version, original))))))))))))"

definition p0_disable_msd :: "'h cli_world \<Rightarrow> p0_args \<Rightarrow> path \<Rightarrow> string \<Rightarrow> string \<Rightarrow> json \<Rightarrow> ('h, json) gate_step" where
  "p0_disable_msd env args dir jlink_commander nrfutil device =
     bindA (requireA (pg_authorize args) GateNotAuthorized) (\<lambda>_.
     bindA (updateA (\<lambda>s. s\<lparr>gs_owed := True\<rparr>)) (\<lambda>_.
     bindA (set_probe_msd env jlink_commander nrfutil device False (path_join dir ''probe-msd'') (pg_timeout args)) (\<lambda>device'.
     bindA (updateA (\<lambda>s. s\<lparr>gs_device := Some device'\<rparr>)) (\<lambda>_.
     bindA (stage env dir ''probe-msd-disable'' [(''verified'', JBool True)]) (\<lambda>_.
       pureA device')))))"

definition p0_children :: "'h cli_world \<Rightarrow> p0_args \<Rightarrow> path \<Rightarrow> string \<Rightarrow> string \<Rightarrow> string \<Rightarrow> string \<Rightarrow> ('h, unit) gate_step" where
  "p0_children env args dir serial nrfutil jlink_server gdb =
     (let common = p0_common_run env args serial nrfutil jlink_server gdb in
      bindA (forA (\<lambda>i. child_stage env dir (common @ [''--oracle'', ''ncs-hello-world'']) (child_log dir i (''hello-'' @ dec i))
               (pg_gate_timeout args) ''hello-world'' [(''iteration'', JInt (int i))]) [1..<4]) (\<lambda>_.
      bindA (child_stage env dir (common @ [''--oracle'', ''nrf-bm-leds-s115'']) (child_log dir 4 ''bare-metal'')
               (pg_gate_timeout args) ''bare-metal-s115'' []) (\<lambda>_.
        child_stage env dir (p0_gdb_smoke env args serial nrfutil jlink_server gdb) (child_log dir 5 ''gdb-smoke'')
               (pg_gate_timeout args) ''gdb-smoke'' [])))"

definition p0_body :: "'h cli_world \<Rightarrow> p0_args \<Rightarrow> path \<Rightarrow> ('h, unit) gate_step" where
  "p0_body env args dir =
     bindA (find_executable env (pg_nrfutil args) ''nrfutil'') (\<lambda>nrfutil.
     bindA (find_executable env (pg_jlink_commander args) ''JLinkExe'') (\<lambda>jlink_commander.
     bindA (updateA (\<lambda>s. s\<lparr>gs_nrfutil := Some nrfutil, gs_jlink := Some jlink_commander\<rparr>)) (\<lambda>_.
     bindA (find_executable env (pg_gdb args) ''arm-none-eabi-gdb'') (\<lambda>gdb.
     bindA (find_executable env (pg_jlink args) ''JLinkGDBServerCLExe'') (\<lambda>jlink_server.
     bindA (p0_select env args dir nrfutil) (\<lambda>(device0, board_version, original).
     bindA (if original then p0_disable_msd env args dir jlink_commander nrfutil device0 else pureA device0) (\<lambda>device.
     bindA (serial_number device) (\<lambda>serial.
     bindA (p0_children env args dir serial nrfutil jlink_server gdb) (\<lambda>_.
     bindA (await_probe_msd env nrfutil serial board_version False (path_join dir ''final-interface-verification'')) (\<lambda>device'.
     bindA (updateA (\<lambda>s. s\<lparr>gs_device := Some device'\<rparr>)) (\<lambda>_.
     bindA (stage env dir ''probe-interface-verification''
              [(''msd_enabled'', JBool False), (''jlink'', JBool True), (''vcoms'', JList [JInt 0, JInt 1])]) (\<lambda>_.
       put_report ''status'' (JStr ''ok'')))))))))))))"

definition p0_restore :: "'h cli_world \<Rightarrow> p0_args \<Rightarrow> path \<Rightarrow> ('h, unit) gate_step" where
  "p0_restore env args dir =
     bindA (readA (\<lambda>s. (gs_device s, gs_nrfutil s, gs_jlink s))) (\<lambda>locals.
       case locals of
         (Some device, Some nrfutil, Some jlink_commander) \<Rightarrow>
           bindA (set_probe_msd env jlink_commander nrfutil device True (path_join dir ''probe-msd'') (pg_timeout args)) (\<lambda>_.
             stage env dir ''probe-msd-restore'' [(''verified'', JBool True)])
       | _ \<Rightarrow> raiseA (CliTool (ToolPython AssertionError)))"

definition command_p0_gate :: "'h cli_world \<Rightarrow> p0_args \<Rightarrow> path \<Rightarrow> ('h, unit) gate_step" where
  "command_p0_gate env args dir =
     bindA (put_report ''status'' (JStr ''running'')) (\<lambda>_.
     bindA (put_report ''hello_world_required_passes'' (JInt 3)) (\<lambda>_.
     bindA (put_report ''child_reports'' (JList [])) (\<lambda>_.
     bindA (put_report ''stages'' (JList [])) (\<lambda>_.
     bindA (store_report env dir) (\<lambda>_.
     bindA (gate_operation env (p0_body env args dir)) (\<lambda>operation.
     bindA (gate_restore env gs_owed (p0_restore env args dir)) (\<lambda>restoration.
     bindA (readA gs_owed) (\<lambda>owed.
     bindA (put_report ''cleanup'' (JObj [(''probe_msd_restored'', JBool (\<not> owed \<or> restoration = None)), (''probe_msd_unchanged'', JBool (\<not> owed))])) (\<lambda>_.
     bindA (store_report env dir) (\<lambda>_.
       gate_raise operation restoration))))))))))"

subsection \<open>The M2 gate\<close>

record m2_args =
  mg_normal_manifest :: path
  mg_fault_manifest :: path
  mg_nrfutil :: string
  mg_gdb :: string
  mg_jlink :: string
  mg_probe_serial :: "string option"
  mg_timeout :: rat
  mg_gate_timeout :: rat
  mg_token_timeout :: rat
  mg_serial_ready_delay :: rat

definition m2_probe_options :: "m2_args \<Rightarrow> string list" where
  "m2_probe_options args =
     (case mg_probe_serial args of None \<Rightarrow> [] | Some serial \<Rightarrow> if serial = [] then [] else [''--probe-serial'', serial])"

definition m2_common :: "m2_args \<Rightarrow> string \<Rightarrow> string list" where
  "m2_common args nrfutil = [''--nrfutil'', nrfutil, ''--timeout'', float_repr (mg_timeout args)] @ m2_probe_options args"

definition m2_run_options :: "m2_args \<Rightarrow> string list" where
  "m2_run_options args =
     [''--token-timeout'', float_repr (mg_token_timeout args), ''--serial-ready-delay'', float_repr (mg_serial_ready_delay args)]"

definition require_value :: "json \<Rightarrow> string \<Rightarrow> json \<Rightarrow> string \<Rightarrow> ('s, cli_error, unit) action" where
  "require_value manifest key expected message =
     bindA (pure_cli (jitem manifest key)) (\<lambda>v. requireA (py_eq v expected) (GateManifest message))"

definition m2_audit :: "'h cli_world \<Rightarrow> m2_args \<Rightarrow> ('h, unit) gate_step" where
  "m2_audit env args =
     bindA (open_manifest env (mg_normal_manifest args)) (\<lambda>normal.
     bindA (open_manifest env (mg_fault_manifest args)) (\<lambda>fault.
     bindA (require_value normal ''oracle'' (JStr ''sdk-hardware_validation'') ''M2 normal manifest must target hardware_validation'') (\<lambda>_.
     bindA (require_value fault ''oracle'' (JStr ''sdk-fault'') ''M2 fault manifest must target fault'') (\<lambda>_.
     bindA (pure_cli (jitem normal ''source_receipt_sha256'')) (\<lambda>receipt.
     bindA (pure_cli (jitem fault ''source_receipt_sha256'')) (\<lambda>receipt'.
     bindA (requireA (py_eq receipt receipt') (GateManifest ''M2 manifests were not generated from the same source lock'')) (\<lambda>_.
     bindA (file_sha256 env (path_join (cl_root env) ''docs/provenance/sources.lock'')) (\<lambda>source_lock_hash.
     bindA (requireA (py_eq receipt (JStr source_lock_hash)) (GateManifest ''M2 manifests are stale relative to the current source lock'')) (\<lambda>_.
     bindA (pure_cli (bindR (jitem normal ''expected_token'') jattr)) (\<lambda>token.
     bindA (requireA (prefix ''NRFKIT_BOOT '' token) (GateManifest ''M2 normal manifest does not contain a build-ID boot token'')) (\<lambda>_.
       updateA (\<lambda>s. s\<lparr>gs_audited := True\<rparr>))))))))))))"

definition m2_run_argv :: "'h cli_world \<Rightarrow> m2_args \<Rightarrow> string \<Rightarrow> string list" where
  "m2_run_argv env args nrfutil =
     [public_cli env, ''run'', ''--manifest'', mg_normal_manifest args] @ m2_common args nrfutil @ m2_run_options args"

definition m2_cycle :: "'h cli_world \<Rightarrow> m2_args \<Rightarrow> path \<Rightarrow> string \<Rightarrow> nat \<Rightarrow> ('h, unit) gate_step" where
  "m2_cycle env args dir nrfutil i =
     bindA (updateA (\<lambda>s. s\<lparr>gs_owed := True\<rparr>)) (\<lambda>_.
       child_stage env dir (m2_run_argv env args nrfutil) (child_log dir i ''run'') (mg_gate_timeout args)
         ''program-reset-token'' [(''iteration'', JInt (int i))])"

definition m2_normal_gdb :: "'h cli_world \<Rightarrow> m2_args \<Rightarrow> string \<Rightarrow> string \<Rightarrow> string \<Rightarrow> string list" where
  "m2_normal_gdb env args nrfutil gdb jlink =
     [public_cli env, ''gdb-smoke'', ''--manifest'', mg_normal_manifest args] @ m2_common args nrfutil
     @ [''--gdb'', gdb, ''--jlink'', jlink, ''--sdk-runtime-contract'', ''--verify-token''] @ m2_run_options args
     @ [''--post-main-break'', ''nrfkit_post_main'']"

definition m2_fault_flash :: "'h cli_world \<Rightarrow> m2_args \<Rightarrow> string \<Rightarrow> string list" where
  "m2_fault_flash env args nrfutil =
     [public_cli env, ''flash'', ''--manifest'', mg_fault_manifest args] @ m2_common args nrfutil"

definition m2_fault_gdb :: "'h cli_world \<Rightarrow> m2_args \<Rightarrow> string \<Rightarrow> string \<Rightarrow> string \<Rightarrow> string list" where
  "m2_fault_gdb env args nrfutil gdb jlink =
     [public_cli env, ''gdb-smoke'', ''--manifest'', mg_fault_manifest args] @ m2_common args nrfutil
     @ [''--gdb'', gdb, ''--jlink'', jlink, ''--fault-contract'']"

definition m2_children :: "'h cli_world \<Rightarrow> m2_args \<Rightarrow> path \<Rightarrow> string \<Rightarrow> string \<Rightarrow> string \<Rightarrow> ('h, unit) gate_step" where
  "m2_children env args dir nrfutil gdb jlink =
     bindA (forA (m2_cycle env args dir nrfutil) [1..<21]) (\<lambda>_.
     bindA (child_stage env dir (m2_normal_gdb env args nrfutil gdb jlink) (child_log dir 21 ''gdb-runtime'') (mg_gate_timeout args)
              ''gdb-runtime-contract'' []) (\<lambda>_.
     bindA (child_stage env dir (m2_fault_flash env args nrfutil) (child_log dir 22 ''fault-flash'') (mg_gate_timeout args)
              ''fault-image-program'' []) (\<lambda>_.
       child_stage env dir (m2_fault_gdb env args nrfutil gdb jlink) (child_log dir 23 ''gdb-fault'') (mg_gate_timeout args)
              ''gdb-fault-contract'' [])))"

definition m2_body :: "'h cli_world \<Rightarrow> m2_args \<Rightarrow> path \<Rightarrow> ('h, unit) gate_step" where
  "m2_body env args dir =
     bindA (m2_audit env args) (\<lambda>_.
     bindA (find_executable env (mg_nrfutil args) ''nrfutil'') (\<lambda>nrfutil.
     bindA (updateA (\<lambda>s. s\<lparr>gs_nrfutil := Some nrfutil\<rparr>)) (\<lambda>_.
     bindA (find_executable env (mg_gdb args) ''arm-none-eabi-gdb'') (\<lambda>gdb.
     bindA (find_executable env (mg_jlink args) ''JLinkGDBServerCLExe'') (\<lambda>jlink.
     bindA (stage env dir ''manifest-audit'' []) (\<lambda>_.
       m2_children env args dir nrfutil gdb jlink))))))"

definition m2_restore_argv :: "'h cli_world \<Rightarrow> m2_args \<Rightarrow> string \<Rightarrow> string list" where
  "m2_restore_argv env args nrfutil =
     [public_cli env, ''run'', ''--manifest'', mg_normal_manifest args, ''--nrfutil'', nrfutil, ''--timeout'', float_repr (mg_timeout args)]
     @ m2_run_options args @ m2_probe_options args"

text \<open>\<open>len(report["child_reports"])\<close>.\<close>

definition count_children :: "('h, 'z, nat) cli_step" where
  "count_children =
     bindA (readA (\<lambda>s. map_of (report s) ''child_reports'')) (\<lambda>v.
       case v of
         None \<Rightarrow> raiseA (CliTool (ToolPython KeyError))
       | Some (JList xs) \<Rightarrow> pureA (length xs)
       | Some _ \<Rightarrow> raiseA (CliTool (ToolPython TypeError)))"

definition m2_restore :: "'h cli_world \<Rightarrow> m2_args \<Rightarrow> path \<Rightarrow> ('h, unit) gate_step" where
  "m2_restore env args dir =
     bindA count_children (\<lambda>n.
     bindA (readA gs_nrfutil) (\<lambda>found.
     let nrfutil = (case found of None \<Rightarrow> mg_nrfutil args | Some x \<Rightarrow> if x = [] then mg_nrfutil args else x) in
       child_stage env dir (m2_restore_argv env args nrfutil) (child_log dir (n + 1) ''restore-normal'') (mg_gate_timeout args)
         ''normal-image-restored'' []))"

definition command_m2_gate :: "'h cli_world \<Rightarrow> m2_args \<Rightarrow> path \<Rightarrow> ('h, unit) gate_step" where
  "command_m2_gate env args dir =
     bindA (put_report ''status'' (JStr ''running'')) (\<lambda>_.
     bindA (put_report ''required_program_reset_cycles'' (JInt 20)) (\<lambda>_.
     bindA (put_report ''child_reports'' (JList [])) (\<lambda>_.
     bindA (put_report ''stages'' (JList [])) (\<lambda>_.
     bindA (store_report env dir) (\<lambda>_.
     bindA (gate_operation env (m2_body env args dir)) (\<lambda>operation.
     bindA (gate_restore env (\<lambda>s. gs_audited s \<and> gs_owed s) (m2_restore env args dir)) (\<lambda>restoration.
     bindA (if operation = None \<and> restoration = None then put_report ''status'' (JStr ''ok'') else pureA ()) (\<lambda>_.
     bindA (readA gs_owed) (\<lambda>started.
     bindA (put_report ''cleanup'' (JObj [(''normal_image_restored'', JBool (started \<and> restoration = None)),
              (''restoration_required'', JBool started)])) (\<lambda>_.
     bindA (store_report env dir) (\<lambda>_.
       gate_raise operation restoration)))))))))))"

end
