(* ===== verification/Gates_Correct.thy ===== *)
theory Gates_Correct
  imports Gates
begin

section \<open>Correctness of the M2 gate\<close>

text \<open>
  The runs a gate launches refine an abstract plan: a prefix of the planned runs, and, as soon as one of them was launched, the run
  that puts the normal image back, last of all. Nothing is assumed of the children.
\<close>

definition argvs :: "'h host \<Rightarrow> string list list" where
  "argvs h = map launch_argv (launches h)"

text \<open>The abstract specification: the traces of a plan with a repair.\<close>

definition repaired :: "'a list \<Rightarrow> 'a \<Rightarrow> 'a list" where
  "repaired launched repair = (if launched = [] then [] else launched @ [repair])"

definition m2_plan :: "'h cli_world \<Rightarrow> m2_args \<Rightarrow> string list list" where
  "m2_plan env args =
     (case (cl_executable env (mg_nrfutil args) ''nrfutil'', cl_executable env (mg_gdb args) ''arm-none-eabi-gdb'',
            cl_executable env (mg_jlink args) ''JLinkGDBServerCLExe'') of
        (Some nrfutil, Some gdb, Some jlink) \<Rightarrow>
          replicate 20 (m2_run_argv env args nrfutil)
          @ [m2_normal_gdb env args nrfutil gdb jlink, m2_fault_flash env args nrfutil, m2_fault_gdb env args nrfutil gdb jlink]
      | _ \<Rightarrow> [])"

definition m2_repair :: "'h cli_world \<Rightarrow> m2_args \<Rightarrow> string list" where
  "m2_repair env args =
     m2_restore_argv env args
       (case cl_executable env (mg_nrfutil args) ''nrfutil'' of
          None \<Rightarrow> mg_nrfutil args | Some nrfutil \<Rightarrow> if nrfutil = [] then mg_nrfutil args else nrfutil)"

subsection \<open>Steps that launch nothing\<close>

definition children :: "('h, 'z) cmd_state_scheme \<Rightarrow> nat option" where
  "children s = (case map_of (report s) ''child_reports'' of Some (JList xs) \<Rightarrow> Some (length xs) | _ \<Rightarrow> None)"

definition gate_locals :: "'h gate_state \<Rightarrow> bool \<times> bool \<times> string option" where
  "gate_locals s = (gs_owed s, gs_audited s, gs_nrfutil s)"

definition calm :: "'h gate_state \<Rightarrow> 'h gate_state \<Rightarrow> bool" where
  "calm s s' \<longleftrightarrow> argvs (host s') = argvs (host s) \<and> children s' = children s \<and> gate_locals s' = gate_locals s"

interpretation calm: state_order calm
  by unfold_locales (auto simp: calm_def)

lemma calm_put_report [simp]: "k \<noteq> ''child_reports'' \<Longrightarrow> stable calm (put_report k v)"
  by (auto simp: stable_def calm_def argvs_def children_def gate_locals_def action_simps AList.update_conv)

lemma calm_store [simp]: "stable calm (store_report env dir)"
  by (auto simp: stable_def calm_def argvs_def children_def gate_locals_def action_simps store_report_def onTool_def atomic_json_def Let_def)

lemma calm_pure [simp]: "stable calm (pure_cli r)" "stable calm (seeFiles f)"
  by (simp_all add: pure_cli_def seeFiles_def)

lemma calm_stage [simp]: "stable calm (stage env dir name details)"
  unfolding stage_def by (intro calm.stable_bindA) (auto split: option.splits json.splits)

lemma calm_failure [simp]: "stable calm (record_failure env e)"
  unfolding record_failure_def by (intro calm.stable_bindA) simp_all

lemma calm_open [simp]: "stable calm (open_manifest env p)" "stable calm (file_sha256 env p)"
  unfolding open_manifest_def file_sha256_def by (intro calm.stable_bindA; simp)+

lemma calm_require_value [simp]: "stable calm (require_value manifest key expected message)"
  unfolding require_value_def by (intro calm.stable_bindA; simp)

subsection \<open>One child\<close>

definition gate_at :: "string list list \<Rightarrow> bool \<times> bool \<times> string option \<Rightarrow> 'h gate_state \<Rightarrow> bool" where
  "gate_at tr ls s \<longleftrightarrow> argvs (host s) = tr \<and> children s \<noteq> None \<and> gate_locals s = ls"

lemma keep_gate_at: "stable calm m \<Longrightarrow> (\<And>e s. gate_at tr ls s \<Longrightarrow> E e s) \<Longrightarrow> triple (gate_at tr ls) m (\<lambda>_. gate_at tr ls) E"
  by (erule triple_stable) (auto simp: gate_at_def calm_def)

lemma cli_run_at:
  fixes env :: "'h cli_world"
  shows "triple (gate_at tr ls) (cli_run env argv log_path timeout) (\<lambda>_ s. gate_at (tr @ [argv]) ls s \<and> 0 < timeout) (\<lambda>_ s. gate_at tr ls s \<and> timeout \<le> 0)"
  by (rule tripleI)
    (auto simp: cli_run_def onTool_def action_simps run_logged_def gate_at_def argvs_def children_def gate_locals_def Let_def
      split: if_splits prod.splits)

lemma add_child_report_at:
  "triple (gate_at tr ls) (add_child_report child) (\<lambda>_. gate_at tr ls) E"
  by (rule tripleI)
    (auto simp: add_child_report_def action_simps gate_at_def argvs_def children_def gate_locals_def AList.update_conv split: option.splits json.splits)

lemma run_p0_child_at:
  fixes env :: "'h cli_world"
  shows "triple (gate_at tr ls) (run_p0_child env argv log_path timeout) (\<lambda>_ s. gate_at (tr @ [argv]) ls s \<and> 0 < timeout)
    (\<lambda>_ s. if timeout \<le> 0 then gate_at tr ls s else gate_at (tr @ [argv]) ls s)"
proof -
  let ?E = "\<lambda>_ s. if timeout \<le> 0 then gate_at tr ls s else gate_at (tr @ [argv]) ls s" and ?P = "gate_at (tr @ [argv]) ls"
  have run: "triple (gate_at tr ls) (cli_run env argv log_path timeout) (\<lambda>_ s. ?P s \<and> 0 < timeout) ?E"
    by (rule triple_post [OF cli_run_at]) auto
  have keep: "0 < timeout \<Longrightarrow> stable calm m \<Longrightarrow> triple ?P m (\<lambda>_ s. ?P s \<and> 0 < timeout) ?E" for m :: "('h, string) gate_step"
    by (rule triple_weaken [OF keep_gate_at [where E = "\<lambda>_. ?P"]]) auto
  show ?thesis unfolding run_p0_child_def Let_def
    by (rule triple_bindA [OF run triple_fact [OF keep]])
      (auto intro!: calm.stable_bindA split: list.splits)
qed

lemma child_stage_at:
  fixes env :: "'h cli_world"
  shows "triple (gate_at tr ls) (child_stage env dir argv log_path timeout name details) (\<lambda>_ s. gate_at (tr @ [argv]) ls s \<and> 0 < timeout)
    (\<lambda>_ s. if timeout \<le> 0 then gate_at tr ls s else gate_at (tr @ [argv]) ls s)"
proof -
  let ?E = "\<lambda>_ s. if timeout \<le> 0 then gate_at tr ls s else gate_at (tr @ [argv]) ls s" and ?P = "gate_at (tr @ [argv]) ls"
  have keep: "0 < timeout \<Longrightarrow> triple ?P (stage env dir name ds) (\<lambda>_ s. ?P s \<and> 0 < timeout) ?E" for ds
    by (rule triple_weaken [OF keep_gate_at [where E = "\<lambda>_. ?P"]]) auto
  show ?thesis unfolding child_stage_def
    by (rule triple_bindA [OF run_p0_child_at triple_fact [OF triple_bindA [OF add_child_report_at keep]]])
qed

subsection \<open>The body\<close>

lemma m2_cycle_at:
  fixes env :: "'h cli_world"
  shows "triple (gate_at tr (owed, a, n)) (m2_cycle env args dir nrfutil i)
    (\<lambda>_ s. gate_at (tr @ [m2_run_argv env args nrfutil]) (True, a, n) s \<and> 0 < mg_gate_timeout args)
    (\<lambda>_ s. if mg_gate_timeout args \<le> 0 then gate_at tr (True, a, n) s else gate_at (tr @ [m2_run_argv env args nrfutil]) (True, a, n) s)"
proof -
  have start: "triple (gate_at tr (owed, a, n)) (updateA (\<lambda>s. s\<lparr>gs_owed := True\<rparr>)) (\<lambda>_. gate_at tr (True, a, n)) E" for E
    by (rule tripleI) (auto simp: action_simps gate_at_def gate_locals_def children_def)
  show ?thesis unfolding m2_cycle_def by (rule triple_bindA [OF start child_stage_at])
qed

lemma forA_single: "forA f [x] = f x"
  by (rule ext) (simp add: bindA_def pureA_def split: prod.splits sum.splits)

lemma m2_cycles_at:
  fixes env :: "'h cli_world" and args nrfutil
  defines "run \<equiv> m2_run_argv env args nrfutil"
  shows "triple (gate_at tr (owed, a, n)) (forA (m2_cycle env args dir nrfutil) (i # is))
    (\<lambda>_ s. gate_at (tr @ replicate (Suc (length is)) run) (True, a, n) s \<and> 0 < mg_gate_timeout args)
    (\<lambda>_ s. if mg_gate_timeout args \<le> 0 then gate_at tr (True, a, n) s
       else \<exists>j. 0 < j \<and> j \<le> Suc (length is) \<and> gate_at (tr @ replicate j run) (True, a, n) s)"
proof (induction "is" arbitrary: i tr owed)
  case Nil
  have "triple (gate_at tr (owed, a, n)) (m2_cycle env args dir nrfutil i)
     (\<lambda>_ s. gate_at (tr @ replicate 1 run) (True, a, n) s \<and> 0 < mg_gate_timeout args)
     (\<lambda>_ s. if mg_gate_timeout args \<le> 0 then gate_at tr (True, a, n) s
        else \<exists>j. 0 < j \<and> j \<le> 1 \<and> gate_at (tr @ replicate j run) (True, a, n) s)"
    by (rule triple_weaken [OF m2_cycle_at]) (auto simp: run_def intro!: exI [of _ 1])
  then show ?case by (simp only: forA_single list.size One_nat_def add_0_right)
next
  case (Cons x xs)
  let ?E = "\<lambda>_ s. if mg_gate_timeout args \<le> 0 then gate_at tr (True, a, n) s
       else \<exists>j. 0 < j \<and> j \<le> Suc (length (x # xs)) \<and> gate_at (tr @ replicate j run) (True, a, n) s"
  have head: "triple (gate_at tr (owed, a, n)) (m2_cycle env args dir nrfutil i)
     (\<lambda>_ s. gate_at (tr @ [run]) (True, a, n) s \<and> 0 < mg_gate_timeout args) ?E"
    by (rule triple_weaken [OF m2_cycle_at]) (auto simp: run_def intro!: exI [of _ 1])
  have tail: "triple (gate_at (tr @ [run]) (True, a, n)) (forA (m2_cycle env args dir nrfutil) (x # xs))
     (\<lambda>_ s. gate_at (tr @ replicate (Suc (length (x # xs))) run) (True, a, n) s \<and> 0 < mg_gate_timeout args) ?E"
    if "0 < mg_gate_timeout args"
  proof (rule triple_weaken [OF Cons.IH])
    show "?E e s" if "if mg_gate_timeout args \<le> 0 then gate_at (tr @ [run]) (True, a, n) s
       else \<exists>j. 0 < j \<and> j \<le> Suc (length xs) \<and> gate_at ((tr @ [run]) @ replicate j run) (True, a, n) s" for e :: cli_error and s :: "'h gate_state"
    proof -
      from that \<open>0 < mg_gate_timeout args\<close> obtain j where "0 < j" "j \<le> Suc (length xs)" "gate_at (tr @ replicate (Suc j) run) (True, a, n) s"
        by (auto split: if_splits)
      with \<open>0 < mg_gate_timeout args\<close> show ?thesis by (auto simp del: replicate.simps intro!: exI [of _ "Suc j"])
    qed
  qed (use that in auto)
  show ?case unfolding forA.simps(2) [of _ i] by (rule triple_bindA [OF head triple_fact [OF tail]])
qed

text \<open>\<open>k\<close> of the planned runs have been launched.\<close>

definition took :: "'h cli_world \<Rightarrow> m2_args \<Rightarrow> string list list \<Rightarrow> nat \<Rightarrow> 'h gate_state \<Rightarrow> bool" where
  "took env args tr k s \<longleftrightarrow>
     (if k = 0 then argvs (host s) = tr \<and> children s \<noteq> None \<and> (gs_owed s \<longrightarrow> gs_audited s \<and> mg_gate_timeout args \<le> 0 \<and> gs_nrfutil s = cl_executable env (mg_nrfutil args) ''nrfutil'')
      else k \<le> length (m2_plan env args) \<and> 0 < mg_gate_timeout args
        \<and> gate_at (tr @ take k (m2_plan env args)) (True, True, cl_executable env (mg_nrfutil args) ''nrfutil'') s)"

lemma m2_children_took:
  fixes env :: "'h cli_world"
  assumes exe: "cl_executable env (mg_nrfutil args) ''nrfutil'' = Some nrfutil" "cl_executable env (mg_gdb args) ''arm-none-eabi-gdb'' = Some gdb"
    "cl_executable env (mg_jlink args) ''JLinkGDBServerCLExe'' = Some jlink"
  shows "triple (gate_at tr (False, True, Some nrfutil)) (m2_children env args dir nrfutil gdb jlink)
    (\<lambda>_. took env args tr 23) (\<lambda>_ s. \<exists>k. took env args tr k s)"
proof -
  let ?plan = "m2_plan env args" and ?ls = "(True, True, Some nrfutil)" and ?time = "0 < mg_gate_timeout args"
  let ?run = "m2_run_argv env args nrfutil" and ?E = "\<lambda>_ s. \<exists>k. took env args tr k s"
  have plan: "?plan = replicate 20 ?run @ [m2_normal_gdb env args nrfutil gdb jlink, m2_fault_flash env args nrfutil, m2_fault_gdb env args nrfutil gdb jlink]"
    by (simp add: m2_plan_def exe)
  have none: "took env args tr 0 s" if "gate_at tr ?ls s" "\<not> ?time" for s
    using that by (auto simp: took_def gate_at_def gate_locals_def exe)
  have some: "took env args tr k s" if "gate_at (tr @ take k ?plan) ?ls s" "?time" "0 < k" "k \<le> 23" for k s
    using that by (simp add: took_def exe plan)
  have reps: "replicate j ?run = take j ?plan" if "j \<le> 20" for j
    using that by (simp add: plan min_def)
  have cycles: "triple (gate_at tr (False, True, Some nrfutil)) (forA (m2_cycle env args dir nrfutil) (1 # [2..<21]))
      (\<lambda>_ s. gate_at (tr @ take 20 ?plan) ?ls s \<and> ?time) ?E"
  proof (rule triple_weaken [OF m2_cycles_at])
    have len: "Suc (length [2..<21]) = 20" by simp
    show "gate_at (tr @ replicate (Suc (length [2..<21])) ?run) ?ls s \<and> ?time \<Longrightarrow> gate_at (tr @ take 20 ?plan) ?ls s \<and> ?time" for s :: "'h gate_state"
      unfolding len reps [OF order_refl] .
    show "if mg_gate_timeout args \<le> 0 then gate_at tr ?ls s
       else \<exists>j. 0 < j \<and> j \<le> Suc (length [2..<21]) \<and> gate_at (tr @ replicate j ?run) ?ls s \<Longrightarrow> \<exists>k. took env args tr k s" for s :: "'h gate_state"
      unfolding len using none [of s] by (force simp: reps not_le split: if_splits dest: some)
  qed
  have step: "triple (gate_at (tr @ take k ?plan) ?ls) (child_stage env dir argv log_path (mg_gate_timeout args) name ds)
      (\<lambda>_ s. gate_at (tr @ take (Suc k) ?plan) ?ls s \<and> ?time) ?E"
    if "take k ?plan @ [argv] = take (Suc k) ?plan" "k < 23" "?time" for k argv log_path name ds
  proof -
    have *: "(tr @ take k ?plan) @ [argv] = tr @ take (Suc k) ?plan" using that(1) by simp
    show ?thesis
      by (rule triple_weaken [OF child_stage_at]) (use that some [of "Suc k"] in \<open>auto simp: * simp del: append_assoc intro!: exI [of _ "Suc k"]\<close>)
  qed
  have "[1..<21] = 1 # [2..<21]" by (simp add: upt_rec)
  then have cycles: "triple (gate_at tr (False, True, Some nrfutil)) (forA (m2_cycle env args dir nrfutil) [1..<21])
      (\<lambda>_ s. gate_at (tr @ take 20 ?plan) ?ls s \<and> ?time) ?E" using cycles by simp
  have t21: "take 20 ?plan @ [m2_normal_gdb env args nrfutil gdb jlink] = take (Suc 20) ?plan"
    and t22: "take (Suc 20) ?plan @ [m2_fault_flash env args nrfutil] = take (Suc (Suc 20)) ?plan"
    and t23: "take (Suc (Suc 20)) ?plan @ [m2_fault_gdb env args nrfutil gdb jlink] = take (Suc (Suc (Suc 20))) ?plan"
    by (simp_all add: plan)
  have "triple (gate_at tr (False, True, Some nrfutil)) (m2_children env args dir nrfutil gdb jlink)
    (\<lambda>_ s. gate_at (tr @ take (Suc (Suc (Suc 20))) ?plan) ?ls s \<and> ?time) ?E"
    unfolding m2_children_def
    by (intro triple_bindA [OF cycles] triple_fact triple_bindA [OF step [OF t21]] triple_bindA [OF step [OF t22]] step [OF t23]) simp_all
  then show ?thesis by (rule triple_weaken) (auto simp: eval_nat_numeral intro!: some)
qed

lemma m2_audit_at:
  fixes env :: "'h cli_world"
  shows "triple (gate_at tr (False, False, None)) (m2_audit env args) (\<lambda>_. gate_at tr (False, True, None)) (\<lambda>_ s. \<exists>k. took env args tr k s)"
proof -
  have keep: "stable calm m \<Longrightarrow> triple (gate_at tr (False, False, None)) m (\<lambda>_. gate_at tr (False, False, None)) (\<lambda>_ s. \<exists>k. took env args tr k s)"
    for m :: "('h, 'c) gate_step"
    by (rule keep_gate_at) (auto simp: took_def gate_at_def gate_locals_def intro!: exI [of _ 0])
  have mark: "triple (gate_at tr (False, False, None)) (updateA (\<lambda>s. s\<lparr>gs_audited := True\<rparr>)) (\<lambda>_. gate_at tr (False, True, None)) E" for E
    by (rule tripleI) (auto simp: action_simps gate_at_def gate_locals_def children_def)
  show ?thesis unfolding m2_audit_def by (intro triple_bindA [OF keep] mark) simp_all
qed

lemma m2_body_took:
  fixes env :: "'h cli_world"
  shows "triple (gate_at tr (False, False, None)) (m2_body env args dir)
    (\<lambda>_ s. took env args tr 23 s) (\<lambda>_ s. \<exists>k. took env args tr k s)"
proof -
  let ?E = "\<lambda>_ s. \<exists>k. took env args tr k s"
  have idle: "took env args tr 0 s" if "gate_at tr (False, True, n) s" for n s
    using that by (auto simp: took_def gate_at_def gate_locals_def)
  have keep: "stable calm m \<Longrightarrow> triple (gate_at tr (False, True, n)) m (\<lambda>_. gate_at tr (False, True, n)) ?E" for n and m :: "('h, 'c) gate_step"
    by (rule keep_gate_at) (auto dest: idle)
  have find: "triple (gate_at tr (False, True, n)) (find_executable env chosen fallback)
      (\<lambda>p s. gate_at tr (False, True, n) s \<and> cl_executable env chosen fallback = Some p) ?E" for n chosen fallback
    by (rule tripleI) (auto simp: find_executable_def action_simps split: option.splits dest: idle)
  have set: "triple (gate_at tr (False, True, None)) (updateA (\<lambda>s. s\<lparr>gs_nrfutil := Some n\<rparr>)) (\<lambda>_. gate_at tr (False, True, Some n)) E" for E n
    by (rule tripleI) (auto simp: action_simps gate_at_def gate_locals_def children_def)
  show ?thesis unfolding m2_body_def
    by (intro triple_bindA [OF m2_audit_at] triple_bindA [OF find] triple_fact triple_bindA [OF set] triple_bindA [OF keep] m2_children_took) simp_all
qed

subsection \<open>The command\<close>

lemma m2_restore_launches:
  assumes "gate_at tr ls s" and "m2_restore env args dir s = (s', r)" and "gs_nrfutil s = cl_executable env (mg_nrfutil args) ''nrfutil''"
  shows "argvs (host s') = (if 0 < mg_gate_timeout args then tr @ [m2_repair env args] else tr)"
    and "r = Inr () \<Longrightarrow> 0 < mg_gate_timeout args" and "gs_owed s' = gs_owed s"
proof -
  obtain n where n: "count_children s = (s, Inr n)"
    using assms(1) by (auto simp: gate_at_def children_def count_children_def bindA_def readA_def pureA_def split: option.splits json.splits)
  let ?run = "child_stage env dir (m2_repair env args) (child_log dir (n + 1) ''restore-normal'') (mg_gate_timeout args) ''normal-image-restored'' []"
  have run: "?run s = (s', r)"
    using assms(2,3) by (simp add: m2_restore_def bindA_def n readA_def Let_def m2_repair_def)
  note result = triple_Inr [OF child_stage_at assms(1) run [THEN trans]] triple_Inl [OF child_stage_at assms(1) run [THEN trans]]
  show "argvs (host s') = (if 0 < mg_gate_timeout args then tr @ [m2_repair env args] else tr)" "r = Inr () \<Longrightarrow> 0 < mg_gate_timeout args"
    "gs_owed s' = gs_owed s"
    using result assms(1) by (cases r; auto simp: gate_at_def gate_locals_def split: if_splits)+
qed

text \<open>What is known after the restoration: the trace of the runs, and whether the record may say that the image was restored.\<close>

definition m2_ended :: "'h cli_world \<Rightarrow> m2_args \<Rightarrow> string list list \<Rightarrow> nat \<Rightarrow> bool \<Rightarrow> 'h gate_state \<Rightarrow> bool" where
  "m2_ended env args tr k repaired_well s \<longleftrightarrow>
     argvs (host s) = tr @ repaired (take k (m2_plan env args)) (m2_repair env args)
   \<and> (gs_owed s \<and> repaired_well \<longrightarrow> take k (m2_plan env args) \<noteq> [])"

lemma m2_restoration:
  assumes "took env args tr k s" and "gate_restore env (\<lambda>s. gs_audited s \<and> gs_owed s) (m2_restore env args dir) s = (s', r)"
  shows "\<exists>e. r = Inr e \<and> m2_ended env args tr k (e = None) s'"
proof (cases "gs_audited s \<and> gs_owed s")
  case False
  with assms show ?thesis
    by (auto simp: gate_restore_def bindA_def readA_def pureA_def took_def m2_ended_def repaired_def gate_at_def gate_locals_def split: if_splits)
next
  case True
  obtain s1 q where restore: "m2_restore env args dir s = (s1, q)" by fastforce
  have at: "gate_at (tr @ take k (m2_plan env args)) (gate_locals s) s" "gs_nrfutil s = cl_executable env (mg_nrfutil args) ''nrfutil''"
    and time: "0 < mg_gate_timeout args \<longleftrightarrow> take k (m2_plan env args) \<noteq> []"
    using assms(1) True by (auto simp: took_def gate_at_def gate_locals_def split: if_splits)
  note launched = m2_restore_launches [OF at(1) restore at(2)]
  from assms(2) restore True show ?thesis
    using launched time
    by (auto simp: gate_restore_def bindA_def readA_def pureA_def attemptA_def put_report_def updateA_def m2_ended_def repaired_def split: sum.splits)
qed

lemma repaired_Nil_iff: "repaired xs y = [] \<longleftrightarrow> xs = []"
  by (simp add: repaired_def)

text \<open>The status is only set by the gate itself.\<close>

definition status_kept :: "('h, 'z) cmd_state_scheme \<Rightarrow> ('h, 'z) cmd_state_scheme \<Rightarrow> bool" where
  "status_kept s s' \<longleftrightarrow> map_of (report s') ''status'' = map_of (report s) ''status''"

interpretation status_kept: state_order status_kept
  by unfold_locales (auto simp: status_kept_def)

lemma status_kept_basic [simp]:
  "k \<noteq> ''status'' \<Longrightarrow> stable status_kept (put_report k v)" "stable status_kept (store_report env dir)"
  "stable status_kept (cli_run env argv log_path timeout)" "stable status_kept (seeFiles f)"
  by (auto simp: stable_def status_kept_def action_simps store_report_def cli_run_def onTool_def seeFiles_def AList.update_conv)

lemma status_kept_stage [simp]: "stable status_kept (stage env dir name details)"
  unfolding stage_def by (intro status_kept.stable_bindA) (auto split: option.splits json.splits)

lemma status_kept_child [simp]: "stable status_kept (child_stage env dir argv log_path timeout name details)"
  unfolding child_stage_def run_p0_child_def add_child_report_def Let_def
  by (intro status_kept.stable_bindA) (auto intro!: status_kept.stable_bindA split: option.splits json.splits list.splits)

lemma status_kept_restore [simp]: "stable status_kept (m2_restore env args dir)"
  unfolding m2_restore_def count_children_def Let_def
  by (intro status_kept.stable_bindA) (auto split: option.splits json.splits)

definition failed :: "('h, 'z) cmd_state_scheme \<Rightarrow> bool" where
  "failed s \<longleftrightarrow> map_of (report s) ''status'' = Some (JStr ''failed'')"

lemma m2_operation_triple:
  fixes env :: "'h cli_world"
  shows "triple (gate_at tr (False, False, None)) (gate_operation env (m2_body env args dir))
    (\<lambda>e s. if e = None then took env args tr 23 s else failed s \<and> (\<exists>k. took env args tr k s)) (\<lambda>_ _. False)"
proof -
  have keep: "took env args tr k s \<Longrightarrow> calm s s' \<Longrightarrow> took env args tr k s'" for k and s s' :: "'h gate_state"
    by (auto simp: took_def calm_def gate_at_def gate_locals_def split: if_splits)
  have noted: "took env args tr k s' \<and> failed s'" if "took env args tr k s" "record_failure env e s = (s', q)" for k s s' e q
    using that keep stableD [OF calm_failure that(2)] by (auto simp: failed_def record_failure_def bindA_def put_report_def updateA_def AList.update_conv)
  have always: "q = Inr ()" if "record_failure env e s = (s', q)" for e q and s s' :: "'h gate_state"
    using that by (auto simp: record_failure_def bindA_def put_report_def updateA_def)
  have finish: "triple (\<lambda>s. case x of Inl e \<Rightarrow> \<exists>k. took env args tr k s | Inr _ \<Rightarrow> took env args tr 23 s)
      (case x of Inr _ \<Rightarrow> pureA None | Inl e \<Rightarrow> bindA (record_failure env e) (\<lambda>_. pureA (Some e)))
      (\<lambda>e s. if e = None then took env args tr 23 s else failed s \<and> (\<exists>k. took env args tr k s)) (\<lambda>_ _. False)" for x :: "cli_error + unit"
  proof (cases x)
    case (Inl e)
    have "triple (\<lambda>s. \<exists>k. took env args tr k s) (record_failure env e) (\<lambda>_ s. failed s \<and> (\<exists>k. took env args tr k s)) (\<lambda>_ _. False)"
      by (intro tripleI) (auto dest: noted always)
    then show ?thesis unfolding Inl sum.case by (rule triple_bindA) (auto intro!: tripleI simp: action_simps)
  qed (auto intro!: tripleI simp: action_simps)
  show ?thesis unfolding gate_operation_def by (rule triple_bindA [OF triple_attemptA [OF m2_body_took] finish])
qed

lemma m2_restore_triple:
  fixes env :: "'h cli_world"
  shows "triple (\<lambda>s. if oe = None then took env args tr 23 s else failed s \<and> (\<exists>k. took env args tr k s))
    (gate_restore env (\<lambda>s. gs_audited s \<and> gs_owed s) (m2_restore env args dir))
    (\<lambda>re s. (\<exists>k. m2_ended env args tr k (re = None) s \<and> (oe = None \<longrightarrow> length (take k (m2_plan env args)) = 23)) \<and> (oe \<noteq> None \<or> re \<noteq> None \<longrightarrow> failed s))
    (\<lambda>_ _. False)" (is "triple ?P ?m _ _")
proof -
  have ended: "\<exists>re. q = Inr re \<and> (\<exists>k. m2_ended env args tr k (re = None) s' \<and> (oe = None \<longrightarrow> length (take k (m2_plan env args)) = 23))"
    if "?P s" "?m s = (s', q)" for s s' q
  proof -
    have "length (take 23 (m2_plan env args)) = 23" if "took env args tr 23 s" using that by (simp add: took_def)
    with that(1) obtain k where "took env args tr k s" "oe = None \<longrightarrow> length (take k (m2_plan env args)) = 23"
      by (cases oe) auto
    with m2_restoration [OF _ that(2)] show ?thesis by blast
  qed
  have "failed s'" if "?P s" "?m s = (s', Inr re)" "oe \<noteq> None \<or> re \<noteq> None" for s s' re
  proof -
    obtain s1 q where m: "m2_restore env args dir s = (s1, q)" by fastforce
    from that m stableD [OF status_kept_restore m] show ?thesis
      by (cases q) (auto simp: gate_restore_def bindA_def readA_def pureA_def attemptA_def put_report_def updateA_def failed_def status_kept_def
          AList.update_conv split: if_splits)
  qed
  with ended show ?thesis by (intro tripleI) blast+
qed

definition m2_ending :: "'h cli_world \<Rightarrow> path \<Rightarrow> cli_error option \<Rightarrow> cli_error option \<Rightarrow> ('h, unit) gate_step" where
  "m2_ending env dir oe re =
     bindA (if oe = None \<and> re = None then put_report ''status'' (JStr ''ok'') else pureA ()) (\<lambda>_.
     bindA (readA gs_owed) (\<lambda>started.
     bindA (put_report ''cleanup'' (JObj [(''normal_image_restored'', JBool (started \<and> re = None)),
              (''restoration_required'', JBool started)])) (\<lambda>_.
     bindA (store_report env dir) (\<lambda>_. gate_raise oe re))))"

definition m2_outcome :: "'h cli_world \<Rightarrow> m2_args \<Rightarrow> string list list \<Rightarrow> 'h gate_state \<Rightarrow> bool \<Rightarrow> bool" where
  "m2_outcome env args tr s returned \<longleftrightarrow> (\<exists>k restored required.
       argvs (host s) = tr @ repaired (take k (m2_plan env args)) (m2_repair env args)
     \<and> (if returned then map_of (report s) ''status'' = Some (JStr ''ok'') \<and> length (take k (m2_plan env args)) = 23
        else map_of (report s) ''status'' = Some (JStr ''failed''))
     \<and> map_of (report s) ''cleanup'' = Some (JObj [(''normal_image_restored'', JBool restored), (''restoration_required'', JBool required)])
     \<and> restored \<le> (required \<and> take k (m2_plan env args) \<noteq> []))"

lemma m2_ending_outcome:
  assumes "m2_ended env args tr k (re = None) s" and "oe = None \<longrightarrow> length (take k (m2_plan env args)) = 23"
    and "oe \<noteq> None \<or> re \<noteq> None \<longrightarrow> failed s" and "m2_ending env dir oe re s = (s', res)"
  shows "m2_outcome env args tr s' (res = Inr ())"
proof -
  let ?out = "m2_ending env dir oe re s"
  have "argvs (host (fst ?out)) = argvs (host s)" "snd ?out = Inr () \<longleftrightarrow> oe = None \<and> re = None"
    "report (fst ?out) = AList.update ''cleanup'' (JObj [(''normal_image_restored'', JBool (gs_owed s \<and> re = None)), (''restoration_required'', JBool (gs_owed s))])
       (if oe = None \<and> re = None then AList.update ''status'' (JStr ''ok'') (report s) else report s)"
    by (cases oe; cases re; simp add: m2_ending_def bindA_def put_report_def updateA_def readA_def pureA_def raiseA_def store_report_def
        onTool_def onHost_def atomic_json_def gate_raise_def Let_def argvs_def)+
  then have trace: "argvs (host s') = argvs (host s)" and returned: "res = Inr () \<longleftrightarrow> oe = None \<and> re = None"
    and cleanup: "map_of (report s') ''cleanup'' = Some (JObj [(''normal_image_restored'', JBool (gs_owed s \<and> re = None)), (''restoration_required'', JBool (gs_owed s))])"
    and status: "map_of (report s') ''status'' = (if oe = None \<and> re = None then Some (JStr ''ok'') else map_of (report s) ''status'')"
    using assms(4) by (simp_all add: AList.update_conv)
  show ?thesis unfolding m2_outcome_def returned trace cleanup status
  proof (intro exI conjI)
    show "if oe = None \<and> re = None then (if oe = None \<and> re = None then Some (JStr ''ok'') else map_of (report s) ''status'') = Some (JStr ''ok'')
        \<and> length (take k (m2_plan env args)) = 23
      else (if oe = None \<and> re = None then Some (JStr ''ok'') else map_of (report s) ''status'') = Some (JStr ''failed'')"
      using assms(2,3) by (simp only: failed_def split: if_splits) blast
    show "argvs (host s) = tr @ repaired (take k (m2_plan env args)) (m2_repair env args)" using assms(1) by (simp only: m2_ended_def)
    show "(gs_owed s \<and> re = None) \<le> (gs_owed s \<and> take k (m2_plan env args) \<noteq> [])"
      using assms(1) by (simp only: m2_ended_def le_bool_def) blast
  qed (rule refl)
qed

lemma m2_gate_triple:
  fixes env :: "'h cli_world"
  shows "triple (\<lambda>s. argvs (host s) = tr \<and> gate_locals s = (False, False, None)) (command_m2_gate env args dir)
     (\<lambda>_ s. m2_outcome env args tr s True) (\<lambda>_ s. m2_outcome env args tr s False)"
proof -
  let ?P = "\<lambda>s :: 'h gate_state. argvs (host s) = tr \<and> gate_locals s = (False, False, None)"
  let ?E = "\<lambda>_ s. m2_outcome env args tr s False"
  have put: "triple ?P (put_report k v) (\<lambda>_. ?P) ?E" for k v
    by (rule tripleI) (auto simp: action_simps gate_locals_def)
  have set: "triple ?P (put_report ''child_reports'' (JList [])) (\<lambda>_. gate_at tr (False, False, None)) ?E"
    by (rule tripleI) (auto simp: action_simps gate_locals_def gate_at_def children_def AList.update_conv)
  have stages: "triple (gate_at tr (False, False, None)) (put_report ''stages'' v) (\<lambda>_. gate_at tr (False, False, None)) ?E" for v
    by (rule tripleI) (auto simp: action_simps gate_locals_def gate_at_def children_def AList.update_conv)
  have store: "triple (gate_at tr (False, False, None)) (store_report env dir) (\<lambda>_. gate_at tr (False, False, None)) ?E"
    by (rule tripleI) (auto simp: action_simps gate_locals_def gate_at_def children_def argvs_def store_report_def onTool_def atomic_json_def Let_def)
  have ending: "triple (\<lambda>s. (\<exists>k. m2_ended env args tr k (re = None) s \<and> (oe = None \<longrightarrow> length (take k (m2_plan env args)) = 23))
      \<and> (oe \<noteq> None \<or> re \<noteq> None \<longrightarrow> failed s)) (m2_ending env dir oe re) (\<lambda>_ s. m2_outcome env args tr s True) ?E" for oe re
  proof -
    have *: "m2_outcome env args tr s' (res = Inr ())"
      if "(\<exists>k. m2_ended env args tr k (re = None) s \<and> (oe = None \<longrightarrow> length (take k (m2_plan env args)) = 23)) \<and> (oe \<noteq> None \<or> re \<noteq> None \<longrightarrow> failed s)"
        "m2_ending env dir oe re s = (s', res)" for s s' res
      using that m2_ending_outcome by blast
    show ?thesis by (rule tripleI) (drule *, assumption, simp)+
  qed
  show ?thesis unfolding command_m2_gate_def m2_ending_def [symmetric]
    by (intro triple_bindA [OF put] triple_bindA [OF set] triple_bindA [OF stages] triple_bindA [OF store]
        triple_bindA [OF triple_post [OF m2_operation_triple]] triple_bindA [OF triple_post [OF m2_restore_triple]] ending) simp_all
qed

text \<open>
  C35. The runs of the M2 gate refine its plan. However the gate ends, the processes it has launched are the first \<open>k\<close> of twenty
  program-and-reset cycles, the debugger run, the programming of the fault image and its debugger run, in that order, followed, unless
  none was launched, by the run that puts the normal image back. The report's status is \<open>ok\<close> exactly when the gate returns, and then
  all twenty-three were launched; the clean-up record says that the image was restored only after something was launched.
\<close>

theorem m2_gate_refines_plan:
  "case command_m2_gate env args dir (gate_start h r) of (s, res) \<Rightarrow>
     \<exists>k restored required.
       argvs (host s) = argvs h @ repaired (take k (m2_plan env args)) (m2_repair env args)
     \<and> (if res = Inr () then map_of (report s) ''status'' = Some (JStr ''ok'') \<and> length (take k (m2_plan env args)) = 23
        else map_of (report s) ''status'' = Some (JStr ''failed''))
     \<and> map_of (report s) ''cleanup'' = Some (JObj [(''normal_image_restored'', JBool restored), (''restoration_required'', JBool required)])
     \<and> restored \<le> (required \<and> take k (m2_plan env args) \<noteq> [])"
proof -
  obtain s res where run: "command_m2_gate env args dir (gate_start h r) = (s, res)" by fastforce
  have start: "argvs (host (gate_start h r)) = argvs h \<and> gate_locals (gate_start h r) = (False, False, None)"
    by (simp add: gate_start_def gate_locals_def)
  have "m2_outcome env args (argvs h) s (res = Inr ())"
    using triple_Inr [OF m2_gate_triple start] triple_Inl [OF m2_gate_triple start] run by (cases res) auto
  with run show ?thesis by (simp add: m2_outcome_def)
qed

end
