(* ===== verification/Ppk2_Eeprom.thy ===== *)
theory Ppk2_Eeprom
  imports Ppk2 Device
begin

section \<open>The PPK2 EEPROM audit shell\<close>

text \<open>
  Models \<open>src/tools/nrfkit_tools/ppk2_eeprom.py\<close>: the two readers of the temporary firmware's shell output, regular expressions
  included, the comparison of calibration fields with the raw image, and the shell on its serial port. Text is a
  list of code points. What pyserial enumerates, whether a port opens and is still present, and how often a waiting loop
  looks are answers of the bench, consumed in order.
\<close>

datatype eeprom_error =
    EePython py_error
  | EeDevice device_error
  | EePpk ppk2_error
  | EeMultiplePorts
  | EeNoShell
  | EeDumpLine
  | EeDumpGap
  | EeDumpSize
  | EeCalibrationField
  | EeCalibrationDuplicate
  | EeCalibrationIncomplete
  | EeImageSize
  | EeCalibrationDiffers string
  | EeUnsupportedCommand
  | EeShortCommand
  | EeInvalidText
  | EeShellTimeout
  | EeShortReset
  | EeNoDisconnect
  | EeNrfutil string
  | EeInventory
  | EeNotUnique
  | EeState string
  | EeAmbiguousInfo
  | EeNoIdentity
  | EeBootloader
  | EePackagesMissing
  | EeTemporaryPackage
  | EeDigestForm
  | EeDigestMismatch
  | EeTimeoutRange
  | EeLocked
  | EeReadsDiffer
  | EeResetFailed
  | EeIdentityDiffers
  | EeRestorationFailed eeprom_error eeprom_error

definition PPK2_EEPROM_SIZE :: nat where
  "PPK2_EEPROM_SIZE = 0x100"

definition PPK2_EEPROM_PROMPT :: bytes where
  "PPK2_EEPROM_PROMPT = ascii_encode ''uart:~$ ''"

definition calibration_group :: "string \<Rightarrow> nat \<Rightarrow> (string \<times> nat) list" where
  "calibration_group name first = map (\<lambda>i. (name @ dec i, first + i * 4)) [0..<5]"

definition CALIBRATION_OFFSETS :: "(string \<times> nat) list" where
  "CALIBRATION_OFFSETS =
     calibration_group ''r'' 0 @ calibration_group ''gs'' 20 @ calibration_group ''o'' 40 @ calibration_group ''s'' 60
     @ calibration_group ''i'' 80 @ calibration_group ''gi'' 100 @ calibration_group ''ug'' 128"

subsection \<open>Characters of regular expressions\<close>

text \<open>\<open>[0-9a-fA-F]\<close> on code points.\<close>

definition hex_point :: "nat \<Rightarrow> nat option" where
  "hex_point c =
     (if 48 \<le> c \<and> c \<le> 57 then Some (c - 48)
      else if 97 \<le> c \<and> c \<le> 102 then Some (c - 87)
      else if 65 \<le> c \<and> c \<le> 70 then Some (c - 55)
      else None)"

definition is_hex :: "nat \<Rightarrow> bool" where
  "is_hex c \<longleftrightarrow> hex_point c \<noteq> None"

definition hex_points :: "code_points \<Rightarrow> nat" where
  "hex_points = foldl (\<lambda>v c. case hex_point c of Some d \<Rightarrow> 16 * v + d | None \<Rightarrow> v) 0"

definition decimal_points :: "code_points \<Rightarrow> nat" where
  "decimal_points = foldl (\<lambda>v c. case decimal_point c of Some d \<Rightarrow> 10 * v + d | None \<Rightarrow> v) 0"

text \<open>
  \<open>re.finditer\<close> of a pattern that starts with \<open>^\<close>, in multi-line mode: \<open>match\<close> matches at the head of the remaining text and
  returns its groups and what follows the match; \<open>start\<close> says that the text is at the beginning of a line.
\<close>

function finditer :: "(code_points \<Rightarrow> ('a \<times> code_points) option) \<Rightarrow> bool \<Rightarrow> code_points \<Rightarrow> 'a list" where
  "finditer match start [] = []"
| "finditer match start (c # cs) =
     (case (if start then match (c # cs) else None) of
        None \<Rightarrow> finditer match (c = 10) cs
      | Some (v, rest) \<Rightarrow>
          if length rest \<le> length cs then v # finditer match ((c # cs) ! (length cs - length rest) = 10) rest
          else [v])"
  by pat_completeness auto
termination
  by (relation "measure (\<lambda>(_, _, s). length s)") auto

subsection \<open>The dump of the memory\<close>

text \<open>\<open>\s+\|\<close>, and \<open>(.*?)\s+\|\<close>.\<close>

definition bar_after :: "code_points \<Rightarrow> code_points option" where
  "bar_after s =
     (if takeWhile space_point s = [] then None
      else case dropWhile space_point s of c # rest \<Rightarrow> if c = 124 then Some rest else None | [] \<Rightarrow> None)"

fun lazy_bar :: "code_points \<Rightarrow> code_points \<Rightarrow> (code_points \<times> code_points) option" where
  "lazy_bar taken s =
     (case bar_after s of
        Some rest \<Rightarrow> Some (taken, rest)
      | None \<Rightarrow> (case s of [] \<Rightarrow> None | c # cs \<Rightarrow> if c = 10 then None else lazy_bar (taken @ [c]) cs))"

text \<open>\<open>\s+\<close> takes as much as it can and gives back one character at a time, as long as one is left.\<close>

fun dump_octets :: "nat \<Rightarrow> code_points \<Rightarrow> (code_points \<times> code_points) option" where
  "dump_octets 0 s = None"
| "dump_octets (Suc n) s = (case lazy_bar [] (drop (Suc n) s) of Some m \<Rightarrow> Some m | None \<Rightarrow> dump_octets n s)"

definition dump_head :: "code_points \<Rightarrow> bool" where
  "dump_head s \<longleftrightarrow> 9 \<le> length s \<and> list_all is_hex (take 8 s) \<and> s ! 8 = 58"

definition dump_line :: "code_points \<Rightarrow> ((nat \<times> code_points) \<times> code_points) option" where
  "dump_line s =
     (if \<not> dump_head s then None
      else let t = drop 9 s in
        map_option (\<lambda>(octets, rest). ((hex_points (take 8 s), octets), rest)) (dump_octets (length (takeWhile space_point t)) t))"

text \<open>The hexadecimal pairs that neither follow nor precede a hexadecimal digit.\<close>

fun hex_runs :: "code_points \<Rightarrow> code_points \<Rightarrow> code_points list" where
  "hex_runs current [] = [current]"
| "hex_runs current (c # cs) = (if is_hex c then hex_runs (current @ [c]) cs else current # hex_runs [] cs)"

definition octets_of :: "code_points \<Rightarrow> bytes" where
  "octets_of s = map (\<lambda>p. word_of_nat (hex_points p)) (filter (\<lambda>p. length p = 2) (hex_runs [] s))"

fun dump_chunks :: "(nat \<times> bytes) list \<Rightarrow> (nat \<times> code_points) list \<Rightarrow> eeprom_error + (nat \<times> bytes) list" where
  "dump_chunks chunks [] = Inr chunks"
| "dump_chunks chunks ((address, octets) # rest) =
     (if octets_of octets = [] \<or> address \<in> fst ` set chunks then Inl EeDumpLine
      else dump_chunks (chunks @ [(address, octets_of octets)]) rest)"

fun dump_join :: "nat \<Rightarrow> bytes \<Rightarrow> (nat \<times> bytes) list \<Rightarrow> eeprom_error + bytes" where
  "dump_join expected data [] = Inr data"
| "dump_join expected data ((address, chunk) # rest) =
     (if address \<noteq> expected + length data then Inl EeDumpGap else dump_join expected (data @ chunk) rest)"

definition parse_eeprom_dump :: "code_points \<Rightarrow> nat \<Rightarrow> nat \<Rightarrow> eeprom_error + bytes" where
  "parse_eeprom_dump s expected_offset expected_size =
     bindR (dump_chunks [] (finditer dump_line True s)) (\<lambda>chunks.
     bindR (dump_join expected_offset [] (sort_key fst chunks)) (\<lambda>data.
       if length data \<noteq> expected_size then Inl EeDumpSize else Inr data))"

subsection \<open>The calibration fields\<close>

record calibration_entry =
  ce_offset :: nat
  ce_bytes :: string
  ce_value :: "pyfloat option"
  ce_classification :: string

text \<open>\<open>\s*$\<close>: to the end of the text, or to the last end of a line among the spaces.\<close>

definition line_end :: "code_points \<Rightarrow> code_points option" where
  "line_end s =
     (let spaces = takeWhile space_point s; tail = takeWhile (\<lambda>c. c \<noteq> 10) (rev spaces) in
      if length spaces = length s then Some []
      else if length tail = length spaces then None
      else Some (drop (length spaces - 1 - length tail) s))"

text \<open>\<open>(hh)\s+\<close> three times, \<open>(hh)\s*$\<close> last.\<close>

definition octet_at :: "code_points \<Rightarrow> (nat \<times> code_points) option" where
  "octet_at s =
     (case s of a # b # rest \<Rightarrow> if is_hex a \<and> is_hex b then Some (hex_points [a, b], rest) else None | _ \<Rightarrow> None)"

fun octets_to_end :: "nat \<Rightarrow> code_points \<Rightarrow> (nat list \<times> code_points) option" where
  "octets_to_end 0 s = map_option (\<lambda>rest. ([], rest)) (line_end s)"
| "octets_to_end (Suc n) s =
     (case octet_at s of
        None \<Rightarrow> None
      | Some (v, rest) \<Rightarrow>
          if n = 0 then map_option (\<lambda>tail. ([v], tail)) (line_end rest)
          else if takeWhile space_point rest = [] then None
          else map_option (\<lambda>(vs, tail). (v # vs, tail)) (octets_to_end n (dropWhile space_point rest)))"

fun lazy_octets :: "code_points \<Rightarrow> (nat list \<times> code_points) option" where
  "lazy_octets [] = None"
| "lazy_octets (c # cs) =
     (case (if c = 44 then octets_to_end 4 (dropWhile space_point cs) else None) of
        Some m \<Rightarrow> Some m
      | None \<Rightarrow> if c = 10 then None else lazy_octets cs)"

definition lower_point :: "nat \<Rightarrow> bool" where
  "lower_point c \<longleftrightarrow> 97 \<le> c \<and> c \<le> 122"

text \<open>\<open>\s+\(\s*(\d+)\):\<close> and what follows it.\<close>

definition offset_field :: "code_points \<Rightarrow> (nat \<times> code_points) option" where
  "offset_field s =
     (if takeWhile space_point s = [] then None
      else case dropWhile space_point s of
        [] \<Rightarrow> None
      | c # rest \<Rightarrow>
          let t = dropWhile space_point rest; digits = takeWhile (\<lambda>d. decimal_point d \<noteq> None) t; after = drop (length digits) t in
          if c = 40 \<and> digits \<noteq> [] \<and> take 2 after = [41, 58] then Some (decimal_points digits, drop 2 after) else None)"

definition calibration_line :: "code_points \<Rightarrow> ((string \<times> nat \<times> nat list) \<times> code_points) option" where
  "calibration_line s =
     (let t = dropWhile space_point s; letters = takeWhile lower_point t in
      case drop (length letters) t of
        [] \<Rightarrow> None
      | d # rest \<Rightarrow>
          if letters = [] \<or> d < 48 \<or> 52 < d then None
          else case offset_field rest of
            None \<Rightarrow> None
          | Some (offset, after) \<Rightarrow>
              map_option (\<lambda>(octets, tail). ((map char_of (letters @ [d]), offset, octets), tail)) (lazy_octets after))"

text \<open>\<open>struct.unpack("<f", raw)\<close>: binary32, exact as a binary64 value.\<close>

definition unpack_float :: "bytes \<Rightarrow> pyfloat" where
  "unpack_float raw =
     (let v = from_le raw; below = (2 ^ 31 \<le> v); e = v div 2 ^ 23 mod 256; m = v mod 2 ^ 23;
          magnitude = (if e = 0 then of_nat m * pow2 (- 149) else of_nat (2 ^ 23 + m) * pow2 (int e - 150)) in
      if e = 255 then (if m = 0 then Infinite below else NaN)
      else if e = 0 \<and> m = 0 then signed_zero below
      else Fin (if below then - magnitude else magnitude))"

definition calibration_of :: "nat \<Rightarrow> bytes \<Rightarrow> calibration_entry" where
  "calibration_of offset raw =
     (let v = unpack_float raw in
      \<lparr>ce_offset = offset, ce_bytes = bytes_hex raw, ce_value = (if isfinite v then Some v else None),
       ce_classification = (case v of NaN \<Rightarrow> ''nan'' | Infinite below \<Rightarrow> if below then ''-inf'' else ''+inf'' | _ \<Rightarrow> ''finite'')\<rparr>)"

fun calibration_fields ::
  "(string \<times> calibration_entry) list \<Rightarrow> (string \<times> nat \<times> nat list) list \<Rightarrow> eeprom_error + (string \<times> calibration_entry) list" where
  "calibration_fields parsed [] = Inr parsed"
| "calibration_fields parsed ((name, offset, octets) # rest) =
     (if map_of CALIBRATION_OFFSETS name \<noteq> Some offset then Inl EeCalibrationField
      else if map_of parsed name \<noteq> None then Inl EeCalibrationDuplicate
      else calibration_fields (parsed @ [(name, calibration_of offset (map word_of_nat octets))]) rest)"

definition parse_calibration_read :: "code_points \<Rightarrow> eeprom_error + (string \<times> calibration_entry) list" where
  "parse_calibration_read s =
     bindR (calibration_fields [] (finditer calibration_line True s)) (\<lambda>parsed.
       if fst ` set parsed \<noteq> fst ` set CALIBRATION_OFFSETS then Inl EeCalibrationIncomplete else Inr parsed)"

definition verify_calibration_bytes :: "(string \<times> calibration_entry) list \<Rightarrow> bytes \<Rightarrow> eeprom_error + unit" where
  "verify_calibration_bytes calibration eeprom =
     (if length eeprom \<noteq> PPK2_EEPROM_SIZE then Inl EeImageSize
      else forR (\<lambda>(name, offset).
        case map_of calibration name of
          None \<Rightarrow> Inl (EePython KeyError)
        | Some field \<Rightarrow>
            if ce_bytes field \<noteq> bytes_hex (py_slice eeprom offset (offset + 4)) then Inl (EeCalibrationDiffers name) else Inr ())
        CALIBRATION_OFFSETS)"

subsection \<open>The bench\<close>

record bench =
  bn_instrument :: port
  bn_shell :: port
  bn_comports :: "serial_info list list"
  bn_opens :: "bool list"
  bn_present :: "bool list"
  bn_polls :: "nat list"
  bn_ticks :: "rat list list"

type_synonym ('z, 'a) bench_step = "('z bench_scheme host, eeprom_error, 'a) action"

text \<open>An action on one of the ports; the next answer of a kind, or what holds when none is left.\<close>

definition zoom ::
  "('z bench_scheme \<Rightarrow> port) \<Rightarrow> (port \<Rightarrow> 'z bench_scheme \<Rightarrow> 'z bench_scheme) \<Rightarrow> (port host, 'e, 'a) action \<Rightarrow> ('z bench_scheme host, 'e, 'a) action" where
  "zoom get put m w =
     (case m \<lparr>files = files w, sealed = sealed w, launches = launches w, outside = get (outside w)\<rparr> of (w', r) \<Rightarrow>
        (\<lparr>files = files w', sealed = sealed w', launches = launches w', outside = put (outside w') (outside w)\<rparr>, r))"

definition onShell :: "(port host, 'e, 'a) action \<Rightarrow> ('z bench_scheme host, 'e, 'a) action" where
  "onShell = zoom bn_shell (\<lambda>p b. b\<lparr>bn_shell := p\<rparr>)"

definition onInstrumentPort :: "(port host, 'e, 'a) action \<Rightarrow> ('z bench_scheme host, 'e, 'a) action" where
  "onInstrumentPort = zoom bn_instrument (\<lambda>p b. b\<lparr>bn_instrument := p\<rparr>)"

definition answer :: "('z bench_scheme \<Rightarrow> 'x list) \<Rightarrow> ('x list \<Rightarrow> 'z bench_scheme \<Rightarrow> 'z bench_scheme) \<Rightarrow> 'x \<Rightarrow> ('z bench_scheme host, 'e, 'x) action" where
  "answer get put otherwise w =
     (case get (outside w) of
        [] \<Rightarrow> (w, Inr otherwise)
      | x # rest \<Rightarrow> (w\<lparr>outside := put rest (outside w)\<rparr>, Inr x))"

definition comports :: "('z, serial_info list) bench_step" where
  "comports = answer bn_comports (\<lambda>xs b. b\<lparr>bn_comports := xs\<rparr>) []"

text \<open>\<open>serial.Serial(...)\<close> of a fresh port: nothing sent, open.\<close>

definition open_port :: "((port host, eeprom_error, unit) action \<Rightarrow> ('z, unit) bench_step) \<Rightarrow> ('z, unit) bench_step" where
  "open_port focus =
     bindA (answer bn_opens (\<lambda>xs b. b\<lparr>bn_opens := xs\<rparr>) True) (\<lambda>opened.
     bindA (requireA opened (EePython OSError)) (\<lambda>_.
       focus (onPort (\<lambda>p. (p\<lparr>pt_sent := [], pt_closed := False\<rparr>, Inr ())))))"

definition eeprom_shell_ports :: "('z, path set) bench_step" where
  "eeprom_shell_ports =
     bindA comports (\<lambda>ports. pureA (si_device ` set (filter (\<lambda>p. (si_vid p, si_pid p) = (Some 0x2FE3, Some 0x0001)) ports)))"

text \<open>\<open>next(iter(matches), None)\<close> of a set of at most one path.\<close>

definition find_new_eeprom_shell_port :: "path set \<Rightarrow> ('z, path option) bench_step" where
  "find_new_eeprom_shell_port existing =
     bindA comports (\<lambda>ports.
       case filter (\<lambda>d. d \<notin> existing)
              (remdups (map si_device (filter (\<lambda>p. (si_vid p, si_pid p) = (Some 0x2FE3, Some 0x0001)) ports))) of
         [] \<Rightarrow> pureA None
       | [d] \<Rightarrow> pureA (Some d)
       | _ \<Rightarrow> raiseA EeMultiplePorts)"

fun poll_shell_port :: "path set \<Rightarrow> nat \<Rightarrow> ('z, path) bench_step" where
  "poll_shell_port existing 0 = raiseA EeNoShell"
| "poll_shell_port existing (Suc n) =
     bindA (find_new_eeprom_shell_port existing) (\<lambda>found.
       case found of Some p \<Rightarrow> pureA p | None \<Rightarrow> poll_shell_port existing n)"

definition wait_new_eeprom_shell_port :: "path set \<Rightarrow> ('z, path) bench_step" where
  "wait_new_eeprom_shell_port existing =
     bindA (answer bn_polls (\<lambda>xs b. b\<lparr>bn_polls := xs\<rparr>) 0) (poll_shell_port existing)"

subsection \<open>The shell\<close>

definition raw_read :: "nat \<Rightarrow> bytes" where
  "raw_read offset = ascii_encode (''eeprom read eeprom@50 '' @ dec offset @ '' 16'' @ [CR, LF])"

definition supported :: "bytes \<Rightarrow> bool" where
  "supported command \<longleftrightarrow> command \<in> set ([0x0D, 0x0A] # ascii_encode (''cal_read'' @ [CR, LF]) # map (\<lambda>i. raw_read (16 * i)) [0..<16])"

fun query_loop :: "bytes \<Rightarrow> look list \<Rightarrow> look list \<times> (eeprom_error + code_points)" where
  "query_loop data [] = ([], Inl EeShellTimeout)"
| "query_loop data (look # rest) =
     (if 65536 \<le> length data then (look # rest, Inl EeShellTimeout)
      else case look of
        Arrived chunk \<Rightarrow>
          if sublist PPK2_EEPROM_PROMPT (data @ chunk)
          then (rest, case utf8_decode (data @ chunk) of None \<Rightarrow> Inl EeInvalidText | Some s \<Rightarrow> Inr s)
          else query_loop (data @ chunk) rest
      | Elapsed \<Rightarrow> (rest, Inl EeShellTimeout)
      | Broken \<Rightarrow> (rest, Inl (EePython OSError)))"

definition shell_query :: "bytes \<Rightarrow> (port host, eeprom_error, code_points) action" where
  "shell_query command =
     bindA (requireA (supported command) EeUnsupportedCommand) (\<lambda>_.
     bindA (serial_command EePython EeShortCommand command) (\<lambda>_. onLooks (query_loop [])))"

definition open_shell :: "('z, unit) bench_step" where
  "open_shell =
     bindA (open_port onShell) (\<lambda>_. bindA (onShell (shell_query [0x0D, 0x0A])) (\<lambda>_. pureA ()))"

definition calibration_read :: "(port host, eeprom_error, code_points \<times> (string \<times> calibration_entry) list) action" where
  "calibration_read =
     bindA (shell_query (ascii_encode (''cal_read'' @ [CR, LF]))) (\<lambda>s.
     bindA (liftA (parse_calibration_read s)) (\<lambda>c. pureA (s, c)))"

definition eeprom_read_at :: "nat \<Rightarrow> (port host, eeprom_error, code_points \<times> bytes) action" where
  "eeprom_read_at offset =
     bindA (shell_query (raw_read offset)) (\<lambda>s.
     bindA (liftA (parse_eeprom_dump s offset 16)) (\<lambda>data. pureA (s, data)))"

fun join_points :: "code_points list \<Rightarrow> code_points" where
  "join_points [] = []"
| "join_points [s] = s"
| "join_points (s # ss) = s @ 10 # join_points ss"

definition eeprom_read :: "(port host, eeprom_error, code_points \<times> bytes) action" where
  "eeprom_read =
     bindA (mapA eeprom_read_at (map (\<lambda>i. 16 * i) [0..<16])) (\<lambda>reads.
       pureA (join_points (map fst reads), concat (map snd reads)))"

text \<open>The port fails or disappears once the firmware has taken the command.\<close>

fun reset_loop :: "look list \<Rightarrow> bool list \<Rightarrow> look list \<times> bool list \<times> (eeprom_error + unit)" where
  "reset_loop [] present = ([], present, Inl EeNoDisconnect)"
| "reset_loop (Elapsed # rest) present = (rest, present, Inl EeNoDisconnect)"
| "reset_loop (Broken # rest) present = (rest, present, Inr ())"
| "reset_loop (Arrived chunk # rest) present =
     (case present of
        [] \<Rightarrow> reset_loop rest []
      | True # later \<Rightarrow> reset_loop rest later
      | False # later \<Rightarrow> (rest, later, Inr ()))"

definition reset_to_bootloader :: "('z, unit) bench_step" where
  "reset_to_bootloader =
     bindA (onShell (serial_command EePython EeShortReset (ascii_encode (''reset_bl'' @ [CR, LF])))) (\<lambda>_.
       (\<lambda>w. case reset_loop (pt_looks (bn_shell (outside w))) (bn_present (outside w)) of (looks, present, r) \<Rightarrow>
          (w\<lparr>outside := (outside w)\<lparr>bn_shell := (bn_shell (outside w))\<lparr>pt_looks := looks\<rparr>, bn_present := present\<rparr>\<rparr>, r)))"

definition close_shell :: "('z, unit) bench_step" where
  "close_shell = onShell serial_close"

end
