(* ===== verification/Ppk2_Eeprom_Cli.thy ===== *)
theory Ppk2_Eeprom_Cli
  imports Ppk2_Eeprom Run_Report
begin

section \<open>The PPK2 EEPROM audit command\<close>

text \<open>
  Models \<open>src/tools/nrfkit_tools/ppk2_eeprom_cli.py\<close>: the temporary firmware is programmed over Nordic DFU, the EEPROM is read twice and
  compared with the calibration fields, and the official firmware is put back, and its identity checked, however the audit went. nrfutil is
  the child process. The local variables the clean-up reads are part of the state; a list of the time left at each look of a waiting loop
  is an answer of the bench, one list per wait. Numbers in the report are shown by their value.
\<close>

record 'h audit_state = "'h cmd_state" +
  as_required :: bool
  as_serial :: string
  as_initial :: string
  as_shell :: bool
  as_existing :: "path set"

type_synonym ('z, 'a) audit_step = "('z bench_scheme audit_state, eeprom_error, 'a) action"

record 'h audit_env =
  ae_child :: "'h child"
  ae_digest :: "bytes \<Rightarrow> string"
  ae_loads :: "string \<Rightarrow> json option"
  ae_dumps :: "json \<Rightarrow> string"
  ae_temporary :: "path \<Rightarrow> path"
  ae_locked :: "string \<Rightarrow> bool"
  ae_describe :: "eeprom_error \<Rightarrow> string"

record audit_args =
  ag_ppk_serial :: "string option"
  ag_temporary_package :: path
  ag_restore_package :: path
  ag_restore_sha256 :: string
  ag_nrfutil :: string
  ag_timeout :: pyfloat

definition audit_start :: "'h host \<Rightarrow> (string \<times> json) list \<Rightarrow> 'h audit_state" where
  "audit_start h r = \<lparr>host = h, report = r, as_required = False, as_serial = [], as_initial = [], as_shell = False, as_existing = {}\<rparr>"

definition onBench :: "('h host, eeprom_error, 'a) action \<Rightarrow> ('h audit_state, eeprom_error, 'a) action" where
  "onBench = onHost id"

definition pure_audit :: "py_error + 'a \<Rightarrow> ('s, eeprom_error, 'a) action" where
  "pure_audit r = liftA (mapE EePython r)"

definition seconds :: "audit_args \<Rightarrow> rat" where
  "seconds args = num (ag_timeout args)"

subsection \<open>nrfutil\<close>

definition run_nrfutil :: "'h audit_env \<Rightarrow> string list \<Rightarrow> path \<Rightarrow> rat \<Rightarrow> string \<Rightarrow> ('h audit_state, eeprom_error, string) action" where
  "run_nrfutil env argv log_path timeout operation =
     bindA (onBench (run_logged (ae_child env) EePython argv log_path timeout)) (\<lambda>result.
     bindA (requireA (returncode result = 0) (EeNrfutil operation)) (\<lambda>_. pureA (stdout result)))"

definition list_argv :: "string \<Rightarrow> rat \<Rightarrow> string list" where
  "list_argv nrfutil timeout =
     nrfutil_prefix nrfutil @ [''device'', ''list'', ''--traits'', ''nordicDfu,nordicUsb,serialPorts'', ''--timeout-ms'',
       dec_int (max 100 (round_half_even (num (dbl (timeout * 1000)))))]"

definition nrfutil_devices :: "'h audit_env \<Rightarrow> string \<Rightarrow> path \<Rightarrow> rat \<Rightarrow> ('h audit_state, eeprom_error, json list) action" where
  "nrfutil_devices env nrfutil log_path timeout =
     bindA (run_nrfutil env (list_argv nrfutil timeout) log_path (num (dbl (timeout + 5))) ''device list'') (\<lambda>out.
     bindA (liftA (mapE EeDevice (parse_json_lines (ae_loads env) out ''devices''))) (\<lambda>devices.
       case devices of JList ds \<Rightarrow> pureA ds | _ \<Rightarrow> raiseA EeInventory))"

definition dfu_device :: "string \<Rightarrow> json \<Rightarrow> py_error + bool" where
  "dfu_device serial device =
     bindR (jget device ''serialNumber'' JNull) (\<lambda>n.
       if \<not> py_eq n (JStr serial) then Inr False
       else bindR (jget device ''traits'' (JObj [])) (\<lambda>traits.
            bindR (jget traits ''nordicDfu'' JNull) (\<lambda>v. Inr (v = JBool True))))"

definition selected_nrfutil_device :: "'h audit_env \<Rightarrow> string \<Rightarrow> string \<Rightarrow> path \<Rightarrow> rat \<Rightarrow> ('h audit_state, eeprom_error, json) action" where
  "selected_nrfutil_device env nrfutil serial log_path timeout =
     bindA (nrfutil_devices env nrfutil log_path timeout) (\<lambda>devices.
     bindA (pure_audit (filterR (dfu_device serial) devices)) (\<lambda>matches.
       case matches of [device] \<Rightarrow> pureA device | _ \<Rightarrow> raiseA EeNotUnique))"

text \<open>\<open>except (Ppk2Error, OSError)\<close>.\<close>

fun audit_retried :: "eeprom_error \<Rightarrow> bool" where
  "audit_retried (EePython e) = (e = OSError)"
| "audit_retried (EeDevice _) = False"
| "audit_retried _ = True"

definition mcu_state :: "json \<Rightarrow> string \<Rightarrow> ('s, eeprom_error, bool) action" where
  "mcu_state device state = pure_audit (bindR (jget device ''currentMcuState'' JNull) (\<lambda>v. Inr (py_eq v (JStr state))))"

fun wait_nrfutil_state ::
  "'h audit_env \<Rightarrow> string \<Rightarrow> string \<Rightarrow> string \<Rightarrow> path \<Rightarrow> nat \<Rightarrow> rat list \<Rightarrow> ('h audit_state, eeprom_error, json) action" where
  "wait_nrfutil_state env nrfutil serial state dir attempt [] = raiseA (EeState state)"
| "wait_nrfutil_state env nrfutil serial state dir attempt (left # later) =
     bindA (attemptA
       (bindA (selected_nrfutil_device env nrfutil serial
                 (path_join dir (''wait-'' @ lower state @ ''-'' @ zero_fill 2 (dec attempt) @ ''.log'')) (min 2 (max (num (dbl (1 / 10))) left))) (\<lambda>device.
        bindA (mcu_state device state) (\<lambda>ok. pureA (device, ok))))) (\<lambda>r.
       case r of
         Inr (device, True) \<Rightarrow> pureA device
       | Inr (device, False) \<Rightarrow> wait_nrfutil_state env nrfutil serial state dir (Suc attempt) later
       | Inl e \<Rightarrow> if audit_retried e then wait_nrfutil_state env nrfutil serial state dir (Suc attempt) later else raiseA e)"

definition await_state :: "'z bench_scheme audit_env \<Rightarrow> audit_args \<Rightarrow> string \<Rightarrow> string \<Rightarrow> path \<Rightarrow> ('z, json) audit_step" where
  "await_state env args serial state dir =
     bindA (onBench (answer bn_ticks (\<lambda>xs b. b\<lparr>bn_ticks := xs\<rparr>) [])) (wait_nrfutil_state env (ag_nrfutil args) serial state dir 1)"

definition info_argv :: "string \<Rightarrow> string \<Rightarrow> string list" where
  "info_argv nrfutil serial =
     nrfutil_prefix nrfutil @ [''device'', ''device-info'', ''--serial-number'', serial, ''--traits'', ''nordicDfu,nordicUsb'']"

definition identity_in :: "(string \<Rightarrow> json option) \<Rightarrow> string \<Rightarrow> eeprom_error + string" where
  "identity_in loads out =
     bindR (mapE EeDevice (parse_json_lines loads out ''devices'')) (\<lambda>devices.
       case devices of
         JList [device] \<Rightarrow>
           bindR (mapE EePython
             (bindR (jget device ''deviceInfo'' (JObj [])) (\<lambda>info.
              bindR (jget info ''dfuTriggerVersion'' (JObj [])) (\<lambda>version. jget version ''semVer'' JNull)))) (\<lambda>v.
             case v of JStr s \<Rightarrow> if py_strip s = [] then Inl EeNoIdentity else Inr s | _ \<Rightarrow> Inl EeNoIdentity)
       | _ \<Rightarrow> Inl EeAmbiguousInfo)"

definition firmware_identity :: "'h audit_env \<Rightarrow> audit_args \<Rightarrow> string \<Rightarrow> path \<Rightarrow> ('h audit_state, eeprom_error, string) action" where
  "firmware_identity env args serial log_path =
     bindA (run_nrfutil env (info_argv (ag_nrfutil args) serial) log_path (seconds args) ''device-info'') (\<lambda>out.
       liftA (identity_in (ae_loads env) out))"

definition switch_argv :: "string \<Rightarrow> string \<Rightarrow> string list" where
  "switch_argv nrfutil serial =
     nrfutil_prefix nrfutil @ [''device'', ''mcu-state-set'', ''Programming'', ''--serial-number'', serial, ''--traits'', ''nordicDfu'']"

definition switch_to_bootloader :: "'z bench_scheme audit_env \<Rightarrow> audit_args \<Rightarrow> string \<Rightarrow> path \<Rightarrow> ('z, unit) audit_step" where
  "switch_to_bootloader env args serial dir =
     bindA (onBench (run_logged (ae_child env) EePython (switch_argv (ag_nrfutil args) serial) (path_join dir ''enter-bootloader.log'') (seconds args))) (\<lambda>result.
     bindA (attemptA (await_state env args serial ''Programming'' dir)) (\<lambda>r.
       case r of
         Inr _ \<Rightarrow> pureA ()
       | Inl e \<Rightarrow> if returncode result \<noteq> 0 then raiseA EeBootloader else raiseA e))"

definition dfu_argv :: "string \<Rightarrow> string \<Rightarrow> path \<Rightarrow> string list" where
  "dfu_argv nrfutil serial package =
     nrfutil_prefix nrfutil @ [''device'', ''program'', ''--firmware'', package, ''--serial-number'', serial, ''--traits'', ''nordicDfu'',
       ''--options'', ''mcu_end_state=NRFDL_MCU_STATE_APPLICATION'']"

definition program_dfu :: "'h audit_env \<Rightarrow> audit_args \<Rightarrow> string \<Rightarrow> path \<Rightarrow> path \<Rightarrow> ('h audit_state, eeprom_error, unit) action" where
  "program_dfu env args serial package log_path =
     bindA (run_nrfutil env (dfu_argv (ag_nrfutil args) serial package) log_path (seconds args) ''secure DFU program'') (\<lambda>_. pureA ())"

subsection \<open>Inputs and stages\<close>

definition PPK2_EEPROM_PACKAGE_SHA256 :: string where
  "PPK2_EEPROM_PACKAGE_SHA256 = ''1eafcc943caa9859529ac5cb7c6588cf70e1caf79131116bf8cccf3820181eef''"

definition audit_sha256 :: "'h audit_env \<Rightarrow> path \<Rightarrow> ('h audit_state, eeprom_error, string) action" where
  "audit_sha256 env p = bindA (onBench (read_file (EePython OSError) p)) (\<lambda>content. pureA (ae_digest env content))"

definition lowercase_digest :: "string \<Rightarrow> bool" where
  "lowercase_digest s \<longleftrightarrow> length s = 64 \<and> list_all (\<lambda>c. c \<in> set ''0123456789abcdef'') s"

definition validate_inputs :: "'h audit_env \<Rightarrow> audit_args \<Rightarrow> ('h audit_state, eeprom_error, unit) action" where
  "validate_inputs env args =
     bindA (readA (\<lambda>s. files (host s) (ag_temporary_package args) \<noteq> None \<and> files (host s) (ag_restore_package args) \<noteq> None)) (\<lambda>present.
     bindA (requireA present EePackagesMissing) (\<lambda>_.
     bindA (audit_sha256 env (ag_temporary_package args)) (\<lambda>h.
     bindA (requireA (h = PPK2_EEPROM_PACKAGE_SHA256) EeTemporaryPackage) (\<lambda>_.
     bindA (requireA (lowercase_digest (ag_restore_sha256 args)) EeDigestForm) (\<lambda>_.
     bindA (audit_sha256 env (ag_restore_package args)) (\<lambda>h'.
     bindA (requireA (h' = ag_restore_sha256 args) EeDigestMismatch) (\<lambda>_.
       requireA (isfinite (ag_timeout args) \<and> fle (Fin 10) (ag_timeout args) \<and> fle (ag_timeout args) (Fin 300)) EeTimeoutRange)))))))"

definition audit_store :: "'h audit_env \<Rightarrow> path \<Rightarrow> ('h audit_state, eeprom_error, unit) action" where
  "audit_store env dir s =
     onBench (atomic_json (ae_temporary env (path_join dir ''run.json'')) (path_join dir ''run.json'') (ae_dumps env (JObj (report s)))) s"

definition audit_stage :: "'h audit_env \<Rightarrow> path \<Rightarrow> string \<Rightarrow> (string \<times> json) list \<Rightarrow> ('h audit_state, eeprom_error, unit) action" where
  "audit_stage env dir name values =
     bindA (readA (\<lambda>s. map_of (report s) ''stages'')) (\<lambda>stages.
     bindA (case stages of
              None \<Rightarrow> raiseA (EePython KeyError)
            | Some (JList xs) \<Rightarrow> put_report ''stages'' (JList (xs @ [JObj ((''name'', JStr name) # values)]))
            | Some _ \<Rightarrow> raiseA (EePython AttributeError)) (\<lambda>_.
       audit_store env dir))"

fun meta_json :: "meta \<Rightarrow> json" where
  "meta_json (MetaNum x) = JReal (num x)"
| "meta_json (MetaText s) = JStr s"
| "meta_json MetaNone = JNull"

definition calibration_json :: "(string \<times> calibration_entry) list \<Rightarrow> json" where
  "calibration_json cs = JObj (map (\<lambda>(name, c). (name, JObj
     [(''offset'', JInt (int (ce_offset c))), (''bytes'', JStr (ce_bytes c)),
      (''value'', case ce_value c of None \<Rightarrow> JNull | Some x \<Rightarrow> JReal (num x)), (''classification'', JStr (ce_classification c))])) cs)"

text \<open>\<open>write_text(..., encoding="utf-8")\<close> of decoded text.\<close>

definition encode_point :: "nat \<Rightarrow> bytes" where
  "encode_point c =
     map word_of_nat
       (if c < 0x80 then [c]
        else if c < 0x800 then [0xC0 + c div 64, 0x80 + c mod 64]
        else if c < 0x10000 then [0xE0 + c div 4096, 0x80 + c div 64 mod 64, 0x80 + c mod 64]
        else [0xF0 + c div 262144, 0x80 + c div 4096 mod 64, 0x80 + c div 64 mod 64, 0x80 + c mod 64])"

definition write_points :: "path \<Rightarrow> code_points \<Rightarrow> ('h audit_state, eeprom_error, unit) action" where
  "write_points p s = onBench (write_file p (concat (map encode_point s)))"

subsection \<open>The audit\<close>

definition audit_select :: "'z bench_scheme audit_env \<Rightarrow> audit_args \<Rightarrow> path \<Rightarrow> ('z, serial_device) audit_step" where
  "audit_select env args dir =
     bindA (onBench comports) (\<lambda>ports.
     bindA (liftA (mapE EePpk (ppk2_select ports (ag_ppk_serial args)))) (\<lambda>device.
     let serial = (case sd_serial device of None \<Rightarrow> [] | Some x \<Rightarrow> x) in
     bindA (updateA (\<lambda>s. s\<lparr>as_serial := serial\<rparr>)) (\<lambda>_.
     bindA (requireA (\<not> ae_locked env (''ppk2:'' @ serial)) EeLocked) (\<lambda>_.
     bindA (firmware_identity env args serial (path_join dir ''firmware-before.log'')) (\<lambda>initial.
     bindA (updateA (\<lambda>s. s\<lparr>as_initial := initial\<rparr>)) (\<lambda>_.
     bindA (put_report ''restore_firmware'' (JObj [(''package_sha256'', JStr (ag_restore_sha256 args)), (''expected_identity'', JStr initial)])) (\<lambda>_.
     bindA (audit_stage env dir ''official-firmware-verified-before'' [(''firmware'', JStr initial)]) (\<lambda>_.
       pureA device))))))))"

definition exclusive_access :: "'z bench_scheme audit_env \<Rightarrow> path \<Rightarrow> ('z, unit) audit_step" where
  "exclusive_access env dir =
     bindA (onBench (open_port onInstrumentPort)) (\<lambda>_.
     bindA (finallyA
       (bindA (onBench (retype EePpk (onInstrumentPort ppk2_metadata))) (\<lambda>m.
         put_report ''metadata_before'' (JObj (map (\<lambda>(k, v). (k, meta_json v)) m))))
       (onBench (onInstrumentPort serial_close))) (\<lambda>_.
     audit_stage env dir ''exclusive-instrument-access'' []))"

definition load_temporary :: "'z bench_scheme audit_env \<Rightarrow> audit_args \<Rightarrow> path \<Rightarrow> string \<Rightarrow> ('z, unit) audit_step" where
  "load_temporary env args dir serial =
     bindA (onBench eeprom_shell_ports) (\<lambda>existing.
     bindA (updateA (\<lambda>s. s\<lparr>as_existing := existing\<rparr>)) (\<lambda>_.
     bindA (updateA (\<lambda>s. s\<lparr>as_required := True\<rparr>)) (\<lambda>_.
     bindA (switch_to_bootloader env args serial dir) (\<lambda>_.
     bindA (audit_stage env dir ''bootloader-entered'' []) (\<lambda>_.
     bindA (program_dfu env args serial (ag_temporary_package args) (path_join dir ''program-temporary.log'')) (\<lambda>_.
     bindA (onBench (wait_new_eeprom_shell_port existing)) (\<lambda>_.
     bindA (onBench open_shell) (\<lambda>_.
     bindA (updateA (\<lambda>s. s\<lparr>as_shell := True\<rparr>)) (\<lambda>_.
       audit_stage env dir ''temporary-shell-ready'' [])))))))))"

definition check_reads ::
  "'z bench_scheme audit_env \<Rightarrow> path \<Rightarrow> (string \<times> calibration_entry) list \<Rightarrow> code_points \<Rightarrow> bytes \<Rightarrow> code_points \<Rightarrow> bytes \<Rightarrow> ('z, unit) audit_step" where
  "check_reads env dir calibration raw_text_1 eeprom_1 raw_text_2 eeprom_2 =
     bindA (write_points (path_join dir ''eeprom-read-1.txt'') raw_text_1) (\<lambda>_.
     bindA (write_points (path_join dir ''eeprom-read-2.txt'') raw_text_2) (\<lambda>_.
     bindA (onBench (write_file (path_join dir ''eeprom-1.bin'') eeprom_1)) (\<lambda>_.
     bindA (onBench (write_file (path_join dir ''eeprom-2.bin'') eeprom_2)) (\<lambda>_.
     bindA (requireA (eeprom_1 = eeprom_2) EeReadsDiffer) (\<lambda>_.
     bindA (liftA (verify_calibration_bytes calibration eeprom_1)) (\<lambda>_.
     bindA (audit_sha256 env (path_join dir ''eeprom-1.bin'')) (\<lambda>h.
     bindA (put_report ''eeprom'' (JObj [(''size'', JInt (int (length eeprom_1))), (''read_count'', JInt 2), (''reads_identical'', JBool True),
              (''sha256'', JStr h), (''calibration'', calibration_json calibration)])) (\<lambda>_.
       audit_stage env dir ''eeprom-read-and-cross-check'' [(''sha256'', JStr h)]))))))))"

definition read_eeprom :: "'z bench_scheme audit_env \<Rightarrow> path \<Rightarrow> ('z, unit) audit_step" where
  "read_eeprom env dir =
     bindA (onBench (onShell calibration_read)) (\<lambda>(calibration_text, calibration).
     bindA (write_points (path_join dir ''calibration-read.txt'') calibration_text) (\<lambda>_.
     bindA (onBench (onShell eeprom_read)) (\<lambda>(raw_text_1, eeprom_1).
     bindA (onBench (onShell eeprom_read)) (\<lambda>(raw_text_2, eeprom_2).
       check_reads env dir calibration raw_text_1 eeprom_1 raw_text_2 eeprom_2))))"

definition audit_operation :: "'z bench_scheme audit_env \<Rightarrow> audit_args \<Rightarrow> path \<Rightarrow> ('z, unit) audit_step" where
  "audit_operation env args dir =
     bindA (audit_select env args dir) (\<lambda>device.
     bindA (exclusive_access env dir) (\<lambda>_.
     bindA (readA as_serial) (\<lambda>serial.
     bindA (load_temporary env args dir serial) (\<lambda>_.
       read_eeprom env dir))))"

subsection \<open>The restoration\<close>

definition look_at_state :: "'z bench_scheme audit_env \<Rightarrow> audit_args \<Rightarrow> path \<Rightarrow> string \<Rightarrow> ('z, json option) audit_step" where
  "look_at_state env args dir serial =
     bindA (attemptA (selected_nrfutil_device env (ag_nrfutil args) serial (path_join dir ''restore-state.log'') 2)) (\<lambda>r.
       case r of
         Inr device \<Rightarrow> pureA (Some device)
       | Inl e \<Rightarrow> if audit_retried e then pureA None else raiseA e)"

definition reopen_shell :: "('z, unit) audit_step" where
  "reopen_shell =
     bindA (readA as_existing) (\<lambda>existing.
     bindA (onBench (find_new_eeprom_shell_port existing)) (\<lambda>found.
     bindA (case found of Some p \<Rightarrow> pureA p | None \<Rightarrow> onBench (wait_new_eeprom_shell_port existing)) (\<lambda>_.
     bindA (onBench open_shell) (\<lambda>_.
       updateA (\<lambda>s. s\<lparr>as_shell := True\<rparr>)))))"

text \<open>What is found before anything is put back; the result says that nothing has to be.\<close>

definition restore_entry :: "'z bench_scheme audit_env \<Rightarrow> audit_args \<Rightarrow> path \<Rightarrow> string \<Rightarrow> string \<Rightarrow> ('z, bool) audit_step" where
  "restore_entry env args dir serial initial =
     bindA (look_at_state env args dir serial) (\<lambda>current.
       case current of
         None \<Rightarrow> bindA (readA as_shell) (\<lambda>held. bindA (if held then pureA () else reopen_shell) (\<lambda>_. pureA False))
       | Some device \<Rightarrow>
           bindA (mcu_state device ''Application'') (\<lambda>application.
             if \<not> application then pureA False
             else bindA (firmware_identity env args serial (path_join dir ''restore-current-firmware.log'')) (\<lambda>firmware.
               if firmware = initial then pureA True
               else bindA (switch_to_bootloader env args serial dir) (\<lambda>_. pureA False))))"

definition leave_shell :: "'z bench_scheme audit_env \<Rightarrow> audit_args \<Rightarrow> path \<Rightarrow> string \<Rightarrow> ('z, unit) audit_step" where
  "leave_shell env args dir serial =
     bindA (attemptA (onBench reset_to_bootloader)) (\<lambda>reset_error.
     bindA (onBench close_shell) (\<lambda>_.
     bindA (updateA (\<lambda>s. s\<lparr>as_shell := False\<rparr>)) (\<lambda>_.
     bindA (attemptA (await_state env args serial ''Programming'' dir)) (\<lambda>r.
       case r of
         Inr _ \<Rightarrow> pureA ()
       | Inl e \<Rightarrow> if reset_error \<noteq> Inr () then raiseA EeResetFailed else raiseA e))))"

definition put_back :: "'z bench_scheme audit_env \<Rightarrow> audit_args \<Rightarrow> path \<Rightarrow> string \<Rightarrow> ('z, unit) audit_step" where
  "put_back env args dir serial =
     bindA (await_state env args serial ''Programming'' dir) (\<lambda>_.
     bindA (program_dfu env args serial (ag_restore_package args) (path_join dir ''program-restore.log'')) (\<lambda>_.
     bindA (await_state env args serial ''Application'' dir) (\<lambda>_. pureA ())))"

definition audit_restore :: "'z bench_scheme audit_env \<Rightarrow> audit_args \<Rightarrow> path \<Rightarrow> string \<Rightarrow> string \<Rightarrow> ('z, unit) audit_step" where
  "audit_restore env args dir serial initial =
     bindA (restore_entry env args dir serial initial) (\<lambda>already_restored.
     bindA (readA as_shell) (\<lambda>held.
     bindA (if held then leave_shell env args dir serial else pureA ()) (\<lambda>_.
     bindA (if already_restored then pureA () else put_back env args dir serial) (\<lambda>_.
     bindA (firmware_identity env args serial (path_join dir ''firmware-after.log'')) (\<lambda>restored.
     bindA (requireA (restored = initial) EeIdentityDiffers) (\<lambda>_.
       audit_stage env dir ''official-firmware-restored'' [(''firmware'', JStr restored)]))))))"

subsection \<open>The command\<close>

definition audit_failure :: "'h audit_env \<Rightarrow> eeprom_error \<Rightarrow> ('h audit_state, eeprom_error, unit) action" where
  "audit_failure env e =
     bindA (put_report ''status'' (JStr ''failed'')) (\<lambda>_. put_report ''error'' (JStr (ae_describe env e)))"

definition audit_attempt :: "'z bench_scheme audit_env \<Rightarrow> audit_args \<Rightarrow> path \<Rightarrow> ('z, eeprom_error option) audit_step" where
  "audit_attempt env args dir =
     bindA (attemptA (audit_operation env args dir)) (\<lambda>r.
       case r of
         Inr _ \<Rightarrow> pureA None
       | Inl e \<Rightarrow> bindA (audit_failure env e) (\<lambda>_. pureA (Some e)))"

definition restore_attempt :: "'z bench_scheme audit_env \<Rightarrow> audit_args \<Rightarrow> path \<Rightarrow> ('z, eeprom_error option) audit_step" where
  "restore_attempt env args dir =
     bindA (readA (\<lambda>s. (as_required s, as_serial s, as_initial s))) (\<lambda>(required, serial, initial).
       if \<not> required \<or> serial = [] \<or> initial = [] then pureA None
       else bindA (attemptA (audit_restore env args dir serial initial)) (\<lambda>r.
         case r of
           Inr _ \<Rightarrow> pureA None
         | Inl e \<Rightarrow>
             bindA (put_report ''restoration_error'' (JStr (ae_describe env e))) (\<lambda>_.
             bindA (put_report ''status'' (JStr ''failed'')) (\<lambda>_. pureA (Some e)))))"

definition audit_raise :: "eeprom_error option \<Rightarrow> eeprom_error option \<Rightarrow> ('s, eeprom_error, unit) action" where
  "audit_raise operation restoration =
     (case (operation, restoration) of
        (Some e, Some e') \<Rightarrow> raiseA (EeRestorationFailed e e')
      | (None, Some e') \<Rightarrow> raiseA e'
      | (Some e, None) \<Rightarrow> raiseA e
      | (None, None) \<Rightarrow> pureA ())"

definition audit_ending ::
  "'z bench_scheme audit_env \<Rightarrow> path \<Rightarrow> eeprom_error option \<Rightarrow> eeprom_error option \<Rightarrow> ('z, unit) audit_step" where
  "audit_ending env dir operation restoration =
     bindA (readA as_shell) (\<lambda>held.
     bindA (if held then onBench close_shell else pureA ()) (\<lambda>_.
     bindA (readA as_required) (\<lambda>required.
     bindA (put_report ''cleanup'' (JObj [(''restoration_required'', JBool required),
              (''official_firmware_restored'', JBool (required \<and> restoration = None))])) (\<lambda>_.
     bindA (if operation = None \<and> restoration = None then put_report ''status'' (JStr ''ok'') else pureA ()) (\<lambda>_.
     bindA (audit_store env dir) (\<lambda>_.
       audit_raise operation restoration))))))"

definition temporary_firmware :: json where
  "temporary_firmware =
     JObj [(''project'', JStr ''fabiobaltieri/ppk2-eeprom''), (''release'', JStr ''r0''),
       (''source_commit'', JStr ''380720e43cc978c176b5899e2f376a569849231d''), (''package_sha256'', JStr PPK2_EEPROM_PACKAGE_SHA256)]"

definition command_ppk2_eeprom :: "'z bench_scheme audit_env \<Rightarrow> audit_args \<Rightarrow> path \<Rightarrow> ('z, unit) audit_step" where
  "command_ppk2_eeprom env args dir =
     bindA (validate_inputs env args) (\<lambda>_.
     bindA (put_report ''temporary_firmware'' temporary_firmware) (\<lambda>_.
     bindA (put_report ''restore_firmware'' (JObj [(''package_sha256'', JStr (ag_restore_sha256 args))])) (\<lambda>_.
     bindA (put_report ''stages'' (JList [])) (\<lambda>_.
     bindA (audit_attempt env args dir) (\<lambda>operation.
     bindA (restore_attempt env args dir) (\<lambda>restoration.
       audit_ending env dir operation restoration))))))"

end
