(* ===== verification/Ppk2_Audit_Correct.thy ===== *)
theory Ppk2_Audit_Correct
  imports Ppk2_Eeprom_Cli
begin

section \<open>Correctness of the EEPROM audit\<close>

text \<open>
  The audit is a transaction on the instrument's firmware. Nothing is assumed of nrfutil, of the shell or of the serial ports.
\<close>

definition changing :: "string list \<Rightarrow> bool" where
  "changing argv \<longleftrightarrow> nrfutil_verb argv \<in> {[''device'', ''program''], [''device'', ''mcu-state-set'']}"

lemma changing_argvs [simp]:
  "\<not> changing (list_argv n t)" "\<not> changing (info_argv n serial)" "changing (switch_argv n serial)" "changing (dfu_argv n serial p)"
  by (simp_all add: changing_def nrfutil_verb_def nrfutil_prefix_def list_argv_def info_argv_def switch_argv_def dfu_argv_def)

text \<open>A launch of \<open>device-info\<close> that reported the identity.\<close>

definition reports_identity :: "'h audit_env \<Rightarrow> audit_args \<Rightarrow> string \<Rightarrow> string \<Rightarrow> launch \<Rightarrow> bool" where
  "reports_identity env args serial identity l \<longleftrightarrow>
     launch_argv l = info_argv (ag_nrfutil args) serial \<and>
     (\<exists>w w' fs out. ae_child env w (launch_files l) (launch_argv l) = (w', fs, Completed 0 out) \<and> identity_in (ae_loads env) out = Inr identity)"

text \<open>
  One pass over the memory: sixteen read commands, each written completely, in the order of their offsets, and an answer to each, whose dump is the sixteen bytes
  at that offset. The bytes of the pass are those of its answers.
\<close>

definition read_pass :: "sent list \<Rightarrow> code_points \<Rightarrow> bytes \<Rightarrow> bool" where
  "read_pass cmds t data \<longleftrightarrow> cmds = map (\<lambda>i. (raw_read (16 * i), True)) [0..<16]
     \<and> (\<exists>reads. list_all2 (\<lambda>i (reply, chunk). parse_eeprom_dump reply (16 * i) 16 = Inr chunk) [0..<16] reads
          \<and> t = join_points (map fst reads) \<and> data = concat (map snd reads))"

definition shell_log :: "'z bench_scheme audit_state \<Rightarrow> sent list" where
  "shell_log s = pt_sent (bn_shell (outside (host s)))"

text \<open>
  The EEPROM section \<open>v\<close> of a report, for a run that begins its operation in \<open>s0\<close>: once the temporary shell was ready, the shell reported the calibration
  fields and then the memory was read in two passes, one directly after the other, that gave the same 256 bytes; \<open>v\<close> has the
  digest of those bytes, and each calibration field it shows has the bytes that are at its offset among them.
\<close>

definition shell_ready :: "'z bench_scheme audit_env \<Rightarrow> audit_args \<Rightarrow> path \<Rightarrow> ('z, unit) audit_step" where
  "shell_ready env args dir =
     bindA (audit_select env args dir) (\<lambda>device.
     bindA (exclusive_access env dir) (\<lambda>_.
     bindA (readA as_serial) (\<lambda>serial. load_temporary env args dir serial)))"

definition eeprom_section :: "'z bench_scheme audit_env \<Rightarrow> audit_args \<Rightarrow> path \<Rightarrow> 'z bench_scheme audit_state \<Rightarrow> json \<Rightarrow> bool" where
  "eeprom_section env args dir s0 v \<longleftrightarrow> (\<exists>s1 s2 s3 s4 s5 calibration_text calibration text1 pass1 text2 pass2 data.
     shell_ready env args dir s0 = (s1, Inr ())
   \<and> onBench (onShell calibration_read) s1 = (s2, Inr (calibration_text, calibration))
   \<and> write_points (path_join dir ''calibration-read.txt'') calibration_text s2 = (s3, Inr ())
   \<and> onBench (onShell eeprom_read) s3 = (s4, Inr (text1, data)) \<and> shell_log s4 = shell_log s3 @ pass1 \<and> read_pass pass1 text1 data
   \<and> onBench (onShell eeprom_read) s4 = (s5, Inr (text2, data)) \<and> shell_log s5 = shell_log s4 @ pass2 \<and> read_pass pass2 text2 data
   \<and> length data = 256
   \<and> list_all (\<lambda>(name, offset). map_option ce_bytes (map_of calibration name) = Some (bytes_hex (py_slice data offset (offset + 4)))) CALIBRATION_OFFSETS
   \<and> v = JObj [(''size'', JInt 256), (''read_count'', JInt 2), (''reads_identical'', JBool True), (''sha256'', JStr (ae_digest env data)),
       (''calibration'', calibration_json calibration)])"

subsection \<open>Frames\<close>

definition audit_kept :: "'h audit_state \<Rightarrow> 'h audit_state \<Rightarrow> bool" where
  "audit_kept s s' \<longleftrightarrow> as_required s' = as_required s \<and> as_serial s' = as_serial s \<and> as_initial s' = as_initial s
     \<and> map_of (report s') ''restore_firmware'' = map_of (report s) ''restore_firmware'' \<and> map_of (report s') ''eeprom'' = map_of (report s) ''eeprom''"

definition steady :: "(string list \<Rightarrow> bool) \<Rightarrow> 'h audit_state \<Rightarrow> 'h audit_state \<Rightarrow> bool" where
  "steady allowed s s' \<longleftrightarrow> audit_kept s s' \<and>
     (\<exists>new. launches (host s') = launches (host s) @ new \<and> list_all (\<lambda>l. allowed (launch_argv l)) new)"

interpretation steady: state_order "steady allowed" for allowed
proof
  fix s t u :: "'h audit_state"
  show "steady allowed s s" by (auto simp: steady_def audit_kept_def intro: exI [of _ "[]"])
  assume "steady allowed s t" "steady allowed t u"
  then obtain a b where "launches (host t) = launches (host s) @ a" "launches (host u) = launches (host t) @ b"
    "list_all (\<lambda>l. allowed (launch_argv l)) (a @ b)" "audit_kept s t" "audit_kept t u"
    by (auto simp: steady_def)
  then show "steady allowed s u" by (auto simp: steady_def audit_kept_def intro!: exI [of _ "a @ b"])
qed

abbreviation "still \<equiv> steady (\<lambda>_. False)"
abbreviation "harmless \<equiv> steady (\<lambda>argv. \<not> changing argv)"
abbreviation "growing_only \<equiv> steady (\<lambda>_. True)"

lemma still_iff: "still s s' \<longleftrightarrow> audit_kept s s' \<and> launches (host s') = launches (host s)"
proof -
  have "list_all (\<lambda>l. False) new \<longleftrightarrow> new = []" for new :: "launch list" by (cases new) auto
  then show ?thesis by (auto simp: steady_def)
qed

lemma still_steady: "stable still m \<Longrightarrow> stable (steady allowed) m"
  unfolding stable_def still_iff steady_def by (metis append.right_neutral list.pred_inject(1))

lemma growing_iff: "growing_only s s' \<longleftrightarrow> audit_kept s s' \<and> (\<exists>new. launches (host s') = launches (host s) @ new)"
  by (simp add: steady_def list.pred_True)

lemma harmless_growing: "stable harmless m \<Longrightarrow> stable growing_only m"
  unfolding stable_def growing_iff by (auto simp: steady_def)

definition unlaunched :: "'h host \<Rightarrow> 'h host \<Rightarrow> bool" where
  "unlaunched w w' \<longleftrightarrow> launches w' = launches w"

interpretation unlaunched: state_order unlaunched
  by unfold_locales (auto simp: unlaunched_def)

lemma still_onBench: "stable unlaunched m \<Longrightarrow> stable still (onBench m)"
  by (auto simp: stable_def still_iff audit_kept_def unlaunched_def onBench_def action_simps)

lemma still_put [simp]: "k \<notin> {''restore_firmware'', ''eeprom''} \<Longrightarrow> stable still (put_report k v)"
  by (auto simp: stable_def still_iff audit_kept_def action_simps AList.update_conv)

lemma unlaunched_basic [simp]:
  "stable unlaunched (write_file p data)" "stable unlaunched (read_file e p)" "stable unlaunched (atomic_json t p rendered)"
  "stable unlaunched (onPort f)" "stable unlaunched (onLooks g)" "stable unlaunched (answer get put x)"
  by (auto simp: stable_def unlaunched_def action_simps write_file_def read_file_def atomic_json_def onLooks_def answer_def Let_def
      split: option.splits list.splits)

lemma unlaunched_zoom [simp]: "stable unlaunched m \<Longrightarrow> stable unlaunched (zoom get put m)"
  by (auto simp: stable_def unlaunched_def zoom_def split: prod.splits)

lemma unlaunched_port [simp]: "stable unlaunched (serial_command raising short data)" "stable unlaunched serial_close"
  by (simp_all add: serial_command_def serial_close_def)

lemma unlaunched_focus [simp]: "stable unlaunched m \<Longrightarrow> stable unlaunched (onShell m)" "stable unlaunched m \<Longrightarrow> stable unlaunched (onInstrumentPort m)"
  by (simp_all add: onShell_def onInstrumentPort_def)

lemma unlaunched_bench [simp]:
  "stable unlaunched comports" "stable unlaunched eeprom_shell_ports" "stable unlaunched (find_new_eeprom_shell_port existing)"
  unfolding comports_def eeprom_shell_ports_def find_new_eeprom_shell_port_def
  by (auto intro!: unlaunched.stable_bindA split: list.splits)

lemma unlaunched_poll [simp]: "stable unlaunched (poll_shell_port existing n)"
  by (induction n) (auto intro!: unlaunched.stable_bindA split: option.splits)

lemma unlaunched_wait [simp]: "stable unlaunched (wait_new_eeprom_shell_port existing)"
  unfolding wait_new_eeprom_shell_port_def by (rule unlaunched.stable_bindA) simp_all

lemma unlaunched_query [simp]: "stable unlaunched (shell_query c)"
  unfolding shell_query_def by (intro unlaunched.stable_bindA) simp_all

lemma unlaunched_shell [simp]:
  "stable unlaunched open_shell" "stable unlaunched calibration_read" "stable unlaunched eeprom_read" "stable unlaunched close_shell"
  "stable unlaunched reset_to_bootloader" "stable unlaunched (open_port onInstrumentPort)"
proof -
  show "stable unlaunched open_shell" "stable unlaunched (open_port onInstrumentPort)"
    unfolding open_shell_def open_port_def by (intro unlaunched.stable_bindA; simp)+
  show "stable unlaunched calibration_read" "stable unlaunched eeprom_read"
    unfolding calibration_read_def eeprom_read_def
    by (auto intro!: unlaunched.stable_bindA unlaunched.stable_mapA simp: eeprom_read_at_def)
  show "stable unlaunched close_shell" by (simp add: close_shell_def)
  show "stable unlaunched reset_to_bootloader"
    unfolding reset_to_bootloader_def by (rule unlaunched.stable_bindA, simp) (auto simp: stable_def unlaunched_def split: prod.splits)
qed

lemma unlaunched_metadata [simp]: "stable unlaunched ppk2_metadata"
  unfolding ppk2_metadata_def ppk2_command_def by (intro unlaunched.stable_bindA) simp_all

lemma unlaunched_retype [simp]: "stable unlaunched m \<Longrightarrow> stable unlaunched (retype h m)"
  by (auto simp: stable_def retype_def split: prod.splits)

subsection \<open>nrfutil\<close>

lemma steady_run_logged: "allowed argv \<Longrightarrow> stable (steady allowed) (onBench (run_logged child EePython argv log_path timeout))"
  by (auto simp: stable_def steady_def audit_kept_def onBench_def action_simps run_logged_def Let_def split: if_splits prod.splits)

lemma steady_run_nrfutil: "allowed argv \<Longrightarrow> stable (steady allowed) (run_nrfutil env argv log_path timeout operation)"
  unfolding run_nrfutil_def by (intro steady.stable_bindA steady_run_logged) simp_all

lemma steady_pure [simp]: "stable (steady allowed) (pure_audit r)"
  by (simp add: pure_audit_def)

lemma still_store [simp]: "stable still (audit_store env dir)"
  by (auto simp: stable_def still_iff audit_kept_def audit_store_def onBench_def action_simps atomic_json_def Let_def)

lemma still_stage [simp]: "stable still (audit_stage env dir name vs)"
  unfolding audit_stage_def by (intro steady.stable_bindA) (auto split: option.splits json.splits)

lemma harmless_selected [simp]: "stable harmless (selected_nrfutil_device env nrfutil serial log_path timeout)"
  unfolding selected_nrfutil_device_def nrfutil_devices_def
  by (intro steady.stable_bindA steady_run_nrfutil) (auto split: list.splits json.splits)

lemma harmless_wait [simp]: "stable harmless (wait_nrfutil_state env nrfutil serial state dir attempt ticks)"
proof (induction ticks arbitrary: attempt)
  case (Cons left later)
  then show ?case unfolding wait_nrfutil_state.simps mcu_state_def
    by (intro steady.stable_bindA steady.stable_attemptA) (auto split: sum.splits bool.splits)
qed simp

lemma harmless_await [simp]: "stable harmless (await_state env args serial state dir)"
  unfolding await_state_def by (intro steady.stable_bindA still_steady [OF still_onBench]) simp_all

lemma harmless_identity [simp]: "stable harmless (firmware_identity env args serial log_path)"
  unfolding firmware_identity_def by (intro steady.stable_bindA steady_run_nrfutil) simp_all

lemma growing_switch [simp]: "stable growing_only (switch_to_bootloader env args serial dir)"
  unfolding switch_to_bootloader_def
  by (intro steady.stable_bindA steady_run_logged steady.stable_attemptA harmless_growing harmless_await) (auto split: sum.splits)

lemma growing_program [simp]: "stable growing_only (program_dfu env args serial package log_path)"
  unfolding program_dfu_def by (intro steady.stable_bindA steady_run_nrfutil) simp_all

text \<open>What a read identity means.\<close>

lemma identity_in_nonempty:
  assumes "identity_in loads out = Inr identity"
  shows "identity \<noteq> []"
proof -
  from assms obtain devices where "(case devices of
         JList [device] \<Rightarrow>
           bindR (mapE EePython
             (bindR (jget device ''deviceInfo'' (JObj [])) (\<lambda>info.
              bindR (jget info ''dfuTriggerVersion'' (JObj [])) (\<lambda>version. jget version ''semVer'' JNull)))) (\<lambda>v.
             case v of JStr s \<Rightarrow> if py_strip s = [] then Inl EeNoIdentity else Inr s | _ \<Rightarrow> Inl EeNoIdentity)
       | _ \<Rightarrow> Inl EeAmbiguousInfo) = Inr identity"
    unfolding identity_in_def bindR_Inr_iff by blast
  then obtain device v where "(case v of JStr s \<Rightarrow> if py_strip s = [] then Inl EeNoIdentity else Inr s | _ \<Rightarrow> Inl EeNoIdentity) = Inr identity"
    by (cases devices) (auto simp: bindR_Inr_iff split: list.splits)
  then show ?thesis by (cases v) (auto simp: py_strip_def split: if_splits)
qed

lemma firmware_identity_triple:
  "triple P (firmware_identity env args serial log_path) (\<lambda>identity s. \<exists>s0 l. P s0 \<and> audit_kept s0 s
       \<and> launches (host s) = launches (host s0) @ [l] \<and> reports_identity env args serial identity l \<and> identity \<noteq> [])
     (\<lambda>_ s. \<exists>s0. P s0 \<and> harmless s0 s)"
proof (rule tripleI)
  fix s s' e
  assume "P s" "firmware_identity env args serial log_path s = (s', Inl e)"
  with stableD [OF harmless_identity] show "\<exists>s0. P s0 \<and> harmless s0 s'" by blast
next
  fix s s' identity
  assume P: "P s" and run: "firmware_identity env args serial log_path s = (s', Inr identity)"
  let ?argv = "info_argv (ag_nrfutil args) serial"
  from run obtain w fs out where child: "ae_child env (outside (host s)) (files (host s)) ?argv = (w, fs, Completed 0 out)"
    and identity: "identity_in (ae_loads env) out = Inr identity"
    and s': "launches (host s') = launches (host s) @ [\<lparr>launch_argv = ?argv, launch_files = files (host s)\<rparr>]" "audit_kept s s'"
    by (auto simp: firmware_identity_def run_nrfutil_def onBench_def action_simps run_logged_def Let_def audit_kept_def
        split: if_splits prod.splits run_end.splits)
  have "identity \<noteq> []"
    using identity by (rule identity_in_nonempty)
  with P child identity s' show "\<exists>s0 l. P s0 \<and> audit_kept s0 s' \<and> launches (host s') = launches (host s0) @ [l]
      \<and> reports_identity env args serial identity l \<and> identity \<noteq> []"
    by (intro exI [of _ s] exI [of _ "\<lparr>launch_argv = ?argv, launch_files = files (host s)\<rparr>"]) (auto simp: reports_identity_def)
qed

subsection \<open>Before the firmware is changed\<close>

definition unchanged_since :: "launch list \<Rightarrow> 'h audit_state \<Rightarrow> bool" where
  "unchanged_since before s \<longleftrightarrow> \<not> as_required s \<and>
     (\<exists>new. launches (host s) = before @ new \<and> list_all (\<lambda>l. \<not> changing (launch_argv l)) new)"

definition restore_json :: "audit_args \<Rightarrow> string \<Rightarrow> json" where
  "restore_json args initial = JObj [(''package_sha256'', JStr (ag_restore_sha256 args)), (''expected_identity'', JStr initial)]"

definition known :: "'h audit_env \<Rightarrow> audit_args \<Rightarrow> launch list \<Rightarrow> 'h audit_state \<Rightarrow> bool" where
  "known env args before s \<longleftrightarrow> as_serial s \<noteq> [] \<and> as_initial s \<noteq> []
   \<and> map_of (report s) ''restore_firmware'' = Some (restore_json args (as_initial s))
   \<and> (\<exists>l new. launches (host s) = before @ l # new \<and> reports_identity env args (as_serial s) (as_initial s) l)"

definition owed :: "'h audit_env \<Rightarrow> audit_args \<Rightarrow> launch list \<Rightarrow> 'h audit_state \<Rightarrow> bool" where
  "owed env args before s \<longleftrightarrow> as_required s \<and> known env args before s"

lemma known_steady: "known env args before s \<Longrightarrow> steady allowed s s' \<Longrightarrow> known env args before s'"
  unfolding known_def steady_def audit_kept_def by auto

lemma unchanged_harmless: "unchanged_since before s \<Longrightarrow> harmless s s' \<Longrightarrow> unchanged_since before s'"
  unfolding unchanged_since_def steady_def audit_kept_def by auto

lemma owed_steady: "owed env args before s \<Longrightarrow> steady allowed s s' \<Longrightarrow> owed env args before s'"
  unfolding owed_def using known_steady by (metis audit_kept_def steady_def)

lemma steady_locals: "steady allowed s s' \<Longrightarrow> as_serial s' = as_serial s \<and> as_initial s' = as_initial s \<and> as_required s' = as_required s"
  by (simp add: steady_def audit_kept_def)

lemma select_serial:
  assumes "ppk2_select ports wanted = Inr d"
  shows "(case sd_serial d of None \<Rightarrow> [] | Some x \<Rightarrow> x) \<noteq> []"
proof -
  from assms obtain ds where "(case ds of [d] \<Rightarrow> if sd_serial d = None \<or> sd_serial d = Some [] then Inl PpkSelectOne else Inr d | _ \<Rightarrow> Inl PpkSelectOne) = Inr d"
    unfolding ppk2_select_def bindR_Inr_iff by blast
  then show ?thesis by (cases ds; cases "tl ds") (auto split: if_splits option.splits)
qed

lemma audit_select_triple:
  fixes env :: "'z bench_scheme audit_env"
  shows "triple (\<lambda>s. \<not> as_required s \<and> launches (host s) = before) (audit_select env args dir)
     (\<lambda>_ s. unchanged_since before s \<and> known env args before s) (\<lambda>_. unchanged_since before)"
proof -
  let ?P = "\<lambda>s :: 'z bench_scheme audit_state. \<not> as_required s \<and> launches (host s) = before" and ?E = "\<lambda>_. unchanged_since before"
  let ?Q = "\<lambda>x s. ?P s \<and> as_serial s = x"
  let ?R = "\<lambda>x i s. unchanged_since before s \<and> as_serial s = x \<and> i \<noteq> [] \<and> (\<exists>l new. launches (host s) = before @ l # new \<and> reports_identity env args x i l)"
  let ?S = "\<lambda>x i s. ?R x i s \<and> as_initial s = i"
  have start: "unchanged_since before s" if "?P s" for s using that by (auto simp: unchanged_since_def)
  have keepP: "stable still m \<Longrightarrow> triple ?P m (\<lambda>_. ?P) ?E" for m :: "('z, 'c) audit_step"
    by (erule triple_stable) (auto simp: still_iff audit_kept_def start)
  have found: "triple ?P (liftA (mapE EePpk (ppk2_select ports wanted))) (\<lambda>d s. ?P s \<and> (case sd_serial d of None \<Rightarrow> [] | Some x \<Rightarrow> x) \<noteq> []) ?E" for ports wanted
    by (rule tripleI) (auto simp: action_simps start select_serial)
  have serial: "triple ?P (updateA (\<lambda>s. s\<lparr>as_serial := x\<rparr>)) (\<lambda>_. ?Q x) ?E" for x
    by (rule tripleI) (auto simp: action_simps)
  have lock: "triple (?Q x) (requireA c EeLocked) (\<lambda>_. ?Q x) ?E" for x c
    by (rule tripleI) (auto simp: action_simps start split: if_splits)
  have identity: "triple (?Q x) (firmware_identity env args x log_path) (\<lambda>i. ?R x i) ?E" for x log_path
  proof (rule triple_weaken [OF firmware_identity_triple])
    fix i and s :: "'z bench_scheme audit_state"
    assume "\<exists>s0 l. ?Q x s0 \<and> audit_kept s0 s \<and> launches (host s) = launches (host s0) @ [l] \<and> reports_identity env args x i l \<and> i \<noteq> []"
    then obtain s0 l where l: "?Q x s0" "audit_kept s0 s" "launches (host s) = before @ [l]" "reports_identity env args x i l" "i \<noteq> []" by auto
    then have "unchanged_since before s" by (auto simp: unchanged_since_def audit_kept_def reports_identity_def)
    with l show "?R x i s" by (auto simp: audit_kept_def)
  qed (auto simp: unchanged_since_def steady_def audit_kept_def)
  have initial: "triple (?R x i) (updateA (\<lambda>s. s\<lparr>as_initial := i\<rparr>)) (\<lambda>_. ?S x i) ?E" for x i
    by (rule tripleI) (auto simp: action_simps unchanged_since_def)
  have noted: "triple (?S x i) (put_report ''restore_firmware'' (restore_json args i)) (\<lambda>_ s. unchanged_since before s \<and> known env args before s) ?E"
    if "x \<noteq> []" for x i
    using that by (intro tripleI) (auto simp: action_simps unchanged_since_def known_def AList.update_conv)
  have last_step: "triple (\<lambda>s. unchanged_since before s \<and> known env args before s) (audit_stage env dir name vs)
      (\<lambda>_ s. unchanged_since before s \<and> known env args before s) ?E" for name vs
    by (rule triple_stable [OF still_stage]) (auto intro: known_steady unchanged_harmless simp: still_iff steady_def)
  show ?thesis
    unfolding audit_select_def Let_def restore_json_def [symmetric]
    by (intro triple_bindA [OF keepP] triple_bindA [OF found] triple_fact triple_bindA [OF serial] triple_bindA [OF lock]
        triple_bindA [OF identity] triple_bindA [OF initial] triple_bindA [OF noted] triple_bindA [OF last_step])
      (auto intro: still_onBench simp: triple_def pureA_def)
qed

subsection \<open>The operation\<close>

lemma keep_owed: "stable growing_only m \<Longrightarrow> triple (owed env args before) m (\<lambda>_. owed env args before) (\<lambda>_ s. unchanged_since before s \<or> owed env args before s)"
  by (erule triple_stable) (auto intro: owed_steady)

lemma still_exclusive [simp]: "stable still (exclusive_access env dir)"
  unfolding exclusive_access_def by (intro steady.stable_bindA steady.stable_finallyA still_onBench) simp_all

lemma still_updates [simp]:
  "stable (steady allowed) (updateA (\<lambda>s. s\<lparr>as_shell := b\<rparr>))" "stable (steady allowed) (updateA (\<lambda>s. s\<lparr>as_existing := e\<rparr>))"
  by (rule still_steady, simp add: stable_def still_iff audit_kept_def action_simps)+

lemma load_temporary_triple:
  fixes env :: "'z bench_scheme audit_env"
  shows "triple (\<lambda>s. unchanged_since before s \<and> known env args before s) (load_temporary env args dir serial)
     (\<lambda>_. owed env args before) (\<lambda>_ s. unchanged_since before s \<or> owed env args before s)"
proof -
  let ?P = "\<lambda>s. unchanged_since before s \<and> known env args before s"
  have keep: "stable still m \<Longrightarrow> triple ?P m (\<lambda>_. ?P) (\<lambda>_ s. unchanged_since before s \<or> owed env args before s)" for m :: "('z, 'c) audit_step"
    by (erule triple_stable) (auto intro: known_steady unchanged_harmless simp: still_iff steady_def)
  have mark: "triple ?P (updateA (\<lambda>s. s\<lparr>as_required := True\<rparr>)) (\<lambda>_. owed env args before) E" for E
    by (rule tripleI) (auto simp: action_simps owed_def known_def)
  show ?thesis unfolding load_temporary_def
    by (intro triple_bindA [OF keep] triple_bindA [OF mark] triple_bindA [OF keep_owed] keep_owed) (simp_all add: still_onBench still_steady)
qed

lemma verified_fields:
  assumes "verify_calibration_bytes calibration data = Inr ()"
  shows "length data = 256"
    and "list_all (\<lambda>(name, offset). map_option ce_bytes (map_of calibration name) = Some (bytes_hex (py_slice data offset (offset + 4)))) CALIBRATION_OFFSETS"
proof -
  show "length data = 256" using assms by (simp add: verify_calibration_bytes_def PPK2_EEPROM_SIZE_def split: if_splits)
  have "map_option ce_bytes (map_of calibration name) = Some (bytes_hex (py_slice data offset (offset + 4)))"
    if "(name, offset) \<in> set CALIBRATION_OFFSETS" for name offset
    using assms that by (fastforce simp: verify_calibration_bytes_def forR_Inr_iff split: if_splits option.splits)
  then show "list_all (\<lambda>(name, offset). map_option ce_bytes (map_of calibration name) = Some (bytes_hex (py_slice data offset (offset + 4)))) CALIBRATION_OFFSETS"
    by (auto simp: list_all_iff)
qed

lemma read_eeprom_triple:
  fixes env :: "'z bench_scheme audit_env"
  shows "triple (owed env args before) (read_eeprom env dir) (\<lambda>_. owed env args before) (\<lambda>_ s. unchanged_since before s \<or> owed env args before s)"
proof -
  let ?O = "owed env args before" and ?E = "\<lambda>_ s. unchanged_since before s \<or> owed env args before s"
  have keep: "stable still m \<Longrightarrow> triple ?O m (\<lambda>_. ?O) ?E" for m :: "('z, 'c) audit_step"
    by (rule keep_owed) (rule still_steady)
  have recorded: "triple ?O (put_report ''eeprom'' v) (\<lambda>_. ?O) ?E" for v
    by (intro tripleI) (auto simp: action_simps owed_def known_def AList.update_conv)
  show ?thesis unfolding read_eeprom_def check_reads_def case_prod_unfold write_points_def audit_sha256_def
    by (intro triple_bindA [OF recorded] triple_bindA [OF keep] keep still_onBench steady.stable_bindA) simp_all
qed

subsection \<open>The two passes\<close>

lemma shell_query_sent:
  "shell_query c w = (w', Inr s) \<Longrightarrow> pt_sent (outside w') = pt_sent (outside w) @ [(c, True)]"
  by (auto simp: shell_query_def action_simps dest!: serial_command_sent onLooks_sent split: if_splits)

lemma eeprom_read_at_Inr:
  "eeprom_read_at offset w = (w', Inr (reply, chunk)) \<Longrightarrow>
     pt_sent (outside w') = pt_sent (outside w) @ [(raw_read offset, True)] \<and> parse_eeprom_dump reply offset 16 = Inr chunk"
  by (auto simp: eeprom_read_at_def action_simps dest!: shell_query_sent)

lemma reads_pass:
  "mapA eeprom_read_at offsets w = (w', Inr reads) \<Longrightarrow>
     pt_sent (outside w') = pt_sent (outside w) @ map (\<lambda>offset. (raw_read offset, True)) offsets
   \<and> list_all2 (\<lambda>offset (reply, chunk). parse_eeprom_dump reply offset 16 = Inr chunk) offsets reads"
proof (induction offsets arbitrary: w reads)
  case (Cons offset offsets)
  from Cons.prems obtain w1 reply chunk later where "eeprom_read_at offset w = (w1, Inr (reply, chunk))"
    and "mapA eeprom_read_at offsets w1 = (w', Inr later)" and "reads = (reply, chunk) # later"
    by (auto simp: action_simps)
  with Cons.IH [of w1 later] eeprom_read_at_Inr [of offset w w1 reply chunk] show ?case by simp
qed (auto simp: action_simps)

lemma eeprom_read_pass:
  assumes "eeprom_read w = (w', Inr (t, data))"
  shows "\<exists>cmds. pt_sent (outside w') = pt_sent (outside w) @ cmds \<and> read_pass cmds t data"
proof -
  from assms obtain reads where r: "mapA eeprom_read_at (map (\<lambda>i. 16 * i) [0..<16]) w = (w', Inr reads)"
    and t: "t = join_points (map fst reads)" "data = concat (map snd reads)"
    by (auto simp: eeprom_read_def action_simps)
  from reads_pass [OF r] show ?thesis unfolding list_all2_map1 list.map_comp o_def read_pass_def t by blast
qed

lemma shell_pass:
  assumes "onBench (onShell eeprom_read) s = (s', Inr (t, data))"
  shows "\<exists>cmds. shell_log s' = shell_log s @ cmds \<and> read_pass cmds t data"
proof -
  let ?port = "\<lparr>files = files (host s), sealed = sealed (host s), launches = launches (host s), outside = bn_shell (outside (host s))\<rparr>"
  obtain w' q where run: "eeprom_read ?port = (w', q)" by fastforce
  with assms have "q = Inr (t, data)" "bn_shell (outside (host s')) = outside w'"
    by (cases q; auto simp: onBench_def onHost_def onShell_def zoom_def)+
  with run have "eeprom_read ?port = (w', Inr (t, data))" "bn_shell (outside (host s')) = outside w'" by simp_all
  with eeprom_read_pass [of ?port w' t data] show ?thesis by (simp add: shell_log_def)
qed

lemma stage_eeprom: "audit_stage env dir name vs s = (s', r) \<Longrightarrow> map_of (report s') ''eeprom'' = map_of (report s) ''eeprom''"
  using stableD [OF still_stage, of env dir name vs s s' r] by (simp add: still_iff audit_kept_def)

lemma check_reads_Inr:
  assumes "check_reads env dir calibration text1 data1 text2 data2 s = (s', Inr ())"
  shows "data1 = data2 \<and> verify_calibration_bytes calibration data1 = Inr ()
   \<and> map_of (report s') ''eeprom'' = Some (JObj [(''size'', JInt (int (length data1))), (''read_count'', JInt 2), (''reads_identical'', JBool True),
       (''sha256'', JStr (ae_digest env data1)), (''calibration'', calibration_json calibration)])"
  using assms
  by (auto simp: check_reads_def write_points_def audit_sha256_def onBench_def write_file_def read_file_def action_simps AList.update_conv
      dest!: stage_eeprom split: if_splits)

lemma read_eeprom_Inr:
  assumes "read_eeprom env dir s = (s', Inr ())"
  obtains s2 s3 s4 s5 calibration_text calibration text1 data1 text2 data2 where
    "onBench (onShell calibration_read) s = (s2, Inr (calibration_text, calibration))"
    "write_points (path_join dir ''calibration-read.txt'') calibration_text s2 = (s3, Inr ())"
    "onBench (onShell eeprom_read) s3 = (s4, Inr (text1, data1))" "onBench (onShell eeprom_read) s4 = (s5, Inr (text2, data2))"
    "check_reads env dir calibration text1 data1 text2 data2 s5 = (s', Inr ())"
proof -
  from assms obtain s2 a s3 u s4 b s5 c where "onBench (onShell calibration_read) s = (s2, Inr a)"
    "write_points (path_join dir ''calibration-read.txt'') (fst a) s2 = (s3, Inr u)"
    "onBench (onShell eeprom_read) s3 = (s4, Inr b)" "onBench (onShell eeprom_read) s4 = (s5, Inr c)"
    "check_reads env dir (snd a) (fst b) (snd b) (fst c) (snd c) s5 = (s', Inr ())"
    unfolding read_eeprom_def bindA_Inr_iff case_prod_unfold by blast
  then show thesis by (intro that [of s2 "fst a" "snd a" s3 s4 "fst b" "snd b" s5 "fst c" "snd c"]) simp_all
qed

lemma audit_operation_section:
  assumes "audit_operation env args dir s0 = (s', Inr ())"
  shows "\<exists>v. map_of (report s') ''eeprom'' = Some v \<and> eeprom_section env args dir s0 v"
proof -
  have "audit_operation env args dir = bindA (shell_ready env args dir) (\<lambda>_. read_eeprom env dir)"
    by (simp add: audit_operation_def shell_ready_def bindA_assoc)
  with assms obtain s1 where ready: "shell_ready env args dir s0 = (s1, Inr ())" and run: "read_eeprom env dir s1 = (s', Inr ())"
    by (auto simp: action_simps)
  from run show ?thesis
  proof (rule read_eeprom_Inr)
    fix s2 s3 s4 s5 calibration_text calibration text1 data1 text2 data2
    assume r: "onBench (onShell calibration_read) s1 = (s2, Inr (calibration_text, calibration))"
      "write_points (path_join dir ''calibration-read.txt'') calibration_text s2 = (s3, Inr ())"
      "onBench (onShell eeprom_read) s3 = (s4, Inr (text1, data1))" "onBench (onShell eeprom_read) s4 = (s5, Inr (text2, data2))"
      and "check_reads env dir calibration text1 data1 text2 data2 s5 = (s', Inr ())"
    note c = check_reads_Inr [OF this(5)]
    have same: "data2 = data1" using c by simp
    from c have verified: "verify_calibration_bytes calibration data1 = Inr ()"
      and v: "map_of (report s') ''eeprom'' = Some (JObj [(''size'', JInt (int (length data1))), (''read_count'', JInt 2), (''reads_identical'', JBool True),
       (''sha256'', JStr (ae_digest env data1)), (''calibration'', calibration_json calibration)])" by blast+
    from shell_pass [OF r(3)] shell_pass [OF r(4)] obtain pass1 pass2 where p: "shell_log s4 = shell_log s3 @ pass1" "read_pass pass1 text1 data1"
      "shell_log s5 = shell_log s4 @ pass2" "read_pass pass2 text2 data1" unfolding same by blast
    have "eeprom_section env args dir s0 (JObj [(''size'', JInt (int (length data1))), (''read_count'', JInt 2),
        (''reads_identical'', JBool True), (''sha256'', JStr (ae_digest env data1)), (''calibration'', calibration_json calibration)])"
      unfolding eeprom_section_def
      by (rule exI [of _ s1], rule exI [of _ s2], rule exI [of _ s3], rule exI [of _ s4], rule exI [of _ s5], rule exI [of _ calibration_text],
          rule exI [of _ calibration], rule exI [of _ text1], rule exI [of _ pass1], rule exI [of _ text2], rule exI [of _ pass2], rule exI [of _ data1])
        (simp only: ready r(1-3) r(4) [unfolded same] p verified_fields [OF verified] of_nat_numeral simp_thms)
    with v show ?thesis by blast
  qed
qed

lemma audit_operation_triple:
  fixes env :: "'z bench_scheme audit_env"
  shows "triple (\<lambda>s. \<not> as_required s \<and> launches (host s) = before) (audit_operation env args dir)
    (\<lambda>_. owed env args before) (\<lambda>_ s. unchanged_since before s \<or> owed env args before s)"
proof -
  let ?P = "\<lambda>s. unchanged_since before s \<and> known env args before s" and ?E = "\<lambda>_ s. unchanged_since before s \<or> owed env args before s"
  have keep: "stable still m \<Longrightarrow> triple ?P m (\<lambda>_. ?P) ?E" for m :: "('z, 'c) audit_step"
    by (erule triple_stable) (auto intro: known_steady unchanged_harmless simp: still_iff steady_def)
  show ?thesis unfolding audit_operation_def
    by (intro triple_bindA [OF triple_post [OF audit_select_triple]] triple_bindA [OF keep] triple_bindA [OF load_temporary_triple] read_eeprom_triple) simp_all
qed

subsection \<open>The restoration\<close>

lemma growing_reopen [simp]: "stable growing_only reopen_shell"
  unfolding reopen_shell_def
  by (intro steady.stable_bindA) (auto intro!: still_steady [OF still_onBench] split: option.splits)

lemma growing_look [simp]: "stable growing_only (look_at_state env args dir serial)"
  unfolding look_at_state_def
  by (intro steady.stable_bindA steady.stable_attemptA harmless_growing harmless_selected) (auto split: sum.splits)

lemma growing_entry [simp]: "stable growing_only (restore_entry env args dir serial initial)"
  unfolding restore_entry_def mcu_state_def
  by (intro steady.stable_bindA)
    (auto intro!: steady.stable_bindA growing_look harmless_growing [OF harmless_identity] split: option.splits)

lemma growing_await [simp]: "stable growing_only (await_state env args serial state dir)"
  by (rule harmless_growing) simp

lemma growing_leave [simp]: "stable growing_only (leave_shell env args dir serial)"
  unfolding leave_shell_def
  by (intro steady.stable_bindA steady.stable_attemptA growing_await still_steady [OF still_onBench]) (auto split: sum.splits)

lemma growing_put_back [simp]: "stable growing_only (put_back env args dir serial)"
  unfolding put_back_def by (intro steady.stable_bindA) simp_all

definition restored :: "'h audit_env \<Rightarrow> audit_args \<Rightarrow> launch list \<Rightarrow> 'h audit_state \<Rightarrow> bool" where
  "restored env args before s \<longleftrightarrow> owed env args before s \<and> launches (host s) \<noteq> []
     \<and> reports_identity env args (as_serial s) (as_initial s) (last (launches (host s)))"

lemma restored_still: "restored env args before s \<Longrightarrow> still s s' \<Longrightarrow> restored env args before s'"
  unfolding restored_def using owed_steady steady_locals by (metis still_iff)

lemma audit_restore_triple:
  fixes env :: "'z bench_scheme audit_env"
  shows "triple (\<lambda>s. owed env args before s \<and> serial = as_serial s \<and> initial = as_initial s) (audit_restore env args dir serial initial)
    (\<lambda>_. restored env args before) (\<lambda>_. owed env args before)"
proof -
  let ?P = "\<lambda>s. owed env args before s \<and> serial = as_serial s \<and> initial = as_initial s" and ?E = "\<lambda>_. owed env args before"
  let ?Q = "\<lambda>i s. ?P s \<and> launches (host s) \<noteq> [] \<and> reports_identity env args serial i (last (launches (host s)))"
  have keep: "stable growing_only m \<Longrightarrow> triple ?P m (\<lambda>_. ?P) ?E" for m :: "('z, 'c) audit_step"
    by (erule triple_stable) (auto intro: owed_steady dest: steady_locals)
  have identity: "triple ?P (firmware_identity env args serial log_path) (\<lambda>i. ?Q i) ?E" for log_path
  proof (rule triple_weaken [OF firmware_identity_triple])
    fix i and s :: "'z bench_scheme audit_state"
    assume "\<exists>s0 l. ?P s0 \<and> audit_kept s0 s \<and> launches (host s) = launches (host s0) @ [l] \<and> reports_identity env args serial i l \<and> i \<noteq> []"
    then obtain s0 l where l: "?P s0" "audit_kept s0 s" "launches (host s) = launches (host s0) @ [l]" "reports_identity env args serial i l" by auto
    then have "growing_only s0 s" by (simp add: growing_iff)
    with l show "?Q i s" by (auto intro: owed_steady simp: audit_kept_def)
  qed (auto intro: owed_steady)
  have check: "triple (?Q i) (requireA (i = initial) e) (\<lambda>_. restored env args before) ?E" for i e
    by (rule tripleI) (auto simp: action_simps restored_def split: if_splits)
  have finish: "triple (restored env args before) (audit_stage env dir name vs) (\<lambda>_. restored env args before) ?E" for name vs
    by (rule triple_stable [OF still_stage]) (erule (1) restored_still, simp add: restored_def)
  show ?thesis unfolding audit_restore_def
    by (intro triple_bindA [OF identity] triple_bindA [OF check] finish triple_bindA [OF keep]) (auto intro: steady.stable_if)
qed

subsection \<open>The command\<close>

text \<open>The operation begins with three entries in the report.\<close>

definition audit_begun :: "audit_args \<Rightarrow> 'h audit_state \<Rightarrow> 'h audit_state" where
  "audit_begun args s = s\<lparr>report := AList.update ''stages'' (JList []) (AList.update ''restore_firmware''
     (JObj [(''package_sha256'', JStr (ag_restore_sha256 args))]) (AList.update ''temporary_firmware'' temporary_firmware (report s)))\<rparr>"

lemma audit_attempt_section:
  assumes "audit_attempt env args dir s0 = (s', Inr None)"
  shows "\<exists>v. map_of (report s') ''eeprom'' = Some v \<and> eeprom_section env args dir s0 v"
proof -
  obtain s1 q where "audit_operation env args dir s0 = (s1, q)" by fastforce
  with assms have "audit_operation env args dir s0 = (s', Inr ())"
    by (cases q) (auto simp: audit_attempt_def attemptA_def bindA_def pureA_def audit_failure_def put_report_def updateA_def)
  then show ?thesis by (rule audit_operation_section)
qed

lemma restore_attempt_eeprom:
  assumes "restore_attempt env args dir s = (s', r)"
  shows "map_of (report s') ''eeprom'' = map_of (report s) ''eeprom''"
proof -
  have "stable growing_only (audit_restore env args dir serial initial)" for serial initial
    unfolding audit_restore_def
    by (intro steady.stable_bindA) (auto intro!: harmless_growing [OF harmless_identity] still_steady [OF still_stage] steady.stable_if)
  then have "stable growing_only (restore_attempt env args dir)"
    unfolding restore_attempt_def
    by (intro steady.stable_bindA steady.stable_attemptA) (auto intro!: still_steady [OF still_put] steady.stable_bindA steady.stable_attemptA split: sum.splits)
  from stableD [OF this assms] show ?thesis by (simp add: growing_iff audit_kept_def)
qed

definition after_restore :: "'h audit_env \<Rightarrow> audit_args \<Rightarrow> launch list \<Rightarrow> eeprom_error option \<Rightarrow> eeprom_error option \<Rightarrow> 'h audit_state \<Rightarrow> bool" where
  "after_restore env args before oe re s \<longleftrightarrow>
     (oe \<noteq> None \<and> unchanged_since before s) \<or> (if re = None then restored else owed) env args before s"

lemma audit_attempt_triple:
  fixes env :: "'z bench_scheme audit_env"
  shows "triple (\<lambda>s. \<not> as_required s \<and> launches (host s) = before) (audit_attempt env args dir)
    (\<lambda>oe s. (oe \<noteq> None \<and> unchanged_since before s) \<or> owed env args before s) (\<lambda>_ _. False)"
proof -
  have fails: "triple (\<lambda>s. unchanged_since before s \<or> owed env args before s) (audit_failure env e)
      (\<lambda>_ s. unchanged_since before s \<or> owed env args before s) (\<lambda>_ _. False)" for e
    by (rule tripleI) (auto simp: audit_failure_def action_simps unchanged_since_def owed_def known_def AList.update_conv)
  have finish: "triple (\<lambda>s. case x of Inl e \<Rightarrow> unchanged_since before s \<or> owed env args before s | Inr _ \<Rightarrow> owed env args before s)
      (case x of Inr _ \<Rightarrow> pureA None | Inl e \<Rightarrow> bindA (audit_failure env e) (\<lambda>_. pureA (Some e)))
      (\<lambda>oe s. (oe \<noteq> None \<and> unchanged_since before s) \<or> owed env args before s) (\<lambda>_ _. False)" for x :: "eeprom_error + unit"
  proof (cases x)
    case (Inl e)
    show ?thesis unfolding Inl sum.case by (rule triple_bindA [OF fails]) (auto intro!: tripleI simp: action_simps)
  qed (auto intro!: tripleI simp: action_simps)
  show ?thesis unfolding audit_attempt_def by (rule triple_bindA [OF triple_attemptA [OF audit_operation_triple] finish])
qed

lemma restore_attempt_after:
  assumes "(oe \<noteq> None \<and> unchanged_since before s) \<or> owed env args before s" and "restore_attempt env args dir s = (s', r)"
  shows "\<exists>re. r = Inr re \<and> after_restore env args before oe re s'"
proof (cases "owed env args before s")
  case False
  with assms show ?thesis
    by (auto simp: restore_attempt_def bindA_def readA_def pureA_def unchanged_since_def after_restore_def)
next
  case True
  obtain s1 q where run: "audit_restore env args dir (as_serial s) (as_initial s) s = (s1, q)" by fastforce
  have s': "restore_attempt env args dir s = (case q of Inr _ \<Rightarrow> (s1, Inr None)
      | Inl e \<Rightarrow> (s1\<lparr>report := AList.update ''status'' (JStr ''failed'') (AList.update ''restoration_error'' (JStr (ae_describe env e)) (report s1))\<rparr>, Inr (Some e)))"
    using True by (simp add: restore_attempt_def bindA_def readA_def attemptA_def run pureA_def put_report_def updateA_def owed_def known_def split: sum.splits)
  note result = audit_restore_triple [where before = before and serial = "as_serial s" and initial = "as_initial s" and env = env and args = args and dir = dir]
  show ?thesis
  proof (cases q)
    case (Inr u)
    with triple_Inr [OF result _ run [unfolded Inr]] True s' assms(2) show ?thesis by (auto simp: after_restore_def)
  next
    case (Inl e)
    with triple_Inl [OF result _ run [unfolded Inl]] True have "owed env args before s1" by simp
    with s' assms(2) Inl show ?thesis by (auto simp: after_restore_def owed_def known_def AList.update_conv)
  qed
qed

definition cleanup_record :: "bool \<Rightarrow> bool \<Rightarrow> json" where
  "cleanup_record required back = JObj [(''restoration_required'', JBool required), (''official_firmware_restored'', JBool back)]"

lemma audit_ending_report:
  "case audit_ending env dir oe re s of (s', res) \<Rightarrow>
     launches (host s') = launches (host s) \<and> map_of (report s') ''cleanup'' = Some (cleanup_record (as_required s) (as_required s \<and> re = None))
   \<and> map_of (report s') ''eeprom'' = map_of (report s) ''eeprom'' \<and> (res = Inr () \<longleftrightarrow> oe = None \<and> re = None)"
  by (cases oe; cases re; cases "as_shell s";
      simp add: audit_ending_def bindA_def put_report_def updateA_def readA_def pureA_def raiseA_def audit_store_def onBench_def onHost_def
        atomic_json_def audit_raise_def Let_def close_shell_def onShell_def zoom_def serial_close_def onPort_def cleanup_record_def AList.update_conv)

lemma validate_same: "validate_inputs env args s = (s', r) \<Longrightarrow> s' = s"
  by (cases r) (auto simp: validate_inputs_def audit_sha256_def onBench_def action_simps read_file_def split: if_splits option.splits)

text \<open>
  C36. The EEPROM audit is a transaction on the instrument's firmware. Either its inputs were refused and nothing happened, or the report has a
  clean-up record: where it says that no restoration was required, no process was launched that changes the firmware or the bootloader
  state; where it says that one was, the first process launched reported an identity of the firmware, and where the record says
  that the official firmware is back, the last process launched reported that same identity. A command that returns has its firmware back, and
  its report describes what the run read: with the temporary shell ready, two passes over the memory, one directly after the other, each sixteen completely written
  read commands with their answers, gave the same 256 bytes; the report has the digest of those bytes, and every calibration field the shell reported
  has the bytes found at its offset among them.
\<close>

theorem eeprom_audit_transaction:
  fixes env :: "'z bench_scheme audit_env"
  shows "case command_ppk2_eeprom env args dir (audit_start h r) of (s, res) \<Rightarrow>
     (s = audit_start h r \<and> res \<in> range Inl)
   \<or> (\<exists>new required back. launches (host s) = launches h @ new
       \<and> map_of (report s) ''cleanup'' = Some (cleanup_record required back)
       \<and> (if required then \<exists>serial initial. new \<noteq> [] \<and> reports_identity env args serial initial (hd new)
              \<and> (if back then reports_identity env args serial initial (last new) else True)
          else list_all (\<lambda>l. \<not> changing (launch_argv l)) new)
       \<and> (if res = Inr () then required \<and> back \<and> (\<exists>v. map_of (report s) ''eeprom'' = Some v
            \<and> eeprom_section env args dir (audit_begun args (audit_start h r)) v) else True))"
proof -
  let ?s0 = "audit_start h r"
  obtain s res where run: "command_ppk2_eeprom env args dir ?s0 = (s, res)" by fastforce
  obtain s1 v where valid: "validate_inputs env args ?s0 = (s1, v)" by fastforce
  show ?thesis
  proof (cases v)
    case (Inl e)
    with run valid validate_same [OF valid] show ?thesis by (auto simp: command_ppk2_eeprom_def bindA_def)
  next
    case (Inr u)
    define s2 where "s2 = audit_begun args ?s0"
    obtain s3 oe' where attempt: "audit_attempt env args dir s2 = (s3, oe')" by fastforce
    obtain s4 re' where restoration: "restore_attempt env args dir s3 = (s4, re')" by fastforce
    have start: "\<not> as_required s2 \<and> launches (host s2) = launches h" by (simp add: s2_def audit_begun_def audit_start_def)
    obtain oe where oe: "oe' = Inr oe" "(oe \<noteq> None \<and> unchanged_since (launches h) s3) \<or> owed env args (launches h) s3"
      using audit_attempt_triple [where env = env and args = args and dir = dir] start attempt by (cases oe') (blast dest: triple_Inl triple_Inr)+
    obtain re where re: "re' = Inr re" "after_restore env args (launches h) oe re s4"
      using restore_attempt_after [OF oe(2) restoration] by blast
    have ending: "audit_ending env dir oe re s4 = (s, res)"
      using run valid validate_same [OF valid] Inr attempt restoration oe(1) re(1)
      by (simp add: command_ppk2_eeprom_def bindA_def put_report_def updateA_def s2_def audit_begun_def)
    have final: "launches (host s) = launches (host s4)" "map_of (report s) ''cleanup'' = Some (cleanup_record (as_required s4) (as_required s4 \<and> re = None))"
      "map_of (report s) ''eeprom'' = map_of (report s4) ''eeprom''" "res = Inr () \<longleftrightarrow> oe = None \<and> re = None"
      using audit_ending_report [where env = env and dir = dir and oe = oe and re = re and s = s4] unfolding ending by auto
    have described: "\<exists>v. map_of (report s) ''eeprom'' = Some v \<and> eeprom_section env args dir s2 v" if "res = Inr ()"
      using audit_attempt_section [of env args dir s2 s3] attempt oe(1) restore_attempt_eeprom [OF restoration] final(3,4) that by simp
    show ?thesis
    proof (cases "as_required s4")
      case False
      with re(2) obtain new where "launches (host s4) = launches h @ new" "list_all (\<lambda>l. \<not> changing (launch_argv l)) new" "oe \<noteq> None"
        by (auto simp: after_restore_def unchanged_since_def restored_def owed_def split: if_splits)
      with final False show ?thesis unfolding run prod.case by (intro disjI2 exI [of _ new] exI [of _ False]) simp_all
    next
      case True
      then have owed: "owed env args (launches h) s4" and again: "re = None \<Longrightarrow> restored env args (launches h) s4"
        using re(2) by (auto simp: after_restore_def unchanged_since_def restored_def split: if_splits)
      from owed obtain l new where new: "launches (host s4) = launches h @ l # new" "reports_identity env args (as_serial s4) (as_initial s4) l"
        unfolding owed_def known_def by blast
      have "if re = None then reports_identity env args (as_serial s4) (as_initial s4) (last (l # new)) else True"
        using again new(1) by (simp add: restored_def)
      with new(2) have identity: "\<exists>serial initial. l # new \<noteq> [] \<and> reports_identity env args serial initial (hd (l # new))
          \<and> (if re = None then reports_identity env args serial initial (last (l # new)) else True)"
        by (intro exI [of _ "as_serial s4"] exI [of _ "as_initial s4"]) simp
      show ?thesis unfolding run prod.case
      proof (intro disjI2 exI conjI)
        show "launches (host s) = launches h @ (l # new)" using final(1) new(1) by simp
        show "map_of (report s) ''cleanup'' = Some (cleanup_record True (re = None))" using final(2) True by simp
        show "if True then \<exists>serial initial. l # new \<noteq> [] \<and> reports_identity env args serial initial (hd (l # new))
            \<and> (if re = None then reports_identity env args serial initial (last (l # new)) else True)
          else list_all (\<lambda>l. \<not> changing (launch_argv l)) (l # new)"
          using identity by (simp only: if_True)
        show "if res = Inr () then True \<and> re = None \<and> (\<exists>v. map_of (report s) ''eeprom'' = Some v
            \<and> eeprom_section env args dir (audit_begun args ?s0) v) else True"
          using final(4) described [unfolded s2_def] by simp
      qed
    qed
  qed
qed

end
