(* ===== verification/Ppk2_Dump_Correct.thy ===== *)
theory Ppk2_Dump_Correct
  imports Ppk2_Eeprom
begin

section \<open>Correctness of the memory dump reader\<close>

text \<open>
  A printer of the dumps the temporary firmware's shell writes (an address of eight digits, the bytes in hexadecimal followed by at least one
  space each, a bar and a column of text), among lines of other output, and the theorem that the reader inverts it. \<open>dig\<close> is the
  printer of a digit, in either case.
\<close>

definition digits_printed :: "(nat \<Rightarrow> nat) \<Rightarrow> bool" where
  "digits_printed dig \<longleftrightarrow> (\<forall>n < 16. hex_point (dig n) = Some n)"

definition hex_pair :: "(nat \<Rightarrow> nat) \<Rightarrow> byte \<Rightarrow> code_points" where
  "hex_pair dig b = [dig (unat b div 16), dig (unat b mod 16)]"

definition hex_address :: "(nat \<Rightarrow> nat) \<Rightarrow> nat \<Rightarrow> code_points" where
  "hex_address dig a = map (\<lambda>i. dig (a div 16 ^ i mod 16)) (rev [0..<8])"

definition octets_text :: "(nat \<Rightarrow> nat) \<Rightarrow> (byte \<times> nat) list \<Rightarrow> code_points" where
  "octets_text dig body = concat (map (\<lambda>(b, n). hex_pair dig b @ replicate n 32) body)"

type_synonym dump_item = "code_points + (byte \<times> nat) list \<times> code_points"

fun dump_text :: "(nat \<Rightarrow> nat) \<Rightarrow> nat \<Rightarrow> dump_item list \<Rightarrow> code_points" where
  "dump_text dig a [] = []"
| "dump_text dig a (Inl noise # items) = noise @ [10] @ dump_text dig a items"
| "dump_text dig a (Inr (body, column) # items) =
     hex_address dig a @ [58, 32] @ octets_text dig body @ [124] @ column @ [10] @ dump_text dig (a + length body) items"

fun dump_item_ok :: "dump_item \<Rightarrow> bool" where
  "dump_item_ok (Inl noise) \<longleftrightarrow> 10 \<notin> set noise \<and> \<not> dump_head noise"
| "dump_item_ok (Inr (body, column)) \<longleftrightarrow> body \<noteq> [] \<and> 10 \<notin> set column \<and> list_all (\<lambda>(b, n). 0 < n) body"

fun dumped :: "dump_item list \<Rightarrow> bytes" where
  "dumped [] = []"
| "dumped (Inl noise # items) = dumped items"
| "dumped (Inr (body, column) # items) = map fst body @ dumped items"

fun dumped_lines :: "nat \<Rightarrow> dump_item list \<Rightarrow> (nat \<times> bytes) list" where
  "dumped_lines a [] = []"
| "dumped_lines a (Inl noise # items) = dumped_lines a items"
| "dumped_lines a (Inr (body, column) # items) = (a, map fst body) # dumped_lines (a + length body) items"

subsection \<open>Digits\<close>

lemma digit_facts:
  assumes "digits_printed dig" and "n < 16"
  shows "hex_point (dig n) = Some n" "is_hex (dig n)" "\<not> space_point (dig n)" "dig n \<noteq> 124" "dig n \<noteq> 10" "dig n \<noteq> 58"
proof -
  show h: "hex_point (dig n) = Some n" using assms by (simp add: digits_printed_def)
  then show "is_hex (dig n)" by (simp add: is_hex_def)
  show "\<not> space_point (dig n)" "dig n \<noteq> 124" "dig n \<noteq> 10" "dig n \<noteq> 58"
    using h by (auto simp: hex_point_def space_point_def split: if_splits)
qed

lemma hex_pair_value:
  assumes "digits_printed dig"
  shows "word_of_nat (hex_points (hex_pair dig b)) = b"
proof -
  have "unat b < 256" by simp
  then have "unat b div 16 < 16" "unat b mod 16 < 16" by simp_all
  then have "hex_points (hex_pair dig b) = 16 * (unat b div 16) + unat b mod 16"
    using assms by (simp add: hex_points_def hex_pair_def digit_facts)
  then show ?thesis by simp
qed

lemma hex_digits_value:
  assumes "digits_printed dig"
  shows "foldl (\<lambda>v c. case hex_point c of Some d \<Rightarrow> 16 * v + d | None \<Rightarrow> v) v (map (\<lambda>i. dig (a div 16 ^ i mod 16)) (rev [0..<n])) = v * 16 ^ n + a mod 16 ^ n"
proof (induction n arbitrary: v)
  case (Suc n)
  have "hex_point (dig (a div 16 ^ n mod 16)) = Some (a div 16 ^ n mod 16)" using assms by (simp add: digit_facts)
  moreover have "a mod 16 ^ Suc n = 16 ^ n * (a div 16 ^ n mod 16) + a mod 16 ^ n" by (simp add: power_Suc2 mod_mult2_eq del: power_Suc)
  ultimately show ?case using Suc by (simp add: algebra_simps)
qed simp

lemma hex_address_value: "digits_printed dig \<Longrightarrow> a < 2 ^ 32 \<Longrightarrow> hex_points (hex_address dig a) = a"
  unfolding hex_points_def hex_address_def by (subst hex_digits_value) simp_all

subsection \<open>One line\<close>

declare lazy_bar.simps [simp del]

lemma space_32 [simp]: "space_point 32" "\<not> space_point 124"
  by (simp_all add: space_point_def)

lemma bar_after_digit: "\<not> space_point c \<Longrightarrow> bar_after (c # rest) = None"
  by (simp add: bar_after_def)

lemma spaces_then:
  "\<not> space_point c \<Longrightarrow> takeWhile space_point (replicate n 32 @ c # rest) = replicate n 32"
  "\<not> space_point c \<Longrightarrow> dropWhile space_point (replicate n 32 @ c # rest) = c # rest"
  by (induction n) simp_all

lemma bar_after_spaces: "bar_after (replicate n 32 @ c # rest) = (if n \<noteq> 0 \<and> c = 124 then Some rest else None)" if "\<not> space_point c"
  using that by (simp add: bar_after_def spaces_then)

lemma lazy_bar_skip: "\<not> space_point c \<Longrightarrow> c \<noteq> 124 \<Longrightarrow> lazy_bar taken (replicate n 32 @ c # rest) = lazy_bar (taken @ replicate n 32) (c # rest)"
proof (induction n arbitrary: taken)
  case (Suc n)
  then have "bar_after (replicate (Suc n) 32 @ c # rest) = None" using bar_after_spaces [of c "Suc n" rest] by simp
  then have "lazy_bar taken (replicate (Suc n) 32 @ c # rest) = lazy_bar (taken @ [32]) (replicate n 32 @ c # rest)"
    by (subst lazy_bar.simps) simp
  with Suc show ?case by simp
qed simp

lemma lazy_bar_pair:
  assumes "digits_printed dig"
  shows "lazy_bar taken (hex_pair dig b @ rest) = lazy_bar (taken @ hex_pair dig b) rest"
proof -
  have u: "unat b div 16 < 16" "unat b mod 16 < 16" by simp_all
  note f = digit_facts [OF assms u(1)] digit_facts [OF assms u(2)]
  show ?thesis unfolding hex_pair_def
    by (simp add: lazy_bar.simps [of _ "dig (unat b div 16) # _"] lazy_bar.simps [of _ "dig (unat b mod 16) # _"] bar_after_digit f)
qed

fun without_tail :: "(nat \<Rightarrow> nat) \<Rightarrow> (byte \<times> nat) list \<Rightarrow> code_points" where
  "without_tail dig [] = []"
| "without_tail dig [(b, n)] = hex_pair dig b"
| "without_tail dig ((b, n) # body) = hex_pair dig b @ replicate n 32 @ without_tail dig body"

lemma lazy_bar_body:
  "digits_printed dig \<Longrightarrow> body \<noteq> [] \<Longrightarrow> list_all (\<lambda>(b, n). 0 < n) body \<Longrightarrow>
     lazy_bar taken (octets_text dig body @ 124 # rest) = Some (taken @ without_tail dig body, rest)"
proof (induction dig body arbitrary: taken rule: without_tail.induct)
  case (2 dig b n)
  then show ?case by (simp add: octets_text_def lazy_bar_pair lazy_bar.simps [of _ "replicate n 32 @ _"] bar_after_spaces)
next
  case (3 dig b n p body)
  obtain b' n' where p: "p = (b', n')" by fastforce
  let ?c = "dig (unat b' div 16)"
  have c: "\<not> space_point ?c" "?c \<noteq> 124" using digit_facts [OF 3(2), of "unat b' div 16"] by simp_all
  obtain t where t: "octets_text dig (p # body) @ 124 # rest = ?c # t" by (simp add: p octets_text_def hex_pair_def)
  have "lazy_bar taken (octets_text dig ((b, n) # p # body) @ 124 # rest)
      = lazy_bar (taken @ hex_pair dig b) (replicate n 32 @ octets_text dig (p # body) @ 124 # rest)"
    by (simp add: octets_text_def lazy_bar_pair [OF 3(2)])
  also have "\<dots> = lazy_bar (taken @ hex_pair dig b @ replicate n 32) (octets_text dig (p # body) @ 124 # rest)"
    unfolding t lazy_bar_skip [OF c] by simp
  finally show ?case using 3 by simp
qed simp

lemma hex_runs_pair:
  assumes "digits_printed dig"
  shows "hex_runs current (hex_pair dig b @ rest) = hex_runs (current @ hex_pair dig b) rest"
proof -
  have u: "unat b div 16 < 16" "unat b mod 16 < 16" by simp_all
  show ?thesis using digit_facts(2) [OF assms u(1)] digit_facts(2) [OF assms u(2)] by (simp add: hex_pair_def)
qed

lemma not_hex_32 [simp]: "\<not> is_hex 32"
  by (simp add: is_hex_def hex_point_def)

lemma hex_runs_spaces: "filter (\<lambda>p. length p = 2) (hex_runs [] (replicate n 32 @ rest)) = filter (\<lambda>p. length p = 2) (hex_runs [] rest)"
  by (induction n) simp_all

lemma octets_without_tail:
  "digits_printed dig \<Longrightarrow> list_all (\<lambda>(b, n). 0 < n) body \<Longrightarrow> octets_of (without_tail dig body) = map fst body"
proof (induction dig body rule: without_tail.induct)
  case (2 dig b n)
  then have "hex_runs [] (hex_pair dig b) = [hex_pair dig b]" using hex_runs_pair [of dig "[]" b "[]"] by simp
  with 2 show ?case by (simp add: octets_of_def hex_pair_def [of dig b] hex_pair_value [unfolded hex_pair_def])
next
  case (3 dig b n p body)
  then obtain m where n: "n = Suc m" by (cases n) auto
  have "octets_of (hex_pair dig b @ replicate n 32 @ without_tail dig (p # body)) = b # octets_of (without_tail dig (p # body))"
    using 3(2) by (simp add: octets_of_def hex_runs_pair n hex_runs_spaces hex_pair_value) (simp add: hex_pair_def)
  with 3 show ?case by simp
qed (simp add: octets_of_def)

lemma dump_line_printed:
  assumes "digits_printed dig" and "a < 2 ^ 32" and "body \<noteq> []" and "list_all (\<lambda>(b, n). 0 < n) body"
  shows "dump_line (hex_address dig a @ [58, 32] @ octets_text dig body @ [124] @ rest) = Some ((a, without_tail dig body), rest)"
proof -
  let ?t = "32 # octets_text dig body @ 124 # rest"
  have len: "length (hex_address dig a) = 8" by (simp add: hex_address_def)
  have "list_all is_hex (hex_address dig a)" using assms(1) by (auto simp: hex_address_def list_all_iff digit_facts)
  then have head: "dump_head (hex_address dig a @ 58 # ?t)" by (simp add: dump_head_def len nth_append)
  obtain b n body' where body: "body = (b, n) # body'" using assms(3) by (cases body) auto
  have "\<not> space_point (dig (unat b div 16))" using assms(1) by (simp add: digit_facts)
  then have "takeWhile space_point ?t = [32]" by (simp add: body octets_text_def hex_pair_def)
  moreover have "lazy_bar [] (octets_text dig body @ 124 # rest) = Some (without_tail dig body, rest)"
    using lazy_bar_body [OF assms(1,3,4), of "[]"] by simp
  ultimately have "dump_octets (length (takeWhile space_point ?t)) ?t = Some (without_tail dig body, rest)" by simp
  with head show ?thesis by (simp add: dump_line_def len Let_def hex_address_value [OF assms(1,2)])
qed

subsection \<open>The whole text\<close>

lemma finditer_skip: "10 \<notin> set xs \<Longrightarrow> finditer m False (xs @ 10 # rest) = finditer m True rest"
  by (induction xs) auto

lemma finditer_tail: "10 \<notin> set xs \<Longrightarrow> finditer m False xs = []"
  by (induction xs) auto

lemma dump_head_noise: "10 \<notin> set noise \<Longrightarrow> \<not> dump_head noise \<Longrightarrow> \<not> dump_head (noise @ 10 # rest)"
proof
  assume h: "10 \<notin> set noise" "\<not> dump_head noise" "dump_head (noise @ 10 # rest)"
  have "\<not> is_hex 10" by (simp add: is_hex_def hex_point_def)
  show False
  proof (cases "length noise < 8")
    case True
    then have "10 \<in> set (take 8 (noise @ 10 # rest))" by (cases "8 - length noise") auto
    with h(3) \<open>\<not> is_hex 10\<close> show False by (auto simp: dump_head_def list_all_iff)
  next
    case False
    with h show False by (cases "length noise = 8") (auto simp: dump_head_def nth_append)
  qed
qed

lemma finditer_noise:
  assumes "10 \<notin> set noise" and "\<not> dump_head noise"
  shows "finditer dump_line True (noise @ 10 # rest) = finditer dump_line True rest"
proof -
  have "dump_line (noise @ 10 # rest) = None" using dump_head_noise [OF assms] by (simp add: dump_line_def)
  with assms(1) show ?thesis by (cases noise) (auto simp: finditer_skip)
qed

lemma finditer_line:
  assumes "dump_line (pre @ 124 # column @ 10 # rest) = Some (v, column @ 10 # rest)" and "10 \<notin> set column"
  shows "finditer dump_line True (pre @ 124 # column @ 10 # rest) = v # finditer dump_line True rest"
proof -
  let ?s = "pre @ 124 # column @ 10 # rest"
  obtain c cs where s: "?s = c # cs" by (cases ?s) auto
  have len: "length cs = length pre + Suc (length column + length rest)" using arg_cong [OF s, of length] by simp
  have "(c # cs) ! (length cs - length (column @ 10 # rest)) = 124" unfolding s [symmetric] by (simp add: len nth_append)
  then have "finditer dump_line True (c # cs) = v # finditer dump_line False (column @ 10 # rest)"
    using assms(1) unfolding s by (simp add: len)
  with assms(2) show ?thesis unfolding s by (simp add: finditer_skip)
qed

fun printed_lines :: "(nat \<Rightarrow> nat) \<Rightarrow> nat \<Rightarrow> dump_item list \<Rightarrow> (nat \<times> code_points) list" where
  "printed_lines dig a [] = []"
| "printed_lines dig a (Inl noise # items) = printed_lines dig a items"
| "printed_lines dig a (Inr (body, column) # items) = (a, without_tail dig body) # printed_lines dig (a + length body) items"

lemma finditer_text:
  assumes "10 \<notin> set prompt" and "\<not> dump_head prompt"
  shows "digits_printed dig \<Longrightarrow> list_all dump_item_ok items \<Longrightarrow> a + length (dumped items) \<le> 2 ^ 32 \<Longrightarrow>
     finditer dump_line True (dump_text dig a items @ prompt) = printed_lines dig a items"
proof (induction dig a items rule: printed_lines.induct)
  case (1 dig a)
  have "dump_line prompt = None" using assms(2) by (simp add: dump_line_def)
  with assms(1) show ?case by (cases prompt) (auto simp: finditer_tail)
next
  case (2 dig a noise items)
  then show ?case by (simp add: finditer_noise)
next
  case (3 dig a body column items)
  let ?pre = "hex_address dig a @ [58, 32] @ octets_text dig body" and ?rest = "dump_text dig (a + length body) items @ prompt"
  from 3(3,4) have "a < 2 ^ 32" by (cases body) auto
  with 3 have "dump_line (?pre @ 124 # column @ 10 # ?rest) = Some ((a, without_tail dig body), column @ 10 # ?rest)"
    using dump_line_printed [of dig a body "column @ 10 # ?rest"] by simp
  from finditer_line [OF this] 3 show ?case by simp
qed

lemma dump_chunks_printed:
  "digits_printed dig \<Longrightarrow> list_all dump_item_ok items \<Longrightarrow> list_all (\<lambda>(b, _). b < a) chunks \<Longrightarrow>
     dump_chunks chunks (printed_lines dig a items) = Inr (chunks @ dumped_lines a items)"
proof (induction dig a items arbitrary: chunks rule: printed_lines.induct)
  case (3 dig a body column items)
  then have octets: "octets_of (without_tail dig body) = map fst body" and "body \<noteq> []" by (simp_all add: octets_without_tail)
  have fresh: "a \<notin> fst ` set chunks" using 3(4) by (auto simp: list_all_iff)
  have "list_all (\<lambda>(b, _). b < a + length body) (chunks @ [(a, map fst body)])"
    using 3(4) \<open>body \<noteq> []\<close> by (auto simp: list_all_iff)
  from 3(1) [OF 3(2) _ this] 3(3) octets fresh \<open>body \<noteq> []\<close> show ?case by simp
qed simp_all

lemma dumped_lines_above: "(b, chunk) \<in> set (dumped_lines a items) \<Longrightarrow> a \<le> b"
  by (induction a items rule: dumped_lines.induct) auto

lemma dumped_lines_sorted: "sorted (map fst (dumped_lines a items))"
  by (induction a items rule: dumped_lines.induct) (auto dest: dumped_lines_above)

lemma dump_join_printed: "dump_join expected data (dumped_lines (expected + length data) items) = Inr (data @ dumped items)"
proof (induction items arbitrary: data)
  case (Cons item items)
  show ?case
  proof (cases item)
    case (Inl noise)
    with Cons show ?thesis by simp
  next
    case (Inr p)
    obtain body column where "p = (body, column)" by fastforce
    with Inr Cons [of "data @ map fst body"] show ?thesis by (simp add: add.assoc)
  qed
qed simp

text \<open>
  C37. The reader of the memory dump inverts the shell's printer: whatever other lines surround the dump and whatever its text column holds, a dump printed
  from an address on, in lines of any length and with any spacing, is read back as exactly the bytes that were printed.
\<close>

theorem eeprom_dump_roundtrip:
  assumes "digits_printed dig" and "list_all dump_item_ok items" and "a + length (dumped items) \<le> 2 ^ 32"
    and "10 \<notin> set prompt" and "\<not> dump_head prompt"
  shows "parse_eeprom_dump (dump_text dig a items @ prompt) a (length (dumped items)) = Inr (dumped items)"
proof -
  have "sort_key fst (dumped_lines a items) = dumped_lines a items" by (rule sort_key_id_if_sorted) (rule dumped_lines_sorted)
  moreover have "dump_join a [] (dumped_lines a items) = Inr (dumped items)" using dump_join_printed [of a "[]" items] by simp
  ultimately show ?thesis
    using dump_chunks_printed [OF assms(1,2), of a "[]"] finditer_text [OF assms(4,5,1,2,3)] by (simp add: parse_eeprom_dump_def)
qed

text \<open>Lower-case digits; an echoed command, two lines of two bytes, a prompt.\<close>

definition lower_digit :: "nat \<Rightarrow> nat" where
  "lower_digit n = (if n < 10 then n + 48 else n + 87)"

definition sample_items :: "dump_item list" where
  "sample_items = [Inl (code_points_of ''eeprom read''), Inr ([(0x12, 1), (0xAB, 2)], [46, 46, 124]), Inr ([(0xFF, 3), (0x00, 1)], [])]"

theorem eeprom_dump_roundtrip_witness:
  "digits_printed lower_digit \<and> list_all dump_item_ok sample_items \<and> 16 + length (dumped sample_items) \<le> 2 ^ 32
   \<and> parse_eeprom_dump (dump_text lower_digit 16 sample_items @ code_points_of ''uart:~$ '') 16 4 = Inr [0x12, 0xAB, 0xFF, 0x00]"
proof -
  have digits: "digits_printed lower_digit" by (auto simp: digits_printed_def lower_digit_def hex_point_def)
  have items: "list_all dump_item_ok sample_items" by (simp add: sample_items_def dump_head_def code_points_of_def)
  have data: "dumped sample_items = [0x12, 0xAB, 0xFF, 0x00]" by (simp add: sample_items_def)
  have prompt: "10 \<notin> set (code_points_of ''uart:~$ '')" "\<not> dump_head (code_points_of ''uart:~$ '')"
    by (simp_all add: code_points_of_def dump_head_def)
  have four: "length (dumped sample_items) = 4" by (simp add: data)
  have room: "16 + length (dumped sample_items) \<le> 2 ^ 32" by (simp add: data)
  from eeprom_dump_roundtrip [OF digits items room prompt, unfolded four, unfolded data] room digits items show ?thesis by blast
qed

end
