(* ===== verification/Csv.thy ===== *)
theory Csv
  imports Pyfloat
begin

section \<open>Reading CSV\<close>

text \<open>
  What \<open>csv.DictReader\<close> does to a file opened with \<open>newline=""\<close>, in the default dialect: lines keep their ends, the reader is a state machine on
  the characters of a line followed by an end token, a row may span lines, an unterminated quoted field at the end of the file
  is a field, and a field has at most 131072 characters.
\<close>

datatype csv_error = CsvNewlineInField | CsvFieldLimit

datatype csv_state = StartRecord | StartField | InField | InQuoted | QuoteInQuoted | EatNewline

record csv_parser =
  cv_state :: csv_state
  cv_field :: code_points
  cv_fields :: "code_points list"

definition csv_start :: csv_parser where
  "csv_start = \<lparr>cv_state = StartRecord, cv_field = [], cv_fields = []\<rparr>"

definition csv_save :: "csv_state \<Rightarrow> csv_parser \<Rightarrow> csv_parser" where
  "csv_save st p = \<lparr>cv_state = st, cv_field = [], cv_fields = cv_fields p @ [cv_field p]\<rparr>"

definition csv_add :: "csv_state \<Rightarrow> nat \<Rightarrow> csv_parser \<Rightarrow> csv_error + csv_parser" where
  "csv_add st c p =
     (if 131072 \<le> length (cv_field p) then Inl CsvFieldLimit else Inr (p\<lparr>cv_state := st, cv_field := cv_field p @ [c]\<rparr>))"

text \<open>The end of a field: the end token (\<^const>\<open>None\<close>) completes the record, a newline waits for it.\<close>

definition csv_end :: "nat option \<Rightarrow> csv_state" where
  "csv_end c = (if c = None then StartRecord else EatNewline)"

definition csv_char :: "nat option \<Rightarrow> csv_parser \<Rightarrow> csv_error + csv_parser" where
  "csv_char c p =
     (let stops = c \<in> {None, Some 10, Some 13};
          field_start = (\<lambda>p. if stops then Inr (csv_save (csv_end c) p)
             else if c = Some 34 then Inr (p\<lparr>cv_state := InQuoted\<rparr>)
             else if c = Some 44 then Inr (csv_save StartField p)
             else csv_add InField (the c) p) in
      case cv_state p of
        StartRecord \<Rightarrow>
          if c = None then Inr p
          else if stops then Inr (p\<lparr>cv_state := EatNewline\<rparr>)
          else field_start p
      | StartField \<Rightarrow> field_start p
      | InField \<Rightarrow>
          if stops then Inr (csv_save (csv_end c) p)
          else if c = Some 44 then Inr (csv_save StartField p)
          else csv_add InField (the c) p
      | InQuoted \<Rightarrow>
          if c = None then Inr p
          else if c = Some 34 then Inr (p\<lparr>cv_state := QuoteInQuoted\<rparr>)
          else csv_add InQuoted (the c) p
      | QuoteInQuoted \<Rightarrow>
          if c = Some 34 then csv_add InQuoted 34 p
          else if c = Some 44 then Inr (csv_save StartField p)
          else if stops then Inr (csv_save (csv_end c) p)
          else csv_add InField (the c) p
      | EatNewline \<Rightarrow>
          if c = None then Inr (p\<lparr>cv_state := StartRecord\<rparr>)
          else if stops then Inr p
          else Inl CsvNewlineInField)"

fun csv_chars :: "nat option list \<Rightarrow> csv_parser \<Rightarrow> csv_error + csv_parser" where
  "csv_chars [] p = Inr p"
| "csv_chars (c # cs) p = bindR (csv_char c p) (csv_chars cs)"

definition csv_line_in :: "code_points \<Rightarrow> csv_parser \<Rightarrow> csv_error + csv_parser" where
  "csv_line_in l = csv_chars (map Some l @ [None])"

text \<open>Lines with their ends: after a line feed, a carriage return, or both.\<close>

fun text_lines :: "code_points \<Rightarrow> code_points \<Rightarrow> code_points list" where
  "text_lines current [] = (if current = [] then [] else [current])"
| "text_lines current (c # cs) =
     (if c = 10 then (current @ [10]) # text_lines [] cs
      else if c = 13 then
        (case cs of
           d # rest \<Rightarrow> if d = 10 then (current @ [13, 10]) # text_lines [] rest else (current @ [13]) # text_lines [] cs
         | [] \<Rightarrow> [current @ [13]])
      else text_lines (current @ [c]) cs)"

text \<open>\<open>next(reader)\<close>: a row and the lines left, or nothing.\<close>

fun csv_row :: "csv_parser \<Rightarrow> code_points list \<Rightarrow> csv_error + (code_points list \<times> code_points list) option" where
  "csv_row p [] = Inr (if cv_field p \<noteq> [] \<or> cv_state p = InQuoted then Some (cv_fields p @ [cv_field p], []) else None)"
| "csv_row p (l # ls) =
     bindR (csv_line_in l p) (\<lambda>p'. if cv_state p' = StartRecord then Inr (Some (cv_fields p', ls)) else csv_row p' ls)"

lemma csv_row_shorter: "csv_row p (l # ls) = Inr (Some (row, rest)) \<Longrightarrow> length rest \<le> length ls"
proof (induction ls arbitrary: p l)
  case Nil
  then show ?case by (auto simp: result_simps split: if_splits)
next
  case (Cons k ks)
  from Cons.prems obtain p' where "csv_line_in l p = Inr p'"
    "(if cv_state p' = StartRecord then Inr (Some (cv_fields p', k # ks)) else csv_row p' (k # ks)) = Inr (Some (row, rest))"
    by (auto simp: result_simps)
  with Cons.IH [of p' k] show ?case by (fastforce split: if_splits)
qed

text \<open>Every row to come; an error ends the iteration.\<close>

function csv_rows :: "code_points list \<Rightarrow> (csv_error + code_points list) list" where
  "csv_rows [] = []"
| "csv_rows (l # ls) =
     (case csv_row csv_start (l # ls) of
        Inl e \<Rightarrow> [Inl e]
      | Inr None \<Rightarrow> []
      | Inr (Some (row, rest)) \<Rightarrow> Inr row # csv_rows rest)"
  by pat_completeness auto
termination
  by (relation "measure length") (auto simp del: csv_row.simps dest: csv_row_shorter)

text \<open>
  \<open>float(s)\<close> of text: other white space counts as a space and other decimal digits as digits, any other character beyond ASCII is
  refused.
\<close>

definition ascii_of_point :: "nat \<Rightarrow> char" where
  "ascii_of_point c =
     (if c < 128 then char_of c
      else if space_point c then CHR '' ''
      else case decimal_point c of Some d \<Rightarrow> char_of (48 + d) | None \<Rightarrow> CHR ''?'')"

definition float_of_points :: "code_points \<Rightarrow> pyfloat option" where
  "float_of_points s = py_float (map ascii_of_point s)"

end
