(* ===== verification/Power_Summary.thy ===== *)
theory Power_Summary
  imports Csv Sampling
begin

section \<open>Power captures\<close>

text \<open>
  Models \<open>summarize_capture\<close> of \<open>src/tools/nrfkit_tools/power.py\<close> and \<open>_envelope\<close> of \<open>src/tools/nrfkit_tools/power_report.py\<close>. The file is decoded as a whole: one that is
  not UTF-8 is refused as such even where an earlier row would have been refused first.
\<close>

datatype power_error =
    PowVoltage
  | PowLimits
  | PowCannotOpen
  | PowHeader
  | PowNotNumeric nat
  | PowInvalidValue nat
  | PowNotIncreasing
  | PowTooFew
  | PowTooShort
  | PowGapTooLong
  | PowCsv csv_error
  | PowUnicode
  | PowZeroDivision
  | PowBucketLimits
  | PowFewBuckets

definition power_columns :: "code_points list" where
  "power_columns = [code_points_of ''time_s'', code_points_of ''current_a'']"

text \<open>The header and the rows \<open>csv.DictReader\<close> yields after it; empty rows are skipped, surplus columns are ignored.\<close>

definition dict_rows :: "bytes \<Rightarrow> power_error + (csv_error + code_points list) list" where
  "dict_rows content =
     (case utf8_decode content of
        None \<Rightarrow> Inl PowUnicode
      | Some s \<Rightarrow>
          (case csv_rows (text_lines [] s) of
             [] \<Rightarrow> Inl PowHeader
           | Inl e # _ \<Rightarrow> Inl (PowCsv e)
           | Inr header # rows \<Rightarrow> if header \<noteq> power_columns then Inl PowHeader else Inr (filter (\<lambda>r. r \<noteq> Inr []) rows)))"

definition row_numbers :: "code_points list \<Rightarrow> (pyfloat \<times> pyfloat) option" where
  "row_numbers row =
     (case row of
        a # b # _ \<Rightarrow>
          (case (float_of_points a, float_of_points b) of (Some t, Some i) \<Rightarrow> Some (t, i) | _ \<Rightarrow> None)
      | _ \<Rightarrow> None)"

record power_sweep =
  sw_first :: "pyfloat option"
  sw_previous :: "(pyfloat \<times> pyfloat) option"
  sw_charge :: pyfloat
  sw_minimum :: pyfloat
  sw_peak :: pyfloat
  sw_negative :: nat
  sw_gap :: pyfloat
  sw_count :: nat

definition sweep_start :: power_sweep where
  "sweep_start = \<lparr>sw_first = None, sw_previous = None, sw_charge = Fin 0, sw_minimum = Infinite False, sw_peak = Infinite True,
     sw_negative = 0, sw_gap = Fin 0, sw_count = 0\<rparr>"

definition half :: "pyfloat \<Rightarrow> pyfloat" where
  "half x = (case fdiv x (Fin 2) of Some y \<Rightarrow> y | None \<Rightarrow> NaN)"

text \<open>A sample: its distance from the one before, and the trapezoid between them.\<close>

definition sweep_step :: "pyfloat \<Rightarrow> pyfloat \<Rightarrow> power_sweep \<Rightarrow> power_error + power_sweep" where
  "sweep_step t i w =
     (let next = (\<lambda>w. w\<lparr>sw_previous := Some (t, i), sw_minimum := fmin (sw_minimum w) i, sw_peak := fmax (sw_peak w) i,
            sw_negative := sw_negative w + of_bool (fless i (Fin 0)), sw_count := sw_count w + 1\<rparr>) in
      case (sw_first w, sw_previous w) of
        (None, _) \<Rightarrow> Inr (next (w\<lparr>sw_first := Some t\<rparr>))
      | (Some _, None) \<Rightarrow> Inr (next w)
      | (Some _, Some (t', i')) \<Rightarrow>
          let gap = fsub t t' in
          if fle gap (Fin 0) then Inl PowNotIncreasing
          else Inr (next (w\<lparr>sw_gap := fmax (sw_gap w) gap, sw_charge := fadd (sw_charge w) (half (fmul gap (fadd i' i)))\<rparr>)))"

fun sweep_rows :: "nat \<Rightarrow> (csv_error + code_points list) list \<Rightarrow> power_sweep \<Rightarrow> power_error + power_sweep" where
  "sweep_rows n [] w = Inr w"
| "sweep_rows n (Inl e # rows) w = Inl (PowCsv e)"
| "sweep_rows n (Inr row # rows) w =
     (case row_numbers row of
        None \<Rightarrow> Inl (PowNotNumeric n)
      | Some (t, i) \<Rightarrow>
          if \<not> isfinite t \<or> \<not> isfinite i then Inl (PowInvalidValue n)
          else bindR (sweep_step t i w) (sweep_rows (n + 1) rows))"

record power_summary =
  pw_sample_count :: nat
  pw_duration :: pyfloat
  pw_maximum_gap :: pyfloat
  pw_average :: pyfloat
  pw_minimum :: pyfloat
  pw_peak :: pyfloat
  pw_negative_samples :: nat
  pw_charge :: pyfloat
  pw_energy :: pyfloat

definition finish_sweep :: "pyfloat \<Rightarrow> pyfloat \<Rightarrow> pyfloat \<Rightarrow> power_sweep \<Rightarrow> power_error + power_summary" where
  "finish_sweep voltage minimum_duration maximum_gap w =
     (case (sw_first w, sw_previous w) of
        (Some first, Some (stop, _)) \<Rightarrow>
          if sw_count w < 2 then Inl PowTooFew
          else let duration = fsub stop first in
            if fless duration minimum_duration then Inl PowTooShort
            else if fless maximum_gap (sw_gap w) then Inl PowGapTooLong
            else bindR (quotient PowZeroDivision (sw_charge w) duration) (\<lambda>average.
              Inr \<lparr>pw_sample_count = sw_count w, pw_duration = duration, pw_maximum_gap = sw_gap w, pw_average = average,
                   pw_minimum = sw_minimum w, pw_peak = sw_peak w, pw_negative_samples = sw_negative w, pw_charge = sw_charge w,
                   pw_energy = fmul (sw_charge w) voltage\<rparr>)
      | _ \<Rightarrow> Inl PowTooFew)"

definition summarize_capture :: "filesystem \<Rightarrow> path \<Rightarrow> pyfloat \<Rightarrow> pyfloat \<Rightarrow> pyfloat \<Rightarrow> power_error + power_summary" where
  "summarize_capture fs p voltage minimum_duration maximum_gap =
     (if \<not> isfinite voltage \<or> fle voltage (Fin 0) then Inl PowVoltage
      else if fle minimum_duration (Fin 0) \<or> fle maximum_gap (Fin 0) then Inl PowLimits
      else case fs p of
        None \<Rightarrow> Inl PowCannotOpen
      | Some content \<Rightarrow>
          bindR (dict_rows content) (\<lambda>rows.
          bindR (sweep_rows 2 rows sweep_start) (finish_sweep voltage minimum_duration maximum_gap)))"

subsection \<open>The envelope of a report\<close>

text \<open>\<open>round(x, n)\<close>: to the nearest multiple of \<open>10^-n\<close>, ties to even, keeping the sign of a zero.\<close>

definition fround :: "nat \<Rightarrow> pyfloat \<Rightarrow> pyfloat" where
  "fround n x =
     (case x of
        Fin q \<Rightarrow> (let k = round_half_even (q * 10 ^ n) in if k = 0 then signed_zero (q < 0) else dbl (of_int k / 10 ^ n))
      | _ \<Rightarrow> x)"

record envelope_state =
  ev_buckets :: "pyfloat list list"
  ev_count :: nat
  ev_start :: pyfloat
  ev_stop :: pyfloat
  ev_sum :: pyfloat
  ev_low :: pyfloat
  ev_high :: pyfloat

definition envelope_start :: envelope_state where
  "envelope_start = \<lparr>ev_buckets = [], ev_count = 0, ev_start = Fin 0, ev_stop = Fin 0, ev_sum = Fin 0, ev_low = Fin 0, ev_high = Fin 0\<rparr>"

definition bucket_of :: "envelope_state \<Rightarrow> power_error + pyfloat list" where
  "bucket_of e =
     bindR (quotient PowZeroDivision (ev_sum e) (dbl (of_nat (ev_count e)))) (\<lambda>mean.
       Inr [fround 6 (half (fadd (ev_start e) (ev_stop e))), fround 3 (ev_low e), fround 3 (ev_high e), fround 3 mean])"

definition envelope_step :: "nat \<Rightarrow> pyfloat \<Rightarrow> pyfloat \<Rightarrow> envelope_state \<Rightarrow> power_error + envelope_state" where
  "envelope_step bucket_size t i e0 =
     (let e1 = (if ev_count e0 = 0 then e0\<lparr>ev_start := t, ev_low := i, ev_high := i\<rparr> else e0);
          e = e1\<lparr>ev_stop := t, ev_low := fmin (ev_low e1) i, ev_high := fmax (ev_high e1) i, ev_sum := fadd (ev_sum e1) i, ev_count := ev_count e1 + 1\<rparr> in
      if ev_count e = bucket_size
      then bindR (bucket_of e) (\<lambda>b. Inr (e\<lparr>ev_buckets := ev_buckets e @ [b], ev_count := 0, ev_sum := Fin 0\<rparr>))
      else Inr e)"

fun envelope_rows :: "nat \<Rightarrow> nat \<Rightarrow> (csv_error + code_points list) list \<Rightarrow> envelope_state \<Rightarrow> power_error + envelope_state" where
  "envelope_rows bucket_size n [] e = Inr e"
| "envelope_rows bucket_size n (Inl err # rows) e = Inl (PowCsv err)"
| "envelope_rows bucket_size n (Inr row # rows) e =
     (case row_numbers row of
        None \<Rightarrow> Inl (PowNotNumeric n)
      | Some (t, a) \<Rightarrow>
          let i = fmul a (Fin 1000000) in
          if \<not> isfinite t \<or> \<not> isfinite i then Inl (PowInvalidValue n)
          else bindR (envelope_step bucket_size t i e) (envelope_rows bucket_size (n + 1) rows))"

definition envelope :: "filesystem \<Rightarrow> path \<Rightarrow> int \<Rightarrow> int \<Rightarrow> power_error + pyfloat list list" where
  "envelope fs p sample_count bucket_limit =
     (if sample_count < 2 \<or> bucket_limit < 2 then Inl PowBucketLimits
      else let bucket_size = nat (max 1 \<lceil>num (dbl (of_int sample_count / of_int bucket_limit))\<rceil>) in
        case fs p of
          None \<Rightarrow> Inl PowCannotOpen
        | Some content \<Rightarrow>
            bindR (dict_rows content) (\<lambda>rows.
            bindR (envelope_rows bucket_size 2 rows envelope_start) (\<lambda>e.
            bindR (if ev_count e = 0 then Inr (ev_buckets e) else bindR (bucket_of e) (\<lambda>b. Inr (ev_buckets e @ [b]))) (\<lambda>buckets.
              if length buckets < 2 then Inl PowFewBuckets else Inr buckets))))"

end
