(* ===== verification/Power_Summary_Correct.thy ===== *)
theory Power_Summary_Correct
  imports Power_Summary
begin

section \<open>Correctness of capture summaries\<close>

text \<open>What an accepted capture guarantees, and that its summary is that of its samples.\<close>

type_synonym power_sample = "pyfloat \<times> pyfloat"

fun between :: "(power_sample \<Rightarrow> power_sample \<Rightarrow> 'b) \<Rightarrow> power_sample list \<Rightarrow> 'b list" where
  "between f (x # y # rest) = f x y # between f (y # rest)"
| "between f _ = []"

definition sample_gap :: "power_sample \<Rightarrow> power_sample \<Rightarrow> pyfloat" where
  "sample_gap x y = fsub (fst y) (fst x)"

definition trapezoid :: "power_sample \<Rightarrow> power_sample \<Rightarrow> pyfloat" where
  "trapezoid x y = half (fmul (sample_gap x y) (fadd (snd x) (snd y)))"

text \<open>The samples of a file: every row after the header that is not empty, read as two numbers.\<close>

definition capture_samples_of :: "bytes \<Rightarrow> power_sample list option" where
  "capture_samples_of content =
     (case dict_rows content of
        Inl _ \<Rightarrow> None
      | Inr rows \<Rightarrow> those (map (\<lambda>r. case r of Inl _ \<Rightarrow> None | Inr row \<Rightarrow> row_numbers row) rows))"

lemma between_snoc: "xs \<noteq> [] \<Longrightarrow> between f (xs @ [y]) = between f xs @ [f (last xs) y]"
  by (induction f xs rule: between.induct) auto

subsection \<open>Floats\<close>

lemma dbl_nonpositive: "q \<le> 0 \<Longrightarrow> fle (dbl q) (Fin 0)"
proof -
  assume "q \<le> 0"
  have "0 \<le> round_positive \<bar>q\<bar>" if "q \<noteq> 0"
  proof -
    have "0 \<le> round_half_even (\<bar>q\<bar> / pow2 e)" for e
      by (rule round_half_even_bounds(1)) (simp add: less_imp_le)
    then show ?thesis unfolding round_positive_def Let_def by (intro mult_nonneg_nonneg) (simp_all add: less_imp_le)
  qed
  with \<open>q \<le> 0\<close> show ?thesis by (auto simp: dbl_def Let_def fle_def feq_def fless_def signed_zero_def)
qed

lemma fsub_finite: "isfinite a \<Longrightarrow> isfinite b \<Longrightarrow> fsub a b = NegZero \<or> fsub a b = dbl (num a - num b)"
  by (cases a; cases b) (auto simp: fsub_def fadd_def)

lemma fsub_positive: "isfinite a \<Longrightarrow> isfinite b \<Longrightarrow> \<not> fle (fsub a b) (Fin 0) \<Longrightarrow> num b < num a"
proof (rule ccontr)
  assume "isfinite a" "isfinite b" and pos: "\<not> fle (fsub a b) (Fin 0)" and "\<not> num b < num a"
  then have "fle (dbl (num a - num b)) (Fin 0)" by (intro dbl_nonpositive) simp
  moreover have "fle NegZero (Fin 0)" by (simp add: fle_def feq_def)
  ultimately show False using fsub_finite [OF \<open>isfinite a\<close> \<open>isfinite b\<close>] pos by metis
qed

lemma fless_fmax: "a \<noteq> NaN \<Longrightarrow> b \<noteq> NaN \<Longrightarrow> \<not> fless limit (fmax a b) \<longleftrightarrow> \<not> fless limit a \<and> \<not> fless limit b"
  by (cases limit; cases a; cases b) (auto simp: fmax_def fless_def)

lemma fmax_not_NaN: "a \<noteq> NaN \<Longrightarrow> b \<noteq> NaN \<Longrightarrow> fmax a b \<noteq> NaN"
  by (simp add: fmax_def)

lemma foldl_fmax_limit:
  assumes "list_all (\<lambda>g. g \<noteq> NaN) gs" and "a \<noteq> NaN"
  shows "\<not> fless limit (foldl fmax a gs) \<longleftrightarrow> \<not> fless limit a \<and> list_all (\<lambda>g. \<not> fless limit g) gs"
  using assms by (induction gs arbitrary: a) (auto simp: fless_fmax fmax_not_NaN)

lemma gap_not_NaN: "isfinite a \<Longrightarrow> isfinite b \<Longrightarrow> fsub a b \<noteq> NaN"
  using fsub_finite [of a b] dbl_cases [of "num a - num b"] by auto

lemma tally_low_peak: "ta_low (tally_of cs) = foldl fmin (Infinite False) cs" "ta_peak (tally_of cs) = foldl fmax (Infinite True) cs"
  by (induction cs rule: rev_induct) (auto simp: tally_of_snoc tally_add_def, simp_all add: tally_of_def tally_init_def)

subsection \<open>The sweep\<close>

definition swept :: "power_sample list \<Rightarrow> power_sweep" where
  "swept xs = \<lparr>sw_first = (if xs = [] then None else Some (fst (hd xs))), sw_previous = (if xs = [] then None else Some (last xs)),
     sw_charge = foldl fadd (Fin 0) (between trapezoid xs), sw_minimum = foldl fmin (Infinite False) (map snd xs),
     sw_peak = foldl fmax (Infinite True) (map snd xs), sw_negative = length (filter (\<lambda>x. fless (snd x) (Fin 0)) xs),
     sw_gap = foldl fmax (Fin 0) (between sample_gap xs), sw_count = length xs\<rparr>"

definition in_order :: "power_sample list \<Rightarrow> bool" where
  "in_order xs \<longleftrightarrow> list_all (\<lambda>x. isfinite (fst x) \<and> isfinite (snd x)) xs \<and> sorted_wrt (\<lambda>x y. num (fst x) < num (fst y)) xs"

lemma sweep_step_swept:
  assumes "in_order xs" and "isfinite t" and "isfinite i" and "sweep_step t i (swept xs) = Inr w"
  shows "w = swept (xs @ [(t, i)]) \<and> in_order (xs @ [(t, i)])"
proof (cases "xs = []")
  case True
  with assms show ?thesis by (auto simp: sweep_step_def swept_def in_order_def Let_def)
next
  case False
  obtain t' i' where l: "last xs = (t', i')" by fastforce
  then have "(t', i') \<in> set xs" using False by (metis last_in_set)
  with assms(1) have fin: "isfinite t'" by (auto simp: in_order_def list_all_iff)
  from assms(4) False l have w: "w = swept (xs @ [(t, i)])" and pos: "\<not> fle (fsub t t') (Fin 0)"
    by (auto simp: sweep_step_def swept_def Let_def between_snoc sample_gap_def trapezoid_def split: if_splits)
  have less: "num t' < num t" using fsub_positive [OF assms(2) fin pos] .
  define ys where "ys = butlast xs"
  have xs: "xs = ys @ [(t', i')]" using append_butlast_last_id [OF False] l by (simp add: ys_def)
  have "num (fst x) < num t" if "x \<in> set xs" for x
    using that less assms(1) unfolding xs in_order_def by (auto simp: sorted_wrt_append)
  with w assms(1-3) show ?thesis by (auto simp: in_order_def sorted_wrt_append)
qed

lemma sweep_rows_swept:
  "in_order xs \<Longrightarrow> sweep_rows n rows (swept xs) = Inr w \<Longrightarrow>
     \<exists>ys. those (map (\<lambda>r. case r of Inl _ \<Rightarrow> None | Inr row \<Rightarrow> row_numbers row) rows) = Some ys \<and> w = swept (xs @ ys) \<and> in_order (xs @ ys)"
proof (induction rows arbitrary: xs n)
  case (Cons r rows)
  then obtain row t i w1 where r: "r = Inr row" "row_numbers row = Some (t, i)" "isfinite t" "isfinite i"
    "sweep_step t i (swept xs) = Inr w1" "sweep_rows (n + 1) rows w1 = Inr w"
    by (cases r) (auto simp: result_simps split: option.splits if_splits)
  from sweep_step_swept [OF Cons.prems(1) r(3-5)] have w1: "w1 = swept (xs @ [(t, i)])" "in_order (xs @ [(t, i)])" by auto
  from Cons.IH [OF w1(2) r(6) [unfolded w1(1)]] r(1,2) show ?case by auto
qed simp

text \<open>
  C38. A capture the audit accepts is what its summary says. Its supply voltage and limits were not refused; its rows are numbers, all finite, at
  strictly increasing times; no gap between two samples exceeds the limit and the capture is not shorter than required; the
  summary counts exactly the samples and the negative ones, has their smallest and largest current, their largest gap, the time from the first to
  the last, the sum of the trapezoids between neighbours as its charge, that charge times the voltage as its energy, and that charge divided by the time
  as its average current, which is the value an audit compares.
\<close>

theorem summarize_capture_sound:
  assumes "summarize_capture fs p voltage minimum_duration maximum_gap = Inr m"
  shows "\<exists>content xs. fs p = Some content \<and> capture_samples_of content = Some xs
    \<and> isfinite voltage \<and> 0 < num voltage \<and> \<not> fle minimum_duration (Fin 0) \<and> \<not> fle maximum_gap (Fin 0)
    \<and> 2 \<le> length xs \<and> in_order xs
    \<and> list_all (\<lambda>g. \<not> fless maximum_gap g) (between sample_gap xs) \<and> \<not> fless (pw_duration m) minimum_duration
    \<and> pw_sample_count m = length xs \<and> pw_duration m = fsub (fst (last xs)) (fst (hd xs))
    \<and> pw_negative_samples m = length (filter (\<lambda>x. fless (snd x) (Fin 0)) xs)
    \<and> num (pw_minimum m) = Min (num ` snd ` set xs) \<and> num (pw_peak m) = Max (num ` snd ` set xs)
    \<and> pw_maximum_gap m = foldl fmax (Fin 0) (between sample_gap xs)
    \<and> pw_charge m = foldl fadd (Fin 0) (between trapezoid xs) \<and> pw_energy m = fmul (pw_charge m) voltage
    \<and> fdiv (pw_charge m) (pw_duration m) = Some (pw_average m)"
proof -
  from assms obtain content rows w where v: "isfinite voltage" "\<not> fle voltage (Fin 0)" "\<not> fle minimum_duration (Fin 0)" "\<not> fle maximum_gap (Fin 0)"
    and opened: "fs p = Some content" "dict_rows content = Inr rows" "sweep_rows 2 rows sweep_start = Inr w"
    and finish: "finish_sweep voltage minimum_duration maximum_gap w = Inr m"
    by (auto simp: summarize_capture_def result_simps split: if_splits option.splits)
  have start: "sweep_start = swept []" "in_order []" by (simp_all add: sweep_start_def swept_def in_order_def)
  obtain xs where xs: "capture_samples_of content = Some xs" "w = swept xs" "in_order xs"
    using sweep_rows_swept [OF start(2) opened(3) [unfolded start(1)]] opened(2) by (auto simp: capture_samples_of_def)
  from finish have long: "2 \<le> length xs" and short: "\<not> fless (fsub (fst (last xs)) (fst (hd xs))) minimum_duration"
    and gap: "\<not> fless maximum_gap (foldl fmax (Fin 0) (between sample_gap xs))"
    and m: "pw_sample_count m = length xs" "pw_duration m = fsub (fst (last xs)) (fst (hd xs))" "pw_maximum_gap m = sw_gap (swept xs)"
      "pw_minimum m = sw_minimum (swept xs)" "pw_peak m = sw_peak (swept xs)" "pw_negative_samples m = sw_negative (swept xs)"
      "pw_charge m = sw_charge (swept xs)" "pw_energy m = fmul (sw_charge (swept xs)) voltage"
      "fdiv (pw_charge m) (pw_duration m) = Some (pw_average m)"
    unfolding xs(2) finish_sweep_def by (auto simp: swept_def Let_def result_simps split: if_splits prod.splits)
  have "list_all (\<lambda>g. g \<noteq> NaN) (between sample_gap xs)"
    using xs(3) unfolding in_order_def by (induction sample_gap xs rule: between.induct) (auto simp: gap_not_NaN sample_gap_def)
  then have gaps: "list_all (\<lambda>g. \<not> fless maximum_gap g) (between sample_gap xs)" using gap by (simp add: foldl_fmax_limit)
  have "map snd xs \<noteq> []" "\<forall>c \<in> set (map snd xs). isfinite c" using long xs(3) by (auto simp: in_order_def list_all_iff)
  from tally_extremes [OF this] have extremes: "num (pw_minimum m) = Min (num ` snd ` set xs)" "num (pw_peak m) = Max (num ` snd ` set xs)"
    unfolding m by (simp_all add: tally_low_peak swept_def image_image)
  have voltage: "0 < num voltage" using v(1,2) fle_num [of voltage "Fin 0"] by auto
  from opened(1) xs(1,3) v voltage long short gaps m extremes show ?thesis
    by (intro exI [of _ content] exI [of _ xs]) (simp add: swept_def)
qed

text \<open>Two samples a second apart.\<close>

definition bench_csv :: bytes where
  "bench_csv = ascii_encode (''time_s,current_a'' @ [LF] @ ''0,1'' @ [LF] @ ''1,2'' @ [LF])"

lemma bench_csv_decoded: "utf8_decode bench_csv = Some (code_points_of (''time_s,current_a'' @ [LF] @ ''0,1'' @ [LF] @ ''1,2'' @ [LF]))"
  unfolding bench_csv_def by (rule utf8_decode_encode_ascii) simp

lemmas csv_eval = csv_line_in_def csv_char_def csv_end_def csv_save_def csv_add_def csv_start_def Let_def result_simps

lemma bench_csv_rows: "dict_rows bench_csv = Inr [Inr [[48], [49]], Inr [[49], [50]]]"
  unfolding dict_rows_def bench_csv_decoded by (simp add: code_points_of_def power_columns_def csv_eval)

lemma small_doubles: "dbl 1 = Fin 1" "dbl 2 = Fin 2" "dbl 3 = Fin 3" "dbl (3/2) = Fin (3/2)" "dbl (9/2) = Fin (9/2)"
  by (subst dbl_normal [where e = 0] dbl_normal [where e = 1] dbl_normal [where e = 2]; simp add: dbl_eval)+

lemma bench_digits: "map ascii_of_point [48] = ''0''" "map ascii_of_point [49] = ''1''" "map ascii_of_point [50] = ''2''"
  by code_simp+

lemma bench_floats: "py_float ''0'' = map_option dbl (Some 0)" "py_float ''1'' = map_option dbl (Some 1)" "py_float ''2'' = map_option dbl (Some 2)"
proof -
  have body: "float_body s = map_option dbl (unsigned_float s)" if "s \<in> {''0'', ''1'', ''2''}" for s
    using that by (auto simp: float_body_def ascii_lower_def)
  have "unsigned_float ''0'' = Some 0" "unsigned_float ''1'' = Some 1" "unsigned_float ''2'' = Some 2" by code_simp+
  moreover have "py_strip s = s" if "s \<in> {''0'', ''1'', ''2''}" for s
    using that by (elim insertE emptyE; simp only:) code_simp+
  ultimately show "py_float ''0'' = map_option dbl (Some 0)" "py_float ''1'' = map_option dbl (Some 1)" "py_float ''2'' = map_option dbl (Some 2)"
    by (simp_all add: py_float_def body)
qed

lemma bench_numbers: "row_numbers [[48], [49]] = Some (Fin 0, Fin 1)" "row_numbers [[49], [50]] = Some (Fin 1, Fin 2)"
  by (simp_all add: row_numbers_def float_of_points_def bench_digits bench_floats dbl_def [of 0] small_doubles del: list.map)

lemma bench_csv_accepted: "\<exists>m. summarize_capture (\<lambda>_. Some bench_csv) ''/c.csv'' (Fin 3) (Fin 1) (Fin 1) = Inr m"
  by (simp add: summarize_capture_def bench_csv_rows bench_numbers fle_def fless_def feq_def sweep_start_def sweep_step_def finish_sweep_def
      fsub_def fadd_def fmul_def half_def fdiv_def fmax_def fmin_def signed_dbl_def small_doubles quotient_def Let_def result_simps)

theorem summarize_capture_sound_witness:
  "\<exists>m xs. summarize_capture (\<lambda>_. Some bench_csv) ''/c.csv'' (Fin 3) (Fin 1) (Fin 1) = Inr m
     \<and> capture_samples_of bench_csv = Some xs \<and> 2 \<le> length xs \<and> pw_sample_count m = length xs
     \<and> fdiv (pw_charge m) (pw_duration m) = Some (pw_average m)"
proof -
  obtain m where m: "summarize_capture (\<lambda>_. Some bench_csv) ''/c.csv'' (Fin 3) (Fin 1) (Fin 1) = Inr m"
    using bench_csv_accepted by blast
  from summarize_capture_sound [OF m] m show ?thesis by auto
qed

end
