(* ===== verification/Power_Cli.thy ===== *)
theory Power_Cli
  imports Power_Summary Device_Cli
begin

section \<open>The power audit\<close>

text \<open>
  Models \<open>command\<close> of \<open>src/tools/nrfkit_tools/power_cli.py\<close> (\<open>m7-power-audit\<close>): one capture per profile of the contract is summarized, and the average currents are
  compared. The run directory and the report \<open>_new_run\<close> starts are arguments. \<open>pe_special\<close> is what stands in a report for a float that is
  not a rational (a negative zero, an infinity, a NaN).
\<close>

datatype power_cli_error =
    CaptureForm
  | DuplicateProfile string
  | ProfilesDiffer "string set" "string set"
  | PowerCapture power_error
  | PowerCli cli_error
  | PowerAudit power_cli_error

record 'h m7_env =
  pe_world :: "'h cli_world"
  pe_special :: "pyfloat \<Rightarrow> json"
  pe_describe :: "power_cli_error \<Rightarrow> string"

record m7_args =
  pa_capture :: "string list"
  pa_instrument :: string
  pa_supply_voltage :: pyfloat
  pa_minimum_duration :: pyfloat
  pa_maximum_gap_us :: pyfloat

type_synonym ('h, 'z, 'a) power_step = "(('h, 'z) cmd_state_scheme, power_cli_error, 'a) action"

definition REQUIRED_PROFILES :: "string list" where
  "REQUIRED_PROFILES =
     [''idle'', ''direct-1m'', ''direct-2m'', ''direct-4m'', ''timeslot-retry-4m'', ''ble'', ''ble-timeslot-4m'']"

text \<open>\<open>value.partition("=")\<close>: what is before the first separator and what is after it, if it occurs.\<close>

definition partition_eq :: "string \<Rightarrow> (string \<times> string) option" where
  "partition_eq s =
     (case dropWhile (\<lambda>c. c \<noteq> CHR ''='') s of [] \<Rightarrow> None | _ # rest \<Rightarrow> Some (takeWhile (\<lambda>c. c \<noteq> CHR ''='') s, rest))"

fun parse_captures :: "(string \<times> path) list \<Rightarrow> string list \<Rightarrow> power_cli_error + (string \<times> path) list" where
  "parse_captures captures [] = Inr captures"
| "parse_captures captures (v # vs) =
     (case partition_eq v of
        None \<Rightarrow> Inl CaptureForm
      | Some (profile, p) \<Rightarrow>
          if profile = [] \<or> p = [] then Inl CaptureForm
          else if profile \<in> fst ` set captures then Inl (DuplicateProfile profile)
          else parse_captures (captures @ [(profile, p)]) vs)"

definition select_captures :: "string list \<Rightarrow> power_cli_error + (string \<times> path) list" where
  "select_captures vs =
     bindR (parse_captures [] vs) (\<lambda>captures.
       if set (map fst captures) \<noteq> set REQUIRED_PROFILES
       then Inl (ProfilesDiffer (set REQUIRED_PROFILES - set (map fst captures)) (set (map fst captures) - set REQUIRED_PROFILES))
       else Inr captures)"

definition float_json :: "'h m7_env \<Rightarrow> pyfloat \<Rightarrow> json" where
  "float_json env x = (case x of Fin q \<Rightarrow> JReal q | _ \<Rightarrow> pe_special env x)"

definition summary_json :: "'h m7_env \<Rightarrow> power_summary \<Rightarrow> string \<Rightarrow> (string \<times> json) list" where
  "summary_json env m h =
     [(''sample_count'', JInt (int (pw_sample_count m))), (''duration_s'', float_json env (pw_duration m)),
      (''maximum_sample_gap_s'', float_json env (pw_maximum_gap m)), (''average_current_a'', float_json env (pw_average m)),
      (''minimum_current_a'', float_json env (pw_minimum m)), (''peak_current_a'', float_json env (pw_peak m)),
      (''negative_samples'', JInt (int (pw_negative_samples m))), (''charge_c'', float_json env (pw_charge m)),
      (''energy_j'', float_json env (pw_energy m)), (''capture_sha256'', JStr h)]"

definition micro :: "pyfloat \<Rightarrow> pyfloat" where
  "micro x = (case fdiv x (Fin 1000000) of Some y \<Rightarrow> y | None \<Rightarrow> NaN)"

text \<open>One profile: its capture is summarized and hashed, and a stage is added to the report.\<close>

definition audit_profile ::
  "'h m7_env \<Rightarrow> m7_args \<Rightarrow> path \<Rightarrow> (string \<times> path) list \<Rightarrow> string \<Rightarrow> ('h, 'z, string \<times> power_summary \<times> string) power_step" where
  "audit_profile env args dir captures profile =
     (case map_of captures profile of
        None \<Rightarrow> raiseA (PowerCli (CliTool (ToolPython KeyError)))
      | Some p \<Rightarrow>
          bindA (readA (\<lambda>s. files (host s))) (\<lambda>fs.
          bindA (liftA (mapE PowerCapture (summarize_capture fs p (pa_supply_voltage args) (pa_minimum_duration args) (micro (pa_maximum_gap_us args))))) (\<lambda>m.
          bindA (liftA (mapE (PowerCli \<circ> CliTool \<circ> ToolPython) (sha256 (cl_digest (pe_world env)) fs p))) (\<lambda>h.
          bindA (retype PowerCli (stage (pe_world env) dir ''power-capture'' ((''profile'', JStr profile) # summary_json env m h))) (\<lambda>_.
            pureA (profile, m, h))))))"

definition comparisons :: "(string \<times> string \<times> string) list" where
  "comparisons =
     [(''direct_1m_incremental_current_a'', ''direct-1m'', ''idle''), (''direct_2m_incremental_current_a'', ''direct-2m'', ''idle''),
      (''direct_4m_incremental_current_a'', ''direct-4m'', ''idle''), (''timeslot_retry_4m_incremental_current_a'', ''timeslot-retry-4m'', ''idle''),
      (''ble_timeslot_4m_incremental_current_a'', ''ble-timeslot-4m'', ''ble'')]"

definition average_of :: "(string \<times> power_summary \<times> string) list \<Rightarrow> string \<Rightarrow> py_error + pyfloat" where
  "average_of summaries profile =
     (case map_of summaries profile of None \<Rightarrow> Inl KeyError | Some (m, _) \<Rightarrow> Inr (pw_average m))"

definition compare_profiles :: "(string \<times> power_summary \<times> string) list \<Rightarrow> py_error + (string \<times> pyfloat) list" where
  "compare_profiles summaries =
     mapR (\<lambda>(key, profile, base_profile).
       bindR (average_of summaries profile) (\<lambda>a. bindR (average_of summaries base_profile) (\<lambda>b. Inr (key, fsub a b)))) comparisons"

definition comparison_json :: "'h m7_env \<Rightarrow> (string \<times> pyfloat) list \<Rightarrow> (string \<times> json) list" where
  "comparison_json env c = map (\<lambda>(k, x). (k, float_json env x)) c"

definition audit_captures ::
  "'h m7_env \<Rightarrow> m7_args \<Rightarrow> path \<Rightarrow> (string \<times> path) list \<Rightarrow> ('h, 'z, unit) power_step" where
  "audit_captures env args dir captures =
     bindA (mapA (audit_profile env args dir captures) REQUIRED_PROFILES) (\<lambda>summaries.
     bindA (liftA (mapE (PowerCli \<circ> CliTool \<circ> ToolPython) (compare_profiles summaries))) (\<lambda>c.
     bindA (retype PowerCli (stage (pe_world env) dir ''power-comparison'' (comparison_json env c))) (\<lambda>_.
     bindA (put_report ''status'' (JStr ''ok'')) (\<lambda>_.
     bindA (put_report ''captures'' (JObj (map (\<lambda>(k, m, h). (k, JObj (summary_json env m h))) summaries))) (\<lambda>_.
       put_report ''comparison'' (JObj (comparison_json env c)))))))"

text \<open>\<open>PowerCaptureError\<close>; the others are exceptions of \<open>csv\<close>, of decoding and of arithmetic, which \<open>summarize_capture\<close> lets through.\<close>

fun capture_refused :: "power_error \<Rightarrow> bool" where
  "capture_refused (PowCsv _) = False"
| "capture_refused PowUnicode = False"
| "capture_refused PowZeroDivision = False"
| "capture_refused _ = True"

text \<open>\<open>except (OSError, PowerCaptureError)\<close>.\<close>

fun audit_caught :: "power_cli_error \<Rightarrow> bool" where
  "audit_caught (PowerCapture e) = capture_refused e"
| "audit_caught (PowerCli (CliTool (ToolPython e))) = (e = OSError)"
| "audit_caught _ = False"

definition audit_handler :: "'h m7_env \<Rightarrow> power_cli_error \<Rightarrow> ('h, 'z, unit) power_step" where
  "audit_handler env e =
     (if audit_caught e then
        bindA (put_report ''status'' (JStr ''failed'')) (\<lambda>_.
        bindA (put_report ''error'' (JStr (pe_describe env e))) (\<lambda>_. raiseA (PowerAudit e)))
      else raiseA e)"

definition command_power_audit :: "'h m7_env \<Rightarrow> m7_args \<Rightarrow> path \<Rightarrow> ('h, 'z, unit) power_step" where
  "command_power_audit env args dir =
     bindA (liftA (select_captures (pa_capture args))) (\<lambda>captures.
     bindA (put_report ''status'' (JStr ''running'')) (\<lambda>_.
     bindA (put_report ''stages'' (JList [])) (\<lambda>_.
     bindA (put_report ''instrument'' (JStr (pa_instrument args))) (\<lambda>_.
     bindA (put_report ''supply_voltage_v'' (float_json env (pa_supply_voltage args))) (\<lambda>_.
     bindA (put_report ''minimum_duration_s'' (float_json env (pa_minimum_duration args))) (\<lambda>_.
     bindA (put_report ''maximum_sample_gap_us'' (float_json env (pa_maximum_gap_us args))) (\<lambda>_.
     bindA (retype PowerCli (store_report (pe_world env) dir)) (\<lambda>_.
       finallyA (handleA (audit_captures env args dir captures) (audit_handler env))
         (retype PowerCli (store_report (pe_world env) dir))))))))))"

end
