(* ===== verification/Power_Cli_Correct.thy ===== *)
theory Power_Cli_Correct
  imports Power_Cli
begin

section \<open>Correctness of the power audit\<close>

text \<open>What the report of an audit says is what the captures gave, on every way the command can end.\<close>

definition report_path :: "path \<Rightarrow> path" where
  "report_path dir = path_join dir ''run.json''"

text \<open>Storing the report changes two files at most.\<close>

definition only_report :: "'h m7_env \<Rightarrow> path \<Rightarrow> filesystem \<Rightarrow> filesystem \<Rightarrow> bool" where
  "only_report env dir fs fs' \<longleftrightarrow> (\<forall>q. q \<noteq> report_path dir \<and> q \<noteq> cl_temporary (pe_world env) (report_path dir) \<longrightarrow> fs' q = fs q)"

text \<open>A summary stands for the capture its profile was given.\<close>

definition summarized ::
  "'h m7_env \<Rightarrow> m7_args \<Rightarrow> path \<Rightarrow> filesystem \<Rightarrow> (string \<times> path) list \<Rightarrow> string \<Rightarrow> power_error + power_summary \<times> string \<Rightarrow> bool" where
  "summarized env args dir fs captures profile r \<longleftrightarrow>
     (\<exists>p fs' result. map_of captures profile = Some p \<and> only_report env dir fs fs'
        \<and> summarize_capture fs' p (pa_supply_voltage args) (pa_minimum_duration args) (micro (pa_maximum_gap_us args)) = result
        \<and> (case r of Inl e \<Rightarrow> result = Inl e | Inr (m, h) \<Rightarrow> result = Inr m \<and> sha256 (cl_digest (pe_world env)) fs' p = Inr h))"

definition working :: "'h m7_env \<Rightarrow> path \<Rightarrow> ('h, 'z) cmd_state_scheme \<Rightarrow> ('h, 'z) cmd_state_scheme \<Rightarrow> bool" where
  "working env dir s s' \<longleftrightarrow> only_report env dir (files (host s)) (files (host s'))
     \<and> (\<forall>k. k \<noteq> ''stages'' \<longrightarrow> map_of (report s') k = map_of (report s) k)
     \<and> ((\<exists>xs. map_of (report s) ''stages'' = Some (JList xs)) \<longrightarrow> (\<exists>xs. map_of (report s') ''stages'' = Some (JList xs)))"

interpretation working: state_order "working env dir" for env dir
  by unfold_locales (auto simp: working_def only_report_def)

definition staged :: "('h, 'z) cmd_state_scheme \<Rightarrow> bool" where
  "staged s \<longleftrightarrow> (\<exists>xs. map_of (report s) ''stages'' = Some (JList xs))"

lemma store_report_returns: "\<exists>s'. retype PowerCli (store_report w dir) s = (s', Inr ()) \<and> report s' = report s \<and> files (host s') =
    (let rj = report_path dir; t = cl_temporary w rj; data = Some (utf8_encode (cl_dumps w (JObj (report s)) @ [LF])) in
     ((files (host s))(t := data))(rj := data, t := None))"
  by (auto simp: retype_def store_report_def onTool_def onHost_def atomic_json_def Let_def report_path_def)

lemma stage_returns:
  assumes "staged s"
  shows "\<exists>s'. retype PowerCli (stage (pe_world env) dir name details) s = (s', Inr ()) \<and> working env dir s s'"
  using assms
  by (auto simp: staged_def retype_def stage_def bindA_def readA_def put_report_def updateA_def store_report_def onTool_def onHost_def
      atomic_json_def Let_def working_def only_report_def report_path_def update_conv')

lemma sha256_after_summary: "summarize_capture fs p v a b = Inr m \<Longrightarrow> \<exists>h. sha256 digest fs p = Inr h"
  by (auto simp: summarize_capture_def sha256_def split: if_splits option.splits)

text \<open>A profile either gives its summary or is refused by \<open>summarize_capture\<close>.\<close>

lemma audit_profile_runs:
  assumes "staged s" and "map_of captures profile = Some p"
  obtains s' m h where "audit_profile env args dir captures profile s = (s', Inr (profile, m, h))" "working env dir s s'"
      "summarized env args dir (files (host s)) captures profile (Inr (m, h))"
  | e where "audit_profile env args dir captures profile s = (s, Inl (PowerCapture e))"
      "summarized env args dir (files (host s)) captures profile (Inl e)"
proof (cases "summarize_capture (files (host s)) p (pa_supply_voltage args) (pa_minimum_duration args) (micro (pa_maximum_gap_us args))")
  case (Inl e)
  with assms that(2) [of e] show thesis
    by (auto simp: audit_profile_def bindA_def readA_def liftA_def summarized_def only_report_def)
next
  case (Inr m)
  then obtain h where h: "sha256 (cl_digest (pe_world env)) (files (host s)) p = Inr h" using sha256_after_summary by blast
  obtain s' where "retype PowerCli (stage (pe_world env) dir ''power-capture'' ((''profile'', JStr profile) # summary_json env m h)) s = (s', Inr ())"
    "working env dir s s'" using stage_returns [OF assms(1)] by blast
  with assms Inr h that(1) [of s' m h] show thesis
    by (auto simp: audit_profile_def bindA_def readA_def liftA_def pureA_def summarized_def only_report_def)
qed

lemma summarized_earlier:
  "summarized env args dir fs' captures profile r \<Longrightarrow> only_report env dir fs fs' \<Longrightarrow> summarized env args dir fs captures profile r"
  unfolding summarized_def only_report_def by (elim exE conjE) (intro exI conjI, assumption, simp, assumption, assumption)

lemma working_staged: "working env dir s s' \<Longrightarrow> staged s \<Longrightarrow> staged s'"
  by (auto simp: working_def staged_def)

lemma audit_profiles_run:
  assumes "staged s" and "set profiles \<subseteq> fst ` set captures"
  shows "\<exists>s' r. mapA (audit_profile env args dir captures) profiles s = (s', r) \<and> working env dir s s' \<and>
    (case r of
       Inr ms \<Rightarrow> map fst ms = profiles \<and> list_all (\<lambda>(k, y). summarized env args dir (files (host s)) captures k (Inr y)) ms
     | Inl e \<Rightarrow> \<exists>d. e = PowerCapture d \<and> (\<exists>k. k \<in> set profiles \<and> summarized env args dir (files (host s)) captures k (Inl d)))"
  using assms
proof (induction profiles arbitrary: s)
  case Nil
  then show ?case by (auto simp: pureA_def working.R_refl)
next
  case (Cons k ks)
  then obtain p where p: "map_of captures k = Some p" by (force simp: image_iff dest: weak_map_of_SomeI)
  show ?case
  proof (rule audit_profile_runs [OF Cons.prems(1) p, of env args dir])
    fix e
    assume "audit_profile env args dir captures k s = (s, Inl (PowerCapture e))" "summarized env args dir (files (host s)) captures k (Inl e)"
    then show ?case by (auto simp: bindA_def working.R_refl)
  next
    fix s1 m h
    assume one: "audit_profile env args dir captures k s = (s1, Inr (k, m, h))" "working env dir s s1"
      "summarized env args dir (files (host s)) captures k (Inr (m, h))"
    have prems: "staged s1" "set ks \<subseteq> fst ` set captures" using working_staged [OF one(2) Cons.prems(1)] Cons.prems(2) by auto
    obtain s' r where rest: "mapA (audit_profile env args dir captures) ks s1 = (s', r)" "working env dir s1 s'"
      "case r of
         Inr ms \<Rightarrow> map fst ms = ks \<and> list_all (\<lambda>(k, y). summarized env args dir (files (host s1)) captures k (Inr y)) ms
       | Inl e \<Rightarrow> \<exists>d. e = PowerCapture d \<and> (\<exists>k. k \<in> set ks \<and> summarized env args dir (files (host s1)) captures k (Inl d))"
      using Cons.IH [OF prems] by blast
    have earlier: "summarized env args dir (files (host s1)) captures j q \<Longrightarrow> summarized env args dir (files (host s)) captures j q" for j q
      using one(2) by (auto simp: working_def intro: summarized_earlier)
    have w: "working env dir s s'" using working.R_trans one(2) rest(2) by blast
    show ?case
    proof (cases r)
      case (Inl e)
      with rest one earlier w show ?thesis by (auto simp: bindA_def)
    next
      case (Inr ms)
      with rest one earlier w show ?thesis by (auto simp: bindA_def pureA_def list_all_iff)
    qed
  qed
qed

subsection \<open>The comparison and the report\<close>

definition incremental_currents :: "(string \<times> power_summary \<times> string) list \<Rightarrow> (string \<times> pyfloat) list" where
  "incremental_currents ms =
     map (\<lambda>(key, profile, reference). (key, fsub (pw_average (fst (the (map_of ms profile)))) (pw_average (fst (the (map_of ms reference)))))) comparisons"

lemma average_present:
  assumes "map fst ms = REQUIRED_PROFILES" and "k \<in> set REQUIRED_PROFILES"
  shows "average_of ms k = Inr (pw_average (fst (the (map_of ms k))))"
proof -
  have "k \<in> dom (map_of ms)" using assms by (simp add: dom_map_of_conv_image_fst flip: set_map)
  then show ?thesis by (auto simp: average_of_def)
qed

lemma compared_profiles: "(key, profile, reference) \<in> set comparisons \<Longrightarrow> profile \<in> set REQUIRED_PROFILES \<and> reference \<in> set REQUIRED_PROFILES"
  by (auto simp: comparisons_def REQUIRED_PROFILES_def)

lemma compare_profiles_present: "map fst ms = REQUIRED_PROFILES \<Longrightarrow> compare_profiles ms = Inr (incremental_currents ms)"
  unfolding compare_profiles_def incremental_currents_def mapR_Inr_iff list.rel_map
  by (rule list.rel_refl_strong) (auto simp: compared_profiles average_present)

lemma map_of_update_other: "k \<noteq> j \<Longrightarrow> map_of (AList.update k v kvs) j = map_of kvs j"
  by (simp add: update_conv')

lemma put_report_runs: "put_report k v s = (s\<lparr>report := AList.update k v (report s)\<rparr>, Inr ())"
  by (simp add: put_report_def updateA_def)

definition captures_json :: "'h m7_env \<Rightarrow> (string \<times> power_summary \<times> string) list \<Rightarrow> json" where
  "captures_json env ms = JObj (map (\<lambda>(k, m, h). (k, JObj (summary_json env m h))) ms)"

lemma audit_captures_runs:
  assumes "staged s" and "set REQUIRED_PROFILES \<subseteq> fst ` set captures" and "map_of (report s) ''status'' = Some (JStr ''running'')"
  shows "\<exists>s' r. audit_captures env args dir captures s = (s', r) \<and> only_report env dir (files (host s)) (files (host s')) \<and>
    (case r of
       Inr _ \<Rightarrow> \<exists>ms. map fst ms = REQUIRED_PROFILES \<and> list_all (\<lambda>(k, y). summarized env args dir (files (host s)) captures k (Inr y)) ms
         \<and> map_of (report s') ''status'' = Some (JStr ''ok'') \<and> map_of (report s') ''captures'' = Some (captures_json env ms)
         \<and> map_of (report s') ''comparison'' = Some (JObj (comparison_json env (incremental_currents ms)))
     | Inl e \<Rightarrow> \<exists>d. e = PowerCapture d \<and> map_of (report s') ''status'' = Some (JStr ''running'')
         \<and> (\<exists>k. k \<in> set REQUIRED_PROFILES \<and> summarized env args dir (files (host s)) captures k (Inl d)))"
proof -
  obtain s1 r1 where loop: "mapA (audit_profile env args dir captures) REQUIRED_PROFILES s = (s1, r1)" "working env dir s s1"
    and r1: "case r1 of
       Inr ms \<Rightarrow> map fst ms = REQUIRED_PROFILES \<and> list_all (\<lambda>(k, y). summarized env args dir (files (host s)) captures k (Inr y)) ms
     | Inl e \<Rightarrow> \<exists>d. e = PowerCapture d \<and> (\<exists>k. k \<in> set REQUIRED_PROFILES \<and> summarized env args dir (files (host s)) captures k (Inl d))"
    using audit_profiles_run [OF assms(1,2)] by blast
  show ?thesis
  proof (cases r1)
    case (Inl e)
    with loop r1 assms(3) show ?thesis by (auto simp: audit_captures_def bindA_def working_def)
  next
    case (Inr ms)
    with r1 have ms: "map fst ms = REQUIRED_PROFILES" "list_all (\<lambda>(k, y). summarized env args dir (files (host s)) captures k (Inr y)) ms" by auto
    obtain s2 where s2: "retype PowerCli (stage (pe_world env) dir ''power-comparison'' (comparison_json env (incremental_currents ms))) s1 = (s2, Inr ())"
      "working env dir s1 s2" using stage_returns [OF working_staged [OF loop(2) assms(1)]] by blast
    have files: "only_report env dir (files (host s)) (files (host s2))" using loop(2) s2(2) by (auto simp: working_def only_report_def)
    define s3 where "s3 = s2\<lparr>report := AList.update ''comparison'' (JObj (comparison_json env (incremental_currents ms)))
        (AList.update ''captures'' (captures_json env ms) (AList.update ''status'' (JStr ''ok'') (report s2)))\<rparr>"
    have "audit_captures env args dir captures s = (s3, Inr ())"
      using loop(1) s2(1) Inr ms(1)
      by (simp add: audit_captures_def bindA_def liftA_def compare_profiles_present put_report_runs captures_json_def s3_def)
    then show ?thesis using files ms by (auto simp: s3_def update_conv')
  qed
qed

lemma select_captures_complete: "select_captures vs = Inr captures \<Longrightarrow> set REQUIRED_PROFILES \<subseteq> fst ` set captures"
  by (auto simp: select_captures_def result_simps split: if_splits)

text \<open>The report as it is on disk; a temporary file of the same name would have been removed.\<close>

definition report_stored :: "'h m7_env \<Rightarrow> path \<Rightarrow> ('h, 'z) cmd_state_scheme \<Rightarrow> bool" where
  "report_stored env dir s \<longleftrightarrow> files (host s) (report_path dir) =
     (if cl_temporary (pe_world env) (report_path dir) = report_path dir then None
      else Some (utf8_encode (cl_dumps (pe_world env) (JObj (report s)) @ [LF])))"

definition audit_begun :: "'h m7_env \<Rightarrow> m7_args \<Rightarrow> (string \<times> json) list \<Rightarrow> (string \<times> json) list" where
  "audit_begun env args r =
     AList.update ''maximum_sample_gap_us'' (float_json env (pa_maximum_gap_us args))
     (AList.update ''minimum_duration_s'' (float_json env (pa_minimum_duration args))
     (AList.update ''supply_voltage_v'' (float_json env (pa_supply_voltage args))
     (AList.update ''instrument'' (JStr (pa_instrument args))
     (AList.update ''stages'' (JList []) (AList.update ''status'' (JStr ''running'') r)))))"

lemma audit_begun_status:
  "map_of (audit_begun env args r) ''status'' = Some (JStr ''running'')" "map_of (audit_begun env args r) ''stages'' = Some (JList [])"
  by (simp_all add: audit_begun_def update_conv')

lemma command_power_audit_begins:
  assumes "select_captures (pa_capture args) = Inr captures"
  shows "\<exists>s1. report s1 = audit_begun env args (report s) \<and> only_report env dir (files (host s)) (files (host s1))
    \<and> command_power_audit env args dir s =
        finallyA (handleA (audit_captures env args dir captures) (audit_handler env)) (retype PowerCli (store_report (pe_world env) dir)) s1"
proof -
  obtain s1 where s1: "retype PowerCli (store_report (pe_world env) dir) (s\<lparr>report := audit_begun env args (report s)\<rparr>) = (s1, Inr ())"
    "report s1 = audit_begun env args (report s)" "files (host s1) =
      (let rj = report_path dir; t = cl_temporary (pe_world env) rj; data = Some (utf8_encode (cl_dumps (pe_world env) (JObj (audit_begun env args (report s))) @ [LF])) in
       ((files (host s))(t := data))(rj := data, t := None))"
    using store_report_returns [of "pe_world env" dir "s\<lparr>report := audit_begun env args (report s)\<rparr>"] by auto
  then show ?thesis using assms
    by (intro exI [of _ s1]) (auto simp: command_power_audit_def bindA_def liftA_def put_report_runs audit_begun_def only_report_def Let_def)
qed

text \<open>
  C39. The report of a power audit is true of the captures, however the command ends. When the captures named on the command line are not
  one per profile of the contract, it fails before anything is written. Otherwise the stored file is the report. The command returns exactly when the status
  is ok, and then every profile has the summary and digest \<open>summarize_capture\<close> and SHA-256 give for its own capture, and the comparison is the difference of
  the average currents. It fails only because the capture of some profile was refused: with status failed and the error when \<open>PowerCaptureError\<close> says
  so, and with the status still running when the file is not CSV or not UTF-8, which the handler does not catch.
\<close>

theorem power_audit_report_true:
  "case command_power_audit env args dir s of (s', r) \<Rightarrow>
   (case select_captures (pa_capture args) of
      Inl e \<Rightarrow> r = Inl e \<and> s' = s
    | Inr captures \<Rightarrow> report_stored env dir s' \<and>
        (case r of
           Inr _ \<Rightarrow> \<exists>ms. map fst ms = REQUIRED_PROFILES
             \<and> list_all (\<lambda>(profile, y). summarized env args dir (files (host s)) captures profile (Inr y)) ms
             \<and> map_of (report s') ''status'' = Some (JStr ''ok'') \<and> map_of (report s') ''captures'' = Some (captures_json env ms)
             \<and> map_of (report s') ''comparison'' = Some (JObj (comparison_json env (incremental_currents ms)))
         | Inl e \<Rightarrow> \<exists>profile d. profile \<in> set REQUIRED_PROFILES \<and> summarized env args dir (files (host s)) captures profile (Inl d)
             \<and> (if capture_refused d
                then e = PowerAudit (PowerCapture d) \<and> map_of (report s') ''status'' = Some (JStr ''failed'')
                  \<and> map_of (report s') ''error'' = Some (JStr (pe_describe env (PowerCapture d)))
                else e = PowerCapture d \<and> map_of (report s') ''status'' = Some (JStr ''running''))))"
proof (cases "select_captures (pa_capture args)")
  case (Inl e)
  then show ?thesis by (simp add: command_power_audit_def bindA_def liftA_def)
next
  case (Inr captures)
  obtain s1 where s1: "report s1 = audit_begun env args (report s)" "only_report env dir (files (host s)) (files (host s1))"
    "command_power_audit env args dir s =
       finallyA (handleA (audit_captures env args dir captures) (audit_handler env)) (retype PowerCli (store_report (pe_world env) dir)) s1"
    using command_power_audit_begins [OF Inr] by blast
  have ready: "staged s1" "map_of (report s1) ''status'' = Some (JStr ''running'')" using s1(1) by (simp_all add: staged_def audit_begun_status)
  obtain s2 r2 where body: "audit_captures env args dir captures s1 = (s2, r2)"
    and r2: "case r2 of
       Inr _ \<Rightarrow> \<exists>ms. map fst ms = REQUIRED_PROFILES \<and> list_all (\<lambda>(k, y). summarized env args dir (files (host s1)) captures k (Inr y)) ms
         \<and> map_of (report s2) ''status'' = Some (JStr ''ok'') \<and> map_of (report s2) ''captures'' = Some (captures_json env ms)
         \<and> map_of (report s2) ''comparison'' = Some (JObj (comparison_json env (incremental_currents ms)))
     | Inl e \<Rightarrow> \<exists>d. e = PowerCapture d \<and> map_of (report s2) ''status'' = Some (JStr ''running'')
         \<and> (\<exists>k. k \<in> set REQUIRED_PROFILES \<and> summarized env args dir (files (host s1)) captures k (Inl d))"
    using audit_captures_runs [OF ready(1) select_captures_complete [OF Inr] ready(2)] by blast
  obtain s3 r3 where handled: "handleA (audit_captures env args dir captures) (audit_handler env) s1 = (s3, r3)" by fastforce
  obtain s' where store: "retype PowerCli (store_report (pe_world env) dir) s3 = (s', Inr ())" "report s' = report s3" "report_stored env dir s'"
    using store_report_returns [of "pe_world env" dir s3] by (auto simp: report_stored_def Let_def)
  have run: "command_power_audit env args dir s = (s', r3)" using s1(3) handled store(1) by (simp add: finallyA_def)
  have earlier: "summarized env args dir (files (host s1)) captures j q \<Longrightarrow> summarized env args dir (files (host s)) captures j q" for j q
    using s1(2) by (rule summarized_earlier [rotated])
  show ?thesis
  proof (cases r2)
    case returned: (Inr u)
    with body handled have "s3 = s2" "r3 = Inr u" by (simp_all add: handleA_def)
    moreover from r2 returned obtain ms where ms: "map fst ms = REQUIRED_PROFILES"
      "list_all (\<lambda>(k, y). summarized env args dir (files (host s1)) captures k (Inr y)) ms" "map_of (report s2) ''status'' = Some (JStr ''ok'')"
      "map_of (report s2) ''captures'' = Some (captures_json env ms)"
      "map_of (report s2) ''comparison'' = Some (JObj (comparison_json env (incremental_currents ms)))" by auto
    moreover from ms(2) have "list_all (\<lambda>(k, y). summarized env args dir (files (host s)) captures k (Inr y)) ms"
      by (rule list.pred_mono_strong) (auto intro: earlier)
    ultimately show ?thesis using run Inr store by (simp, intro exI [of _ ms]) simp
  next
    case failed: (Inl e)
    with r2 obtain d k where d: "e = PowerCapture d" "map_of (report s2) ''status'' = Some (JStr ''running'')"
      "k \<in> set REQUIRED_PROFILES" "summarized env args dir (files (host s)) captures k (Inl d)" using earlier by auto
    have "report s3 = (if capture_refused d then AList.update ''error'' (JStr (pe_describe env e)) (AList.update ''status'' (JStr ''failed'') (report s2)) else report s2)"
      "r3 = Inl (if capture_refused d then PowerAudit e else e)"
      using body handled failed d(1) by (auto simp: handleA_def audit_handler_def bindA_def put_report_runs raiseA_def split: if_splits)
    with run Inr store d show ?thesis by (auto simp: update_conv')
  qed
qed

end
