(* ===== verification/Reference_Build.thy ===== *)
theory Reference_Build
  imports Device_Cli
begin

section \<open>Reference builds\<close>

text \<open>
  Models the rest of \<open>src/tools/nrfkit_tools/reference.py\<close>: the readers of the build metadata, source receipts, profiles, build evidence, the image
  manifest of a reference build and the build itself. Files are decoded here (strictly, or with replacement characters) into code points; a
  text that names a file or a key is turned into a name of the model by \<open>be_name\<close>. The commit \<open>git rev-parse HEAD\<close> prints in a directory, the
  clock and the rendering of exceptions are parameters. The working directory and the environment the build is given are not part of a launch.
\<close>

datatype build_error =
    RefLock reference_error
  | CannotReadMetadata
  | MetadataNotUnique string
  | DomainsInvalid
  | NoFlashOrder
  | FlashOrderInvalid
  | ArtifactNotPlain
  | ArtifactOutside
  | NoGitHead path
  | NotOneToolchain
  | NoSdkPackage
  | ModuleDiffers string
  | OracleFileMissing string
  | OracleFileHash string
  | FixtureMissing string
  | FixtureHash string
  | ReceiptInvalid
  | ReceiptIdentity
  | ReceiptStale
  | ReceiptModule string
  | ReceiptToolchain
  | ReceiptVariant
  | FixtureChanged string
  | NoProfiles
  | ProfileRequired
  | UnknownProfile string
  | EvidenceFileMissing
  | ConfigMarkerMissing
  | LinkMarkerMissing
  | ForbiddenLinkMarker
  | TextMarkerMissing
  | ForbiddenTextMarker
  | NoDebugElf
  | NoDefaultAllowlist
  | NoDeclaredHex string
  | NoDomainAllowlist string
  | ReferenceBuildFailed
  | BuildTool tool_error

record 'h build_env =
  be_world :: "'h cli_world"
  be_git :: "'h \<Rightarrow> path \<Rightarrow> string option"
  be_name :: "code_points \<Rightarrow> string"
  be_now :: string
  be_describe :: "build_error \<Rightarrow> string"

abbreviation BuildPython :: "py_error \<Rightarrow> build_error" where
  "BuildPython e \<equiv> BuildTool (ToolPython e)"

abbreviation pyR :: "py_error + 'a \<Rightarrow> build_error + 'a" where
  "pyR r \<equiv> mapE BuildPython r"

subsection \<open>Text\<close>

text \<open>Universal newlines, and the lines of a translated text.\<close>

fun universal :: "code_points \<Rightarrow> code_points" where
  "universal [] = []"
| "universal (c # cs) =
     (if c = 13 then 10 # (if take 1 cs = [10] then universal (tl cs) else universal cs) else c # universal cs)"

definition line_end_point :: "nat \<Rightarrow> bool" where
  "line_end_point c \<longleftrightarrow> c \<in> {10, 11, 12, 13, 28, 29, 30, 133, 8232, 8233}"

fun points_lines :: "code_points \<Rightarrow> code_points \<Rightarrow> code_points list" where
  "points_lines current [] = (if current = [] then [] else [current])"
| "points_lines current (c # cs) = (if line_end_point c then current # points_lines [] cs else points_lines (current @ [c]) cs)"

definition points_strip :: "code_points \<Rightarrow> code_points" where
  "points_strip s = rev (dropWhile space_point (rev (dropWhile space_point s)))"

text \<open>\<open>errors="replace"\<close>: the length of the longest prefix of a sequence that cannot be completed, and the text with U+FFFD for each.\<close>

definition bad_length :: "bytes \<Rightarrow> nat" where
  "bad_length bs =
     (case bs of
        a # b # rest \<Rightarrow>
          let n = unat a;
              second = utf8_cont b \<and> (n = 0xE0 \<longrightarrow> 0xA0 \<le> unat b) \<and> (n = 0xED \<longrightarrow> unat b \<le> 0x9F)
                \<and> (n = 0xF0 \<longrightarrow> 0x90 \<le> unat b) \<and> (n = 0xF4 \<longrightarrow> unat b \<le> 0x8F) in
          if \<not> (0xE0 \<le> n \<and> n \<le> 0xF4) \<or> \<not> second then 1
          else (case rest of
            c # _ \<Rightarrow> if 0xF0 \<le> n \<and> utf8_cont c then 3 else 2
          | [] \<Rightarrow> 2)
      | _ \<Rightarrow> 1)"

definition sequence_length :: "byte \<Rightarrow> nat" where
  "sequence_length a = (let n = unat a in if n < 0x80 then 1 else if n < 0xE0 then 2 else if n < 0xF0 then 3 else 4)"

lemma lengths_positive [simp]: "0 < bad_length bs" "0 < sequence_length a"
  by (auto simp: bad_length_def sequence_length_def Let_def split: list.splits)

lemma drop_shorter: "0 < n \<Longrightarrow> length (drop n (x # xs)) < length (x # xs)"
  by simp

function utf8_replace :: "bytes \<Rightarrow> code_points" where
  "utf8_replace [] = []"
| "utf8_replace (a # bs) =
     (case utf8_decode (take (sequence_length a) (a # bs)) of
        Some [c] \<Rightarrow> c # utf8_replace (drop (sequence_length a) (a # bs))
      | _ \<Rightarrow> 0xFFFD # utf8_replace (drop (bad_length (a # bs)) (a # bs)))"
  by pat_completeness auto
termination
  by (relation "measure length") (simp_all only: wf_measure in_measure drop_shorter lengths_positive)

definition strict_text :: "filesystem \<Rightarrow> path \<Rightarrow> build_error \<Rightarrow> build_error + code_points" where
  "strict_text fs p missing =
     (case fs p of
        None \<Rightarrow> Inl missing
      | Some content \<Rightarrow> (case utf8_decode content of None \<Rightarrow> Inl (BuildPython UnicodeDecodeError) | Some t \<Rightarrow> Inr (universal t)))"

subsection \<open>Build metadata\<close>

text \<open>The text after the optional white space before it; \<open>(\S.*?)\s*$\<close>: the rest of the line without the white space around it, if there is any.\<close>

definition after :: "string \<Rightarrow> code_points \<Rightarrow> code_points option" where
  "after word s = (let w = code_points_of word in if prefix w s then Some (drop (length w) s) else None)"

definition line_value :: "code_points \<Rightarrow> code_points option" where
  "line_value s = (if points_strip s = [] then None else Some (points_strip s))"

definition skip_space :: "code_points \<Rightarrow> code_points option" where
  "skip_space s = (case s of c # _ \<Rightarrow> if space_point c then Some (dropWhile space_point s) else None | [] \<Rightarrow> None)"

definition metadata_line :: "string \<Rightarrow> code_points \<Rightarrow> code_points option" where
  "metadata_line key l = Option.bind (after (key @ '':'') (dropWhile space_point l)) line_value"

definition metadata_value :: "filesystem \<Rightarrow> path \<Rightarrow> string \<Rightarrow> build_error + code_points" where
  "metadata_value fs p key =
     bindR (strict_text fs p CannotReadMetadata) (\<lambda>t.
       case List.map_filter (metadata_line key) (points_lines [] t) of [v] \<Rightarrow> Inr v | _ \<Rightarrow> Inl (MetadataNotUnique key))"

text \<open>\<open>\s*-\s+name:\<close>, \<open>\s+build_dir:\<close> and \<open>\s+-\s+\<close>, each followed by a value.\<close>

definition name_head :: "code_points \<Rightarrow> code_points option" where
  "name_head l = Option.bind (Option.bind (after ''-'' (dropWhile space_point l)) skip_space) (after ''name:'')"

definition directory_line :: "code_points \<Rightarrow> code_points option" where
  "directory_line l = Option.bind (Option.bind (skip_space l) (after ''build_dir:'')) line_value"

definition order_line :: "code_points \<Rightarrow> code_points option" where
  "order_line l = Option.bind (Option.bind (Option.bind (skip_space l) (after ''-'')) skip_space) line_value"

fun domain_directory :: "code_points list \<Rightarrow> code_points option" where
  "domain_directory [] = None"
| "domain_directory (l # ls) =
     (if name_head l \<noteq> None then None
      else case directory_line l of Some d \<Rightarrow> Some d | None \<Rightarrow> domain_directory ls)"

fun domain_entries :: "'h build_env \<Rightarrow> (string \<times> path) list \<Rightarrow> code_points list \<Rightarrow> (string \<times> path) list" where
  "domain_entries env builds [] = builds"
| "domain_entries env builds (l # ls) =
     domain_entries env
       (case Option.bind (name_head l) line_value of
          None \<Rightarrow> builds
        | Some n \<Rightarrow>
            (case domain_directory ls of
               None \<Rightarrow> builds
             | Some d \<Rightarrow> AList.update (be_name env n) (cl_resolve (be_world env) (be_name env d)) builds)) ls"

text \<open>\<open>Path.is_relative_to\<close> on resolved paths, and \<open>a / b\<close>.\<close>

definition path_parts :: "path \<Rightarrow> string list" where
  "path_parts p = filter (\<lambda>c. c \<noteq> [] \<and> c \<noteq> ''.'') (split_on (CHR ''/'') p)"

definition is_relative_to :: "path \<Rightarrow> path \<Rightarrow> bool" where
  "is_relative_to p d \<longleftrightarrow> is_absolute p = is_absolute d \<and> prefix (path_parts d) (path_parts p)"

definition path_div :: "path \<Rightarrow> string \<Rightarrow> path" where
  "path_div d p = (if is_absolute p then p else path_join d p)"

record build_domains =
  bd_default :: string
  bd_builds :: "(string \<times> path) list"
  bd_order :: "string list"

fun flash_names :: "code_points list \<Rightarrow> code_points list" where
  "flash_names [] = []"
| "flash_names (l # ls) = (case order_line l of None \<Rightarrow> [] | Some v \<Rightarrow> v # flash_names ls)"

definition read_build_domains :: "'h build_env \<Rightarrow> filesystem \<Rightarrow> path \<Rightarrow> build_error + build_domains" where
  "read_build_domains env fs build_dir =
     (let domains = path_join build_dir ''domains.yaml'' in
      bindR (metadata_value fs domains ''default'') (\<lambda>default_text.
      bindR (strict_text fs domains (BuildPython OSError)) (\<lambda>t.
        let default_domain = be_name env default_text; ls = points_lines [] t; builds = domain_entries env [] ls in
        if default_domain \<notin> fst ` set builds \<or> \<not> list_all (\<lambda>(_, p). is_relative_to p (cl_resolve (be_world env) build_dir)) builds
        then Inl DomainsInvalid
        else case dropWhile (\<lambda>l. l \<noteq> code_points_of ''flash_order:'') ls of
          [] \<Rightarrow> Inl NoFlashOrder
        | _ # rest \<Rightarrow>
            let order = map (be_name env) (flash_names rest) in
            if order = [] \<or> \<not> list_all (\<lambda>n. n \<in> fst ` set builds) order then Inl FlashOrderInvalid
            else Inr \<lparr>bd_default = default_domain, bd_builds = builds, bd_order = order\<rparr>)))"

definition path_name :: "path \<Rightarrow> string" where
  "path_name p = (case rev (path_parts p) of [] \<Rightarrow> [] | name # _ \<Rightarrow> name)"

definition runner_artifact :: "'h build_env \<Rightarrow> filesystem \<Rightarrow> path \<Rightarrow> string \<Rightarrow> path \<Rightarrow> build_error + path" where
  "runner_artifact env fs domain_build key source_root =
     bindR (metadata_value fs (path_join domain_build ''zephyr/runners.yaml'') key) (\<lambda>text.
       let value_text = be_name env text in
       if \<not> is_absolute value_text \<and> path_name value_text \<noteq> value_text then Inl ArtifactNotPlain
       else let p = cl_resolve (be_world env)
              (if is_absolute value_text then value_text else path_join (path_join domain_build ''zephyr'') value_text) in
         if \<not> (is_relative_to p (cl_resolve (be_world env) domain_build) \<or> is_relative_to p (cl_resolve (be_world env) source_root))
         then Inl ArtifactOutside else Inr p)"

subsection \<open>Sources and their receipt\<close>

fun jitems :: "json \<Rightarrow> py_error + (string \<times> json) list" where
  "jitems (JObj kvs) = Inr kvs"
| "jitems _ = Inl AttributeError"

definition git_head :: "'h build_env \<Rightarrow> 'h \<Rightarrow> path \<Rightarrow> build_error + string" where
  "git_head env world p = (case be_git env world p of None \<Rightarrow> Inl (NoGitHead p) | Some head \<Rightarrow> Inr (py_strip head))"

definition toolchain_compilers :: "path \<Rightarrow> (string \<times> path) list" where
  "toolchain_compilers toolchain =
     [(''zephyr/gnu'', path_join toolchain ''opt/zephyr-sdk/gnu/arm-zephyr-eabi/bin/arm-zephyr-eabi-gcc''),
      (''zephyr'', path_join toolchain ''opt/zephyr-sdk/arm-zephyr-eabi/bin/arm-zephyr-eabi-gcc'')]"

definition toolchain_variant :: "filesystem \<Rightarrow> path \<Rightarrow> build_error + string" where
  "toolchain_variant fs toolchain =
     (case filter (\<lambda>(_, compiler). fs compiler \<noteq> None) (toolchain_compilers toolchain) of
        [(variant, _)] \<Rightarrow> Inr variant
      | _ \<Rightarrow> Inl NotOneToolchain)"

definition official_toolchain_compiler :: "'h build_env \<Rightarrow> filesystem \<Rightarrow> path \<Rightarrow> build_error + string \<times> path" where
  "official_toolchain_compiler env fs toolchain =
     (let t = cl_resolve (be_world env) toolchain in
      bindR (toolchain_variant fs t) (\<lambda>variant.
        Inr (variant, cl_resolve (be_world env)
          (path_join t (''opt/zephyr-sdk/'' @ (if variant = ''zephyr/gnu'' then ''gnu/'' else []) @ ''arm-zephyr-eabi/bin/arm-zephyr-eabi-gcc'')))))"

definition sdk_config :: "path \<Rightarrow> path" where
  "sdk_config toolchain = path_join toolchain ''opt/zephyr-sdk/cmake/Zephyr-sdkConfig.cmake''"

definition receipt_path :: "path \<Rightarrow> string \<Rightarrow> path" where
  "receipt_path project oracle_id = path_join project (''.work/reference/sources/'' @ oracle_id @ ''.json'')"

definition check_module :: "'h build_env \<Rightarrow> 'h \<Rightarrow> path \<Rightarrow> (string \<Rightarrow> build_error) \<Rightarrow> string \<times> json \<Rightarrow> build_error + unit" where
  "check_module env world source_root differs m =
     bindR (git_head env world (path_div source_root (fst m))) (\<lambda>actual.
       if py_eq (JStr actual) (snd m) then Inr () else Inl (differs (fst m)))"

definition check_file ::
  "'h build_env \<Rightarrow> filesystem \<Rightarrow> path \<Rightarrow> (string \<Rightarrow> build_error) \<Rightarrow> (string \<Rightarrow> build_error) \<Rightarrow> string \<times> json \<Rightarrow> build_error + string \<times> json" where
  "check_file env fs base_path missing differs f =
     (case fs (path_div base_path (fst f)) of
        None \<Rightarrow> Inl (missing (fst f))
      | Some data \<Rightarrow>
          let actual = JStr (cl_digest (be_world env) data) in
          if py_eq actual (snd f) then Inr (fst f, actual) else Inl (differs (fst f)))"

definition ref_oracle :: "'h build_env \<Rightarrow> filesystem \<Rightarrow> path \<Rightarrow> string \<Rightarrow> build_error + json" where
  "ref_oracle env fs project oracle_id = mapE RefLock (oracle_contract (cl_decode (be_world env)) fs project oracle_id)"

definition source_receipt :: "'h build_env \<Rightarrow> 'h \<Rightarrow> filesystem \<Rightarrow> path \<Rightarrow> string \<Rightarrow> path \<Rightarrow> path \<Rightarrow> build_error + json" where
  "source_receipt env world fs project oracle_id source_root0 toolchain0 =
     (let source_root = cl_resolve (be_world env) source_root0; toolchain = cl_resolve (be_world env) toolchain0 in
      bindR (ref_oracle env fs project oracle_id) (\<lambda>contract.
      bindR (if fs (sdk_config toolchain) = None then Inl NoSdkPackage else Inr ()) (\<lambda>_.
      bindR (toolchain_variant fs toolchain) (\<lambda>variant.
      bindR (pyR (jitem contract ''modules'')) (\<lambda>modules.
      bindR (bindR (pyR (jitems modules)) (forR (check_module env world source_root ModuleDiffers))) (\<lambda>_.
      bindR (pyR (bindR (jitem contract ''files'') jitems)) (\<lambda>named.
      bindR (mapR (check_file env fs source_root OracleFileMissing OracleFileHash) named) (\<lambda>file_receipts.
      bindR (pyR (bindR (jget contract ''project_files'' (JObj [])) jitems)) (\<lambda>fixtures.
      bindR (mapR (check_file env fs project FixtureMissing FixtureHash) fixtures) (\<lambda>fixture_receipts.
      bindR (pyR (sha256 (cl_digest (be_world env)) fs (lock_path project))) (\<lambda>lock_sha.
        Inr (JObj
          [(''schema'', JStr ''nrfkit-source-receipt/v1''), (''oracle'', JStr oracle_id), (''root'', JStr source_root),
           (''toolchain'', JStr toolchain), (''toolchain_variant'', JStr variant), (''source_lock_sha256'', JStr lock_sha),
           (''modules'', modules), (''files'', JObj file_receipts), (''project_files'', JObj fixture_receipts),
           (''prepared_at'', JStr (be_now env))]))))))))))))"

definition prepare :: "'h build_env \<Rightarrow> path \<Rightarrow> string \<Rightarrow> path \<Rightarrow> path \<Rightarrow> ('h host, build_error, path) action" where
  "prepare env project oracle_id source_root toolchain =
     bindA (readA (\<lambda>w. (files w, outside w))) (\<lambda>(fs, world).
     bindA (liftA (source_receipt env world fs project oracle_id source_root toolchain)) (\<lambda>receipt.
       let p = receipt_path project oracle_id in
       bindA (atomic_json (cl_temporary (be_world env) p) p (cl_dumps (be_world env) receipt)) (\<lambda>_. pureA p)))"

definition load_receipt :: "'h build_env \<Rightarrow> 'h \<Rightarrow> filesystem \<Rightarrow> path \<Rightarrow> string \<Rightarrow> build_error + path \<times> path \<times> json" where
  "load_receipt env world fs project oracle_id =
     bindR (case fs (receipt_path project oracle_id) of
              None \<Rightarrow> Inl ReceiptInvalid
            | Some content \<Rightarrow>
                (case cl_decode (be_world env) content of
                   Inl True \<Rightarrow> Inl (BuildPython UnicodeDecodeError) | Inl False \<Rightarrow> Inl ReceiptInvalid | Inr v \<Rightarrow> Inr v)) (\<lambda>receipt.
     bindR (pyR (jget receipt ''schema'' JNull)) (\<lambda>schema.
     bindR (pyR (jget receipt ''oracle'' JNull)) (\<lambda>named.
     bindR (if \<not> py_eq schema (JStr ''nrfkit-source-receipt/v1'') \<or> \<not> py_eq named (JStr oracle_id) then Inl ReceiptIdentity else Inr ()) (\<lambda>_.
     bindR (pyR (sha256 (cl_digest (be_world env)) fs (lock_path project))) (\<lambda>lock_sha.
     bindR (pyR (jget receipt ''source_lock_sha256'' JNull)) (\<lambda>locked.
     bindR (if \<not> py_eq locked (JStr lock_sha) then Inl ReceiptStale else Inr ()) (\<lambda>_.
     bindR (pyR (bindR (jitem receipt ''root'') jstr)) (\<lambda>source_root.
     bindR (pyR (bindR (jitem receipt ''toolchain'') jstr)) (\<lambda>toolchain.
     bindR (ref_oracle env fs project oracle_id) (\<lambda>contract.
     bindR (pyR (bindR (jitem contract ''modules'') jitems)) (\<lambda>modules.
     bindR (forR (check_module env world source_root ReceiptModule) modules) (\<lambda>_.
     bindR (if fs (sdk_config toolchain) = None then Inl ReceiptToolchain else Inr ()) (\<lambda>_.
     bindR (pyR (jget receipt ''toolchain_variant'' JNull)) (\<lambda>recorded.
     bindR (toolchain_variant fs toolchain) (\<lambda>variant.
     bindR (if \<not> py_eq recorded (JStr variant) then Inl ReceiptVariant else Inr ()) (\<lambda>_.
     bindR (pyR (bindR (jget contract ''project_files'' (JObj [])) jitems)) (\<lambda>fixtures.
     bindR (forR (\<lambda>f. bindR (check_file env fs project FixtureChanged FixtureChanged f) (\<lambda>_. Inr ())) fixtures) (\<lambda>_.
       Inr (source_root, toolchain, receipt)))))))))))))))))))"

definition profile_contract :: "json \<Rightarrow> string option \<Rightarrow> build_error + json" where
  "profile_contract contract profile =
     bindR (pyR (jget contract ''profiles'' JNull)) (\<lambda>profiles.
       if profiles = JNull then (if profile = None then Inr contract else Inl NoProfiles)
       else case profile of
         None \<Rightarrow> Inl ProfileRequired
       | Some name \<Rightarrow>
           (case jitem profiles name of
              Inl KeyError \<Rightarrow> Inl (UnknownProfile name)
            | Inl e \<Rightarrow> Inl (BuildPython e)
            | Inr selected \<Rightarrow>
                (case (contract, selected) of
                   (JObj kvs, JObj chosen) \<Rightarrow>
                     Inr (JObj (AList.update ''profile'' (JStr name) (foldl (\<lambda>m (k, v). AList.update k v m) kvs chosen)))
                 | _ \<Rightarrow> Inl (BuildPython TypeError))))"

subsection \<open>Build evidence\<close>

definition evidence_file :: "'h build_env \<Rightarrow> filesystem \<Rightarrow> path \<Rightarrow> json \<Rightarrow> build_error + path \<times> code_points" where
  "evidence_file env fs build_dir relative =
     bindR (pyR (jstr relative)) (\<lambda>r.
       let p = cl_resolve (be_world env) (path_div build_dir r) in
       case fs p of
         None \<Rightarrow> Inl EvidenceFileMissing
       | Some content \<Rightarrow>
           if is_relative_to p (cl_resolve (be_world env) build_dir) then Inr (p, universal (utf8_replace content)) else Inl EvidenceFileMissing)"

text \<open>\<open>marker in text\<close>: only a string can be searched for.\<close>

definition in_text :: "json \<Rightarrow> code_points \<Rightarrow> build_error + bool" where
  "in_text marker t = bindR (pyR (jstr marker)) (\<lambda>m. Inr (sublist (code_points_of m) t))"

definition require_marker :: "build_error \<Rightarrow> bool \<Rightarrow> code_points \<Rightarrow> json \<Rightarrow> build_error + unit" where
  "require_marker e present t marker = bindR (in_text marker t) (\<lambda>found. if found = present then Inr () else Inl e)"

definition require_line :: "code_points \<Rightarrow> json \<Rightarrow> build_error + unit" where
  "require_line t marker =
     (case marker of
        JStr m \<Rightarrow> if code_points_of m \<in> set (points_lines [] t) then Inr () else Inl ConfigMarkerMissing
      | _ \<Rightarrow> Inl ConfigMarkerMissing)"

definition markers_of :: "json \<Rightarrow> string \<Rightarrow> build_error + json \<times> json list" where
  "markers_of v key = bindR (pyR (jget v key (JList []))) (\<lambda>ms. bindR (pyR (jiter ms)) (\<lambda>xs. Inr (ms, xs)))"

definition hashed_file :: "'h build_env \<Rightarrow> filesystem \<Rightarrow> path \<Rightarrow> build_error + (string \<times> json) list" where
  "hashed_file env fs p =
     bindR (pyR (sha256 (cl_digest (be_world env)) fs p)) (\<lambda>h. Inr [(''path'', JStr p), (''sha256'', JStr h)])"

definition text_evidence :: "'h build_env \<Rightarrow> filesystem \<Rightarrow> path \<Rightarrow> json \<Rightarrow> build_error + json" where
  "text_evidence env fs build_dir item =
     bindR (pyR (jitem item ''path'')) (\<lambda>relative.
     bindR (evidence_file env fs build_dir relative) (\<lambda>(p, t).
     bindR (markers_of item ''markers'') (\<lambda>(markers, ms).
     bindR (forR (require_marker TextMarkerMissing True t) ms) (\<lambda>_.
     bindR (markers_of item ''forbidden_markers'') (\<lambda>(forbidden, fms).
     bindR (forR (require_marker ForbiddenTextMarker False t) fms) (\<lambda>_.
     bindR (hashed_file env fs p) (\<lambda>hashed.
       Inr (JObj (hashed @ [(''markers'', markers), (''forbidden_markers'', forbidden)])))))))))"

definition verify_build_evidence :: "'h build_env \<Rightarrow> filesystem \<Rightarrow> path \<Rightarrow> json \<Rightarrow> build_error + json" where
  "verify_build_evidence env fs build_dir contract =
     bindR (pyR (jget contract ''build_evidence'' JNull)) (\<lambda>evidence.
       if evidence = JNull then Inr (JObj [(''status'', JStr ''not-required'')])
       else
         bindR (bindR (pyR (jitem evidence ''config'')) (evidence_file env fs build_dir)) (\<lambda>(config_path, config_text).
         bindR (markers_of evidence ''config_markers'') (\<lambda>(config_markers, cms).
         bindR (forR (require_line config_text) cms) (\<lambda>_.
         bindR (bindR (pyR (jitem evidence ''link_file'')) (evidence_file env fs build_dir)) (\<lambda>(link_path, link_text).
         bindR (markers_of evidence ''link_markers'') (\<lambda>(link_markers, lms).
         bindR (forR (require_marker LinkMarkerMissing True link_text) lms) (\<lambda>_.
         bindR (markers_of evidence ''forbidden_link_markers'') (\<lambda>(forbidden, fms).
         bindR (forR (require_marker ForbiddenLinkMarker False link_text) fms) (\<lambda>_.
         bindR (markers_of evidence ''text_files'') (\<lambda>(_, items).
         bindR (mapR (text_evidence env fs build_dir) items) (\<lambda>texts.
         bindR (hashed_file env fs config_path) (\<lambda>config.
         bindR (hashed_file env fs link_path) (\<lambda>link.
           Inr (JObj
             [(''status'', JStr ''ok''), (''config'', JObj config), (''link'', JObj link), (''config_markers'', config_markers),
              (''link_markers'', link_markers), (''forbidden_link_markers'', forbidden), (''text_files'', JList texts)]))))))))))))))"

subsection \<open>The image manifest\<close>

definition allowlist_for :: "json \<Rightarrow> string \<Rightarrow> build_error \<Rightarrow> build_error + json" where
  "allowlist_for contract domain missing =
     (case bindR (jitem contract ''image_allowlists'') (\<lambda>a. jitem a domain) of
        Inl KeyError \<Rightarrow> Inl missing
      | Inl e \<Rightarrow> Inl (BuildPython e)
      | Inr v \<Rightarrow> Inr v)"

definition require_listed :: "addr_range list \<Rightarrow> json \<Rightarrow> build_error + unit" where
  "require_listed rs allowlist =
     bindR (pyR (bindR (jiter allowlist) (mapR jiter))) (\<lambda>allowed. mapE BuildTool (require_allowed_json rs allowed))"

definition domain_build_of :: "build_domains \<Rightarrow> string \<Rightarrow> build_error + path" where
  "domain_build_of d name = (case map_of (bd_builds d) name of None \<Rightarrow> Inl (BuildPython KeyError) | Some p \<Rightarrow> Inr p)"

definition manifest_image ::
  "'h build_env \<Rightarrow> filesystem \<Rightarrow> path \<Rightarrow> json \<Rightarrow> build_domains \<Rightarrow> nat \<times> string \<Rightarrow> build_error + json" where
  "manifest_image env fs source_root contract d x =
     (case x of (order, domain) \<Rightarrow>
        bindR (bindR (domain_build_of d domain) (\<lambda>b. runner_artifact env fs b ''hex_file'' source_root)) (\<lambda>ihex.
        bindR (if fs ihex = None then Inl (NoDeclaredHex domain) else Inr ()) (\<lambda>_.
        bindR (mapE (BuildTool \<circ> ToolImage) (parse_ihex fs ihex)) (\<lambda>hex_image.
        bindR (allowlist_for contract domain (NoDomainAllowlist domain)) (\<lambda>allowlist.
        bindR (require_listed (ranges hex_image) allowlist) (\<lambda>_.
        bindR (pyR (sha256 (cl_digest (be_world env)) fs ihex)) (\<lambda>h.
          Inr (JObj
            [(''domain'', JStr domain), (''order'', JInt (int order)), (''path'', JStr ihex), (''sha256'', JStr h),
             (''ranges'', ranges_json (ranges hex_image)), (''allowlist'', allowlist)]))))))))"

definition CONTRACT_FIELDS :: "string list" where
  "CONTRACT_FIELDS = [''soc'', ''core'', ''board'', ''board_version'', ''device_family'', ''expected_token'', ''vcom'']"

definition reference_manifest ::
  "'h build_env \<Rightarrow> filesystem \<Rightarrow> string \<Rightarrow> path \<Rightarrow> path \<Rightarrow> json \<Rightarrow> json \<Rightarrow> build_error + json" where
  "reference_manifest env fs oracle_id source_root build_dir contract receipt_sha =
     bindR (read_build_domains env fs build_dir) (\<lambda>d.
     bindR (bindR (domain_build_of d (bd_default d)) (\<lambda>b. runner_artifact env fs b ''elf_file'' source_root)) (\<lambda>elf.
     bindR (if fs elf = None then Inl NoDebugElf else Inr ()) (\<lambda>_.
     bindR (mapE (BuildTool \<circ> ToolImage) (parse_elf fs elf)) (\<lambda>elf_image.
     bindR (allowlist_for contract (bd_default d) NoDefaultAllowlist) (\<lambda>debug_allowlist.
     bindR (require_listed (ranges elf_image) debug_allowlist) (\<lambda>_.
     bindR (mapR (manifest_image env fs source_root contract d) (enumerate 0 (bd_order d))) (\<lambda>images.
     bindR (pyR (mapR (\<lambda>k. bindR (jitem contract k) (\<lambda>v. Inr (k, v))) CONTRACT_FIELDS)) (\<lambda>target.
     bindR (pyR (sha256 (cl_digest (be_world env)) fs elf)) (\<lambda>elf_sha.
     bindR (verify_build_evidence env fs build_dir contract) (\<lambda>evidence.
     bindR (pyR (jitems contract)) (\<lambda>kvs.
       Inr (JObj
         ([(''schema'', JStr ''nrfkit-image/v1''), (''oracle'', JStr oracle_id), (''source_receipt_sha256'', receipt_sha)] @ target @
          [(''backend'', safe_backend_contract), (''debug_allowlist'', debug_allowlist),
           (''debug_elf'', JObj [(''path'', JStr (cl_resolve (be_world env) elf)), (''sha256'', JStr elf_sha),
              (''entry'', case entry elf_image of None \<Rightarrow> JNull | Some e \<Rightarrow> JInt e), (''ranges'', ranges_json (ranges elf_image))]),
           (''images'', JList images), (''build_evidence'', evidence)] @
          (case map_of kvs ''hci_transport'' of None \<Rightarrow> [] | Some v \<Rightarrow> [(''hci_transport'', v)]))))))))))))))"

definition build_manifest ::
  "'h build_env \<Rightarrow> string \<Rightarrow> path \<Rightarrow> path \<Rightarrow> json \<Rightarrow> json \<Rightarrow> ('h host, build_error, path) action" where
  "build_manifest env oracle_id source_root build_dir contract receipt_sha =
     bindA (readA files) (\<lambda>fs.
     bindA (liftA (reference_manifest env fs oracle_id source_root build_dir contract receipt_sha)) (\<lambda>m.
       let p = path_join build_dir ''image-manifest.json'' in
       bindA (atomic_json (cl_temporary (be_world env) p) p (cl_dumps (be_world env) m)) (\<lambda>_. pureA p)))"

subsection \<open>The build\<close>

record build_args =
  ba_project :: path
  ba_oracle :: string
  ba_timeout :: rat
  ba_west :: string
  ba_profile :: "string option"

definition build_name :: "build_args \<Rightarrow> string" where
  "build_name args =
     (case ba_profile args of
        None \<Rightarrow> ba_oracle args
      | Some profile \<Rightarrow> if profile = [] then ba_oracle args else ba_oracle args @ ''-'' @ profile)"

definition west_argv :: "build_args \<Rightarrow> json \<Rightarrow> path \<Rightarrow> path \<Rightarrow> build_error + json list" where
  "west_argv args contract source_root build_dir =
     bindR (pyR (jget contract ''sample_origin'' JNull)) (\<lambda>origin.
     bindR (pyR (bindR (jitem contract ''sample'') jstr)) (\<lambda>sample.
     bindR (pyR (jitem contract ''board'')) (\<lambda>board.
     bindR (pyR (jget contract ''extra_conf'' JNull)) (\<lambda>extra.
     bindR (if jtruth extra
            then bindR (pyR (jstr extra)) (\<lambda>e. Inr [JStr ''--'', JStr (''-DEXTRA_CONF_FILE='' @ path_div (ba_project args) e)])
            else Inr []) (\<lambda>more_args.
       Inr ([JStr (ba_west args), JStr ''-z'', JStr (path_join source_root ''zephyr''), JStr ''build'', JStr ''--build-dir'', JStr build_dir,
             JStr (path_div (if py_eq origin (JStr ''project'') then ba_project args else source_root) sample),
             JStr ''--board'', board, JStr ''--pristine=always''] @ more_args))))))"

type_synonym ('h, 'z, 'a) build_step = "(('h, 'z) cmd_state_scheme, build_error, 'a) action"

definition store_build :: "'h build_env \<Rightarrow> path \<Rightarrow> ('h, 'z, unit) build_step" where
  "store_build env dir s =
     onHost id (atomic_json (cl_temporary (be_world env) (path_join dir ''run.json'')) (path_join dir ''run.json'')
       (cl_dumps (be_world env) (JObj (report s)))) s"

definition build_body :: "'h build_env \<Rightarrow> build_args \<Rightarrow> path \<Rightarrow> ('h, 'z, path) build_step" where
  "build_body env args dir =
     bindA (readA (\<lambda>s. (files (host s), outside (host s)))) (\<lambda>(fs, world).
     bindA (liftA (load_receipt env world fs (ba_project args) (ba_oracle args))) (\<lambda>(source_root, toolchain, receipt).
     bindA (liftA (bindR (ref_oracle env fs (ba_project args) (ba_oracle args)) (\<lambda>c. profile_contract c (ba_profile args)))) (\<lambda>contract.
       let build_dir = path_join (ba_project args) (''.work/reference/build/'' @ build_name args) in
     bindA (liftA (west_argv args contract source_root build_dir)) (\<lambda>argv.
     bindA (liftA (pyR (sha256 (cl_digest (be_world env)) fs (receipt_path (ba_project args) (ba_oracle args))))) (\<lambda>receipt_sha.
     bindA (put_report ''argv'' (JList argv)) (\<lambda>_.
     bindA (put_report ''source_receipt_sha256'' (JStr receipt_sha)) (\<lambda>_.
     bindA (store_build env dir) (\<lambda>_.
     bindA (liftA (pyR (jitem receipt ''toolchain_variant''))) (\<lambda>_.
     bindA (liftA (pyR (mapR jstr argv))) (\<lambda>command.
     bindA (onHost id (run_logged (cl_child (be_world env)) BuildPython command (path_join dir ''build.log'') (ba_timeout args))) (\<lambda>result.
     bindA (put_report ''process'' (JObj [(''returncode'', JInt (returncode result)), (''timed_out'', JBool (timed_out result))])) (\<lambda>_.
     bindA (requireA (returncode result = 0) ReferenceBuildFailed) (\<lambda>_.
       onHost id (build_manifest env (build_name args) source_root build_dir contract (JStr receipt_sha)))))))))))))))"

definition reference_build :: "'h build_env \<Rightarrow> build_args \<Rightarrow> path \<Rightarrow> ('h, 'z, path) build_step" where
  "reference_build env args dir =
     bindA (put_report ''schema'' (JStr ''nrfkit-run/v1'')) (\<lambda>_.
     bindA (put_report ''operation'' (JStr ''reference-build'')) (\<lambda>_.
     bindA (put_report ''oracle'' (JStr (ba_oracle args))) (\<lambda>_.
     bindA (put_report ''status'' (JStr ''running'')) (\<lambda>_.
     bindA (store_build env dir) (\<lambda>_.
     bindA (reraiseA (build_body env args dir) (\<lambda>e.
        bindA (put_report ''status'' (JStr ''failed'')) (\<lambda>_.
        bindA (put_report ''error'' (JStr (be_describe env e))) (\<lambda>_. store_build env dir)))) (\<lambda>p.
     bindA (put_report ''status'' (JStr ''ok'')) (\<lambda>_.
     bindA (put_report ''manifest'' (JStr p)) (\<lambda>_.
     bindA (store_build env dir) (\<lambda>_. pureA p)))))))))"

end
