(* ===== verification/Reference_Correct.thy ===== *)
theory Reference_Correct
  imports Reference_Build Manifest_Correct
begin

section \<open>Correctness of reference builds\<close>

text \<open>The manifest a reference build writes passes the audit every device command makes of it.\<close>

subsection \<open>Allowlists\<close>

lemma sort_Nil_iff: "sort xs = [] \<longleftrightarrow> xs = []"
  by (metis length_0_conv length_sort)

lemma ranges_loop_not_Nil: "ranges_loop a b xs \<noteq> []"
  by (induction a b xs rule: ranges_loop.induct) auto

lemma parsed_ranges_not_empty: "parse_elf fs p = Inr img \<Longrightarrow> ranges img \<noteq> []" "parse_ihex fs p = Inr img \<Longrightarrow> ranges img \<noteq> []"
proof -
  show "ranges img \<noteq> []" if "parse_elf fs p = Inr img"
    using that by (auto simp: parse_elf_def Let_def result_simps sort_Nil_iff split: option.splits if_splits)
  show "ranges img \<noteq> []" if ihex: "parse_ihex fs p = Inr img"
  proof -
    from ihex obtain addresses where "image_ranges addresses = Inr (ranges img)"
      by (auto simp: parse_ihex_def result_simps split: if_splits)
    then show ?thesis by (cases "sort (remdups addresses)") (auto simp: image_ranges_def ranges_loop_not_Nil)
  qed
qed

text \<open>An allowlist that admits a range is a list, and not an empty one.\<close>

lemma require_listed_inv:
  assumes "require_listed rs allowlist = Inr ()" and "rs \<noteq> []"
  shows "\<exists>entries allowed. nonempty_list allowlist = Some entries \<and> mapR jiter entries = Inr allowed \<and> require_allowed_json rs allowed = Inr ()"
proof -
  from assms(1) obtain entries allowed where e: "jiter allowlist = Inr entries" "mapR jiter entries = Inr allowed" "require_allowed_json rs allowed = Inr ()"
    by (auto simp: require_listed_def result_simps)
  from require_allowed_json_sound [OF e(3)] assms(2) obtain r where "json_allowed allowed r" by (cases rs) auto
  then obtain a b x where listed: "[a, b] \<in> set allowed" "jnum a = Some x" by (auto simp: json_allowed_def entry_allows_def)
  from e(2) listed(1) obtain item where item: "item \<in> set entries" "jiter item = Inr [a, b]"
    by (fastforce simp: mapR_Inr_iff list_all2_conv_all_nth in_set_conv_nth)
  have "\<exists>xs. item = JList xs"
    using item(2) listed(2) by (cases item) auto
  with item(1) e(1) have "allowlist = JList entries" "entries \<noteq> []" by (cases allowlist; auto)+
  with e(2,3) show ?thesis by auto
qed

lemma check_artifact_accepts_listed:
  assumes "map_of kvs ''path'' = Some (JStr p)" and "is_absolute p" and "sha256 digest fs p = Inr h"
    and "map_of kvs ''sha256'' = Some (JStr h)" and "parser fs p = Inr img"
    and "require_listed (ranges img) allowlist = Inr ()" and "ranges img \<noteq> []"
    and "map_of kvs ''ranges'' = Some (ranges_json (ranges img))"
    and "\<And>e. entry img = Some e \<Longrightarrow> map_of kvs ''entry'' = Some (JInt e)"
  shows "check_artifact digest fs (JObj kvs) parser allowlist = Inr ()"
proof -
  obtain entries allowed where listed: "nonempty_list allowlist = Some entries" "mapR jiter entries = Inr allowed" "require_allowed_json (ranges img) allowed = Inr ()"
    using require_listed_inv [OF assms(6,7)] by blast
  have e: "(case entry img of None \<Rightarrow> Inr False
      | Some e \<Rightarrow> bindR (mapE ToolPython (jget (JObj kvs) ''entry'' JNull)) (\<lambda>v. Inr (\<not> py_eq v (JInt e)))) = Inr False"
    using assms(9) by (cases "entry img") auto
  show ?thesis
    unfolding check_artifact_def listed(1)
    by (simp add: assms(1-5,8) listed(2,3) e [simplified] py_eq_ranges_json)
qed

subsection \<open>The manifest\<close>

lemma runner_artifact_resolved: "runner_artifact env fs d key r = Inr p \<Longrightarrow> \<exists>q. p = cl_resolve (be_world env) q"
  by (auto simp: runner_artifact_def Let_def result_simps split: if_splits)

definition resolves :: "'h build_env \<Rightarrow> bool" where
  "resolves env \<longleftrightarrow> (\<forall>q. is_absolute (cl_resolve (be_world env) q) \<and> cl_resolve (be_world env) (cl_resolve (be_world env) q) = cl_resolve (be_world env) q)"

text \<open>What an entry of the image list is.\<close>

definition image_entry :: "'h build_env \<Rightarrow> filesystem \<Rightarrow> nat \<Rightarrow> json \<Rightarrow> bool" where
  "image_entry env fs order item \<longleftrightarrow> (\<exists>allowlist. jget item ''order'' JNull = Inr (JInt (int order)) \<and> jget item ''allowlist'' JNull = Inr allowlist
     \<and> check_artifact (cl_digest (be_world env)) fs item parse_ihex allowlist = Inr ())"

lemma manifest_image_entry:
  assumes "manifest_image env fs r contract d (order, domain) = Inr item" and "resolves env"
  shows "image_entry env fs order item"
proof -
  from assms(1) obtain b ihex img allowlist h where run: "runner_artifact env fs b ''hex_file'' r = Inr ihex" "parse_ihex fs ihex = Inr img"
    "require_listed (ranges img) allowlist = Inr ()" "sha256 (cl_digest (be_world env)) fs ihex = Inr h"
    and item: "item = JObj [(''domain'', JStr domain), (''order'', JInt (int order)), (''path'', JStr ihex), (''sha256'', JStr h),
             (''ranges'', ranges_json (ranges img)), (''allowlist'', allowlist)]"
    by (auto simp: manifest_image_def result_simps split: if_splits)
  have "is_absolute ihex" using runner_artifact_resolved [OF run(1)] assms(2) by (auto simp: resolves_def)
  then have "check_artifact (cl_digest (be_world env)) fs item parse_ihex allowlist = Inr ()"
    unfolding item using run parsed_ranges_not_empty(2) [OF run(2)] parse_ihex_entry [OF run(2)]
    by (intro check_artifact_accepts_listed [where img = img and p = ihex and h = h]) simp_all
  then show ?thesis by (simp add: image_entry_def item)
qed

lemma manifest_images_entries:
  assumes "mapR (manifest_image env fs r contract d) (enumerate k xs) = Inr items" and "resolves env"
  shows "length items = length xs \<and> (\<forall>i < length xs. image_entry env fs (k + i) (items ! i))"
proof -
  from assms(1) have "list_all2 (\<lambda>x y. manifest_image env fs r contract d x = Inr y) (enumerate k xs) items" by (simp add: mapR_Inr_iff)
  then have "length items = length xs" "\<forall>i < length xs. manifest_image env fs r contract d (k + i, xs ! i) = Inr (items ! i)"
    by (auto simp: list_all2_conv_all_nth nth_enumerate_eq)
  with assms(2) show ?thesis by (auto intro: manifest_image_entry)
qed

lemma image_entries_orders:
  assumes "\<forall>i < length items. image_entry env fs i (items ! i)"
  shows "mapR (\<lambda>item. jget item ''order'' JNull) items = Inr (map (JInt \<circ> int) [0..<length items])"
    and "\<exists>ls. mapR (\<lambda>item. jget item ''allowlist'' JNull) items = Inr ls
      \<and> forR (\<lambda>(item, allowlist). check_artifact (cl_digest (be_world env)) fs item parse_ihex allowlist) (zip items ls) = Inr ()"
proof -
  show "mapR (\<lambda>item. jget item ''order'' JNull) items = Inr (map (JInt \<circ> int) [0..<length items])"
    using assms by (auto simp: mapR_Inr_iff list_all2_conv_all_nth image_entry_def)
  from assms have "\<forall>i < length items. \<exists>a. jget (items ! i) ''allowlist'' JNull = Inr a
      \<and> check_artifact (cl_digest (be_world env)) fs (items ! i) parse_ihex a = Inr ()" by (auto simp: image_entry_def)
  then obtain f where f: "\<forall>i < length items. jget (items ! i) ''allowlist'' JNull = Inr (f i)
      \<and> check_artifact (cl_digest (be_world env)) fs (items ! i) parse_ihex (f i) = Inr ()" by metis
  have "mapR (\<lambda>item. jget item ''allowlist'' JNull) items = Inr (map f [0..<length items])"
    using f by (auto simp: mapR_Inr_iff list_all2_conv_all_nth)
  moreover have "forR (\<lambda>(item, allowlist). check_artifact (cl_digest (be_world env)) fs item parse_ihex allowlist) (zip items (map f [0..<length items])) = Inr ()"
    using f by (auto simp: forR_Inr_iff in_set_zip)
  ultimately show "\<exists>ls. mapR (\<lambda>item. jget item ''allowlist'' JNull) items = Inr ls
      \<and> forR (\<lambda>(item, allowlist). check_artifact (cl_digest (be_world env)) fs item parse_ihex allowlist) (zip items ls) = Inr ()" by blast
qed

lemma py_eq_orders: "py_eq (JList (map (JInt \<circ> int) xs)) (JList (map (JInt \<circ> int) xs))"
  by (rule py_eq_refl) (auto simp: list_all_iff)

lemma contract_target_keys:
  assumes "mapR (\<lambda>k. bindR (jitem contract k) (\<lambda>v. Inr (k, v))) ks = Inr target"
  shows "map fst target = ks"
  using assms by (induction ks arbitrary: target) (auto simp: result_simps)

definition reference_fields ::
  "string \<Rightarrow> json \<Rightarrow> (string \<times> json) list \<Rightarrow> json \<Rightarrow> (string \<times> json) list \<Rightarrow> json list \<Rightarrow> json \<Rightarrow> (string \<times> json) list \<Rightarrow> (string \<times> json) list" where
  "reference_fields oracle_id receipt_sha target debug_allowlist elf_kvs images evidence transport =
     [(''schema'', JStr ''nrfkit-image/v1''), (''oracle'', JStr oracle_id), (''source_receipt_sha256'', receipt_sha)] @ target @
     [(''backend'', safe_backend_contract), (''debug_allowlist'', debug_allowlist), (''debug_elf'', JObj elf_kvs), (''images'', JList images),
      (''build_evidence'', evidence)] @ transport"

lemma reference_fields_shape:
  fixes oracle_id receipt_sha target debug_allowlist elf_kvs images evidence transport
  assumes "map fst target = CONTRACT_FIELDS" and "set (map fst transport) \<subseteq> {''hci_transport''}"
  defines "kvs \<equiv> reference_fields oracle_id receipt_sha target debug_allowlist elf_kvs images evidence transport"
  shows "map_of kvs ''schema'' = Some (JStr ''nrfkit-image/v1'')" "map_of kvs ''backend'' = Some safe_backend_contract"
    "map_of kvs ''debug_allowlist'' = Some debug_allowlist" "map_of kvs ''debug_elf'' = Some (JObj elf_kvs)" "map_of kvs ''images'' = Some (JList images)"
    "map_of kvs ''image_layout'' = None" "set MANIFEST_REQUIRED \<subseteq> set (map fst kvs)"
    "set (map fst kvs) \<subseteq> set MANIFEST_REQUIRED \<union> set MANIFEST_OPTIONAL"
proof -
  have t: "map_of target k = None" if "k \<notin> set CONTRACT_FIELDS" for k using that assms(1) by (metis map_of_eq_None_iff set_map)
  have x: "map_of transport k = None" if "k \<noteq> ''hci_transport''" for k using that assms(2) by (auto simp: map_of_eq_None_iff)
  have f: "set (map fst kvs) = {''schema'', ''oracle'', ''source_receipt_sha256'', ''backend'', ''debug_allowlist'', ''debug_elf'', ''images'', ''build_evidence''}
      \<union> set CONTRACT_FIELDS \<union> set (map fst transport)"
    unfolding kvs_def reference_fields_def map_append set_append assms(1) by auto
  show "map_of kvs ''schema'' = Some (JStr ''nrfkit-image/v1'')" "map_of kvs ''backend'' = Some safe_backend_contract"
    "map_of kvs ''debug_allowlist'' = Some debug_allowlist" "map_of kvs ''debug_elf'' = Some (JObj elf_kvs)" "map_of kvs ''images'' = Some (JList images)"
    "map_of kvs ''image_layout'' = None"
    by (simp_all add: kvs_def reference_fields_def map_add_def t x CONTRACT_FIELDS_def)
  show "set MANIFEST_REQUIRED \<subseteq> set (map fst kvs)" unfolding f MANIFEST_REQUIRED_def CONTRACT_FIELDS_def by auto
  show "set (map fst kvs) \<subseteq> set MANIFEST_REQUIRED \<union> set MANIFEST_OPTIONAL"
    unfolding f MANIFEST_REQUIRED_def MANIFEST_OPTIONAL_def CONTRACT_FIELDS_def using assms(2) by auto
qed

lemma reference_manifest_inv:
  assumes "reference_manifest env fs oracle_id r build_dir contract receipt_sha = Inr m"
  obtains d b elf img debug_allowlist images h evidence and target transport :: "(string \<times> json) list" where
    "read_build_domains env fs build_dir = Inr d" "runner_artifact env fs b ''elf_file'' r = Inr elf" "parse_elf fs elf = Inr img"
    "require_listed (ranges img) debug_allowlist = Inr ()" "mapR (manifest_image env fs r contract d) (enumerate 0 (bd_order d)) = Inr images"
    "map fst target = CONTRACT_FIELDS" "sha256 (cl_digest (be_world env)) fs elf = Inr h" "set (map fst transport) \<subseteq> {''hci_transport''}"
    "m = JObj (reference_fields oracle_id receipt_sha target debug_allowlist
       [(''path'', JStr (cl_resolve (be_world env) elf)), (''sha256'', JStr h), (''entry'', case entry img of None \<Rightarrow> JNull | Some e \<Rightarrow> JInt e),
        (''ranges'', ranges_json (ranges img))] images evidence transport)"
proof -
  from assms obtain d b elf img debug_allowlist images target h evidence kvs where run:
    "read_build_domains env fs build_dir = Inr d" "runner_artifact env fs b ''elf_file'' r = Inr elf" "parse_elf fs elf = Inr img"
    "require_listed (ranges img) debug_allowlist = Inr ()" "mapR (manifest_image env fs r contract d) (enumerate 0 (bd_order d)) = Inr images"
    "mapR (\<lambda>k. bindR (jitem contract k) (\<lambda>v. Inr (k, v))) CONTRACT_FIELDS = Inr target" "sha256 (cl_digest (be_world env)) fs elf = Inr h"
    and m: "m = JObj (reference_fields oracle_id receipt_sha target debug_allowlist
       [(''path'', JStr (cl_resolve (be_world env) elf)), (''sha256'', JStr h), (''entry'', case entry img of None \<Rightarrow> JNull | Some e \<Rightarrow> JInt e),
        (''ranges'', ranges_json (ranges img))] images evidence (case map_of kvs ''hci_transport'' of None \<Rightarrow> [] | Some v \<Rightarrow> [(''hci_transport'', v)]))"
    unfolding reference_manifest_def reference_fields_def by (auto simp: result_simps split: if_splits)
  show thesis
    by (rule that [OF run(1-5) contract_target_keys [OF run(6)] run(7) _ m]) (auto split: option.split)
qed

lemma domains_order_not_empty: "read_build_domains env fs build_dir = Inr d \<Longrightarrow> bd_order d \<noteq> []"
  by (auto simp: read_build_domains_def Let_def result_simps neq_Nil_conv simp del: dropWhile_eq_Nil_conv split: if_split_asm list.split_asm)

text \<open>
  C40. Every image manifest a reference build writes is accepted by the loader, as long as the files it describes have not changed and reading the manifest
  file yields the value that was written. Whatever the metadata files, the contract of the oracle and its build evidence hold: a build whose
  images are not admitted by the contract's allowlists, whose artifacts lie outside the build and the sources, or whose order of programming
  is not of valid domains has no manifest at all. Resolving a path gives an absolute path that resolves to itself.
\<close>

theorem reference_manifest_accepted:
  assumes "reference_manifest env fs oracle_id source_root build_dir contract receipt_sha = Inr m" and "resolves env"
    and "fs p = Some content" and "decode content = Inr m"
  shows "load_manifest (cl_digest (be_world env)) decode fs p True = Inr m"
  using assms(1)
proof (rule reference_manifest_inv)
  fix d b elf img debug_allowlist images h evidence and target transport :: "(string \<times> json) list"
  assume run: "read_build_domains env fs build_dir = Inr d" "runner_artifact env fs b ''elf_file'' source_root = Inr elf" "parse_elf fs elf = Inr img"
    "require_listed (ranges img) debug_allowlist = Inr ()" "mapR (manifest_image env fs source_root contract d) (enumerate 0 (bd_order d)) = Inr images"
    "map fst target = CONTRACT_FIELDS" "sha256 (cl_digest (be_world env)) fs elf = Inr h" "set (map fst transport) \<subseteq> {''hci_transport''}"
  define elf_kvs where "elf_kvs = [(''path'', JStr (cl_resolve (be_world env) elf)), (''sha256'', JStr h),
    (''entry'', case entry img of None \<Rightarrow> JNull | Some e \<Rightarrow> JInt e), (''ranges'', ranges_json (ranges img))]"
  define kvs where "kvs = reference_fields oracle_id receipt_sha target debug_allowlist elf_kvs images evidence transport"
  assume "m = JObj (reference_fields oracle_id receipt_sha target debug_allowlist
       [(''path'', JStr (cl_resolve (be_world env) elf)), (''sha256'', JStr h), (''entry'', case entry img of None \<Rightarrow> JNull | Some e \<Rightarrow> JInt e),
        (''ranges'', ranges_json (ranges img))] images evidence transport)"
  then have m: "m = JObj kvs" by (simp add: kvs_def elf_kvs_def)
  note shape = reference_fields_shape [OF run(6,8), of oracle_id receipt_sha debug_allowlist elf_kvs images evidence, folded kvs_def]
  obtain q where "elf = cl_resolve (be_world env) q" using runner_artifact_resolved [OF run(2)] by blast
  then have elf: "cl_resolve (be_world env) elf = elf" "is_absolute elf" using assms(2) by (auto simp: resolves_def)
  have debug: "check_artifact (cl_digest (be_world env)) fs (JObj elf_kvs) parse_elf debug_allowlist = Inr ()"
    using elf run(3,4,7) parsed_ranges_not_empty(1) [OF run(3)] unfolding elf_kvs_def
    by (intro check_artifact_accepts_listed [where img = img and p = elf and h = h]) simp_all
  have images: "images \<noteq> []" "\<forall>i < length images. image_entry env fs i (images ! i)"
    using manifest_images_entries [OF run(5) assms(2)] domains_order_not_empty [OF run(1)] by auto
  obtain ls where ls: "mapR (\<lambda>item. jget item ''allowlist'' JNull) images = Inr ls"
    "forR (\<lambda>(item, allowlist). check_artifact (cl_digest (be_world env)) fs item parse_ihex allowlist) (zip images ls) = Inr ()"
    using image_entries_orders(2) [OF images(2)] by blast
  have "check_artifacts (cl_digest (be_world env)) fs (JObj kvs) = Inr ()"
    unfolding check_artifacts_def using shape(3-5) images(1) image_entries_orders(1) [OF images(2)] py_eq_orders ls debug
    by (simp del: py_eq.simps)
  moreover obtain entries where "nonempty_list debug_allowlist = Some entries"
    using require_listed_inv [OF run(4) parsed_ranges_not_empty(1) [OF run(3)]] by blast
  ultimately show ?thesis
    unfolding load_manifest_def assms(3) option.case assms(4) sum.case m
    using shape backend_eq by simp
qed

subsection \<open>Receipts and the build\<close>

lemma mapR_Inr_member: "mapR f xs = Inr ys \<Longrightarrow> x \<in> set xs \<Longrightarrow> \<exists>y. f x = Inr y"
  by (induction xs arbitrary: ys) (auto simp: result_simps)

lemma check_module_retyped: "check_module env world r e m = Inr () \<longleftrightarrow> check_module env world r e' m = Inr ()"
  by (auto simp: check_module_def result_simps split: if_splits)

lemma check_file_retyped: "check_file env fs b e d f = Inr x \<longleftrightarrow> check_file env fs b e' d' f = Inr x"
  by (auto simp: check_file_def Let_def split: option.splits)

text \<open>A receipt that was just written is current: reading it back yields the sources and the toolchain that were prepared.\<close>

lemma prepared_receipt_loads:
  assumes "source_receipt env world fs project oracle_id r t = Inr receipt"
    and "fs (receipt_path project oracle_id) = Some content" and "cl_decode (be_world env) content = Inr receipt"
  shows "load_receipt env world fs project oracle_id = Inr (cl_resolve (be_world env) r, cl_resolve (be_world env) t, receipt)"
proof -
  let ?w = "be_world env"
  from assms(1) obtain contract variant modules kvs named file_receipts fixtures fixture_receipts lock_sha where run:
    "ref_oracle env fs project oracle_id = Inr contract" "fs (sdk_config (cl_resolve ?w t)) \<noteq> None" "toolchain_variant fs (cl_resolve ?w t) = Inr variant"
    "jitem contract ''modules'' = Inr modules" "jitems modules = Inr kvs" "forR (check_module env world (cl_resolve ?w r) ModuleDiffers) kvs = Inr ()"
    "bindR (jget contract ''project_files'' (JObj [])) jitems = Inr fixtures"
    "mapR (check_file env fs project FixtureMissing FixtureHash) fixtures = Inr fixture_receipts"
    "sha256 (cl_digest ?w) fs (lock_path project) = Inr lock_sha"
    and receipt: "receipt = JObj
          [(''schema'', JStr ''nrfkit-source-receipt/v1''), (''oracle'', JStr oracle_id), (''root'', JStr (cl_resolve ?w r)),
           (''toolchain'', JStr (cl_resolve ?w t)), (''toolchain_variant'', JStr variant), (''source_lock_sha256'', JStr lock_sha),
           (''modules'', modules), (''files'', JObj file_receipts), (''project_files'', JObj fixture_receipts),
           (''prepared_at'', JStr (be_now env))]"
    by (auto simp: source_receipt_def Let_def result_simps split: if_splits)
  have modules: "forR (check_module env world (cl_resolve ?w r) ReceiptModule) kvs = Inr ()"
    using run(6) check_module_retyped [of env world _ ModuleDiffers _ ReceiptModule] by (simp add: forR_Inr_iff)
  have "\<exists>x. check_file env fs project FixtureChanged FixtureChanged f = Inr x" if f: "f \<in> set fixtures" for f
  proof -
    obtain x where "check_file env fs project FixtureMissing FixtureHash f = Inr x"
      using mapR_Inr_member [OF run(8) f] by blast
    then show ?thesis by (blast intro: check_file_retyped [THEN iffD1])
  qed
  then have fixtures: "forR (\<lambda>f. bindR (check_file env fs project FixtureChanged FixtureChanged f) (\<lambda>_. Inr ())) fixtures = Inr ()"
    by (simp add: forR_Inr_iff bindR_Inr_iff)
  show ?thesis
    using run modules fixtures assms(2,3) receipt by (simp add: load_receipt_def)
qed

lemma store_build_runs:
  "store_build env dir s =
     (let p = path_join dir ''run.json''; t = cl_temporary (be_world env) p;
          data = Some (utf8_encode (cl_dumps (be_world env) (JObj (report s)) @ [LF])) in
      (s\<lparr>host := (host s)\<lparr>files := (files (host s))(t := data, p := data, t := None)\<rparr>\<rparr>, Inr ()))"
  by (simp add: store_build_def onHost_def atomic_json_def Let_def)

text \<open>The status of a build's report is ok exactly when the build returns.\<close>

lemma reference_build_status:
  assumes "reference_build env args dir s = (s', r)"
  shows "map_of (report s') ''status'' = Some (JStr (case r of Inl _ \<Rightarrow> ''failed'' | Inr _ \<Rightarrow> ''ok''))"
  using assms unfolding reference_build_def
  by (auto simp: bindA_def put_report_def updateA_def store_build_runs Let_def reraiseA_def pureA_def update_conv' split: prod.splits sum.splits)

subsection \<open>A build with one domain\<close>

definition bench_cli :: "unit cli_world" where
  "bench_cli = \<lparr>cl_child = (\<lambda>w fs _. (w, fs, Completed 0 [])), cl_digest = (\<lambda>_. []), cl_decode = (\<lambda>_. Inl False), cl_loads = (\<lambda>_. None), cl_dumps = (\<lambda>_. []),
     cl_render = (\<lambda>_. []), cl_temporary = (\<lambda>p. p @ ''.tmp''), cl_resolve = (\<lambda>p. if is_absolute p then p else ''/'' @ p), cl_root = ''/src'', cl_version = JNull,
     cl_locked = (\<lambda>_ _. False), cl_describe = (\<lambda>_. []), cl_executable = (\<lambda>_ _. None), cl_ticks = (\<lambda>_. [])\<rparr>"

definition bench_env :: "unit build_env" where
  "bench_env = \<lparr>be_world = bench_cli, be_git = (\<lambda>_ _. None), be_name = map char_of, be_now = [], be_describe = (\<lambda>_. [])\<rparr>"

definition domains_text :: "string list" where
  "domains_text = [''default: app'', ''domains:'', ''  - name: app'', ''    build_dir: /b'', ''flash_order:'', ''  - app'']"

definition runners_text :: "string list" where
  "runners_text = [''  elf_file: /b/app.elf'', ''  hex_file: /b/app.hex'']"

definition bench_tree :: filesystem where
  "bench_tree = bench_build(''/b/domains.yaml'' := Some (ascii_encode (unlines domains_text)),
     ''/b/zephyr/runners.yaml'' := Some (ascii_encode (unlines runners_text)))"

definition bench_contract :: json where
  "bench_contract = JObj (map (\<lambda>k. (k, JStr k)) CONTRACT_FIELDS @ [(''image_allowlists'', JObj [(''app'', ranges_json [(0, 0x1FD000)])])])"

lemma bench_texts:
  "strict_text bench_tree ''/b/domains.yaml'' e = Inr (code_points_of (unlines domains_text))"
  "strict_text bench_tree ''/b/zephyr/runners.yaml'' e = Inr (code_points_of (unlines runners_text))"
proof -
  have "utf8_decode (ascii_encode (unlines domains_text)) = Some (code_points_of (unlines domains_text))"
    "utf8_decode (ascii_encode (unlines runners_text)) = Some (code_points_of (unlines runners_text))"
    by (rule utf8_decode_encode_ascii, simp add: domains_text_def runners_text_def unlines_def)+
  then show "strict_text bench_tree ''/b/domains.yaml'' e = Inr (code_points_of (unlines domains_text))"
    "strict_text bench_tree ''/b/zephyr/runners.yaml'' e = Inr (code_points_of (unlines runners_text))"
    by (simp_all add: strict_text_def bench_tree_def) (simp_all add: domains_text_def runners_text_def unlines_def code_points_of_def)
qed

lemma bench_lines:
  "points_lines [] (code_points_of (unlines domains_text)) = map code_points_of domains_text"
  "points_lines [] (code_points_of (unlines runners_text)) = map code_points_of runners_text"
  by (simp_all add: domains_text_def runners_text_def unlines_def code_points_of_def line_end_point_def)

lemmas metadata_eval = metadata_line_def name_head_def directory_line_def order_line_def after_def line_value_def skip_space_def points_strip_def
  space_point_def code_points_of_def

lemma bench_metadata:
  "metadata_value bench_tree ''/b/domains.yaml'' ''default'' = Inr (code_points_of ''app'')"
  "metadata_value bench_tree ''/b/zephyr/runners.yaml'' ''elf_file'' = Inr (code_points_of ''/b/app.elf'')"
  "metadata_value bench_tree ''/b/zephyr/runners.yaml'' ''hex_file'' = Inr (code_points_of ''/b/app.hex'')"
  by (simp_all add: metadata_value_def bench_texts bench_lines)
    (simp_all add: domains_text_def runners_text_def List.map_filter_simps metadata_eval)

lemma bench_name: "be_name bench_env (code_points_of s) = s"
  by (simp add: bench_env_def code_points_of_def comp_def)

lemma bench_resolve: "is_absolute p \<Longrightarrow> cl_resolve (be_world bench_env) p = p"
  by (simp add: bench_env_def bench_cli_def)

lemma bench_resolves: "resolves bench_env"
  by (auto simp: resolves_def bench_env_def bench_cli_def is_absolute_def)

lemma bench_entries: "domain_entries bench_env [] (map code_points_of domains_text) = [(''app'', ''/b'')]"
proof -
  have heads: "Option.bind (name_head (code_points_of l)) line_value = (if l = ''  - name: app'' then Some (code_points_of ''app'') else None)"
    if "l \<in> set domains_text" for l
    using that by (auto simp: domains_text_def metadata_eval)
  have directory: "domain_directory (map code_points_of [''    build_dir: /b'', ''flash_order:'', ''  - app'']) = Some (code_points_of ''/b'')"
    by (simp add: metadata_eval)
  show ?thesis
    using heads directory by (simp add: domains_text_def bench_name bench_resolve is_absolute_def del: domain_directory.simps)
qed

lemma bench_order: "dropWhile (\<lambda>l. l \<noteq> code_points_of ''flash_order:'') (map code_points_of domains_text) = map code_points_of [''flash_order:'', ''  - app'']"
  "flash_names (map code_points_of [''  - app'']) = [code_points_of ''app'']"
  by (simp_all add: domains_text_def metadata_eval)

lemma bench_domains: "read_build_domains bench_env bench_tree ''/b'' = Inr \<lparr>bd_default = ''app'', bd_builds = [(''app'', ''/b'')], bd_order = [''app'']\<rparr>"
proof -
  have p: "path_join ''/b'' ''domains.yaml'' = ''/b/domains.yaml''" by (simp add: path_join_def)
  show ?thesis
    unfolding read_build_domains_def Let_def p bench_metadata(1) bench_texts bench_lines bindR.simps bench_name bench_entries bench_order(1)
    using bench_order(2) by (simp add: bench_name bench_resolve is_relative_to_def is_absolute_def del: flash_names.simps)
qed

lemma bench_artifacts:
  "runner_artifact bench_env bench_tree ''/b'' ''elf_file'' ''/s'' = Inr ''/b/app.elf''"
  "runner_artifact bench_env bench_tree ''/b'' ''hex_file'' ''/s'' = Inr ''/b/app.hex''"
proof -
  have p: "path_join ''/b'' ''zephyr/runners.yaml'' = ''/b/zephyr/runners.yaml''" by (simp add: path_join_def)
  show "runner_artifact bench_env bench_tree ''/b'' ''elf_file'' ''/s'' = Inr ''/b/app.elf''"
    "runner_artifact bench_env bench_tree ''/b'' ''hex_file'' ''/s'' = Inr ''/b/app.hex''"
    unfolding runner_artifact_def p bench_metadata bindR.simps Let_def bench_name
    by (simp_all add: bench_resolve is_absolute_def is_relative_to_def path_parts_def)
qed

lemma bench_reference_manifest: "\<exists>m. reference_manifest bench_env bench_tree ''ncs'' ''/s'' ''/b'' bench_contract (JStr []) = Inr m"
proof -
  have f: "bench_tree ''/b/app.elf'' = bench_build ''/b/app.elf''" "bench_tree ''/b/app.hex'' = bench_build ''/b/app.hex''" by (simp_all add: bench_tree_def)
  have elf: "parse_elf bench_tree ''/b/app.elf'' = Inr \<lparr>image_path = ''/b/app.elf'', ranges = [(0x100, 0x104)], entry = Some 0x101\<rparr>"
    using bench_elf_parsed f(1) by (simp add: parse_elf_def)
  have hex: "parse_ihex bench_tree ''/b/app.hex'' = Inr \<lparr>image_path = ''/b/app.hex'', ranges = [(0x100, 0x104)], entry = None\<rparr>"
    using bench_hex_parsed parse_ihex_cong [where fs = bench_tree and fs' = bench_build and p = "''/b/app.hex''", OF f(2)] by simp
  have listed: "require_listed [(0x100, 0x104)] (ranges_json [(0, 0x1FD000)]) = Inr ()"
    by (simp add: require_listed_def ranges_json_def jint_pair_def FORBIDDEN_RANGES_def)
  have allowed: "allowlist_for bench_contract ''app'' e = Inr (ranges_json [(0, 0x1FD000)])" for e
    by (simp add: allowlist_for_def bench_contract_def CONTRACT_FIELDS_def)
  have there: "bench_tree ''/b/app.elf'' \<noteq> None" "bench_tree ''/b/app.hex'' \<noteq> None" unfolding f by (simp_all add: bench_build_def)
  have sha: "sha256 d bench_tree p = Inr (d (the (bench_tree p)))" if "bench_tree p \<noteq> None" for d p using that by (auto simp: sha256_def)
  have target: "\<exists>target. mapR (\<lambda>k. bindR (jitem bench_contract k) (\<lambda>v. Inr (k, v))) CONTRACT_FIELDS = Inr target"
    by (simp add: bench_contract_def CONTRACT_FIELDS_def)
  have evidence: "verify_build_evidence bench_env bench_tree ''/b'' bench_contract = Inr (JObj [(''status'', JStr ''not-required'')])"
    "\<exists>kvs. jitems bench_contract = Inr kvs"
    by (simp_all add: verify_build_evidence_def bench_contract_def CONTRACT_FIELDS_def)
  show ?thesis
    unfolding reference_manifest_def bench_domains
    using there target evidence
    by (auto simp: domain_build_of_def bench_artifacts elf hex listed allowed manifest_image_def sha [OF there(1)] sha [OF there(2)])
qed

theorem reference_manifest_accepted_witness:
  "\<exists>m. reference_manifest bench_env bench_tree ''ncs'' ''/s'' ''/b'' bench_contract (JStr []) = Inr m
     \<and> load_manifest (cl_digest (be_world bench_env)) (\<lambda>_. Inr m) bench_tree ''/b/image-manifest.json'' True = Inr m"
proof -
  obtain m where m: "reference_manifest bench_env bench_tree ''ncs'' ''/s'' ''/b'' bench_contract (JStr []) = Inr m"
    using bench_reference_manifest by blast
  have "bench_tree ''/b/image-manifest.json'' = Some []" by (simp add: bench_tree_def bench_build_def)
  from reference_manifest_accepted [where decode = "\<lambda>_. Inr m", OF m bench_resolves this refl] m show ?thesis by blast
qed

end
