(* ===== verification/Usb.thy ===== *)
theory Usb
  imports Effects Image Pytext
begin

section \<open>USB validation\<close>

text \<open>
  Models \<open>src/tools/nrfkit_tools/usb_validation.py\<close>. PyUSB, the kernel's sysfs attributes and the input device are the outside world: every call on them is an element of
  \<open>usb_call\<close>, is remembered in the order it was made, and has the result the environment gives, or fails. The device is the one found last. The number of
  looks a waiting loop takes before its deadline, and of transfers before the stress time is over, are answers of the environment at the moment the loop starts.
\<close>

datatype usb_call =
    FindDevice nat nat
  | DriverActive nat
  | DetachDriver nat
  | AttachDriver nat
  | GetConfiguration
  | SetConfiguration nat
  | ClaimInterface nat
  | ReleaseInterface nat
  | DisposeResources
  | ResetDevice
  | ControlIn nat nat nat nat nat
  | ControlOut nat nat int nat
  | WriteEndpoint nat bytes
  | ReadEndpoint nat nat
  | ReadAttribute string
  | WriteAttribute string string
  | OpenInput string
  | CloseInput

datatype usb_fault = PermissionFault | OtherFault

datatype usb_error =
    NotEnumerated
  | StatusLength
  | StatusMagic
  | NotHighSpeed
  | HidShort
  | HidMismatch
  | BulkShort
  | BulkMismatch nat
  | BulkRxCounter
  | BulkTxCounter
  | HidRxCounter
  | HidTxCounter
  | NoSysfsDevice
  | NoInputEvent
  | NeedsRoot
  | ResumeInitFailed usb_error
  | ResumeStatusFailed usb_error
  | NotSuspended
  | NotResumed
  | Reconfigured
  | SuspendNotSeen
  | ResumeNotSeen
  | WakeupNotCompleted
  | WakeupResult
  | ConfigurationNotSelected
  | WrongSpeed
  | WrongInterfaceCount
  | NegativeCycles
  | UsbFault usb_fault

record endpoint_descriptor =
  ep_address :: nat
  ep_attributes :: nat
  ep_max_packet_size :: nat
  ep_interval :: nat

record interface_descriptor =
  if_number :: nat
  if_alternate :: nat
  if_class :: nat
  if_subclass :: nat
  if_protocol :: nat
  if_endpoints :: "endpoint_descriptor list"

record 'w usb_env =
  ue_act :: "usb_call \<Rightarrow> 'w \<Rightarrow> 'w \<times> (usb_fault + unit)"
  ue_ask :: "usb_call \<Rightarrow> 'w \<Rightarrow> 'w \<times> (usb_fault + bool)"
  ue_count :: "usb_call \<Rightarrow> 'w \<Rightarrow> 'w \<times> (usb_fault + nat)"
  ue_bytes :: "usb_call \<Rightarrow> 'w \<Rightarrow> 'w \<times> (usb_fault + bytes)"
  ue_text :: "usb_call \<Rightarrow> 'w \<Rightarrow> 'w \<times> (usb_fault + string)"
  ue_looks :: "'w \<Rightarrow> nat"
  ue_speed :: "'w \<Rightarrow> int option"
  ue_interfaces :: "'w \<Rightarrow> interface_descriptor list"
  ue_location :: "'w \<Rightarrow> int \<times> int"
  ue_sysfs :: "'w \<Rightarrow> (string \<times> string option \<times> string option) list"
  ue_resolve :: "string \<Rightarrow> string list"
  ue_inputs :: "'w \<Rightarrow> string list"
  ue_digest :: "bytes \<Rightarrow> bytes"

record 'w usb_state =
  us_world :: 'w
  us_calls :: "usb_call list"

type_synonym ('w, 'a) usb_step = "('w usb_state, usb_error, 'a) action"

definition usb_query ::
  "(usb_call \<Rightarrow> 'w \<Rightarrow> 'w \<times> (usb_fault + 'a)) \<Rightarrow> usb_call \<Rightarrow> ('w, 'a) usb_step" where
  "usb_query answer c s =
     (case answer c (us_world s) of (w, r) \<Rightarrow> (s\<lparr>us_world := w, us_calls := us_calls s @ [c]\<rparr>, mapE UsbFault r))"

definition usb_do :: "'w usb_env \<Rightarrow> usb_call \<Rightarrow> ('w, unit) usb_step" where
  "usb_do env = usb_query (ue_act env)"

definition looks :: "'w usb_env \<Rightarrow> ('w, nat) usb_step" where
  "looks env = readA (\<lambda>s. ue_looks env (us_world s))"

subsection \<open>Finding the device\<close>

definition USB_VID :: nat where
  "USB_VID = 0xCAFE"

definition USB_PID :: nat where
  "USB_PID = 0x4011"

fun find_loop :: "'w usb_env \<Rightarrow> nat \<Rightarrow> nat \<Rightarrow> nat \<Rightarrow> ('w, unit) usb_step" where
  "find_loop env vid pid 0 = raiseA NotEnumerated"
| "find_loop env vid pid (Suc n) =
     bindA (usb_query (ue_ask env) (FindDevice vid pid)) (\<lambda>found. if found then pureA () else find_loop env vid pid n)"

definition find_ids :: "'w usb_env \<Rightarrow> nat \<Rightarrow> nat \<Rightarrow> ('w, unit) usb_step" where
  "find_ids env vid pid = bindA (looks env) (find_loop env vid pid)"

definition usb_find :: "'w usb_env \<Rightarrow> ('w, unit) usb_step" where
  "usb_find env = find_ids env USB_VID USB_PID"

text \<open>The active configuration, set first when it cannot be read.\<close>

definition select_configuration :: "'w usb_env \<Rightarrow> ('w, nat) usb_step" where
  "select_configuration env =
     handleA (usb_query (ue_count env) GetConfiguration) (\<lambda>_.
       bindA (usb_do env (SetConfiguration 1)) (\<lambda>_. usb_query (ue_count env) GetConfiguration))"

fun configured_loop :: "'w usb_env \<Rightarrow> nat \<Rightarrow> nat \<Rightarrow> nat \<Rightarrow> ('w, nat) usb_step" where
  "configured_loop env vid pid 0 = raiseA ConfigurationNotSelected"
| "configured_loop env vid pid (Suc n) =
     bindA (find_ids env vid pid) (\<lambda>_.
     bindA (attemptA (select_configuration env)) (\<lambda>r.
       case r of
         Inr configuration \<Rightarrow> pureA configuration
       | Inl _ \<Rightarrow> bindA (usb_do env DisposeResources) (\<lambda>_. configured_loop env vid pid n)))"

definition configured_device :: "'w usb_env \<Rightarrow> nat \<Rightarrow> nat \<Rightarrow> ('w, nat) usb_step" where
  "configured_device env vid pid = bindA (looks env) (configured_loop env vid pid)"

record usb_descriptors =
  ud_vid :: nat
  ud_pid :: nat
  ud_speed :: "int option"
  ud_configuration :: nat
  ud_interfaces :: "interface_descriptor list"

definition inspect_standard_descriptors ::
  "'w usb_env \<Rightarrow> nat \<Rightarrow> nat \<Rightarrow> int option \<Rightarrow> nat option \<Rightarrow> ('w, usb_descriptors) usb_step" where
  "inspect_standard_descriptors env vid pid expected_speed expected_interfaces =
     bindA (configured_device env vid pid) (\<lambda>configuration.
     bindA (readA (\<lambda>s. (ue_speed env (us_world s), ue_interfaces env (us_world s)))) (\<lambda>(speed, interfaces).
     bindA (requireA (expected_speed = None \<or> speed = expected_speed) WrongSpeed) (\<lambda>_.
     bindA (requireA (expected_interfaces = None \<or> Some (card (set (map if_number interfaces))) = expected_interfaces) WrongInterfaceCount) (\<lambda>_.
       pureA \<lparr>ud_vid = vid, ud_pid = pid, ud_speed = speed, ud_configuration = configuration, ud_interfaces = interfaces\<rparr>))))"

definition standard_reconnect :: "'w usb_env \<Rightarrow> nat \<Rightarrow> nat \<Rightarrow> ('w, unit) usb_step" where
  "standard_reconnect env vid pid =
     bindA (find_ids env vid pid) (\<lambda>_.
     bindA (finallyA (usb_do env ResetDevice) (usb_do env DisposeResources)) (\<lambda>_.
     bindA (configured_device env vid pid) (\<lambda>_.
       usb_do env DisposeResources)))"

definition run_standard_reconnect_validation :: "'w usb_env \<Rightarrow> nat \<Rightarrow> nat \<Rightarrow> int \<Rightarrow> ('w, int \<times> int) usb_step" where
  "run_standard_reconnect_validation env vid pid cycles =
     bindA (requireA (0 \<le> cycles) NegativeCycles) (\<lambda>_.
     bindA (forA (\<lambda>_. standard_reconnect env vid pid) [0..<nat cycles]) (\<lambda>_.
       pureA (cycles, cycles)))"

subsection \<open>Claiming interfaces\<close>

fun detach_drivers :: "'w usb_env \<Rightarrow> nat list \<Rightarrow> nat list \<Rightarrow> ('w, nat list) usb_step" where
  "detach_drivers env detached [] = pureA detached"
| "detach_drivers env detached (i # is) =
     bindA (usb_query (ue_ask env) (DriverActive i)) (\<lambda>active.
       if active then bindA (usb_do env (DetachDriver i)) (\<lambda>_. detach_drivers env (detached @ [i]) is)
       else detach_drivers env detached is)"

definition usb_claim :: "'w usb_env \<Rightarrow> nat list \<Rightarrow> ('w, nat list) usb_step" where
  "usb_claim env interfaces =
     bindA (detach_drivers env [] interfaces) (\<lambda>detached.
     bindA (attemptA (usb_query (ue_count env) GetConfiguration)) (\<lambda>active.
     bindA (if active = Inr 1 then pureA () else usb_do env (SetConfiguration 1)) (\<lambda>_.
     bindA (forA (\<lambda>i. usb_do env (ClaimInterface i)) interfaces) (\<lambda>_.
       pureA detached))))"

definition usb_try :: "'w usb_env \<Rightarrow> usb_call \<Rightarrow> ('w, unit) usb_step" where
  "usb_try env c = bindA (attemptA (usb_do env c)) (\<lambda>_. pureA ())"

definition usb_release :: "'w usb_env \<Rightarrow> nat list \<Rightarrow> ('w, unit) usb_step" where
  "usb_release env detached =
     bindA (forA (\<lambda>i. usb_try env (ReleaseInterface i)) [1, 0]) (\<lambda>_.
     bindA (forA (\<lambda>i. usb_try env (AttachDriver i)) detached) (\<lambda>_.
       usb_do env DisposeResources))"

text \<open>The pattern of every client: claim, work, release whatever the work did.\<close>

definition claimed :: "'w usb_env \<Rightarrow> nat list \<Rightarrow> ('w, 'a) usb_step \<Rightarrow> ('w, 'a) usb_step" where
  "claimed env interfaces work =
     bindA (usb_claim env interfaces) (\<lambda>detached. finallyA work (usb_release env detached))"

subsection \<open>The status of the firmware\<close>

definition REQUEST_STATUS :: nat where
  "REQUEST_STATUS = 0x40"

definition REQUEST_ARM_REMOTE_WAKE :: nat where
  "REQUEST_ARM_REMOTE_WAKE = 0x41"

definition STATUS_MAGIC :: nat where
  "STATUS_MAGIC = 0x4D345553"

text \<open>\<open>struct.unpack("<19I3i", raw)\<close>: nineteen unsigned and three signed 32-bit numbers.\<close>

definition signed32 :: "nat \<Rightarrow> int" where
  "signed32 n = (if n < 2 ^ 31 then int n else int n - 2 ^ 32)"

definition STATUS_SIZE :: nat where
  "STATUS_SIZE = 88"

definition status_values :: "bytes \<Rightarrow> int list" where
  "status_values raw = (let ns = unpack_fields (replicate 22 4) raw in map int (take 19 ns) @ map signed32 (drop 19 ns))"

definition STATUS_KEYS :: "string list" where
  "STATUS_KEYS =
     [''magic'', ''configured_count'', ''suspend_count'', ''resume_count'', ''bulk_rx_bytes'', ''bulk_tx_bytes'', ''hid_rx_count'', ''hid_tx_count'',
      ''remote_wakeup_count'', ''ghwcfg3'', ''grxfsiz'', ''doepctl1'', ''doeptsiz1'', ''wake_dctl_before'', ''wake_dctl_after'', ''wake_dsts_before'',
      ''wake_dsts_after'', ''wake_pcgcctl_before'', ''wake_pcgcctl_after'', ''remote_wakeup_result'', ''bulk_arm_result'', ''hid_arm_result'']"

type_synonym usb_status = "(string \<times> int) list"

definition status_field :: "usb_status \<Rightarrow> string \<Rightarrow> int" where
  "status_field st k = (case map_of st k of Some v \<Rightarrow> v | None \<Rightarrow> 0)"

definition read_status :: "'w usb_env \<Rightarrow> ('w, usb_status) usb_step" where
  "read_status env =
     bindA (usb_query (ue_bytes env) (ControlIn 0xC1 REQUEST_STATUS 0 0 STATUS_SIZE)) (\<lambda>raw.
     bindA (requireA (length raw = STATUS_SIZE) StatusLength) (\<lambda>_.
       let values = status_values raw in
     bindA (requireA (hd values = int STATUS_MAGIC) StatusMagic) (\<lambda>_.
       pureA (zip STATUS_KEYS values))))"

subsection \<open>Transfers\<close>

definition BULK_OUT_EP :: nat where "BULK_OUT_EP = 0x01"
definition BULK_IN_EP :: nat where "BULK_IN_EP = 0x81"
definition HID_OUT_EP :: nat where "HID_OUT_EP = 0x02"
definition HID_IN_EP :: nat where "HID_IN_EP = 0x82"

definition hid_payload :: bytes where
  "hid_payload = map of_nat [1..<64]"

definition hid_loopback :: "'w usb_env \<Rightarrow> ('w, unit) usb_step" where
  "hid_loopback env =
     bindA (usb_query (ue_count env) (WriteEndpoint HID_OUT_EP (2 # hid_payload))) (\<lambda>n.
     bindA (requireA (n = 64) HidShort) (\<lambda>_.
     bindA (usb_query (ue_bytes env) (ReadEndpoint HID_IN_EP 64)) (\<lambda>received.
       requireA (received = 1 # hid_payload) HidMismatch)))"

text \<open>\<open>counter.to_bytes(8, "little")\<close>; the payload of a transfer is its digest, repeated to one packet.\<close>

definition le8 :: "nat \<Rightarrow> bytes" where
  "le8 n = map (\<lambda>i. of_nat (n div 256 ^ i)) [0..<8]"

definition bulk_payload :: "'w usb_env \<Rightarrow> nat \<Rightarrow> bytes" where
  "bulk_payload env counter = take 512 (concat (replicate 16 (ue_digest env (le8 counter))))"

definition bulk_transfer :: "'w usb_env \<Rightarrow> nat \<Rightarrow> ('w, nat) usb_step" where
  "bulk_transfer env counter =
     (let payload = bulk_payload env counter in
      bindA (usb_query (ue_count env) (WriteEndpoint BULK_OUT_EP payload)) (\<lambda>n.
      bindA (requireA (n = length payload) BulkShort) (\<lambda>_.
      bindA (usb_query (ue_bytes env) (ReadEndpoint BULK_IN_EP (length payload))) (\<lambda>received.
      bindA (requireA (received = payload) (BulkMismatch counter)) (\<lambda>_.
        pureA (length payload))))))"

record transfer_result =
  tr_bulk_bytes :: nat
  tr_transfers :: nat
  tr_initial :: usb_status
  tr_final :: usb_status

definition transfer_work :: "'w usb_env \<Rightarrow> ('w, transfer_result) usb_step" where
  "transfer_work env =
     bindA (read_status env) (\<lambda>initial.
     bindA (hid_loopback env) (\<lambda>_.
     bindA (looks env) (\<lambda>n.
     bindA (mapA (bulk_transfer env) [0..<n]) (\<lambda>sizes.
     bindA (read_status env) (\<lambda>final.
       pureA \<lparr>tr_bulk_bytes = sum_list sizes, tr_transfers = length sizes, tr_initial = initial, tr_final = final\<rparr>)))))"

definition counted :: "transfer_result \<Rightarrow> string \<Rightarrow> int \<Rightarrow> bool" where
  "counted r key n \<longleftrightarrow> status_field (tr_final r) key - status_field (tr_initial r) key = n"

definition run_transfer_validation :: "'w usb_env \<Rightarrow> ('w, transfer_result) usb_step" where
  "run_transfer_validation env =
     bindA (usb_find env) (\<lambda>_.
     bindA (readA (\<lambda>s. ue_speed env (us_world s))) (\<lambda>speed.
     bindA (requireA (speed = Some 3) NotHighSpeed) (\<lambda>_.
     bindA (claimed env [0, 1] (transfer_work env)) (\<lambda>r.
     bindA (requireA (counted r ''bulk_rx_bytes'' (int (tr_bulk_bytes r))) BulkRxCounter) (\<lambda>_.
     bindA (requireA (counted r ''bulk_tx_bytes'' (int (tr_bulk_bytes r))) BulkTxCounter) (\<lambda>_.
     bindA (requireA (counted r ''hid_rx_count'' 1) HidRxCounter) (\<lambda>_.
     bindA (requireA (counted r ''hid_tx_count'' 1) HidTxCounter) (\<lambda>_.
       pureA r))))))))"

definition reconnect_cycle :: "'w usb_env \<Rightarrow> ('w, unit) usb_step" where
  "reconnect_cycle env =
     bindA (usb_find env) (\<lambda>_.
     bindA (claimed env [0, 1] (bindA (read_status env) (\<lambda>_. usb_do env ResetDevice))) (\<lambda>_.
       usb_find env))"

definition run_reconnect_validation :: "'w usb_env \<Rightarrow> int \<Rightarrow> ('w, int \<times> nat) usb_step" where
  "run_reconnect_validation env cycles =
     bindA (mapA (\<lambda>_. reconnect_cycle env) [0..<nat cycles]) (\<lambda>done_cycles. pureA (cycles, length done_cycles))"

subsection \<open>Runtime power management\<close>

text \<open>\<open>_sysfs_device\<close>: the first candidate whose bus and device numbers can be read and are the device's; its \<open>power\<close> directory.\<close>

fun sysfs_device :: "int \<times> int \<Rightarrow> (string \<times> string option \<times> string option) list \<Rightarrow> string option" where
  "sysfs_device location [] = None"
| "sysfs_device location ((candidate, bus, address) # rest) =
     (if (Option.bind bus py_int, Option.bind address py_int) = (Some (fst location), Some (snd location)) then Some candidate
      else sysfs_device location rest)"

definition find_sysfs :: "'w usb_env \<Rightarrow> ('w, string) usb_step" where
  "find_sysfs env s =
     (case sysfs_device (ue_location env (us_world s)) (ue_sysfs env (us_world s)) of
        None \<Rightarrow> (s, Inl NoSysfsDevice) | Some p \<Rightarrow> (s, Inr p))"

text \<open>\<open>_input_event_device\<close>: \<open>ue_resolve\<close> gives the components of a resolved path.\<close>

fun input_event :: "(string \<Rightarrow> string list) \<Rightarrow> string list \<Rightarrow> string list \<Rightarrow> string option" where
  "input_event resolved device [] = None"
| "input_event resolved device (candidate # rest) =
     (if prefix device (resolved (''/sys/class/input/'' @ candidate @ ''/device'')) then Some (''/dev/input/'' @ candidate)
      else input_event resolved device rest)"

definition POWER_ATTRIBUTES :: "string list" where
  "POWER_ATTRIBUTES = [''control'', ''autosuspend_delay_ms'', ''wakeup'']"

definition read_attribute :: "'w usb_env \<Rightarrow> string \<Rightarrow> ('w, string) usb_step" where
  "read_attribute env name = bindA (usb_query (ue_text env) (ReadAttribute name)) (\<lambda>t. pureA (py_strip t))"

definition power_attributes :: "'w usb_env \<Rightarrow> ('w, (string \<times> string) list) usb_step" where
  "power_attributes env = mapA (\<lambda>name. bindA (read_attribute env name) (\<lambda>v. pureA (name, v))) POWER_ATTRIBUTES"

text \<open>\<open>_restore_power_attributes\<close> ignores an \<open>OSError\<close>, which every failure of a write is.\<close>

definition restore_power_attributes :: "'w usb_env \<Rightarrow> (string \<times> string) list \<Rightarrow> ('w, unit) usb_step" where
  "restore_power_attributes env attributes = forA (\<lambda>(name, v). usb_try env (WriteAttribute name v)) attributes"

definition claimed_status :: "'w usb_env \<Rightarrow> ('w, usb_status) usb_step" where
  "claimed_status env = claimed env [0] (read_status env)"

fun runtime_loop :: "'w usb_env \<Rightarrow> string \<Rightarrow> nat \<Rightarrow> ('w, bool) usb_step" where
  "runtime_loop env expected 0 = pureA False"
| "runtime_loop env expected (Suc n) =
     bindA (read_attribute env ''runtime_status'') (\<lambda>state. if state = expected then pureA True else runtime_loop env expected n)"

definition wait_runtime_status :: "'w usb_env \<Rightarrow> string \<Rightarrow> ('w, bool) usb_step" where
  "wait_runtime_status env expected = bindA (looks env) (runtime_loop env expected)"

definition validate_host_resume :: "usb_status \<Rightarrow> usb_status \<Rightarrow> usb_error + unit" where
  "validate_host_resume before after =
     (if status_field after ''configured_count'' \<noteq> status_field before ''configured_count'' then Inl Reconfigured
      else if status_field after ''suspend_count'' \<le> status_field before ''suspend_count'' then Inl SuspendNotSeen
      else if status_field after ''resume_count'' \<le> status_field before ''resume_count'' then Inl ResumeNotSeen
      else Inr ())"

text \<open>\<open>except PermissionError\<close> around the writes that need root.\<close>

definition as_root :: "('w, unit) usb_step \<Rightarrow> ('w, unit) usb_step" where
  "as_root m = handleA m (\<lambda>e. raiseA (if e = UsbFault PermissionFault then NeedsRoot else e))"

definition suspend_and_resume :: "'w usb_env \<Rightarrow> ('w, bool \<times> bool) usb_step" where
  "suspend_and_resume env =
     bindA (as_root (bindA (usb_do env (WriteAttribute ''autosuspend_delay_ms'' ''0'')) (\<lambda>_.
              usb_do env (WriteAttribute ''control'' ''auto'')))) (\<lambda>_.
     bindA (wait_runtime_status env ''suspended'') (\<lambda>suspended.
       if \<not> suspended then pureA (False, False)
       else bindA (usb_do env (WriteAttribute ''control'' ''on'')) (\<lambda>_.
            bindA (wait_runtime_status env ''active'') (\<lambda>resumed. pureA (True, resumed)))))"

record resume_result =
  rr_before :: usb_status
  rr_after :: usb_status

definition run_host_resume_validation :: "'w usb_env \<Rightarrow> ('w, resume_result) usb_step" where
  "run_host_resume_validation env =
     bindA (usb_find env) (\<lambda>_.
     bindA (find_sysfs env) (\<lambda>_.
     bindA (power_attributes env) (\<lambda>attributes.
     bindA (handleA (claimed env [0]
              (bindA (usb_do env (ControlOut 0x41 REQUEST_ARM_REMOTE_WAKE 0 0)) (\<lambda>_. read_status env)))
              (\<lambda>e. raiseA (ResumeInitFailed e))) (\<lambda>before.
     bindA (finallyA (suspend_and_resume env) (restore_power_attributes env attributes)) (\<lambda>(suspended, resumed).
     bindA (handleA (bindA (usb_find env) (\<lambda>_. claimed_status env)) (\<lambda>e. raiseA (ResumeStatusFailed e))) (\<lambda>after.
     bindA (requireA suspended NotSuspended) (\<lambda>_.
     bindA (requireA resumed NotResumed) (\<lambda>_.
     bindA (liftA (validate_host_resume before after)) (\<lambda>_.
       pureA \<lparr>rr_before = before, rr_after = after\<rparr>)))))))))"

subsection \<open>Remote wake-up\<close>

fun wake_loop :: "'w usb_env \<Rightarrow> bool \<Rightarrow> nat \<Rightarrow> ('w, bool \<times> bool) usb_step" where
  "wake_loop env suspended 0 = pureA (suspended, False)"
| "wake_loop env suspended (Suc n) =
     bindA (read_attribute env ''runtime_status'') (\<lambda>state.
       if state = ''suspended'' then wake_loop env True n
       else if suspended \<and> state = ''active'' then bindA (usb_do env (WriteAttribute ''control'' ''on'')) (\<lambda>_. pureA (True, True))
       else wake_loop env suspended n)"

definition arm_and_wait :: "'w usb_env \<Rightarrow> int \<Rightarrow> ('w, usb_status \<times> bool \<times> bool) usb_step" where
  "arm_and_wait env wake_delay_ms =
     bindA (claimed env [0]
       (bindA (read_status env) (\<lambda>before.
        bindA (usb_do env (ControlOut 0x00 0x03 1 0)) (\<lambda>_.
        bindA (usb_do env (ControlOut 0x41 REQUEST_ARM_REMOTE_WAKE wake_delay_ms 0)) (\<lambda>_. pureA before))))) (\<lambda>before.
     bindA (usb_do env (WriteAttribute ''control'' ''auto'')) (\<lambda>_.
     bindA (looks env) (\<lambda>n.
     bindA (wake_loop env False n) (\<lambda>(suspended, resumed). pureA (before, suspended, resumed)))))"

definition open_input :: "'w usb_env \<Rightarrow> string \<Rightarrow> ('w, unit) usb_step" where
  "open_input env sysfs =
     bindA (readA (\<lambda>s. input_event (ue_resolve env) (ue_resolve env sysfs) (ue_inputs env (us_world s)))) (\<lambda>node.
       case node of None \<Rightarrow> raiseA NoInputEvent | Some p \<Rightarrow> usb_do env (OpenInput p))"

text \<open>Closing the input device and restoring the attributes are one \<open>finally\<close> block: a failing close skips the restoration.\<close>

definition wake_attempt :: "'w usb_env \<Rightarrow> string \<Rightarrow> int \<Rightarrow> (string \<times> string) list \<Rightarrow> ('w, usb_status \<times> bool \<times> bool) usb_step" where
  "wake_attempt env sysfs wake_delay_ms attributes =
     bindA (attemptA (bindA (as_root (bindA (usb_do env (WriteAttribute ''wakeup'' ''enabled'')) (\<lambda>_.
              usb_do env (WriteAttribute ''autosuspend_delay_ms'' ''1000'')))) (\<lambda>_. open_input env sysfs))) (\<lambda>opened.
       case opened of
         Inl e \<Rightarrow> bindA (restore_power_attributes env attributes) (\<lambda>_. raiseA e)
       | Inr _ \<Rightarrow> finallyA (arm_and_wait env wake_delay_ms)
           (bindA (usb_do env CloseInput) (\<lambda>_. restore_power_attributes env attributes)))"

definition validate_remote_wake :: "bool \<Rightarrow> bool \<Rightarrow> usb_status \<Rightarrow> usb_status \<Rightarrow> usb_error + unit" where
  "validate_remote_wake suspended resumed before after =
     (if \<not> suspended then Inl NotSuspended
      else if \<not> resumed then Inl NotResumed
      else bindR (validate_host_resume before after) (\<lambda>_.
        if status_field after ''remote_wakeup_count'' \<le> status_field before ''remote_wakeup_count'' then Inl WakeupNotCompleted
        else if status_field after ''remote_wakeup_result'' \<noteq> 0 then Inl WakeupResult
        else Inr ()))"

definition run_power_validation :: "'w usb_env \<Rightarrow> int \<Rightarrow> ('w, resume_result) usb_step" where
  "run_power_validation env wake_delay_ms =
     bindA (usb_find env) (\<lambda>_.
     bindA (find_sysfs env) (\<lambda>sysfs.
     bindA (power_attributes env) (\<lambda>attributes.
     bindA (wake_attempt env sysfs wake_delay_ms attributes) (\<lambda>(before, suspended, resumed).
     bindA (usb_find env) (\<lambda>_.
     bindA (claimed env [0, 1] (read_status env)) (\<lambda>after.
     bindA (liftA (validate_remote_wake suspended resumed before after)) (\<lambda>_.
       pureA \<lparr>rr_before = before, rr_after = after\<rparr>)))))))"

end
