(* ===== verification/Usb_Cli.thy ===== *)
theory Usb_Cli
  imports Usb Reference_Build
begin

section \<open>The USB gates and the build commands\<close>

text \<open>
  Models \<open>command_m4_usb_gate\<close>, \<open>command_consumer_usb_smoke\<close>, \<open>command_m4_usb_power\<close>, \<open>command_prepare\<close>, \<open>command_build\<close>, \<open>command_inspect\<close> and \<open>command_sdk_manifest\<close> of
  \<open>src/tools/nrfkit_tools/cli.py\<close>. The USB validations act on the same outside world as the child processes. Durations are left out of the reports.
\<close>

datatype usb_cli_error = UcCli cli_error | UcUsb usb_error | UcBuild build_error

record 'h usb_cmd_state = "'h cmd_state" +
  uc_calls :: "usb_call list"

record 'h usb_gate =
  ug_world :: "'h cli_world"
  ug_usb :: "'h usb_env"
  ug_describe :: "usb_cli_error \<Rightarrow> string"

type_synonym ('h, 'a) usb_cmd = "('h usb_cmd_state, usb_cli_error, 'a) action"

definition onUsb :: "('h, 'a) usb_step \<Rightarrow> ('h, 'a) usb_cmd" where
  "onUsb m s =
     (case m \<lparr>us_world = outside (host s), us_calls = uc_calls s\<rparr> of (u, r) \<Rightarrow>
        (s\<lparr>host := (host s)\<lparr>outside := us_world u\<rparr>, uc_calls := us_calls u\<rparr>, mapE UcUsb r))"

abbreviation onCli :: "('h usb_cmd_state, cli_error, 'a) action \<Rightarrow> ('h, 'a) usb_cmd" where
  "onCli m \<equiv> retype UcCli m"

text \<open>The end of every command here: a failure is recorded and stored, or the report is stored.\<close>

definition usb_reported :: "'h usb_gate \<Rightarrow> path \<Rightarrow> ('h, 'a) usb_cmd \<Rightarrow> ('h, 'a) usb_cmd" where
  "usb_reported env dir body =
     bindA (reraiseA body (\<lambda>e.
       bindA (put_report ''status'' (JStr ''failed'')) (\<lambda>_.
       bindA (put_report ''error'' (JStr (ug_describe env e))) (\<lambda>_.
         onCli (store_report (ug_world env) dir))))) (\<lambda>x.
     bindA (onCli (store_report (ug_world env) dir)) (\<lambda>_. pureA x))"

subsection \<open>Results in the report\<close>

definition status_json :: "usb_status \<Rightarrow> json" where
  "status_json st = JObj (map (\<lambda>(k, v). (k, JInt v)) st)"

definition cycles_json :: "int \<Rightarrow> int \<Rightarrow> (string \<times> json) list" where
  "cycles_json requested completed = [(''requested_cycles'', JInt requested), (''completed_cycles'', JInt completed)]"

definition transfers_json :: "transfer_result \<Rightarrow> (string \<times> json) list" where
  "transfers_json r =
     [(''bulk_bytes_each_direction'', JInt (int (tr_bulk_bytes r))), (''bulk_transfers'', JInt (int (tr_transfers r))),
      (''initial_status'', status_json (tr_initial r)), (''final_status'', status_json (tr_final r))]"

definition resume_json :: "int option \<Rightarrow> resume_result \<Rightarrow> (string \<times> json) list" where
  "resume_json delay r =
     [(''suspended'', JBool True), (''resumed'', JBool True)] @ (case delay of None \<Rightarrow> [] | Some d \<Rightarrow> [(''wake_delay_ms'', JInt d)]) @
     [(''before_status'', status_json (rr_before r)), (''after_status'', status_json (rr_after r))]"

definition endpoint_json :: "endpoint_descriptor \<Rightarrow> json" where
  "endpoint_json e = JObj
     [(''address'', JInt (int (ep_address e))), (''attributes'', JInt (int (ep_attributes e))), (''max_packet_size'', JInt (int (ep_max_packet_size e))),
      (''interval'', JInt (int (ep_interval e)))]"

definition interface_json :: "interface_descriptor \<Rightarrow> json" where
  "interface_json i = JObj
     [(''number'', JInt (int (if_number i))), (''alternate_setting'', JInt (int (if_alternate i))), (''class'', JInt (int (if_class i))),
      (''subclass'', JInt (int (if_subclass i))), (''protocol'', JInt (int (if_protocol i))), (''endpoints'', JList (map endpoint_json (if_endpoints i)))]"

definition descriptors_json :: "usb_descriptors \<Rightarrow> (string \<times> json) list" where
  "descriptors_json d =
     [(''vid'', JInt (int (ud_vid d))), (''pid'', JInt (int (ud_pid d))), (''speed'', case ud_speed d of None \<Rightarrow> JNull | Some v \<Rightarrow> JInt v),
      (''configuration'', JInt (int (ud_configuration d))), (''interfaces'', JList (map interface_json (ud_interfaces d)))]"

subsection \<open>Programming the target\<close>

definition program_target :: "'h cli_world \<Rightarrow> device_args \<Rightarrow> path \<Rightarrow> string \<Rightarrow> json \<Rightarrow> ('h, 'z, unit) cli_step" where
  "program_target env args dir operation manifest =
     bindA (select_probe env manifest args dir) (\<lambda>device.
     bindA (pure_cli (jitem manifest ''board_version'')) (\<lambda>board_version.
     bindA (stage env dir ''device-selection'' [(''board_version'', board_version)]) (\<lambda>_.
     bindA (probe_lock env device operation) (\<lambda>serial.
     bindA (stage env dir ''probe-lock'' []) (\<lambda>_.
     bindA (flash_snapshots env args dir manifest serial) (\<lambda>_.
     bindA (reset_device env manifest serial args dir) (\<lambda>result.
     bindA (requireA (returncode result = 0) DeviceResetFailed) (\<lambda>_.
       stage env dir ''reset'' []))))))))"

definition opened_manifest :: "'h usb_gate \<Rightarrow> device_args \<Rightarrow> path \<Rightarrow> ('h, json) usb_cmd" where
  "opened_manifest env args dir =
     bindA (onCli (open_manifest (ug_world env) (da_manifest args))) (\<lambda>manifest.
     bindA (onCli (initialize_device_report (ug_world env) dir (da_manifest args) manifest args)) (\<lambda>_. pureA manifest))"

definition usb_stage :: "'h usb_gate \<Rightarrow> path \<Rightarrow> string \<Rightarrow> (string \<times> json) list \<Rightarrow> ('h, unit) usb_cmd" where
  "usb_stage env dir name details = onCli (stage (ug_world env) dir name details)"

subsection \<open>The gates\<close>

definition power_phases :: "'h usb_gate \<Rightarrow> path \<Rightarrow> (string \<Rightarrow> ('h, unit) usb_cmd) \<Rightarrow> ('h, json) usb_cmd" where
  "power_phases env dir before_phase =
     bindA (before_phase ''usb-host-resume'') (\<lambda>_.
     bindA (onUsb (run_host_resume_validation (ug_usb env))) (\<lambda>resume.
     bindA (usb_stage env dir ''usb-host-resume'' (resume_json None resume)) (\<lambda>_.
     bindA (before_phase ''usb-suspend-remote-wakeup'') (\<lambda>_.
     bindA (onUsb (run_power_validation (ug_usb env) 500)) (\<lambda>wake.
     bindA (usb_stage env dir ''usb-suspend-remote-wakeup'' (resume_json (Some 500) wake)) (\<lambda>_.
       pureA (JObj [(''host_resume'', JObj (resume_json None resume)), (''remote_wakeup'', JObj (resume_json (Some 500) wake))])))))))"

definition skipped_power :: "(string \<times> json) list" where
  "skipped_power = [(''status'', JStr ''skipped''), (''reason'', JStr ''requested by --skip-power'')]"

definition m4_usb_body :: "'h usb_gate \<Rightarrow> device_args \<Rightarrow> int \<Rightarrow> bool \<Rightarrow> path \<Rightarrow> ('h, unit) usb_cmd" where
  "m4_usb_body env args reconnect_cycles skip_power dir =
     bindA (opened_manifest env args dir) (\<lambda>manifest.
     bindA (onCli (program_target (ug_world env) args dir ''m4-usb-gate'' manifest)) (\<lambda>_.
     bindA (onUsb (run_reconnect_validation (ug_usb env) reconnect_cycles)) (\<lambda>(requested, completed).
     bindA (usb_stage env dir ''usb-reconnect'' (cycles_json requested (int completed))) (\<lambda>_.
     bindA (onUsb (run_transfer_validation (ug_usb env))) (\<lambda>transfers.
     bindA (usb_stage env dir ''usb-control-bulk-hid'' (transfers_json transfers)) (\<lambda>_.
     bindA (if skip_power
            then bindA (usb_stage env dir ''usb-power-skipped'' skipped_power) (\<lambda>_. pureA (JObj skipped_power))
            else power_phases env dir (\<lambda>_. pureA ())) (\<lambda>power.
     bindA (put_report ''status'' (JStr ''ok'')) (\<lambda>_.
     bindA (put_report ''reconnect'' (JObj (cycles_json requested (int completed)))) (\<lambda>_.
     bindA (put_report ''transfers'' (JObj (transfers_json transfers))) (\<lambda>_.
       put_report ''power'' power))))))))))"

definition command_m4_usb_gate :: "'h usb_gate \<Rightarrow> device_args \<Rightarrow> int \<Rightarrow> bool \<Rightarrow> path \<Rightarrow> ('h, unit) usb_cmd" where
  "command_m4_usb_gate env args reconnect_cycles skip_power dir =
     usb_reported env dir (m4_usb_body env args reconnect_cycles skip_power dir)"

record smoke_args =
  sm_device :: device_args
  sm_attach :: bool
  sm_vid :: nat
  sm_pid :: nat
  sm_expected_speed :: "int option"
  sm_expected_interfaces :: "nat option"
  sm_reconnect_cycles :: int

definition command_consumer_usb_smoke :: "'h usb_gate \<Rightarrow> smoke_args \<Rightarrow> path \<Rightarrow> ('h, unit) usb_cmd" where
  "command_consumer_usb_smoke env args dir =
     usb_reported env dir
       (bindA (opened_manifest env (sm_device args) dir) (\<lambda>manifest.
        bindA (if sm_attach args
               then usb_stage env dir ''attach-existing-image'' [(''manifest_identity_only'', JBool True)]
               else onCli (program_target (ug_world env) (sm_device args) dir ''consumer-usb-smoke'' manifest)) (\<lambda>_.
        bindA (onUsb (inspect_standard_descriptors (ug_usb env) (sm_vid args) (sm_pid args) (sm_expected_speed args) (sm_expected_interfaces args))) (\<lambda>descriptors.
        bindA (usb_stage env dir ''usb-standard-descriptors'' (descriptors_json descriptors)) (\<lambda>_.
        bindA (onUsb (run_standard_reconnect_validation (ug_usb env) (sm_vid args) (sm_pid args) (sm_reconnect_cycles args))) (\<lambda>(requested, completed).
        bindA (usb_stage env dir ''usb-reconnect'' (cycles_json requested completed)) (\<lambda>_.
        bindA (put_report ''status'' (JStr ''ok'')) (\<lambda>_.
        bindA (put_report ''descriptors'' (JObj (descriptors_json descriptors))) (\<lambda>_.
          put_report ''reconnect'' (JObj (cycles_json requested completed)))))))))))"

definition mark_phase :: "'h usb_gate \<Rightarrow> path \<Rightarrow> string \<Rightarrow> ('h, unit) usb_cmd" where
  "mark_phase env dir name =
     bindA (put_report ''active_stage'' (JStr name)) (\<lambda>_. onCli (store_report (ug_world env) dir))"

definition command_m4_usb_power :: "'h usb_gate \<Rightarrow> path \<Rightarrow> ('h, unit) usb_cmd" where
  "command_m4_usb_power env dir =
     bindA (put_report ''stages'' (JList [])) (\<lambda>_.
       usb_reported env dir
         (bindA (power_phases env dir (mark_phase env dir)) (\<lambda>power.
          bindA (updateA (\<lambda>s. s\<lparr>report := AList.delete ''active_stage'' (report s)\<rparr>)) (\<lambda>_.
          bindA (put_report ''status'' (JStr ''ok'')) (\<lambda>_.
            put_report ''power'' power)))))"

subsection \<open>Preparing, building and inspecting\<close>

definition command_prepare :: "'h usb_gate \<Rightarrow> 'h build_env \<Rightarrow> string \<Rightarrow> path \<Rightarrow> path \<Rightarrow> path \<Rightarrow> ('h, path) usb_cmd" where
  "command_prepare env benv oracle_id source_root toolchain dir =
     bindA (put_report ''oracle'' (JStr oracle_id)) (\<lambda>_.
     bindA (put_report ''source_root'' (JStr (cl_resolve (ug_world env) source_root))) (\<lambda>_.
     bindA (put_report ''toolchain'' (JStr (cl_resolve (ug_world env) toolchain))) (\<lambda>_.
       usb_reported env dir
         (bindA (onHost UcBuild (prepare benv (cl_root (ug_world env)) oracle_id source_root toolchain)) (\<lambda>p.
          bindA (put_report ''status'' (JStr ''ok'')) (\<lambda>_.
          bindA (put_report ''source_receipt'' (JStr (cl_resolve (ug_world env) p))) (\<lambda>_. pureA p)))))))"

definition command_build :: "'h build_env \<Rightarrow> string \<Rightarrow> rat \<Rightarrow> string \<Rightarrow> string option \<Rightarrow> path \<Rightarrow> ('h, 'z, path) build_step" where
  "command_build benv oracle_id timeout west profile dir =
     reference_build benv \<lparr>ba_project = cl_root (be_world benv), ba_oracle = oracle_id, ba_timeout = timeout, ba_west = west, ba_profile = profile\<rparr> dir"

definition inspect_image :: "json \<Rightarrow> py_error + json" where
  "inspect_image item =
     bindR (jitem item ''domain'') (\<lambda>domain. bindR (jitem item ''ranges'') (\<lambda>rs. Inr (JObj [(''domain'', domain), (''ranges'', rs)])))"

definition inspect_payload :: "json \<Rightarrow> string \<Rightarrow> py_error + json" where
  "inspect_payload manifest run_report =
     bindR (jitem manifest ''oracle'') (\<lambda>oracle.
     bindR (bindR (jitem manifest ''debug_elf'') (\<lambda>d. jitem d ''entry'')) (\<lambda>elf_entry.
     bindR (bindR (jitem manifest ''debug_elf'') (\<lambda>d. jitem d ''ranges'')) (\<lambda>elf_ranges.
     bindR (bindR (bindR (jitem manifest ''images'') jiter) (mapR inspect_image)) (\<lambda>images.
       Inr (JObj [(''status'', JStr ''ok''), (''oracle'', oracle), (''elf_entry'', elf_entry), (''elf_ranges'', elf_ranges),
         (''images'', JList images), (''run_report'', JStr run_report)])))))"

definition command_inspect :: "'h usb_gate \<Rightarrow> path \<Rightarrow> path \<Rightarrow> ('h, json) usb_cmd" where
  "command_inspect env manifest_path dir =
     usb_reported env dir
       (bindA (onCli (open_manifest (ug_world env) manifest_path)) (\<lambda>manifest.
        bindA (onCli (pure_cli (inspect_payload manifest (cl_resolve (ug_world env) (path_join dir ''run.json''))))) (\<lambda>payload.
        bindA (onCli (pure_cli (jitem manifest ''oracle''))) (\<lambda>oracle.
        bindA (put_report ''status'' (JStr ''ok'')) (\<lambda>_.
        bindA (put_report ''oracle'' oracle) (\<lambda>_.
        bindA (put_report ''manifest'' (JStr (cl_resolve (ug_world env) manifest_path))) (\<lambda>_.
        bindA (put_report ''audit'' payload) (\<lambda>_. pureA payload))))))))"

definition command_sdk_manifest :: "'h cli_world \<Rightarrow> path \<Rightarrow> string \<Rightarrow> string \<Rightarrow> bool \<Rightarrow> ('h host, sdk_error, path) action" where
  "command_sdk_manifest env build_dir target token hci_h4_hwfc_1m =
     create_device_manifest (cl_digest env) (cl_loads env) (cl_dumps env) (cl_temporary env) (cl_root env) build_dir target token hci_h4_hwfc_1m"

end
