(* ===== verification/Usb_Correct.thy ===== *)
theory Usb_Correct
  imports Usb
begin

section \<open>Correctness of USB validation\<close>

text \<open>
  Kernel drivers that were detached are attached again once the claim has succeeded, the power attributes are written back, and an accepted transfer run
  has echoed every byte and counted it. Nothing is assumed of the device or the kernel.
\<close>

subsection \<open>The calls an action makes\<close>

lemma usb_query_calls: "usb_query answer c s = (s', r) \<Longrightarrow> us_calls s' = us_calls s @ [c]"
  by (auto simp: usb_query_def split: prod.splits)

lemma usb_do_calls: "usb_do env c s = (s', r) \<Longrightarrow> us_calls s' = us_calls s @ [c]"
  by (simp add: usb_do_def usb_query_calls)

lemma usb_try_calls: "usb_try env c s = (s', r) \<Longrightarrow> us_calls s' = us_calls s @ [c] \<and> r = Inr ()"
  by (auto simp: usb_try_def bindA_def attemptA_def pureA_def dest: usb_do_calls split: prod.splits)

lemma usb_tries_calls: "forA (\<lambda>x. usb_try env (f x)) xs s = (s', r) \<Longrightarrow> us_calls s' = us_calls s @ map f xs \<and> r = Inr ()"
proof (induction xs arbitrary: s)
  case Nil
  then show ?case by (simp add: pureA_def)
next
  case (Cons x xs)
  obtain s1 r1 where one: "usb_try env (f x) s = (s1, r1)" by fastforce
  note tried = usb_try_calls [OF one]
  with Cons.prems one have "forA (\<lambda>x. usb_try env (f x)) xs s1 = (s', r)" by (simp add: bindA_def)
  from Cons.IH [OF this] tried show ?case by simp
qed

subsection \<open>Claiming and releasing\<close>

definition release_calls :: "nat list \<Rightarrow> usb_call list" where
  "release_calls detached = [ReleaseInterface 1, ReleaseInterface 0] @ map AttachDriver detached @ [DisposeResources]"

lemma usb_release_calls: "usb_release env detached s = (s', r) \<Longrightarrow> us_calls s' = us_calls s @ release_calls detached"
proof -
  assume run: "usb_release env detached s = (s', r)"
  obtain s1 r1 where one: "forA (\<lambda>i. usb_try env (ReleaseInterface i)) [1, 0] s = (s1, r1)" by fastforce
  obtain s2 r2 where two: "forA (\<lambda>i. usb_try env (AttachDriver i)) detached s1 = (s2, r2)" by fastforce
  note c = usb_tries_calls [OF one] usb_tries_calls [OF two]
  from run one two c have "usb_do env DisposeResources s2 = (s', r)" unfolding usb_release_def by (simp add: bindA_def del: forA.simps)
  from usb_do_calls [OF this] c show ?thesis by (simp add: release_calls_def)
qed

text \<open>The drivers a claim reports detached are those it has asked the kernel to detach.\<close>

definition detaches :: "usb_call list \<Rightarrow> nat list" where
  "detaches cs = List.map_filter (\<lambda>c. case c of DetachDriver i \<Rightarrow> Some i | _ \<Rightarrow> None) cs"

lemma detaches_append [simp]: "detaches (xs @ ys) = detaches xs @ detaches ys"
  by (simp add: detaches_def List.map_filter_def)

lemma detach_drivers_calls:
  assumes "detach_drivers env detached interfaces s = (s', Inr ds)"
  shows "\<exists>cs. us_calls s' = us_calls s @ cs \<and> ds = detached @ detaches cs"
  using assms
proof (induction interfaces arbitrary: s detached)
  case Nil
  then show ?case by (auto simp: pureA_def detaches_def List.map_filter_def)
next
  case (Cons i js)
  from Cons.prems obtain s1 active where ask: "usb_query (ue_ask env) (DriverActive i) s = (s1, Inr active)"
    and rest: "(if active then bindA (usb_do env (DetachDriver i)) (\<lambda>_. detach_drivers env (detached @ [i]) js) else detach_drivers env detached js) s1 = (s', Inr ds)"
    by (auto simp: action_simps)
  note asked = usb_query_calls [OF ask]
  show ?case
  proof (cases active)
    case True
    with rest obtain s2 where two: "usb_do env (DetachDriver i) s1 = (s2, Inr ())" "detach_drivers env (detached @ [i]) js s2 = (s', Inr ds)"
      by (auto simp: action_simps)
    from Cons.IH [OF two(2)] usb_do_calls [OF two(1)] asked show ?thesis by (auto simp: detaches_def List.map_filter_def)
  next
    case False
    with rest have "detach_drivers env detached js s1 = (s', Inr ds)" by simp
    from Cons.IH [OF this] asked show ?thesis by (auto simp: detaches_def List.map_filter_def)
  qed
qed

lemma usb_query_no_detach:
  assumes "usb_query answer c s = (s', r)" and "\<And>i. c \<noteq> DetachDriver i"
  shows "\<exists>cs. us_calls s' = us_calls s @ cs \<and> detaches cs = []"
  using usb_query_calls [OF assms(1)] assms(2) by (auto simp: detaches_def List.map_filter_def split: usb_call.splits)

lemma claim_interfaces_calls:
  "forA (\<lambda>i. usb_do env (ClaimInterface i)) js s = (s', r) \<Longrightarrow> \<exists>cs. us_calls s' = us_calls s @ cs \<and> detaches cs = []"
proof (induction js arbitrary: s)
  case Nil
  then show ?case by (auto simp: pureA_def detaches_def List.map_filter_def)
next
  case (Cons j js)
  obtain s1 r1 where one: "usb_do env (ClaimInterface j) s = (s1, r1)" by fastforce
  have c: "us_calls s1 = us_calls s @ [ClaimInterface j]" by (rule usb_do_calls [OF one])
  show ?case
  proof (cases r1)
    case (Inl e)
    with Cons.prems one have "s' = s1" by (simp add: bindA_def)
    with c show ?thesis by (auto simp: detaches_def List.map_filter_def)
  next
    case (Inr u)
    with Cons.prems one have "forA (\<lambda>i. usb_do env (ClaimInterface i)) js s1 = (s', r)" by (simp add: bindA_def)
    from Cons.IH [OF this] c show ?thesis by (auto simp: detaches_def List.map_filter_def)
  qed
qed

lemma usb_claim_calls:
  assumes "usb_claim env js s = (s', Inr ds)"
  shows "\<exists>cs. us_calls s' = us_calls s @ cs \<and> ds = detaches cs"
proof -
  from assms obtain s1 s2 s3 active where run: "detach_drivers env [] js s = (s1, Inr ds)"
    "usb_query (ue_count env) GetConfiguration s1 = (s2, active)"
    "(if active = Inr 1 then pureA () else usb_do env (SetConfiguration 1)) s2 = (s3, Inr ())"
    "forA (\<lambda>i. usb_do env (ClaimInterface i)) js s3 = (s', Inr ())"
    by (auto simp: usb_claim_def action_simps)
  obtain c1 where 1: "us_calls s1 = us_calls s @ c1" "ds = detaches c1" using detach_drivers_calls [OF run(1)] by auto
  obtain c2 where 2: "us_calls s2 = us_calls s1 @ c2" "detaches c2 = []" using usb_query_no_detach [OF run(2)] by auto
  obtain c3 where 3: "us_calls s3 = us_calls s2 @ c3" "detaches c3 = []"
    using run(3) usb_query_no_detach [of "ue_act env" "SetConfiguration 1" s2 s3 "Inr ()"]
    by (auto simp: pureA_def usb_do_def detaches_def List.map_filter_def split: if_splits)
  obtain c4 where 4: "us_calls s' = us_calls s3 @ c4" "detaches c4 = []" using claim_interfaces_calls [OF run(4)] by auto
  show ?thesis using 1 2 3 4 by (intro exI [of _ "c1 @ c2 @ c3 @ c4"]) simp
qed

text \<open>
  Once a claim has succeeded, whatever the work does, the last calls release both interfaces and attach exactly the drivers the claim detached. When the claim
  itself fails, nothing is attached again.
\<close>

lemma claimed_reattaches:
  assumes "claimed env js work s = (s', r)"
  shows "(\<exists>e. usb_claim env js s = (s', Inl e) \<and> r = Inl e)
    \<or> (\<exists>s1 s2 cs q. usb_claim env js s = (s1, Inr (detaches cs)) \<and> us_calls s1 = us_calls s @ cs \<and> work s1 = (s2, q)
        \<and> us_calls s' = us_calls s2 @ release_calls (detaches cs))"
proof -
  obtain s1 q1 where claim: "usb_claim env js s = (s1, q1)" by fastforce
  show ?thesis
  proof (cases q1)
    case (Inl e)
    with assms claim show ?thesis by (simp add: claimed_def bindA_def)
  next
    case (Inr ds)
    obtain s2 q where work: "work s1 = (s2, q)" by fastforce
    obtain cs where cs: "us_calls s1 = us_calls s @ cs" "ds = detaches cs" using usb_claim_calls claim Inr by blast
    obtain s3 q3 where release: "usb_release env ds s2 = (s3, q3)" by fastforce
    with assms claim Inr work have "s' = s3" by (auto simp: claimed_def bindA_def finallyA_def split: sum.splits)
    with usb_release_calls [OF release] claim Inr work cs show ?thesis by (intro disjI2 exI [of _ s1] exI [of _ s2] exI [of _ cs] exI [of _ q]) simp
  qed
qed

text \<open>The second case is real: a driver is detached, the configuration cannot be set, and the driver stays detached.\<close>

definition refusing :: "'w usb_env \<Rightarrow> 'w usb_env" where
  "refusing env = env\<lparr>ue_ask := (\<lambda>c w. (w, Inr True)), ue_count := (\<lambda>c w. (w, Inl OtherFault)),
     ue_act := (\<lambda>c w. (w, if c = SetConfiguration 1 then Inl OtherFault else Inr ()))\<rparr>"

lemma claim_may_leave_detached:
  "claimed (refusing env) [0] work s =
     (s\<lparr>us_calls := us_calls s @ [DriverActive 0, DetachDriver 0, GetConfiguration, SetConfiguration 1]\<rparr>, Inl (UsbFault OtherFault))"
  by (simp add: claimed_def usb_claim_def refusing_def usb_do_def usb_query_def bindA_def attemptA_def pureA_def)

subsection \<open>Power attributes\<close>

definition attribute_writes :: "(string \<times> string) list \<Rightarrow> usb_call list" where
  "attribute_writes = map (\<lambda>(name, v). WriteAttribute name v)"

lemma restore_calls:
  assumes "restore_power_attributes env attributes s = (s', r)"
  shows "us_calls s' = us_calls s @ attribute_writes attributes \<and> r = Inr ()"
proof -
  have "(\<lambda>(name, v). usb_try env (WriteAttribute name v)) = (\<lambda>x. usb_try env (case x of (name, v) \<Rightarrow> WriteAttribute name v))" by auto
  with assms have "forA (\<lambda>x. usb_try env (case x of (name, v) \<Rightarrow> WriteAttribute name v)) attributes s = (s', r)"
    by (simp add: restore_power_attributes_def)
  from usb_tries_calls [OF this] show ?thesis by (simp add: attribute_writes_def)
qed

text \<open>However the suspension of the host-resume phase ends, its last calls write the attributes back.\<close>

lemma host_resume_restores:
  assumes "finallyA (suspend_and_resume env) (restore_power_attributes env attributes) s = (s', r)"
  shows "\<exists>s1. suspend_and_resume env s = (s1, r) \<and> us_calls s' = us_calls s1 @ attribute_writes attributes"
proof -
  from assms obtain s1 q p where run: "suspend_and_resume env s = (s1, q)" "restore_power_attributes env attributes s1 = (s', p)"
    "r = (case p of Inl e \<Rightarrow> Inl e | Inr _ \<Rightarrow> q)" by (auto simp: finallyA_eq)
  with restore_calls [OF run(2)] show ?thesis by auto
qed

subsection \<open>Transfers\<close>

lemma bulk_transfers_sizes:
  "mapA (bulk_transfer env) ns s = (s', Inr sizes) \<Longrightarrow> sizes = map (\<lambda>n. length (bulk_payload env n)) ns"
proof (induction ns arbitrary: s sizes)
  case (Cons n ns)
  from Cons.prems obtain s1 k ks where run: "bulk_transfer env n s = (s1, Inr k)" "mapA (bulk_transfer env) ns s1 = (s', Inr ks)" "sizes = k # ks"
    by (auto simp: action_simps)
  from run(1) have "k = length (bulk_payload env n)" by (auto simp: bulk_transfer_def Let_def action_simps split: if_splits)
  with Cons.IH [OF run(2)] run(3) show ?case by simp
qed (simp add: pureA_def)

lemma transfer_validation_counts:
  assumes "run_transfer_validation env s = (s', Inr r)"
  shows "tr_bulk_bytes r = sum_list (map (\<lambda>n. length (bulk_payload env n)) [0..<tr_transfers r])
    \<and> counted r ''bulk_rx_bytes'' (int (tr_bulk_bytes r)) \<and> counted r ''bulk_tx_bytes'' (int (tr_bulk_bytes r))
    \<and> counted r ''hid_rx_count'' 1 \<and> counted r ''hid_tx_count'' 1"
proof -
  from assms obtain s1 s2 where work: "claimed env [0, 1] (transfer_work env) s1 = (s2, Inr r)"
    and counts: "counted r ''bulk_rx_bytes'' (int (tr_bulk_bytes r))" "counted r ''bulk_tx_bytes'' (int (tr_bulk_bytes r))"
      "counted r ''hid_rx_count'' 1" "counted r ''hid_tx_count'' 1"
    by (auto simp: run_transfer_validation_def action_simps split: if_splits)
  from work obtain s3 s4 where "transfer_work env s3 = (s4, Inr r)" by (auto simp: claimed_def action_simps)
  then obtain s5 s6 n sizes where loop: "mapA (bulk_transfer env) [0..<n] s5 = (s6, Inr sizes)" "tr_bulk_bytes r = sum_list sizes" "tr_transfers r = length sizes"
    by (auto simp: transfer_work_def action_simps)
  from bulk_transfers_sizes [OF loop(1)] loop(2,3) counts show ?thesis by simp
qed

text \<open>
  The firmware's counters are 32-bit and their difference is not taken modulo \<open>2^32\<close>: a device that has counted every byte is refused when a counter wrapped around during
  the run.
\<close>

lemma wrapped_counter_refused:
  assumes "status_field (tr_final r) key = (status_field (tr_initial r) key + n) mod 2 ^ 32" and "2 ^ 32 \<le> status_field (tr_initial r) key + n"
  shows "\<not> counted r key n"
proof -
  have "status_field (tr_final r) key < 2 ^ 32" unfolding assms(1) by simp
  with assms(2) show ?thesis by (simp add: counted_def)
qed

end
