(* ===== verification/Usb_Cli_Correct.thy ===== *)
theory Usb_Cli_Correct
  imports Usb_Cli Usb_Correct
begin

section \<open>Correctness of the USB gates\<close>

text \<open>A gate's report says ok only when the gate returns, and what it then reports was counted by the firmware.\<close>

lemma store_keeps_report: "retype UcCli (store_report w dir) s = (s', r) \<Longrightarrow> report s' = report s \<and> r = Inr ()"
  by (auto simp: retype_def store_report_def onTool_def onHost_def atomic_json_def Let_def split: prod.splits)

lemma usb_reported_failed: "usb_reported env dir body s = (s', Inl e) \<Longrightarrow> map_of (report s') ''status'' = Some (JStr ''failed'')"
  by (auto simp: usb_reported_def action_simps put_report_def updateA_def update_conv' simp del: retype_eq dest!: store_keeps_report)

lemma usb_reported_returned: "usb_reported env dir body s = (s', Inr x) \<Longrightarrow> \<exists>s1. body s = (s1, Inr x) \<and> report s' = report s1"
  by (auto simp: usb_reported_def action_simps simp del: retype_eq dest!: store_keeps_report)

lemma onUsb_Inr: "onUsb m s = (s', Inr x) \<Longrightarrow> \<exists>u u'. m u = (u', Inr x)"
  by (auto simp: onUsb_def split: prod.splits)

lemma m4_gate_returns:
  assumes "command_m4_usb_gate env args reconnect_cycles skip_power dir s = (s', Inr ())"
  shows "map_of (report s') ''status'' = Some (JStr ''ok'')
    \<and> (\<exists>t. map_of (report s') ''transfers'' = Some (JObj (transfers_json t)) \<and> counted t ''bulk_rx_bytes'' (int (tr_bulk_bytes t))
         \<and> counted t ''bulk_tx_bytes'' (int (tr_bulk_bytes t)) \<and> counted t ''hid_rx_count'' 1 \<and> counted t ''hid_tx_count'' 1)"
proof -
  obtain s1 where "report s' = report s1" and run: "m4_usb_body env args reconnect_cycles skip_power dir s = (s1, Inr ())"
    using usb_reported_returned [OF assms [unfolded command_m4_usb_gate_def]] by blast
  moreover from run obtain s2 s3 s4 t requested and completed :: nat and power where t: "onUsb (run_transfer_validation (ug_usb env)) s2 = (s3, Inr t)"
    and r: "s1 = s4\<lparr>report := AList.update ''power'' power (AList.update ''transfers'' (JObj (transfers_json t))
          (AList.update ''reconnect'' (JObj (cycles_json requested (int completed))) (AList.update ''status'' (JStr ''ok'') (report s4))))\<rparr>"
    by (auto simp: m4_usb_body_def action_simps simp del: retype_eq)
  ultimately have body: "report s' = AList.update ''power'' power (AList.update ''transfers'' (JObj (transfers_json t))
          (AList.update ''reconnect'' (JObj (cycles_json requested (int completed))) (AList.update ''status'' (JStr ''ok'') (report s4))))" by simp
  from onUsb_Inr [OF t] obtain u u' where "run_transfer_validation (ug_usb env) u = (u', Inr t)" by blast
  from transfer_validation_counts [OF this] body show ?thesis by (auto simp: update_conv')
qed

lemma m4_gate_fails:
  "command_m4_usb_gate env args reconnect_cycles skip_power dir s = (s', Inl e) \<Longrightarrow> map_of (report s') ''status'' = Some (JStr ''failed'')"
  unfolding command_m4_usb_gate_def by (rule usb_reported_failed)

end
