(* ===== verification/Power_Suite.thy ===== *)
theory Power_Suite
  imports Power_Cli
begin

section \<open>The arguments and workload checks of the power suite\<close>

text \<open>
  Models \<open>_profiles\<close>, \<open>_durations\<close>, \<open>_child\<close>, \<open>_read_peer\<close>, \<open>_OBSERVATIONS\<close>, \<open>_validate_observations\<close> and the checks at the start of \<open>command\<close> of
  \<open>src/tools/nrfkit_tools/power_suite_cli.py\<close>: what a suite accepts, what it takes for a successful child, and when a firmware's counters show that the measured workload took place.
\<close>

datatype suite_error =
    ProfileForm
  | DuplicateName string
  | ProfileName string
  | DurationForm
  | InvalidDuration string
  | SuiteProfilesDiffer
  | SuiteNeedsGdb
  | SuiteVoltage
  | SuiteLimits
  | PeerNotSelected
  | PeerNeedsProbe
  | ChildCommandFailed
  | ChildNotOneLine
  | ChildReportUnreadable
  | ChildUnsuccessful
  | PeerReadFailed
  | IdleNotReached
  | DirectIncomplete string
  | TimeslotNotConserved
  | BleNotAdvertising
  | BleTimeslotIncomplete
  | SuitePython py_error

definition profile_char :: "char \<Rightarrow> bool" where
  "profile_char c = (let n = of_char c :: nat in 97 \<le> n \<and> n \<le> 122 \<or> 48 \<le> n \<and> n \<le> 57 \<or> n = 45)"

fun parse_profiles :: "(path \<Rightarrow> path) \<Rightarrow> (string \<times> path) list \<Rightarrow> string list \<Rightarrow> suite_error + (string \<times> path) list" where
  "parse_profiles resolved profiles [] = Inr profiles"
| "parse_profiles resolved profiles (v # vs) =
     (case partition_eq v of
        None \<Rightarrow> Inl ProfileForm
      | Some (name, p) \<Rightarrow>
          if name = [] \<or> p = [] then Inl ProfileForm
          else if name \<in> fst ` set profiles then Inl (DuplicateName name)
          else if \<not> list_all profile_char name then Inl (ProfileName name)
          else parse_profiles resolved (profiles @ [(name, resolved p)]) vs)"

definition suite_profiles :: "(path \<Rightarrow> path) \<Rightarrow> string list \<Rightarrow> suite_error + (string \<times> path) list" where
  "suite_profiles resolved vs = parse_profiles resolved [] vs"

definition between_seconds :: "pyfloat \<Rightarrow> rat \<Rightarrow> rat \<Rightarrow> bool" where
  "between_seconds x lo hi \<longleftrightarrow> isfinite x \<and> fle (Fin lo) x \<and> fle x (Fin hi)"

text \<open>\<open>_durations\<close>: every profile has the default, and each may be given its own once.\<close>

fun parse_durations :: "string set \<Rightarrow> string list \<Rightarrow> (string \<times> pyfloat) list \<Rightarrow> string list \<Rightarrow> suite_error + (string \<times> pyfloat) list" where
  "parse_durations names seen durations [] = Inr durations"
| "parse_durations names seen durations (v # vs) =
     (case partition_eq v of
        None \<Rightarrow> Inl DurationForm
      | Some (name, t) \<Rightarrow>
          if name \<notin> names \<or> name \<in> set seen then Inl DurationForm
          else (case py_float t of
             None \<Rightarrow> Inl (InvalidDuration name)
           | Some x \<Rightarrow>
               if \<not> between_seconds x 1 600 then Inl (InvalidDuration name)
               else parse_durations names (name # seen) (AList.update name x durations) vs))"

definition suite_durations :: "string list \<Rightarrow> string list \<Rightarrow> pyfloat \<Rightarrow> suite_error + (string \<times> pyfloat) list" where
  "suite_durations vs names default_duration = parse_durations (set names) [] (map (\<lambda>n. (n, default_duration)) names) vs"

record suite_args =
  sa_profile :: "string list"
  sa_profile_duration :: "string list"
  sa_peer :: "string list"
  sa_require_m7 :: bool
  sa_gdb :: "string option"
  sa_voltage_mv :: int
  sa_duration :: pyfloat
  sa_settle :: pyfloat
  sa_timeout :: pyfloat
  sa_peer_probe :: "string option"

record suite_plan =
  sp_profiles :: "(string \<times> path) list"
  sp_durations :: "(string \<times> pyfloat) list"
  sp_peers :: "(string \<times> path) list"

definition truthy :: "string option \<Rightarrow> bool" where
  "truthy v \<longleftrightarrow> v \<noteq> None \<and> v \<noteq> Some []"

definition plan_suite :: "(path \<Rightarrow> path) \<Rightarrow> suite_args \<Rightarrow> suite_error + suite_plan" where
  "plan_suite resolved args =
     bindR (suite_profiles resolved (sa_profile args)) (\<lambda>profiles.
       let names = map fst profiles in
     bindR (if sa_require_m7 args \<and> set names \<noteq> set REQUIRED_PROFILES then Inl SuiteProfilesDiffer else Inr ()) (\<lambda>_.
     bindR (if sa_require_m7 args \<and> \<not> truthy (sa_gdb args) then Inl SuiteNeedsGdb else Inr ()) (\<lambda>_.
     bindR (if \<not> (500 \<le> sa_voltage_mv args \<and> sa_voltage_mv args \<le> 5000) then Inl SuiteVoltage else Inr ()) (\<lambda>_.
     bindR (if \<not> between_seconds (sa_duration args) 1 600 \<or> \<not> between_seconds (sa_settle args) 0 60
                \<or> \<not> isfinite (sa_timeout args) \<or> fle (sa_timeout args) (Fin 0) then Inl SuiteLimits else Inr ()) (\<lambda>_.
     bindR (suite_durations (sa_profile_duration args) names (sa_duration args)) (\<lambda>durations.
     bindR (suite_profiles resolved (sa_peer args)) (\<lambda>peers.
     bindR (if \<not> set (map fst peers) \<subseteq> set names then Inl PeerNotSelected else Inr ()) (\<lambda>_.
     bindR (if peers \<noteq> [] \<and> \<not> truthy (sa_peer_probe args) then Inl PeerNeedsProbe else Inr ()) (\<lambda>_.
       Inr \<lparr>sp_profiles = profiles, sp_durations = durations, sp_peers = peers\<rparr>)))))))))"

subsection \<open>Children\<close>

definition suite_child :: "'h cli_world \<Rightarrow> string list \<Rightarrow> path \<Rightarrow> rat \<Rightarrow> ('h host, suite_error, path) action" where
  "suite_child env argv log_path timeout =
     bindA (run_logged (cl_child env) SuitePython argv log_path timeout) (\<lambda>result.
     bindA (requireA (returncode result = 0) ChildCommandFailed) (\<lambda>_.
       case filter (\<lambda>line. py_strip line \<noteq> []) (splitlines (stdout result)) of
         [line] \<Rightarrow>
           bindA (readA files) (\<lambda>fs.
             let p = cl_resolve env line in
             case fs p of
               None \<Rightarrow> raiseA ChildReportUnreadable
             | Some content \<Rightarrow>
                 (case cl_decode env content of
                    Inl True \<Rightarrow> raiseA (SuitePython UnicodeDecodeError)
                  | Inl False \<Rightarrow> raiseA ChildReportUnreadable
                  | Inr data \<Rightarrow>
                      bindA (liftA (mapE SuitePython (jget data ''status'' JNull))) (\<lambda>status.
                      bindA (requireA (py_eq status (JStr ''ok'')) ChildUnsuccessful) (\<lambda>_. pureA p))))
       | _ \<Rightarrow> raiseA ChildNotOneLine))"

definition read_peer :: "'h cli_world \<Rightarrow> string \<Rightarrow> rat \<Rightarrow> json \<Rightarrow> string \<Rightarrow> path \<Rightarrow> path \<Rightarrow> int \<Rightarrow> int \<Rightarrow> ('h host, suite_error, unit) action" where
  "read_peer env nrfutil timeout manifest serial out log_path start stop =
     bindA (liftA (mapE SuitePython (target_of manifest))) (\<lambda>(family, core).
     bindA (run_logged (cl_child env) SuitePython (read_memory_argv nrfutil out serial family core start (stop - start)) log_path timeout) (\<lambda>result.
       requireA (returncode result = 0) PeerReadFailed))"

subsection \<open>Observations\<close>

definition OBSERVATIONS :: "(string \<times> string list) list" where
  "OBSERVATIONS =
     [(''idle'', [''nrfkit_power_stage'']),
      (''direct-1m'', [''nrfkit_power_stage'', ''nrfkit_power_packets'', ''nrfkit_power_batches'']),
      (''direct-2m'', [''nrfkit_power_stage'', ''nrfkit_power_packets'', ''nrfkit_power_batches'']),
      (''direct-4m'', [''nrfkit_power_stage'', ''nrfkit_power_packets'', ''nrfkit_power_batches'']),
      (''timeslot-retry-4m'', [''accepted'', ''completed'', ''retries'', ''dropped'', ''grants'']),
      (''ble'', [''nrfkit_power_stage'', ''nrfkit_power_ble_events'']),
      (''ble-timeslot-4m'', [''nrfkit_power_stage'', ''nrfkit_power_ble_events'', ''nrfkit_power_timeslot_grants'', ''nrfkit_power_timeslot_packets''])]"

definition observed :: "(string \<times> int) list \<Rightarrow> string \<Rightarrow> int \<Rightarrow> bool" where
  "observed values key v \<longleftrightarrow> map_of values key = Some v"

definition observed_or_zero :: "(string \<times> int) list \<Rightarrow> string \<Rightarrow> int" where
  "observed_or_zero values key = (case map_of values key of Some v \<Rightarrow> v | None \<Rightarrow> 0)"

definition validate_observations :: "string \<Rightarrow> (string \<times> int) list \<Rightarrow> suite_error + unit" where
  "validate_observations profile values =
     (let retries = observed_or_zero values ''retries'' in
      if profile = ''idle'' \<and> \<not> observed values ''nrfkit_power_stage'' 1 then Inl IdleNotReached
      else if prefix ''direct-'' profile
        \<and> \<not> (observed values ''nrfkit_power_stage'' 2 \<and> observed values ''nrfkit_power_packets'' 1000 \<and> observed values ''nrfkit_power_batches'' 1000)
      then Inl (DirectIncomplete profile)
      else if profile = ''timeslot-retry-4m''
        \<and> (\<not> (observed values ''accepted'' 64 \<and> observed values ''completed'' 64 \<and> observed values ''dropped'' 0)
            \<or> \<not> (8 \<le> retries \<and> retries \<le> 192) \<or> observed_or_zero values ''grants'' < 64)
      then Inl TimeslotNotConserved
      else if profile = ''ble'' \<and> \<not> observed values ''nrfkit_power_stage'' 1 then Inl BleNotAdvertising
      else if profile = ''ble-timeslot-4m''
        \<and> \<not> (observed values ''nrfkit_power_stage'' 2 \<and> observed values ''nrfkit_power_timeslot_grants'' 8 \<and> observed values ''nrfkit_power_timeslot_packets'' 8)
      then Inl BleTimeslotIncomplete
      else Inr ())"

subsection \<open>What an accepted plan is\<close>

lemma parse_profiles_names:
  "parse_profiles resolved profiles vs = Inr ps \<Longrightarrow> distinct (map fst profiles) \<Longrightarrow> list_all (\<lambda>(n, _). n \<noteq> [] \<and> list_all profile_char n) profiles \<Longrightarrow>
     distinct (map fst ps) \<and> list_all (\<lambda>(n, _). n \<noteq> [] \<and> list_all profile_char n) ps \<and> length ps = length profiles + length vs"
proof (induction vs arbitrary: profiles)
  case (Cons v vs)
  from Cons.prems(1) obtain name p where v: "name \<noteq> []" "name \<notin> fst ` set profiles" "list_all profile_char name"
    and rest: "parse_profiles resolved (profiles @ [(name, resolved p)]) vs = Inr ps"
    by (auto split: option.split_asm prod.split_asm if_split_asm)
  have ok: "distinct (map fst (profiles @ [(name, resolved p)]))" "list_all (\<lambda>(n, _). n \<noteq> [] \<and> list_all profile_char n) (profiles @ [(name, resolved p)])"
    using Cons.prems(2,3) v by simp_all
  from Cons.IH [OF rest ok] show ?case by simp
qed simp

lemma parse_durations_bounds:
  "parse_durations names seen durations vs = Inr ds \<Longrightarrow> list_all (\<lambda>(_, x). between_seconds x 1 600) durations \<Longrightarrow> names = fst ` set durations \<Longrightarrow>
     list_all (\<lambda>(_, x). between_seconds x 1 600) ds \<and> fst ` set ds = names"
proof (induction vs arbitrary: seen durations)
  case (Cons v vs)
  from Cons.prems(1) obtain name t x where v: "partition_eq v = Some (name, t)" "name \<in> names" "name \<notin> set seen" "py_float t = Some x" "between_seconds x 1 600"
    and rest: "parse_durations names (name # seen) (AList.update name x durations) vs = Inr ds"
    by (auto split: option.split_asm prod.split_asm if_split_asm)
  have bounded: "list_all (\<lambda>(_, x). between_seconds x 1 600) (AList.update name x durations)"
    using Cons.prems(2) v(5) by (induction durations) (auto split: if_splits)
  have keys: "names = fst ` set (AList.update name x durations)"
    using v(2) Cons.prems(3) by (simp add: dom_update insert_absorb)
  show ?case by (rule Cons.IH [OF rest bounded keys])
qed simp

text \<open>An accepted suite has well-formed names, no profile twice, a duration of 1 to 600 seconds for exactly its profiles, and peers only for these.\<close>

lemma plan_suite_sound:
  assumes "plan_suite resolved args = Inr p"
  shows "distinct (map fst (sp_profiles p)) \<and> length (sp_profiles p) = length (sa_profile args)
    \<and> list_all (\<lambda>(n, _). n \<noteq> [] \<and> list_all profile_char n) (sp_profiles p)
    \<and> list_all (\<lambda>(_, x). between_seconds x 1 600) (sp_durations p) \<and> fst ` set (sp_durations p) = fst ` set (sp_profiles p)
    \<and> fst ` set (sp_peers p) \<subseteq> fst ` set (sp_profiles p) \<and> 500 \<le> sa_voltage_mv args \<and> sa_voltage_mv args \<le> 5000"
proof -
  from assms obtain profiles durations peers where run: "parse_profiles resolved [] (sa_profile args) = Inr profiles" "between_seconds (sa_duration args) 1 600"
    "suite_durations (sa_profile_duration args) (map fst profiles) (sa_duration args) = Inr durations"
    "set (map fst peers) \<subseteq> set (map fst profiles)" "500 \<le> sa_voltage_mv args \<and> sa_voltage_mv args \<le> 5000"
    and p: "p = \<lparr>sp_profiles = profiles, sp_durations = durations, sp_peers = peers\<rparr>"
    unfolding plan_suite_def suite_profiles_def Let_def by (auto simp only: result_simps split: if_split_asm)
  have "list_all (\<lambda>(_, x). between_seconds x 1 600) (map (\<lambda>n. (n, sa_duration args)) (map fst profiles))"
    using run(2) by (simp add: list_all_iff)
  from parse_durations_bounds [OF run(3) [unfolded suite_durations_def] this] parse_profiles_names [OF run(1)] run(4,5)
  show ?thesis by (simp add: p image_image)
qed

end
