(* ===== verification/Ble.thy ===== *)
theory Ble
  imports Device "HOL-Library.Char_ord" "HOL-Library.List_Lexorder"
begin

section \<open>The GATT contract\<close>

text \<open>
  Models the parts of \<open>src/tools/nrfkit_tools/ble_validation.py\<close> that decide: the argument vectors of the monitors and \<open>audit_gatt_objects\<close>. What BlueZ manages is a list of
  object paths, each with its interfaces and their properties as strings; an absent property reads as the default. The sessions themselves live on D-Bus and are not modelled.
\<close>

datatype ble_error = TraceTimeout | InfoTimeout | ControllerIndex | GattIncomplete "string set" "string set"

definition GATT_SERVICE :: string where "GATT_SERVICE = ''org.bluez.GattService1''"
definition GATT_CHARACTERISTIC :: string where "GATT_CHARACTERISTIC = ''org.bluez.GattCharacteristic1''"
definition HID_SERVICE :: string where "HID_SERVICE = ''00001812-0000-1000-8000-00805f9b34fb''"
definition BATTERY_SERVICE :: string where "BATTERY_SERVICE = ''0000180f-0000-1000-8000-00805f9b34fb''"
definition BATTERY_LEVEL :: string where "BATTERY_LEVEL = ''00002a19-0000-1000-8000-00805f9b34fb''"

definition REQUIRED_HID_CHARACTERISTICS :: "string list" where
  "REQUIRED_HID_CHARACTERISTICS =
     [''00002a4a-0000-1000-8000-00805f9b34fb'', ''00002a4b-0000-1000-8000-00805f9b34fb'', ''00002a4c-0000-1000-8000-00805f9b34fb'',
      ''00002a4d-0000-1000-8000-00805f9b34fb'', ''00002a4e-0000-1000-8000-00805f9b34fb'']"

definition hci_monitor_argv :: "string \<Rightarrow> rat \<Rightarrow> ble_error + string list" where
  "hci_monitor_argv btmon timeout =
     (if timeout \<le> 0 then Inl TraceTimeout
      else Inr [''timeout'', ''--foreground'', ''--signal=INT'', ''--kill-after=2'', format_g timeout, btmon])"

definition bluetooth_info_argv :: "string \<Rightarrow> int \<Rightarrow> rat \<Rightarrow> ble_error + string list" where
  "bluetooth_info_argv btmgmt index timeout =
     (if timeout \<le> 0 then Inl InfoTimeout
      else if index < 0 then Inl ControllerIndex
      else Inr [''timeout'', ''--foreground'', ''--signal=TERM'', ''--kill-after=2'', format_g timeout, btmgmt, ''--index'', dec_int index, ''info''])"

type_synonym bluez_interfaces = "(string \<times> (string \<times> string) list) list"

text \<open>The UUIDs of one kind of object below a device, in lower case, by path.\<close>

definition gatt_uuids :: "string \<Rightarrow> string \<Rightarrow> (string \<times> bluez_interfaces) list \<Rightarrow> (string \<times> string) list" where
  "gatt_uuids kind device_path objects =
     List.map_filter (\<lambda>(p, interfaces).
       if prefix (device_path @ ''/'') p
       then map_option (\<lambda>properties. (p, lower (case map_of properties ''UUID'' of Some u \<Rightarrow> u | None \<Rightarrow> []))) (map_of interfaces kind)
       else None) objects"

record gatt_audit =
  ga_services :: "string list"
  ga_characteristics :: "string list"
  ga_paths :: "(string \<times> string) list"

definition required_services :: "bool \<Rightarrow> string set" where
  "required_services require_hid = insert BATTERY_SERVICE (if require_hid then {HID_SERVICE} else {})"

definition required_characteristics :: "bool \<Rightarrow> string set" where
  "required_characteristics require_hid = insert BATTERY_LEVEL (if require_hid then set REQUIRED_HID_CHARACTERISTICS else {})"

definition audit_gatt_objects :: "(string \<times> bluez_interfaces) list \<Rightarrow> string \<Rightarrow> bool \<Rightarrow> ble_error + gatt_audit" where
  "audit_gatt_objects objects device_path require_hid =
     (let services = gatt_uuids GATT_SERVICE device_path objects;
          characteristics = gatt_uuids GATT_CHARACTERISTIC device_path objects;
          missing_services = required_services require_hid - set (map snd services);
          missing_characteristics = required_characteristics require_hid - set (map snd characteristics) in
      if missing_services \<noteq> {} \<or> missing_characteristics \<noteq> {} then Inl (GattIncomplete missing_services missing_characteristics)
      else Inr \<lparr>ga_services = sort (remdups (map snd services)), ga_characteristics = sort (remdups (map snd characteristics)), ga_paths = characteristics\<rparr>)"

text \<open>An accepted device has every required service and characteristic below its own path, and the audit lists exactly what it has, sorted.\<close>

lemma audit_gatt_sound:
  assumes "audit_gatt_objects objects device_path require_hid = Inr a"
  shows "required_services require_hid \<subseteq> set (ga_services a) \<and> required_characteristics require_hid \<subseteq> set (ga_characteristics a)
    \<and> sorted (ga_services a) \<and> sorted (ga_characteristics a)
    \<and> list_all (\<lambda>(p, _). prefix (device_path @ ''/'') p \<and> p \<in> fst ` set objects) (ga_paths a)"
proof -
  have "list_all (\<lambda>(p, _). prefix (device_path @ ''/'') p \<and> p \<in> fst ` set objects) (gatt_uuids kind device_path objects)" for kind
    by (auto simp: gatt_uuids_def List.map_filter_def list_all_iff intro: rev_image_eqI split: if_splits)
  with assms show ?thesis by (auto simp: audit_gatt_objects_def Let_def split: if_splits)
qed

end
