(* ===== verification/Spec2Isabelle.thy ===== *)
theory Spec2Isabelle
  imports Hci_Correct Openocd_Correct Openocd_Restore Instruments_Correct Ppk2_Cli_Correct Blu939_Cli_Correct Bond_Clear_Correct Gates_Correct Ppk2_Audit_Correct Ppk2_Dump_Correct Power_Summary_Correct Power_Cli_Correct Reference_Correct Usb_Cli_Correct Power_Suite Ble
begin

section \<open>The host tools of nrfkit\<close>

text \<open>
  This library models the Python host tools under \<open>src/tools/nrfkit_tools\<close> and proves what makes them safe to point at real hardware. The tools audit
  firmware images, program and recover nRF54L targets through nrfutil and OpenOCD, talk to a Bluetooth controller over H4, drive two power instruments, and
  keep a JSON report of every run. The pieces meet in four places: an image manifest, produced by \<open>sdk.py\<close> or \<open>reference.py\<close> and audited by
  \<open>load_manifest\<close> in \<open>cli.py\<close> before any device is touched; the Intel HEX files that carry backups between commands; child processes launched by
  \<open>run_logged\<close>; and the report, which every command stores on every way out.

  \<^bold>\<open>How Python is modelled.\<close> Bytes are 8-bit words and integers are unbounded. \<open>Prelude\<close> has the result type \<open>'e + 'a\<close> (\<open>Inl\<close> an exception), UTF-8 and the text
  functions all parsers share; \<open>Pytext\<close> printing and \<open>int\<close>; \<open>Pyfloat\<close> IEEE doubles with their rounding, signed zeros, infinities and NaN, \<open>float(s)\<close> and \<open>repr\<close>; \<open>Json\<close> JSON values
  of unknown shape, where every access states the exception a wrong shape raises; \<open>Csv\<close> the state machine of \<open>csv.reader\<close>. \<open>Effects\<close> is the
  sequencing of calls that change state and may raise: what was written before an exception stays written. It has \<open>try\<close> with its three kinds of handler,
  \<open>for\<close> loops, and two proof tools: preservation of a preorder on states (locale \<open>state_order\<close>, interpreted for the launches of a host, the untouched outside world, the
  report of an audit and others) and triples with a postcondition per way of ending. A loop without a bound in the code takes the answers
  of the world as a list, one per iteration, and ends when the list does, which is the deadline; so no definition needs fuel and every function is total.

  \<^bold>\<open>What a theorem never assumes.\<close> A child process (\<open>'h child\<close>) maps the outside world, the files and its arguments to anything; the same holds for
  what a serial port answers, for the JSON codec, SHA-256, the clock, path resolution, locks and the rendering of exceptions. They are arguments of the
  definitions. Where a theorem needs something of one of them, that is a hypothesis of the theorem, with a witness that it can hold.

  \<^bold>\<open>Theories and sources.\<close>
  \<^item> \<open>Hci\<close>: \<open>hci.py\<close> (packet decoders, \<open>H4Parser\<close>, \<open>HciSession\<close>). \<open>Stream_Parser\<close> is the interface of an incremental parser (a locale); \<open>Hci_Correct\<close>
    interprets it for \<open>feed\<close> and shows that chunk boundaries matter neither for the events nor for the parser's state, and which events a failing run has delivered (C1), that feeding inverts encoding (C2), that no byte is lost (C3), that a command
    returns only its own successful completion (C4) and does return it when it arrives in time (C5), and the decoding of advertising reports and names (C6, C7).
  \<^item> \<open>Image\<close>, \<open>Ranges\<close>, \<open>Image_Correct\<close>: \<open>image.py\<close>. Ranges are a normal form of address sets (locale \<open>range_normaliser\<close>, interpreted for the merging of \<open>sdk.py\<close> and of \<open>openocd_cli.py\<close>); the HEX parser yields exactly the addresses stored (C8), the guard admits
    exactly what lies in the allowlist and outside the forbidden regions (C9), ELF ranges and symbols are as specified (C10, C11), and struct errors
    escape from exactly one place (C12, C13).
  \<^item> \<open>Bond\<close>: \<open>bond.py\<close>. The erased settings image reads back as erased (C14), and the second HEX reader agrees with the parser (C15). \<open>Ihex_Writer\<close> is the interface of a
    printer of HEX records (a locale), interpreted for this module and for \<open>openocd.py\<close>.
  \<^item> \<open>Process\<close>, \<open>Device\<close>, \<open>Run_Report\<close>: \<open>process.py\<close>, \<open>device.py\<close>, and the state of a command (host and report).
  \<^item> \<open>Openocd\<close>, \<open>Openocd_Correct\<close>: \<open>openocd.py\<close>. Backups, observation paths, identities and quoted words round-trip (C16 to C19); a run returns only after one successful child
    behind the identity guard (C20).
  \<^item> \<open>Sdk\<close>, \<open>Sdk_Correct\<close>: \<open>sdk.py\<close>. Merging is canonical (C21), layouts are disjoint (C22), and a device manifest certifies only what holds of the files it
    names, their digests, ranges, entry and symbols included (C23).
  \<^item> \<open>Manifest\<close>, \<open>Manifest_Correct\<close>: \<open>load_manifest\<close> and \<open>_snapshot_hexes\<close> of \<open>cli.py\<close>. A loaded manifest describes its files (C24), everything the SDK writes is accepted (C25), and
    what is programmed is what was audited (C26).
  \<^item> \<open>Openocd_Cli\<close>, \<open>Openocd_Cli_Correct\<close>, \<open>Openocd_Restore\<close>: \<open>openocd_cli.py\<close>. Backups cover every requested byte (C27), clearing follows a published backup of the whole memory (C28),
    restoring writes only verified snapshots to the target they came from (C29).
  \<^item> \<open>Serial_Port\<close>, \<open>Sampling\<close>, \<open>Ppk2\<close>, \<open>Blu939\<close>, \<open>Instruments_Correct\<close>: \<open>ppk2.py\<close> and \<open>blu939.py\<close>. Both decoders are interpretations of one decoder contract: every field of a
    summary is that of the samples (C30, C31), and the counters of a PPK2 capture continue modulo 64 (C30), so a loss of a multiple of 64 samples is not excluded. A port remembers each command with
    whether its write was complete.
  \<^item> \<open>Power_Run\<close>, \<open>Ppk2_Cli\<close>, \<open>Blu939_Cli\<close> and their proofs: \<open>ppk2_cli.py\<close> and \<open>blu939_cli.py\<close>. \<open>Power_Discipline\<close> is the interface of an instrument (a locale): the output is not switched
    on before the voltage was written completely, and it is left on only when the last switch-off could not be written (C32) or, for the BLU939, when a response kept before it could
    not be stored (C33). A command whose write failed counts as one that may or may not have arrived.
  \<^item> \<open>Device_Cli\<close>, \<open>Bond_Clear\<close>, \<open>Probe_Msd\<close>, \<open>Gates\<close> and their proofs: the device commands, \<open>m6-bond-clear\<close>, \<open>probe msd\<close>, and the P0 and M2 gates of \<open>cli.py\<close>. The clean-up record of a bond
    clear is true of the device (C34); the M2 gate refines an abstract plan of runs followed by the restoring run (C35).
  \<^item> \<open>Ppk2_Eeprom\<close>, \<open>Ppk2_Eeprom_Cli\<close>, \<open>Ppk2_Audit_Correct\<close>, \<open>Ppk2_Dump_Correct\<close>: \<open>ppk2_eeprom.py\<close> and \<open>ppk2_eeprom_cli.py\<close>. The audit is a transaction on the instrument's firmware whose report has what two
    consecutive passes over the memory both read (C36), and its reader
    inverts the printed dump (C37).
  \<^item> \<open>Power_Summary\<close>, \<open>Power_Cli\<close> and their proofs: \<open>power.py\<close>, \<open>_envelope\<close> of \<open>power_report.py\<close>, \<open>power_cli.py\<close>. An accepted capture is what its summary says, its average included (C38), and the audit's report is true
    however it ends (C39).
  \<^item> \<open>Reference\<close>, \<open>Reference_Build\<close>, \<open>Reference_Correct\<close>: \<open>reference.py\<close>. Every manifest of a reference build is accepted by the loader (C40); a receipt just written is current, and the status
    of a build's report is ok exactly when the build returns.
  \<^item> \<open>Usb\<close>, \<open>Usb_Correct\<close>: \<open>usb_validation.py\<close>. Every call on PyUSB and sysfs is recorded. After a successful claim the detached kernel drivers are attached again whatever the work did; the
    power attributes are written back last; an accepted transfer run has counted every byte. A failing claim leaves drivers detached, and a wrapped counter is refused: both are shown.
    \<open>Usb_Cli\<close> and \<open>Usb_Cli_Correct\<close> are the commands of \<open>cli.py\<close> around them (\<open>m4-usb-gate\<close>, \<open>consumer-usb-smoke\<close>, \<open>m4-usb-power\<close>) and around the builds (\<open>prepare\<close>, \<open>build\<close>, \<open>inspect\<close>,
    \<open>sdk-manifest\<close>): the M4 gate's report is ok exactly when it returns, and then its transfers were counted.
  \<^item> \<open>Power_Suite\<close>, \<open>Ble\<close>: the deciding parts of \<open>power_suite_cli.py\<close> (profiles, durations, the plan, children, workload checks) and \<open>ble_validation.py\<close> (argument vectors, the GATT
    contract), each with what acceptance guarantees.

  \<^bold>\<open>Bounds.\<close> The model has no fuel. The lists of answers (looks at a port, ticks of a wait, results of writes) are of any length, so a theorem about them covers every deadline.
  Text is a list of characters below 256, or of code points where the code reads a file whose characters it inspects (symbol names, EEPROM shells, CSV, build metadata). A report
  shows a negative zero as zero, except in the power audit, where every float that is not a rational is a parameter of the report.

  \<^bold>\<open>Not modelled.\<close> Durations, and signals sent to a process group that timed out; a program that cannot be started at all or whose output cannot be decoded; how an instrument reads on after a part of a command; the working directory and environment of a
  child; concurrent runs of the tools (a lock is taken or refused). The argparse declarations and \<open>main\<close>. Of \<open>cli.py\<close>, the commands that only compose modelled calls with threads, select loops and
  several children at once (\<open>run\<close>, \<open>gdb-smoke\<close>, the M5 to M7 gates, \<open>m6-sdc-oracle\<close>) and the informational ones (\<open>doctor\<close>, \<open>device list\<close>). The sessions of \<open>ble_validation.py\<close>: BlueZ over D-Bus,
  GLib threads and an agent object, whose behaviour is that of services outside the repository. The command of \<open>power_suite_cli.py\<close>: a composition of
  the BLU939, OpenOCD and device commands with a concurrently running peer process. The HTML document of \<open>power_report.py\<close> and \<open>power_report_cli.py\<close>.
\<close>

end
